(* ===== verification/Prelude.thy ===== *)
theory Prelude
  imports Main "HOL-Library.Sublist"
begin

text \<open>
  Shared vocabulary of the development.

  Python strings are lists of code points below 256 (\<open>string\<close>); dictionaries whose order or
  contents are observed are association lists in insertion order (\<open>'k pydict\<close> below); an
  operation that may raise returns \<open>'e + 'a\<close>, with \<open>Inl\<close> for the exception; an operation
  that may raise after having changed its object returns the outcome together with the new
  state, because a Python exception does not undo assignments already made.
\<close>

named_theorems step_defs \<open>definitions of the single steps of a component\<close>
named_theorems inv_intros \<open>preservation rules of component invariants\<close>

section \<open>Text\<close>

text \<open>\<open>str.isspace\<close> on the code points below 256, the characters \<open>str.strip\<close> and
  \<open>str.split\<close> treat as white space.\<close>

definition is_space :: "char \<Rightarrow> bool" where
  "is_space c \<longleftrightarrow>
     (let n = (of_char c :: nat)
      in (9 \<le> n \<and> n \<le> 13) \<or> (28 \<le> n \<and> n \<le> 32) \<or> n = 133 \<or> n = 160)"

definition strip :: "string \<Rightarrow> string" where
  "strip s = rev (dropWhile is_space (rev (dropWhile is_space s)))"

definition blank :: "string \<Rightarrow> bool" where
  "blank s \<longleftrightarrow> list_all is_space s"

text \<open>\<open>not (x or "").strip()\<close>\<close>

definition blank_opt :: "string option \<Rightarrow> bool" where
  "blank_opt x = (case x of None \<Rightarrow> True | Some s \<Rightarrow> blank s)"

lemma strip_Nil_iff [simp]: "strip s = [] \<longleftrightarrow> blank s"
  by (auto simp: strip_def blank_def list_all_iff dropWhile_eq_Nil_conv
           dest: set_dropWhileD)
     (metis dropWhile_eq_Nil_conv hd_dropWhile list.set_sel(1))

lemma blank_Nil [simp]: "blank []"
  by (simp add: blank_def)

lemma dropWhile_rev_dropWhile:
  "dropWhile P (rev (dropWhile P (rev (dropWhile P xs)))) =
   rev (dropWhile P (rev (dropWhile P xs)))"
proof (cases "dropWhile P xs")
  case Nil
  then show ?thesis by (simp only: rev.simps dropWhile.simps)
next
  case (Cons y ys)
  then have y: "\<not> P y"
    by (metis hd_dropWhile list.distinct(1) list.sel(1))
  have "\<exists>zs. rev (dropWhile P (rev (y # ys))) = y # zs"
    using y by (auto simp: dropWhile_append) (metis rev_rev_ident)
  then show ?thesis using Cons y by auto
qed

lemma strip_idem [simp]: "strip (strip s) = strip s"
  by (simp add: strip_def dropWhile_rev_dropWhile)

lemma blank_strip [simp]: "blank (strip s) = blank s"
  using strip_Nil_iff [of "strip s"] by simp

text \<open>\<open>str.split()\<close> without a separator: the maximal runs of other characters.\<close>

fun split_ws_aux :: "string \<Rightarrow> string \<Rightarrow> string list" where
  "split_ws_aux acc [] = (if acc = [] then [] else [rev acc])"
| "split_ws_aux acc (c # cs) =
     (if is_space c
      then (if acc = [] then split_ws_aux [] cs else rev acc # split_ws_aux [] cs)
      else split_ws_aux (c # acc) cs)"

definition split_ws :: "string \<Rightarrow> string list" where
  "split_ws s = split_ws_aux [] s"

text \<open>\<open>sep.join(parts)\<close>\<close>

fun join :: "string \<Rightarrow> string list \<Rightarrow> string" where
  "join sep [] = []"
| "join sep [x] = x"
| "join sep (x # y # ys) = x @ sep @ join sep (y # ys)"

text \<open>\<open>str.split(sep)\<close> on a single character: always at least one part.\<close>

fun split_on :: "char \<Rightarrow> string \<Rightarrow> string list" where
  "split_on d [] = [[]]"
| "split_on d (c # cs) =
     (if c = d then [] # split_on d cs
      else (case split_on d cs of [] \<Rightarrow> [[c]] | p # ps \<Rightarrow> (c # p) # ps))"

text \<open>\<open>str(n)\<close> for integers.\<close>

definition digit_char :: "nat \<Rightarrow> char" where
  "digit_char d = char_of (48 + d)"

fun show_nat :: "nat \<Rightarrow> string" where
  "show_nat n = (if n < 10 then [digit_char n] else show_nat (n div 10) @ [digit_char (n mod 10)])"

declare show_nat.simps [simp del]

definition show_int :: "int \<Rightarrow> string" where
  "show_int i = (if i < 0 then CHR ''-'' # show_nat (nat (- i)) else show_nat (nat i))"

section \<open>Dictionaries in insertion order\<close>

type_synonym 'v pydict = "(string \<times> 'v) list"

text \<open>\<open>d[k] = v\<close>: in place when the key is there, at the end otherwise.\<close>

fun dset :: "'k \<Rightarrow> 'v \<Rightarrow> ('k \<times> 'v) list \<Rightarrow> ('k \<times> 'v) list" where
  "dset k v [] = [(k, v)]"
| "dset k v ((k', v') # xs) = (if k = k' then (k, v) # xs else (k', v') # dset k v xs)"

text \<open>\<open>d.update(new)\<close>\<close>

definition dupdate :: "('k \<times> 'v) list \<Rightarrow> ('k \<times> 'v) list \<Rightarrow> ('k \<times> 'v) list" where
  "dupdate d new = foldl (\<lambda>acc (k, v). dset k v acc) d new"

text \<open>\<open>d.pop(k, None)\<close>\<close>

definition dpop :: "'k \<Rightarrow> ('k \<times> 'v) list \<Rightarrow> ('k \<times> 'v) list" where
  "dpop k xs = filter (\<lambda>(k', _). k' \<noteq> k) xs"

lemma map_of_dset [simp]: "map_of (dset k v xs) = (map_of xs)(k \<mapsto> v)"
  by (induction xs) (auto simp: fun_eq_iff)

lemma keys_dset [simp]: "fst ` set (dset k v xs) = insert k (fst ` set xs)"
proof (induction xs)
  case (Cons x xs)
  then show ?case by (cases x) auto
qed simp

lemma dset_entries: "set (dset k v d) \<subseteq> insert (k, v) (set d)"
proof (induction d)
  case (Cons e d)
  then show ?case by (cases e) (auto split: if_splits)
qed simp

lemma dset_set: "distinct (map fst d) \<Longrightarrow> set (dset k v d) = insert (k, v) {x \<in> set d. fst x \<noteq> k}"
proof (induction d)
  case (Cons x d)
  then show ?case by (cases "k = fst x"; cases x) (auto simp: image_iff)
qed simp

lemma distinct_dset [simp]: "distinct (map fst xs) \<Longrightarrow> distinct (map fst (dset k v xs))"
proof (induction xs)
  case (Cons x xs)
  obtain k' v' where x: "x = (k', v')" by (cases x)
  have "k' \<noteq> k \<Longrightarrow> k' \<notin> fst ` set (dset k v xs)"
    using Cons.prems x by simp
  with Cons x show ?case by (auto simp: image_iff)
qed simp

lemma map_of_dpop [simp]: "map_of (dpop k xs) = (map_of xs)(k := None)"
  by (induction xs) (auto simp: dpop_def fun_eq_iff)

lemma distinct_dpop [simp]: "distinct (map fst xs) \<Longrightarrow> distinct (map fst (dpop k xs))"
  by (induction xs) (auto simp: dpop_def)

section \<open>Lists\<close>

lemma find_Some_set: "find P xs = Some x \<Longrightarrow> x \<in> set xs \<and> P x"
  by (induction xs) (auto split: if_splits)

lemma find_None_iff2: "find P xs = None \<longleftrightarrow> (\<forall>x\<in>set xs. \<not> P x)"
  by (auto simp: find_None_iff)

text \<open>\<open>max(xs, key=rank)\<close>: the first element of the greatest rank.\<close>

fun max_by :: "('a \<Rightarrow> nat) \<Rightarrow> 'a \<Rightarrow> 'a list \<Rightarrow> 'a" where
  "max_by r b [] = b"
| "max_by r b (x # xs) = max_by r (if r b < r x then x else b) xs"

lemma max_by_in: "max_by r b xs \<in> insert b (set xs)"
proof (induction xs arbitrary: b)
  case (Cons x xs)
  show ?case using Cons.IH [of x] Cons.IH [of b] by auto
qed simp

lemma max_by_ge: "x \<in> insert b (set xs) \<Longrightarrow> r x \<le> r (max_by r b xs)"
proof (induction xs arbitrary: b x)
  case (Cons y ys)
  have b: "\<And>c. r c \<le> r (max_by r c ys)"
    and ys: "\<And>c z. z \<in> set ys \<Longrightarrow> r z \<le> r (max_by r c ys)"
    using Cons.IH by auto
  consider "x = b" | "x = y" | "x \<in> set ys" using Cons.prems by auto
  then show ?case
  proof cases
    case 1
    then show ?thesis using b [of b] b [of y] by auto
  next
    case 2
    then show ?thesis using b [of b] b [of y] by auto
  next
    case 3
    then show ?thesis using ys by auto
  qed
qed simp

end
