(* ===== verification/Sequence.thy ===== *)
theory Sequence
  imports Prelude
begin

text \<open>
  The safe restart sequence of \<^verbatim>\<open>src/tms/ops/sequence.py\<close>: the eight states, the object
  \<open>RestartSequence\<close> and its transitions, and the append-only progress log.

  The texts the code formats into the log and into its exceptions are constructors that
  carry the values formatted in; every operation takes the reading of the clock as its first
  argument. An operation that raises leaves the object unchanged in the code, so its result
  is \<open>Inl\<close> the exception or \<open>Inr\<close> the new object.
\<close>

section \<open>States, labels and the log\<close>

datatype seq_state =
  PENDING | DRAINING | DRAINED | RESTARTING | VERIFYING | COMPLETED | ABORTING | ABORTED

definition TERMINAL :: "seq_state list" where
  "TERMINAL = [COMPLETED, ABORTED]"

definition TRAFFIC_STOPPED :: "seq_state list" where
  "TRAFFIC_STOPPED = [DRAINING, DRAINED, RESTARTING, VERIFYING, ABORTING]"

definition STEP_ORDER :: "seq_state list" where
  "STEP_ORDER = [PENDING, DRAINING, DRAINED, RESTARTING, VERIFYING, COMPLETED]"

definition LEVEL_INFO :: string where "LEVEL_INFO = ''info''"
definition LEVEL_WARN :: string where "LEVEL_WARN = ''warn''"
definition LEVEL_ERROR :: string where "LEVEL_ERROR = ''error''"
definition LEVEL_OUTPUT :: string where "LEVEL_OUTPUT = ''output''"

definition ALLOWED_LEVELS :: "string list" where
  "ALLOWED_LEVELS = [LEVEL_INFO, LEVEL_WARN, LEVEL_ERROR, LEVEL_OUTPUT]"

lemmas level_defs = LEVEL_INFO_def LEVEL_WARN_def LEVEL_ERROR_def LEVEL_OUTPUT_def
  ALLOWED_LEVELS_def

fun CHECKLIST_LABELS :: "seq_state \<Rightarrow> string option" where
  "CHECKLIST_LABELS PENDING = Some ''Stop new queries reaching it, in the Gateway''"
| "CHECKLIST_LABELS DRAINING = Some ''Wait for every running query to finish''"
| "CHECKLIST_LABELS DRAINED = Some ''Confirm the cluster is empty''"
| "CHECKLIST_LABELS RESTARTING = Some ''Restart it''"
| "CHECKLIST_LABELS VERIFYING = Some ''Verify health is GOOD''"
| "CHECKLIST_LABELS COMPLETED = Some ''Put it back in rotation''"
| "CHECKLIST_LABELS _ = None"

text \<open>\<open>checklist()\<close>: (state, label, number) in the order of the procedure.\<close>

definition checklist :: "(seq_state \<times> string option \<times> nat) list" where
  "checklist = map (\<lambda>(i, s). (s, CHECKLIST_LABELS s, i + 1)) (enumerate 0 STEP_ORDER)"

datatype seq_message =
    MsgBlocking string          \<comment> \<open>Blocking new queries to {} in the Gateway.\<close>
  | MsgEmpty string             \<comment> \<open>All running queries have finished. {} is empty.\<close>
  | MsgWaiting int              \<comment> \<open>Waiting for {} running queries to finish.\<close>
  | MsgText string              \<comment> \<open>a text handed in verbatim: a note, a detail, an output line\<close>
  | MsgConfirmed string         \<comment> \<open>Confirmed: no queries are running on {}.\<close>
  | MsgForced int string        \<comment> \<open>FORCED past the drain with {} queries still running ... Reason: {}\<close>
  | MsgBringingDown string      \<comment> \<open>Bringing {} down and back up.\<close>
  | MsgRestarted string         \<comment> \<open>{} restarted. Checking health before restoring traffic.\<close>
  | MsgHealthGood               \<comment> \<open>Health is GOOD.\<close>
  | MsgBack string              \<comment> \<open>{} is back in rotation. Traffic restored.\<close>
  | MsgAborting string          \<comment> \<open>Aborting. Restoring traffic to {} before stopping.\<close>
  | MsgAborted string           \<comment> \<open>Aborted. {} is back in rotation.\<close>
  | MsgCannotStop string        \<comment> \<open>Could not stop traffic: {}\<close>
  | MsgOperator string          \<comment> \<open>TMS is NOT restarting {} ... restart it yourself now\<close>
  | MsgPlaybookRunning          \<comment> \<open>Running the restart playbook.\<close>
  | MsgPlaybookDone             \<comment> \<open>Playbook finished successfully.\<close>
  | MsgPlaybookFailed string string \<comment> \<open>The restart playbook failed: detail. cluster is drained ...\<close>
  | MsgLostSight string         \<comment> \<open>TMS lost sight of the restart of {} ...\<close>
  | MsgCannotRestore string string  \<comment> \<open>Could not restore traffic: error. cluster is still receiving no queries ...\<close>

type_synonym timestamp = string

record seq_event =
  ev_at :: timestamp
  ev_state :: seq_state
  ev_level :: string
  ev_message :: seq_message

datatype seq_fault =
    ReasonMissing
  | UnknownLevel string
  | NotFrom seq_state "seq_state list"     \<comment> \<open>cannot do that from {} (expected {})\<close>
  | NoObservation
  | StillRunning int
  | WouldNotStart string string
  | HealthNotGood "string option"
  | ForceReasonMissing
  | AlreadyFinished

text \<open>\<open>StepBlocked\<close> is a subclass of \<open>SequenceError\<close>; the service catches both.\<close>

datatype seq_exn = SequenceError seq_fault | StepBlocked seq_fault

section \<open>The object\<close>

record restart_sequence =
  cluster :: string
  reason :: string
  actor :: string
  state :: seq_state
  history :: "seq_event list"
  drain_timeout_seconds :: nat
  running_queries :: "int option"
  health_state :: "string option"
  config_store_ready :: "bool option"
  config_store_detail :: string

definition new_sequence :: "string \<Rightarrow> string option \<Rightarrow> string \<Rightarrow> seq_exn + restart_sequence" where
  "new_sequence c r a =
     (if blank_opt r then Inl (SequenceError ReasonMissing)
      else Inr \<lparr>cluster = c, reason = strip (the r), actor = a, state = PENDING, history = [],
                drain_timeout_seconds = 900, running_queries = None, health_state = None,
                config_store_ready = None, config_store_detail = []\<rparr>)"

definition log_line ::
    "timestamp \<Rightarrow> seq_message \<Rightarrow> string \<Rightarrow> restart_sequence \<Rightarrow> seq_exn + restart_sequence" where
  "log_line t msg level s =
     (if level \<notin> set ALLOWED_LEVELS then Inl (SequenceError (UnknownLevel level))
      else Inr (s\<lparr>history := history s @
             [\<lparr>ev_at = t, ev_state = state s, ev_level = level, ev_message = msg\<rparr>]\<rparr>))"

text \<open>\<open>_record(step, note)\<close> with a non-empty note: the state is set first, so the line carries
  the new state.\<close>

definition record_step ::
    "timestamp \<Rightarrow> seq_state \<Rightarrow> seq_message \<Rightarrow> restart_sequence \<Rightarrow> seq_exn + restart_sequence" where
  "record_step t st msg s = log_line t msg LEVEL_INFO (s\<lparr>state := st\<rparr>)"

text \<open>\<open>self.history[-1]["level"] = level\<close>\<close>

definition relevel_last :: "string \<Rightarrow> restart_sequence \<Rightarrow> restart_sequence" where
  "relevel_last level s =
     s\<lparr>history := butlast (history s) @ [(last (history s))\<lparr>ev_level := level\<rparr>]\<rparr>"

definition require_state ::
    "seq_state list \<Rightarrow> restart_sequence \<Rightarrow> (restart_sequence \<Rightarrow> seq_exn + restart_sequence)
       \<Rightarrow> seq_exn + restart_sequence" where
  "require_state allowed s k =
     (if state s \<notin> set allowed then Inl (SequenceError (NotFrom (state s) allowed)) else k s)"

definition traffic_stopped :: "restart_sequence \<Rightarrow> bool" where
  "traffic_stopped s \<longleftrightarrow> state s \<in> set TRAFFIC_STOPPED"

definition is_terminal :: "restart_sequence \<Rightarrow> bool" where
  "is_terminal s \<longleftrightarrow> state s \<in> set TERMINAL"

definition needs_operator_action :: "restart_sequence \<Rightarrow> bool" where
  "needs_operator_action s \<longleftrightarrow> state s \<in> {DRAINED, RESTARTING}"

section \<open>Transitions\<close>

definition begin_seq :: "timestamp \<Rightarrow> restart_sequence \<Rightarrow> seq_exn + restart_sequence" where
  "begin_seq t s = require_state [PENDING] s (record_step t DRAINING (MsgBlocking (cluster s)))"

definition observe ::
    "timestamp \<Rightarrow> int \<Rightarrow> string option \<Rightarrow> restart_sequence \<Rightarrow> seq_exn + restart_sequence" where
  "observe t n h s =
     (let previous = running_queries s;
          s1 = s\<lparr>running_queries := Some n\<rparr>;
          s2 = (if h \<noteq> None then s1\<lparr>health_state := h\<rparr> else s1)
      in if state s2 = DRAINING \<and> n = 0
         then record_step t DRAINED (MsgEmpty (cluster s2)) s2
         else if state s2 = DRAINING \<and> n > 0 \<and> Some n \<noteq> previous
         then log_line t (MsgWaiting n) LEVEL_INFO s2
         else Inr s2)"

definition observe_config_store ::
    "timestamp \<Rightarrow> bool option \<Rightarrow> string \<Rightarrow> restart_sequence \<Rightarrow> seq_exn + restart_sequence" where
  "observe_config_store t ready detail s =
     (let previous = config_store_ready s;
          s1 = s\<lparr>config_store_ready := ready, config_store_detail := detail\<rparr>
      in if detail \<noteq> [] \<and> ready \<noteq> None \<and> ready \<noteq> previous
         then log_line t (MsgText detail) (if ready = Some False then LEVEL_WARN else LEVEL_INFO) s1
         else Inr s1)"

definition confirm_drained :: "timestamp \<Rightarrow> restart_sequence \<Rightarrow> seq_exn + restart_sequence" where
  "confirm_drained t s = require_state [DRAINING, DRAINED] s (\<lambda>s.
     case running_queries s of
       None \<Rightarrow> Inl (StepBlocked NoObservation)
     | Some n \<Rightarrow>
         (if n > 0 then Inl (StepBlocked (StillRunning n))
          else record_step t DRAINED (MsgConfirmed (cluster s)) s))"

definition force_drained ::
    "timestamp \<Rightarrow> string option \<Rightarrow> restart_sequence \<Rightarrow> seq_exn + restart_sequence" where
  "force_drained t override_reason s = require_state [DRAINING, DRAINED] s (\<lambda>s.
     if blank_opt override_reason then Inl (SequenceError ForceReasonMissing)
     else
       (let killed = (case running_queries s of None \<Rightarrow> 0 | Some n \<Rightarrow> n)
        in case record_step t DRAINED (MsgForced killed (strip (the override_reason))) s of
             Inl e \<Rightarrow> Inl e
           | Inr s' \<Rightarrow> Inr (relevel_last LEVEL_WARN s')))"

definition mark_restarting :: "timestamp \<Rightarrow> restart_sequence \<Rightarrow> seq_exn + restart_sequence" where
  "mark_restarting t s = require_state [DRAINED] s (\<lambda>s.
     if config_store_ready s = Some False
     then Inl (StepBlocked (WouldNotStart (cluster s) (config_store_detail s)))
     else record_step t RESTARTING (MsgBringingDown (cluster s)) s)"

definition mark_restarted :: "timestamp \<Rightarrow> restart_sequence \<Rightarrow> seq_exn + restart_sequence" where
  "mark_restarted t s =
     require_state [RESTARTING] s (record_step t VERIFYING (MsgRestarted (cluster s)))"

definition confirm_healthy :: "timestamp \<Rightarrow> restart_sequence \<Rightarrow> seq_exn + restart_sequence" where
  "confirm_healthy t s = require_state [VERIFYING] s (\<lambda>s.
     if health_state s \<noteq> Some ''GOOD'' then Inl (StepBlocked (HealthNotGood (health_state s)))
     else log_line t MsgHealthGood LEVEL_INFO s)"

definition complete_seq :: "timestamp \<Rightarrow> restart_sequence \<Rightarrow> seq_exn + restart_sequence" where
  "complete_seq t s = require_state [VERIFYING] s (\<lambda>s.
     if health_state s \<noteq> Some ''GOOD'' then Inl (StepBlocked (HealthNotGood (health_state s)))
     else record_step t COMPLETED (MsgBack (cluster s)) s)"

definition begin_abort ::
    "timestamp \<Rightarrow> string \<Rightarrow> restart_sequence \<Rightarrow> seq_exn + restart_sequence" where
  "begin_abort t note s =
     (if is_terminal s then Inl (SequenceError AlreadyFinished)
      else case record_step t ABORTING
                  (if note \<noteq> [] then MsgText note else MsgAborting (cluster s)) s of
             Inl e \<Rightarrow> Inl e
           | Inr s' \<Rightarrow> Inr (relevel_last LEVEL_WARN s'))"

definition finish_abort :: "timestamp \<Rightarrow> restart_sequence \<Rightarrow> seq_exn + restart_sequence" where
  "finish_abort t s =
     require_state [ABORTING] s (record_step t ABORTED (MsgAborted (cluster s)))"

section \<open>The checklist view\<close>

text \<open>\<open>STEP_ORDER.index(self.state) if self.state in STEP_ORDER else None\<close>\<close>

fun index_of :: "'a \<Rightarrow> 'a list \<Rightarrow> nat option" where
  "index_of x [] = None"
| "index_of x (y # ys) = (if x = y then Some 0 else map_option Suc (index_of x ys))"

datatype step_status = Aborted_status | Done | Current | Pending_status

definition step_status_of :: "seq_state \<Rightarrow> nat \<Rightarrow> step_status" where
  "step_status_of st index =
     (if st = ABORTING \<or> st = ABORTED then Aborted_status
      else if st = COMPLETED then Done
      else case index_of st STEP_ORDER of
             None \<Rightarrow> Pending_status
           | Some current \<Rightarrow>
               (if index < current then Done
                else if index = current then Current else Pending_status))"

definition steps :: "restart_sequence \<Rightarrow> (seq_state \<times> string option \<times> step_status) list" where
  "steps s = map (\<lambda>(i, st). (st, CHECKLIST_LABELS st, step_status_of (state s) i))
                 (enumerate 0 STEP_ORDER)"

end
