(* ===== verification/Machines.thy ===== *)
theory Machines
  imports Prelude
begin

text \<open>
  Interfaces shared by the stateful components. A component is a state type with operations
  that either raise (and leave the state alone) or return the new state; \<open>run_all\<close> drives it
  through a list of calls whose exceptions are caught by the caller. The locales state what a
  component promises of its operations, and hold the consequences for whole runs.
\<close>

fun run_all :: "('op \<Rightarrow> 's \<Rightarrow> 'e + 's) \<Rightarrow> 'op list \<Rightarrow> 's \<Rightarrow> 's" where
  "run_all f [] s = s"
| "run_all f (x # xs) s = run_all f xs (case f x s of Inl _ \<Rightarrow> s | Inr s' \<Rightarrow> s')"

lemma run_all_append: "run_all f (xs @ ys) s = run_all f ys (run_all f xs s)"
  by (induction xs arbitrary: s) auto

lemma run_all_snoc:
  "run_all f (xs @ [x]) s =
     (case f x (run_all f xs s) of Inl _ \<Rightarrow> run_all f xs s | Inr s' \<Rightarrow> s')"
  by (simp add: run_all_append)

lemma run_all_inv:
  assumes "I s" and "\<And>x s s'. I s \<Longrightarrow> f x s = Inr s' \<Longrightarrow> I s'"
  shows "I (run_all f xs s)"
  using assms(1)
proof (induction xs arbitrary: s)
  case (Cons x xs)
  then show ?case using assms(2) by (auto split: sum.split)
qed simp

text \<open>The call that first makes \<open>P\<close> true.\<close>

lemma run_all_entry:
  assumes "P (run_all f xs s)" and "\<not> P s"
  shows "\<exists>pre x post s'. xs = pre @ x # post \<and> \<not> P (run_all f pre s) \<and>
           f x (run_all f pre s) = Inr s' \<and> P s'"
  using assms(1)
proof (induction xs rule: rev_induct)
  case Nil
  then show ?case using assms(2) by simp
next
  case (snoc x xs)
  show ?case
  proof (cases "P (run_all f xs s)")
    case True
    then obtain pre y post s' where "xs = pre @ y # post" "\<not> P (run_all f pre s)"
      "f y (run_all f pre s) = Inr s'" "P s'"
      using snoc.IH by blast
    then show ?thesis by (intro exI [of _ pre] exI [of _ y] exI [of _ "post @ [x]"]) auto
  next
    case False
    then show ?thesis using snoc.prems
      by (intro exI [of _ xs] exI [of _ x] exI [of _ "[]"])
         (auto simp: run_all_snoc split: sum.splits)
  qed
qed

text \<open>A component whose control state moves along the edges of a diagram.\<close>

locale diagram =
  fixes step :: "'op \<Rightarrow> 's \<Rightarrow> 'e + 's"
    and control :: "'s \<Rightarrow> 'q"
    and edge :: "'q \<Rightarrow> 'q \<Rightarrow> bool"
    and final :: "'q \<Rightarrow> bool"
  assumes step_edge: "step x s = Inr s' \<Longrightarrow> control s' = control s \<or> edge (control s) (control s')"
    and final_stuck: "final q \<Longrightarrow> \<not> edge q q'"
begin

lemma run_edges: "edge\<^sup>*\<^sup>* (control s) (control (run_all step xs s))"
proof (induction xs arbitrary: s)
  case (Cons x xs)
  show ?case
  proof (cases "step x s")
    case (Inl e)
    then show ?thesis using Cons by simp
  next
    case (Inr s')
    have "edge\<^sup>*\<^sup>* (control s) (control s')"
      using step_edge [OF Inr] by auto
    then show ?thesis using Cons [of s'] Inr by simp
  qed
qed simp

lemma final_absorbing: "final (control s) \<Longrightarrow> control (run_all step xs s) = control s"
proof (induction xs arbitrary: s)
  case (Cons x xs)
  show ?case
  proof (cases "step x s")
    case (Inl e)
    then show ?thesis using Cons by simp
  next
    case (Inr s')
    then have "control s' = control s"
      using step_edge [OF Inr] final_stuck [OF Cons.prems] by auto
    then show ?thesis using Cons Inr by simp
  qed
qed simp

end

text \<open>A component that keeps a log it only ever extends.\<close>

locale append_only =
  fixes step :: "'op \<Rightarrow> 's \<Rightarrow> 'e + 's"
    and entries :: "'s \<Rightarrow> 'l list"
  assumes step_extends: "step x s = Inr s' \<Longrightarrow> prefix (entries s) (entries s')"
begin

lemma run_extends: "prefix (entries s) (entries (run_all step xs s))"
proof (induction xs arbitrary: s)
  case (Cons x xs)
  show ?case
  proof (cases "step x s")
    case (Inl e)
    then show ?thesis using Cons by simp
  next
    case (Inr s')
    then show ?thesis
      using step_extends [OF Inr] Cons [of s'] by (simp add: prefix_order.trans)
  qed
qed simp

lemma run_keeps_entry: "e \<in> set (entries s) \<Longrightarrow> e \<in> set (entries (run_all step xs s))"
  using run_extends [of s xs] set_mono_prefix by blast

end

end
