(* ===== verification/SequenceRun.thy ===== *)
theory SequenceRun
  imports Sequence Machines
begin

text \<open>
  Runs of a \<open>RestartSequence\<close>: the operations of \<^verbatim>\<open>src/tms/ops/sequence.py\<close> as calls, the
  state diagram its module comment draws, and what every run keeps: the diagram, the
  append-only log, the path of the states written into the log, and the evidence a restart
  rests on.
\<close>

datatype seq_op =
    Begin
  | Observe int "string option"
  | ObserveConfigStore "bool option" string
  | ConfirmDrained
  | ForceDrained "string option"
  | MarkRestarting
  | MarkRestarted
  | ConfirmHealthy
  | Complete
  | BeginAbort string
  | FinishAbort
  | SetHealth string            \<comment> \<open>\<open>stored.sequence.health_state = health\<close> in the service\<close>
  | LogLine seq_message string

fun apply_op :: "timestamp \<times> seq_op \<Rightarrow> restart_sequence \<Rightarrow> seq_exn + restart_sequence" where
  "apply_op (t, Begin) s = begin_seq t s"
| "apply_op (t, Observe n h) s = observe t n h s"
| "apply_op (t, ObserveConfigStore r d) s = observe_config_store t r d s"
| "apply_op (t, ConfirmDrained) s = confirm_drained t s"
| "apply_op (t, ForceDrained r) s = force_drained t r s"
| "apply_op (t, MarkRestarting) s = mark_restarting t s"
| "apply_op (t, MarkRestarted) s = mark_restarted t s"
| "apply_op (t, ConfirmHealthy) s = confirm_healthy t s"
| "apply_op (t, Complete) s = complete_seq t s"
| "apply_op (t, BeginAbort n) s = begin_abort t n s"
| "apply_op (t, FinishAbort) s = finish_abort t s"
| "apply_op (t, SetHealth h) s = Inr (s\<lparr>health_state := Some h\<rparr>)"
| "apply_op (t, LogLine m l) s = log_line t m l s"

text \<open>The diagram of the module comment.\<close>

inductive seq_edge :: "seq_state \<Rightarrow> seq_state \<Rightarrow> bool" where
  deactivate: "seq_edge PENDING DRAINING"
| drained: "seq_edge DRAINING DRAINED"
| restart: "seq_edge DRAINED RESTARTING"
| restarted: "seq_edge RESTARTING VERIFYING"
| reactivate: "seq_edge VERIFYING COMPLETED"
| abort: "q \<notin> set TERMINAL \<Longrightarrow> seq_edge q ABORTING"
| put_back: "seq_edge ABORTING ABORTED"

code_pred seq_edge .

inductive_simps edge_to_simps:
  "seq_edge q DRAINING" "seq_edge q DRAINED" "seq_edge q RESTARTING" "seq_edge q VERIFYING"
  "seq_edge q COMPLETED" "seq_edge q PENDING" "seq_edge q ABORTED" "seq_edge q ABORTING"

inductive_simps edge_from_terminal: "seq_edge COMPLETED q" "seq_edge ABORTED q"

subsection \<open>What one operation does\<close>

lemma log_line_level:
  "l \<in> set ALLOWED_LEVELS \<Longrightarrow> log_line t m l s = Inr (s\<lparr>history := history s @
     [\<lparr>ev_at = t, ev_state = state s, ev_level = l, ev_message = m\<rparr>]\<rparr>)"
  by (simp add: log_line_def)

lemma record_step_eq [simp]:
  "record_step t st m s = Inr (s\<lparr>state := st, history := history s @
     [\<lparr>ev_at = t, ev_state = st, ev_level = ''info'', ev_message = m\<rparr>]\<rparr>)"
  by (simp add: record_step_def log_line_def level_defs)

lemma relevel_snoc [simp]:
  "relevel_last l (s\<lparr>state := st, history := h @ [e]\<rparr>) =
     s\<lparr>state := st, history := h @ [e\<lparr>ev_level := l\<rparr>]\<rparr>"
  by (simp add: relevel_last_def)

lemmas seq_op_defs = begin_seq_def observe_def observe_config_store_def confirm_drained_def
  force_drained_def mark_restarting_def mark_restarted_def confirm_healthy_def complete_seq_def
  begin_abort_def finish_abort_def require_state_def

text \<open>Every successful operation: the log grows by at most one line, that line carries the new
  state, a change of state always leaves one, and the state moves along the diagram.\<close>

definition logged_step :: "restart_sequence \<Rightarrow> restart_sequence \<Rightarrow> bool" where
  "logged_step s s' \<longleftrightarrow>
     (history s' = history s \<and> state s' = state s) \<or>
     (\<exists>e. history s' = history s @ [e] \<and> ev_state e = state s')"

lemma apply_op_logged:
  assumes "apply_op x s = Inr s'"
  shows "logged_step s s'"
proof -
  obtain t op where "x = (t, op)" by (cases x)
  then show ?thesis using assms
    by (cases op) (auto simp: logged_step_def seq_op_defs log_line_def Let_def
                        split: if_splits option.splits)
qed

lemma apply_op_edge:
  assumes "apply_op x s = Inr s'"
  shows "state s' = state s \<or> seq_edge (state s) (state s')"
proof -
  obtain t op where "x = (t, op)" by (cases x)
  then show ?thesis using assms
    by (cases op) (auto simp: seq_op_defs log_line_def Let_def edge_to_simps is_terminal_def
                        split: if_splits option.splits)
qed

interpretation sq: diagram apply_op state seq_edge "\<lambda>q. q \<in> set TERMINAL"
  by unfold_locales (auto dest: apply_op_edge simp: TERMINAL_def edge_from_terminal)

interpretation sq_log: append_only apply_op history
  by unfold_locales (auto dest!: apply_op_logged simp: logged_step_def)

abbreviation run_seq :: "(timestamp \<times> seq_op) list \<Rightarrow> restart_sequence \<Rightarrow> restart_sequence" where
  "run_seq \<equiv> run_all apply_op"

subsection \<open>The path written into the log\<close>

fun walk :: "seq_state \<Rightarrow> seq_state list \<Rightarrow> bool" where
  "walk q [] = True"
| "walk q (r # rs) = ((q = r \<or> seq_edge q r) \<and> walk r rs)"

definition log_states :: "restart_sequence \<Rightarrow> seq_state list" where
  "log_states s = map ev_state (history s)"

definition log_inv :: "restart_sequence \<Rightarrow> bool" where
  "log_inv s \<longleftrightarrow> walk PENDING (log_states s) \<and> last (PENDING # log_states s) = state s"

lemma walk_snoc: "walk q (rs @ [r]) \<longleftrightarrow> walk q rs \<and> (last (q # rs) = r \<or> seq_edge (last (q # rs)) r)"
  by (induction rs arbitrary: q) auto

lemma log_inv_step: "log_inv s \<Longrightarrow> apply_op x s = Inr s' \<Longrightarrow> log_inv s'"
  using apply_op_logged [of x s s'] apply_op_edge [of x s s']
  by (auto simp: log_inv_def logged_step_def log_states_def walk_snoc split: if_splits)

lemma log_inv_run: "log_inv s \<Longrightarrow> log_inv (run_seq xs s)"
  by (rule run_all_inv [of log_inv]) (auto intro: log_inv_step)

lemma new_sequence_fields:
  assumes "new_sequence c r a = Inr s"
  shows "state s = PENDING" "history s = []" "running_queries s = None" "health_state s = None"
    "config_store_ready s = None" "\<not> blank (reason s)" "cluster s = c" "actor s = a"
  using assms by (auto simp: new_sequence_def blank_opt_def split: if_splits option.splits)

lemma log_inv_new: "new_sequence c r a = Inr s \<Longrightarrow> log_inv s"
  by (simp add: log_inv_def log_states_def new_sequence_fields)

text \<open>A state with a single predecessor is never written without that predecessor before it.\<close>

lemma walk_predecessor:
  assumes "walk q rs" and "i < length rs" and "rs ! i = p" and "q \<noteq> p"
    and "\<And>r. seq_edge r p \<Longrightarrow> r = d"
  shows "d \<in> set (q # take i rs)"
  using assms(1-4)
proof (induction rs arbitrary: q i)
  case (Cons r rs)
  show ?case
  proof (cases "r = p")
    case True
    then have "q = d" using Cons.prems assms(5) by auto
    then show ?thesis by simp
  next
    case False
    then obtain j where j: "i = Suc j" using Cons.prems by (cases i) auto
    then have "d \<in> set (r # take j rs)" using Cons.IH [of r j] Cons.prems False by auto
    then show ?thesis using j by auto
  qed
qed simp

definition precedes :: "seq_state \<Rightarrow> seq_state \<Rightarrow> seq_state list \<Rightarrow> bool" where
  "precedes d p rs \<longleftrightarrow> (\<forall>i<length rs. rs ! i = p \<longrightarrow> d \<in> set (take i rs))"

lemma walk_precedes:
  assumes "walk PENDING rs" and "p \<noteq> PENDING" and "d \<noteq> PENDING" and "\<And>r. seq_edge r p \<Longrightarrow> r = d"
  shows "precedes d p rs"
  unfolding precedes_def using walk_predecessor [OF assms(1)] assms(2-4) by fastforce

text \<open>C3: In every run of a new restart sequence, whatever is called in whatever order, the states
  written into the log follow the documented procedure: no line is written in DRAINED before one
  in DRAINING, none in RESTARTING before one in DRAINED, none in VERIFYING before RESTARTING,
  none in COMPLETED before VERIFYING, none in ABORTED before ABORTING.\<close>

theorem no_step_skipped:
  assumes "new_sequence c r a = Inr s"
  shows "precedes DRAINING DRAINED (log_states (run_seq xs s)) \<and>
         precedes DRAINED RESTARTING (log_states (run_seq xs s)) \<and>
         precedes RESTARTING VERIFYING (log_states (run_seq xs s)) \<and>
         precedes VERIFYING COMPLETED (log_states (run_seq xs s)) \<and>
         precedes ABORTING ABORTED (log_states (run_seq xs s))"
proof -
  have "walk PENDING (log_states (run_seq xs s))"
    using log_inv_run [OF log_inv_new [OF assms]] by (simp add: log_inv_def)
  note before = walk_precedes [OF this]
  show ?thesis by (intro conjI before) (auto simp: edge_to_simps)
qed

text \<open>A complete restart, and an aborted one, as runs to evaluate.\<close>

definition demo_sequence :: restart_sequence where
  "demo_sequence = \<lparr>cluster = ''prod-a'', reason = ''upgrade'', actor = ''kim'', state = PENDING,
     history = [], drain_timeout_seconds = 900, running_queries = None, health_state = None,
     config_store_ready = None, config_store_detail = []\<rparr>"

lemma demo_sequence_new: "new_sequence ''prod-a'' (Some '' upgrade '') ''kim'' = Inr demo_sequence"
  by (simp add: new_sequence_def demo_sequence_def blank_opt_def blank_def strip_def is_space_def)

definition demo_run :: "(timestamp \<times> seq_op) list" where
  "demo_run = [(''1'', Begin), (''2'', Observe 2 (Some ''GOOD'')), (''3'', MarkRestarting),
     (''4'', Observe 0 None), (''5'', MarkRestarting), (''6'', MarkRestarted),
     (''7'', Observe 0 (Some ''GOOD'')), (''8'', ConfirmHealthy), (''9'', Complete)]"

lemmas demo_eval = demo_sequence_def demo_run_def seq_op_defs log_line_def level_defs Let_def
  is_terminal_def TERMINAL_def log_states_def

lemma demo_states: "log_states (run_seq demo_run demo_sequence) =
    [DRAINING, DRAINING, DRAINED, RESTARTING, VERIFYING, VERIFYING, COMPLETED]"
  by (simp add: demo_eval)

lemma demo_final: "state (run_seq demo_run demo_sequence) = COMPLETED"
  by (simp add: demo_eval)

theorem no_step_skipped_witness:
  "new_sequence ''prod-a'' (Some '' upgrade '') ''kim'' = Inr demo_sequence \<and>
   RESTARTING \<in> set (log_states (run_seq demo_run demo_sequence)) \<and>
   precedes DRAINED RESTARTING (log_states (run_seq demo_run demo_sequence))"
  using no_step_skipped [OF demo_sequence_new, of demo_run] demo_sequence_new
  by (simp add: demo_states)

subsection \<open>The evidence a restart rests on\<close>

text \<open>The calls that may declare a cluster drained, in the state they do it from.\<close>

definition drain_evidence :: "seq_op \<Rightarrow> restart_sequence \<Rightarrow> bool" where
  "drain_evidence op s \<longleftrightarrow> state s \<in> {DRAINING, DRAINED} \<and>
     (case op of
        Observe n h \<Rightarrow> n = 0
      | ConfirmDrained \<Rightarrow> (\<exists>n \<le> 0. running_queries s = Some n)
      | ForceDrained r \<Rightarrow> \<not> blank_opt r
      | _ \<Rightarrow> False)"

definition past_drain :: "restart_sequence \<Rightarrow> bool" where
  "past_drain s \<longleftrightarrow> state s \<in> {DRAINED, RESTARTING, VERIFYING, COMPLETED}"

lemma enters_past_drain:
  assumes "apply_op (t, op) s = Inr s'" and "\<not> past_drain s" and "past_drain s'"
  shows "drain_evidence op s \<and> state s' = DRAINED"
  using assms
  by (cases op) (auto simp: past_drain_def drain_evidence_def seq_op_defs log_line_def Let_def
                      split: if_splits option.splits)

text \<open>C6: A sequence that has reached RESTARTING, VERIFYING or COMPLETED got past the drain by
  evidence only: some earlier call observed zero running queries, confirmed an observed count
  that is not positive, or forced the drain with a reason of its own - and after that call
  restarting was called in state DRAINED.\<close>

theorem restart_needs_evidence:
  assumes "new_sequence c r a = Inr s" and "state (run_seq xs s) \<in> {RESTARTING, VERIFYING, COMPLETED}"
  shows "\<exists>pre t op post. xs = pre @ (t, op) # post \<and> drain_evidence op (run_seq pre s) \<and>
           (\<exists>mid t' post'. post = mid @ (t', MarkRestarting) # post' \<and>
              state (run_seq (pre @ (t, op) # mid) s) = DRAINED)"
proof -
  let ?late = "\<lambda>s. state s \<in> {RESTARTING, VERIFYING, COMPLETED}"
  have P: "state s = PENDING" using assms(1) by (rule new_sequence_fields)
  obtain pre x post s' where x: "xs = pre @ x # post" "\<not> ?late (run_seq pre s)"
      "apply_op x (run_seq pre s) = Inr s'" "?late s'"
    using run_all_entry [of ?late apply_op xs s] assms(2) P by auto
  obtain t op where top: "x = (t, op)" by (cases x)
  have late: "op = MarkRestarting \<and> state (run_seq pre s) = DRAINED"
    using x(2-4) top
    by (cases op) (auto simp: seq_op_defs log_line_def Let_def split: if_splits option.splits)
  then have "past_drain (run_seq pre s)" by (simp add: past_drain_def)
  moreover have "\<not> past_drain s" using P by (simp add: past_drain_def)
  ultimately obtain pre0 y mid s'' where y: "pre = pre0 @ y # mid"
      "\<not> past_drain (run_seq pre0 s)" "apply_op y (run_seq pre0 s) = Inr s''" "past_drain s''"
    using run_all_entry [of past_drain apply_op pre s] by blast
  obtain t0 op0 where y2: "y = (t0, op0)" by (cases y)
  have "drain_evidence op0 (run_seq pre0 s)" using enters_past_drain y y2 by blast
  then show ?thesis using x(1) top late y(1) y2
    by (intro exI [of _ pre0] exI [of _ t0] exI [of _ op0]
              exI [of _ "mid @ (t, MarkRestarting) # post"]) auto
qed

theorem restart_needs_evidence_witness:
  "state (run_seq demo_run demo_sequence) = COMPLETED \<and>
   (\<exists>pre t op post. demo_run = pre @ (t, op) # post \<and>
      drain_evidence op (run_seq pre demo_sequence))"
  using restart_needs_evidence [OF demo_sequence_new, of demo_run] demo_final by auto

text \<open>C7: Traffic is restored by completion only under observed good health: a sequence that has
  reached COMPLETED was completed by a call made in VERIFYING while the health last observed was
  GOOD.\<close>

theorem completed_only_when_good:
  assumes "new_sequence c r a = Inr s" and "state (run_seq xs s) = COMPLETED"
  shows "\<exists>pre t post. xs = pre @ (t, Complete) # post \<and> state (run_seq pre s) = VERIFYING \<and>
           health_state (run_seq pre s) = Some ''GOOD''"
proof -
  let ?P = "\<lambda>s. state s = COMPLETED"
  obtain pre x post s' where x: "xs = pre @ x # post" "\<not> ?P (run_seq pre s)"
      "apply_op x (run_seq pre s) = Inr s'" "?P s'"
    using run_all_entry [of ?P apply_op xs s] assms new_sequence_fields(1) [OF assms(1)] by auto
  obtain t op where top: "x = (t, op)" by (cases x)
  have "op = Complete \<and> state (run_seq pre s) = VERIFYING \<and>
        health_state (run_seq pre s) = Some ''GOOD''"
    using x(2-4) top
    by (cases op) (auto simp: seq_op_defs log_line_def Let_def split: if_splits option.splits)
  then show ?thesis using x(1) top by auto
qed

theorem completed_only_when_good_witness:
  "state (run_seq demo_run demo_sequence) = COMPLETED \<and>
   (\<exists>pre t post. demo_run = pre @ (t, Complete) # post \<and>
      state (run_seq pre demo_sequence) = VERIFYING \<and>
      health_state (run_seq pre demo_sequence) = Some ''GOOD'')"
  using completed_only_when_good [OF demo_sequence_new demo_final] demo_final by auto

subsection \<open>Aborting, and the end\<close>

text \<open>Aborting is always possible and always ends in traffic restored: a sequence that has not
  finished accepts an abort from whatever state it is in, the line saying so is a warning, the
  only state change then possible is the final one to ABORTED, and a finished sequence refuses
  every later abort and keeps its state in every later run.\<close>

theorem abort_puts_back:
  "(if is_terminal s then begin_abort t note s = Inl (SequenceError AlreadyFinished) \<and>
       state (run_seq xs s) = state s
    else (case begin_abort t note s of
            Inl e \<Rightarrow> False
          | Inr s' \<Rightarrow> state s' = ABORTING \<and> ev_level (last (history s')) = LEVEL_WARN \<and>
              state (run_seq xs s') \<in> {ABORTING, ABORTED} \<and>
              (case finish_abort t' s' of Inl e \<Rightarrow> False
               | Inr s'' \<Rightarrow> state s'' = ABORTED \<and> is_terminal s'')))"
proof (cases "is_terminal s")
  case True
  then show ?thesis
    using sq.final_absorbing [of s xs] by (simp add: begin_abort_def is_terminal_def)
next
  case False
  then obtain s' where s': "begin_abort t note s = Inr s'" "state s' = ABORTING"
      "ev_level (last (history s')) = LEVEL_WARN"
    by (auto simp: begin_abort_def)
  have "q = ABORTED" if "seq_edge\<^sup>*\<^sup>* ABORTING q" "q \<noteq> ABORTING" for q
    using that
  proof (induction rule: rtranclp_induct)
    case (step y z)
    then show ?case by (cases "y = ABORTING") (auto elim: seq_edge.cases simp: TERMINAL_def)
  qed simp
  then have "state (run_seq xs s') \<in> {ABORTING, ABORTED}"
    using sq.run_edges [of s' xs] s'(2) by auto
  with s' False show ?thesis
    by (simp add: finish_abort_def require_state_def is_terminal_def TERMINAL_def)
qed

subsection \<open>Levels\<close>

text \<open>The levels of \<open>restart_sequence_event\<close>: a line outside them would fail the save.\<close>

definition levels_ok :: "restart_sequence \<Rightarrow> bool" where
  "levels_ok s \<longleftrightarrow> (\<forall>e\<in>set (history s). ev_level e \<in> set ALLOWED_LEVELS)"

lemma levels_ok_step:
  assumes "levels_ok s" and "apply_op x s = Inr s'"
  shows "levels_ok s'"
proof -
  obtain t op where "x = (t, op)" by (cases x)
  then show ?thesis using assms
    by (cases op) (auto simp: levels_ok_def seq_op_defs log_line_def Let_def level_defs
                        split: if_splits option.splits)
qed

text \<open>Every line of the log of every run carries one of the four levels the database accepts,
  and the log only grows: what was recorded before a run is a prefix of what is recorded after
  it.\<close>

theorem log_append_only_levels:
  assumes "new_sequence c r a = Inr s"
  shows "levels_ok (run_seq xs s) \<and> prefix (history (run_seq xs s)) (history (run_seq (xs @ ys) s))"
proof -
  have "levels_ok s" using new_sequence_fields(2) [OF assms] by (simp add: levels_ok_def)
  then have "levels_ok (run_seq xs s)"
    by (rule run_all_inv [of levels_ok]) (auto intro: levels_ok_step)
  then show ?thesis by (simp add: run_all_append sq_log.run_extends)
qed

theorem log_append_only_levels_witness:
  "new_sequence ''prod-a'' (Some '' upgrade '') ''kim'' = Inr demo_sequence \<and>
   levels_ok (run_seq demo_run demo_sequence)"
  using log_append_only_levels [OF demo_sequence_new, of demo_run "[]"] demo_sequence_new by simp

subsection \<open>The checklist\<close>

lemma STEP_ORDER_index: "index_of q STEP_ORDER =
   (case q of PENDING \<Rightarrow> Some 0 | DRAINING \<Rightarrow> Some 1 | DRAINED \<Rightarrow> Some 2 | RESTARTING \<Rightarrow> Some 3
    | VERIFYING \<Rightarrow> Some 4 | COMPLETED \<Rightarrow> Some 5 | ABORTING \<Rightarrow> None | ABORTED \<Rightarrow> None)"
  by (cases q) (simp_all add: STEP_ORDER_def)

lemma steps_eq: "steps s =
    [(PENDING, CHECKLIST_LABELS PENDING, step_status_of (state s) 0),
     (DRAINING, CHECKLIST_LABELS DRAINING, step_status_of (state s) 1),
     (DRAINED, CHECKLIST_LABELS DRAINED, step_status_of (state s) 2),
     (RESTARTING, CHECKLIST_LABELS RESTARTING, step_status_of (state s) 3),
     (VERIFYING, CHECKLIST_LABELS VERIFYING, step_status_of (state s) 4),
     (COMPLETED, CHECKLIST_LABELS COMPLETED, step_status_of (state s) 5)]"
  by (simp add: steps_def STEP_ORDER_def eval_nat_numeral)

text \<open>The checklist marks exactly one step as current while the procedure runs - the one named
  by the sequence's own state - and none once it is completed, aborting or aborted; every step
  has a label.\<close>

theorem checklist_one_current:
  "map fst (filter (\<lambda>(q, l, m). m = Current) (steps s)) =
     (if state s \<in> {COMPLETED, ABORTING, ABORTED} then [] else [state s]) \<and>
   list_all (\<lambda>(q, l, m). l \<noteq> None) (steps s) \<and>
   map (\<lambda>(q, l, i). (q, l)) checklist = map (\<lambda>(q, l, m). (q, l)) (steps s)"
  by (cases "state s")
     (simp_all add: steps_eq step_status_of_def STEP_ORDER_index checklist_def STEP_ORDER_def)

end
