(* ===== verification/SeqRepo.thy ===== *)
theory SeqRepo
  imports SequenceRun
begin

text \<open>
  Storage of restart sequences, \<^verbatim>\<open>src/tms/ops/repository.py\<close>: the handle \<open>StoredSequence\<close>,
  \<open>_rebuild\<close>, and \<open>InMemorySequenceRepository\<close> (the implementation written in the program's
  own language; the PostgreSQL one sends SQL with the same effect). Dictionaries are
  association lists in insertion order, ids are the counter values the repository hands out.
\<close>

record seq_row =
  row_cluster :: string
  row_state :: seq_state
  row_reason :: string
  row_actor :: string
  row_running :: "int option"
  row_health :: "string option"
  row_roles :: "string list"
  row_started_at :: timestamp
  row_finished_at :: "timestamp option"
  row_force_reason :: "string option"

record seq_repo =
  rows :: "(nat \<times> seq_row) list"
  events :: "(nat \<times> seq_event list) list"
  next_id :: nat

record stored_sequence =
  stored_id :: nat
  sequence :: restart_sequence
  persisted_events :: nat
  started_at :: "timestamp option"
  finished_at :: "timestamp option"

datatype repo_exn = ActiveSequenceExists string | NoSuchRow nat | Unreadable seq_exn

definition new_repo :: seq_repo where
  "new_repo = \<lparr>rows = [], events = [], next_id = 1\<rparr>"

definition pending_events :: "stored_sequence \<Rightarrow> seq_event list" where
  "pending_events st = drop (persisted_events st) (history (sequence st))"

definition mark_persisted :: "stored_sequence \<Rightarrow> stored_sequence" where
  "mark_persisted st = st\<lparr>persisted_events := length (history (sequence st))\<rparr>"

definition rebuild :: "seq_row \<Rightarrow> seq_event list \<Rightarrow> seq_exn + restart_sequence" where
  "rebuild row evs =
     (case new_sequence (row_cluster row) (Some (row_reason row)) (row_actor row) of
        Inl e \<Rightarrow> Inl e
      | Inr s \<Rightarrow> Inr (s\<lparr>state := row_state row, running_queries := row_running row,
                       health_state := row_health row, history := evs\<rparr>))"

definition load_stored :: "seq_repo \<Rightarrow> nat \<Rightarrow> repo_exn + stored_sequence option" where
  "load_stored r i =
     (case map_of (rows r) i of
        None \<Rightarrow> Inr None
      | Some row \<Rightarrow>
          (let evs = (case map_of (events r) i of None \<Rightarrow> [] | Some es \<Rightarrow> es)
           in case rebuild row evs of
                Inl e \<Rightarrow> Inl (Unreadable e)
              | Inr s \<Rightarrow> Inr (Some \<lparr>stored_id = i, sequence = s, persisted_events = length evs,
                    started_at = Some (row_started_at row), finished_at = row_finished_at row\<rparr>)))"

definition active_row :: "string \<Rightarrow> nat \<times> seq_row \<Rightarrow> bool" where
  "active_row c = (\<lambda>(i, row). row_cluster row = c \<and> row_state row \<notin> set TERMINAL)"

definition active_for :: "seq_repo \<Rightarrow> string \<Rightarrow> repo_exn + stored_sequence option" where
  "active_for r c =
     (case find (active_row c) (rows r) of
        None \<Rightarrow> Inr None
      | Some (i, _) \<Rightarrow> load_stored r i)"

text \<open>The row as \<open>save\<close> leaves it.\<close>

definition saved_row :: "timestamp \<Rightarrow> string option \<Rightarrow> restart_sequence \<Rightarrow> seq_row \<Rightarrow> seq_row" where
  "saved_row t force s row0 =
     (let row1 = (if force \<noteq> None \<and> force \<noteq> Some [] then row0\<lparr>row_force_reason := force\<rparr> else row0);
          row2 = row1\<lparr>row_state := state s, row_running := running_queries s,
                      row_health := health_state s\<rparr>
      in if state s \<in> set TERMINAL \<and> row_finished_at row2 = None
         then row2\<lparr>row_finished_at := Some t\<rparr> else row2)"

definition save_stored ::
    "timestamp \<Rightarrow> string option \<Rightarrow> stored_sequence \<Rightarrow> seq_repo \<Rightarrow> repo_exn + (stored_sequence \<times> seq_repo)" where
  "save_stored t force st r =
     (case map_of (rows r) (stored_id st) of
        None \<Rightarrow> Inl (NoSuchRow (stored_id st))
      | Some row \<Rightarrow>
          (let old = (case map_of (events r) (stored_id st) of None \<Rightarrow> [] | Some es \<Rightarrow> es)
           in Inr (mark_persisted st,
                   r\<lparr>rows := dset (stored_id st) (saved_row t force (sequence st) row) (rows r),
                     events := dset (stored_id st) (old @ pending_events st) (events r)\<rparr>)))"

definition create_stored ::
    "timestamp \<Rightarrow> restart_sequence \<Rightarrow> string list \<Rightarrow> seq_repo \<Rightarrow> repo_exn + (stored_sequence \<times> seq_repo)" where
  "create_stored t s roles r =
     (case active_for r (cluster s) of
        Inl e \<Rightarrow> Inl e
      | Inr (Some _) \<Rightarrow> Inl (ActiveSequenceExists (cluster s))
      | Inr None \<Rightarrow>
          (let i = next_id r;
               row = \<lparr>row_cluster = cluster s, row_state = state s, row_reason = reason s,
                      row_actor = actor s, row_running = running_queries s,
                      row_health = health_state s, row_roles = roles, row_started_at = t,
                      row_finished_at = None, row_force_reason = None\<rparr>;
               r1 = r\<lparr>rows := dset i row (rows r), events := dset i [] (events r),
                      next_id := i + 1\<rparr>;
               st = \<lparr>stored_id = i, sequence = s, persisted_events = 0,
                     started_at = None, finished_at = None\<rparr>
           in save_stored t None st r1))"

text \<open>\<open>all_active\<close>: the unfinished rows in id order, each loaded.\<close>

fun load_all :: "seq_repo \<Rightarrow> nat list \<Rightarrow> repo_exn + stored_sequence option list" where
  "load_all r [] = Inr []"
| "load_all r (i # is) =
     (case load_stored r i of
        Inl e \<Rightarrow> Inl e
      | Inr x \<Rightarrow> (case load_all r is of Inl e \<Rightarrow> Inl e | Inr xs \<Rightarrow> Inr (x # xs)))"

definition all_active :: "seq_repo \<Rightarrow> repo_exn + stored_sequence option list" where
  "all_active r = load_all r
     (map fst (filter (\<lambda>(i, row). row_state row \<notin> set TERMINAL) (sort_key fst (rows r))))"

definition recent_sequences :: "seq_repo \<Rightarrow> nat \<Rightarrow> repo_exn + stored_sequence option list" where
  "recent_sequences r limit = load_all r (take limit (rev (sort (map fst (rows r)))))"

section \<open>What the repository keeps\<close>

text \<open>Ids are unique and below the counter, every row can be read back, and a cluster has at most
  one unfinished row.\<close>

definition unfinished :: "seq_row \<Rightarrow> bool" where
  "unfinished row \<longleftrightarrow> row_state row \<notin> set TERMINAL"

definition one_active :: "seq_repo \<Rightarrow> bool" where
  "one_active r \<longleftrightarrow>
     (\<forall>i row j row'. map_of (rows r) i = Some row \<and> map_of (rows r) j = Some row' \<and>
        unfinished row \<and> unfinished row' \<and> row_cluster row = row_cluster row' \<longrightarrow> i = j)"

definition repo_inv :: "seq_repo \<Rightarrow> bool" where
  "repo_inv r \<longleftrightarrow>
     distinct (map fst (rows r)) \<and>
     (\<forall>i row. map_of (rows r) i = Some row \<longrightarrow>
        i < next_id r \<and> \<not> blank (row_reason row) \<and> strip (row_reason row) = row_reason row) \<and>
     one_active r"

text \<open>A handle in step with storage: its row is there under the same cluster, reason and actor,
  the stored events are the part of the history already persisted, and it does not reopen a
  finished row.\<close>

definition held :: "seq_repo \<Rightarrow> stored_sequence \<Rightarrow> bool" where
  "held r st \<longleftrightarrow>
     (\<exists>row. map_of (rows r) (stored_id st) = Some row \<and>
        row_cluster row = cluster (sequence st) \<and> row_reason row = reason (sequence st) \<and>
        row_actor row = actor (sequence st) \<and>
        (unfinished row \<or> state (sequence st) \<in> set TERMINAL)) \<and>
     persisted_events st \<le> length (history (sequence st)) \<and>
     map_of (events r) (stored_id st) =
       Some (take (persisted_events st) (history (sequence st)))"

text \<open>What storage keeps of a sequence: everything but the config store observation, which a
  rebuilt object starts without, and the drain timeout, which it gets anew.\<close>

definition durable :: "restart_sequence \<Rightarrow> restart_sequence" where
  "durable s = s\<lparr>drain_timeout_seconds := 900, config_store_ready := None,
                 config_store_detail := []\<rparr>"

lemma durable_fields [simp]:
  "state (durable s) = state s" "history (durable s) = history s"
  "running_queries (durable s) = running_queries s" "health_state (durable s) = health_state s"
  "cluster (durable s) = cluster s" "reason (durable s) = reason s" "actor (durable s) = actor s"
  by (simp_all add: durable_def)

lemma durable_eq: "durable s = \<lparr>cluster = cluster s, reason = reason s, actor = actor s,
     state = state s, history = history s, drain_timeout_seconds = 900,
     running_queries = running_queries s, health_state = health_state s,
     config_store_ready = None, config_store_detail = []\<rparr>"
  by (cases s) (simp add: durable_def)

lemma rebuild_eq:
  assumes "\<not> blank (row_reason row)" and "strip (row_reason row) = row_reason row"
  shows "rebuild row evs = Inr \<lparr>cluster = row_cluster row, reason = row_reason row,
     actor = row_actor row, state = row_state row, history = evs, drain_timeout_seconds = 900,
     running_queries = row_running row, health_state = row_health row,
     config_store_ready = None, config_store_detail = []\<rparr>"
  using assms by (simp add: rebuild_def new_sequence_def blank_opt_def)

lemma repo_inv_new: "repo_inv new_repo"
  by (simp add: repo_inv_def one_active_def new_repo_def)

lemma load_total:
  assumes "repo_inv r"
  shows "\<exists>x. load_stored r i = Inr x"
  using assms rebuild_eq
  by (auto simp: load_stored_def repo_inv_def Let_def split: option.split sum.split)

lemma active_for_None:
  assumes "repo_inv r" and "active_for r c = Inr None"
  shows "map_of (rows r) i = Some row \<Longrightarrow> unfinished row \<Longrightarrow> row_cluster row \<noteq> c"
proof
  assume row: "map_of (rows r) i = Some row" "unfinished row" "row_cluster row = c"
  then have "(i, row) \<in> set (rows r)" by (simp add: map_of_SomeD)
  then have "find (active_row c) (rows r) \<noteq> None"
    using row by (auto simp: find_None_iff active_row_def unfinished_def)
  then obtain j row' where f: "find (active_row c) (rows r) = Some (j, row')" by auto
  then have "(j, row') \<in> set (rows r)" by (auto dest: find_Some_set)
  then have "map_of (rows r) j = Some row'" using assms(1) by (simp add: repo_inv_def)
  then show False
    using assms f rebuild_eq [of row']
    by (auto simp: active_for_def load_stored_def repo_inv_def Let_def split: sum.splits)
qed

lemma save_stored_ok:
  assumes inv: "repo_inv r" and h: "held r st"
  shows "\<exists>r'. save_stored t force st r = Inr (mark_persisted st, r') \<and> repo_inv r' \<and>
           held r' (mark_persisted st) \<and>
           (\<exists>st'. load_stored r' (stored_id st) = Inr (Some st') \<and> held r' st' \<and>
                  sequence st' = durable (sequence st) \<and> stored_id st' = stored_id st)"
proof -
  obtain row where row: "map_of (rows r) (stored_id st) = Some row"
      "row_cluster row = cluster (sequence st)" "row_reason row = reason (sequence st)"
      "row_actor row = actor (sequence st)" "unfinished row \<or> state (sequence st) \<in> set TERMINAL"
    using h by (auto simp: held_def)
  have good: "stored_id st < next_id r" "\<not> blank (row_reason row)"
      "strip (row_reason row) = row_reason row"
    using inv row(1) by (auto simp: repo_inv_def)
  have evs: "map_of (events r) (stored_id st) =
       Some (take (persisted_events st) (history (sequence st)))"
    using h by (simp add: held_def)
  define row' where "row' = saved_row t force (sequence st) row"
  have row': "row_cluster row' = row_cluster row" "row_reason row' = row_reason row"
      "row_actor row' = row_actor row" "row_state row' = state (sequence st)"
      "row_running row' = running_queries (sequence st)"
      "row_health row' = health_state (sequence st)"
    by (simp_all add: row'_def saved_row_def Let_def)
  have save: "save_stored t force st r = Inr (mark_persisted st,
        r\<lparr>rows := dset (stored_id st) row' (rows r),
          events := dset (stored_id st) (history (sequence st)) (events r)\<rparr>)"
    using row(1) evs by (simp add: save_stored_def pending_events_def row'_def)
  let ?r = "r\<lparr>rows := dset (stored_id st) row' (rows r),
              events := dset (stored_id st) (history (sequence st)) (events r)\<rparr>"
  have unf: "unfinished row' \<Longrightarrow> unfinished row"
    using row(5) row'(4) by (auto simp: unfinished_def)
  have one: "one_active r" and dist: "distinct (map fst (rows r))"
    and each: "\<And>i row. map_of (rows r) i = Some row \<Longrightarrow>
      i < next_id r \<and> \<not> blank (row_reason row) \<and> strip (row_reason row) = row_reason row"
    using inv by (simp_all add: repo_inv_def)
  have "one_active ?r"
    unfolding one_active_def
    using one [unfolded one_active_def, rule_format] row(1) row'(1) unf
    by (auto split: if_splits)
  moreover have "map_of (rows ?r) i = Some row0 \<Longrightarrow>
      i < next_id r \<and> \<not> blank (row_reason row0) \<and> strip (row_reason row0) = row_reason row0" for i row0
    using each good row'(2) by (auto split: if_splits)
  ultimately have inv': "repo_inv ?r"
    using dist by (auto simp add: repo_inv_def simp del: map_of_dset)
  have heldm: "held ?r (mark_persisted st)"
    using row row' by (auto simp: held_def mark_persisted_def unfinished_def)
  have "load_stored ?r (stored_id st) = Inr (Some
      \<lparr>stored_id = stored_id st, sequence = durable (sequence st),
       persisted_events = length (history (sequence st)),
       started_at = Some (row_started_at row'), finished_at = row_finished_at row'\<rparr>)"
    using rebuild_eq [of row' "history (sequence st)"] good row row'
    by (simp add: load_stored_def durable_eq Let_def)
  moreover have "held ?r \<lparr>stored_id = stored_id st, sequence = durable (sequence st),
       persisted_events = length (history (sequence st)),
       started_at = Some (row_started_at row'), finished_at = row_finished_at row'\<rparr>"
    using row row' by (auto simp: held_def unfinished_def)
  ultimately show ?thesis using save inv' heldm by auto
qed

lemma save_stored_other:
  "save_stored t force st r = Inr (st', r') \<Longrightarrow> i \<noteq> stored_id st \<Longrightarrow>
     load_stored r' i = load_stored r i"
  by (auto simp: save_stored_def load_stored_def Let_def split: option.splits)

lemma load_held:
  assumes "repo_inv r" and "load_stored r i = Inr (Some st)" and "map_of (events r) i \<noteq> None"
  shows "held r st \<and> stored_id st = i"
  using assms rebuild_eq
  by (auto simp: load_stored_def held_def repo_inv_def Let_def unfinished_def
           split: option.splits sum.splits)

lemma create_stored_ok:
  assumes inv: "repo_inv r" and s: "\<not> blank (reason s)" "strip (reason s) = reason s"
  shows "(\<exists>i row. map_of (rows r) i = Some row \<and> unfinished row \<and> row_cluster row = cluster s) \<and>
           create_stored t s roles r = Inl (ActiveSequenceExists (cluster s))
       \<or> (\<forall>i row. map_of (rows r) i = Some row \<and> unfinished row \<longrightarrow> row_cluster row \<noteq> cluster s) \<and>
           (\<exists>st r'. create_stored t s roles r = Inr (st, r') \<and> repo_inv r' \<and> held r' st \<and>
              sequence st = s \<and> stored_id st = next_id r \<and> map_of (rows r) (stored_id st) = None)"
proof (cases "active_for r (cluster s)")
  case (Inl e)
  then obtain i where "load_stored r i = Inl e"
    by (auto simp: active_for_def split: option.splits)
  then show ?thesis using load_total [OF inv, of i] by simp
next
  case (Inr x)
  show ?thesis
  proof (cases x)
    case (Some st)
    then obtain i row where f: "find (active_row (cluster s)) (rows r) = Some (i, row)"
      using Inr by (auto simp: active_for_def split: option.splits)
    then have "map_of (rows r) i = Some row" "unfinished row" "row_cluster row = cluster s"
      using inv find_Some_set [OF f] by (auto simp: repo_inv_def active_row_def unfinished_def)
    then show ?thesis using Inr Some by (auto simp: create_stored_def)
  next
    case None
    let ?i = "next_id r"
    let ?row = "\<lparr>row_cluster = cluster s, row_state = state s, row_reason = reason s,
                      row_actor = actor s, row_running = running_queries s,
                      row_health = health_state s, row_roles = roles, row_started_at = t,
                      row_finished_at = None, row_force_reason = None\<rparr>"
    let ?r = "r\<lparr>rows := dset ?i ?row (rows r), events := dset ?i [] (events r),
                next_id := ?i + 1\<rparr>"
    let ?st = "\<lparr>stored_id = ?i, sequence = s, persisted_events = 0, started_at = None,
                finished_at = None\<rparr>"
    have free: "\<And>i row. map_of (rows r) i = Some row \<Longrightarrow> unfinished row \<Longrightarrow> row_cluster row \<noteq> cluster s"
      using active_for_None [OF inv] Inr None by blast
    have one: "one_active r" and dist: "distinct (map fst (rows r))"
      and each: "\<And>i row. map_of (rows r) i = Some row \<Longrightarrow>
        i < next_id r \<and> \<not> blank (row_reason row) \<and> strip (row_reason row) = row_reason row"
      using inv by (simp_all add: repo_inv_def)
    have fresh: "map_of (rows r) ?i = None"
      using each by (metis less_irrefl option.exhaust)
    have "one_active ?r"
      unfolding one_active_def using one [unfolded one_active_def, rule_format] free
      by (auto split: if_splits; blast)
    moreover have "map_of (rows ?r) i = Some row0 \<Longrightarrow>
      i < ?i + 1 \<and> \<not> blank (row_reason row0) \<and> strip (row_reason row0) = row_reason row0" for i row0
      using each s by (auto split: if_splits) (meson less_SucI)
    ultimately have "repo_inv ?r"
      using dist by (auto simp add: repo_inv_def simp del: map_of_dset)
    moreover have "held ?r ?st" by (auto simp: held_def unfinished_def)
    ultimately obtain r' where "save_stored t None ?st ?r = Inr (mark_persisted ?st, r')"
        "repo_inv r'" "held r' (mark_persisted ?st)"
      using save_stored_ok by blast
    then show ?thesis using Inr None free fresh
      by (auto simp: create_stored_def Let_def mark_persisted_def)
  qed
qed

section \<open>Requests against the store\<close>

text \<open>Every request of the service loads a sequence, works on it and saves it.\<close>

definition work_on ::
    "timestamp \<Rightarrow> (timestamp \<times> seq_op) list \<Rightarrow> nat \<Rightarrow> seq_repo \<Rightarrow> repo_exn + seq_repo" where
  "work_on t ops i r =
     (case load_stored r i of
        Inl e \<Rightarrow> Inl e
      | Inr None \<Rightarrow> Inl (NoSuchRow i)
      | Inr (Some st) \<Rightarrow>
          (case save_stored t None (st\<lparr>sequence := run_seq ops (sequence st)\<rparr>) r of
             Inl e \<Rightarrow> Inl e | Inr (_, r') \<Rightarrow> Inr r'))"

lemma run_seq_frame: "cluster (run_seq xs s) = cluster s \<and> reason (run_seq xs s) = reason s \<and>
    actor (run_seq xs s) = actor s"
proof (rule run_all_inv [of "\<lambda>s'. cluster s' = cluster s \<and> reason s' = reason s \<and> actor s' = actor s"])
  fix x :: "timestamp \<times> seq_op" and u u'
  assume "cluster u = cluster s \<and> reason u = reason s \<and> actor u = actor s" "apply_op x u = Inr u'"
  then show "cluster u' = cluster s \<and> reason u' = reason s \<and> actor u' = actor s"
    by (cases x; cases "snd x")
       (auto simp: seq_op_defs log_line_def Let_def relevel_last_def split: if_splits option.splits)
qed simp

lemma held_run:
  assumes "held r st"
  shows "held r (st\<lparr>sequence := run_seq ops (sequence st)\<rparr>)"
proof -
  have p: "prefix (history (sequence st)) (history (run_seq ops (sequence st)))"
    by (rule sq_log.run_extends)
  then have "take (persisted_events st) (history (run_seq ops (sequence st))) =
      take (persisted_events st) (history (sequence st))"
    using assms by (auto simp: held_def prefix_def)
  moreover have "persisted_events st \<le> length (history (run_seq ops (sequence st)))"
    using assms prefix_length_le [OF p] by (simp add: held_def)
  moreover have "state (sequence st) \<in> set TERMINAL \<Longrightarrow>
      state (run_seq ops (sequence st)) \<in> set TERMINAL"
    using sq.final_absorbing [of "sequence st" ops] by simp
  ultimately show ?thesis using assms run_seq_frame [of ops "sequence st"]
    by (auto simp: held_def)
qed

text \<open>The store as its clients see it: what they load is in step with it, what they save can be
  loaded again, and nobody else's entry moves.\<close>

locale durable_store =
  fixes load :: "'r \<Rightarrow> 'k \<Rightarrow> 'e + 'h option"
    and save :: "'h \<Rightarrow> 'r \<Rightarrow> 'e + ('h \<times> 'r)"
    and key :: "'h \<Rightarrow> 'k"
    and content :: "'h \<Rightarrow> 'c"
    and kept :: "'c \<Rightarrow> 'c"
    and inv :: "'r \<Rightarrow> bool"
    and in_step :: "'r \<Rightarrow> 'h \<Rightarrow> bool"
  assumes save_law: "inv r \<Longrightarrow> in_step r h \<Longrightarrow>
      \<exists>h' r'. save h r = Inr (h', r') \<and> inv r' \<and>
        (\<exists>h''. load r' (key h) = Inr (Some h'') \<and> in_step r' h'' \<and> content h'' = kept (content h))"
    and other_law: "save h r = Inr (h', r') \<Longrightarrow> k \<noteq> key h \<Longrightarrow> load r' k = load r k"
begin

lemma save_load:
  assumes "inv r" and "in_step r h" and "save h r = Inr (h', r')"
  shows "\<exists>h''. load r' (key h) = Inr (Some h'') \<and> in_step r' h'' \<and> content h'' = kept (content h)"
  using save_law [OF assms(1,2)] assms(3) by auto

lemma save_inv: "inv r \<Longrightarrow> in_step r h \<Longrightarrow> save h r = Inr (h', r') \<Longrightarrow> inv r'"
  using save_law by fastforce

lemma save_twice_other:
  assumes "inv r" "in_step r h" "save h r = Inr (h1, r1)" "in_step r1 g" "key g \<noteq> key h"
    "save g r1 = Inr (g1, r2)"
  shows "\<exists>h''. load r2 (key h) = Inr (Some h'') \<and> content h'' = kept (content h)"
  using save_load [OF assms(1-3)] other_law [OF assms(6), of "key h"] assms(5) by auto

end

interpretation repo: durable_store load_stored "save_stored t force" stored_id sequence durable
    repo_inv held
  for t force
proof (unfold_locales, goal_cases)
  case (1 r h)
  then show ?case using save_stored_ok [of r h t force] by fastforce
next
  case (2 h r h' r' k)
  then show ?case by (rule save_stored_other)
qed

text \<open>C15: A request survives the process: working on a stored sequence and saving it leaves a
  repository from which loading gives back exactly the sequence worked on - state, counts,
  health, and every line of the log once - except the config store observation, which has to be
  made anew; no other sequence is touched, and no cluster gets a second unfinished sequence.\<close>

theorem stored_work_survives:
  assumes "repo_inv r" and "load_stored r i = Inr (Some st)" and "held r st" and "stored_id st = i"
  shows "case work_on t ops i r of
           Inl e \<Rightarrow> False
         | Inr r' \<Rightarrow> repo_inv r' \<and>
             (case load_stored r' i of
                Inr (Some st') \<Rightarrow> held r' st' \<and>
                  sequence st' = durable (run_seq ops (sequence st))
              | _ \<Rightarrow> False) \<and>
             (j = i \<or> load_stored r' j = load_stored r j)"
proof -
  let ?st = "st\<lparr>sequence := run_seq ops (sequence st)\<rparr>"
  have h: "held r ?st" using assms(3) by (rule held_run)
  obtain h' r' where s: "save_stored t None ?st r = Inr (h', r')"
    using repo.save_law [OF assms(1) h] by blast
  show ?thesis
    using s assms repo.save_load [OF assms(1) h s] repo.save_inv [OF assms(1) h s]
      repo.other_law [OF s, of j]
    by (auto simp: work_on_def)
qed

text \<open>There is never more than one unfinished restart of a cluster: creating a sequence for a
  cluster is refused exactly when an unfinished one of that cluster is stored, and otherwise gives
  it an id never used before and keeps the repository's invariant.\<close>

theorem create_one_active:
  assumes "repo_inv r" and "\<not> blank (reason s)" and "strip (reason s) = reason s"
  shows "case create_stored t s roles r of
           Inl e \<Rightarrow> e = ActiveSequenceExists (cluster s) \<and>
             (\<exists>i row. map_of (rows r) i = Some row \<and> unfinished row \<and> row_cluster row = cluster s)
         | Inr (st, r') \<Rightarrow> repo_inv r' \<and> held r' st \<and> sequence st = s \<and>
             map_of (rows r) (stored_id st) = None \<and>
             \<not> (\<exists>i row. map_of (rows r) i = Some row \<and> unfinished row \<and> row_cluster row = cluster s)"
  using create_stored_ok [OF assms, of t roles] by (auto; blast)

definition demo_repo :: seq_repo where
  "demo_repo = (case create_stored ''0'' demo_sequence [''admin''] new_repo of
                  Inr (st, r) \<Rightarrow> r | Inl e \<Rightarrow> new_repo)"

definition demo_stored :: stored_sequence where
  "demo_stored = \<lparr>stored_id = 1, sequence = demo_sequence, persisted_events = 0,
     started_at = Some ''0'', finished_at = None\<rparr>"

lemmas repo_eval = new_repo_def create_stored_def active_for_def save_stored_def saved_row_def
  load_stored_def rebuild_def new_sequence_def pending_events_def mark_persisted_def Let_def
  active_row_def TERMINAL_def demo_repo_def demo_stored_def

lemma demo_reason: "\<not> blank (reason demo_sequence)" "strip (reason demo_sequence) = reason demo_sequence"
  by (simp_all add: demo_sequence_def blank_def strip_def is_space_def)

lemma demo_repo_eq: "create_stored ''0'' demo_sequence [''admin''] new_repo =
    Inr (demo_stored\<lparr>started_at := None\<rparr>, demo_repo)"
  by (simp add: repo_eval demo_sequence_def)

lemma demo_repo_inv: "repo_inv demo_repo"
  using create_stored_ok [OF repo_inv_new demo_reason, of "''0''" "[''admin'']"] demo_repo_eq
  by auto

lemma demo_load: "load_stored demo_repo 1 = Inr (Some demo_stored)"
  by (simp add: repo_eval demo_sequence_def blank_opt_def blank_def strip_def is_space_def)

lemma demo_held: "held demo_repo demo_stored \<and> stored_id demo_stored = 1"
  using load_held [OF demo_repo_inv demo_load] by (simp add: repo_eval demo_sequence_def)

theorem stored_work_survives_witness:
  "repo_inv demo_repo \<and> load_stored demo_repo 1 = Inr (Some demo_stored) \<and>
   (case work_on ''9'' demo_run 1 demo_repo of
      Inl e \<Rightarrow> False
    | Inr r' \<Rightarrow> (case load_stored r' 1 of
         Inr (Some st') \<Rightarrow> sequence st' = durable (run_seq demo_run demo_sequence)
       | _ \<Rightarrow> False))"
  using stored_work_survives [OF demo_repo_inv demo_load, where t = "''9''" and ops = demo_run and j = 1]
    demo_held
    demo_repo_inv demo_load
  by (auto simp: demo_stored_def split: sum.splits option.splits)

theorem create_one_active_witness:
  "repo_inv demo_repo \<and> create_stored ''1'' demo_sequence [] demo_repo =
     Inl (ActiveSequenceExists ''prod-a'') \<and>
   (\<exists>i row. map_of (rows demo_repo) i = Some row \<and> unfinished row \<and> row_cluster row = ''prod-a'')"
proof -
  have e: "create_stored ''1'' demo_sequence [] demo_repo = Inl (ActiveSequenceExists ''prod-a'')"
    by (simp add: repo_eval demo_sequence_def blank_opt_def blank_def strip_def is_space_def)
  show ?thesis
    using create_one_active [OF demo_repo_inv demo_reason, of "''1''" "[]"] e demo_repo_inv
    by (simp add: demo_sequence_def)
qed

end
