(* ===== verification/Auditing.thy ===== *)
theory Auditing
  imports Machines
begin

text \<open>
  Audit enforcement, \<^verbatim>\<open>src/tms/core/audit.py\<close>: the reason, the record, the append-only
  repository (\<open>InMemoryAuditRepository\<close>), and \<open>AuditGuard\<close> with its context manager. Instants
  are microseconds since \<open>datetime.min\<close>; \<open>uuid4\<close> and the clock are arguments.
\<close>

section \<open>Vocabulary\<close>

definition SUCCESS :: string where "SUCCESS = ''SUCCESS''"
definition FAILURE :: string where "FAILURE = ''FAILURE''"

definition ACTION_CLUSTER_RESTART :: string where
  "ACTION_CLUSTER_RESTART = ''CLUSTER_RESTART''"

definition ALLOWED_ACTION_TYPES :: "string list" where
  "ALLOWED_ACTION_TYPES =
     [''QUERY_KILL'', ''HEALTH_TEST_TOGGLE'', ''HEALTH_ROLLUP_TOGGLE'',
      ''HEALTH_THRESHOLD_CHANGE'', ''AUDIT_EXPORT'', ''CLUSTER_RESTART'', ''NODE_SHUTDOWN'',
      ''RESOURCE_GROUP_CHANGE'', ''RESOURCE_GROUP_REVERT'', ''FLEET_JOB_RUN'', ''BENCHMARK_RUN'',
      ''BENCHMARK_QUERY_CHANGE'', ''BENCHMARK_SCHEDULE_CHANGE'', ''CATALOG_CHANGE'',
      ''CATALOG_DEPLOY'', ''CLUSTER_NODE_CHANGE'', ''CONFIG_CHANGE'', ''CONFIG_DEPLOY'']"

definition MAX_REASON_LENGTH :: nat where "MAX_REASON_LENGTH = 512"

datatype audit_exn = ReasonRequired | AuditUnavailable | InvalidActionType string

record audit_record =
  aud_actor :: string
  aud_action_type :: string
  aud_target_kind :: string
  aud_target_id :: string
  aud_reason :: string
  aud_outcome :: string
  aud_request_id :: string
  aud_actor_roles :: "string list"
  aud_actor_ip :: "string option"
  aud_target_cluster :: "string option"
  aud_error_message :: "string option"
  aud_details :: "(string \<times> string) list option"
  aud_occurred_at :: "nat option"

definition normalise_reason :: "string option \<Rightarrow> audit_exn + string" where
  "normalise_reason reason =
     (case reason of
        None \<Rightarrow> Inl ReasonRequired
      | Some r \<Rightarrow>
          (let flattened = join '' '' (split_ws r)
           in if flattened = [] then Inl ReasonRequired
              else if length flattened > MAX_REASON_LENGTH
              then Inr (take (MAX_REASON_LENGTH - 3) flattened @ ''...'')
              else Inr flattened))"

section \<open>The repository\<close>

record audit_repo =
  records :: "audit_record list"
  writable :: bool

definition write_record :: "audit_record \<Rightarrow> audit_repo \<Rightarrow> audit_exn + audit_repo" where
  "write_record rec r =
     (if \<not> writable r then Inl AuditUnavailable else Inr (r\<lparr>records := records r @ [rec]\<rparr>))"

definition is_writable :: "audit_repo \<Rightarrow> bool" where
  "is_writable r = writable r"

text \<open>The filters of \<open>search\<close>: a criterion that is None does not restrict.\<close>

record audit_query =
  q_actor :: "string option"
  q_action_type :: "string option"
  q_target_kind :: "string option"
  q_target_id :: "string option"
  q_outcome :: "string option"
  q_from :: "nat option"
  q_to :: "nat option"
  q_limit :: int

definition eq_if_given :: "'a option \<Rightarrow> 'a \<Rightarrow> bool" where
  "eq_if_given want have_v = (case want of None \<Rightarrow> True | Some v \<Rightarrow> have_v = v)"

definition matches :: "audit_query \<Rightarrow> audit_record \<Rightarrow> bool" where
  "matches q r \<longleftrightarrow>
     eq_if_given (q_actor q) (aud_actor r) \<and> eq_if_given (q_action_type q) (aud_action_type r) \<and>
     eq_if_given (q_target_kind q) (aud_target_kind r) \<and>
     eq_if_given (q_target_id q) (aud_target_id r) \<and> eq_if_given (q_outcome q) (aud_outcome r) \<and>
     (case q_from q of None \<Rightarrow> True
      | Some t \<Rightarrow> (case aud_occurred_at r of None \<Rightarrow> False | Some u \<Rightarrow> u \<ge> t)) \<and>
     (case q_to q of None \<Rightarrow> True
      | Some t \<Rightarrow> (case aud_occurred_at r of None \<Rightarrow> False | Some u \<Rightarrow> u \<le> t))"

text \<open>\<open>r.occurred_at or datetime.min\<close>; the sort is stable, also with \<open>reverse=True\<close>.\<close>

definition when_key :: "audit_record \<Rightarrow> nat" where
  "when_key r = (case aud_occurred_at r of None \<Rightarrow> 0 | Some t \<Rightarrow> t)"

definition search :: "audit_query \<Rightarrow> audit_repo \<Rightarrow> audit_record list" where
  "search q r =
     take (nat (max 1 (q_limit q)))
       (rev (sort_key when_key (rev (filter (matches q) (records r)))))"

section \<open>The guard\<close>

text \<open>The arguments of \<open>AuditGuard.action\<close> and \<open>record_refusal\<close>.\<close>

record audit_call =
  ac_actor :: string
  ac_roles :: "string list"
  ac_action_type :: string
  ac_target_kind :: string
  ac_target_id :: string
  ac_reason :: "string option"
  ac_target_cluster :: "string option"
  ac_actor_ip :: "string option"
  ac_request_id :: "string option"

text \<open>\<open>request_id or str(uuid.uuid4())\<close>\<close>

definition request_id_or :: "string \<Rightarrow> string option \<Rightarrow> string" where
  "request_id_or uuid x = (case x of None \<Rightarrow> uuid | Some s \<Rightarrow> if s = [] then uuid else s)"

definition guard_action :: "string \<Rightarrow> audit_call \<Rightarrow> audit_repo \<Rightarrow> audit_exn + audit_record" where
  "guard_action uuid c repo =
     (if ac_action_type c \<notin> set ALLOWED_ACTION_TYPES
      then Inl (InvalidActionType (ac_action_type c))
      else case normalise_reason (ac_reason c) of
             Inl e \<Rightarrow> Inl e
           | Inr clean \<Rightarrow>
               (if \<not> is_writable repo then Inl AuditUnavailable
                else Inr \<lparr>aud_actor = ac_actor c, aud_action_type = ac_action_type c,
                       aud_target_kind = ac_target_kind c, aud_target_id = ac_target_id c,
                       aud_reason = clean, aud_outcome = FAILURE,
                       aud_request_id = request_id_or uuid (ac_request_id c),
                       aud_actor_roles = ac_roles c, aud_actor_ip = ac_actor_ip c,
                       aud_target_cluster = ac_target_cluster c, aud_error_message = None,
                       aud_details = None, aud_occurred_at = None\<rparr>))"

text \<open>\<open>__exit__\<close>: one record with the real outcome; a storage error there is logged only.\<close>

definition guard_exit ::
    "nat \<Rightarrow> (string \<times> string) list \<Rightarrow> string option \<Rightarrow> audit_record \<Rightarrow> audit_repo \<Rightarrow> audit_repo" where
  "guard_exit now details err rec repo =
     (let r1 = rec\<lparr>aud_occurred_at := Some now\<rparr>;
          r2 = (if details \<noteq> [] then r1\<lparr>aud_details := Some details\<rparr> else r1);
          r3 = (case err of
                  None \<Rightarrow> r2\<lparr>aud_outcome := SUCCESS\<rparr>
                | Some e \<Rightarrow> r2\<lparr>aud_outcome := FAILURE, aud_error_message := Some e\<rparr>)
      in case write_record r3 repo of Inl _ \<Rightarrow> repo | Inr repo' \<Rightarrow> repo')"

text \<open>\<open>with guard.action(...): body\<close>. The body works on the rest of the world and on the
  repository; its exception is recorded and goes on to the caller.\<close>

definition audited ::
    "nat \<Rightarrow> string \<Rightarrow> ('e \<Rightarrow> string) \<Rightarrow> audit_call \<Rightarrow>
       (audit_repo \<times> 'w \<Rightarrow> ('e + 'a) \<times> audit_repo \<times> 'w) \<Rightarrow>
       audit_repo \<times> 'w \<Rightarrow> ((audit_exn + 'e) + 'a) \<times> audit_repo \<times> 'w" where
  "audited now uuid describe c body s =
     (case guard_action uuid c (fst s) of
        Inl e \<Rightarrow> (Inl (Inl e), s)
      | Inr rec \<Rightarrow>
          (case body s of
             (Inl e, repo, w) \<Rightarrow>
               (Inl (Inr e), guard_exit now [] (Some (describe e)) rec repo, w)
           | (Inr x, repo, w) \<Rightarrow> (Inr x, guard_exit now [] None rec repo, w)))"

definition record_refusal ::
    "nat \<Rightarrow> string \<Rightarrow> audit_call \<Rightarrow> string \<Rightarrow> audit_repo \<Rightarrow> string option \<times> audit_repo" where
  "record_refusal now uuid c err repo =
     (let clean = (case normalise_reason (ac_reason c) of
                     Inl _ \<Rightarrow> ''(reason not supplied)'' | Inr r \<Rightarrow> r);
          rec = \<lparr>aud_actor = ac_actor c, aud_action_type = ac_action_type c,
                 aud_target_kind = ac_target_kind c, aud_target_id = ac_target_id c,
                 aud_reason = clean, aud_outcome = FAILURE,
                 aud_request_id = request_id_or uuid (ac_request_id c),
                 aud_actor_roles = ac_roles c, aud_actor_ip = ac_actor_ip c,
                 aud_target_cluster = ac_target_cluster c, aud_error_message = Some err,
                 aud_details = None, aud_occurred_at = Some now\<rparr>
      in case write_record rec repo of
           Inl _ \<Rightarrow> (None, repo)
         | Inr repo' \<Rightarrow> (Some (aud_request_id rec), repo'))"

section \<open>The reason\<close>

text \<open>One line of words separated by single blanks: \<open>tidy b s\<close> where \<open>b\<close> says that a blank may
  not come next.\<close>

fun tidy_upto :: "bool \<Rightarrow> string \<Rightarrow> bool" where
  "tidy_upto b [] = True"
| "tidy_upto b (c # cs) =
     (if is_space c then \<not> b \<and> c = CHR '' '' \<and> tidy_upto True cs else tidy_upto False cs)"

fun tidy :: "bool \<Rightarrow> string \<Rightarrow> bool" where
  "tidy b [] = (\<not> b)"
| "tidy b (c # cs) =
     (if is_space c then \<not> b \<and> c = CHR '' '' \<and> tidy True cs else tidy False cs)"

lemma tidy_upto: "tidy b s \<Longrightarrow> tidy_upto b s"
  by (induction b s rule: tidy.induct) (auto split: if_splits)

lemma tidy_upto_take: "tidy_upto b s \<Longrightarrow> tidy_upto b (take n s)"
  by (induction b s arbitrary: n rule: tidy_upto.induct) (auto simp: take_Cons split: if_splits nat.split)

lemma tidy_append: "tidy_upto b s \<Longrightarrow> \<not> is_space c \<Longrightarrow> tidy False cs \<Longrightarrow> tidy b (s @ c # cs)"
  by (induction b s rule: tidy_upto.induct) (auto split: if_splits)

lemma is_space_blank [simp]: "is_space CHR '' ''"
  by (simp add: is_space_def)

lemma is_space_dot [simp]: "\<not> is_space CHR ''.''"
  by (simp add: is_space_def)

lemma split_ws_join:
  "(acc \<noteq> [] \<longrightarrow> tidy False s \<longrightarrow> join '' '' (split_ws_aux acc s) = rev acc @ s) \<and>
   (acc = [] \<longrightarrow> tidy True s \<longrightarrow> join '' '' (split_ws_aux acc s) = s)"
proof (induction acc s rule: split_ws_aux.induct)
  case (1 acc)
  then show ?case by simp
next
  case (2 acc c cs)
  have ne: "tidy True cs \<Longrightarrow> cs \<noteq> []" by auto
  have J: "join '' '' ws \<noteq> [] \<Longrightarrow> join '' '' (w # ws) = w @ '' '' @ join '' '' ws" for w ws
    by (cases ws) auto
  show ?case using 2 ne J by (auto split: if_splits)
qed

lemma tidy_fixed: "tidy True s \<Longrightarrow> join '' '' (split_ws s) = s"
  using split_ws_join [of "[]" s] by (simp add: split_ws_def)

definition word :: "string \<Rightarrow> bool" where
  "word w \<longleftrightarrow> w \<noteq> [] \<and> list_all (\<lambda>c. \<not> is_space c) w"

lemma split_ws_words: "list_all (\<lambda>c. \<not> is_space c) acc \<Longrightarrow> list_all word (split_ws_aux acc s)"
  by (induction acc s rule: split_ws_aux.induct) (simp_all add: word_def)

lemma tidy_word_False: "list_all (\<lambda>c. \<not> is_space c) w \<Longrightarrow> tidy False (w @ s) = tidy False s"
  by (induction w) auto

lemma tidy_word: "word w \<Longrightarrow> tidy b (w @ s) = tidy False s"
  by (cases w) (auto simp: word_def tidy_word_False)

lemma tidy_join: "list_all word ws \<Longrightarrow> ws \<noteq> [] \<Longrightarrow> tidy b (join '' '' ws)"
proof (induction ws arbitrary: b)
  case (Cons w ws)
  have w: "word w" using Cons.prems by simp
  show ?case
  proof (cases ws)
    case Nil
    then show ?thesis using tidy_word [OF w, of b "[]"] by simp
  next
    case (Cons v vs)
    then show ?thesis using tidy_word [OF w] Cons.IH Cons.prems by simp
  qed
qed simp

lemma split_ws_aux_Nil: "split_ws_aux acc s = [] \<longleftrightarrow> acc = [] \<and> blank s"
  by (induction acc s rule: split_ws_aux.induct) (auto simp: blank_def)

lemma join_words_Nil: "list_all word ws \<Longrightarrow> join '' '' ws = [] \<longleftrightarrow> ws = []"
  by (cases ws; cases "tl ws") (auto simp: word_def)

lemma flattened:
  "join '' '' (split_ws s) = [] \<longleftrightarrow> blank s"
  "\<not> blank s \<Longrightarrow> tidy True (join '' '' (split_ws s))"
  using split_ws_words [of "[]" s] split_ws_aux_Nil [of "[]" s]
  by (simp_all add: split_ws_def join_words_Nil tidy_join)

lemma reason_cases:
  "case normalise_reason x of
     Inl e \<Rightarrow> e = ReasonRequired \<and> blank_opt x
   | Inr f \<Rightarrow> \<not> blank_opt x \<and> f \<noteq> []"
  by (auto simp: normalise_reason_def blank_opt_def flattened MAX_REASON_LENGTH_def Let_def
           split: option.splits)

text \<open>A reason is refused exactly when it is missing or blank; an accepted one becomes a single
  line - words separated by single blanks, no other white space, nothing before or after - of at
  most 512 characters, and normalising it again changes nothing.\<close>

theorem normalise_reason_shape:
  "case normalise_reason x of
     Inl e \<Rightarrow> e = ReasonRequired \<and> blank_opt x
   | Inr f \<Rightarrow> \<not> blank_opt x \<and> f \<noteq> [] \<and> length f \<le> 512 \<and> tidy True f \<and>
       normalise_reason (Some f) = Inr f"
proof (cases "blank_opt x")
  case True
  then show ?thesis
    by (auto simp: normalise_reason_def blank_opt_def flattened split: option.splits)
next
  case False
  then obtain r where r: "x = Some r" "\<not> blank r" by (auto simp: blank_opt_def split: option.splits)
  define f where "f = join '' '' (split_ws r)"
  have f: "f \<noteq> []" "tidy True f" using r(2) flattened by (simp_all add: f_def)
  have cut: "tidy True (take 509 f @ ''...'')"
    using tidy_append [OF tidy_upto_take [OF tidy_upto [OF f(2)]], of "CHR ''.''" "''..''"] by simp
  show ?thesis
  proof (cases "length f > 512")
    case True
    then have "normalise_reason x = Inr (take 509 f @ ''...'')"
      using r f(1) by (simp add: normalise_reason_def f_def MAX_REASON_LENGTH_def)
    then show ?thesis using cut True False tidy_fixed [OF cut]
      by (simp add: normalise_reason_def MAX_REASON_LENGTH_def)
  next
    case short: False
    then have "normalise_reason x = Inr f"
      using r f(1) by (simp add: normalise_reason_def f_def MAX_REASON_LENGTH_def)
    then show ?thesis using f short False tidy_fixed [OF f(2)]
      by (simp add: normalise_reason_def MAX_REASON_LENGTH_def)
  qed
qed

section \<open>Enforcement\<close>

lemma guard_action_cases:
  "guard_action uuid c repo =
     Inl (if ac_action_type c \<notin> set ALLOWED_ACTION_TYPES then InvalidActionType (ac_action_type c)
      else if blank_opt (ac_reason c) then ReasonRequired else AuditUnavailable)"
  if "\<not> (ac_action_type c \<in> set ALLOWED_ACTION_TYPES \<and> \<not> blank_opt (ac_reason c) \<and> writable repo)"
  using that reason_cases [of "ac_reason c"]
  by (auto simp: guard_action_def is_writable_def split: sum.splits)

lemma guard_action_fields:
  assumes "guard_action uuid c repo = Inr rec"
  shows "aud_actor rec = ac_actor c" "aud_action_type rec = ac_action_type c"
    "aud_target_id rec = ac_target_id c" "aud_error_message rec = None"
    "normalise_reason (ac_reason c) = Inr (aud_reason rec)" "writable repo"
    "ac_action_type c \<in> set ALLOWED_ACTION_TYPES"
  using assms by (auto simp: guard_action_def is_writable_def split: if_splits sum.splits)

text \<open>C8: An action that cannot be audited does not happen: if the action type is unknown, the
  reason missing or blank, or the audit store not writable - checked in this order - the body is
  not run, and neither the world nor the audit store changes.\<close>

theorem unauditable_never_runs:
  "(ac_action_type c \<in> set ALLOWED_ACTION_TYPES \<and> \<not> blank_opt (ac_reason c) \<and> writable (fst s)) \<or>
   audited now uuid describe c body s =
     (Inl (Inl (if ac_action_type c \<notin> set ALLOWED_ACTION_TYPES
                then InvalidActionType (ac_action_type c)
                else if blank_opt (ac_reason c) then ReasonRequired else AuditUnavailable)), s)"
proof (cases "ac_action_type c \<in> set ALLOWED_ACTION_TYPES \<and> \<not> blank_opt (ac_reason c) \<and> writable (fst s)")
  case False
  show ?thesis unfolding audited_def guard_action_cases [OF False] by simp
qed simp

text \<open>An audited action leaves exactly one record, and the record tells the truth: when the
  action ran and its body left the audit store alone, the store has grown by one record with the
  caller, the action, the normalised reason and the outcome - SUCCESS without an error text if
  the body returned, FAILURE with the exception's text if it raised - and the body's result or
  exception is what the caller gets.\<close>

theorem audited_records_outcome:
  assumes "guard_action uuid c repo = Inr rec"
    and "fst (snd (body (repo, w))) = repo"
  shows "\<exists>r. fst (snd (audited now uuid describe c body (repo, w))) =
               repo\<lparr>records := records repo @ [r]\<rparr> \<and>
           snd (snd (audited now uuid describe c body (repo, w))) = snd (snd (body (repo, w))) \<and>
           aud_actor r = ac_actor c \<and> aud_action_type r = ac_action_type c \<and>
           normalise_reason (ac_reason c) = Inr (aud_reason r) \<and> aud_occurred_at r = Some now \<and>
           (case fst (body (repo, w)) of
              Inr x \<Rightarrow> fst (audited now uuid describe c body (repo, w)) = Inr x \<and>
                aud_outcome r = SUCCESS \<and> aud_error_message r = None
            | Inl e \<Rightarrow> fst (audited now uuid describe c body (repo, w)) = Inl (Inr e) \<and>
                aud_outcome r = FAILURE \<and> aud_error_message r = Some (describe e))"
proof -
  obtain res w' where b: "body (repo, w) = (res, repo, w')"
    using assms(2) by (cases "body (repo, w)") auto
  show ?thesis
    using guard_action_fields [OF assms(1)] assms(1) b
    by (cases res) (auto simp: audited_def guard_exit_def write_record_def Let_def)
qed

text \<open>Writes to the store as calls: it never loses a record.\<close>

datatype audit_op =
    WriteRecord audit_record
  | Exit nat "(string \<times> string) list" "string option" audit_record
  | Refusal nat string audit_call string

fun audit_step :: "audit_op \<Rightarrow> audit_repo \<Rightarrow> audit_exn + audit_repo" where
  "audit_step (WriteRecord rec) r = write_record rec r"
| "audit_step (Exit now d e rec) r = Inr (guard_exit now d e rec r)"
| "audit_step (Refusal now u c e) r = Inr (snd (record_refusal now u c e r))"

interpretation audit_log: append_only audit_step records
proof (unfold_locales, goal_cases)
  case (1 x s s')
  then show ?case
    by (cases x) (auto simp: write_record_def guard_exit_def record_refusal_def Let_def
                       split: if_splits sum.splits option.splits)
qed

text \<open>A refused action is recorded as well: the store grows by one FAILURE record that carries
  the error and, for want of a usable reason, a placeholder; and whatever is written later, no
  record once in the store is changed or removed.\<close>

theorem refusal_recorded_for_good:
  assumes "writable repo"
  shows "\<exists>r. records (snd (record_refusal now uuid c err repo)) = records repo @ [r] \<and>
           fst (record_refusal now uuid c err repo) = Some (aud_request_id r) \<and>
           aud_outcome r = FAILURE \<and> aud_error_message r = Some err \<and> aud_reason r \<noteq> [] \<and>
           prefix (records repo @ [r])
             (records (run_all audit_step ops (snd (record_refusal now uuid c err repo))))"
proof -
  let ?s = "snd (record_refusal now uuid c err repo)"
  have "\<exists>r. records ?s = records repo @ [r] \<and>
           fst (record_refusal now uuid c err repo) = Some (aud_request_id r) \<and>
           aud_outcome r = FAILURE \<and> aud_error_message r = Some err \<and> aud_reason r \<noteq> []"
    using assms reason_cases [of "ac_reason c"]
    by (auto simp: record_refusal_def write_record_def Let_def split: sum.splits)
  then show ?thesis using audit_log.run_extends [of ?s ops] by (metis (no_types))
qed

text \<open>A search returns the newest records first, only records that satisfy every given
  criterion, at most as many as asked for (and at least one when there is one), and all matching
  records when the limit allows.\<close>

theorem search_sound:
  "sorted (rev (map when_key (search q r))) \<and>
   set (search q r) \<subseteq> {x \<in> set (records r). matches q x} \<and>
   length (search q r) = min (nat (max 1 (q_limit q))) (length (filter (matches q) (records r))) \<and>
   (int (length (filter (matches q) (records r))) > max 1 (q_limit q) \<or>
    set (search q r) = {x \<in> set (records r). matches q x})"
proof -
  let ?ms = "filter (matches q) (records r)"
  let ?sorted = "rev (sort_key when_key (rev ?ms))"
  have order: "sorted (rev (map when_key (take n ?sorted)))" for n
    by (simp add: rev_map [symmetric] take_rev drop_map [symmetric] rev_map)
  have all: "set ?sorted = {x \<in> set (records r). matches q x}" "length ?sorted = length ?ms"
    by auto
  have whole: "search q r = ?sorted" if "int (length ?ms) \<le> max 1 (q_limit q)"
    using that by (simp add: search_def)
  have "int (length ?ms) > max 1 (q_limit q) \<or> set (search q r) = {x \<in> set (records r). matches q x}"
    using whole all(1) by (metis not_less)
  moreover have "set (search q r) \<subseteq> {x \<in> set (records r). matches q x}"
    using all(1) by (auto simp: search_def dest: in_set_takeD)
  moreover have "length (search q r) = min (nat (max 1 (q_limit q))) (length ?ms)"
    by (simp add: search_def min.commute)
  ultimately show ?thesis using order by (simp add: search_def)
qed

section \<open>Witnesses\<close>

definition demo_call :: audit_call where
  "demo_call = \<lparr>ac_actor = ''kim'', ac_roles = [''admin''], ac_action_type = ''CLUSTER_RESTART'',
     ac_target_kind = ''cluster'', ac_target_id = ''prod-a'', ac_reason = Some '' a  b '',
     ac_target_cluster = Some ''prod-a'', ac_actor_ip = None, ac_request_id = None\<rparr>"

definition demo_audit :: audit_repo where
  "demo_audit = \<lparr>records = [], writable = True\<rparr>"

definition demo_record :: audit_record where
  "demo_record = \<lparr>aud_actor = ''kim'', aud_action_type = ''CLUSTER_RESTART'',
     aud_target_kind = ''cluster'', aud_target_id = ''prod-a'', aud_reason = ''a b'',
     aud_outcome = ''FAILURE'', aud_request_id = ''u-1'', aud_actor_roles = [''admin''],
     aud_actor_ip = None, aud_target_cluster = Some ''prod-a'', aud_error_message = None,
     aud_details = None, aud_occurred_at = None\<rparr>"

lemma demo_guard: "guard_action ''u-1'' demo_call demo_audit = Inr demo_record"
  by (simp add: guard_action_def demo_call_def demo_audit_def demo_record_def
      ALLOWED_ACTION_TYPES_def normalise_reason_def split_ws_def is_space_def is_writable_def
      FAILURE_def request_id_or_def MAX_REASON_LENGTH_def)

theorem audited_records_outcome_witness:
  "\<exists>r. fst (snd (audited 7 ''u-1'' id demo_call (\<lambda>(a, w). (Inl ''boom'' :: string + unit, a, w + 1))
               (demo_audit, 0 :: nat))) = demo_audit\<lparr>records := [r]\<rparr> \<and>
       aud_outcome r = FAILURE \<and> aud_error_message r = Some ''boom''"
  using audited_records_outcome [OF demo_guard,
      of "\<lambda>(a, w). (Inl ''boom'' :: string + unit, a, w + 1)" "0 :: nat" 7 id]
  by (auto simp: demo_audit_def)

theorem refusal_recorded_for_good_witness:
  "writable demo_audit \<and>
   (\<exists>r. records (snd (record_refusal 7 ''u-1'' demo_call ''no'' demo_audit)) = [r] \<and>
        aud_outcome r = FAILURE)"
  using refusal_recorded_for_good [of demo_audit 7 "''u-1''" demo_call "''no''" "[]"]
  by (auto simp: demo_audit_def)

end
