(* ===== verification/PyText.thy ===== *)
theory PyText
  imports Prelude
begin

text \<open>
  The parts of Python's \<open>str\<close>, \<open>re\<close> and \<open>urllib.parse\<close> the program's text handling relies on,
  on strings of code points below 256.
\<close>

definition code :: "char \<Rightarrow> nat" where "code c = of_char c"

text \<open>\<open>str.lower\<close>\<close>

definition lower_char :: "char \<Rightarrow> char" where
  "lower_char c =
     (let n = code c
      in if (65 \<le> n \<and> n \<le> 90) \<or> (192 \<le> n \<and> n \<le> 222 \<and> n \<noteq> 215) then char_of (n + 32) else c)"

definition lower :: "string \<Rightarrow> string" where
  "lower s = map lower_char s"

text \<open>\<open>\w\<close> in a text pattern: \<open>str.isalnum\<close> or the underscore.\<close>

definition is_word_char :: "char \<Rightarrow> bool" where
  "is_word_char c \<longleftrightarrow>
     (let n = code c
      in (48 \<le> n \<and> n \<le> 57) \<or> (65 \<le> n \<and> n \<le> 90) \<or> (97 \<le> n \<and> n \<le> 122) \<or> n = 95 \<or>
         n \<in> {170, 178, 179, 181, 185, 186, 188, 189, 190} \<or>
         (192 \<le> n \<and> n \<noteq> 215 \<and> n \<noteq> 247))"

definition is_ascii_alnum :: "char \<Rightarrow> bool" where
  "is_ascii_alnum c \<longleftrightarrow>
     (let n = code c
      in (48 \<le> n \<and> n \<le> 57) \<or> (65 \<le> n \<and> n \<le> 90) \<or> (97 \<le> n \<and> n \<le> 122))"

definition is_ascii_digit :: "char \<Rightarrow> bool" where
  "is_ascii_digit c \<longleftrightarrow> 48 \<le> code c \<and> code c \<le> 57"

text \<open>\<open>str.splitlines()\<close>\<close>

definition is_line_break :: "char \<Rightarrow> bool" where
  "is_line_break c \<longleftrightarrow> code c \<in> {10, 11, 12, 13, 28, 29, 30, 133}"

fun splitlines_aux :: "string \<Rightarrow> string \<Rightarrow> string list" where
  "splitlines_aux acc [] = (if acc = [] then [] else [rev acc])"
| "splitlines_aux acc [c] =
     (if is_line_break c then [rev acc] else [rev (c # acc)])"
| "splitlines_aux acc (c # d # cs) =
     (if code c = 13 \<and> code d = 10 then rev acc # splitlines_aux [] cs
      else if is_line_break c then rev acc # splitlines_aux [] (d # cs)
      else splitlines_aux (c # acc) (d # cs))"

definition splitlines :: "string \<Rightarrow> string list" where
  "splitlines s = splitlines_aux [] s"

text \<open>\<open>s.split(sep, 1)[0]\<close> for a single character.\<close>

definition before :: "char \<Rightarrow> string \<Rightarrow> string" where
  "before d s = takeWhile (\<lambda>c. c \<noteq> d) s"

text \<open>\<open>s.partition(d)\<close>: before, whether found, after.\<close>

definition partition_at :: "char \<Rightarrow> string \<Rightarrow> string \<times> bool \<times> string" where
  "partition_at d s =
     (let a = takeWhile (\<lambda>c. c \<noteq> d) s; r = dropWhile (\<lambda>c. c \<noteq> d) s
      in (a, r \<noteq> [], drop 1 r))"

lemma splitlines_line:
  "list_all (\<lambda>c. \<not> is_line_break c) s \<Longrightarrow>
   splitlines_aux acc (s @ CHR 0x0A # t) = (rev acc @ s) # splitlines_aux [] t"
proof (induction s arbitrary: acc)
  case Nil
  show ?case by (cases t) (simp_all add: is_line_break_def code_def)
next
  case (Cons c s)
  have c: "\<not> is_line_break c" using Cons.prems by simp
  then have c13: "code c \<noteq> 13" by (auto simp: is_line_break_def)
  have "splitlines_aux acc (c # s @ CHR 0x0A # t) = splitlines_aux (c # acc) (s @ CHR 0x0A # t)"
    using c c13 by (cases s) auto
  then show ?case using Cons by simp
qed

lemma splitlines_join:
  "list_all (list_all (\<lambda>c. \<not> is_line_break c)) ls \<Longrightarrow> ls \<noteq> [] \<Longrightarrow> last ls = [] \<Longrightarrow>
   splitlines (join [CHR 0x0A] ls) = butlast ls"
proof (induction "[CHR 0x0A]" ls rule: join.induct)
  case (3 x y ys)
  then show ?case using splitlines_line [of x "[]"] by (simp add: splitlines_def)
qed (auto simp: splitlines_def)

text \<open>\<open>urlsplit(text).hostname\<close>; None stands for the \<open>ValueError\<close> of a bad IPv6 host, and the empty
  string for the attribute being None.\<close>

definition scheme_char :: "char \<Rightarrow> bool" where
  "scheme_char c \<longleftrightarrow> is_ascii_alnum c \<or> c = CHR ''+'' \<or> c = CHR ''-'' \<or> c = CHR ''.''"

definition drop_scheme :: "string \<Rightarrow> string" where
  "drop_scheme s =
     (case partition_at (CHR '':'') s of
        (a, found, rest) \<Rightarrow>
          (if found \<and> a \<noteq> [] \<and> is_ascii_alnum (hd a) \<and> \<not> is_ascii_digit (hd a) \<and> list_all scheme_char a
           then rest else s))"

definition after_last :: "char \<Rightarrow> string \<Rightarrow> string" where
  "after_last d s = rev (takeWhile (\<lambda>c. c \<noteq> d) (rev s))"

definition url_hostname :: "string \<Rightarrow> string option" where
  "url_hostname text =
     (let t = filter (\<lambda>c. code c \<notin> {9, 10, 13}) (dropWhile (\<lambda>c. code c \<le> 32) text);
          u = drop_scheme t
      in if take 2 u = ''//''
         then (let netloc = takeWhile (\<lambda>c. c \<notin> set ''/?#'') (drop 2 u);
                   host = after_last (CHR ''@'') netloc
               in if (CHR ''['' \<in> set netloc) \<noteq> (CHR '']'' \<in> set netloc) then None
                  else if CHR ''['' \<in> set host
                  then Some (lower (before (CHR '']'') (drop 1 (dropWhile (\<lambda>c. c \<noteq> CHR ''['') host))))
                  else Some (lower (before (CHR '':'') host)))
         else Some [])"

section \<open>Python's \<open>int()\<close> on text\<close>

text \<open>\<open>int(text)\<close>, up to the interpreter's bound of 4300 digits: optional white space and sign, decimal digits with single underscores between them.\<close>

fun int_digits :: "bool \<Rightarrow> nat \<Rightarrow> string \<Rightarrow> nat option" where
  "int_digits digit_before n [] = (if digit_before then Some n else None)"
| "int_digits digit_before n (c # cs) =
     (if is_ascii_digit c then int_digits True (10 * n + (code c - 48)) cs
      else if c = CHR ''_'' \<and> digit_before then int_digits False n cs
      else None)"

definition py_int :: "string \<Rightarrow> int option" where
  "py_int s =
     (case strip s of
        [] \<Rightarrow> None
      | c # cs \<Rightarrow>
          (if c = CHR ''-'' then map_option (\<lambda>n. - int n) (int_digits False 0 cs)
           else if c = CHR ''+'' then map_option int (int_digits False 0 cs)
           else map_option int (int_digits False 0 (c # cs))))"

definition digits_value :: "string \<Rightarrow> nat" where
  "digits_value s = fold (\<lambda>c n. 10 * n + (code c - 48)) s 0"

lemma strip_fixed: "list_all (\<lambda>c. \<not> is_space c) s \<Longrightarrow> strip s = s"
proof -
  have d: "dropWhile is_space s = s" if "list_all (\<lambda>c. \<not> is_space c) s" for s
    using that by (cases s) auto
  assume "list_all (\<lambda>c. \<not> is_space c) s"
  then show ?thesis using d [of s] d [of "rev s"] by (simp add: strip_def)
qed

lemma digit_char_facts:
  assumes "d < 10"
  shows "is_ascii_digit (digit_char d)" "code (digit_char d) = 48 + d" "\<not> is_space (digit_char d)"
    "digit_char d \<noteq> CHR ''$''" "digit_char d \<noteq> CHR ''-''" "digit_char d \<noteq> CHR ''+''"
proof -
  show c: "code (digit_char d) = 48 + d" using assms by (simp add: digit_char_def code_def)
  show "is_ascii_digit (digit_char d)" using c assms by (simp add: is_ascii_digit_def)
  show "\<not> is_space (digit_char d)" using c assms by (simp add: is_space_def code_def)
  show "digit_char d \<noteq> CHR ''$''" "digit_char d \<noteq> CHR ''-''" "digit_char d \<noteq> CHR ''+''"
    using c by (auto simp: code_def)
qed

lemma show_nat_ne [simp]: "show_nat n \<noteq> []"
  by (subst show_nat.simps) simp

lemma int_digits_show:
  "int_digits b m (show_nat n @ rest) = int_digits True (m * 10 ^ length (show_nat n) + n) rest"
proof (induction n arbitrary: b m rest rule: show_nat.induct)
  case (1 n)
  show ?case
  proof (cases "n < 10")
    case True
    then show ?thesis using digit_char_facts [of n]
      by (simp add: show_nat.simps [of n] mult.commute)
  next
    case False
    have d: "n mod 10 < 10" by simp
    have len: "length (show_nat n) = Suc (length (show_nat (n div 10)))"
      using False by (simp add: show_nat.simps [of n])
    have "int_digits b m (show_nat n @ rest) =
        int_digits True (m * 10 ^ length (show_nat (n div 10)) + n div 10)
          (digit_char (n mod 10) # rest)"
      using 1 False by (simp add: show_nat.simps [of n])
    also have "\<dots> = int_digits True
        (10 * (m * 10 ^ length (show_nat (n div 10)) + n div 10) + n mod 10) rest"
      using digit_char_facts [OF d] by simp
    also have "10 * (m * 10 ^ length (show_nat (n div 10)) + n div 10) + n mod 10 =
        m * 10 ^ length (show_nat n) + n"
      by (simp add: len)
    finally show ?thesis .
  qed
qed

lemma show_nat_digits: "list_all is_ascii_digit (show_nat n)"
proof (induction n rule: show_nat.induct)
  case (1 n)
  then show ?case using digit_char_facts(1) [of n] digit_char_facts(1) [of "n mod 10"]
    by (simp add: show_nat.simps [of n])
qed

lemma ascii_digit_facts:
  "is_ascii_digit c \<Longrightarrow> \<not> is_space c \<and> c \<noteq> CHR ''$'' \<and> c \<noteq> CHR ''-'' \<and> c \<noteq> CHR ''+''"
  by (auto simp: is_ascii_digit_def is_space_def code_def)

lemma py_int_show: "0 \<le> n \<Longrightarrow> py_int (show_int n) = Some n"
proof -
  assume n: "0 \<le> n"
  obtain c cs where s: "show_nat (nat n) = c # cs" by (cases "show_nat (nat n)") auto
  have c: "is_ascii_digit c" using show_nat_digits [of "nat n"] s by simp
  have "list_all (\<lambda>c. \<not> is_space c) (c # cs)"
    using show_nat_digits [of "nat n"] ascii_digit_facts unfolding s list_all_iff by blast
  then have st: "strip (c # cs) = c # cs" by (rule strip_fixed)
  have "int_digits False 0 (c # cs) = Some (nat n)"
    using int_digits_show [of False 0 "nat n" "[]"] s by simp
  then show ?thesis using n s st ascii_digit_facts [OF c]
    by (simp add: py_int_def show_int_def)
qed

lemma show_int_no_dollar: "0 \<le> n \<Longrightarrow> CHR ''$'' \<notin> set (show_int n)"
  using show_nat_digits [of "nat n"] ascii_digit_facts by (auto simp: show_int_def list_all_iff)

section \<open>Containment and order\<close>

text \<open>\<open>sub in s\<close>, and \<open>sorted(xs, key=k)\<close> by a string key: code point order, a stable sort.\<close>

definition has_sub :: "string \<Rightarrow> string \<Rightarrow> bool" where
  "has_sub sub s \<longleftrightarrow> sublist sub s"

fun str_less :: "string \<Rightarrow> string \<Rightarrow> bool" where
  "str_less _ [] = False"
| "str_less [] (_ # _) = True"
| "str_less (a # as) (b # bs) = (code a < code b \<or> (code a = code b \<and> str_less as bs))"

fun insert_sorted :: "('v \<Rightarrow> string) \<Rightarrow> 'v \<Rightarrow> 'v list \<Rightarrow> 'v list" where
  "insert_sorted k x [] = [x]"
| "insert_sorted k x (y # ys) =
     (if str_less (k y) (k x) then y # insert_sorted k x ys else x # y # ys)"

definition sort_by :: "('v \<Rightarrow> string) \<Rightarrow> 'v list \<Rightarrow> 'v list" where
  "sort_by k xs = foldr (insert_sorted k) xs []"

lemma str_less_irrefl [simp]: "\<not> str_less a a"
  by (induction a) auto

lemma str_less_trans: "str_less a b \<Longrightarrow> str_less b c \<Longrightarrow> str_less a c"
proof (induction a b arbitrary: c rule: str_less.induct)
  case (2 x xs)
  then show ?case by (cases c) auto
next
  case (3 a as b bs)
  then show ?case by (cases c) auto
qed simp

lemma str_less_total: "str_less a b \<or> a = b \<or> str_less b a"
proof (induction a b rule: str_less.induct)
  case (1 a)
  then show ?case by (cases a) auto
qed (auto simp: code_def)

lemma str_less_asym: "str_less a b \<Longrightarrow> \<not> str_less b a"
  using str_less_trans str_less_irrefl by blast

definition sorted_by :: "('v \<Rightarrow> string) \<Rightarrow> 'v list \<Rightarrow> bool" where
  "sorted_by k xs \<longleftrightarrow> sorted_wrt (\<lambda>x y. \<not> str_less (k y) (k x)) xs"

lemma insert_sorted_set [simp]: "set (insert_sorted k x xs) = insert x (set xs)"
  by (induction xs) auto

lemma insert_sorted_length [simp]: "length (insert_sorted k x xs) = Suc (length xs)"
  by (induction xs) auto

lemma insert_sorted_distinct:
  "distinct (map k (insert_sorted k x xs)) \<longleftrightarrow> k x \<notin> k ` set xs \<and> distinct (map k xs)"
  by (induction xs) auto

lemma insert_sorted_sorted:
  assumes "sorted_by k xs"
  shows "sorted_by k (insert_sorted k x xs)"
  using assms
proof (induction xs)
  case (Cons y ys)
  have "\<not> str_less (k z) (k x)" if "z \<in> set ys" "\<not> str_less (k y) (k x)" for z
    using that Cons.prems str_less_trans [of "k z" "k x" "k y"] str_less_total [of "k x" "k y"]
    by (auto simp: sorted_by_def)
  then show ?case using Cons by (auto simp: sorted_by_def dest: str_less_asym)
qed (simp add: sorted_by_def)

lemma insert_sorted_least:
  "list_all (\<lambda>y. \<not> str_less (k y) (k x)) xs \<Longrightarrow> insert_sorted k x xs = x # xs"
  by (cases xs) auto

lemma sort_by_simps [simp]:
  "sort_by k [] = []" "sort_by k (x # xs) = insert_sorted k x (sort_by k xs)"
  by (simp_all add: sort_by_def)

lemma sort_by_set [simp]: "set (sort_by k xs) = set xs"
  by (induction xs) auto

lemma sort_by_length [simp]: "length (sort_by k xs) = length xs"
  by (induction xs) auto

lemma sort_by_distinct [simp]: "distinct (map k (sort_by k xs)) \<longleftrightarrow> distinct (map k xs)"
  by (induction xs) (auto simp: insert_sorted_distinct)

lemma sort_by_sorted: "sorted_by k (sort_by k xs)"
  by (induction xs) (simp_all add: insert_sorted_sorted, simp add: sorted_by_def)

lemma sort_by_fixed: "sorted_by k xs \<Longrightarrow> sort_by k xs = xs"
  by (induction xs) (auto simp: sorted_by_def list_all_iff insert_sorted_least)

end
