(* ===== verification/Access.thy ===== *)
theory Access
  imports PyText
begin

text \<open>
  Who may do what, \<^verbatim>\<open>src/tms/api/permissions.py\<close>, and the error taxonomy the services answer
  with, \<^verbatim>\<open>src/tms/api/errors.py\<close>.
\<close>

section \<open>Roles and capabilities\<close>

definition ROLE_VIEWER :: string where "ROLE_VIEWER = ''viewer''"
definition ROLE_OPERATOR :: string where "ROLE_OPERATOR = ''operator''"
definition ROLE_ADMIN :: string where "ROLE_ADMIN = ''admin''"
definition ALL_ROLES :: "string list" where "ALL_ROLES = [ROLE_VIEWER, ROLE_OPERATOR, ROLE_ADMIN]"

datatype capability =
  VIEW_PORTAL | VIEW_QUERIES | KILL_QUERY | VIEW_HEALTH | MANAGE_HEALTH | VIEW_AUDIT | EXPORT_AUDIT

definition ROLE_CAPABILITIES :: "(string \<times> capability list) list" where
  "ROLE_CAPABILITIES =
     [(ROLE_VIEWER, [VIEW_PORTAL, VIEW_QUERIES, VIEW_HEALTH]),
      (ROLE_OPERATOR, [VIEW_PORTAL, VIEW_QUERIES, VIEW_HEALTH, KILL_QUERY, VIEW_AUDIT]),
      (ROLE_ADMIN, [VIEW_PORTAL, VIEW_QUERIES, VIEW_HEALTH, KILL_QUERY, VIEW_AUDIT, MANAGE_HEALTH,
                    EXPORT_AUDIT])]"

fun capability_name :: "capability \<Rightarrow> string" where
  "capability_name VIEW_PORTAL = ''view_portal''"
| "capability_name VIEW_QUERIES = ''view_queries''"
| "capability_name KILL_QUERY = ''kill_query''"
| "capability_name VIEW_HEALTH = ''view_health''"
| "capability_name MANAGE_HEALTH = ''manage_health''"
| "capability_name VIEW_AUDIT = ''view_audit''"
| "capability_name EXPORT_AUDIT = ''export_audit''"

record principal =
  pr_username :: string
  pr_roles :: "string list"
  pr_ip :: "string option"

definition new_principal :: "string \<Rightarrow> string list \<Rightarrow> string option \<Rightarrow> principal" where
  "new_principal username roles ip =
     \<lparr>pr_username = username,
      pr_roles = filter (\<lambda>r. map_of ROLE_CAPABILITIES r \<noteq> None) roles, pr_ip = ip\<rparr>"

text \<open>The granted set; the code sorts it by name for display, which \<open>in\<close> does not observe.\<close>

definition capabilities :: "principal \<Rightarrow> capability set" where
  "capabilities p = (\<Union>r\<in>set (pr_roles p). set (the (map_of ROLE_CAPABILITIES r)))"

definition can :: "principal \<Rightarrow> capability \<Rightarrow> bool" where
  "can p c \<longleftrightarrow> c \<in> capabilities p"

definition capabilities_for :: "string list \<Rightarrow> capability set" where
  "capabilities_for roles = capabilities (new_principal ''_'' roles None)"

lemmas role_defs = ROLE_VIEWER_def ROLE_OPERATOR_def ROLE_ADMIN_def

lemma can_iff:
  "can (new_principal u roles ip) c \<longleftrightarrow>
     (\<exists>r\<in>set roles. \<exists>cs. map_of ROLE_CAPABILITIES r = Some cs \<and> c \<in> set cs)"
  by (auto simp: can_def capabilities_def new_principal_def) blast

lemma role_grants:
  "(\<exists>cs. map_of ROLE_CAPABILITIES r = Some cs \<and> c \<in> set cs) \<longleftrightarrow>
     r = ROLE_VIEWER \<and> c \<in> {VIEW_PORTAL, VIEW_QUERIES, VIEW_HEALTH} \<or>
     r = ROLE_OPERATOR \<and> c \<in> {VIEW_PORTAL, VIEW_QUERIES, VIEW_HEALTH, KILL_QUERY, VIEW_AUDIT} \<or>
     r = ROLE_ADMIN"
  by (cases c) (auto simp: ROLE_CAPABILITIES_def role_defs)

lemma can_by_role:
  "can (new_principal u roles ip) c \<longleftrightarrow>
     ROLE_VIEWER \<in> set roles \<and> c \<in> {VIEW_PORTAL, VIEW_QUERIES, VIEW_HEALTH} \<or>
     ROLE_OPERATOR \<in> set roles \<and> c \<in> {VIEW_PORTAL, VIEW_QUERIES, VIEW_HEALTH, KILL_QUERY, VIEW_AUDIT} \<or>
     ROLE_ADMIN \<in> set roles"
  unfolding can_iff role_grants by blast

lemma can_manage_health [simp]:
  "can (new_principal u roles ip) MANAGE_HEALTH \<longleftrightarrow> ROLE_ADMIN \<in> set roles"
  by (simp add: can_by_role)

lemma capabilities_mono:
  "set roles \<subseteq> set roles' \<Longrightarrow> capabilities_for roles \<subseteq> capabilities_for roles'"
  by (auto simp: capabilities_for_def capabilities_def new_principal_def)

section \<open>Errors of the API\<close>

datatype api_kind =
    ApiInternal | Unauthenticated | Forbidden | ReasonRequiredError | NotFound
  | UpstreamUnavailable | AuditUnavailableError | InvalidRequest | TooManyAttempts

fun error_code :: "api_kind \<Rightarrow> string" where
  "error_code ApiInternal = ''INTERNAL_ERROR''"
| "error_code Unauthenticated = ''UNAUTHENTICATED''"
| "error_code Forbidden = ''FORBIDDEN''"
| "error_code ReasonRequiredError = ''REASON_REQUIRED''"
| "error_code NotFound = ''NOT_FOUND''"
| "error_code UpstreamUnavailable = ''UPSTREAM_UNAVAILABLE''"
| "error_code AuditUnavailableError = ''AUDIT_UNAVAILABLE''"
| "error_code InvalidRequest = ''INVALID_REQUEST''"
| "error_code TooManyAttempts = ''TOO_MANY_ATTEMPTS''"

fun error_status :: "api_kind \<Rightarrow> nat" where
  "error_status ApiInternal = 500"
| "error_status Unauthenticated = 401"
| "error_status Forbidden = 403"
| "error_status ReasonRequiredError = 400"
| "error_status NotFound = 404"
| "error_status UpstreamUnavailable = 503"
| "error_status AuditUnavailableError = 503"
| "error_status InvalidRequest = 400"
| "error_status TooManyAttempts = 429"

record api_error =
  err_kind :: api_kind
  err_message :: string
  err_request_id :: "string option"
  err_advice :: "string option"

definition opt_field :: "string \<Rightarrow> string option \<Rightarrow> (string \<times> string) list" where
  "opt_field k v = (case v of None \<Rightarrow> [] | Some s \<Rightarrow> if s = [] then [] else [(k, s)])"

definition to_payload :: "api_error \<Rightarrow> (string \<times> (string \<times> string) list) list" where
  "to_payload e =
     [(''error'', [(''code'', error_code (err_kind e)), (''message'', err_message e)] @
        opt_field ''request_id'' (err_request_id e) @ opt_field ''advice'' (err_advice e))]"

text \<open>The code tells the kinds apart even where the HTTP status does not.\<close>

lemma error_code_inj: "error_code k = error_code k' \<longleftrightarrow> k = k'"
  by (cases k; cases k') simp_all

lemma payload_code: "map_of (the (map_of (to_payload e) ''error'')) ''code'' = Some (error_code (err_kind e))"
  by (simp add: to_payload_def)

end
