(* ===== verification/Inventory.thy ===== *)
theory Inventory
  imports PyText
begin

text \<open>
  Reading an Ansible inventory, \<^verbatim>\<open>src/tms/fleet/inventory.py\<close>: the section and host patterns,
  the two-table parse, the walk through \<open>:children\<close> groups, and the degraded read of a file.
\<close>

definition ROLE_COORDINATOR :: string where "ROLE_COORDINATOR = ''coordinator''"
definition ROLE_WORKER :: string where "ROLE_WORKER = ''worker''"

definition ROLE_GROUPS :: "(string \<times> string) list" where
  "ROLE_GROUPS = [(''coordinator'', ROLE_COORDINATOR), (''coordinators'', ROLE_COORDINATOR),
                  (''worker'', ROLE_WORKER), (''workers'', ROLE_WORKER)]"

record node =
  node_host :: string
  node_role :: string
  node_cluster :: string
  node_variables :: "(string \<times> string) list"

text \<open>\<open>self.variables.get("ansible_host") or self.host\<close>\<close>

definition node_address :: "node \<Rightarrow> string" where
  "node_address n =
     (case map_of (node_variables n) ''ansible_host'' of
        None \<Rightarrow> node_host n
      | Some a \<Rightarrow> if a = [] then node_host n else a)"

text \<open>The pattern \<open>_SECTION\<close> on a stripped line: an opening bracket, a name without brackets or
  colons, optionally a colon and a word, a closing bracket at the end. The result is
  \<open>group(1).strip().lower()\<close> and \<open>(group(2) or "hosts").lower()\<close>.\<close>

definition match_section :: "string \<Rightarrow> (string \<times> string) option" where
  "match_section line =
     (case line of
        [] \<Rightarrow> None
      | c # body \<Rightarrow>
          (if c \<noteq> CHR ''['' then None
           else
             (let name = takeWhile (\<lambda>c. c \<noteq> CHR '':'' \<and> c \<noteq> CHR '']'') body;
                  rest = dropWhile (\<lambda>c. c \<noteq> CHR '':'' \<and> c \<noteq> CHR '']'') body
              in if name = [] then None
                 else if rest = '']'' then Some (lower (strip name), ''hosts'')
                 else if rest \<noteq> [] \<and> hd rest = CHR '':'' \<and> tl rest \<noteq> [] \<and> last rest = CHR '']''
                 then (let kind = strip (butlast (tl rest))
                       in if kind \<noteq> [] \<and> list_all is_word_char kind
                          then Some (lower (strip name), lower kind) else None)
                 else None)))"

text \<open>The pattern \<open>_HOST\<close>.\<close>

definition host_char :: "char \<Rightarrow> bool" where
  "host_char c \<longleftrightarrow> is_ascii_alnum c \<or> c \<in> set ''_.:-''"

fun host_variables :: "string list \<Rightarrow> (string \<times> string) list \<Rightarrow> (string \<times> string) list" where
  "host_variables [] vars = vars"
| "host_variables (tok # toks) vars =
     (case partition_at (CHR ''='') tok of
        (key, found, val) \<Rightarrow>
          host_variables toks (if found then dset (strip key) (strip val) vars else vars))"

type_synonym host_entry = "string \<times> (string \<times> string) list"

record parse_state =
  ps_hosts :: "(string \<times> host_entry list) list"
  ps_children :: "(string \<times> string list) list"
  ps_group :: "string option"
  ps_kind :: "string"

definition append_at :: "string \<Rightarrow> 'v \<Rightarrow> (string \<times> 'v list) list \<Rightarrow> (string \<times> 'v list) list" where
  "append_at k v d = dset k ((case map_of d k of None \<Rightarrow> [] | Some vs \<Rightarrow> vs) @ [v]) d"

text \<open>The body of the loop over the lines.\<close>

definition parse_line :: "string \<Rightarrow> parse_state \<Rightarrow> parse_state" where
  "parse_line raw ps =
     (let line = strip (before (CHR '';'') (before (CHR ''#'') raw))
      in if line = [] then ps
         else case match_section line of
                Some (g, k) \<Rightarrow> ps\<lparr>ps_group := Some g, ps_kind := k\<rparr>
              | None \<Rightarrow>
                  (case ps_group ps of
                     None \<Rightarrow> ps
                   | Some g \<Rightarrow>
                       (if ps_kind ps = ''children''
                        then ps\<lparr>ps_children := append_at g (lower (strip line)) (ps_children ps)\<rparr>
                        else if ps_kind ps \<noteq> ''hosts'' then ps
                        else (let host = takeWhile host_char line
                              in if host = [] then ps
                                 else ps\<lparr>ps_hosts := append_at g
                                        (host, host_variables
                                           (split_ws (drop (length host) line)) [])
                                        (ps_hosts ps)\<rparr>))))"

definition parse_lines :: "string list \<Rightarrow> parse_state" where
  "parse_lines ls = fold parse_line ls
     \<lparr>ps_hosts = [], ps_children = [], ps_group = None, ps_kind = ''hosts''\<rparr>"

definition get_list :: "(string \<times> 'v list) list \<Rightarrow> string \<Rightarrow> 'v list" where
  "get_list d k = (case map_of d k of None \<Rightarrow> [] | Some vs \<Rightarrow> vs)"

text \<open>\<open>collect\<close>: depth first through \<open>:children\<close> with one shared set of groups already seen. The
  call on a group, followed by the calls on the siblings still to come, is a work list.\<close>

definition groups_in_play :: "(string \<times> string list) list \<Rightarrow> string list \<Rightarrow> string set" where
  "groups_in_play children work = (\<Union> (set ` snd ` set children)) \<union> set work"

function collect ::
    "(string \<times> host_entry list) list \<Rightarrow> (string \<times> string list) list \<Rightarrow>
       string list \<Rightarrow> string list \<Rightarrow> host_entry list" where
  "collect hosts children [] seen = []"
| "collect hosts children (n # work) seen =
     (if n \<in> set seen then collect hosts children work seen
      else get_list hosts n @
           collect hosts children (get_list children n @ work) (n # seen))"
  by pat_completeness auto

lemma get_list_in_play: "set (get_list children n) \<subseteq> \<Union> (set ` snd ` set children)"
proof (cases "map_of children n")
  case (Some vs)
  then have "(n, vs) \<in> set children" by (rule map_of_SomeD)
  then show ?thesis using Some by (force simp: get_list_def)
qed (simp add: get_list_def)

lemma finite_in_play [simp]: "finite (groups_in_play children work)"
  by (auto simp: groups_in_play_def)

termination collect
proof (relation "measures [\<lambda>(hosts, children, work, seen).
           card (groups_in_play children work - set seen), \<lambda>(hosts, children, work, seen). length work]",
    goal_cases)
  case (2 hosts children n work seen)
  have "groups_in_play children work - set seen = groups_in_play children (n # work) - set seen"
    using 2 by (auto simp: groups_in_play_def)
  then show ?case by simp
next
  case (3 hosts children n work seen)
  have "groups_in_play children (get_list children n @ work) - set (n # seen)
        \<subset> groups_in_play children (n # work) - set seen"
    using 3 get_list_in_play [of children n] by (auto simp: groups_in_play_def)
  then have "card (groups_in_play children (get_list children n @ work) - set (n # seen))
        < card (groups_in_play children (n # work) - set seen)"
    by (intro psubset_card_mono) auto
  then show ?case by simp
qed simp

declare collect.simps [simp del]

text \<open>The last loop: entries of the role groups in order, each (host, role) once.\<close>

fun add_nodes ::
    "string \<Rightarrow> string \<Rightarrow> host_entry list \<Rightarrow> (string \<times> string) list \<Rightarrow> node list \<Rightarrow>
       (string \<times> string) list \<times> node list" where
  "add_nodes cl role [] seen nodes = (seen, nodes)"
| "add_nodes cl role ((h, vars) # es) seen nodes =
     (if (h, role) \<in> set seen then add_nodes cl role es seen nodes
      else add_nodes cl role es ((h, role) # seen)
             (nodes @ [\<lparr>node_host = h, node_role = role, node_cluster = cl, node_variables = vars\<rparr>]))"

fun nodes_of_groups ::
    "string \<Rightarrow> parse_state \<Rightarrow> (string \<times> string) list \<Rightarrow> (string \<times> string) list \<Rightarrow> node list \<Rightarrow> node list" where
  "nodes_of_groups cl ps [] seen nodes = nodes"
| "nodes_of_groups cl ps ((g, role) # gs) seen nodes =
     (case add_nodes cl role (collect (ps_hosts ps) (ps_children ps) [g] []) seen nodes of
        (seen', nodes') \<Rightarrow> nodes_of_groups cl ps gs seen' nodes')"

definition parse_inventory :: "string \<Rightarrow> string \<Rightarrow> node list" where
  "parse_inventory text cl =
     nodes_of_groups cl (parse_lines (splitlines text)) ROLE_GROUPS [] []"

text \<open>What opening and decoding the file can come to; only \<open>OSError\<close> is caught.\<close>

datatype read_result = Content string | OSError_read | DecodeError_read

definition load_inventory :: "(string \<Rightarrow> read_result) \<Rightarrow> string \<Rightarrow> string \<Rightarrow> unit + node list" where
  "load_inventory read_file path cl =
     (case read_file path of
        Content text \<Rightarrow> Inr (parse_inventory text cl)
      | OSError_read \<Rightarrow> Inr []
      | DecodeError_read \<Rightarrow> Inl ())"

end
