(* ===== verification/Nodes.thy ===== *)
theory Nodes
  imports Inventory
begin

text \<open>
  The node list: \<^verbatim>\<open>src/tms/fleet/nodes.py\<close> (validation, discovery rows, what a scan changes,
  the rendered inventory), \<^verbatim>\<open>src/tms/fleet/discovery.py\<close> (matching the inventory against the
  coordinator's view), \<^verbatim>\<open>src/tms/fleet/nodestore.py\<close> (\<open>InMemoryNodeRepository\<close>) and the plan of
  \<^verbatim>\<open>src/tms/fleet/importer.py\<close>.
\<close>

definition SOURCE_DISCOVERED :: string where "SOURCE_DISCOVERED = ''discovered''"
definition SOURCE_MANUAL :: string where "SOURCE_MANUAL = ''manual''"

section \<open>Discovery\<close>

text \<open>\<open>host_of\<close>; None is the \<open>ValueError\<close> of \<open>urlsplit\<close>.\<close>

definition host_of :: "string option \<Rightarrow> string option" where
  "host_of uri =
     (case uri of
        None \<Rightarrow> Some []
      | Some u \<Rightarrow>
          (if u = [] then Some []
           else (let text = strip u
                 in map_option lower
                      (url_hostname (if has_sub ''://'' text then text else ''//'' @ text)))))"

record runtime_row =
  rr_node_id :: "string option"
  rr_http_uri :: "string option"
  rr_version :: "string option"
  rr_coordinator :: bool
  rr_state :: "string option"

record node_row =
  nr_cluster :: string
  nr_host :: string
  nr_address :: "string option"
  nr_role :: string
  nr_source :: string
  nr_reason :: "string option"
  nr_node_id :: "string option"
  nr_version :: "string option"
  nr_last_seen_at :: "nat option"

record found_node =
  fn_cluster :: string
  fn_host :: string
  fn_address :: string
  fn_role :: string
  fn_node_id :: "string option"
  fn_version :: "string option"
  fn_state :: "string option"

text \<open>\<open>clean(value) or None\<close>\<close>

definition clean_opt :: "string option \<Rightarrow> string option" where
  "clean_opt v = (case v of None \<Rightarrow> None | Some s \<Rightarrow> if strip s = [] then None else Some (strip s))"

fun from_discovery :: "runtime_row list \<Rightarrow> string \<Rightarrow> unit + found_node list" where
  "from_discovery [] cl = Inr []"
| "from_discovery (row # rows) cl =
     (case host_of (rr_http_uri row) of
        None \<Rightarrow> Inl ()
      | Some host \<Rightarrow>
          (case from_discovery rows cl of
             Inl e \<Rightarrow> Inl e
           | Inr found \<Rightarrow>
               Inr (if host = [] then found
                    else \<lparr>fn_cluster = cl, fn_host = host, fn_address = host,
                          fn_role = (if rr_coordinator row then ROLE_COORDINATOR else ROLE_WORKER),
                          fn_node_id = clean_opt (rr_node_id row),
                          fn_version = clean_opt (rr_version row),
                          fn_state = clean_opt (rr_state row)\<rparr> # found)))"

section \<open>A hand-entered node\<close>

datatype node_exn =
    UnknownCluster string | BadRole | HostMissing | BadHost string | BadAddress string

record valid_node =
  vn_cluster :: string
  vn_host :: string
  vn_address :: string
  vn_role :: string

text \<open>\<open>_HOSTNAME.match(s)\<close>: the whole of a string that does not end in a line feed.\<close>

definition hostname_ok :: "string \<Rightarrow> bool" where
  "hostname_ok s \<longleftrightarrow> s \<noteq> [] \<and> list_all host_char s"

definition clean :: "string option \<Rightarrow> string" where
  "clean v = (case v of None \<Rightarrow> [] | Some s \<Rightarrow> strip s)"

definition validate_node ::
    "string option \<Rightarrow> string option \<Rightarrow> string option \<Rightarrow> string option \<Rightarrow> string list \<Rightarrow> node_exn + valid_node" where
  "validate_node cl0 host0 address0 role0 known =
     (let cl = clean cl0; host = clean host0; address = clean address0; role = lower (clean role0)
      in if known \<noteq> [] \<and> cl \<notin> set known then Inl (UnknownCluster cl)
         else if role \<notin> {ROLE_COORDINATOR, ROLE_WORKER} then Inl BadRole
         else if host = [] then Inl HostMissing
         else if \<not> hostname_ok host then Inl (BadHost host)
         else (let addr = (if address = [] then host else address)
               in if \<not> hostname_ok addr then Inl (BadAddress addr)
                  else Inr \<lparr>vn_cluster = cl, vn_host = host, vn_address = addr, vn_role = role\<rparr>))"

section \<open>What a scan changes\<close>

text \<open>\<open>row.get("address") or row["host"]\<close>\<close>

definition address_or_host :: "node_row \<Rightarrow> string" where
  "address_or_host row = (case nr_address row of None \<Rightarrow> nr_host row
                          | Some a \<Rightarrow> if a = [] then nr_host row else a)"

definition setdefault :: "'k \<Rightarrow> 'v \<Rightarrow> ('k \<times> 'v) list \<Rightarrow> ('k \<times> 'v) list" where
  "setdefault k v d = (case map_of d k of None \<Rightarrow> dset k v d | Some _ \<Rightarrow> d)"

fun index_hosts :: "node_row list \<Rightarrow> (string \<times> node_row) list \<Rightarrow> (string \<times> node_row) list" where
  "index_hosts [] d = d"
| "index_hosts (row # rows) d =
     index_hosts rows (setdefault (address_or_host row) row (dset (nr_host row) row d))"

record node_change =
  nc_cluster :: string
  nc_host :: string
  nc_address :: string
  nc_role :: string
  nc_source :: string
  nc_node_id :: "string option"
  nc_version :: "string option"
  nc_clears_reason :: bool

text \<open>What is written on a listed row that answered; \<open>nc_clears_reason\<close> stands for the key
  \<open>reason\<close> being set to None.\<close>

definition change_for :: "found_node \<Rightarrow> node_row \<Rightarrow> node_change" where
  "change_for n current =
     \<lparr>nc_cluster = fn_cluster n, nc_host = nr_host current,
      nc_address = (case nr_address current of None \<Rightarrow> fn_address n
                    | Some a \<Rightarrow> if a = [] then fn_address n else a),
      nc_role = fn_role n, nc_source = SOURCE_DISCOVERED, nc_node_id = fn_node_id n,
      nc_version = fn_version n,
      nc_clears_reason = (nr_source current = SOURCE_MANUAL)\<rparr>"

fun match_found ::
    "(string \<times> node_row) list \<Rightarrow> found_node list \<Rightarrow> found_node list \<times> node_change list" where
  "match_found by_host [] = ([], [])"
| "match_found by_host (n # ns) =
     (case match_found by_host ns of
        (added, touched) \<Rightarrow>
          (case map_of by_host (fn_host n) of
             None \<Rightarrow> (n # added, touched)
           | Some current \<Rightarrow> (added, change_for n current # touched)))"

record refresh_plan =
  rp_added :: "found_node list"
  rp_touched :: "node_change list"
  rp_silent :: "node_row list"

definition plan_refresh :: "node_row list \<Rightarrow> found_node list \<Rightarrow> refresh_plan" where
  "plan_refresh existing found =
     (case match_found (index_hosts existing []) found of
        (added, touched) \<Rightarrow>
          \<lparr>rp_added = added, rp_touched = touched,
           rp_silent = filter (\<lambda>row. nr_host row \<notin> nc_host ` set touched) existing\<rparr>)"

section \<open>The rendered inventory\<close>

definition row_line :: "node_row \<Rightarrow> string" where
  "row_line row =
     (let address = address_or_host row
      in if address = nr_host row then nr_host row
         else nr_host row @ '' ansible_host='' @ address)"

definition group_lines :: "string \<Rightarrow> node_row list \<Rightarrow> string list" where
  "group_lines role rows =
     (''['' @ role @ '']'') # map row_line (filter (\<lambda>r. nr_role r = role) rows) @ [[]]"

definition render_lines :: "string \<Rightarrow> node_row list \<Rightarrow> string list" where
  "render_lines cl rows =
     [''# Generated by TMS from the node list. Do not edit - the next change'',
      ''# in the console overwrites this file. Cluster: '' @ cl, []]
     @ group_lines ROLE_COORDINATOR rows @ group_lines ROLE_WORKER rows"

definition render_inventory :: "string \<Rightarrow> node_row list \<Rightarrow> string" where
  "render_inventory cl rows = join [CHR 0x0A] (render_lines cl rows)"

text \<open>\<open>describe_all\<close>: each row with the two judgements \<open>answering\<close> and \<open>hand_entered\<close>.\<close>

definition scanned_at :: "node_row list \<Rightarrow> nat option" where
  "scanned_at rows =
     (case List.map_filter nr_last_seen_at rows of [] \<Rightarrow> None | t # ts \<Rightarrow> Some (foldl max t ts))"

definition describe_all :: "node_row list \<Rightarrow> (node_row \<times> bool \<times> bool) list" where
  "describe_all rows =
     map (\<lambda>row. (row, nr_last_seen_at row \<noteq> None \<and> nr_last_seen_at row = scanned_at rows,
                 nr_source row = SOURCE_MANUAL)) rows"

section \<open>Comparing the inventory with the coordinator\<close>

fun joined_hosts :: "runtime_row list \<Rightarrow> (string \<times> runtime_row) list \<Rightarrow> unit + (string \<times> runtime_row) list" where
  "joined_hosts [] d = Inr d"
| "joined_hosts (row # rows) d =
     (case host_of (rr_http_uri row) of
        None \<Rightarrow> Inl ()
      | Some h \<Rightarrow> joined_hosts rows (if h = [] then d else dset h row d))"

record listed_node =
  ln_host :: "string option"
  ln_address :: "string option"

text \<open>The candidates are a Python set of at most two names; \<open>address_first\<close> is the order the
  iteration over it happens to take.\<close>

definition candidates :: "bool \<Rightarrow> listed_node \<Rightarrow> (string list) option" where
  "candidates address_first n =
     (case (host_of (ln_address n), host_of (ln_host n)) of
        (Some a, Some h) \<Rightarrow>
          Some (filter (\<lambda>x. x \<noteq> []) (remdups (if address_first then [a, h] else [h, a])))
      | _ \<Rightarrow> None)"

fun match_listed ::
    "bool \<Rightarrow> (string \<times> runtime_row) list \<Rightarrow> listed_node list \<Rightarrow> unit + (listed_node list \<times> string list)" where
  "match_listed o1 joined [] = Inr ([], [])"
| "match_listed o1 joined (n # ns) =
     (case candidates o1 n of
        None \<Rightarrow> Inl ()
      | Some cs \<Rightarrow>
          (case match_listed o1 joined ns of
             Inl e \<Rightarrow> Inl e
           | Inr (unjoined, matched) \<Rightarrow>
               (case find (\<lambda>h. h \<in> fst ` set joined) cs of
                  None \<Rightarrow> Inr (n # unjoined, matched)
                | Some h \<Rightarrow> Inr (unjoined, h # matched))))"

record comparison =
  cmp_unjoined :: "listed_node list"
  cmp_unexpected :: "runtime_row list"
  cmp_joined_count :: nat
  cmp_inventory_count :: nat

definition compare_nodes :: "bool \<Rightarrow> listed_node list \<Rightarrow> runtime_row list \<Rightarrow> unit + comparison" where
  "compare_nodes o1 inventory joined =
     (case joined_hosts joined [] of
        Inl e \<Rightarrow> Inl e
      | Inr jh \<Rightarrow>
          (case match_listed o1 jh inventory of
             Inl e \<Rightarrow> Inl e
           | Inr (unjoined, matched) \<Rightarrow>
               Inr \<lparr>cmp_unjoined = unjoined,
                    cmp_unexpected = map snd (filter (\<lambda>(h, row). h \<notin> set matched) (sort_by fst jh)),
                    cmp_joined_count = length jh,
                    cmp_inventory_count = length inventory\<rparr>))"

text \<open>\<open>counts_disagree\<close>, on the values as integers (None: missing; a list size of 0 is falsy).\<close>

definition counts_disagree :: "int option \<Rightarrow> int option \<Rightarrow> bool" where
  "counts_disagree active listed =
     (case (active, listed) of
        (Some a, Some l) \<Rightarrow> l \<noteq> 0 \<and> a < l
      | _ \<Rightarrow> False)"

section \<open>The node table\<close>

definition find_row :: "string \<Rightarrow> string \<Rightarrow> node_row list \<Rightarrow> node_row option" where
  "find_row cl host rows = find (\<lambda>r. nr_cluster r = cl \<and> nr_host r = host) rows"

definition list_rows :: "string option \<Rightarrow> node_row list \<Rightarrow> node_row list" where
  "list_rows cl rows =
     sort_by nr_cluster (sort_key (\<lambda>r. if nr_role r = ROLE_COORDINATOR then 0 else 1 :: nat)
       (sort_by nr_host (filter (\<lambda>r. cl = None \<or> Some (nr_cluster r) = cl) rows)))"

definition add_row :: "node_row \<Rightarrow> node_row list \<Rightarrow> string + node_row list" where
  "add_row row rows =
     (if find_row (nr_cluster row) (nr_host row) rows \<noteq> None then Inl (nr_host row)
      else Inr (rows @ [row]))"

fun touch_row :: "string \<Rightarrow> string \<Rightarrow> (node_row \<Rightarrow> node_row) \<Rightarrow> node_row list \<Rightarrow> node_row list" where
  "touch_row cl host f [] = []"
| "touch_row cl host f (r # rs) =
     (if nr_cluster r = cl \<and> nr_host r = host then f r # rs else r # touch_row cl host f rs)"

definition remove_row :: "string \<Rightarrow> string \<Rightarrow> node_row list \<Rightarrow> bool \<times> node_row list" where
  "remove_row cl host rows =
     (case find_row cl host rows of None \<Rightarrow> (False, rows) | Some r \<Rightarrow> (True, remove1 r rows))"

text \<open>\<open>importer.plan\<close>: the clusters in name order; a file that cannot be decoded ends the whole plan.\<close>

record import_result =
  ir_add :: "(string \<times> node list) list"
  ir_skip :: "(string \<times> string list) list"
  ir_unreadable :: "(string \<times> string) list"

fun import_clusters ::
    "(string \<Rightarrow> bool) \<Rightarrow> (string \<Rightarrow> read_result) \<Rightarrow> (string \<times> string list) list \<Rightarrow>
       (string \<times> string) list \<Rightarrow> import_result \<Rightarrow> unit + import_result" where
  "import_clusters isfile read_file existing [] acc = Inr acc"
| "import_clusters isfile read_file existing ((cl, path) # rest) acc =
     (if \<not> isfile path
      then import_clusters isfile read_file existing rest
             (acc\<lparr>ir_unreadable := ir_unreadable acc @ [(cl, path)]\<rparr>)
      else
        (let known = (case map_of existing cl of None \<Rightarrow> [] | Some hs \<Rightarrow> hs)
         in case load_inventory read_file path cl of
              Inl e \<Rightarrow> Inl e
            | Inr found \<Rightarrow>
                import_clusters isfile read_file existing rest
                  (acc\<lparr>ir_add := dset cl (filter (\<lambda>n. node_host n \<notin> set known) found) (ir_add acc),
                       ir_skip := dset cl (map node_host (filter (\<lambda>n. node_host n \<in> set known) found))
                                       (ir_skip acc)\<rparr>)))"

definition import_plan ::
    "(string \<Rightarrow> bool) \<Rightarrow> (string \<Rightarrow> read_result) \<Rightarrow> (string \<times> string) list \<Rightarrow>
       (string \<times> string list) list \<Rightarrow> unit + import_result" where
  "import_plan isfile read_file inventories existing =
     import_clusters isfile read_file existing (sort_by fst inventories)
       \<lparr>ir_add = [], ir_skip = [], ir_unreadable = []\<rparr>"

end
