(* ===== verification/Executor.thy ===== *)
theory Executor
  imports Nodes Machines
begin

text \<open>
  How the restart step happens: \<^verbatim>\<open>src/tms/ops/executor.py\<close> (the vocabulary, \<open>ManualExecutor\<close>,
  \<open>build_executor\<close>) and \<^verbatim>\<open>src/tms/ops/ansible.py\<close> (\<open>AnsibleRestartExecutor\<close>). The host's file
  system is the parameter \<open>host\<close>; the playbook process works in the background, so what its
  thread does to a run - a line of output, the end - is an event of its own. The runner is
  \<open>stream_command\<close>, whose results carry an exit code, a start error or the time-out mark, and no
  collected output. The time-out is a whole number of seconds.
\<close>

datatype exec_state = PENDING_OPERATOR | RUNNING | SUCCEEDED | FAILED | UNKNOWN

text \<open>\<open>os.path.isabs\<close> and \<open>os.path.join\<close> with a relative second part.\<close>

definition isabs :: "string \<Rightarrow> bool" where
  "isabs p \<longleftrightarrow> p \<noteq> [] \<and> hd p = CHR ''/''"

definition path_join :: "string \<Rightarrow> string \<Rightarrow> string" where
  "path_join d p = (if d = [] \<or> last d = CHR ''/'' then d @ p else d @ ''/'' @ p)"

record host =
  is_file :: "string \<Rightarrow> bool"
  on_path :: "string \<Rightarrow> bool"
  is_dir :: "string \<Rightarrow> bool"
  may_write :: "string \<Rightarrow> bool"
  makedirs_error :: "string \<Rightarrow> string option"
  read_file :: "string \<Rightarrow> read_result"

record ansible_settings =
  playbook :: string
  inventories :: "string pydict"
  binary :: string
  timeout_seconds :: nat
  extra_vars :: "string pydict"
  state_dir :: string

datatype ansible_exn =
    RelativePlaybook
  | PlaybookMissing string
  | RelativeInventory string
  | InventoryMissing string string
  | BinaryMissing string
  | StateDirNotWritable string
  | NoKnownHosts string string
  | UnknownCluster string
  | EmptyInventory string string
  | UndecodableInventory string   \<comment> \<open>\<open>UnicodeDecodeError\<close> out of \<open>load_inventory\<close>\<close>

definition writable_dir :: "host \<Rightarrow> string \<Rightarrow> bool" where
  "writable_dir h path \<longleftrightarrow> path \<noteq> [] \<and> is_dir h path \<and> may_write h path"

definition ssh_directory :: "string \<Rightarrow> string" where
  "ssh_directory dir = path_join dir ''.ssh''"

definition known_hosts_path :: "string \<Rightarrow> string" where
  "known_hosts_path dir = path_join (ssh_directory dir) ''known_hosts''"

definition DEFAULT_SSH_ARGS :: "string list" where
  "DEFAULT_SSH_ARGS = [''-C'', ''-o'', ''ControlMaster=auto'', ''-o'', ''ControlPersist=60s'']"

definition ansible_environment :: "string \<Rightarrow> string pydict \<Rightarrow> string pydict" where
  "ansible_environment dir os_environ =
     dset ''ANSIBLE_SSH_ARGS'' (join '' '' (DEFAULT_SSH_ARGS @
            [''-o'', ''UserKnownHostsFile='' @ known_hosts_path dir]))
      (dset ''ANSIBLE_LOCAL_TEMP'' (path_join (path_join dir ''.ansible'') ''tmp'')
        (dset ''ANSIBLE_HOME'' (path_join dir ''.ansible'')
          (dset ''HOME'' dir os_environ)))"

record run =
  run_state :: exec_state
  run_cluster :: string
  run_lines :: "string list"
  run_command :: "string list"
  run_error :: "string option"

record ansible_executor =
  settings :: ansible_settings
  runs :: "run pydict"

fun check_inventories :: "host \<Rightarrow> string pydict \<Rightarrow> ansible_exn option" where
  "check_inventories h [] = None"
| "check_inventories h ((c, path) # rest) =
     (if \<not> isabs path then Some (RelativeInventory c)
      else if \<not> is_file h path then Some (InventoryMissing c path)
      else check_inventories h rest)"

definition new_ansible :: "host \<Rightarrow> ansible_settings \<Rightarrow> ansible_exn + ansible_executor" where
  "new_ansible h s =
     (if playbook s = [] \<or> \<not> isabs (playbook s) then Inl RelativePlaybook
      else if \<not> is_file h (playbook s) then Inl (PlaybookMissing (playbook s))
      else case check_inventories h (inventories s) of
             Some e \<Rightarrow> Inl e
           | None \<Rightarrow>
               (if \<not> on_path h (binary s) \<and> \<not> is_file h (binary s) then Inl (BinaryMissing (binary s))
                else if \<not> writable_dir h (state_dir s) then Inl (StateDirNotWritable (state_dir s))
                else case makedirs_error h (ssh_directory (state_dir s)) of
                       Some e \<Rightarrow> Inl (NoKnownHosts (ssh_directory (state_dir s)) e)
                     | None \<Rightarrow> Inr \<lparr>settings = s, runs = []\<rparr>))"

definition preflight :: "host \<Rightarrow> string \<Rightarrow> ansible_settings \<Rightarrow> ansible_exn + unit" where
  "preflight h c s =
     (case map_of (inventories s) c of
        None \<Rightarrow> Inl (UnknownCluster c)
      | Some path \<Rightarrow>
          (case load_inventory (read_file h) path c of
             Inl _ \<Rightarrow> Inl (UndecodableInventory path)
           | Inr nodes \<Rightarrow> if nodes = [] then Inl (EmptyInventory path c) else Inr ()))"

definition build_command :: "host \<Rightarrow> string \<Rightarrow> ansible_settings \<Rightarrow> ansible_exn + string list" where
  "build_command h c s =
     (case preflight h c s of
        Inl e \<Rightarrow> Inl e
      | Inr _ \<Rightarrow>
          Inr ([binary s, ''--inventory'', the (map_of (inventories s) c), playbook s] @
               concat (map (\<lambda>(k, v). [''--extra-vars'', k @ ''='' @ v])
                           (sort_by fst (extra_vars s)))))"

text \<open>\<open>start\<close>: the new executor, and whether a playbook was launched.\<close>

definition ansible_start ::
    "host \<Rightarrow> string \<Rightarrow> string \<Rightarrow> ansible_executor \<Rightarrow> ansible_exn + (exec_state \<times> ansible_executor)" where
  "ansible_start h c sid x =
     (case build_command h c (settings x) of
        Inl e \<Rightarrow> Inl e
      | Inr command \<Rightarrow>
          (let fresh = \<lparr>run_state = RUNNING, run_cluster = c, run_lines = [], run_command = command,
                       run_error = None\<rparr>;
               launched = Inr (RUNNING, x\<lparr>runs := dset sid fresh (runs x)\<rparr>)
           in case map_of (runs x) sid of
                None \<Rightarrow> launched
              | Some existing \<Rightarrow>
                  (if run_state existing \<in> {RUNNING, SUCCEEDED}
                   then Inr (run_state existing, x) else launched)))"

text \<open>The background thread: \<open>collect\<close> for every line, and the end of \<open>work\<close>.\<close>

definition collect_line :: "string \<Rightarrow> string \<Rightarrow> ansible_executor \<Rightarrow> ansible_executor" where
  "collect_line sid line x =
     (case map_of (runs x) sid of
        None \<Rightarrow> x
      | Some r \<Rightarrow> x\<lparr>runs := dset sid (r\<lparr>run_lines := run_lines r @ [line]\<rparr>) (runs x)\<rparr>)"

datatype stream_result = Exited int | NotStarted string | TimedOut

definition finish_run :: "nat \<Rightarrow> stream_result \<Rightarrow> run \<Rightarrow> run" where
  "finish_run timeout res r =
     (case res of
        TimedOut \<Rightarrow> r\<lparr>run_state := FAILED,
          run_error := Some (''the playbook did not finish within '' @ show_nat timeout @ ''s'')\<rparr>
      | Exited rc \<Rightarrow>
          (if rc = 0 then r\<lparr>run_state := SUCCEEDED\<rparr>
           else r\<lparr>run_state := FAILED,
                  run_error := Some (''ansible-playbook exited '' @ show_int rc)\<rparr>)
      | NotStarted e \<Rightarrow> r\<lparr>run_state := FAILED,
          run_error := Some (if e \<noteq> [] then e else ''ansible-playbook exited None'')\<rparr>)"

definition work_done :: "string \<Rightarrow> stream_result \<Rightarrow> ansible_executor \<Rightarrow> ansible_executor" where
  "work_done sid res x =
     (case map_of (runs x) sid of
        None \<Rightarrow> x
      | Some r \<Rightarrow> x\<lparr>runs := dset sid (finish_run (timeout_seconds (settings x)) res r) (runs x)\<rparr>)"

definition ansible_status :: "string \<Rightarrow> ansible_executor \<Rightarrow> exec_state" where
  "ansible_status sid x = (case map_of (runs x) sid of None \<Rightarrow> UNKNOWN | Some r \<Rightarrow> run_state r)"

definition ansible_result :: "string \<Rightarrow> ansible_executor \<Rightarrow> exec_state \<times> run option" where
  "ansible_result sid x =
     (case map_of (runs x) sid of None \<Rightarrow> (UNKNOWN, None) | Some r \<Rightarrow> (run_state r, Some r))"

definition lines_since :: "string \<Rightarrow> int \<Rightarrow> ansible_executor \<Rightarrow> string list" where
  "lines_since sid index x =
     (case map_of (runs x) sid of None \<Rightarrow> [] | Some r \<Rightarrow> drop (nat (max 0 index)) (run_lines r))"

section \<open>Either executor\<close>

datatype executor =
    Manual "string list"          \<comment> \<open>the sequences reported done\<close>
  | Ansible ansible_executor

definition report_done :: "string \<Rightarrow> string list \<Rightarrow> string list" where
  "report_done sid reported = (if sid \<in> set reported then reported else reported @ [sid])"

definition manual_start :: "string \<Rightarrow> string \<Rightarrow> exec_state" where
  "manual_start c sid = PENDING_OPERATOR"

definition manual_status :: "string \<Rightarrow> string list \<Rightarrow> exec_state" where
  "manual_status sid reported = (if sid \<in> set reported then SUCCEEDED else PENDING_OPERATOR)"

fun automated :: "executor \<Rightarrow> bool" where
  "automated (Manual _) = False"
| "automated (Ansible _) = True"

fun exec_preflight :: "host \<Rightarrow> string \<Rightarrow> executor \<Rightarrow> ansible_exn + unit" where
  "exec_preflight h c (Manual _) = Inr ()"
| "exec_preflight h c (Ansible x) = preflight h c (settings x)"

fun exec_start :: "host \<Rightarrow> string \<Rightarrow> string \<Rightarrow> executor \<Rightarrow> ansible_exn + (exec_state \<times> executor)" where
  "exec_start h c sid (Manual m) = Inr (manual_start c sid, Manual m)"
| "exec_start h c sid (Ansible x) =
     (case ansible_start h c sid x of Inl e \<Rightarrow> Inl e | Inr (st, x') \<Rightarrow> Inr (st, Ansible x'))"

fun exec_status :: "string \<Rightarrow> executor \<Rightarrow> exec_state" where
  "exec_status sid (Manual m) = manual_status sid m"
| "exec_status sid (Ansible x) = ansible_status sid x"

definition build_executor :: "host \<Rightarrow> string \<Rightarrow> ansible_settings \<Rightarrow> executor" where
  "build_executor h mode s =
     (if mode \<noteq> ''ansible'' then Manual []
      else case new_ansible h s of Inl _ \<Rightarrow> Manual [] | Inr x \<Rightarrow> Ansible x)"

section \<open>The life of a run\<close>

text \<open>A start call sees the host as it is at that moment.\<close>

datatype exec_event =
    StartCall host string string            \<comment> \<open>host, cluster, sequence id\<close>
  | OutputLine string string
  | PlaybookEnded string stream_result
  | ProcessRestarted

fun exec_event_step :: "exec_event \<Rightarrow> ansible_executor \<Rightarrow> ansible_exn + ansible_executor" where
  "exec_event_step (StartCall h c sid) x =
     (case ansible_start h c sid x of Inl e \<Rightarrow> Inl e | Inr (_, x') \<Rightarrow> Inr x')"
| "exec_event_step (OutputLine sid l) x = Inr (collect_line sid l x)"
| "exec_event_step (PlaybookEnded sid res) x = Inr (work_done sid res x)"
| "exec_event_step ProcessRestarted x = Inr (x\<lparr>runs := []\<rparr>)"

abbreviation run_events :: "exec_event list \<Rightarrow> ansible_executor \<Rightarrow> ansible_executor" where
  "run_events \<equiv> run_all exec_event_step"

text \<open>What a run always is: the configured command for the inventory of its cluster, with an error
  text when it failed.\<close>

definition run_ok :: "ansible_settings \<Rightarrow> run \<Rightarrow> bool" where
  "run_ok s r \<longleftrightarrow>
     (\<exists>path. map_of (inventories s) (run_cluster r) = Some path \<and>
        take 4 (run_command r) = [binary s, ''--inventory'', path, playbook s]) \<and>
     run_state r \<in> {RUNNING, SUCCEEDED, FAILED} \<and> (run_state r = FAILED \<longrightarrow> run_error r \<noteq> None)"

definition executor_ok :: "ansible_executor \<Rightarrow> bool" where
  "executor_ok x \<longleftrightarrow> (\<forall>sid r. map_of (runs x) sid = Some r \<longrightarrow> run_ok (settings x) r)"

lemma executor_ok_set [intro]:
  "executor_ok x \<Longrightarrow> run_ok (settings x) r \<Longrightarrow> executor_ok (x\<lparr>runs := dset sid r (runs x)\<rparr>)"
  by (simp add: executor_ok_def)

lemma executor_ok_run: "executor_ok x \<Longrightarrow> map_of (runs x) sid = Some r \<Longrightarrow> run_ok (settings x) r"
  by (simp add: executor_ok_def)

lemma status_unknown: "executor_ok x \<Longrightarrow> ansible_status sid x = UNKNOWN \<longleftrightarrow> map_of (runs x) sid = None"
  by (auto simp: ansible_status_def run_ok_def dest: executor_ok_run split: option.splits)

lemma executor_ok_fresh: "runs x = [] \<Longrightarrow> executor_ok x"
  by (simp add: executor_ok_def)

lemma run_ok_lines: "run_ok s r \<Longrightarrow> run_ok s (r\<lparr>run_lines := ls\<rparr>)"
  by (simp add: run_ok_def)

lemma finish_run_ok: "run_ok s r \<Longrightarrow> run_ok s (finish_run t res r)"
  by (auto simp: run_ok_def finish_run_def split: stream_result.split)

lemma build_command_shape:
  "build_command h c s = Inr command \<Longrightarrow> preflight h c s = Inr () \<and>
     (\<exists>path. map_of (inventories s) c = Some path \<and>
       take 4 command = [binary s, ''--inventory'', path, playbook s])"
  by (auto simp: build_command_def preflight_def split: option.splits sum.splits if_splits)

text \<open>The three ways a start ends.\<close>

lemma ansible_start_cases:
  assumes "ansible_start h c sid x = Inr (st, x')"
  obtains
    (known) r where "map_of (runs x) sid = Some r" "run_state r \<in> {RUNNING, SUCCEEDED}"
      "x' = x" "st = run_state r" "preflight h c (settings x) = Inr ()"
  | (launch) command where "ansible_status sid x \<in> {UNKNOWN, FAILED, PENDING_OPERATOR}"
      "build_command h c (settings x) = Inr command" "st = RUNNING"
      "x' = x\<lparr>runs := dset sid \<lparr>run_state = RUNNING, run_cluster = c, run_lines = [],
                run_command = command, run_error = None\<rparr> (runs x)\<rparr>"
proof -
  obtain command where b: "build_command h c (settings x) = Inr command"
    using assms by (auto simp: ansible_start_def split: sum.splits)
  show thesis
  proof (cases "map_of (runs x) sid")
    case None
    show thesis
      by (rule launch [OF _ b]) (use assms b None in \<open>simp_all add: ansible_start_def ansible_status_def Let_def\<close>)
  next
    case (Some r)
    show thesis
    proof (cases "run_state r \<in> {RUNNING, SUCCEEDED}")
      case True
      show thesis
        by (rule known [OF Some True])
           (use assms b Some True build_command_shape [OF b] in \<open>simp_all add: ansible_start_def Let_def\<close>)
    next
      case False
      then have "run_state r \<in> {UNKNOWN, FAILED, PENDING_OPERATOR}" by (cases "run_state r") auto
      then show thesis
        by (intro launch [OF _ b])
           (use assms b Some False in \<open>simp_all add: ansible_start_def ansible_status_def Let_def\<close>)
    qed
  qed
qed

lemma exec_event_ok:
  assumes "executor_ok x" and "exec_event_step e x = Inr x'"
  shows "executor_ok x' \<and> settings x' = settings x"
proof (cases e)
  case (StartCall h c sid)
  then obtain st where "ansible_start h c sid x = Inr (st, x')"
    using assms(2) by (auto split: sum.splits)
  then show ?thesis
  proof (cases rule: ansible_start_cases)
    case known
    then show ?thesis using assms(1) by simp
  next
    case (launch command)
    then show ?thesis using assms(1) build_command_shape [OF launch(2)]
      by (auto simp: run_ok_def)
  qed
next
  case (OutputLine sid l)
  then show ?thesis using assms
    by (auto simp: collect_line_def intro: run_ok_lines executor_ok_run split: option.splits)
next
  case (PlaybookEnded sid res)
  then show ?thesis using assms
    by (auto simp: work_done_def intro: finish_run_ok executor_ok_run split: option.splits)
next
  case ProcessRestarted
  then show ?thesis using assms by (auto simp: executor_ok_def)
qed

lemma run_events_ok:
  "executor_ok x \<Longrightarrow> executor_ok (run_events evs x) \<and> settings (run_events evs x) = settings x"
  using run_all_inv [of "\<lambda>y. executor_ok y \<and> settings y = settings x" x exec_event_step evs]
    exec_event_ok by fastforce

text \<open>Where a run comes from.\<close>

lemma run_was_launched:
  assumes "runs x = []" and "ansible_status sid (run_events evs x) \<noteq> UNKNOWN"
  shows "\<exists>pre h c mid. evs = pre @ StartCall h c sid # mid \<and> preflight h c (settings x) = Inr () \<and>
     ProcessRestarted \<notin> set mid"
  using assms(2)
proof (induction evs rule: rev_induct)
  case Nil
  then show ?case using assms(1) by (simp add: ansible_status_def)
next
  case (snoc e evs)
  let ?y = "run_events evs x"
  have set_y: "settings ?y = settings x" and ok: "executor_ok ?y"
    using run_events_ok [OF executor_ok_fresh [OF assms(1)], of evs] by simp_all
  have old: ?case if "ansible_status sid ?y \<noteq> UNKNOWN" "e \<noteq> ProcessRestarted"
    using snoc.IH [OF that(1)] that(2) by fastforce
  have y': "run_events (evs @ [e]) x = (case exec_event_step e ?y of Inl _ \<Rightarrow> ?y | Inr s' \<Rightarrow> s')"
    by (rule run_all_snoc)
  show ?case
  proof (cases "ansible_status sid ?y = UNKNOWN")
    case False
    moreover have "e \<noteq> ProcessRestarted"
      using snoc.prems unfolding y' by (auto simp: ansible_status_def)
    ultimately show ?thesis by (rule old)
  next
    case True
    show ?thesis
    proof (cases e)
      case (StartCall h c sid')
      then obtain st y2 where st: "ansible_start h c sid' ?y = Inr (st, y2)"
        and y2: "ansible_status sid y2 \<noteq> UNKNOWN"
        using snoc.prems True unfolding y' by (auto split: sum.splits)
      from st have "sid' = sid \<and> preflight h c (settings x) = Inr ()"
      proof (cases rule: ansible_start_cases)
        case known
        then show ?thesis using True y2 by simp
      next
        case (launch command)
        then show ?thesis using True y2 build_command_shape [OF launch(2)] set_y
          by (auto simp: ansible_status_def split: if_splits)
      qed
      then show ?thesis unfolding StartCall by fastforce
    next
      case (OutputLine sid' l)
      then show ?thesis using snoc.prems True unfolding y'
        by (auto simp: collect_line_def ansible_status_def split: option.splits if_splits)
    next
      case (PlaybookEnded sid' res)
      then show ?thesis using snoc.prems True status_unknown [OF ok, of sid] unfolding y'
        by (auto simp: work_done_def ansible_status_def split: option.splits if_splits)
    next
      case ProcessRestarted
      then show ?thesis using snoc.prems unfolding y' by (simp add: ansible_status_def)
    qed
  qed
qed

lemma becomes_succeeded:
  assumes "executor_ok x" and "exec_event_step e x = Inr x'" and "ansible_status sid x' = SUCCEEDED"
    and "ansible_status sid x \<noteq> SUCCEEDED"
  shows "e = PlaybookEnded sid (Exited 0) \<and> ansible_status sid x \<noteq> UNKNOWN"
proof (cases e)
  case (StartCall h c sid')
  then obtain st where "ansible_start h c sid' x = Inr (st, x')"
    using assms(2) by (auto split: sum.splits)
  then show ?thesis
    by (cases rule: ansible_start_cases) (use assms in \<open>auto simp: ansible_status_def split: if_splits\<close>)
next
  case (OutputLine sid' l)
  then show ?thesis using assms
    by (auto simp: collect_line_def ansible_status_def split: option.splits if_splits)
next
  case (PlaybookEnded sid' res)
  then obtain r where r: "map_of (runs x) sid = Some r" and s: "sid' = sid"
    using assms by (auto simp: work_done_def ansible_status_def split: option.splits if_splits)
  then have x': "run_state (finish_run (timeout_seconds (settings x)) res r) = SUCCEEDED"
    using assms PlaybookEnded by (auto simp: work_done_def ansible_status_def)
  then have "res = Exited 0"
    by (auto simp: finish_run_def split: stream_result.splits if_splits)
  then show ?thesis using PlaybookEnded s r status_unknown [OF assms(1), of sid] by auto
next
  case ProcessRestarted
  then show ?thesis using assms by (auto simp: ansible_status_def)
qed

text \<open>A restart counts as successful only when it was seen to succeed: if the executor reports
  \<open>succeeded\<close> for a sequence after any history of start calls, output, ends of playbooks and
  restarts of TMS, then a playbook of that sequence was launched against an inventory that listed
  hosts at that moment, later exited with code 0 within its time, and TMS was not restarted since
  the launch. A further start call then launches nothing.\<close>

theorem success_is_observed:
  assumes "runs x = []" and "ansible_status sid (run_events evs x) = SUCCEEDED"
  shows "(\<exists>pre h c mid post. evs = pre @ StartCall h c sid # mid @ PlaybookEnded sid (Exited 0) # post \<and>
            preflight h c (settings x) = Inr () \<and> ProcessRestarted \<notin> set (mid @ post)) \<and>
         (case ansible_start h' c' sid (run_events evs x) of
            Inl _ \<Rightarrow> preflight h' c' (settings x) \<noteq> Inr ()
          | Inr (st, y) \<Rightarrow> st = SUCCEEDED \<and> y = run_events evs x)"
proof
  show "\<exists>pre h c mid post. evs = pre @ StartCall h c sid # mid @ PlaybookEnded sid (Exited 0) # post \<and>
      preflight h c (settings x) = Inr () \<and> ProcessRestarted \<notin> set (mid @ post)"
    using assms(2)
  proof (induction evs rule: rev_induct)
    case Nil
    then show ?case using assms(1) by (simp add: ansible_status_def)
  next
    case (snoc e evs)
    let ?y = "run_events evs x"
    have ok: "executor_ok ?y"
      using run_events_ok [OF executor_ok_fresh [OF assms(1)], of evs] by simp
    have y': "run_events (evs @ [e]) x = (case exec_event_step e ?y of Inl _ \<Rightarrow> ?y | Inr s' \<Rightarrow> s')"
      by (rule run_all_snoc)
    show ?case
    proof (cases "ansible_status sid ?y = SUCCEEDED")
      case True
      have "e \<noteq> ProcessRestarted"
        using snoc.prems unfolding y' by (auto simp: ansible_status_def)
      then show ?thesis using snoc.IH [OF True] by fastforce
    next
      case False
      then obtain y2 where "exec_event_step e ?y = Inr y2" "ansible_status sid y2 = SUCCEEDED"
        using snoc.prems unfolding y' by (auto split: sum.splits)
      from becomes_succeeded [OF ok this False]
      have e: "e = PlaybookEnded sid (Exited 0)" "ansible_status sid ?y \<noteq> UNKNOWN" by auto
      from run_was_launched [OF assms(1) e(2)] show ?thesis unfolding e(1) by fastforce
    qed
  qed
  have "settings (run_events evs x) = settings x"
    using run_events_ok [OF executor_ok_fresh [OF assms(1)], of evs] by simp
  moreover obtain r where "map_of (runs (run_events evs x)) sid = Some r" "run_state r = SUCCEEDED"
    using assms(2) by (auto simp: ansible_status_def split: option.splits)
  ultimately show "case ansible_start h' c' sid (run_events evs x) of
      Inl _ \<Rightarrow> preflight h' c' (settings x) \<noteq> Inr ()
    | Inr (st, y) \<Rightarrow> st = SUCCEEDED \<and> y = run_events evs x"
    by (auto simp: ansible_start_def build_command_def split: sum.splits)
qed

definition demo_host :: host where
  "demo_host = \<lparr>is_file = (\<lambda>_. True), on_path = (\<lambda>_. True), is_dir = (\<lambda>_. True), may_write = (\<lambda>_. True),
     makedirs_error = (\<lambda>_. None), read_file = (\<lambda>_. Content (''[workers]'' @ [CHR 0x0A] @ ''w-1''))\<rparr>"

definition demo_settings :: ansible_settings where
  "demo_settings = \<lparr>playbook = ''/etc/r.yml'', inventories = [(''a'', ''/etc/a.ini'')],
     binary = ''ansible-playbook'', timeout_seconds = 900, extra_vars = [], state_dir = ''/var''\<rparr>"

definition demo_executor :: ansible_executor where
  "demo_executor = \<lparr>settings = demo_settings, runs = []\<rparr>"

lemma demo_inventory: "parse_inventory (''[workers]'' @ [CHR 0x0A] @ ''w-1'') c \<noteq> []"
  by code_simp

lemma demo_preflight: "preflight demo_host ''a'' demo_settings = Inr ()"
  using demo_inventory by (simp add: preflight_def demo_host_def demo_settings_def load_inventory_def)

definition demo_events :: "exec_event list" where
  "demo_events = [StartCall demo_host ''a'' ''7'', OutputLine ''7'' ''ok'', PlaybookEnded ''7'' (Exited 0)]"

lemma demo_events_succeed: "ansible_status ''7'' (run_events demo_events demo_executor) = SUCCEEDED"
  using demo_preflight
  by (simp add: demo_events_def demo_executor_def ansible_start_def build_command_def Let_def
      collect_line_def work_done_def ansible_status_def finish_run_def)

theorem success_is_observed_witness:
  "ansible_status ''7'' (run_events demo_events demo_executor) = SUCCEEDED \<and>
   ansible_start demo_host ''a'' ''7'' (run_events demo_events demo_executor) =
     Inr (SUCCEEDED, run_events demo_events demo_executor)"
proof -
  have "runs demo_executor = []" "settings demo_executor = demo_settings"
    by (simp_all add: demo_executor_def)
  from success_is_observed [OF this(1) demo_events_succeed, of demo_host "''a''"] this(2)
  show ?thesis using demo_events_succeed demo_preflight by (auto split: sum.splits)
qed

end
