(* ===== verification/RestartService.thy ===== *)
theory RestartService
  imports SeqRepo Auditing Access Executor
begin

text \<open>
  The service that drives a restart, \<^verbatim>\<open>src/tms/ops/service.py\<close>. The world it works on is the
  repository of sequences, the audit store, the executor, and the calls the Gateway has taken
  from it (cluster, backend, active), newest last. What a request reads from outside - the
  clock, the collector's snapshots, the resource group store's probe, the host, whether the
  Gateway accepts a call - is the environment \<open>env\<close> of the request. A request runs to its end
  before the next one; its outcome is the exception or the result, with the world as left.
\<close>

record world =
  w_repo :: seq_repo
  w_audit :: audit_repo
  w_exec :: executor
  w_calls :: "(string \<times> string \<times> bool) list"

record env =
  e_time :: timestamp
  e_audit_now :: nat
  e_uuid :: string
  e_clusters :: "(string \<times> string) list"                    \<comment> \<open>name, node.environment\<close>
  e_queries :: "string \<Rightarrow> (bool \<times> int) option"                \<comment> \<open>trustworthy, running + queued\<close>
  e_health :: "string \<Rightarrow> string option option"                 \<comment> \<open>snapshot, its rollup_state\<close>
  e_backends :: "(string option \<times> string) list"              \<comment> \<open>Gateway snapshot: cluster, backend\<close>
  e_gateway :: "(string \<Rightarrow> bool \<Rightarrow> string option) option"        \<comment> \<open>None: off; Some: the error of a call\<close>
  e_store :: "(string \<Rightarrow> bool option \<times> string) option"       \<comment> \<open>the config store's probe\<close>
  e_host :: host

datatype svc_message =
    NoPermission | UnknownClusterMsg string | ReasonNeeded | CannotRestart ansible_exn
  | StoreSays repo_exn | SequenceSays seq_exn | GatewayOff | NoBackend string
  | NoSuchSequence nat | TrafficNotRestored string

datatype svc_exn =
    ApiExn api_kind svc_message
  | AuditExn audit_exn
  | GatewayExn string
  | ExecutorExn ansible_exn
  | RepoExn repo_exn
  | SequenceExn seq_exn

text \<open>The text of an exception where the code writes it into a log line or a record; the
  formatting of each is a parameter.\<close>

type_synonym describe = "svc_exn \<Rightarrow> string"

type_synonym 'a svc = "world \<Rightarrow> (svc_exn + 'a) \<times> world"

definition raise :: "svc_exn \<Rightarrow> 'a svc" where "raise e w = (Inl e, w)"

definition ret :: "'a \<Rightarrow> 'a svc" where "ret x w = (Inr x, w)"

definition andthen :: "'a svc \<Rightarrow> ('a \<Rightarrow> 'b svc) \<Rightarrow> 'b svc" where
  "andthen m f w = (case m w of (Inl e, w') \<Rightarrow> (Inl e, w') | (Inr x, w') \<Rightarrow> f x w')"

text \<open>A pure step of the sequence, with the way its exception leaves the service.\<close>

definition lift_seq :: "(seq_exn \<Rightarrow> svc_exn) \<Rightarrow> seq_exn + 'a \<Rightarrow> 'a svc" where
  "lift_seq wrap r = (case r of Inl e \<Rightarrow> raise (wrap e) | Inr x \<Rightarrow> ret x)"

abbreviation seq_invalid :: "seq_exn \<Rightarrow> svc_exn" where
  "seq_invalid e \<equiv> ApiExn InvalidRequest (SequenceSays e)"

section \<open>Helpers\<close>

definition require_admin :: "principal \<Rightarrow> unit svc" where
  "require_admin p =
     (if can p MANAGE_HEALTH then ret () else raise (ApiExn Forbidden NoPermission))"

definition cluster_or_404 :: "env \<Rightarrow> string \<Rightarrow> unit svc" where
  "cluster_or_404 ev c =
     (if map_of (e_clusters ev) c = None then raise (ApiExn NotFound (UnknownClusterMsg c)) else ret ())"

definition restart_call :: "principal \<Rightarrow> string \<Rightarrow> string \<Rightarrow> audit_call" where
  "restart_call p c why =
     \<lparr>ac_actor = pr_username p, ac_roles = pr_roles p, ac_action_type = ACTION_CLUSTER_RESTART,
      ac_target_kind = ''cluster'', ac_target_id = c, ac_reason = Some why,
      ac_target_cluster = Some c, ac_actor_ip = pr_ip p, ac_request_id = None\<rparr>"

text \<open>\<open>with self._audited(...): body\<close>, the guard of theory \<open>Auditing\<close> around a body that works on the
  rest of the world.\<close>

definition with_audit ::
    "describe \<Rightarrow> env \<Rightarrow> principal \<Rightarrow> string \<Rightarrow> string \<Rightarrow> 'a svc \<Rightarrow> 'a svc" where
  "with_audit desc ev p c why body w =
     (case audited (e_audit_now ev) (e_uuid ev) desc (restart_call p c why)
             (\<lambda>(au, w1). case body (w1\<lparr>w_audit := au\<rparr>) of (r, w2) \<Rightarrow> (r, w_audit w2, w2))
             (w_audit w, w) of
        (Inl (Inl e), au, w') \<Rightarrow> (Inl (AuditExn e), w'\<lparr>w_audit := au\<rparr>)
      | (Inl (Inr e), au, w') \<Rightarrow> (Inl e, w'\<lparr>w_audit := au\<rparr>)
      | (Inr x, au, w') \<Rightarrow> (Inr x, w'\<lparr>w_audit := au\<rparr>))"

definition observe_store :: "env \<Rightarrow> restart_sequence \<Rightarrow> seq_exn + restart_sequence" where
  "observe_store ev s =
     (case e_store ev of
        None \<Rightarrow> Inr s
      | Some probe \<Rightarrow>
          (if state s \<notin> {DRAINING, DRAINED} then Inr s
           else case map_of (e_clusters ev) (cluster s) of
                  None \<Rightarrow> Inr s
                | Some node_environment \<Rightarrow>
                    (case probe node_environment of (ready, detail) \<Rightarrow>
                       observe_config_store (e_time ev) ready detail s)))"

definition observe_sequence :: "env \<Rightarrow> restart_sequence \<Rightarrow> seq_exn + restart_sequence" where
  "observe_sequence ev s =
     (let running = (case e_queries ev (cluster s) of
                       Some (True, n) \<Rightarrow> Some n | _ \<Rightarrow> None);
          health = (case e_health ev (cluster s) of Some h \<Rightarrow> h | None \<Rightarrow> None);
          observed = (case running of
                        Some n \<Rightarrow> observe (e_time ev) n health s
                      | None \<Rightarrow> (case health of
                                   Some h \<Rightarrow> Inr (s\<lparr>health_state := Some h\<rparr>)
                                 | None \<Rightarrow> Inr s))
      in case observed of Inl e \<Rightarrow> Inl e | Inr s' \<Rightarrow> observe_store ev s')"

definition observe_stored :: "env \<Rightarrow> stored_sequence \<Rightarrow> stored_sequence svc" where
  "observe_stored ev st =
     lift_seq SequenceExn (map_sum id (\<lambda>s. st\<lparr>sequence := s\<rparr>) (observe_sequence ev (sequence st)))"

fun log_output :: "timestamp \<Rightarrow> string list \<Rightarrow> restart_sequence \<Rightarrow> seq_exn + restart_sequence" where
  "log_output t [] s = Inr s"
| "log_output t (l # ls) s =
     (case log_line t (MsgText l) LEVEL_OUTPUT s of Inl e \<Rightarrow> Inl e | Inr s' \<Rightarrow> log_output t ls s')"

definition run_error_text :: "string \<Rightarrow> ansible_executor \<Rightarrow> string" where
  "run_error_text sid x =
     (case ansible_result sid x of
        (_, Some r) \<Rightarrow> (case run_error r of Some e \<Rightarrow> e | None \<Rightarrow> [])
      | (_, None) \<Rightarrow> [])"

definition poll_executor ::
    "timestamp \<Rightarrow> string \<Rightarrow> executor \<Rightarrow> restart_sequence \<Rightarrow> seq_exn + restart_sequence" where
  "poll_executor t sid ex s =
     (case ex of
        Manual _ \<Rightarrow> Inr s
      | Ansible x \<Rightarrow>
          (if state s \<noteq> RESTARTING then Inr s
           else
             (let shown = length (filter (\<lambda>e. ev_level e = LEVEL_OUTPUT) (history s))
              in case log_output t (lines_since sid (int shown) x) s of
                   Inl e \<Rightarrow> Inl e
                 | Inr s1 \<Rightarrow>
                     (case ansible_status sid x of
                        SUCCEEDED \<Rightarrow>
                          (case log_line t MsgPlaybookDone LEVEL_INFO s1 of
                             Inl e \<Rightarrow> Inl e | Inr s2 \<Rightarrow> mark_restarted t s2)
                      | FAILED \<Rightarrow>
                          log_line t (MsgPlaybookFailed (run_error_text sid x) (cluster s)) LEVEL_ERROR s1
                      | UNKNOWN \<Rightarrow> log_line t (MsgLostSight (cluster s)) LEVEL_WARN s1
                      | _ \<Rightarrow> Inr s1))))"

definition backend_name :: "env \<Rightarrow> string \<Rightarrow> svc_exn + string" where
  "backend_name ev c =
     (case find (\<lambda>(cl, _). cl = Some c) (e_backends ev) of
        Some (_, name) \<Rightarrow> Inr name
      | None \<Rightarrow> Inl (ApiExn UpstreamUnavailable (NoBackend c)))"

definition set_gateway_active :: "env \<Rightarrow> string \<Rightarrow> bool \<Rightarrow> unit svc" where
  "set_gateway_active ev c active w =
     (case e_gateway ev of
        None \<Rightarrow> (Inl (ApiExn UpstreamUnavailable GatewayOff), w)
      | Some call \<Rightarrow>
          (case backend_name ev c of
             Inl e \<Rightarrow> (Inl e, w)
           | Inr backend \<Rightarrow>
               (case call backend active of
                  Some err \<Rightarrow> (Inl (GatewayExn err), w)
                | None \<Rightarrow> (Inr (), w\<lparr>w_calls := w_calls w @ [(c, backend, active)]\<rparr>))))"

definition save_seq :: "env \<Rightarrow> string option \<Rightarrow> stored_sequence \<Rightarrow> stored_sequence svc" where
  "save_seq ev force st w =
     (case save_stored (e_time ev) force st (w_repo w) of
        Inl e \<Rightarrow> (Inl (RepoExn e), w)
      | Inr (st', r) \<Rightarrow> (Inr st', w\<lparr>w_repo := r\<rparr>))"

definition load_or_404 :: "nat \<Rightarrow> stored_sequence svc" where
  "load_or_404 i w =
     (case load_stored (w_repo w) i of
        Inl e \<Rightarrow> (Inl (RepoExn e), w)
      | Inr None \<Rightarrow> (Inl (ApiExn NotFound (NoSuchSequence i)), w)
      | Inr (Some st) \<Rightarrow> (Inr st, w))"

definition on_seq :: "(restart_sequence \<Rightarrow> seq_exn + restart_sequence) \<Rightarrow> stored_sequence \<Rightarrow> seq_exn + stored_sequence" where
  "on_seq f st = map_sum id (\<lambda>s. st\<lparr>sequence := s\<rparr>) (f (sequence st))"

section \<open>Requests\<close>

record payload =
  pl_sequence :: restart_sequence
  pl_steps :: "(seq_state \<times> string option \<times> step_status) list"
  pl_automated :: bool
  pl_executor_state :: "exec_state option"

definition payload_of :: "stored_sequence \<Rightarrow> payload svc" where
  "payload_of st w =
     (Inr \<lparr>pl_sequence = sequence st, pl_steps = steps (sequence st),
           pl_automated = automated (w_exec w),
           pl_executor_state =
             (if state (sequence st) = RESTARTING \<and> automated (w_exec w)
              then Some (exec_status (show_nat (stored_id st)) (w_exec w)) else None)\<rparr>, w)"

definition get_request :: "env \<Rightarrow> nat \<Rightarrow> payload svc" where
  "get_request ev i =
     andthen (load_or_404 i) (\<lambda>st. andthen (observe_stored ev st) payload_of)"

text \<open>The part of \<open>start\<close> after the deactivation failed: the sequence is closed out, and the
  exception goes on.\<close>

definition close_out :: "describe \<Rightarrow> env \<Rightarrow> stored_sequence \<Rightarrow> svc_exn \<Rightarrow> payload svc" where
  "close_out desc ev st e =
     andthen (lift_seq SequenceExn
        (case log_line (e_time ev) (MsgCannotStop (desc e)) ''error'' (sequence st) of
           Inl x \<Rightarrow> Inl x
         | Inr s1 \<Rightarrow>
             (case begin_abort (e_time ev) ''Nothing was changed.'' s1 of
                Inl x \<Rightarrow> Inl x
              | Inr s2 \<Rightarrow> finish_abort (e_time ev) s2)))
       (\<lambda>s. andthen (save_seq ev None (st\<lparr>sequence := s\<rparr>)) (\<lambda>_. raise e))"

definition start_request ::
    "describe \<Rightarrow> env \<Rightarrow> principal \<Rightarrow> string \<Rightarrow> string \<Rightarrow> payload svc" where
  "start_request desc ev p c why =
     andthen (require_admin p) (\<lambda>_.
     andthen (cluster_or_404 ev c) (\<lambda>_.
     if blank why then raise (ApiExn InvalidRequest ReasonNeeded)
     else (\<lambda>w.
       case exec_preflight (e_host ev) c (w_exec w) of
         Inl e \<Rightarrow> (Inl (ApiExn InvalidRequest (CannotRestart e)), w)
       | Inr _ \<Rightarrow>
           (case new_sequence c (Some why) (pr_username p) of
              Inl e \<Rightarrow> (Inl (SequenceExn e), w)
            | Inr s \<Rightarrow>
                (case create_stored (e_time ev) s (pr_roles p) (w_repo w) of
                   Inl (ActiveSequenceExists x) \<Rightarrow>
                     (Inl (ApiExn InvalidRequest (StoreSays (ActiveSequenceExists x))), w)
                 | Inl e \<Rightarrow> (Inl (RepoExn e), w)
                 | Inr (st, r) \<Rightarrow>
                     (case with_audit desc ev p c why (set_gateway_active ev c False)
                             (w\<lparr>w_repo := r\<rparr>) of
                        (Inl e, w1) \<Rightarrow> close_out desc ev st e w1
                      | (Inr _, w1) \<Rightarrow>
                          andthen (lift_seq SequenceExn (on_seq (begin_seq (e_time ev)) st)) (\<lambda>st1.
                          andthen (observe_stored ev st1) (\<lambda>st2.
                          andthen (save_seq ev None st2) (\<lambda>st3.
                          get_request ev (stored_id st3)))) w1))))))"

definition fingerprint :: "stored_sequence \<Rightarrow> seq_state \<times> int option \<times> string option \<times> nat" where
  "fingerprint st = (state (sequence st), running_queries (sequence st),
     health_state (sequence st), length (history (sequence st)))"

definition refresh_request :: "env \<Rightarrow> nat \<Rightarrow> payload svc" where
  "refresh_request ev i =
     andthen (load_or_404 i) (\<lambda>st.
     andthen (observe_stored ev st) (\<lambda>st1 w.
     andthen (lift_seq SequenceExn
        (on_seq (poll_executor (e_time ev) (show_nat (stored_id st)) (w_exec w)) st1)) (\<lambda>st2.
     if fingerprint st2 \<noteq> fingerprint st
     then andthen (save_seq ev None st2) payload_of
     else payload_of st2) w))"

definition force_drain_request ::
    "describe \<Rightarrow> env \<Rightarrow> principal \<Rightarrow> nat \<Rightarrow> string \<Rightarrow> payload svc" where
  "force_drain_request desc ev p i why =
     andthen (require_admin p) (\<lambda>_.
     andthen (load_or_404 i) (\<lambda>st.
     andthen (observe_stored ev st) (\<lambda>st1.
     andthen (lift_seq seq_invalid (on_seq (force_drained (e_time ev) (Some why)) st1)) (\<lambda>st2.
     andthen (with_audit desc ev p (cluster (sequence st2)) why (save_seq ev (Some why) st2)) (\<lambda>_.
     get_request ev i)))))"

definition restart_request :: "describe \<Rightarrow> env \<Rightarrow> principal \<Rightarrow> nat \<Rightarrow> payload svc" where
  "restart_request desc ev p i =
     andthen (require_admin p) (\<lambda>_.
     andthen (load_or_404 i) (\<lambda>st.
     andthen (observe_stored ev st) (\<lambda>st1.
     andthen (lift_seq seq_invalid (on_seq (confirm_drained (e_time ev)) st1)) (\<lambda>st2.
     andthen (lift_seq seq_invalid (on_seq (mark_restarting (e_time ev)) st2)) (\<lambda>st3.
     andthen (with_audit desc ev p (cluster (sequence st3)) (reason (sequence st3)) (\<lambda>w.
         case exec_start (e_host ev) (cluster (sequence st3)) (show_nat (stored_id st3)) (w_exec w) of
           Inl e \<Rightarrow> (Inl (ExecutorExn e), w)
         | Inr (started, x) \<Rightarrow> (Inr started, w\<lparr>w_exec := x\<rparr>))) (\<lambda>started.
     andthen (lift_seq SequenceExn
        (on_seq (if started = PENDING_OPERATOR
                 then log_line (e_time ev) (MsgOperator (cluster (sequence st3))) LEVEL_WARN
                 else log_line (e_time ev) MsgPlaybookRunning LEVEL_INFO) st3)) (\<lambda>st4.
     andthen (save_seq ev None st4) (\<lambda>_.
     get_request ev i))))))))"

definition mark_restarted_request :: "env \<Rightarrow> principal \<Rightarrow> nat \<Rightarrow> payload svc" where
  "mark_restarted_request ev p i =
     andthen (require_admin p) (\<lambda>_.
     andthen (load_or_404 i) (\<lambda>st.
     andthen (lift_seq seq_invalid (on_seq (mark_restarted (e_time ev)) st)) (\<lambda>st1.
     andthen (observe_stored ev st1) (\<lambda>st2.
     andthen (save_seq ev None st2) (\<lambda>_.
     get_request ev i)))))"

definition complete_request :: "describe \<Rightarrow> env \<Rightarrow> principal \<Rightarrow> nat \<Rightarrow> payload svc" where
  "complete_request desc ev p i =
     andthen (require_admin p) (\<lambda>_.
     andthen (load_or_404 i) (\<lambda>st.
     andthen (observe_stored ev st) (\<lambda>st1.
     case on_seq (confirm_healthy (e_time ev)) st1 of
       Inl (StepBlocked f) \<Rightarrow>
         andthen (save_seq ev None st1) (\<lambda>_. raise (seq_invalid (StepBlocked f)))
     | Inl e \<Rightarrow> raise (seq_invalid e)
     | Inr st2 \<Rightarrow>
         andthen (with_audit desc ev p (cluster (sequence st2)) (reason (sequence st2))
                    (set_gateway_active ev (cluster (sequence st2)) True)) (\<lambda>_.
         andthen (lift_seq SequenceExn (on_seq (complete_seq (e_time ev)) st2)) (\<lambda>st3.
         andthen (save_seq ev None st3) (\<lambda>_.
         get_request ev i))))))"

definition abort_request ::
    "describe \<Rightarrow> env \<Rightarrow> principal \<Rightarrow> nat \<Rightarrow> string \<Rightarrow> payload svc" where
  "abort_request desc ev p i note =
     andthen (require_admin p) (\<lambda>_.
     andthen (load_or_404 i) (\<lambda>st.
     andthen (lift_seq seq_invalid (on_seq (begin_abort (e_time ev) note) st)) (\<lambda>st1.
     andthen (save_seq ev None st1) (\<lambda>st2 w.
     case with_audit desc ev p (cluster (sequence st2))
            (if note \<noteq> [] then note else reason (sequence st2))
            (set_gateway_active ev (cluster (sequence st2)) True) w of
       (Inl e, w1) \<Rightarrow>
         andthen (lift_seq SequenceExn
            (on_seq (log_line (e_time ev) (MsgCannotRestore (desc e) (cluster (sequence st2))) LEVEL_ERROR) st2))
           (\<lambda>st3. andthen (save_seq ev None st3)
              (\<lambda>_. raise (ApiExn UpstreamUnavailable (TrafficNotRestored (cluster (sequence st2)))))) w1
     | (Inr _, w1) \<Rightarrow>
         andthen (lift_seq SequenceExn (on_seq (finish_abort (e_time ev)) st2)) (\<lambda>st3.
         andthen (save_seq ev None st3) (\<lambda>_.
         get_request ev i)) w1))))"

datatype request =
    StartReq string string
  | GetReq nat
  | RefreshReq nat
  | ForceDrainReq nat string
  | RestartReq nat
  | MarkRestartedReq nat
  | CompleteReq nat
  | AbortReq nat string

fun serve :: "describe \<Rightarrow> env \<Rightarrow> principal \<Rightarrow> request \<Rightarrow> payload svc" where
  "serve desc ev p (StartReq c why) = start_request desc ev p c why"
| "serve desc ev p (GetReq i) = get_request ev i"
| "serve desc ev p (RefreshReq i) = refresh_request ev i"
| "serve desc ev p (ForceDrainReq i why) = force_drain_request desc ev p i why"
| "serve desc ev p (RestartReq i) = restart_request desc ev p i"
| "serve desc ev p (MarkRestartedReq i) = mark_restarted_request ev p i"
| "serve desc ev p (CompleteReq i) = complete_request desc ev p i"
| "serve desc ev p (AbortReq i note) = abort_request desc ev p i note"

end
