(* ===== verification/ServiceProps.thy ===== *)
theory ServiceProps
  imports RestartService
begin

text \<open>
  What the restart service promises. \<open>valid P m Q E\<close> is the triple for requests: from a world
  with \<open>P\<close>, a result satisfies \<open>Q\<close> and an exception leaves a world with \<open>E\<close>. The world's
  invariant ties the Gateway to the repository: a cluster whose traffic TMS stopped last has an
  unfinished sequence.
\<close>

section \<open>Triples\<close>

definition valid ::
    "(world \<Rightarrow> bool) \<Rightarrow> 'a svc \<Rightarrow> ('a \<Rightarrow> world \<Rightarrow> bool) \<Rightarrow> (svc_exn \<Rightarrow> world \<Rightarrow> bool) \<Rightarrow> bool" where
  "valid P m Q E \<longleftrightarrow> (\<forall>w. P w \<longrightarrow> (case m w of (Inl e, w') \<Rightarrow> E e w' | (Inr x, w') \<Rightarrow> Q x w'))"

lemma validI: "(\<And>w. P w \<Longrightarrow> case m w of (Inl e, w') \<Rightarrow> E e w' | (Inr x, w') \<Rightarrow> Q x w') \<Longrightarrow> valid P m Q E"
  by (simp add: valid_def)

lemma validD: "valid P m Q E \<Longrightarrow> P w \<Longrightarrow> m w = (r, w') \<Longrightarrow> (case r of Inl e \<Rightarrow> E e w' | Inr x \<Rightarrow> Q x w')"
  unfolding valid_def by (fastforce split: sum.split)

lemma validE: "valid P m Q E \<Longrightarrow> P w \<Longrightarrow> (case m w of (Inl e, w') \<Rightarrow> E e w' | (Inr x, w') \<Rightarrow> Q x w')"
  by (simp add: valid_def)

lemma valid_andthen:
  assumes "valid P m R E" and "\<And>x. valid (R x) (f x) Q E"
  shows "valid P (andthen m f) Q E"
proof (rule validI)
  fix w assume "P w"
  then have m: "case m w of (Inl e, w') \<Rightarrow> E e w' | (Inr x, w') \<Rightarrow> R x w'"
    using assms(1) by (simp add: valid_def)
  show "case andthen m f w of (Inl e, w') \<Rightarrow> E e w' | (Inr x, w') \<Rightarrow> Q x w'"
  proof (cases "m w")
    case (Pair r w1)
    then show ?thesis using m assms(2) by (cases r) (auto simp: andthen_def valid_def)
  qed
qed

lemma valid_weaken:
  "valid P m Q E \<Longrightarrow> (\<And>w. P' w \<Longrightarrow> P w) \<Longrightarrow> (\<And>x w. Q x w \<Longrightarrow> Q' x w) \<Longrightarrow>
     (\<And>e w. E e w \<Longrightarrow> E' e w) \<Longrightarrow> valid P' m Q' E'"
  unfolding valid_def by (fastforce split: prod.splits sum.splits)

lemma valid_raise: "(\<And>w. P w \<Longrightarrow> E e w) \<Longrightarrow> valid P (raise e) Q E"
  by (simp add: valid_def raise_def)

lemma valid_ret: "(\<And>w. P w \<Longrightarrow> Q x w) \<Longrightarrow> valid P (ret x) Q E"
  by (simp add: valid_def ret_def)

lemma valid_admin: "valid P (require_admin p) (\<lambda>_. P) (\<lambda>_. P)"
  by (simp add: require_admin_def valid_ret valid_raise)

lemma valid_cluster: "valid P (cluster_or_404 ev c) (\<lambda>_. P) (\<lambda>_. P)"
  by (simp add: cluster_or_404_def valid_ret valid_raise)

lemma valid_lift: "valid P (lift_seq wrap r) (\<lambda>x w. P w \<and> r = Inr x) (\<lambda>_. P)"
  by (cases r) (auto simp: lift_seq_def valid_ret valid_raise)

lemma valid_payload: "(\<And>x w. P w \<Longrightarrow> Q x w) \<Longrightarrow> valid P (payload_of st) Q E"
  by (auto simp: valid_def payload_of_def)

text \<open>The guard either refuses and leaves everything, or runs the body and adds its record.\<close>

lemma with_audit_cases:
  obtains
    (refused) e where "with_audit desc ev p c why body w = (Inl (AuditExn e), w)"
      "guard_action (e_uuid ev) (restart_call p c why) (w_audit w) = Inl e"
  | (ran) r w2 au where "body w = (r, w2)"
      "with_audit desc ev p c why body w = (r, w2\<lparr>w_audit := au\<rparr>)"
      "is_writable (w_audit w)"
proof (cases "guard_action (e_uuid ev) (restart_call p c why) (w_audit w)")
  case (Inl e)
  show thesis by (rule refused) (use Inl in \<open>simp_all add: with_audit_def audited_def\<close>)
next
  case (Inr rec)
  have wr: "is_writable (w_audit w)"
    using Inr by (auto simp: guard_action_def split: if_splits sum.splits)
  obtain r w2 where b: "body w = (r, w2)" by (cases "body w")
  show thesis
  proof (cases r)
    case (Inl e)
    show thesis by (rule ran [OF b _ wr]) (use Inr b Inl in \<open>simp add: with_audit_def audited_def\<close>)
  next
    case ok: (Inr x)
    show thesis by (rule ran [OF b _ wr]) (use Inr b ok in \<open>simp add: with_audit_def audited_def\<close>)
  qed
qed

lemma valid_audit:
  assumes "valid P body Q E" and "\<And>w e. P w \<Longrightarrow> E (AuditExn e) w"
    and "\<And>x w au. Q x w \<Longrightarrow> Q x (w\<lparr>w_audit := au\<rparr>)" and "\<And>e w au. E e w \<Longrightarrow> E e (w\<lparr>w_audit := au\<rparr>)"
  shows "valid P (with_audit desc ev p c why body) Q E"
proof (rule validI)
  fix w assume P: "P w"
  show "case with_audit desc ev p c why body w of (Inl e, w') \<Rightarrow> E e w' | (Inr x, w') \<Rightarrow> Q x w'"
  proof (cases rule: with_audit_cases [of desc ev p c why body w])
    case (refused e)
    then show ?thesis using assms(2) P by simp
  next
    case (ran r w2 au)
    then show ?thesis using validD [OF assms(1) P ran(1)] assms(3,4) by (cases r) auto
  qed
qed

section \<open>Steps of the sequence inside a request\<close>

definition reaches :: "restart_sequence \<Rightarrow> restart_sequence \<Rightarrow> bool" where
  "reaches s s' \<longleftrightarrow> (\<exists>ops. s' = run_seq ops s)"

lemma reaches_refl: "reaches s s"
  by (auto simp: reaches_def intro: exI [of _ "[]"])

lemma reaches_trans: "reaches s s' \<Longrightarrow> reaches s' s'' \<Longrightarrow> reaches s s''"
  unfolding reaches_def by (metis run_all_append)

lemma reaches_op: "apply_op x s = Inr s' \<Longrightarrow> reaches s s'"
  by (auto simp: reaches_def intro!: exI [of _ "[x]"])

lemma reaches_steps:
  "begin_seq t s = Inr s' \<Longrightarrow> reaches s s'"
  "observe t n h s = Inr s' \<Longrightarrow> reaches s s'"
  "observe_config_store t rdy d s = Inr s' \<Longrightarrow> reaches s s'"
  "confirm_drained t s = Inr s' \<Longrightarrow> reaches s s'"
  "force_drained t why s = Inr s' \<Longrightarrow> reaches s s'"
  "mark_restarting t s = Inr s' \<Longrightarrow> reaches s s'"
  "mark_restarted t s = Inr s' \<Longrightarrow> reaches s s'"
  "confirm_healthy t s = Inr s' \<Longrightarrow> reaches s s'"
  "complete_seq t s = Inr s' \<Longrightarrow> reaches s s'"
  "begin_abort t note s = Inr s' \<Longrightarrow> reaches s s'"
  "finish_abort t s = Inr s' \<Longrightarrow> reaches s s'"
  "log_line t m l s = Inr s' \<Longrightarrow> reaches s s'"
  using reaches_op [of "(t, Begin)"] reaches_op [of "(t, Observe n h)"]
    reaches_op [of "(t, ObserveConfigStore rdy d)"] reaches_op [of "(t, ConfirmDrained)"]
    reaches_op [of "(t, ForceDrained why)"] reaches_op [of "(t, MarkRestarting)"]
    reaches_op [of "(t, MarkRestarted)"] reaches_op [of "(t, ConfirmHealthy)"]
    reaches_op [of "(t, Complete)"] reaches_op [of "(t, BeginAbort note)"]
    reaches_op [of "(t, FinishAbort)"] reaches_op [of "(t, LogLine m l)"]
  by (metis apply_op.simps)+

lemma reaches_health: "reaches s (s\<lparr>health_state := Some h\<rparr>)"
  using reaches_op [of "([], SetHealth h)" s] by simp

lemma observe_store_reaches: "observe_store ev s = Inr s' \<Longrightarrow> reaches s s'"
  by (auto simp: observe_store_def reaches_refl reaches_steps(3) split: option.splits if_splits prod.splits)

lemma observe_sequence_reaches: "observe_sequence ev s = Inr s' \<Longrightarrow> reaches s s'"
  by (auto simp: observe_sequence_def Let_def split: option.splits sum.splits prod.splits bool.splits
      dest!: observe_store_reaches reaches_steps(2)
      intro: reaches_trans [OF reaches_health] elim: reaches_trans)

lemma log_output_reaches: "log_output t ls s = Inr s' \<Longrightarrow> reaches s s'"
proof (induction ls arbitrary: s)
  case (Cons l ls)
  then show ?case by (auto split: sum.splits dest!: reaches_steps(12) elim: reaches_trans)
qed (simp add: reaches_refl)

lemma poll_executor_reaches: "poll_executor t sid ex s = Inr s' \<Longrightarrow> reaches s s'"
  by (auto simp: poll_executor_def Let_def reaches_refl
      split: executor.splits if_splits sum.splits exec_state.splits
      dest!: log_output_reaches reaches_steps(7,12) elim: reaches_trans intro: reaches_trans)

lemma reaches_frame:
  "reaches s s' \<Longrightarrow> cluster s' = cluster s \<and> reason s' = reason s \<and> actor s' = actor s"
  using run_seq_frame by (auto simp: reaches_def)

lemma reaches_held: "held r st \<Longrightarrow> reaches (sequence st) s' \<Longrightarrow> held r (st\<lparr>sequence := s'\<rparr>)"
  using held_run by (auto simp: reaches_def)


section \<open>Traffic\<close>

text \<open>The last thing the Gateway was told about a cluster.\<close>

definition last_call :: "string \<Rightarrow> world \<Rightarrow> bool option" where
  "last_call c w = map_of (rev (map (\<lambda>(cl, b, a). (cl, a)) (w_calls w))) c"

definition has_unfinished :: "string \<Rightarrow> seq_repo \<Rightarrow> bool" where
  "has_unfinished c r \<longleftrightarrow> (\<exists>i row. map_of (rows r) i = Some row \<and> unfinished row \<and> row_cluster row = c)"

definition logs_kept :: "seq_repo \<Rightarrow> bool" where
  "logs_kept r \<longleftrightarrow> (\<forall>i. map_of (rows r) i \<noteq> None \<longrightarrow> map_of (events r) i \<noteq> None)"

definition traffic_ok :: "world \<Rightarrow> bool" where
  "traffic_ok w \<longleftrightarrow> (\<forall>c. last_call c w = Some False \<longrightarrow> has_unfinished c (w_repo w))"

definition world_ok :: "world \<Rightarrow> bool" where
  "world_ok w \<longleftrightarrow> repo_inv (w_repo w) \<and> logs_kept (w_repo w) \<and> traffic_ok w"

lemma world_ok_audit [simp]: "world_ok (w\<lparr>w_audit := au\<rparr>) = world_ok w"
  by (simp add: world_ok_def traffic_ok_def last_call_def)

lemma world_ok_exec [simp]: "world_ok (w\<lparr>w_exec := x\<rparr>) = world_ok w"
  by (simp add: world_ok_def traffic_ok_def last_call_def)

text \<open>A handle in step with storage.\<close>

definition in_hand :: "stored_sequence \<Rightarrow> world \<Rightarrow> bool" where
  "in_hand st w \<longleftrightarrow> world_ok w \<and> held (w_repo w) st"

lemma in_hand_reaches:
  "in_hand st w \<Longrightarrow> reaches (sequence st) s' \<Longrightarrow> in_hand (st\<lparr>sequence := s'\<rparr>) w"
  by (simp add: in_hand_def reaches_held)

lemma in_hand_world [simp]:
  "in_hand st (w\<lparr>w_audit := au\<rparr>) = in_hand st w" "in_hand st (w\<lparr>w_exec := x\<rparr>) = in_hand st w"
  by (simp_all add: in_hand_def)

lemma save_rows:
  "save_stored t force st r = Inr (st', r') \<Longrightarrow> \<exists>row. map_of (rows r) (stored_id st) = Some row \<and>
     map_of (rows r') = (map_of (rows r))(stored_id st \<mapsto> saved_row t force (sequence st) row) \<and>
     (\<forall>i. map_of (events r) i \<noteq> None \<longrightarrow> map_of (events r') i \<noteq> None)"
  by (auto simp: save_stored_def Let_def split: option.splits)

lemma saved_row_fields:
  "row_cluster (saved_row t force s row) = row_cluster row" "row_state (saved_row t force s row) = state s"
  by (simp_all add: saved_row_def Let_def)

text \<open>Saving the handle does not finish an unfinished row.\<close>

definition keeps_open :: "stored_sequence \<Rightarrow> world \<Rightarrow> bool" where
  "keeps_open st w \<longleftrightarrow> (\<exists>row. map_of (rows (w_repo w)) (stored_id st) = Some row \<and>
     (unfinished row \<longrightarrow> state (sequence st) \<notin> set TERMINAL))"

lemma keeps_open_world [simp]:
  "keeps_open st (w\<lparr>w_audit := au\<rparr>) = keeps_open st w" "keeps_open st (w\<lparr>w_exec := x\<rparr>) = keeps_open st w"
  by (simp_all add: keeps_open_def)

lemma open_keeps_open: "in_hand st w \<Longrightarrow> state (sequence st) \<notin> set TERMINAL \<Longrightarrow> keeps_open st w"
  by (auto simp: in_hand_def held_def keeps_open_def)

lemma save_has_unfinished:
  assumes "held (w_repo w) st" and "save_stored t force st (w_repo w) = Inr (st', r')"
    and "has_unfinished c (w_repo w)" and "c \<noteq> cluster (sequence st) \<or> keeps_open st w"
  shows "has_unfinished c r'"
proof -
  let ?r = "w_repo w"
  obtain row where row: "map_of (rows ?r) (stored_id st) = Some row"
    "map_of (rows r') = (map_of (rows ?r))(stored_id st \<mapsto> saved_row t force (sequence st) row)"
    using save_rows [OF assms(2)] by auto
  have cl: "row_cluster row = cluster (sequence st)" using assms(1) row(1) by (simp add: held_def)
  obtain i row0 where i: "map_of (rows ?r) i = Some row0" "unfinished row0" "row_cluster row0 = c"
    using assms(3) by (auto simp: has_unfinished_def)
  show ?thesis
  proof (cases "i = stored_id st")
    case False
    then have "map_of (rows r') i = Some row0" using row(2) i(1) by simp
    then show ?thesis using i by (auto simp: has_unfinished_def)
  next
    case True
    then have r0: "row0 = row" using row(1) i(1) by simp
    then have "state (sequence st) \<notin> set TERMINAL"
      using assms(4) i cl row(1) by (auto simp: keeps_open_def)
    then have "unfinished (saved_row t force (sequence st) row)"
      by (simp add: unfinished_def saved_row_fields)
    then show ?thesis using row True i cl r0
      unfolding has_unfinished_def by (intro exI [of _ i]) (simp add: saved_row_fields)
  qed
qed

lemma valid_save:
  "valid (\<lambda>w. in_hand st w \<and> (keeps_open st w \<or> last_call (cluster (sequence st)) w \<noteq> Some False))
     (save_seq ev force st)
     (\<lambda>st' w. in_hand st' w \<and> sequence st' = sequence st \<and> stored_id st' = stored_id st)
     (\<lambda>_. world_ok)"
proof (rule validI)
  fix w
  assume P: "in_hand st w \<and> (keeps_open st w \<or> last_call (cluster (sequence st)) w \<noteq> Some False)"
  then have ok: "repo_inv (w_repo w)" "held (w_repo w) st" "logs_kept (w_repo w)" "traffic_ok w"
    by (simp_all add: in_hand_def world_ok_def)
  obtain r' where s: "save_stored (e_time ev) force st (w_repo w) = Inr (mark_persisted st, r')"
    and inv: "repo_inv r'" "held r' (mark_persisted st)"
    using save_stored_ok [OF ok(1,2)] by blast
  have logs: "logs_kept r'"
    using save_rows [OF s] ok(3) by (auto simp: logs_kept_def split: if_splits)
  have traffic: "traffic_ok (w\<lparr>w_repo := r'\<rparr>)"
    unfolding traffic_ok_def
  proof (intro allI impI)
    fix c assume "last_call c (w\<lparr>w_repo := r'\<rparr>) = Some False"
    then have l: "last_call c w = Some False" by (simp add: last_call_def)
    then have "has_unfinished c (w_repo w)" using ok(4) by (simp add: traffic_ok_def)
    then show "has_unfinished c (w_repo (w\<lparr>w_repo := r'\<rparr>))"
      using save_has_unfinished [OF ok(2) s] l P by auto
  qed
  show "case save_seq ev force st w of (Inl e, w') \<Rightarrow> world_ok w'
     | (Inr st', w') \<Rightarrow> in_hand st' w' \<and> sequence st' = sequence st \<and> stored_id st' = stored_id st"
    using s inv logs traffic
    by (simp add: save_seq_def in_hand_def world_ok_def) (simp add: mark_persisted_def)
qed

text \<open>As loaded: the sequence has the state of its row.\<close>

definition as_stored :: "stored_sequence \<Rightarrow> world \<Rightarrow> bool" where
  "as_stored st w \<longleftrightarrow> (\<exists>row. map_of (rows (w_repo w)) (stored_id st) = Some row \<and>
     row_state row = state (sequence st))"

lemma valid_load:
  "valid world_ok (load_or_404 i) (\<lambda>st w. in_hand st w \<and> as_stored st w \<and> stored_id st = i) (\<lambda>_. world_ok)"
proof (rule validI)
  fix w assume ok: "world_ok w"
  show "case load_or_404 i w of (Inl e, w') \<Rightarrow> world_ok w'
    | (Inr st, w') \<Rightarrow> in_hand st w' \<and> as_stored st w' \<and> stored_id st = i"
  proof (cases "load_stored (w_repo w) i")
    case (Inl e)
    then show ?thesis using ok by (simp add: load_or_404_def)
  next
    case (Inr x)
    show ?thesis
    proof (cases x)
      case None
      then show ?thesis using Inr ok by (simp add: load_or_404_def)
    next
      case (Some st)
      then have l: "load_stored (w_repo w) i = Inr (Some st)" using Inr by simp
      then obtain row where row: "map_of (rows (w_repo w)) i = Some row" "state (sequence st) = row_state row"
        by (auto simp: load_stored_def Let_def rebuild_def split: option.splits sum.splits)
      then have "map_of (events (w_repo w)) i \<noteq> None"
        using ok unfolding world_ok_def logs_kept_def by auto
      then have "held (w_repo w) st \<and> stored_id st = i"
        using load_held [OF _ l] ok by (simp add: world_ok_def)
      then show ?thesis using l ok row by (auto simp: load_or_404_def in_hand_def as_stored_def)
    qed
  qed
qed

text \<open>A pure step on the handle.\<close>

lemma valid_step:
  assumes "\<And>s s'. f s = Inr s' \<Longrightarrow> reaches s s'"
  shows "valid (\<lambda>w. in_hand st w \<and> P w) (lift_seq wrap (on_seq f st))
     (\<lambda>st' w. in_hand st' w \<and> P w \<and> f (sequence st) = Inr (sequence st') \<and>
        cluster (sequence st') = cluster (sequence st) \<and> stored_id st' = stored_id st)
     (\<lambda>_ w. in_hand st w \<and> P w)"
proof (cases "f (sequence st)")
  case (Inl e)
  then show ?thesis by (auto simp: on_seq_def lift_seq_def valid_raise)
next
  case (Inr s')
  then show ?thesis
    using assms [OF Inr] reaches_frame [OF assms [OF Inr]] in_hand_reaches
    by (auto simp: on_seq_def lift_seq_def intro!: valid_ret)
qed

lemma observe_stored_on_seq: "observe_stored ev st = lift_seq SequenceExn (on_seq (observe_sequence ev) st)"
  by (simp add: observe_stored_def on_seq_def)

lemma valid_observe:
  "valid (\<lambda>w. in_hand st w \<and> P w) (observe_stored ev st)
     (\<lambda>st' w. in_hand st' w \<and> P w \<and> observe_sequence ev (sequence st) = Inr (sequence st') \<and>
        cluster (sequence st') = cluster (sequence st) \<and> stored_id st' = stored_id st)
     (\<lambda>_ w. in_hand st w \<and> P w)"
  unfolding observe_stored_on_seq by (rule valid_step) (rule observe_sequence_reaches)

lemma last_call_set:
  "last_call c (w\<lparr>w_calls := w_calls w @ [(c', b, a)]\<rparr>) = (if c = c' then Some a else last_call c w)"
  by (simp add: last_call_def)

lemma valid_gateway:
  "valid (\<lambda>w. in_hand st w \<and> P w \<and> (active \<or> has_unfinished c (w_repo w)))
     (set_gateway_active ev c active)
     (\<lambda>_ w. in_hand st w \<and> last_call c w = Some active) (\<lambda>_ w. in_hand st w \<and> P w)"
  by (auto simp: valid_def set_gateway_active_def in_hand_def world_ok_def traffic_ok_def last_call_set
      split: option.split sum.split if_splits)


lemma observe_store_state: "observe_store ev s = Inr s' \<Longrightarrow> state s' = state s"
  by (auto simp: observe_store_def observe_config_store_def log_line_def Let_def
      split: option.splits if_splits prod.splits)

lemma observe_sequence_state:
  "observe_sequence ev s = Inr s' \<Longrightarrow> state s' = state s \<or> state s = DRAINING \<and> state s' = DRAINED"
  by (auto simp: observe_sequence_def observe_def record_step_def log_line_def Let_def
      split: option.splits if_splits prod.splits bool.splits sum.splits dest!: observe_store_state)

lemma log_output_state: "log_output t ls s = Inr s' \<Longrightarrow> state s' = state s"
proof (induction ls arbitrary: s)
  case (Cons l ls)
  then obtain s1 where "log_line t (MsgText l) LEVEL_OUTPUT s = Inr s1" "log_output t ls s1 = Inr s'"
    by (auto split: sum.splits)
  with Cons.IH [of s1] show ?case by (auto simp: log_line_def split: if_splits)
qed simp

lemma poll_executor_state:
  "poll_executor t sid ex s = Inr s' \<Longrightarrow> state s' = state s \<or> state s = RESTARTING \<and> state s' = VERIFYING"
  by (auto simp: poll_executor_def log_line_def mark_restarted_def require_state_def record_step_def Let_def
      split: executor.splits if_splits sum.splits exec_state.splits dest!: log_output_state)

lemma as_stored_keeps_open:
  "as_stored st w \<Longrightarrow> stored_id st' = stored_id st \<Longrightarrow>
     (state (sequence st') \<in> set TERMINAL \<Longrightarrow> state (sequence st) \<in> set TERMINAL) \<Longrightarrow> keeps_open st' w"
  by (auto simp: as_stored_def keeps_open_def unfinished_def)

abbreviation keeps :: "(world \<Rightarrow> bool) \<Rightarrow> 'a svc \<Rightarrow> bool" where
  "keeps P m \<equiv> valid P m (\<lambda>_. P) (\<lambda>_. P)"

lemma keeps_get: "keeps world_ok (get_request ev i)"
  unfolding get_request_def
proof (rule valid_andthen [OF valid_load], rule valid_andthen)
  fix st
  show "valid (\<lambda>w. in_hand st w \<and> as_stored st w \<and> stored_id st = i) (observe_stored ev st)
      (\<lambda>_. world_ok) (\<lambda>_. world_ok)"
    by (rule valid_weaken [OF valid_observe [of st "\<lambda>_. True"]]) (auto simp: in_hand_def)
qed (rule valid_payload)

lemma keeps_refresh: "keeps world_ok (refresh_request ev i)"
  unfolding refresh_request_def
proof (rule valid_andthen [OF valid_load], rule valid_andthen)
  fix st
  show "valid (\<lambda>w. in_hand st w \<and> as_stored st w \<and> stored_id st = i) (observe_stored ev st)
      (\<lambda>st1 w. in_hand st1 w \<and> as_stored st w \<and> observe_sequence ev (sequence st) = Inr (sequence st1) \<and>
         stored_id st1 = stored_id st) (\<lambda>_. world_ok)"
    by (rule valid_weaken [OF valid_observe [of st "as_stored st"]]) (auto simp: in_hand_def)
next
  fix st st1
  let ?P = "\<lambda>st1 w. in_hand st1 w \<and> as_stored st w \<and>
      observe_sequence ev (sequence st) = Inr (sequence st1) \<and> stored_id st1 = stored_id st"
  let ?m = "\<lambda>x. andthen (lift_seq SequenceExn
        (on_seq (poll_executor (e_time ev) (show_nat (stored_id st)) x) st1)) (\<lambda>st2.
     if fingerprint st2 \<noteq> fingerprint st then andthen (save_seq ev None st2) payload_of
     else payload_of st2)"
  have "valid (?P st1) (?m x) (\<lambda>_. world_ok) (\<lambda>_. world_ok)" for x
  proof (rule valid_andthen)
    show "valid (?P st1) (lift_seq SequenceExn
        (on_seq (poll_executor (e_time ev) (show_nat (stored_id st)) x) st1))
       (\<lambda>st2 w. in_hand st2 w \<and> keeps_open st2 w) (\<lambda>_. world_ok)"
      by (rule valid_weaken [OF valid_step [where st = st1 and P = "\<lambda>w. as_stored st w \<and> observe_sequence ev (sequence st) = Inr (sequence st1) \<and>
                 stored_id st1 = stored_id st", OF poll_executor_reaches]])
         (auto simp: in_hand_def TERMINAL_def dest!: poll_executor_state observe_sequence_state
           intro!: as_stored_keeps_open)
  next
    fix st2
    show "valid (\<lambda>w. in_hand st2 w \<and> keeps_open st2 w)
       (if fingerprint st2 \<noteq> fingerprint st then andthen (save_seq ev None st2) payload_of
        else payload_of st2) (\<lambda>_. world_ok) (\<lambda>_. world_ok)"
    proof (cases "fingerprint st2 \<noteq> fingerprint st")
      case True
      have "valid (\<lambda>w. in_hand st2 w \<and> keeps_open st2 w) (save_seq ev None st2) (\<lambda>_. world_ok) (\<lambda>_. world_ok)"
        by (rule valid_weaken [OF valid_save]) (auto simp: in_hand_def)
      then show ?thesis using True by (auto intro!: valid_andthen valid_payload)
    next
      case False
      then show ?thesis by (auto simp: in_hand_def intro!: valid_payload)
    qed
  qed
  then show "valid (?P st1) (\<lambda>w. ?m (w_exec w) w) (\<lambda>_. world_ok) (\<lambda>_. world_ok)"
    by (simp add: valid_def)
qed


text \<open>The requests that change the sequence and then save it with traffic as it was.\<close>

lemma open_after:
  "begin_seq t s = Inr s' \<Longrightarrow> state s' = DRAINING"
  "force_drained t why s = Inr s' \<Longrightarrow> state s' = DRAINED"
  "confirm_drained t s = Inr s' \<Longrightarrow> state s' = DRAINED"
  "mark_restarting t s = Inr s' \<Longrightarrow> state s' = RESTARTING"
  "mark_restarted t s = Inr s' \<Longrightarrow> state s' = VERIFYING"
  "confirm_healthy t s = Inr s' \<Longrightarrow> state s' = VERIFYING"
  "begin_abort t note s = Inr s' \<Longrightarrow> state s' = ABORTING"
  "log_line t m l s = Inr s' \<Longrightarrow> state s' = state s"
  by (auto simp: begin_seq_def force_drained_def confirm_drained_def mark_restarting_def
      mark_restarted_def confirm_healthy_def begin_abort_def log_line_def require_state_def
      record_step_def relevel_last_def Let_def split: if_splits option.splits sum.splits)

lemma in_hand_ok: "in_hand st w \<Longrightarrow> world_ok w"
  by (simp add: in_hand_def)

lemma valid_save_open:
  "state (sequence st) \<notin> set TERMINAL \<Longrightarrow>
     valid (in_hand st) (save_seq ev force st)
       (\<lambda>st' w. in_hand st' w \<and> sequence st' = sequence st \<and> stored_id st' = stored_id st) (\<lambda>_. world_ok)"
  by (rule valid_weaken [OF valid_save]) (auto intro: open_keeps_open)

lemma valid_cond: "(B \<Longrightarrow> valid P m Q E) \<Longrightarrow> valid (\<lambda>w. B \<and> P w) m Q E"
  by (auto simp: valid_def)

lemma valid_pre: "valid P m Q E \<Longrightarrow> (\<And>w. P' w \<Longrightarrow> P w) \<Longrightarrow> valid P' m Q E"
  by (rule valid_weaken)

text \<open>A step whose result is known to be open, for chains of steps.\<close>

lemma valid_step_to:
  assumes "\<And>s s'. f s = Inr s' \<Longrightarrow> reaches s s'" and "\<And>s'. f (sequence st) = Inr s' \<Longrightarrow> C s'"
  shows "valid (in_hand st) (lift_seq wrap (on_seq f st))
     (\<lambda>st' w. (C (sequence st') \<and> cluster (sequence st') = cluster (sequence st) \<and>
        stored_id st' = stored_id st) \<and> in_hand st' w) (\<lambda>_. world_ok)"
  by (rule valid_weaken [OF valid_step [where P = "\<lambda>_. True", OF assms(1)]])
     (use assms(2) in \<open>auto simp: in_hand_def\<close>)

lemma valid_observe_to:
  "valid (in_hand st) (observe_stored ev st)
     (\<lambda>st' w. ((state (sequence st') = state (sequence st) \<or>
                 state (sequence st) = DRAINING \<and> state (sequence st') = DRAINED) \<and>
        cluster (sequence st') = cluster (sequence st) \<and> stored_id st' = stored_id st) \<and>
        in_hand st' w) (\<lambda>_. world_ok)"
  by (rule valid_weaken [OF valid_observe [where P = "\<lambda>_. True"]])
     (auto simp: in_hand_def dest: observe_sequence_state)

lemma valid_load_hand: "valid world_ok (load_or_404 i) in_hand (\<lambda>_. world_ok)"
  by (rule valid_weaken [OF valid_load]) auto

lemma save_then_get:
  "state (sequence st) \<notin> set TERMINAL \<Longrightarrow>
   valid (in_hand st) (andthen (save_seq ev force st) (\<lambda>_. get_request ev i)) (\<lambda>_. world_ok) (\<lambda>_. world_ok)"
  by (rule valid_andthen [OF valid_save_open])
     (auto intro: valid_pre [OF keeps_get] simp: in_hand_def)

lemma keeps_mark_restarted: "keeps world_ok (mark_restarted_request ev p i)"
  unfolding mark_restarted_request_def
proof (rule valid_andthen [OF valid_admin], rule valid_andthen [OF valid_load_hand], rule valid_andthen)
  fix st
  show "valid (in_hand st) (lift_seq seq_invalid (on_seq (mark_restarted (e_time ev)) st))
     (\<lambda>st' w. (state (sequence st') = VERIFYING \<and> cluster (sequence st') = cluster (sequence st) \<and>
        stored_id st' = stored_id st) \<and> in_hand st' w) (\<lambda>_. world_ok)"
    by (rule valid_step_to) (auto intro: reaches_steps open_after)
next
  fix st st1
  show "valid (\<lambda>w. (state (sequence st1) = VERIFYING \<and> cluster (sequence st1) = cluster (sequence st) \<and>
        stored_id st1 = stored_id st) \<and> in_hand st1 w)
      (andthen (observe_stored ev st1) (\<lambda>st2. andthen (save_seq ev None st2) (\<lambda>_. get_request ev i)))
      (\<lambda>_. world_ok) (\<lambda>_. world_ok)"
    by (rule valid_cond, rule valid_andthen [OF valid_observe_to], rule valid_cond, rule save_then_get)
       (auto simp: TERMINAL_def)
qed

lemma keeps_force_drain: "keeps world_ok (force_drain_request desc ev p i why)"
  unfolding force_drain_request_def
proof (rule valid_andthen [OF valid_admin], rule valid_andthen [OF valid_load_hand],
    rule valid_andthen [OF valid_observe_to], rule valid_cond, rule valid_andthen)
  fix st st1
  show "valid (in_hand st1) (lift_seq seq_invalid (on_seq (force_drained (e_time ev) (Some why)) st1))
     (\<lambda>st' w. (state (sequence st') = DRAINED \<and> cluster (sequence st') = cluster (sequence st1) \<and>
        stored_id st' = stored_id st1) \<and> in_hand st' w) (\<lambda>_. world_ok)"
    by (rule valid_step_to) (auto intro: reaches_steps open_after)
next
  fix st1 st2
  show "valid (\<lambda>w. (state (sequence st2) = DRAINED \<and> cluster (sequence st2) = cluster (sequence st1) \<and>
        stored_id st2 = stored_id st1) \<and> in_hand st2 w)
     (andthen (with_audit desc ev p (cluster (sequence st2)) why (save_seq ev (Some why) st2))
        (\<lambda>_. get_request ev i)) (\<lambda>_. world_ok) (\<lambda>_. world_ok)"
  proof (rule valid_cond, rule valid_andthen [OF valid_audit [where Q = "\<lambda>_. world_ok"]])
    assume "state (sequence st2) = DRAINED \<and> cluster (sequence st2) = cluster (sequence st1) \<and>
        stored_id st2 = stored_id st1"
    then show "valid (in_hand st2) (save_seq ev (Some why) st2) (\<lambda>_. world_ok) (\<lambda>_. world_ok)"
      by (intro valid_weaken [OF valid_save_open]) (auto simp: in_hand_def TERMINAL_def)
  qed (auto simp: in_hand_def intro: keeps_get)
qed


lemma keeps_restart: "keeps world_ok (restart_request desc ev p i)"
  unfolding restart_request_def
proof (rule valid_andthen [OF valid_admin], rule valid_andthen [OF valid_load_hand],
    rule valid_andthen [OF valid_observe_to], rule valid_cond, rule valid_andthen)
  fix st1
  show "valid (in_hand st1) (lift_seq seq_invalid (on_seq (confirm_drained (e_time ev)) st1))
     (\<lambda>st' w. (state (sequence st') = DRAINED \<and> cluster (sequence st') = cluster (sequence st1) \<and>
        stored_id st' = stored_id st1) \<and> in_hand st' w) (\<lambda>_. world_ok)"
    by (rule valid_step_to) (auto intro: reaches_steps open_after)
next
  fix st1 st2
  let ?rest = "\<lambda>st3. andthen (with_audit desc ev p (cluster (sequence st3)) (reason (sequence st3)) (\<lambda>w.
         case exec_start (e_host ev) (cluster (sequence st3)) (show_nat (stored_id st3)) (w_exec w) of
           Inl e \<Rightarrow> (Inl (ExecutorExn e), w)
         | Inr (started, x) \<Rightarrow> (Inr started, w\<lparr>w_exec := x\<rparr>))) (\<lambda>started.
     andthen (lift_seq SequenceExn
        (on_seq (if started = PENDING_OPERATOR
                 then log_line (e_time ev) (MsgOperator (cluster (sequence st3))) LEVEL_WARN
                 else log_line (e_time ev) MsgPlaybookRunning LEVEL_INFO) st3)) (\<lambda>st4.
     andthen (save_seq ev None st4) (\<lambda>_. get_request ev i)))"
  have rest: "valid (in_hand st3) (?rest st3) (\<lambda>_. world_ok) (\<lambda>_. world_ok)"
    if "state (sequence st3) = RESTARTING" for st3
  proof (rule valid_andthen [OF valid_audit [where Q = "\<lambda>_. in_hand st3"]])
    show "valid (in_hand st3) (\<lambda>w.
         case exec_start (e_host ev) (cluster (sequence st3)) (show_nat (stored_id st3)) (w_exec w) of
           Inl e \<Rightarrow> (Inl (ExecutorExn e), w)
         | Inr (started, x) \<Rightarrow> (Inr started, w\<lparr>w_exec := x\<rparr>)) (\<lambda>_. in_hand st3) (\<lambda>_. world_ok)"
      by (auto simp: valid_def in_hand_def split: sum.splits)
  next
    fix started
    let ?log = "if started = PENDING_OPERATOR
                 then log_line (e_time ev) (MsgOperator (cluster (sequence st3))) LEVEL_WARN
                 else log_line (e_time ev) MsgPlaybookRunning LEVEL_INFO"
    show "valid (in_hand st3) (andthen (lift_seq SequenceExn (on_seq ?log st3)) (\<lambda>st4.
     andthen (save_seq ev None st4) (\<lambda>_. get_request ev i))) (\<lambda>_. world_ok) (\<lambda>_. world_ok)"
    proof (rule valid_andthen [OF valid_step_to [where C = "\<lambda>s'. state s' = RESTARTING"]])
      fix st4
      show "valid (\<lambda>w. (state (sequence st4) = RESTARTING \<and> cluster (sequence st4) = cluster (sequence st3) \<and>
          stored_id st4 = stored_id st3) \<and> in_hand st4 w)
        (andthen (save_seq ev None st4) (\<lambda>_. get_request ev i)) (\<lambda>_. world_ok) (\<lambda>_. world_ok)"
        by (rule valid_cond, rule save_then_get) (auto simp: TERMINAL_def)
    qed (use that in \<open>auto split: if_splits dest: reaches_steps(12) open_after(8)\<close>)
  qed (auto simp: in_hand_def)
  show "valid (\<lambda>w. (state (sequence st2) = DRAINED \<and> cluster (sequence st2) = cluster (sequence st1) \<and>
        stored_id st2 = stored_id st1) \<and> in_hand st2 w)
     (andthen (lift_seq seq_invalid (on_seq (mark_restarting (e_time ev)) st2)) ?rest)
     (\<lambda>_. world_ok) (\<lambda>_. world_ok)"
  proof (rule valid_cond, rule valid_andthen [OF valid_step_to [where C = "\<lambda>s'. state s' = RESTARTING"]])
    fix st3
    show "valid (\<lambda>w. (state (sequence st3) = RESTARTING \<and> cluster (sequence st3) = cluster (sequence st2) \<and>
        stored_id st3 = stored_id st2) \<and> in_hand st3 w) (?rest st3) (\<lambda>_. world_ok) (\<lambda>_. world_ok)"
      by (rule valid_cond, rule rest) simp
  qed (auto intro: reaches_steps open_after)
qed

text \<open>Traffic comes back before the sequence is finished.\<close>

lemma finish_then_get:
  assumes "\<And>s s'. f s = Inr s' \<Longrightarrow> reaches s s'"
  shows "valid (\<lambda>w. in_hand st w \<and> last_call (cluster (sequence st)) w = Some True)
     (andthen (lift_seq SequenceExn (on_seq f st)) (\<lambda>st3.
      andthen (save_seq ev None st3) (\<lambda>_. get_request ev i))) (\<lambda>_. world_ok) (\<lambda>_. world_ok)"
proof (rule valid_andthen)
  show "valid (\<lambda>w. in_hand st w \<and> last_call (cluster (sequence st)) w = Some True)
      (lift_seq SequenceExn (on_seq f st))
      (\<lambda>st3 w. in_hand st3 w \<and> last_call (cluster (sequence st3)) w = Some True) (\<lambda>_. world_ok)"
    by (rule valid_weaken [OF valid_step
          [where P = "\<lambda>w. last_call (cluster (sequence st)) w = Some True", OF assms]])
       (auto simp: in_hand_def)
  fix st3
  show "valid (\<lambda>w. in_hand st3 w \<and> last_call (cluster (sequence st3)) w = Some True)
      (andthen (save_seq ev None st3) (\<lambda>_. get_request ev i)) (\<lambda>_. world_ok) (\<lambda>_. world_ok)"
    by (rule valid_andthen [OF valid_pre [OF valid_save]])
       (auto intro: valid_pre [OF keeps_get] simp: in_hand_def)
qed

lemma last_call_audit [simp]: "last_call c (w\<lparr>w_audit := au\<rparr>) = last_call c w"
  by (simp add: last_call_def)

lemma valid_restore:
  "valid (in_hand st) (with_audit desc ev p c why (set_gateway_active ev c True))
     (\<lambda>_ w. in_hand st w \<and> last_call c w = Some True) (\<lambda>_. in_hand st)"
proof (rule valid_audit)
  show "valid (in_hand st) (set_gateway_active ev c True)
      (\<lambda>_ w. in_hand st w \<and> last_call c w = Some True) (\<lambda>_. in_hand st)"
    by (rule valid_weaken [OF valid_gateway [where P = "\<lambda>_. True"]]) auto
qed auto

lemma keeps_complete: "keeps world_ok (complete_request desc ev p i)"
  unfolding complete_request_def
proof (rule valid_andthen [OF valid_admin], rule valid_andthen [OF valid_load])
  fix st
  show "valid (\<lambda>w. in_hand st w \<and> as_stored st w \<and> stored_id st = i)
     (andthen (observe_stored ev st) (\<lambda>st1.
     case on_seq (confirm_healthy (e_time ev)) st1 of
       Inl (StepBlocked f) \<Rightarrow>
         andthen (save_seq ev None st1) (\<lambda>_. raise (seq_invalid (StepBlocked f)))
     | Inl e \<Rightarrow> raise (seq_invalid e)
     | Inr st2 \<Rightarrow>
         andthen (with_audit desc ev p (cluster (sequence st2)) (reason (sequence st2))
                    (set_gateway_active ev (cluster (sequence st2)) True)) (\<lambda>_.
         andthen (lift_seq SequenceExn (on_seq (complete_seq (e_time ev)) st2)) (\<lambda>st3.
         andthen (save_seq ev None st3) (\<lambda>_.
         get_request ev i))))) (\<lambda>_. world_ok) (\<lambda>_. world_ok)"
  proof (rule valid_andthen)
    show "valid (\<lambda>w. in_hand st w \<and> as_stored st w \<and> stored_id st = i) (observe_stored ev st)
        (\<lambda>st1 w. in_hand st1 w \<and> keeps_open st1 w) (\<lambda>_. world_ok)"
      by (rule valid_weaken [OF valid_observe [where P = "as_stored st"]])
         (auto simp: in_hand_def TERMINAL_def dest!: observe_sequence_state intro!: as_stored_keeps_open)
  next
    fix st1
    have save: "valid (\<lambda>w. in_hand st1 w \<and> keeps_open st1 w)
        (andthen (save_seq ev None st1) (\<lambda>_. raise x)) (\<lambda>_. world_ok) (\<lambda>_. world_ok)" for x
      by (rule valid_andthen [OF valid_pre [OF valid_save]]) (auto intro: valid_raise simp: in_hand_def)
    have go: "valid (in_hand st2)
        (andthen (with_audit desc ev p (cluster (sequence st2)) (reason (sequence st2))
                    (set_gateway_active ev (cluster (sequence st2)) True)) (\<lambda>_.
         andthen (lift_seq SequenceExn (on_seq (complete_seq (e_time ev)) st2)) (\<lambda>st3.
         andthen (save_seq ev None st3) (\<lambda>_. get_request ev i)))) (\<lambda>_. world_ok) (\<lambda>_. world_ok)" for st2
    proof (rule valid_andthen)
      show "valid (in_hand st2) (with_audit desc ev p (cluster (sequence st2)) (reason (sequence st2))
                    (set_gateway_active ev (cluster (sequence st2)) True))
          (\<lambda>_ w. in_hand st2 w \<and> last_call (cluster (sequence st2)) w = Some True) (\<lambda>_. world_ok)"
        by (rule valid_weaken [OF valid_restore]) (auto simp: in_hand_def)
    qed (rule finish_then_get, rule reaches_steps)
    show "valid (\<lambda>w. in_hand st1 w \<and> keeps_open st1 w)
      (case on_seq (confirm_healthy (e_time ev)) st1 of
       Inl (StepBlocked f) \<Rightarrow>
         andthen (save_seq ev None st1) (\<lambda>_. raise (seq_invalid (StepBlocked f)))
     | Inl e \<Rightarrow> raise (seq_invalid e)
     | Inr st2 \<Rightarrow>
         andthen (with_audit desc ev p (cluster (sequence st2)) (reason (sequence st2))
                    (set_gateway_active ev (cluster (sequence st2)) True)) (\<lambda>_.
         andthen (lift_seq SequenceExn (on_seq (complete_seq (e_time ev)) st2)) (\<lambda>st3.
         andthen (save_seq ev None st3) (\<lambda>_. get_request ev i)))) (\<lambda>_. world_ok) (\<lambda>_. world_ok)"
    proof (cases "confirm_healthy (e_time ev) (sequence st1)")
      case (Inl e)
      then show ?thesis using save
        by (cases e) (auto simp: on_seq_def in_hand_def intro!: valid_raise)
    next
      case (Inr s')
      have r: "reaches (sequence st1) s'" using Inr by (rule reaches_steps)
      have "valid (in_hand st1) (andthen (with_audit desc ev p (cluster s') (reason s')
                    (set_gateway_active ev (cluster s') True)) (\<lambda>_.
         andthen (lift_seq SequenceExn (on_seq (complete_seq (e_time ev)) (st1\<lparr>sequence := s'\<rparr>))) (\<lambda>st3.
         andthen (save_seq ev None st3) (\<lambda>_. get_request ev i)))) (\<lambda>_. world_ok) (\<lambda>_. world_ok)"
        by (rule valid_pre [OF go [of "st1\<lparr>sequence := s'\<rparr>", simplified]]) (rule in_hand_reaches [OF _ r])
      then show ?thesis using Inr by (auto simp: on_seq_def intro: valid_pre)
    qed
  qed
qed


lemma keeps_abort: "keeps world_ok (abort_request desc ev p i note)"
  unfolding abort_request_def
proof (rule valid_andthen [OF valid_admin], rule valid_andthen [OF valid_load_hand],
    rule valid_andthen [OF valid_step_to [where C = "\<lambda>s'. state s' = ABORTING"]])
  fix st st1
  let ?rest = "\<lambda>st2 w. case with_audit desc ev p (cluster (sequence st2))
            (if note \<noteq> [] then note else reason (sequence st2))
            (set_gateway_active ev (cluster (sequence st2)) True) w of
       (Inl e, w1) \<Rightarrow>
         andthen (lift_seq SequenceExn
            (on_seq (log_line (e_time ev) (MsgCannotRestore (desc e) (cluster (sequence st2))) LEVEL_ERROR) st2))
           (\<lambda>st3. andthen (save_seq ev None st3)
              (\<lambda>_. raise (ApiExn UpstreamUnavailable (TrafficNotRestored (cluster (sequence st2)))))) w1
     | (Inr _, w1) \<Rightarrow>
         andthen (lift_seq SequenceExn (on_seq (finish_abort (e_time ev)) st2)) (\<lambda>st3.
         andthen (save_seq ev None st3) (\<lambda>_. get_request ev i)) w1"
  have failed: "valid (in_hand st2) (andthen (lift_seq SequenceExn
        (on_seq (log_line (e_time ev) m LEVEL_ERROR) st2))
       (\<lambda>st3. andthen (save_seq ev None st3) (\<lambda>_. raise x))) (\<lambda>_. world_ok) (\<lambda>_. world_ok)"
    if "state (sequence st2) = ABORTING" for st2 m and x
  proof (rule valid_andthen [OF valid_step_to [where C = "\<lambda>s'. state s' = ABORTING"]])
    fix st3
    show "valid (\<lambda>w. (state (sequence st3) = ABORTING \<and> cluster (sequence st3) = cluster (sequence st2) \<and>
        stored_id st3 = stored_id st2) \<and> in_hand st3 w)
        (andthen (save_seq ev None st3) (\<lambda>_. raise x)) (\<lambda>_. world_ok) (\<lambda>_. world_ok)"
      by (rule valid_cond, rule valid_andthen [OF valid_save_open])
         (auto simp: TERMINAL_def in_hand_def intro: valid_raise)
  qed (use that in \<open>auto dest: reaches_steps(12) open_after(8)\<close>)
  have rest: "valid (in_hand st2) (?rest st2) (\<lambda>_. world_ok) (\<lambda>_. world_ok)"
    if s: "state (sequence st2) = ABORTING" for st2
  proof (rule validI)
    fix w assume h: "in_hand st2 w"
    obtain r w1 where a: "with_audit desc ev p (cluster (sequence st2))
            (if note \<noteq> [] then note else reason (sequence st2))
            (set_gateway_active ev (cluster (sequence st2)) True) w = (r, w1)"
      by (cases "with_audit desc ev p (cluster (sequence st2))
            (if note \<noteq> [] then note else reason (sequence st2))
            (set_gateway_active ev (cluster (sequence st2)) True) w")
    have v: "case r of Inl e \<Rightarrow> in_hand st2 w1
        | Inr x \<Rightarrow> in_hand st2 w1 \<and> last_call (cluster (sequence st2)) w1 = Some True"
      using validD [OF valid_restore h a] .
    show "case ?rest st2 w of (Inl e, w') \<Rightarrow> world_ok w' | (Inr x, w') \<Rightarrow> world_ok w'"
    proof (cases r)
      case (Inl e)
      then have "in_hand st2 w1" using v by simp
      from validE [OF failed [OF s] this] show ?thesis using a Inl by simp
    next
      case (Inr x)
      then have "in_hand st2 w1 \<and> last_call (cluster (sequence st2)) w1 = Some True" using v by simp
      from validE [OF finish_then_get [OF reaches_steps(11)] this] show ?thesis using a Inr by simp
    qed
  qed
  show "valid (\<lambda>w. (state (sequence st1) = ABORTING \<and> cluster (sequence st1) = cluster (sequence st) \<and>
      stored_id st1 = stored_id st) \<and> in_hand st1 w)
     (andthen (save_seq ev None st1) ?rest) (\<lambda>_. world_ok) (\<lambda>_. world_ok)"
  proof (rule valid_cond, rule valid_andthen)
    assume s: "state (sequence st1) = ABORTING \<and> cluster (sequence st1) = cluster (sequence st) \<and>
      stored_id st1 = stored_id st"
    then show "valid (in_hand st1) (save_seq ev None st1)
       (\<lambda>st2 w. state (sequence st2) = ABORTING \<and> in_hand st2 w) (\<lambda>_. world_ok)"
      by (intro valid_weaken [OF valid_save_open]) (auto simp: TERMINAL_def)
  qed (rule valid_cond, rule rest)
qed (auto intro: reaches_steps open_after)

section \<open>Starting\<close>

lemma create_keeps_rows:
  assumes "repo_inv r" and "create_stored t s roles r = Inr (st, r')"
  shows "\<forall>i row. map_of (rows r) i = Some row \<longrightarrow> map_of (rows r') i = Some row"
    and "logs_kept r \<Longrightarrow> logs_kept r'"
proof -
  have fresh: "map_of (rows r) (next_id r) = None"
  proof (cases "map_of (rows r) (next_id r)")
    case (Some row)
    have "\<forall>i row. map_of (rows r) i = Some row \<longrightarrow> i < next_id r"
      using assms(1) unfolding repo_inv_def by blast
    then show ?thesis using Some by blast
  qed simp
  obtain rw evs where
    R: "map_of (rows r') = (map_of (rows r))(next_id r \<mapsto> rw)"
       "map_of (events r') = (map_of (events r))(next_id r \<mapsto> evs)"
    using assms(2)
    by (auto simp: create_stored_def save_stored_def Let_def split: sum.splits option.splits)
  show "\<forall>i row. map_of (rows r) i = Some row \<longrightarrow> map_of (rows r') i = Some row"
    using R(1) fresh by auto
  show "logs_kept r \<Longrightarrow> logs_kept r'"
    using R by (auto simp: logs_kept_def)
qed

lemma has_unfinished_mono:
  "\<forall>i row. map_of (rows r) i = Some row \<longrightarrow> map_of (rows r') i = Some row \<Longrightarrow>
     has_unfinished c r \<Longrightarrow> has_unfinished c r'"
  unfolding has_unfinished_def by blast

lemma create_in_hand:
  assumes "world_ok w" and "\<not> blank (reason s)" and "strip (reason s) = reason s"
    and "create_stored t s roles (w_repo w) = Inr (st, r')"
  shows "in_hand st (w\<lparr>w_repo := r'\<rparr>) \<and> sequence st = s \<and>
    last_call (cluster s) (w\<lparr>w_repo := r'\<rparr>) \<noteq> Some False"
proof -
  have inv: "repo_inv (w_repo w)" "logs_kept (w_repo w)" "traffic_ok w"
    using assms(1) by (simp_all add: world_ok_def)
  have c: "repo_inv r'" "held r' st" "sequence st = s"
      "\<not> has_unfinished (cluster s) (w_repo w)"
    using create_stored_ok [OF inv(1) assms(2,3), of t roles] assms(4) by (auto simp: has_unfinished_def)
  have l: "last_call (cluster s) w \<noteq> Some False"
    using c(4) inv(3) by (auto simp: traffic_ok_def)
  have "traffic_ok (w\<lparr>w_repo := r'\<rparr>)"
    using inv(3) has_unfinished_mono [OF create_keeps_rows(1) [OF inv(1) assms(4)]]
    by (auto simp: traffic_ok_def last_call_def)
  then show ?thesis
    using c l create_keeps_rows(2) [OF inv(1) assms(4) inv(2)]
    by (simp add: in_hand_def world_ok_def last_call_def)
qed


text \<open>After the deactivation failed, nothing was changed in the Gateway and the new sequence is closed.\<close>

lemma keeps_close_out:
  "valid (\<lambda>w. in_hand st w \<and> last_call (cluster (sequence st)) w \<noteq> Some False)
     (close_out desc ev st e) (\<lambda>_. world_ok) (\<lambda>_. world_ok)"
proof -
  let ?f = "\<lambda>s. case log_line (e_time ev) (MsgCannotStop (desc e)) ''error'' s of
           Inl x \<Rightarrow> Inl x
         | Inr s1 \<Rightarrow>
             (case begin_abort (e_time ev) ''Nothing was changed.'' s1 of
                Inl x \<Rightarrow> Inl x
              | Inr s2 \<Rightarrow> finish_abort (e_time ev) s2)"
  have r: "?f s = Inr s' \<Longrightarrow> reaches s s'" for s s'
    by (auto split: sum.splits dest!: reaches_steps(10,11,12) elim: reaches_trans intro: reaches_trans)
  show ?thesis
    unfolding close_out_def
  proof (rule valid_andthen)
    show "valid (\<lambda>w. in_hand st w \<and> last_call (cluster (sequence st)) w \<noteq> Some False)
        (lift_seq SequenceExn (?f (sequence st)))
        (\<lambda>s w. in_hand (st\<lparr>sequence := s\<rparr>) w \<and> last_call (cluster s) w \<noteq> Some False) (\<lambda>_. world_ok)"
    proof (cases "?f (sequence st)")
      case (Inl x)
      then show ?thesis by (auto simp: lift_seq_def in_hand_def intro!: valid_raise)
    next
      case (Inr s)
      have "reaches (sequence st) s" by (rule r) (rule Inr)
      then show ?thesis using Inr in_hand_reaches reaches_frame
        by (auto simp: lift_seq_def intro!: valid_ret)
    qed
    fix s
    show "valid (\<lambda>w. in_hand (st\<lparr>sequence := s\<rparr>) w \<and> last_call (cluster s) w \<noteq> Some False)
        (andthen (save_seq ev None (st\<lparr>sequence := s\<rparr>)) (\<lambda>_. raise e)) (\<lambda>_. world_ok) (\<lambda>_. world_ok)"
      by (rule valid_andthen [OF valid_pre [OF valid_save]]) (auto simp: in_hand_def intro: valid_raise)
  qed
qed

lemma fresh_sequence_fields:
  "new_sequence c (Some why) a = Inr s \<Longrightarrow> state s = PENDING \<and> cluster s = c \<and>
     \<not> blank (reason s) \<and> strip (reason s) = reason s"
  by (auto simp: new_sequence_def blank_opt_def split: if_splits)

lemma keeps_begin:
  assumes "state (sequence st) = PENDING"
  shows "valid (in_hand st) (andthen (lift_seq SequenceExn (on_seq (begin_seq (e_time ev)) st)) (\<lambda>st1.
     andthen (observe_stored ev st1) (\<lambda>st2. andthen (save_seq ev None st2) (\<lambda>st3.
     get_request ev (stored_id st3))))) (\<lambda>_. world_ok) (\<lambda>_. world_ok)"
proof (rule valid_andthen [OF valid_step_to [where C = "\<lambda>s'. state s' = DRAINING"]])
  fix st1
  show "valid (\<lambda>w. (state (sequence st1) = DRAINING \<and> cluster (sequence st1) = cluster (sequence st) \<and>
      stored_id st1 = stored_id st) \<and> in_hand st1 w)
     (andthen (observe_stored ev st1) (\<lambda>st2. andthen (save_seq ev None st2) (\<lambda>st3.
      get_request ev (stored_id st3)))) (\<lambda>_. world_ok) (\<lambda>_. world_ok)"
  proof (rule valid_cond, rule valid_andthen [OF valid_observe_to], rule valid_cond)
    fix st2 :: stored_sequence
    assume s: "state (sequence st1) = DRAINING \<and> cluster (sequence st1) = cluster (sequence st) \<and>
      stored_id st1 = stored_id st"
      "(state (sequence st2) = state (sequence st1) \<or>
         state (sequence st1) = DRAINING \<and> state (sequence st2) = DRAINED) \<and>
        cluster (sequence st2) = cluster (sequence st1) \<and> stored_id st2 = stored_id st1"
    show "valid (in_hand st2) (andthen (save_seq ev None st2) (\<lambda>st3. get_request ev (stored_id st3)))
       (\<lambda>_. world_ok) (\<lambda>_. world_ok)"
    proof (rule valid_andthen [OF valid_save_open])
      fix st3
      show "valid (\<lambda>w. in_hand st3 w \<and> sequence st3 = sequence st2 \<and> stored_id st3 = stored_id st2)
         (get_request ev (stored_id st3)) (\<lambda>_. world_ok) (\<lambda>_. world_ok)"
        by (rule valid_pre [OF keeps_get]) (simp add: in_hand_def)
    qed (use s in \<open>auto simp: TERMINAL_def\<close>)
  qed
qed (auto intro: reaches_steps open_after)

lemma pending_unfinished:
  "in_hand st w \<Longrightarrow> state (sequence st) = PENDING \<Longrightarrow> has_unfinished (cluster (sequence st)) (w_repo w)"
  unfolding in_hand_def held_def has_unfinished_def TERMINAL_def by fastforce

lemma keeps_start: "keeps world_ok (start_request desc ev p c why)"
  unfolding start_request_def
proof (rule valid_andthen [OF valid_admin], rule valid_andthen [OF valid_cluster])
  let ?m = "(\<lambda>w.
       case exec_preflight (e_host ev) c (w_exec w) of
         Inl e \<Rightarrow> (Inl (ApiExn InvalidRequest (CannotRestart e)), w)
       | Inr _ \<Rightarrow>
           (case new_sequence c (Some why) (pr_username p) of
              Inl e \<Rightarrow> (Inl (SequenceExn e), w)
            | Inr s \<Rightarrow>
                (case create_stored (e_time ev) s (pr_roles p) (w_repo w) of
                   Inl (ActiveSequenceExists x) \<Rightarrow>
                     (Inl (ApiExn InvalidRequest (StoreSays (ActiveSequenceExists x))), w)
                 | Inl e \<Rightarrow> (Inl (RepoExn e), w)
                 | Inr (st, r) \<Rightarrow>
                     (case with_audit desc ev p c why (set_gateway_active ev c False)
                             (w\<lparr>w_repo := r\<rparr>) of
                        (Inl e, w1) \<Rightarrow> close_out desc ev st e w1
                      | (Inr _, w1) \<Rightarrow>
                          andthen (lift_seq SequenceExn (on_seq (begin_seq (e_time ev)) st)) (\<lambda>st1.
                          andthen (observe_stored ev st1) (\<lambda>st2.
                          andthen (save_seq ev None st2) (\<lambda>st3.
                          get_request ev (stored_id st3)))) w1))))"
  have "keeps world_ok ?m"
  proof (rule validI)
    fix w assume ok: "world_ok w"
    show "case ?m w of (Inl e, w') \<Rightarrow> world_ok w' | (Inr x, w') \<Rightarrow> world_ok w'"
    proof (cases "\<exists>s st r. exec_preflight (e_host ev) c (w_exec w) = Inr () \<and>
        new_sequence c (Some why) (pr_username p) = Inr s \<and>
        create_stored (e_time ev) s (pr_roles p) (w_repo w) = Inr (st, r)")
      case no: False
      then show ?thesis using ok
        by (auto split: sum.split repo_exn.split prod.split)
    next
      case True
      then obtain s st r where pre: "exec_preflight (e_host ev) c (w_exec w) = Inr ()"
        and s: "new_sequence c (Some why) (pr_username p) = Inr s"
        and cr: "create_stored (e_time ev) s (pr_roles p) (w_repo w) = Inr (st, r)" by blast
      note f = fresh_sequence_fields [OF s]
      let ?w = "w\<lparr>w_repo := r\<rparr>"
      have h: "in_hand st ?w" "sequence st = s" "last_call c ?w \<noteq> Some False"
        using create_in_hand [OF ok _ _ cr] f by auto
      obtain x w1 where a: "with_audit desc ev p c why (set_gateway_active ev c False) ?w = (x, w1)"
        by (cases "with_audit desc ev p c why (set_gateway_active ev c False) ?w")
      have "valid (\<lambda>w. in_hand st w \<and> last_call c w \<noteq> Some False \<and> has_unfinished c (w_repo w))
         (with_audit desc ev p c why (set_gateway_active ev c False)) (\<lambda>_. in_hand st)
         (\<lambda>_ w. in_hand st w \<and> last_call c w \<noteq> Some False)"
        by (rule valid_audit [OF valid_weaken [OF valid_gateway [where P = "\<lambda>w. last_call c w \<noteq> Some False"]]])
           auto
      from validD [OF this _ a] h f pending_unfinished [OF h(1)]
      have v: "case x of Inl e \<Rightarrow> in_hand st w1 \<and> last_call c w1 \<noteq> Some False | Inr y \<Rightarrow> in_hand st w1"
        by simp
      show ?thesis
      proof (cases x)
        case (Inl e)
        then have "in_hand st w1 \<and> last_call (cluster (sequence st)) w1 \<noteq> Some False"
          using v h(2) f by simp
        from validE [OF keeps_close_out this] show ?thesis using pre s cr a Inl by simp
      next
        case (Inr y)
        then have "in_hand st w1" using v by simp
        from validE [OF keeps_begin this] show ?thesis using pre s cr a Inr h(2) f by simp
      qed
    qed
  qed
  then show "keeps world_ok (if blank why then raise (ApiExn InvalidRequest ReasonNeeded) else ?m)"
    by (simp add: valid_raise)
qed

text \<open>Every request keeps the world.\<close>

lemma keeps_serve: "keeps world_ok (serve desc ev p req)"
  by (cases req) (simp_all add: keeps_start keeps_get keeps_refresh keeps_force_drain keeps_restart
      keeps_mark_restarted keeps_complete keeps_abort)


section \<open>Histories\<close>

text \<open>The world also moves between requests: a playbook's thread reports, or TMS is restarted.\<close>

datatype world_event = Serve env principal request | Background exec_event

fun exec_background :: "exec_event \<Rightarrow> executor \<Rightarrow> executor" where
  "exec_background e (Manual m) = Manual (if e = ProcessRestarted then [] else m)"
| "exec_background e (Ansible x) = Ansible (case exec_event_step e x of Inl _ \<Rightarrow> x | Inr y \<Rightarrow> y)"

fun happen :: "describe \<Rightarrow> world_event \<Rightarrow> world \<Rightarrow> world" where
  "happen desc (Serve ev p req) w = snd (serve desc ev p req w)"
| "happen desc (Background e) w = w\<lparr>w_exec := exec_background e (w_exec w)\<rparr>"

definition history_of :: "describe \<Rightarrow> world_event list \<Rightarrow> world \<Rightarrow> world" where
  "history_of desc evs w = fold (happen desc) evs w"

definition first_world :: "audit_repo \<Rightarrow> executor \<Rightarrow> world" where
  "first_world au ex = \<lparr>w_repo = new_repo, w_audit = au, w_exec = ex, w_calls = []\<rparr>"

lemma world_ok_happen: "world_ok w \<Longrightarrow> world_ok (happen desc e w)"
proof (cases e)
  case (Serve ev p req)
  assume "world_ok w"
  from validE [OF keeps_serve this, of desc ev p req] Serve show ?thesis
    by (cases "serve desc ev p req w"; cases "fst (serve desc ev p req w)") auto
qed simp

lemma world_ok_history: "world_ok w \<Longrightarrow> world_ok (history_of desc evs w)"
  unfolding history_of_def by (induction evs arbitrary: w) (simp_all add: world_ok_happen)

lemma world_ok_first: "world_ok (first_world au ex)"
  by (simp add: world_ok_def first_world_def repo_inv_new logs_kept_def traffic_ok_def last_call_def)
     (simp add: new_repo_def)


section \<open>Without an audit store, nothing outside is touched\<close>

definition frozen :: "audit_repo \<Rightarrow> executor \<Rightarrow> (string \<times> string \<times> bool) list \<Rightarrow> world \<Rightarrow> bool" where
  "frozen au x calls w \<longleftrightarrow> w_audit w = au \<and> w_exec w = x \<and> w_calls w = calls"

lemma keeps_andthen: "keeps P m \<Longrightarrow> (\<And>x. keeps P (f x)) \<Longrightarrow> keeps P (andthen m f)"
  by (rule valid_andthen)

lemma keeps_lift: "keeps P (lift_seq wrap r)"
  by (rule valid_weaken [OF valid_lift]) auto

lemma keeps_payload: "keeps P (payload_of st)"
  by (rule valid_payload)

lemma keeps_raise: "keeps P (raise e)"
  by (rule valid_raise)

lemma frozen_load: "keeps (frozen au x calls) (load_or_404 i)"
  by (auto simp: valid_def load_or_404_def split: sum.splits option.splits)

lemma frozen_save: "keeps (frozen au x calls) (save_seq ev force st)"
  by (auto simp: valid_def save_seq_def frozen_def split: sum.splits prod.splits)

lemma frozen_observe: "keeps P (observe_stored ev st)"
  unfolding observe_stored_def by (rule keeps_lift)

lemma frozen_audit: "\<not> writable au \<Longrightarrow> keeps (frozen au x calls) (with_audit desc ev p c why body)"
proof (rule validI)
  fix w assume a: "\<not> writable au" "frozen au x calls w"
  show "case with_audit desc ev p c why body w of (Inl e, w') \<Rightarrow> frozen au x calls w'
    | (Inr r, w') \<Rightarrow> frozen au x calls w'"
    using a by (cases rule: with_audit_cases [of desc ev p c why body w])
      (auto simp: frozen_def is_writable_def)
qed

lemmas frozen_rules = keeps_andthen keeps_lift keeps_payload keeps_raise frozen_load frozen_save
  frozen_observe frozen_audit valid_admin valid_cluster

lemma frozen_get: "keeps (frozen au x calls) (get_request ev i)"
  unfolding get_request_def by (intro frozen_rules)

end
