(* ===== verification/ServiceSafety.thy ===== *)
theory ServiceSafety
  imports ServiceProps
begin

text \<open>
  What the restart service demands before it acts, and where it falls short of its own
  comments: audit and permission, the evidence behind a restart, the dead end after a forced
  drain, restarts on a cached observation, and the log of a failed playbook.
\<close>

lemma frozen_close_out: "keeps (frozen au x calls) (close_out desc ev st e)"
  unfolding close_out_def by (intro frozen_rules)

lemma frozen_start: "\<not> writable au \<Longrightarrow> keeps (frozen au x calls) (start_request desc ev p c why)"
  unfolding start_request_def
proof (intro keeps_andthen valid_admin valid_cluster)
  fix u v :: unit
  assume nw: "\<not> writable au"
  show "keeps (frozen au x calls) (if blank why then raise (ApiExn InvalidRequest ReasonNeeded)
     else (\<lambda>w.
       case exec_preflight (e_host ev) c (w_exec w) of
         Inl e \<Rightarrow> (Inl (ApiExn InvalidRequest (CannotRestart e)), w)
       | Inr _ \<Rightarrow>
           (case new_sequence c (Some why) (pr_username p) of
              Inl e \<Rightarrow> (Inl (SequenceExn e), w)
            | Inr s \<Rightarrow>
                (case create_stored (e_time ev) s (pr_roles p) (w_repo w) of
                   Inl (ActiveSequenceExists x) \<Rightarrow>
                     (Inl (ApiExn InvalidRequest (StoreSays (ActiveSequenceExists x))), w)
                 | Inl e \<Rightarrow> (Inl (RepoExn e), w)
                 | Inr (st, r) \<Rightarrow>
                     (case with_audit desc ev p c why (set_gateway_active ev c False)
                             (w\<lparr>w_repo := r\<rparr>) of
                        (Inl e, w1) \<Rightarrow> close_out desc ev st e w1
                      | (Inr _, w1) \<Rightarrow>
                          andthen (lift_seq SequenceExn (on_seq (begin_seq (e_time ev)) st)) (\<lambda>st1.
                          andthen (observe_stored ev st1) (\<lambda>st2.
                          andthen (save_seq ev None st2) (\<lambda>st3.
                          get_request ev (stored_id st3)))) w1)))))"
    (is "keeps _ (if _ then _ else ?m)")
  proof -
    have "keeps (frozen au x calls) ?m"
    proof (rule validI)
      fix w assume fr: "frozen au x calls w"
      have wa: "\<exists>e w1. with_audit desc ev p c why (set_gateway_active ev c False) (w\<lparr>w_repo := r\<rparr>) = (Inl e, w1) \<and>
          frozen au x calls w1" for r
      proof (cases rule: with_audit_cases [of desc ev p c why "set_gateway_active ev c False" "w\<lparr>w_repo := r\<rparr>"])
        case (refused e)
        then show ?thesis using fr by (simp add: frozen_def)
      next
        case ran
        then show ?thesis using fr nw by (simp add: frozen_def is_writable_def)
      qed
      have co: "case close_out desc ev st e w1 of (Inl e, w') \<Rightarrow> frozen au x calls w'
          | (Inr r, w') \<Rightarrow> frozen au x calls w'" if "frozen au x calls w1" for st e w1
        using validE [OF frozen_close_out that] .
      show "case ?m w of (Inl e, w') \<Rightarrow> frozen au x calls w' | (Inr r, w') \<Rightarrow> frozen au x calls w'"
      proof (cases "\<exists>s st r. exec_preflight (e_host ev) c (w_exec w) = Inr () \<and>
          new_sequence c (Some why) (pr_username p) = Inr s \<and>
          create_stored (e_time ev) s (pr_roles p) (w_repo w) = Inr (st, r)")
        case False
        then show ?thesis using fr by (auto split: sum.split repo_exn.split prod.split)
      next
        case True
        then obtain s st r where pre: "exec_preflight (e_host ev) c (w_exec w) = Inr ()"
          "new_sequence c (Some why) (pr_username p) = Inr s"
          "create_stored (e_time ev) s (pr_roles p) (w_repo w) = Inr (st, r)" by blast
        obtain e w1 where "with_audit desc ev p c why (set_gateway_active ev c False) (w\<lparr>w_repo := r\<rparr>) = (Inl e, w1)"
          "frozen au x calls w1" using wa by blast
        with co [OF this(2), of st e] pre show ?thesis by simp
      qed
    qed
    then show ?thesis by (simp add: keeps_raise)
  qed
qed

lemma frozen_refresh: "keeps (frozen au x calls) (refresh_request ev i)"
  unfolding refresh_request_def
proof (intro keeps_andthen frozen_load frozen_observe)
  fix st st1 :: stored_sequence
  let ?m = "\<lambda>y. andthen (lift_seq SequenceExn
        (on_seq (poll_executor (e_time ev) (show_nat (stored_id st)) y) st1)) (\<lambda>st2.
     if fingerprint st2 \<noteq> fingerprint st then andthen (save_seq ev None st2) payload_of
     else payload_of st2)"
  have "keeps (frozen au x calls) (?m y)" for y
    by (intro keeps_andthen keeps_lift) (auto intro: frozen_rules)
  then show "keeps (frozen au x calls) (\<lambda>w. ?m (w_exec w) w)"
    by (simp add: valid_def)
qed

lemma frozen_abort: "\<not> writable au \<Longrightarrow> keeps (frozen au x calls) (abort_request desc ev p i note)"
  unfolding abort_request_def
proof (intro keeps_andthen valid_admin frozen_load keeps_lift frozen_save)
  fix st2 :: stored_sequence
  assume nw: "\<not> writable au"
  let ?why = "if note \<noteq> [] then note else reason (sequence st2)"
  show "keeps (frozen au x calls) (\<lambda>w. case with_audit desc ev p (cluster (sequence st2)) ?why
            (set_gateway_active ev (cluster (sequence st2)) True) w of
       (Inl e, w1) \<Rightarrow>
         andthen (lift_seq SequenceExn
            (on_seq (log_line (e_time ev) (MsgCannotRestore (desc e) (cluster (sequence st2))) LEVEL_ERROR) st2))
           (\<lambda>st3. andthen (save_seq ev None st3)
              (\<lambda>_. raise (ApiExn UpstreamUnavailable (TrafficNotRestored (cluster (sequence st2)))))) w1
     | (Inr _, w1) \<Rightarrow>
         andthen (lift_seq SequenceExn (on_seq (finish_abort (e_time ev)) st2)) (\<lambda>st3.
         andthen (save_seq ev None st3) (\<lambda>_. get_request ev i)) w1)"
  proof (rule validI, goal_cases)
    case (1 w)
    have f: "keeps (frozen au x calls) (andthen (lift_seq SequenceExn (on_seq g st2))
           (\<lambda>st3. andthen (save_seq ev None st3) (\<lambda>_. raise y)))" for g y
      by (intro frozen_rules)
    show ?case
    proof (cases rule: with_audit_cases [of desc ev p "cluster (sequence st2)" ?why
          "set_gateway_active ev (cluster (sequence st2)) True" w])
      case (refused e)
      from validE [OF f 1] refused show ?thesis by simp
    next
      case ran
      then show ?thesis using 1 nw by (simp add: frozen_def is_writable_def)
    qed
  qed
qed

lemma frozen_complete: "\<not> writable au \<Longrightarrow> keeps (frozen au x calls) (complete_request desc ev p i)"
  unfolding complete_request_def
  by (intro keeps_andthen valid_admin frozen_load frozen_observe)
     (auto split: sum.split seq_exn.split intro!: frozen_rules frozen_get)

lemma frozen_force: "\<not> writable au \<Longrightarrow> keeps (frozen au x calls) (force_drain_request desc ev p i why)"
  unfolding force_drain_request_def by (intro frozen_rules frozen_get)

lemma frozen_restart: "\<not> writable au \<Longrightarrow> keeps (frozen au x calls) (restart_request desc ev p i)"
  unfolding restart_request_def by (intro frozen_rules frozen_get)

lemma frozen_mark: "keeps (frozen au x calls) (mark_restarted_request ev p i)"
  unfolding mark_restarted_request_def by (intro frozen_rules frozen_get)

lemma frozen_serve: "\<not> writable au \<Longrightarrow> keeps (frozen au x calls) (serve desc ev p req)"
  by (cases req) (simp_all add: frozen_start frozen_get frozen_refresh frozen_force frozen_restart
      frozen_mark frozen_complete frozen_abort)

text \<open>While the audit store cannot be written, no request of the restart service makes a call to
  the Gateway or starts a playbook, whoever makes it and in whatever state the sequence is.\<close>

theorem unaudited_service_is_inert:
  assumes "\<not> writable (w_audit w)"
  shows "case serve desc ev p req w of (r, w') \<Rightarrow>
     w_calls w' = w_calls w \<and> w_exec w' = w_exec w \<and> w_audit w' = w_audit w"
proof -
  have "frozen (w_audit w) (w_exec w) (w_calls w) w" by (simp add: frozen_def)
  from validE [OF frozen_serve [OF assms] this, of desc ev p req] show ?thesis
    by (cases "serve desc ev p req w"; cases "fst (serve desc ev p req w)") (auto simp: frozen_def)
qed

text \<open>A caller without the right to manage health changes nothing but observations: every request
  that acts is refused as forbidden and leaves the world exactly as it was.\<close>

theorem only_admins_act:
  assumes "\<not> can p MANAGE_HEALTH"
  shows "case req of
      GetReq i \<Rightarrow> snd (serve desc ev p req w) = w
    | RefreshReq i \<Rightarrow> w_calls (snd (serve desc ev p req w)) = w_calls w \<and>
        w_exec (snd (serve desc ev p req w)) = w_exec w \<and> w_audit (snd (serve desc ev p req w)) = w_audit w
    | _ \<Rightarrow> serve desc ev p req w = (Inl (ApiExn Forbidden NoPermission), w)"
proof -
  have g: "snd (get_request ev i w) = w" for i
    by (auto simp: get_request_def andthen_def load_or_404_def observe_stored_def lift_seq_def
        payload_of_def raise_def ret_def split: sum.split option.split)
  have "frozen (w_audit w) (w_exec w) (w_calls w) w" by (simp add: frozen_def)
  from validE [OF frozen_refresh this, of ev]
  have r: "w_calls (snd (refresh_request ev i w)) = w_calls w \<and>
      w_exec (snd (refresh_request ev i w)) = w_exec w \<and> w_audit (snd (refresh_request ev i w)) = w_audit w" for i
    by (cases "refresh_request ev i w"; cases "fst (refresh_request ev i w)")
       (force simp: frozen_def dest: spec [of _ i])+
  show ?thesis using assms g r
    by (cases req)
       (simp_all add: start_request_def force_drain_request_def restart_request_def
         mark_restarted_request_def complete_request_def abort_request_def require_admin_def
         andthen_def raise_def)
qed


section \<open>What a restart rests on\<close>

lemma valid_const: "B \<Longrightarrow> valid P m (\<lambda>_ _. B) (\<lambda>_ _. B \<or> C)"
  by (simp add: valid_def split: prod.split sum.split)

definition evidence :: "env \<Rightarrow> principal \<Rightarrow> nat \<Rightarrow> world \<Rightarrow> bool" where
  "evidence ev p i w \<longleftrightarrow>
     (\<exists>st s n. load_stored (w_repo w) i = Inr (Some st) \<and> observe_sequence ev (sequence st) = Inr s \<and>
        state s \<in> {DRAINING, DRAINED} \<and> running_queries s = Some n \<and> n \<le> 0 \<and>
        config_store_ready s \<noteq> Some False) \<and>
     can p MANAGE_HEALTH \<and> is_writable (w_audit w)"

lemma confirm_drained_facts:
  "confirm_drained t s = Inr s' \<Longrightarrow> state s \<in> {DRAINING, DRAINED} \<and>
     (\<exists>n. running_queries s = Some n \<and> n \<le> 0) \<and> config_store_ready s' = config_store_ready s"
  by (auto simp: confirm_drained_def require_state_def record_step_def log_line_def
      split: if_splits option.splits)

lemma mark_restarting_facts: "mark_restarting t s = Inr s' \<Longrightarrow> config_store_ready s \<noteq> Some False"
  by (auto simp: mark_restarting_def require_state_def split: if_splits)

lemma andthen_Inr: "m w = (Inr x, w') \<Longrightarrow> andthen m f w = f x w'"
  by (simp add: andthen_def)

lemma lift_on_seq:
  "lift_seq wrap (on_seq f st) w =
     (case f (sequence st) of Inl e \<Rightarrow> (Inl (wrap e), w) | Inr s \<Rightarrow> (Inr (st\<lparr>sequence := s\<rparr>), w))"
  by (simp add: lift_seq_def on_seq_def raise_def ret_def split: sum.split)

lemma restart_evidence:
  "valid (\<lambda>v. v = w) (restart_request desc ev p i) (\<lambda>_ _. evidence ev p i w)
     (\<lambda>_ v. evidence ev p i w \<or> v = w)"
proof (rule validI)
  fix v assume v: "v = w"
  let ?E = "evidence ev p i w"
  show "case restart_request desc ev p i v of (Inl e, w') \<Rightarrow> ?E \<or> w' = w | (Inr x, w') \<Rightarrow> ?E"
  proof (cases "\<exists>st s1 s2 s3. can p MANAGE_HEALTH \<and> load_stored (w_repo w) i = Inr (Some st) \<and>
      observe_sequence ev (sequence st) = Inr s1 \<and> confirm_drained (e_time ev) s1 = Inr s2 \<and>
      mark_restarting (e_time ev) s2 = Inr s3")
    case False
    then show ?thesis
      by (auto simp: v restart_request_def andthen_def require_admin_def load_or_404_def raise_def ret_def
          observe_stored_on_seq lift_on_seq split: sum.split option.split)
  next
    case True
    then obtain st s1 s2 s3 where c: "can p MANAGE_HEALTH" "load_stored (w_repo w) i = Inr (Some st)"
      "observe_sequence ev (sequence st) = Inr s1" "confirm_drained (e_time ev) s1 = Inr s2"
      "mark_restarting (e_time ev) s2 = Inr s3" by blast
    define st3 where "st3 = st\<lparr>sequence := s3\<rparr>"
    let ?body = "\<lambda>w. case exec_start (e_host ev) (cluster (sequence st3)) (show_nat (stored_id st3)) (w_exec w) of
           Inl e \<Rightarrow> (Inl (ExecutorExn e), w)
         | Inr (started, x) \<Rightarrow> (Inr started, w\<lparr>w_exec := x\<rparr>)"
    let ?tail = "andthen (with_audit desc ev p (cluster (sequence st3)) (reason (sequence st3)) ?body) (\<lambda>started.
     andthen (lift_seq SequenceExn
        (on_seq (if started = PENDING_OPERATOR
                 then log_line (e_time ev) (MsgOperator (cluster (sequence st3))) LEVEL_WARN
                 else log_line (e_time ev) MsgPlaybookRunning LEVEL_INFO) st3)) (\<lambda>st4.
     andthen (save_seq ev None st4) (\<lambda>_. get_request ev i)))"
    have steps: "require_admin p w = (Inr (), w)" "load_or_404 i w = (Inr st, w)"
      "observe_stored ev st w = (Inr (st\<lparr>sequence := s1\<rparr>), w)"
      "lift_seq seq_invalid (on_seq (confirm_drained (e_time ev)) (st\<lparr>sequence := s1\<rparr>)) w =
         (Inr (st\<lparr>sequence := s2\<rparr>), w)"
      "lift_seq seq_invalid (on_seq (mark_restarting (e_time ev)) (st\<lparr>sequence := s2\<rparr>)) w = (Inr st3, w)"
      using c by (simp_all add: require_admin_def load_or_404_def ret_def observe_stored_on_seq
          lift_on_seq st3_def)
    have eq: "restart_request desc ev p i w = ?tail w"
      unfolding restart_request_def
      by (subst andthen_Inr, rule steps(1), subst andthen_Inr, rule steps(2), subst andthen_Inr,
          rule steps(3), subst andthen_Inr, rule steps(4), subst andthen_Inr, rule steps(5)) (rule refl)
    show ?thesis
    proof (cases rule: with_audit_cases [of desc ev p "cluster (sequence st3)" "reason (sequence st3)" ?body w])
      case (refused e)
      then have "?tail w = (Inl (AuditExn e), w)" by (simp add: andthen_def)
      then show ?thesis unfolding v eq by simp
    next
      case ran
      have ?E
        using c ran(3) confirm_drained_facts [OF c(4)] mark_restarting_facts [OF c(5)]
        unfolding evidence_def by auto
      then show ?thesis by (simp split: prod.split sum.split)
    qed
  qed
qed

text \<open>C2: The restart request does nothing - no playbook, no record, no change - unless an
  administrator makes it while the action can be audited, and the sequence, after re-reading the
  cluster, is draining or drained with no running or queued query on record and no report that the
  cluster could not start again.\<close>

theorem restart_only_when_empty:
  "case restart_request desc ev p i w of (r, w') \<Rightarrow>
     if evidence ev p i w then True else isl r \<and> w' = w"
proof -
  have "case restart_request desc ev p i w of (Inl e, w') \<Rightarrow> evidence ev p i w \<or> w' = w
      | (Inr x, w') \<Rightarrow> evidence ev p i w"
    using validE [OF restart_evidence refl] .
  then show ?thesis
    by (cases "restart_request desc ev p i w"; cases "fst (restart_request desc ev p i w)") auto
qed

section \<open>A forced drain is a dead end\<close>

lemma observe_store_total: "\<exists>s'. observe_store ev s = Inr s' \<and> running_queries s' = running_queries s \<and>
    state s' = state s \<and> cluster s' = cluster s"
  by (auto simp: observe_store_def observe_config_store_def log_line_def ALLOWED_LEVELS_def Let_def
      split: option.split prod.split)

lemma observe_total: "\<exists>s'. observe t n h s = Inr s' \<and> running_queries s' = Some n \<and>
    state s' \<in> {state s, DRAINED}"
  by (auto simp: observe_def record_step_def log_line_def ALLOWED_LEVELS_def Let_def)

text \<open>The cluster is reported busy, or not at all.\<close>

definition not_empty :: "env \<Rightarrow> string \<Rightarrow> bool" where
  "not_empty ev c \<longleftrightarrow> (case e_queries ev c of Some (True, m) \<Rightarrow> m > 0 | _ \<Rightarrow> True)"

lemma observe_busy:
  assumes "not_empty ev (cluster s)" and "running_queries s = Some n" and "n > 0"
    and "state s = DRAINED"
  shows "\<exists>s' m. observe_sequence ev s = Inr s' \<and> running_queries s' = Some m \<and> m > 0 \<and> state s' = DRAINED"
proof -
  obtain s1 m where s1: "running_queries s1 = Some m" "m > 0" "state s1 = DRAINED"
    "observe_sequence ev s = observe_store ev s1"
  proof -
    let ?h = "case e_health ev (cluster s) of Some h \<Rightarrow> h | None \<Rightarrow> None"
    have seen: thesis if "e_queries ev (cluster s) = Some (True, m)" for m
    proof -
      obtain s1 where "observe (e_time ev) m ?h s = Inr s1" "running_queries s1 = Some m"
        "state s1 \<in> {state s, DRAINED}"
        using observe_total [of "e_time ev" m ?h s] by blast
      moreover have "m > 0" using assms(1) that by (simp add: not_empty_def)
      ultimately show thesis
        using \<open>\<And>m s1. running_queries s1 = Some m \<Longrightarrow> 0 < m \<Longrightarrow> state s1 = DRAINED \<Longrightarrow>
            observe_sequence ev s = observe_store ev s1 \<Longrightarrow> thesis\<close> [of s1 m] that assms(4)
        by (simp add: observe_sequence_def)
    qed
    have unseen: thesis if "\<nexists>m. e_queries ev (cluster s) = Some (True, m)"
    proof -
      have r: "(case e_queries ev (cluster s) of Some (True, n) \<Rightarrow> Some n | _ \<Rightarrow> None) = None"
        using that by (auto split: option.split prod.split bool.split)
      let ?s = "case ?h of Some h \<Rightarrow> s\<lparr>health_state := Some h\<rparr> | None \<Rightarrow> s"
      have "observe_sequence ev s = observe_store ev ?s"
        unfolding observe_sequence_def Let_def r by (cases ?h) simp_all
      moreover have "running_queries ?s = Some n" "state ?s = DRAINED"
        using assms(2,4) by (simp_all split: option.split)
      ultimately show thesis
        using \<open>\<And>m s1. running_queries s1 = Some m \<Longrightarrow> 0 < m \<Longrightarrow> state s1 = DRAINED \<Longrightarrow>
            observe_sequence ev s = observe_store ev s1 \<Longrightarrow> thesis\<close> [of ?s n] assms(3) by simp
    qed
    show thesis using seen unseen by blast
  qed
  then show ?thesis using observe_store_total [of ev s1] by auto
qed

text \<open>Forcing past the drain does not lead to a restart: while queries are still on record, which is
  what a forced drain is for, the restart request of a drained sequence is always refused with the
  number still running, and changes nothing. The only way on is to abort.\<close>

theorem forced_drain_is_a_dead_end:
  assumes "can p MANAGE_HEALTH" and "load_stored (w_repo w) i = Inr (Some st)"
    and "state (sequence st) = DRAINED" and "running_queries (sequence st) = Some n" and "n > 0"
    and "not_empty ev (cluster (sequence st))"
  shows "\<exists>m > 0. restart_request desc ev p i w =
     (Inl (ApiExn InvalidRequest (SequenceSays (StepBlocked (StillRunning m)))), w)"
proof -
  obtain s' m where s': "observe_sequence ev (sequence st) = Inr s'" "running_queries s' = Some m" "m > 0"
    "state s' = DRAINED"
    using observe_busy [OF assms(6,4,5,3)] by blast
  then have "confirm_drained (e_time ev) s' = Inl (StepBlocked (StillRunning m))"
    by (simp add: confirm_drained_def require_state_def)
  then have "restart_request desc ev p i w =
     (Inl (ApiExn InvalidRequest (SequenceSays (StepBlocked (StillRunning m)))), w)"
    using assms(1,2) s' by (simp add: restart_request_def andthen_def require_admin_def load_or_404_def
        ret_def observe_stored_on_seq lift_on_seq)
  then show ?thesis using s'(3) by blast
qed

section \<open>A failed playbook is logged on every poll\<close>

lemma observe_restarting:
  assumes "state s = RESTARTING"
  shows "\<exists>s'. observe_sequence ev s = Inr s' \<and> history s' = history s \<and> state s' = RESTARTING \<and>
     cluster s' = cluster s"
  using assms
  by (auto simp: observe_sequence_def observe_store_def observe_def Let_def
      split: option.split prod.split bool.split)

lemma log_output_total:
  "\<exists>s'. log_output t ls s = Inr s' \<and> state s' = state s \<and> cluster s' = cluster s \<and>
     history s' = history s @ map (\<lambda>l. \<lparr>ev_at = t, ev_state = state s, ev_level = LEVEL_OUTPUT,
        ev_message = MsgText l\<rparr>) ls"
proof (induction ls arbitrary: s)
  case (Cons l ls)
  let ?s = "s\<lparr>history := history s @ [\<lparr>ev_at = t, ev_state = state s, ev_level = LEVEL_OUTPUT,
      ev_message = MsgText l\<rparr>]\<rparr>"
  have "log_line t (MsgText l) LEVEL_OUTPUT s = Inr ?s" by (simp add: log_line_def ALLOWED_LEVELS_def)
  then show ?case using Cons.IH [of ?s] by simp
qed simp

text \<open>After a failed playbook, every refresh of the screen by anybody appends the failure to the
  stored log once more: the sequence stays in RESTARTING, the stored history grows by the same error
  line at each poll, and the executor's state does not change, so nothing ends it but an abort.\<close>

theorem failure_logged_on_every_poll:
  assumes "world_ok w" and "load_stored (w_repo w) i = Inr (Some st)"
    and "state (sequence st) = RESTARTING" and "w_exec w = Ansible x"
    and "ansible_status (show_nat i) x = FAILED"
  shows "\<exists>st' output. load_stored (w_repo (snd (refresh_request ev i w))) i = Inr (Some st') \<and>
     state (sequence st') = RESTARTING \<and>
     history (sequence st') = history (sequence st) @ output @
       [\<lparr>ev_at = e_time ev, ev_state = RESTARTING, ev_level = LEVEL_ERROR,
         ev_message = MsgPlaybookFailed (run_error_text (show_nat i) x) (cluster (sequence st))\<rparr>] \<and>
     w_exec (snd (refresh_request ev i w)) = Ansible x \<and> world_ok (snd (refresh_request ev i w))"
proof -
  have l: "load_or_404 i w = (Inr st, w)" using assms(2) by (simp add: load_or_404_def)
  have h: "in_hand st w" "stored_id st = i"
    using validE [OF valid_load assms(1), of i] l by simp_all
  obtain s1 where s1: "observe_sequence ev (sequence st) = Inr s1" "history s1 = history (sequence st)"
    "state s1 = RESTARTING" "cluster s1 = cluster (sequence st)"
    using observe_restarting [OF assms(3)] by blast
  let ?shown = "length (filter (\<lambda>e. ev_level e = LEVEL_OUTPUT) (history s1))"
  obtain s2 out where s2: "log_output (e_time ev) (lines_since (show_nat i) (int ?shown) x) s1 = Inr s2"
    "state s2 = RESTARTING" "cluster s2 = cluster (sequence st)" "history s2 = history (sequence st) @ out"
    using log_output_total [of "e_time ev" "lines_since (show_nat i) (int ?shown) x" s1] s1 by auto
  let ?line = "\<lparr>ev_at = e_time ev, ev_state = RESTARTING, ev_level = LEVEL_ERROR,
         ev_message = MsgPlaybookFailed (run_error_text (show_nat i) x) (cluster (sequence st))\<rparr>"
  let ?s3 = "s2\<lparr>history := history s2 @ [?line]\<rparr>"
  have s3: "poll_executor (e_time ev) (show_nat i) (Ansible x) s1 = Inr ?s3"
    using s1 s2 assms(5) by (simp add: poll_executor_def Let_def log_line_def ALLOWED_LEVELS_def)
  let ?st = "st\<lparr>sequence := ?s3\<rparr>"
  have hand: "in_hand ?st w"
    using in_hand_reaches [OF h(1)] reaches_trans [OF observe_sequence_reaches [OF s1(1)]
        poll_executor_reaches [OF s3]] by simp
  obtain r' where sv: "save_stored (e_time ev) None ?st (w_repo w) = Inr (mark_persisted ?st, r')"
    and ld: "\<exists>st'. load_stored r' (stored_id ?st) = Inr (Some st') \<and> sequence st' = durable (sequence ?st)"
    using save_stored_ok [of "w_repo w" ?st "e_time ev" None] hand
    by (auto simp: in_hand_def world_ok_def)
  have "fingerprint ?st \<noteq> fingerprint st" by (simp add: fingerprint_def s2(4))
  then have w': "snd (refresh_request ev i w) = w\<lparr>w_repo := r'\<rparr>"
    using l s1 s3 sv h(2) assms(4)
    by (simp add: refresh_request_def andthen_def observe_stored_on_seq lift_on_seq save_seq_def payload_of_def)
  have ok: "world_ok (snd (refresh_request ev i w))"
    using validE [OF keeps_refresh assms(1), of ev i]
    by (cases "refresh_request ev i w"; cases "fst (refresh_request ev i w)") auto
  show ?thesis
    using ld ok h(2) s2 assms(4) unfolding w' by auto
qed


section \<open>Worlds to run the properties on\<close>

definition demo_admin :: principal where
  "demo_admin = new_principal ''ops'' [''admin''] None"

definition demo_viewer :: principal where
  "demo_viewer = new_principal ''eve'' [''viewer''] None"

definition demo_env :: "(bool \<times> int) option \<Rightarrow> env" where
  "demo_env q = \<lparr>e_time = ''t'', e_audit_now = 5, e_uuid = ''u'', e_clusters = [(''a'', ''prod'')],
     e_queries = (\<lambda>_. q), e_health = (\<lambda>_. None), e_backends = [(Some ''a'', ''gw-a'')],
     e_gateway = Some (\<lambda>_ _. None), e_store = None, e_host = demo_host\<rparr>"

definition demo_seq_row :: "seq_state \<Rightarrow> int option \<Rightarrow> seq_row" where
  "demo_seq_row q n = \<lparr>row_cluster = ''a'', row_state = q, row_reason = ''fix'', row_actor = ''ops'',
     row_running = n, row_health = None, row_roles = [''admin''], row_started_at = ''s'',
     row_finished_at = None, row_force_reason = None\<rparr>"

definition demo_world :: "seq_state \<Rightarrow> int option \<Rightarrow> executor \<Rightarrow> bool \<Rightarrow> world" where
  "demo_world q n ex wr = \<lparr>w_repo = \<lparr>rows = [(1, demo_seq_row q n)], events = [(1, [])], next_id = 2\<rparr>,
     w_audit = \<lparr>records = [], writable = wr\<rparr>, w_exec = ex, w_calls = []\<rparr>"

definition demo_held :: "seq_state \<Rightarrow> int option \<Rightarrow> stored_sequence" where
  "demo_held q n = \<lparr>stored_id = 1, sequence = \<lparr>cluster = ''a'', reason = ''fix'', actor = ''ops'', state = q,
     history = [], drain_timeout_seconds = 900, running_queries = n, health_state = None,
     config_store_ready = None, config_store_detail = []\<rparr>, persisted_events = 0,
     started_at = Some ''s'', finished_at = None\<rparr>"

lemma demo_text: "\<not> blank ''fix''" "strip ''fix'' = ''fix''"
  by (simp_all add: blank_def strip_def is_space_def)

lemma demo_world_load: "load_stored (w_repo (demo_world q n ex wr)) 1 = Inr (Some (demo_held q n))"
  by (simp add: demo_world_def load_stored_def rebuild_def new_sequence_def blank_opt_def demo_seq_row_def
      demo_text demo_held_def)

lemma demo_world_ok: "world_ok (demo_world q n ex wr)"
  by (auto simp: world_ok_def demo_world_def repo_inv_def one_active_def logs_kept_def traffic_ok_def
      last_call_def demo_seq_row_def demo_text split: if_splits)

lemma demo_can [simp]: "can demo_admin MANAGE_HEALTH" "\<not> can demo_viewer MANAGE_HEALTH"
  by (simp_all add: demo_admin_def demo_viewer_def role_defs)

theorem unaudited_service_is_inert_witness:
  "let w = demo_world DRAINED (Some 0) (Manual []) False
   in \<not> writable (w_audit w) \<and>
      w_calls (snd (serve (\<lambda>_. ''e'') (demo_env None) demo_admin (AbortReq 1 ''stop'') w)) = []"
proof -
  let ?w = "demo_world DRAINED (Some 0) (Manual []) False"
  have n: "\<not> writable (w_audit ?w)" by (simp add: demo_world_def)
  show ?thesis
    using unaudited_service_is_inert [OF n, of "\<lambda>_. ''e''" "demo_env None" demo_admin "AbortReq 1 ''stop''"] n
    by (cases "serve (\<lambda>_. ''e'') (demo_env None) demo_admin (AbortReq 1 ''stop'') ?w")
       (simp_all add: demo_world_def)
qed

theorem only_admins_act_witness:
  "serve (\<lambda>_. ''e'') (demo_env None) demo_viewer (AbortReq 1 ''x'') (demo_world DRAINED (Some 0) (Manual []) True) =
     (Inl (ApiExn Forbidden NoPermission), demo_world DRAINED (Some 0) (Manual []) True)"
  using only_admins_act [OF demo_can(2), where req = "AbortReq 1 ''x''"] by simp

theorem forced_drain_is_a_dead_end_witness:
  "\<exists>m > 0. restart_request (\<lambda>_. ''e'') (demo_env (Some (True, 3))) demo_admin 1
       (demo_world DRAINED (Some 2) (Manual []) True) =
     (Inl (ApiExn InvalidRequest (SequenceSays (StepBlocked (StillRunning m)))),
      demo_world DRAINED (Some 2) (Manual []) True)"
  by (rule forced_drain_is_a_dead_end [OF demo_can(1) demo_world_load, where n = 2])
     (simp_all add: demo_held_def not_empty_def demo_env_def)

definition demo_failed :: ansible_executor where
  "demo_failed = \<lparr>settings = demo_settings, runs = [(''1'', \<lparr>run_state = FAILED, run_cluster = ''a'',
     run_lines = [''boom''], run_command = [], run_error = Some ''rc''\<rparr>)]\<rparr>"

lemma demo_failed_status: "ansible_status (show_nat 1) demo_failed = FAILED"
  by code_simp

theorem failure_logged_on_every_poll_witness:
  "\<exists>st'. load_stored (w_repo (snd (refresh_request (demo_env None) 1
        (demo_world RESTARTING (Some 0) (Ansible demo_failed) True)))) 1 = Inr (Some st') \<and>
     history (sequence st') \<noteq> []"
proof -
  have 1: "state (sequence (demo_held RESTARTING (Some 0))) = RESTARTING" by (simp add: demo_held_def)
  have 2: "w_exec (demo_world RESTARTING (Some 0) (Ansible demo_failed) True) = Ansible demo_failed"
    by (simp add: demo_world_def)
  have 3: "history (sequence (demo_held RESTARTING (Some 0))) = []" by (simp add: demo_held_def)
  show ?thesis
    using failure_logged_on_every_poll [OF demo_world_ok demo_world_load 1 2 demo_failed_status, of "demo_env None"]
    by fastforce
qed

section \<open>A cached observation is enough\<close>

text \<open>A restart goes through on an old observation: with no query snapshot at all at the time of the
  request, a drained sequence whose last stored count is zero is taken to RESTARTING and saved.\<close>

theorem cached_zero_is_enough:
  "case restart_request (\<lambda>_. ''e'') (demo_env None) demo_admin 1 (demo_world DRAINED (Some 0) (Manual []) True) of
     (Inr pl, w') \<Rightarrow> e_queries (demo_env None) ''a'' = None \<and> state (pl_sequence pl) = RESTARTING \<and>
       row_state (the (map_of (rows (w_repo w')) 1)) = RESTARTING
   | (Inl _, _) \<Rightarrow> False"
  by code_simp

end
