(* ===== verification/NodeProps.thy ===== *)
theory NodeProps
  imports Nodes
begin

text \<open>
  What the node list guarantees: the rendered inventory reads back as the list it was made
  from, a parsed inventory has each host of a role once and only the two roles, a scan never
  drops a node, and a validated entry survives rendering.
\<close>

section \<open>Characters of a host name\<close>

lemma host_char_plain:
  "host_char c \<Longrightarrow> \<not> is_space c \<and> \<not> is_line_break c \<and> c \<noteq> CHR ''#'' \<and> c \<noteq> CHR '';'' \<and>
     c \<noteq> CHR ''['' \<and> c \<noteq> CHR ''=''"
  by (auto simp: host_char_def is_ascii_alnum_def is_space_def is_line_break_def code_def Let_def)

lemma takeWhile_all: "list_all P s \<Longrightarrow> takeWhile P s = s"
  by (induction s) auto

lemma takeWhile_host: "list_all host_char h \<Longrightarrow> takeWhile host_char (h @ CHR '' '' # t) = h"
  by (induction h) (auto simp: host_char_def is_ascii_alnum_def code_def)

lemma before_id: "list_all (\<lambda>c. c \<noteq> d) s \<Longrightarrow> before d s = s"
  by (auto simp: before_def takeWhile_eq_all_conv list_all_iff)

lemma strip_id:
  assumes "s \<noteq> []" "\<not> is_space (hd s)" "\<not> is_space (last s)"
  shows "strip s = s"
proof -
  have "dropWhile is_space s = s" using assms by (cases s) auto
  moreover have "dropWhile is_space (rev s) = rev s"
    using assms by (cases "rev s") (auto simp: hd_rev [symmetric])
  ultimately show ?thesis by (simp add: strip_def)
qed

section \<open>Parsing what was rendered\<close>

definition entry_of :: "node_row \<Rightarrow> host_entry" where
  "entry_of row = (nr_host row,
     if address_or_host row = nr_host row then [] else [(''ansible_host'', address_or_host row)])"

text \<open>Rows as validation and discovery produce them.\<close>

definition row_ok :: "node_row \<Rightarrow> bool" where
  "row_ok row \<longleftrightarrow> hostname_ok (nr_host row) \<and> hostname_ok (address_or_host row)"

lemma split_ws_word: "w \<noteq> [] \<Longrightarrow> list_all (\<lambda>c. \<not> is_space c) w \<Longrightarrow> split_ws (CHR '' '' # w) = [w]"
proof -
  have aux: "list_all (\<lambda>c. \<not> is_space c) w \<Longrightarrow> acc @ w \<noteq> [] \<Longrightarrow> split_ws_aux acc w = [rev acc @ w]" for acc
    by (induction w arbitrary: acc) auto
  assume "w \<noteq> []" "list_all (\<lambda>c. \<not> is_space c) w"
  then show ?thesis using aux [of "[]"] by (simp add: split_ws_def is_space_def)
qed

lemma partition_eq: "list_all (\<lambda>c. c \<noteq> d) a \<Longrightarrow> partition_at d (a @ d # b) = (a, True, b)"
  by (induction a) (auto simp: partition_at_def)

lemma match_section_host: "c \<noteq> CHR ''['' \<Longrightarrow> match_section (c # s) = None"
  by (simp add: match_section_def)

lemma host_line:
  assumes "hostname_ok h"
  shows "h \<noteq> []" "list_all host_char h" "\<not> is_space (hd h)" "\<not> is_space (last h)"
    "match_section (h @ t) = None"
    "list_all (\<lambda>c. c \<noteq> CHR ''#'' \<and> c \<noteq> CHR '';'' \<and> \<not> is_space c \<and> \<not> is_line_break c) h"
proof -
  show h: "h \<noteq> []" "list_all host_char h" using assms by (auto simp: hostname_ok_def)
  have P: "\<not> is_space c \<and> \<not> is_line_break c \<and> c \<noteq> CHR ''#'' \<and> c \<noteq> CHR '';'' \<and> c \<noteq> CHR ''[''"
    if "c \<in> set h" for c
    using h(2) that host_char_plain [of c] unfolding list_all_iff by blast
  show "\<not> is_space (hd h)" "\<not> is_space (last h)" using P h(1) by simp_all
  show "match_section (h @ t) = None"
    using h(1) P [of "hd h"] by (cases h) (simp_all add: match_section_host)
  show "list_all (\<lambda>c. c \<noteq> CHR ''#'' \<and> c \<noteq> CHR '';'' \<and> \<not> is_space c \<and> \<not> is_line_break c) h"
    using P by (simp add: list_all_iff)
qed

lemma parse_row_line:
  assumes "row_ok row" and "ps_group ps = Some g" and "ps_kind ps = ''hosts''"
  shows "parse_line (row_line row) ps =
           ps\<lparr>ps_hosts := append_at g (entry_of row) (ps_hosts ps)\<rparr>"
proof -
  let ?h = "nr_host row" and ?a = "address_or_host row"
  have h: "hostname_ok ?h" and a: "hostname_ok ?a" using assms(1) by (auto simp: row_ok_def)
  note H = host_line [OF h] and A = host_line [OF a]
  show ?thesis
  proof (cases "?a = ?h")
    case True
    have "before CHR '';'' (before CHR ''#'' ?h) = ?h"
      using H(6) by (auto simp: before_id list_all_iff)
    moreover have "strip ?h = ?h" using H by (intro strip_id) auto
    ultimately show ?thesis
      using True assms(2,3) H(1) H(5) [of "[]"]
      by (simp add: parse_line_def row_line_def entry_of_def split_ws_def Let_def
          takeWhile_all [OF H(2)])
  next
    case False
    let ?l = "?h @ '' ansible_host='' @ ?a"
    have l: "row_line row = ?l" using False by (simp add: row_line_def)
    have "list_all (\<lambda>c. c \<noteq> CHR ''#'' \<and> c \<noteq> CHR '';'') ?l"
      using H(6) A(6) by (auto simp: list_all_iff)
    then have "before CHR '';'' (before CHR ''#'' ?l) = ?l"
      by (auto simp: before_id list_all_iff)
    moreover have "strip ?l = ?l" using H A by (intro strip_id) auto
    moreover have "takeWhile host_char ?l = ?h" using takeWhile_host [OF H(2)] by simp
    moreover have "split_ws ('' ansible_host='' @ ?a) = [''ansible_host='' @ ?a]"
      using A(6) split_ws_word [of "''ansible_host='' @ ?a"]
      by (auto simp: list_all_iff is_space_def)
    moreover have "partition_at CHR ''='' (''ansible_host='' @ ?a) = (''ansible_host'', True, ?a)"
      using partition_eq [of "CHR ''=''" "''ansible_host''" ?a] by simp
    moreover have "strip ?a = ?a" using A by (intro strip_id) auto
    moreover have "strip ''ansible_host'' = ''ansible_host''"
      by (intro strip_id) (auto simp: is_space_def)
    ultimately show ?thesis
      using False assms(2,3) H(1) H(5) l
      by (simp add: parse_line_def entry_of_def Let_def)
  qed
qed

lemma get_list_append_at:
  "get_list (append_at k v d) k' = get_list d k' @ (if k' = k then [v] else [])"
  by (auto simp: append_at_def get_list_def split: option.splits)

lemma parse_rows:
  assumes "list_all row_ok rows" and "ps_group ps = Some g" and "ps_kind ps = ''hosts''"
  shows "\<exists>d. fold parse_line (map row_line rows) ps = ps\<lparr>ps_hosts := d\<rparr> \<and>
           (\<forall>k. get_list d k = get_list (ps_hosts ps) k @ (if k = g then map entry_of rows else []))"
  using assms
proof (induction rows arbitrary: ps)
  case Nil
  then show ?case by (intro exI [of _ "ps_hosts ps"]) simp
next
  case (Cons row rows)
  let ?ps = "ps\<lparr>ps_hosts := append_at g (entry_of row) (ps_hosts ps)\<rparr>"
  have "parse_line (row_line row) ps = ?ps" using Cons.prems by (simp add: parse_row_line)
  moreover obtain d where "fold parse_line (map row_line rows) ?ps = ?ps\<lparr>ps_hosts := d\<rparr>"
      "\<forall>k. get_list d k = get_list (ps_hosts ?ps) k @ (if k = g then map entry_of rows else [])"
    using Cons.IH [of ?ps] Cons.prems by auto
  ultimately show ?case by (intro exI [of _ d]) (auto simp: get_list_append_at)
qed

lemma parse_blank: "parse_line [] ps = ps"
  by (simp add: parse_line_def before_def)

lemma parse_comment: "parse_line (CHR ''#'' # s) ps = ps"
  by (simp add: parse_line_def before_def)

lemma section_lines:
  "parse_line ''[coordinator]'' ps = ps\<lparr>ps_group := Some ''coordinator'', ps_kind := ''hosts''\<rparr>"
  "parse_line ''[worker]'' ps = ps\<lparr>ps_group := Some ''worker'', ps_kind := ''hosts''\<rparr>"
  by (simp_all add: parse_line_def before_def strip_def is_space_def match_section_def lower_def
      lower_char_def code_def)

definition of_role :: "string \<Rightarrow> node_row list \<Rightarrow> node_row list" where
  "of_role role rows = filter (\<lambda>r. nr_role r = role) rows"

lemma parse_rendered_lines:
  assumes "list_all row_ok rows"
  shows "\<exists>d. parse_lines (butlast (render_lines cl rows)) =
             \<lparr>ps_hosts = d, ps_children = [], ps_group = Some ''worker'', ps_kind = ''hosts''\<rparr> \<and>
           (\<forall>k. get_list d k =
              (if k = ROLE_COORDINATOR then map entry_of (of_role ROLE_COORDINATOR rows)
               else if k = ROLE_WORKER then map entry_of (of_role ROLE_WORKER rows) else []))"
proof -
  let ?cs = "of_role ROLE_COORDINATOR rows" and ?ws = "of_role ROLE_WORKER rows"
  have ok: "list_all row_ok ?cs" "list_all row_ok ?ws"
    using assms by (auto simp: of_role_def list_all_iff)
  let ?p0 = "\<lparr>ps_hosts = [], ps_children = [], ps_group = Some ''coordinator'', ps_kind = ''hosts''\<rparr>"
  obtain d1 where d1: "fold parse_line (map row_line ?cs) ?p0 = ?p0\<lparr>ps_hosts := d1\<rparr>"
      "\<forall>k. get_list d1 k = (if k = ''coordinator'' then map entry_of ?cs else [])"
    using parse_rows [OF ok(1), of ?p0 "''coordinator''"] by (auto simp: get_list_def)
  let ?p1 = "\<lparr>ps_hosts = d1, ps_children = [], ps_group = Some ''worker'', ps_kind = ''hosts''\<rparr>"
  obtain d2 where d2: "fold parse_line (map row_line ?ws) ?p1 = ?p1\<lparr>ps_hosts := d2\<rparr>"
      "\<forall>k. get_list d2 k = get_list d1 k @ (if k = ''worker'' then map entry_of ?ws else [])"
    using parse_rows [OF ok(2), of ?p1 "''worker''"] by auto
  have "parse_lines (butlast (render_lines cl rows)) = ?p1\<lparr>ps_hosts := d2\<rparr>"
    using d1(1) d2(1)
    by (simp add: parse_lines_def render_lines_def group_lines_def of_role_def butlast_append
        parse_comment parse_blank section_lines ROLE_COORDINATOR_def ROLE_WORKER_def)
  then show ?thesis using d1(2) d2(2)
    by (intro exI [of _ d2]) (auto simp: ROLE_COORDINATOR_def ROLE_WORKER_def)
qed

subsection \<open>From entries to nodes\<close>

lemma collect_flat: "collect hosts [] [g] [] = get_list hosts g"
  by (simp add: collect.simps get_list_def)

lemma fst_entry [simp]: "fst (entry_of row) = nr_host row"
  by (simp add: entry_of_def)

lemma add_nodes_distinct:
  assumes "distinct (map fst es)" and "\<forall>e\<in>set es. (fst e, role) \<notin> set seen"
  shows "add_nodes cl role es seen nodes =
     (rev (map (\<lambda>e. (fst e, role)) es) @ seen,
      nodes @ map (\<lambda>(h, vars). \<lparr>node_host = h, node_role = role, node_cluster = cl,
                               node_variables = vars\<rparr>) es)"
  using assms
proof (induction es arbitrary: seen nodes)
  case (Cons e es)
  obtain h vars where e: "e = (h, vars)" by (cases e)
  have "\<forall>e'\<in>set es. (fst e', role) \<notin> set ((h, role) # seen)"
    using Cons.prems e by (auto simp: image_iff)
  then show ?case using Cons e by simp
qed simp

definition node_of_row :: "string \<Rightarrow> node_row \<Rightarrow> node" where
  "node_of_row cl row = \<lparr>node_host = nr_host row, node_role = nr_role row, node_cluster = cl,
     node_variables = snd (entry_of row)\<rparr>"

lemma nodes_of_role:
  "map (\<lambda>(h, vars). \<lparr>node_host = h, node_role = role, node_cluster = cl, node_variables = vars\<rparr>)
     (map entry_of (of_role role rows)) = map (node_of_row cl) (of_role role rows)"
  by (auto simp: of_role_def node_of_row_def entry_of_def)

text \<open>Lines of the rendered text have no line break of their own.\<close>

lemma render_lines_ok:
  assumes "list_all row_ok rows" and "list_all (\<lambda>c. \<not> is_line_break c) cl"
  shows "list_all (list_all (\<lambda>c. \<not> is_line_break c)) (render_lines cl rows)"
proof -
  have "list_all (\<lambda>c. \<not> is_line_break c) (row_line row)" if "row_ok row" for row
    using that host_line(6) [of "nr_host row"] host_line(6) [of "address_or_host row"]
    by (auto simp: row_ok_def row_line_def Let_def list_all_iff is_line_break_def code_def)
  then show ?thesis using assms
    by (auto simp: render_lines_def group_lines_def list_all_iff is_line_break_def code_def
        ROLE_COORDINATOR_def ROLE_WORKER_def)
qed

lemma parse_render:
  assumes "list_all row_ok rows" and "list_all (\<lambda>c. \<not> is_line_break c) cl"
    and "distinct (map nr_host (of_role ROLE_COORDINATOR rows))"
    and "distinct (map nr_host (of_role ROLE_WORKER rows))"
  shows "parse_inventory (render_inventory cl rows) cl' =
           map (node_of_row cl') (of_role ROLE_COORDINATOR rows @ of_role ROLE_WORKER rows)"
proof -
  have "splitlines (render_inventory cl rows) = butlast (render_lines cl rows)"
    unfolding render_inventory_def
    using render_lines_ok [OF assms(1,2)]
    by (intro splitlines_join) (simp_all add: render_lines_def group_lines_def)
  moreover obtain d where d: "parse_lines (butlast (render_lines cl rows)) =
        \<lparr>ps_hosts = d, ps_children = [], ps_group = Some ''worker'', ps_kind = ''hosts''\<rparr>"
      "\<And>k. get_list d k =
        (if k = ROLE_COORDINATOR then map entry_of (of_role ROLE_COORDINATOR rows)
         else if k = ROLE_WORKER then map entry_of (of_role ROLE_WORKER rows) else [])"
    using parse_rendered_lines [OF assms(1)] by blast
  moreover have "distinct (map fst (map entry_of rs)) = distinct (map nr_host rs)" for rs
    by (simp add: comp_def)
  ultimately show ?thesis
    using assms(3,4) nodes_of_role [of ROLE_COORDINATOR cl' rows] nodes_of_role [of ROLE_WORKER cl' rows]
    by (simp add: parse_inventory_def ROLE_GROUPS_def collect_flat add_nodes_distinct
        ROLE_COORDINATOR_def ROLE_WORKER_def image_iff del: map_map)
qed

text \<open>C25: The inventory TMS writes reads back as the node list it was written from: parsing the
  rendered file gives the coordinators and then the workers, each with the host, the role and the
  address of its row, whatever the order and the sources of the rows - provided the hosts and
  addresses are ones validation accepts and no host is listed twice in a role.\<close>

theorem inventory_roundtrip:
  assumes "list_all row_ok rows" and "list_all (\<lambda>c. \<not> is_line_break c) cl"
    and "distinct (map nr_host (of_role ROLE_COORDINATOR rows))"
    and "distinct (map nr_host (of_role ROLE_WORKER rows))"
  shows "map (\<lambda>n. (node_host n, node_role n, node_address n))
           (parse_inventory (render_inventory cl rows) cl') =
         map (\<lambda>r. (nr_host r, nr_role r, address_or_host r))
           (of_role ROLE_COORDINATOR rows @ of_role ROLE_WORKER rows)"
proof -
  have "node_address (node_of_row cl' r) = address_or_host r" if "row_ok r" for r
    using that
    by (auto simp: node_address_def node_of_row_def entry_of_def row_ok_def hostname_ok_def)
  moreover have "row_ok r" if "r \<in> set (of_role role rows)" for r role
    using assms(1) that by (auto simp: of_role_def list_all_iff)
  ultimately show ?thesis
    by (simp add: parse_render [OF assms]) (auto simp: node_of_row_def)
qed

definition demo_row :: "string \<Rightarrow> string option \<Rightarrow> string \<Rightarrow> node_row" where
  "demo_row h a role = \<lparr>nr_cluster = ''prod-a'', nr_host = h, nr_address = a, nr_role = role,
     nr_source = ''manual'', nr_reason = None, nr_node_id = None, nr_version = None,
     nr_last_seen_at = None\<rparr>"

definition demo_rows :: "node_row list" where
  "demo_rows = [demo_row ''w-1'' (Some ''10.0.0.1'') ''worker'', demo_row ''c'' None ''coordinator'',
                demo_row ''w-2'' None ''worker'']"

lemmas demo_rows_eval = demo_rows_def demo_row_def row_ok_def hostname_ok_def address_or_host_def
  host_char_def is_ascii_alnum_def code_def of_role_def ROLE_COORDINATOR_def ROLE_WORKER_def
  is_line_break_def

theorem inventory_roundtrip_witness:
  "list_all row_ok demo_rows \<and>
   map (\<lambda>n. (node_host n, node_role n, node_address n))
     (parse_inventory (render_inventory ''prod-a'' demo_rows) ''x'') =
   [(''c'', ''coordinator'', ''c''), (''w-1'', ''worker'', ''10.0.0.1''), (''w-2'', ''worker'', ''w-2'')]"
proof -
  have ok: "list_all row_ok demo_rows" "list_all (\<lambda>c. \<not> is_line_break c) ''prod-a''"
      "distinct (map nr_host (of_role ROLE_COORDINATOR demo_rows))"
      "distinct (map nr_host (of_role ROLE_WORKER demo_rows))"
    by (simp_all add: demo_rows_eval)
  show ?thesis using inventory_roundtrip [OF ok, of "''x''"] ok(1) by (simp add: demo_rows_eval)
qed

section \<open>Any inventory\<close>

abbreviation host_role :: "node \<Rightarrow> string \<times> string" where
  "host_role n \<equiv> (node_host n, node_role n)"

lemma add_nodes_new:
  "add_nodes cl role es seen nodes = (seen', nodes') \<Longrightarrow>
   \<exists>new. nodes' = nodes @ new \<and> seen' = rev (map host_role new) @ seen \<and>
     distinct (map host_role new) \<and> set (map host_role new) \<inter> set seen = {} \<and>
     (\<forall>n\<in>set new. node_role n = role \<and> node_cluster n = cl \<and>
        (node_host n, node_variables n) \<in> set es)"
proof (induction cl role es seen nodes arbitrary: seen' nodes' rule: add_nodes.induct)
  case (2 cl role h vars es seen nodes)
  let ?n = "\<lparr>node_host = h, node_role = role, node_cluster = cl, node_variables = vars\<rparr>"
  show ?case
  proof (cases "(h, role) \<in> set seen")
    case True
    then obtain new where "nodes' = nodes @ new" "seen' = rev (map host_role new) @ seen"
        "distinct (map host_role new)" "set (map host_role new) \<inter> set seen = {}"
        "\<forall>n\<in>set new. node_role n = role \<and> node_cluster n = cl \<and>
           (node_host n, node_variables n) \<in> set es"
      using "2.IH"(1) [OF True, of seen' nodes'] "2.prems" by auto
    then show ?thesis by (intro exI [of _ new]) auto
  next
    case False
    then obtain new where new: "nodes' = (nodes @ [?n]) @ new"
        "seen' = rev (map host_role new) @ (h, role) # seen"
        "distinct (map host_role new)" "set (map host_role new) \<inter> set ((h, role) # seen) = {}"
        "\<forall>n\<in>set new. node_role n = role \<and> node_cluster n = cl \<and>
           (node_host n, node_variables n) \<in> set es"
      using "2.IH"(2) [OF False, of seen' nodes'] "2.prems" by auto
    then show ?thesis using False by (intro exI [of _ "?n # new"]) auto
  qed
qed simp

lemma nodes_of_groups_inv:
  assumes "set (map host_role nodes) = set seen" and "distinct (map host_role nodes)"
  shows "distinct (map host_role (nodes_of_groups cl ps gs seen nodes)) \<and>
         (\<forall>n\<in>set (nodes_of_groups cl ps gs seen nodes). n \<in> set nodes \<or> node_cluster n = cl \<and>
            (\<exists>g. (g, node_role n) \<in> set gs \<and> (node_host n, node_variables n) \<in>
               set (collect (ps_hosts ps) (ps_children ps) [g] [])))"
  using assms
proof (induction cl ps gs seen nodes rule: nodes_of_groups.induct)
  case (2 cl ps g role gs seen nodes)
  let ?es = "collect (ps_hosts ps) (ps_children ps) [g] []"
  obtain seen' nodes' where a: "add_nodes cl role ?es seen nodes = (seen', nodes')"
    by fastforce
  then obtain new where new: "nodes' = nodes @ new" "seen' = rev (map host_role new) @ seen"
      "distinct (map host_role new)" "set (map host_role new) \<inter> set seen = {}"
      "\<forall>n\<in>set new. node_role n = role \<and> node_cluster n = cl \<and>
         (node_host n, node_variables n) \<in> set ?es"
    using add_nodes_new by meson
  have "set (map host_role nodes') = set seen'" "distinct (map host_role nodes')"
    using new(1-4) "2.prems" by auto
  note IH = "2.IH" [OF a [symmetric] this]
  have "node_cluster n = cl \<and> (g, node_role n) \<in> set ((g, role) # gs) \<and>
      (node_host n, node_variables n) \<in> set ?es" if "n \<in> set new" for n
    using new(5) that by simp
  then show ?case using IH a new(1) by (simp only: nodes_of_groups.simps prod.case) (auto; blast)
qed simp

text \<open>A group is reached from another along \<open>:children\<close>.\<close>

inductive reaches :: "(string \<times> string list) list \<Rightarrow> string \<Rightarrow> string \<Rightarrow> bool" where
  self: "reaches ch g g"
| child: "reaches ch g h \<Longrightarrow> k \<in> set (get_list ch h) \<Longrightarrow> reaches ch g k"

lemma collect_reaches:
  assumes "e \<in> set (collect hosts ch work seen)" and "\<forall>w\<in>set work. reaches ch g w"
  shows "\<exists>k. reaches ch g k \<and> e \<in> set (get_list hosts k)"
  using assms
proof (induction hosts ch work seen rule: collect.induct)
  case (2 hosts children n work seen)
  then show ?case
    by (auto simp: collect.simps(2) split: if_splits intro: reaches.child)
qed (simp add: collect.simps)

text \<open>Whatever text is given as an inventory, reading it returns - also when its groups include
  each other in a circle - and gives nodes of the cluster asked for in which no host occurs twice
  in the same role, every role is coordinator or worker, and every node comes from a group that
  one of the groups naming that role reaches through its children.\<close>

theorem parse_inventory_sound:
  "distinct (map (\<lambda>n. (node_host n, node_role n)) (parse_inventory text cl)) \<and>
   list_all (\<lambda>n. node_cluster n = cl \<and> node_role n \<in> {ROLE_COORDINATOR, ROLE_WORKER} \<and>
      (\<exists>g k. (g, node_role n) \<in> set ROLE_GROUPS \<and>
         reaches (ps_children (parse_lines (splitlines text))) g k \<and>
         (node_host n, node_variables n) \<in>
           set (get_list (ps_hosts (parse_lines (splitlines text))) k)))
     (parse_inventory text cl)"
proof -
  let ?ps = "parse_lines (splitlines text)"
  have inv: "distinct (map (\<lambda>n. (node_host n, node_role n)) (parse_inventory text cl)) \<and>
     (\<forall>n\<in>set (parse_inventory text cl). node_cluster n = cl \<and>
        (\<exists>g. (g, node_role n) \<in> set ROLE_GROUPS \<and> (node_host n, node_variables n) \<in>
               set (collect (ps_hosts ?ps) (ps_children ?ps) [g] [])))"
    using nodes_of_groups_inv [of "[]" "[]" cl ?ps ROLE_GROUPS] by (simp add: parse_inventory_def)
  have role: "(g, q) \<in> set ROLE_GROUPS \<Longrightarrow> q \<in> {ROLE_COORDINATOR, ROLE_WORKER}" for g q
    by (auto simp: ROLE_GROUPS_def)
  have "\<exists>k. reaches (ps_children ?ps) g k \<and> e \<in> set (get_list (ps_hosts ?ps) k)"
    if "e \<in> set (collect (ps_hosts ?ps) (ps_children ?ps) [g] [])" for e g
    using that by (rule collect_reaches) (simp add: reaches.self)
  then show ?thesis using inv role by (simp only: list_all_iff) blast
qed

section \<open>A scan\<close>

lemma index_hosts_val:
  "map_of (index_hosts rows d) k = Some row \<Longrightarrow> row \<in> set rows \<or> map_of d k = Some row"
proof (induction rows arbitrary: d)
  case (Cons r rows)
  then show ?case
    by (force simp: setdefault_def split: option.splits if_splits)
qed simp

lemma index_hosts_keep: "map_of d k \<noteq> None \<Longrightarrow> map_of (index_hosts rows d) k \<noteq> None"
  by (induction rows arbitrary: d) (auto simp: setdefault_def split: option.splits)

lemma index_hosts_covers:
  "row \<in> set rows \<Longrightarrow> k = nr_host row \<or> k = address_or_host row \<Longrightarrow>
   map_of (index_hosts rows d) k \<noteq> None"
proof (induction rows arbitrary: d)
  case (Cons r rows)
  let ?d = "setdefault (address_or_host r) r (dset (nr_host r) r d)"
  have "map_of ?d (nr_host r) \<noteq> None" "map_of ?d (address_or_host r) \<noteq> None"
    by (auto simp: setdefault_def split: option.splits)
  then show ?case using Cons index_hosts_keep [of ?d k rows] by auto
qed simp

lemma match_found_eq:
  "match_found bh ns =
     (filter (\<lambda>n. map_of bh (fn_host n) = None) ns,
      List.map_filter (\<lambda>n. map_option (change_for n) (map_of bh (fn_host n))) ns)"
  by (induction ns) (auto simp: List.map_filter_def split: option.split)

text \<open>A scan of the coordinator never takes a node off the list and never renames one: every
  listed host is either touched or reported as silent and left alone, only listed hosts are
  touched, a touched row keeps its own name and loses its hand-written reason exactly when it had
  been entered by hand, every node found is added or touched, and a node is added only if no
  listed row has that name or that address.\<close>

theorem scan_never_drops:
  "let p = plan_refresh existing found
   in nr_host ` set existing = nc_host ` set (rp_touched p) \<union> nr_host ` set (rp_silent p) \<and>
      set (rp_silent p) \<subseteq> set existing \<and>
      nc_host ` set (rp_touched p) \<inter> nr_host ` set (rp_silent p) = {} \<and>
      list_all (\<lambda>c. nc_source c = SOURCE_DISCOVERED \<and>
        (\<exists>row\<in>set existing. nc_host c = nr_host row \<and>
           nc_clears_reason c = (nr_source row = SOURCE_MANUAL))) (rp_touched p) \<and>
      list_all (\<lambda>n. n \<in> set found \<and>
        fn_host n \<notin> nr_host ` set existing \<union> address_or_host ` set existing) (rp_added p) \<and>
      list_all (\<lambda>n. n \<in> set (rp_added p) \<or>
        (\<exists>row\<in>set existing. nr_host row \<in> nc_host ` set (rp_touched p))) found"
proof -
  let ?bh = "index_hosts existing []"
  define touched where "touched = List.map_filter (\<lambda>n. map_option (change_for n) (map_of ?bh (fn_host n))) found"
  have plan: "plan_refresh existing found =
      \<lparr>rp_added = filter (\<lambda>n. map_of ?bh (fn_host n) = None) found, rp_touched = touched,
       rp_silent = filter (\<lambda>row. nr_host row \<notin> nc_host ` set touched) existing\<rparr>"
    by (simp add: plan_refresh_def match_found_eq touched_def)
  have val: "row \<in> set existing" if "map_of ?bh k = Some row" for k row
    using index_hosts_val [OF that] by simp
  have change: "\<exists>row\<in>set existing. \<exists>n\<in>set found. c = change_for n row" if "c \<in> set touched" for c
  proof -
    obtain n row where "n \<in> set found" "map_of ?bh (fn_host n) = Some row" "c = change_for n row"
      using \<open>c \<in> set touched\<close> by (auto simp: touched_def List.map_filter_def)
    then show ?thesis using val by blast
  qed
  then have own: "nc_host ` set touched \<subseteq> nr_host ` set existing"
  proof -
    assume c: "\<And>c. c \<in> set touched \<Longrightarrow> \<exists>row\<in>set existing. \<exists>n\<in>set found. c = change_for n row"
    have "nc_host c \<in> nr_host ` set existing" if "c \<in> set touched" for c
      using c [OF that] by (auto simp: change_for_def)
    then show ?thesis by blast
  qed
  have new: "fn_host n \<notin> nr_host ` set existing \<union> address_or_host ` set existing"
    if "map_of ?bh (fn_host n) = None" for n
    using that index_hosts_covers [of _ existing "fn_host n" "[]"] by force
  have found: "map_of ?bh (fn_host n) = None \<or> (\<exists>row\<in>set existing. nr_host row \<in> nc_host ` set touched)"
    if "n \<in> set found" for n
  proof (cases "map_of ?bh (fn_host n)")
    case (Some row)
    then have "change_for n row \<in> set touched"
      using that by (force simp: touched_def List.map_filter_def)
    then have "nr_host row \<in> nc_host ` set touched" by (force simp: change_for_def)
    then show ?thesis using val [OF Some] by blast
  qed simp
  have 1: "nr_host ` set existing = nc_host ` set touched \<union>
      nr_host ` set (filter (\<lambda>row. nr_host row \<notin> nc_host ` set touched) existing)"
    using own by auto
  have 2: "list_all (\<lambda>c. nc_source c = SOURCE_DISCOVERED \<and> (\<exists>row\<in>set existing.
      nc_host c = nr_host row \<and> nc_clears_reason c = (nr_source row = SOURCE_MANUAL))) touched"
    using change by (fastforce simp: list_all_iff change_for_def)
  have 3: "nc_host ` set touched \<inter> nr_host ` set (filter (\<lambda>row. nr_host row \<notin> nc_host ` set touched) existing) = {}"
    by (auto simp: image_iff)
  have 4: "list_all (\<lambda>n. n \<in> set found \<and> fn_host n \<notin> nr_host ` set existing \<union> address_or_host ` set existing)
      (filter (\<lambda>n. map_of ?bh (fn_host n) = None) found)"
    using new unfolding list_all_iff by auto
  have 5: "list_all (\<lambda>n. n \<in> set (filter (\<lambda>n. map_of ?bh (fn_host n) = None) found) \<or>
      (\<exists>row\<in>set existing. nr_host row \<in> nc_host ` set touched)) found"
    unfolding list_all_iff using found by simp
  show ?thesis unfolding plan Let_def refresh_plan.simps
    by (intro conjI 1 2 3 4 5) auto
qed

text \<open>A hand-entered node is accepted only in a form that is safe in the file Ansible executes
  against: the accepted host and address consist of letters, digits, dot, dash, colon and
  underscore only, the role is one of the two, the cluster is a configured one, and the line
  rendered for it is read back as exactly this host with exactly this address.\<close>

theorem validated_node_is_safe:
  assumes "validate_node cl0 host0 address0 role0 known = Inr v"
    and "nr_host row = vn_host v" and "nr_address row = Some (vn_address v)"
    and "ps_group ps = Some g" and "ps_kind ps = ''hosts''"
  shows "list_all host_char (vn_host v) \<and> vn_host v \<noteq> [] \<and> list_all host_char (vn_address v) \<and>
         vn_role v \<in> {ROLE_COORDINATOR, ROLE_WORKER} \<and> (known = [] \<or> vn_cluster v \<in> set known) \<and>
         parse_line (row_line row) ps =
           ps\<lparr>ps_hosts := append_at g (vn_host v, if vn_address v = vn_host v then []
                else [(''ansible_host'', vn_address v)]) (ps_hosts ps)\<rparr>"
proof -
  have v: "hostname_ok (vn_host v)" "hostname_ok (vn_address v)"
      "vn_role v \<in> {ROLE_COORDINATOR, ROLE_WORKER}" "known = [] \<or> vn_cluster v \<in> set known"
    using assms(1) by (auto simp: validate_node_def Let_def split: if_splits)
  have a: "address_or_host row = vn_address v"
    using assms(2,3) v(2) by (simp add: address_or_host_def hostname_ok_def)
  have "row_ok row" using v a assms(2) by (simp add: row_ok_def)
  then show ?thesis
    using parse_row_line [OF _ assms(4,5), of row] v a assms(2)
    by (simp add: hostname_ok_def entry_of_def)
qed

theorem validated_node_is_safe_witness:
  "\<exists>v. validate_node (Some ''a'') (Some '' w-1 '') None (Some ''worker'') [''a''] = Inr v \<and>
       list_all host_char (vn_host v)"
proof -
  let ?v = "\<lparr>vn_cluster = ''a'', vn_host = ''w-1'', vn_address = ''w-1'', vn_role = ''worker''\<rparr>"
  have v: "validate_node (Some ''a'') (Some '' w-1 '') None (Some ''worker'') [''a''] = Inr ?v"
    by (simp add: validate_node_def clean_def strip_def is_space_def lower_def lower_char_def
        hostname_ok_def host_char_def is_ascii_alnum_def code_def Let_def
        ROLE_COORDINATOR_def ROLE_WORKER_def)
  show ?thesis
    using validated_node_is_safe [OF v, of "demo_row ''w-1'' (Some ''w-1'') ''worker''"
        "\<lparr>ps_hosts = [], ps_children = [], ps_group = Some ''worker'', ps_kind = ''hosts''\<rparr>" "''worker''"] v
    by (simp add: demo_row_def)
qed

end
