(* ===== verification/Base64.thy ===== *)
theory Base64
  imports PyText "HOL-Library.Word"
begin

text \<open>
  What the program uses of Python's \<^verbatim>\<open>base64\<close>: encoding of bytes to text in the standard and in
  the URL-safe alphabet, and the lenient decoder (\<open>binascii.a2b_base64\<close>), which skips characters
  outside the alphabet and stops at a complete padding. Bytes are 8-bit words.
\<close>

type_synonym bytes = "8 word list"

text \<open>\<open>str.encode()\<close> of code points below 256.\<close>

definition utf8_char :: "char \<Rightarrow> bytes" where
  "utf8_char c =
     (let n = code c
      in if n < 128 then [of_nat n] else [of_nat (192 + n div 64), of_nat (128 + n mod 64)])"

definition utf8 :: "string \<Rightarrow> bytes" where
  "utf8 s = concat (map utf8_char s)"

definition b64_char :: "bool \<Rightarrow> nat \<Rightarrow> char" where
  "b64_char urlsafe v =
     (if v < 26 then char_of (65 + v)
      else if v < 52 then char_of (71 + v)
      else if v < 62 then char_of (v - 4)
      else if v = 62 then (if urlsafe then CHR ''-'' else CHR ''+'')
      else (if urlsafe then CHR ''_'' else CHR ''/''))"

definition b64_value :: "char \<Rightarrow> nat option" where
  "b64_value c =
     (let n = code c
      in if 65 \<le> n \<and> n \<le> 90 then Some (n - 65)
         else if 97 \<le> n \<and> n \<le> 122 then Some (n - 71)
         else if 48 \<le> n \<and> n \<le> 57 then Some (n + 4)
         else if c = CHR ''+'' then Some 62
         else if c = CHR ''/'' then Some 63
         else None)"

fun b64_body :: "bool \<Rightarrow> bytes \<Rightarrow> string" where
  "b64_body u [] = []"
| "b64_body u [a] = [b64_char u (unat a div 4), b64_char u (unat a mod 4 * 16)]"
| "b64_body u [a, b] =
     [b64_char u (unat a div 4), b64_char u (unat a mod 4 * 16 + unat b div 16),
      b64_char u (unat b mod 16 * 4)]"
| "b64_body u (a # b # c # bs) =
     b64_char u (unat a div 4) # b64_char u (unat a mod 4 * 16 + unat b div 16) #
     b64_char u (unat b mod 16 * 4 + unat c div 64) # b64_char u (unat c mod 64) # b64_body u bs"

text \<open>\<open>"=" * (-len(text) % 4)\<close>\<close>

definition b64_padding :: "string \<Rightarrow> string" where
  "b64_padding text = replicate ((4 - length text mod 4) mod 4) (CHR ''='')"

definition b64encode :: "bytes \<Rightarrow> string" where
  "b64encode bs = b64_body False bs @ b64_padding (b64_body False bs)"

definition urlsafe_b64encode :: "bytes \<Rightarrow> string" where
  "urlsafe_b64encode bs = b64_body True bs @ b64_padding (b64_body True bs)"

text \<open>The decoder: position in the quadruple, bits left over, padding characters seen.\<close>

fun a2b :: "nat \<Rightarrow> nat \<Rightarrow> nat \<Rightarrow> string \<Rightarrow> bytes option" where
  "a2b q l p [] = (if q = 0 then Some [] else None)"
| "a2b q l p (c # cs) =
     (if c = CHR ''='' then
        (if q \<ge> 2 \<and> q + p + 1 \<ge> 4 then Some [] else a2b q l (if q \<ge> 2 then p + 1 else p) cs)
      else case b64_value c of
             None \<Rightarrow> a2b q l p cs
           | Some v \<Rightarrow>
               (if q = 0 then a2b 1 v 0 cs
                else if q = 1
                then map_option (Cons (word_of_nat (l * 4 + v div 16))) (a2b 2 (v mod 16) 0 cs)
                else if q = 2
                then map_option (Cons (word_of_nat (l * 16 + v div 4))) (a2b 3 (v mod 4) 0 cs)
                else map_option (Cons (word_of_nat (l * 64 + v))) (a2b 0 0 0 cs)))"

definition is_ascii_text :: "string \<Rightarrow> bool" where
  "is_ascii_text s \<longleftrightarrow> list_all (\<lambda>c. code c < 128) s"

definition b64decode :: "string \<Rightarrow> bytes option" where
  "b64decode s = (if is_ascii_text s then a2b 0 0 0 s else None)"

definition from_urlsafe :: "char \<Rightarrow> char" where
  "from_urlsafe c = (if c = CHR ''-'' then CHR ''+'' else if c = CHR ''_'' then CHR ''/'' else c)"

definition urlsafe_b64decode :: "string \<Rightarrow> bytes option" where
  "urlsafe_b64decode s = (if is_ascii_text s then a2b 0 0 0 (map from_urlsafe s) else None)"

section \<open>Decoding undoes encoding\<close>

lemma code_char_of: "n < 256 \<Longrightarrow> code (char_of n) = n"
  by (simp add: code_def)

lemma code_b64_char: "v < 64 \<Longrightarrow> code (b64_char u v) =
    (if v < 26 then 65 + v else if v < 52 then 71 + v else if v < 62 then v - 4
     else if v = 62 then (if u then 45 else 43) else (if u then 95 else 47))"
  by (simp add: b64_char_def code_char_of) (simp add: code_def)

lemma b64_char_avoids:
  "v < 64 \<Longrightarrow> code c \<in> {61, 36, 46} \<Longrightarrow> b64_char u v \<noteq> c"
  using code_b64_char [of v u] by (auto split: if_splits)

lemma b64_value_char: "v < 64 \<Longrightarrow> b64_value (b64_char False v) = Some v"
  using code_b64_char [of v False]
  by (cases "v < 62") (auto simp: b64_value_def Let_def b64_char_def code_def)

lemma from_urlsafe_char: "v < 64 \<Longrightarrow> from_urlsafe (b64_char True v) = b64_char False v"
proof (cases "v < 62")
  case True
  then have "code (b64_char True v) \<notin> {45, 95}" and "b64_char True v = b64_char False v"
    using code_b64_char [of v True] by (auto simp: b64_char_def)
  then show ?thesis by (auto simp: from_urlsafe_def code_def)
qed (auto simp: b64_char_def from_urlsafe_def)

lemma b64_char_ascii: "v < 64 \<Longrightarrow> code (b64_char u v) < 128"
  using code_b64_char [of v u] by auto

text \<open>The sextets of the encoding.\<close>

fun sextets :: "bytes \<Rightarrow> nat list" where
  "sextets [] = []"
| "sextets [a] = [unat a div 4, unat a mod 4 * 16]"
| "sextets [a, b] = [unat a div 4, unat a mod 4 * 16 + unat b div 16, unat b mod 16 * 4]"
| "sextets (a # b # c # bs) =
     unat a div 4 # (unat a mod 4 * 16 + unat b div 16) #
     (unat b mod 16 * 4 + unat c div 64) # (unat c mod 64) # sextets bs"

lemma unat_byte: "unat (b :: 8 word) < 256"
  using unsigned_less [of b, where 'a = nat] by simp

lemma sextet_bounds:
  "unat (a :: 8 word) div 4 < 64" "unat (b :: 8 word) div 16 < 16" "unat (c :: 8 word) div 64 < 4"
  using unat_byte [of a] unat_byte [of b] unat_byte [of c] by (simp_all add: less_mult_imp_div_less)

lemma b64_body_sextets: "b64_body u bs = map (b64_char u) (sextets bs)"
  by (induction u bs rule: b64_body.induct) simp_all

lemma sextets_bound: "list_all (\<lambda>v. v < 64) (sextets bs)"
proof (induction bs rule: sextets.induct)
  case (4 a b c bs)
  have "unat a mod 4 < 4" "unat b mod 16 < 16" by simp_all
  then have "unat a mod 4 * 16 + unat b div 16 < 64" "unat b mod 16 * 4 + unat c div 64 < 64"
    using sextet_bounds(2) [of b] sextet_bounds(3) [of c] by linarith+
  then show ?case using 4 sextet_bounds(1) [of a] by simp
next
  case (3 a b)
  have "unat a mod 4 < 4" "unat b mod 16 < 16" by simp_all
  then have "unat a mod 4 * 16 + unat b div 16 < 64" "unat b mod 16 * 4 < 64"
    using sextet_bounds(2) [of b] by linarith+
  then show ?case using sextet_bounds(1) [of a] by simp
next
  case (2 a)
  have "unat a mod 4 < 4" by simp
  then have "unat a mod 4 * 16 < 64" by linarith
  then show ?case using sextet_bounds(1) [of a] by simp
qed simp

lemma body_chars:
  assumes "code x \<in> {61, 36, 46}"
  shows "x \<notin> set (b64_body u bs)"
proof -
  have "\<forall>v\<in>set (sextets bs). b64_char u v \<noteq> x"
    using sextets_bound [of bs] b64_char_avoids assms by (auto simp: list_all_iff)
  then show ?thesis by (auto simp: b64_body_sextets)
qed

lemma from_urlsafe_body: "map from_urlsafe (b64_body True bs) = b64_body False bs"
  using sextets_bound [of bs] by (auto simp: b64_body_sextets list_all_iff from_urlsafe_char)

lemma ascii_body: "is_ascii_text (b64_body u bs)"
  using sextets_bound [of bs] b64_char_ascii by (auto simp: is_ascii_text_def b64_body_sextets list_all_iff)

lemma b64_padding_eq: "b64_padding text = replicate ((4 - length text mod 4) mod 4) (CHR ''='')"
  by (fact b64_padding_def)

lemma eq_avoid: "v < 64 \<Longrightarrow> b64_char u v \<noteq> CHR ''=''"
  using b64_char_avoids [of v "CHR ''=''" u] by (simp add: code_def)

lemma of_unat: "n = unat (a :: 8 word) \<Longrightarrow> of_nat n = a"
  by simp

lemma rejoin1: "r < 16 \<Longrightarrow> of_nat (unat a div 4 * 4 + (unat a mod 4 * 16 + r) div 16) = (a :: 8 word)"
  by (rule of_unat) simp

lemma rejoin2: "q < 4 \<Longrightarrow> of_nat ((m * 16 + unat b div 16) mod 16 * 16 + (unat b mod 16 * 4 + q) div 4)
    = (b :: 8 word)"
  using sextet_bounds(2) [of b] by (intro of_unat) simp

lemma rejoin3: "of_nat ((m * 4 + unat c div 64) mod 4 * 64 + unat c mod 64) = (c :: 8 word)"
  using sextet_bounds(3) [of c] by (intro of_unat) simp

lemma rejoin1': "of_nat (unat a div 4 * 4 + unat a mod 4 * 16 div 16) = (a :: 8 word)"
  using rejoin1 [of 0 a] by simp

lemma rejoin2': "of_nat ((m * 16 + unat b div 16) mod 16 * 16 + unat b mod 16 * 4 div 4) = (b :: 8 word)"
  using rejoin2 [of 0 m b] by simp

lemma a2b_body:
  "a2b 0 0 0 (b64_body False bs @ b64_padding (b64_body False bs)) = Some bs"
proof (induction bs rule: sextets.induct)
  case (2 a)
  have "unat a mod 4 < 4" by simp
  then have "unat a mod 4 * 16 < 64" by linarith
  then show ?case using sextet_bounds(1) [of a] rejoin1' [of a]
    by (simp add: b64_padding_def b64_value_char eq_avoid numeral_2_eq_2)
next
  case (3 a b)
  have "unat a mod 4 < 4" "unat b mod 16 < 16" by simp_all
  then have "unat a mod 4 * 16 + unat b div 16 < 64" "unat b mod 16 * 4 < 64"
    using sextet_bounds(2) [of b] by linarith+
  then show ?case
    using sextet_bounds(1) [of a] rejoin1 [OF sextet_bounds(2) [of b], of a] rejoin2' [of "unat a mod 4" b]
    by (simp add: b64_padding_def b64_value_char eq_avoid)
next
  case (4 a b c bs)
  have "unat a mod 4 < 4" "unat b mod 16 < 16" "unat c mod 64 < 64" by simp_all
  then have "unat a mod 4 * 16 + unat b div 16 < 64" "unat b mod 16 * 4 + unat c div 64 < 64"
    "unat c mod 64 < 64"
    using sextet_bounds(2) [of b] sextet_bounds(3) [of c] by linarith+
  moreover have "b64_padding (b64_body False (a # b # c # bs)) = b64_padding (b64_body False bs)"
    by (simp add: b64_padding_def)
  ultimately show ?case
    using 4 sextet_bounds(1) [of a] rejoin1 [OF sextet_bounds(2) [of b], of a]
      rejoin2 [OF sextet_bounds(3) [of c], of "unat a mod 4" b] rejoin3 [of "unat b mod 16" c]
    by (simp add: b64_value_char eq_avoid)
qed (simp add: b64_padding_def)

lemma ascii_padding: "is_ascii_text (b64_padding s)"
  by (auto simp: is_ascii_text_def b64_padding_def list_all_iff code_def)

lemma is_ascii_append: "is_ascii_text (s @ t) \<longleftrightarrow> is_ascii_text s \<and> is_ascii_text t"
  by (simp add: is_ascii_text_def)

lemma b64decode_encode [simp]: "b64decode (b64encode bs) = Some bs"
  by (simp add: b64decode_def b64encode_def is_ascii_append ascii_body ascii_padding a2b_body)

lemma length_body: "length (b64_body u bs) = length (sextets bs)"
  by (simp add: b64_body_sextets)

text \<open>Also when the padding was dropped and is put back from the length.\<close>

lemma urlsafe_decode_body:
  "urlsafe_b64decode (b64_body True bs @ b64_padding (b64_body True bs)) = Some bs"
proof -
  have p: "b64_padding (b64_body True bs) = b64_padding (b64_body False bs)"
    by (simp add: b64_padding_def length_body)
  have m: "map from_urlsafe (b64_padding s) = b64_padding s" for s
    by (simp add: b64_padding_def from_urlsafe_def)
  show ?thesis
    by (simp add: urlsafe_b64decode_def is_ascii_append ascii_body ascii_padding m from_urlsafe_body)
       (simp add: p a2b_body)
qed

lemma b64encode_no_dollar: "CHR ''$'' \<notin> set (b64encode bs)"
  using body_chars [of "CHR ''$''" False bs]
  by (auto simp: b64encode_def b64_padding_def code_def)

lemma urlsafe_no_dot: "CHR ''.'' \<notin> set (b64_body True bs)"
  using body_chars [of "CHR ''.''" True bs] by (simp add: code_def)

lemma urlsafe_no_equals: "CHR ''='' \<notin> set (b64_body True bs)"
  using body_chars [of "CHR ''=''" True bs] by (simp add: code_def)

end
