(* ===== verification/Passwords.thy ===== *)
theory Passwords
  imports Base64 Complex_Main
begin

text \<open>
  Stored passwords (\<^verbatim>\<open>src/tms/core/passwords.py\<close>) and local accounts with their lockout
  (\<^verbatim>\<open>src/tms/core/localauth.py\<close>). PBKDF2 is the parameter \<open>kdf\<close>: password, salt and
  iteration count to the derived key; the operating system's random salt is an argument.
  Readings of the clock are arguments too.
\<close>

section \<open>Hashing\<close>

definition ALGORITHM :: string where "ALGORITHM = ''pbkdf2_sha256''"
definition DEFAULT_ITERATIONS :: int where "DEFAULT_ITERATIONS = 600000"
definition SALT_BYTES :: nat where "SALT_BYTES = 16"
definition MIN_PASSWORD_LENGTH :: nat where "MIN_PASSWORD_LENGTH = 12"

datatype password_error = EmptyPassword | MalformedHash | UnsupportedAlgorithm string
  | TooShort | TooFewClasses | SamePassword

text \<open>What \<open>hashlib.pbkdf2_hmac\<close> raises for an iteration count it does not take
  (below 1, or beyond a C int).\<close>

datatype kdf_exn = BadIterations int

type_synonym kdf = "string \<Rightarrow> bytes \<Rightarrow> int \<Rightarrow> bytes"

definition pbkdf2 :: "kdf \<Rightarrow> string \<Rightarrow> bytes \<Rightarrow> int \<Rightarrow> kdf_exn + bytes" where
  "pbkdf2 kdf password salt iterations =
     (if iterations < 1 \<or> iterations > 2147483647 then Inl (BadIterations iterations)
      else Inr (kdf password salt iterations))"

datatype hash_exn = PasswordError password_error | KdfError kdf_exn

definition hash_password :: "kdf \<Rightarrow> bytes \<Rightarrow> string \<Rightarrow> int \<Rightarrow> hash_exn + string" where
  "hash_password kdf salt password iterations =
     (if password = [] then Inl (PasswordError EmptyPassword)
      else case pbkdf2 kdf password salt iterations of
             Inl e \<Rightarrow> Inl (KdfError e)
           | Inr derived \<Rightarrow>
               Inr (ALGORITHM @ ''$'' @ show_int iterations @ ''$'' @ b64encode salt @ ''$'' @
                    b64encode derived))"

definition parse_hash :: "string \<Rightarrow> password_error + (int \<times> bytes \<times> bytes)" where
  "parse_hash encoded =
     (case split_on (CHR ''$'') encoded of
        [algorithm, iterations, salt_b64, hash_b64] \<Rightarrow>
          (if algorithm \<noteq> ALGORITHM then Inl (UnsupportedAlgorithm algorithm)
           else case py_int iterations of
                  None \<Rightarrow> Inl MalformedHash
                | Some n \<Rightarrow>
                    (case b64decode salt_b64 of
                       None \<Rightarrow> Inl MalformedHash
                     | Some salt \<Rightarrow>
                         (case b64decode hash_b64 of
                            None \<Rightarrow> Inl MalformedHash
                          | Some h \<Rightarrow> Inr (n, salt, h))))
      | _ \<Rightarrow> Inl MalformedHash)"

definition verify_password :: "kdf \<Rightarrow> string \<Rightarrow> string \<Rightarrow> kdf_exn + bool" where
  "verify_password kdf password encoded =
     (if password = [] \<or> encoded = [] then Inr False
      else case parse_hash encoded of
             Inl _ \<Rightarrow> Inr False
           | Inr (iterations, salt, expected) \<Rightarrow>
               (case pbkdf2 kdf password salt iterations of
                  Inl e \<Rightarrow> Inl e
                | Inr derived \<Rightarrow> Inr (derived = expected)))"

text \<open>\<open>str.islower\<close>, \<open>isupper\<close>, \<open>isdigit\<close> and \<open>isalnum\<close> of one character below 256.\<close>

definition char_islower :: "char \<Rightarrow> bool" where
  "char_islower c = (let n = code c in (97 \<le> n \<and> n \<le> 122) \<or> n = 170 \<or> n = 181 \<or> n = 186 \<or>
     (223 \<le> n \<and> n \<le> 246) \<or> 248 \<le> n)"

definition char_isupper :: "char \<Rightarrow> bool" where
  "char_isupper c = (let n = code c in (65 \<le> n \<and> n \<le> 90) \<or> (192 \<le> n \<and> n \<le> 214) \<or>
     (216 \<le> n \<and> n \<le> 222))"

definition char_isdigit :: "char \<Rightarrow> bool" where
  "char_isdigit c = (let n = code c in (48 \<le> n \<and> n \<le> 57) \<or> n = 178 \<or> n = 179 \<or> n = 185)"

definition char_isalnum :: "char \<Rightarrow> bool" where
  "char_isalnum c = (char_islower c \<or> char_isupper c \<or> char_isdigit c \<or> code c \<in> {188, 189, 190})"

definition check_password_strength :: "string \<Rightarrow> password_error option" where
  "check_password_strength password =
     (if length password < MIN_PASSWORD_LENGTH then Some TooShort
      else
        (let classes = length (filter (\<lambda>pred. list_ex pred password)
               [char_islower, char_isupper, char_isdigit])
             + (if list_ex (\<lambda>c. \<not> char_isalnum c) password then 1 else 0)
         in if classes < 3 then Some TooFewClasses else None))"

section \<open>Local accounts\<close>

definition MAX_FAILED_ATTEMPTS :: nat where "MAX_FAILED_ATTEMPTS = 5"
definition LOCKOUT_SECONDS :: rat where "LOCKOUT_SECONDS = 300"

record local_user =
  lu_username :: string
  lu_password_hash :: string
  lu_roles :: "string list"
  lu_must_change_password :: bool

record authenticator =
  au_users :: "local_user pydict"
  au_failures :: "rat list pydict"

datatype auth_exn =
    InvalidCredentials
  | AccountLocked rat                  \<comment> \<open>Try again in {} seconds\<close>
  | AuthPassword password_error
  | AuthKdf kdf_exn

definition failures_of :: "authenticator \<Rightarrow> string \<Rightarrow> rat list" where
  "failures_of a username = (case map_of (au_failures a) username of None \<Rightarrow> [] | Some ts \<Rightarrow> ts)"

definition recent_failures :: "rat \<Rightarrow> rat list \<Rightarrow> rat list" where
  "recent_failures now ts = filter (\<lambda>t. now - t < LOCKOUT_SECONDS) ts"

definition record_failure :: "rat \<Rightarrow> string \<Rightarrow> authenticator \<Rightarrow> authenticator" where
  "record_failure now username a =
     a\<lparr>au_failures := dset username (recent_failures now (failures_of a username) @ [now]) (au_failures a)\<rparr>"

definition is_locked :: "rat \<Rightarrow> string \<Rightarrow> authenticator \<Rightarrow> bool \<times> authenticator" where
  "is_locked now username a =
     (let attempts = recent_failures now (failures_of a username)
      in (length attempts \<ge> MAX_FAILED_ATTEMPTS,
          a\<lparr>au_failures := dset username attempts (au_failures a)\<rparr>))"

definition seconds_until_unlock :: "rat \<Rightarrow> string \<Rightarrow> authenticator \<Rightarrow> rat" where
  "seconds_until_unlock now username a =
     (case failures_of a username of
        [] \<Rightarrow> 0
      | t # _ \<Rightarrow> max 0 (LOCKOUT_SECONDS - (now - t)))"

text \<open>\<open>authenticate\<close> reads the clock for the lock, and again for the message or the failure. The
  hashing of a dummy password for an unknown user has no result.\<close>

definition authenticate ::
    "kdf \<Rightarrow> rat \<Rightarrow> rat \<Rightarrow> string \<Rightarrow> string \<Rightarrow> authenticator
       \<Rightarrow> (auth_exn + local_user) \<times> authenticator" where
  "authenticate kdf now now2 username password a =
     (case is_locked now username a of (locked, a1) \<Rightarrow>
        if locked then (Inl (AccountLocked (seconds_until_unlock now2 username a1)), a1)
        else case map_of (au_users a1) username of
               None \<Rightarrow> (Inl InvalidCredentials, record_failure now2 username a1)
             | Some user \<Rightarrow>
                 (case verify_password kdf password (lu_password_hash user) of
                    Inl e \<Rightarrow> (Inl (AuthKdf e), a1)
                  | Inr False \<Rightarrow> (Inl InvalidCredentials, record_failure now2 username a1)
                  | Inr True \<Rightarrow> (Inr user, a1\<lparr>au_failures := dpop username (au_failures a1)\<rparr>)))"

definition change_password ::
    "kdf \<Rightarrow> rat \<Rightarrow> rat \<Rightarrow> bytes \<Rightarrow> string \<Rightarrow> string \<Rightarrow> string \<Rightarrow> authenticator
       \<Rightarrow> (auth_exn + string) \<times> authenticator" where
  "change_password kdf now now2 salt username current new a =
     (case authenticate kdf now now2 username current a of
        (Inl e, a1) \<Rightarrow> (Inl e, a1)
      | (Inr user, a1) \<Rightarrow>
          (if current = new then (Inl (AuthPassword SamePassword), a1)
           else case check_password_strength new of
                  Some e \<Rightarrow> (Inl (AuthPassword e), a1)
                | None \<Rightarrow>
                    (case hash_password kdf salt new DEFAULT_ITERATIONS of
                       Inl (PasswordError e) \<Rightarrow> (Inl (AuthPassword e), a1)
                     | Inl (KdfError e) \<Rightarrow> (Inl (AuthKdf e), a1)
                     | Inr new_hash \<Rightarrow>
                         (Inr new_hash,
                          a1\<lparr>au_users := dset username (user\<lparr>lu_password_hash := new_hash,
                               lu_must_change_password := False\<rparr>) (au_users a1)\<rparr>))))"

text \<open>The configuration's account table. An entry that is no mapping is None.\<close>

record raw_user =
  ru_password_given :: bool
  ru_password_hash :: "string option"
  ru_roles :: "string list option"
  ru_must_change_password :: bool

datatype users_fault = NotAMapping string | PlaintextPassword string | HashRequired string | RoleRequired string

fun build_users_from :: "local_user pydict \<Rightarrow> raw_user option pydict \<Rightarrow> users_fault + local_user pydict" where
  "build_users_from users [] = Inr users"
| "build_users_from users ((username, entry) # raw) =
     (case entry of
        None \<Rightarrow> Inl (NotAMapping username)
      | Some u \<Rightarrow>
          (if ru_password_given u then Inl (PlaintextPassword username)
           else case ru_password_hash u of
                  None \<Rightarrow> Inl (HashRequired username)
                | Some h \<Rightarrow>
                    (if h = [] then Inl (HashRequired username)
                     else if ru_roles u = None \<or> ru_roles u = Some [] then Inl (RoleRequired username)
                     else build_users_from
                       (dset username \<lparr>lu_username = username, lu_password_hash = h,
                          lu_roles = the (ru_roles u),
                          lu_must_change_password = ru_must_change_password u\<rparr> users) raw)))"

definition build_users :: "raw_user option pydict \<Rightarrow> users_fault + local_user pydict" where
  "build_users raw = build_users_from [] raw"


section \<open>A stored hash decides exactly like the key derivation\<close>

lemma split_on_none: "d \<notin> set s \<Longrightarrow> split_on d s = [s]"
  by (induction s) auto

lemma split_on_append: "d \<notin> set s \<Longrightarrow> split_on d (s @ d # t) = s # split_on d t"
  by (induction s) auto

lemma parse_hash_written:
  assumes "0 \<le> n"
  shows "parse_hash (ALGORITHM @ ''$'' @ show_int n @ ''$'' @ b64encode salt @ ''$'' @ b64encode h) =
    Inr (n, salt, h)"
proof -
  have a: "CHR ''$'' \<notin> set ALGORITHM" by (simp add: ALGORITHM_def)
  show ?thesis
    using a assms show_int_no_dollar [OF assms] b64encode_no_dollar [of salt] b64encode_no_dollar [of h]
    by (simp add: parse_hash_def split_on_append split_on_none py_int_show)
qed

text \<open>Hashing and verifying agree: whatever \<open>hash_password\<close> stores, \<open>verify_password\<close> reads back
  iteration count, salt and key from it, and accepts a non-empty password exactly when the
  key derivation maps it to the same key. The right password is always accepted, a wrong one
  only on a collision of PBKDF2.\<close>

theorem hash_decides_like_kdf:
  assumes "hash_password kdf salt p n = Inr h"
  shows "verify_password kdf q h = Inr (q \<noteq> [] \<and> kdf q salt n = kdf p salt n) \<and>
         verify_password kdf p h = Inr True"
proof -
  have n: "1 \<le> n" "n \<le> 2147483647" and p: "p \<noteq> []"
    and h: "h = ALGORITHM @ ''$'' @ show_int n @ ''$'' @ b64encode salt @ ''$'' @ b64encode (kdf p salt n)"
    using assms by (auto simp: hash_password_def pbkdf2_def split: if_splits)
  have ne: "h \<noteq> []" by (simp add: h ALGORITHM_def)
  have parse: "parse_hash h = Inr (n, salt, kdf p salt n)"
    unfolding h using n by (intro parse_hash_written) simp
  show ?thesis using n p ne by (simp add: verify_password_def parse pbkdf2_def)
qed

theorem hash_decides_like_kdf_witness:
  "\<exists>h. hash_password (\<lambda>p s n. map (\<lambda>c. of_nat (of_char c)) p @ s) [7] ''open'' 3 = Inr h \<and>
     verify_password (\<lambda>p s n. map (\<lambda>c. of_nat (of_char c)) p @ s) ''open'' h = Inr True \<and>
     verify_password (\<lambda>p s n. map (\<lambda>c. of_nat (of_char c)) p @ s) ''shut'' h = Inr False"
proof -
  let ?k = "\<lambda>(p :: string) s (n :: int). map (\<lambda>c. of_nat (of_char c)) p @ s :: bytes"
  obtain h where h: "hash_password ?k [7] ''open'' 3 = Inr h"
    by (simp add: hash_password_def pbkdf2_def)
  show ?thesis using h hash_decides_like_kdf [OF h, of "''shut''"] by auto
qed

end
