(* ===== verification/Lockout.thy ===== *)
theory Lockout
  imports Passwords
begin

text \<open>
  What the account lockout of \<^verbatim>\<open>src/tms/core/localauth.py\<close> guarantees over a whole history of
  login attempts: a bound on the guesses an attacker gets, and the truth of the waiting time
  the refusal names. An attempt is two readings of the clock, a username and a password.
\<close>

type_synonym attempt = "rat \<times> rat \<times> string \<times> string"

type_synonym attempt_result = "string \<times> rat \<times> (auth_exn + local_user)"

fun attempts_run :: "kdf \<Rightarrow> attempt list \<Rightarrow> authenticator \<Rightarrow> attempt_result list \<times> authenticator" where
  "attempts_run kdf [] a = ([], a)"
| "attempts_run kdf ((now, now2, u, p) # xs) a =
     (case authenticate kdf now now2 u p a of (r, a1) \<Rightarrow>
        (case attempts_run kdf xs a1 of (lg, a2) \<Rightarrow> ((u, now2, r) # lg, a2)))"

text \<open>The clock is monotonic.\<close>

fun clock_from :: "rat \<Rightarrow> attempt list \<Rightarrow> bool" where
  "clock_from t [] = True"
| "clock_from t ((now, now2, _, _) # xs) \<longleftrightarrow> t \<le> now \<and> now \<le> now2 \<and> clock_from now2 xs"

text \<open>The times of the guesses on \<open>u\<close> that were compared with the password and failed.\<close>

definition failed_guesses :: "string \<Rightarrow> attempt_result list \<Rightarrow> rat list" where
  "failed_guesses u lg = map (\<lambda>(_, t, _). t) (filter (\<lambda>(v, _, r). v = u \<and> r = Inl InvalidCredentials) lg)"

definition in_window :: "rat \<Rightarrow> rat list \<Rightarrow> rat list" where
  "in_window T ts = filter (\<lambda>t. T \<le> t \<and> t < T + LOCKOUT_SECONDS) ts"

lemma failures_after_lock_check:
  "failures_of (snd (is_locked now u a)) v =
     (if v = u then recent_failures now (failures_of a u) else failures_of a v)"
  by (simp add: is_locked_def failures_of_def Let_def)

lemma failures_after_record:
  "failures_of (record_failure now u a) v =
     (if v = u then recent_failures now (failures_of a u) @ [now] else failures_of a v)"
  by (simp add: record_failure_def failures_of_def)

lemma recent_recent: "now \<le> now2 \<Longrightarrow> recent_failures now2 (recent_failures now ts) = recent_failures now2 ts"
  by (auto simp: recent_failures_def intro!: filter_cong)

lemma recent_append: "recent_failures now (xs @ ys) = recent_failures now xs @ recent_failures now ys"
  by (simp add: recent_failures_def)

text \<open>The four outcomes of one attempt.\<close>

lemma authenticate_cases:
  assumes "authenticate kdf now now2 u p a = (r, a')"
  obtains
    (locked) "length (recent_failures now (failures_of a u)) \<ge> MAX_FAILED_ATTEMPTS"
      "r = Inl (AccountLocked (seconds_until_unlock now2 u (snd (is_locked now u a))))"
      "a' = snd (is_locked now u a)"
  | (failed) "length (recent_failures now (failures_of a u)) < MAX_FAILED_ATTEMPTS"
      "r = Inl InvalidCredentials" "a' = record_failure now2 u (snd (is_locked now u a))"
  | (crashed) e where "r = Inl (AuthKdf e)" "a' = snd (is_locked now u a)"
  | (accepted) user where "r = Inr user"
      "a' = (snd (is_locked now u a))\<lparr>au_failures := dpop u (au_failures (snd (is_locked now u a)))\<rparr>"
proof -
  obtain b a1 where l: "is_locked now u a = (b, a1)" by (cases "is_locked now u a")
  have b: "b \<longleftrightarrow> length (recent_failures now (failures_of a u)) \<ge> MAX_FAILED_ATTEMPTS"
    using l by (auto simp: is_locked_def Let_def)
  show thesis
  proof (cases b)
    case True
    show thesis by (rule locked) (use assms l b True in \<open>auto simp: authenticate_def\<close>)
  next
    case False
    show thesis
    proof (cases "map_of (au_users a1) u")
      case None
      show thesis by (rule failed) (use assms l b False None in \<open>auto simp: authenticate_def\<close>)
    next
      case (Some user)
      show thesis
      proof (cases "verify_password kdf p (lu_password_hash user)")
        case (Inl e)
        show thesis by (rule crashed) (use assms l False Some Inl in \<open>auto simp: authenticate_def\<close>)
      next
        case (Inr c)
        show thesis
        proof (cases c)
          case True
          show thesis
            by (rule accepted) (use assms l False Some Inr True in \<open>auto simp: authenticate_def\<close>)
        next
          case wrong: False
          show thesis
            by (rule failed) (use assms l b False Some Inr wrong in \<open>auto simp: authenticate_def\<close>)
        qed
      qed
    qed
  qed
qed

lemma failures_after_pop:
  "failures_of (a\<lparr>au_failures := dpop u (au_failures a)\<rparr>) v = (if v = u then [] else failures_of a v)"
  by (simp add: failures_of_def)

lemma other_user:
  assumes "authenticate kdf now now2 u p a = (r, a')" and "v \<noteq> u"
  shows "failures_of a' v = failures_of a v"
  using assms(1)
  by (cases rule: authenticate_cases)
     (use assms(2) in \<open>simp_all add: failures_after_lock_check failures_after_record failures_after_pop\<close>)

section \<open>Guessing is bounded\<close>

lemma window_snoc:
  assumes "length (in_window T F) \<le> MAX_FAILED_ATTEMPTS"
    and "length (recent_failures now F) < MAX_FAILED_ATTEMPTS" and "now \<le> t"
  shows "length (in_window T (F @ [t])) \<le> MAX_FAILED_ATTEMPTS"
proof (cases "T \<le> t \<and> t < T + LOCKOUT_SECONDS")
  case True
  have "length (in_window T F) \<le> length (recent_failures now F)"
  proof -
    have "in_window T F = filter (\<lambda>x. T \<le> x \<and> x < T + LOCKOUT_SECONDS) (recent_failures now F)"
      using True assms(3) by (auto simp: in_window_def recent_failures_def intro!: filter_cong)
    then show ?thesis by (simp add: length_filter_le)
  qed
  then show ?thesis using assms(2) True by (simp add: in_window_def)
next
  case False
  then show ?thesis using assms(1) by (auto simp: in_window_def)
qed

lemma guesses_bounded_gen:
  assumes "clock_from L xs"
    and "\<And>now. L \<le> now \<Longrightarrow> recent_failures now (failures_of a u) = recent_failures now F"
    and "\<And>T. length (in_window T F) \<le> MAX_FAILED_ATTEMPTS"
    and "list_all (\<lambda>(v, _, r). v = u \<longrightarrow> isl r) (fst (attempts_run kdf xs a))"
  shows "length (in_window T (F @ failed_guesses u (fst (attempts_run kdf xs a)))) \<le> MAX_FAILED_ATTEMPTS"
  using assms
proof (induction xs arbitrary: a F L T)
  case Nil
  then show ?case by (simp add: failed_guesses_def)
next
  case (Cons x xs)
  obtain now now2 v p where x: "x = (now, now2, v, p)" by (cases x)
  obtain r a1 where A: "authenticate kdf now now2 v p a = (r, a1)"
    by (cases "authenticate kdf now now2 v p a")
  obtain lg a2 where R: "attempts_run kdf xs a1 = (lg, a2)" by (cases "attempts_run kdf xs a1")
  have run: "attempts_run kdf (x # xs) a = ((v, now2, r) # lg, a2)"
    by (simp add: x A R)
  have clock: "L \<le> now" "now \<le> now2" "clock_from now2 xs" using Cons.prems(1) x by simp_all
  have succ: "v = u \<longrightarrow> isl r" "list_all (\<lambda>(v, _, r). v = u \<longrightarrow> isl r) (fst (attempts_run kdf xs a1))"
    using Cons.prems(4) by (simp_all add: run R)
  have keep: "recent_failures m (failures_of a u) = recent_failures m F" if "now \<le> m" for m
    using Cons.prems(2) clock that by simp
  have same: ?case if "failed_guesses u [(v, now2, r)] = []"
    and "\<And>m. now2 \<le> m \<Longrightarrow> recent_failures m (failures_of a1 u) = recent_failures m F"
    using Cons.IH [OF clock(3) that(2) Cons.prems(3) succ(2)] that(1)
    by (auto simp: run R failed_guesses_def split: if_splits)
  show ?case
  proof (cases "v = u")
    case False
    then show ?thesis
      using same other_user [OF A, of u] keep clock by (auto simp: failed_guesses_def)
  next
    case True
    have pruned: "recent_failures m (failures_of (snd (is_locked now u a)) u) = recent_failures m F"
      if "now2 \<le> m" for m
      using that keep [of m] clock(2) by (simp add: failures_after_lock_check recent_recent)
    from A [unfolded True] show ?thesis
    proof (cases rule: authenticate_cases)
      case locked
      then show ?thesis using same pruned True by (auto simp: failed_guesses_def)
    next
      case crashed
      then show ?thesis using same pruned True by (auto simp: failed_guesses_def)
    next
      case accepted
      then show ?thesis using succ(1) True by simp
    next
      case failed
      have few: "length (recent_failures now F) < MAX_FAILED_ATTEMPTS"
        using failed(1) keep [of now] by simp
      have W: "\<And>T. length (in_window T (F @ [now2])) \<le> MAX_FAILED_ATTEMPTS"
        using window_snoc [OF Cons.prems(3) few clock(2)] .
      have K: "recent_failures m (failures_of a1 u) = recent_failures m (F @ [now2])" if "now2 \<le> m" for m
        using that pruned [of m]
        by (simp add: failed(3) failures_after_record recent_append recent_recent)
      have "failed_guesses u (fst (attempts_run kdf (x # xs) a)) =
          now2 # failed_guesses u (fst (attempts_run kdf xs a1))"
        using True failed(2) by (simp add: run R failed_guesses_def)
      then show ?thesis using Cons.IH [OF clock(3) K W succ(2)] by simp
    qed
  qed
qed

text \<open>C23: Online guessing is bounded: from a fresh authenticator and under a monotonic clock, an
  account nobody has logged in to gets at most five password comparisons that fail in any
  window of 300 seconds, whatever sequence of attempts is made on it and on other accounts.\<close>

theorem guessing_is_bounded:
  assumes "clock_from t0 xs" and "au_failures a = []"
    and "list_all (\<lambda>(v, _, r). v = u \<longrightarrow> isl r) (fst (attempts_run kdf xs a))"
  shows "length (in_window T (failed_guesses u (fst (attempts_run kdf xs a)))) \<le> MAX_FAILED_ATTEMPTS"
  using guesses_bounded_gen [OF assms(1) _ _ assms(3), of "[]"] assms(2)
  by (simp add: failures_of_def in_window_def)

definition demo_users :: authenticator where
  "demo_users = \<lparr>au_users = [(''ops'', \<lparr>lu_username = ''ops'', lu_password_hash = ''x'',
     lu_roles = [''admin''], lu_must_change_password = False\<rparr>)], au_failures = []\<rparr>"

definition demo_guesses :: "attempt list" where
  "demo_guesses = map (\<lambda>t. (t, t, ''ops'', ''guess'')) [1, 2, 3, 4, 5, 6, 7]"

lemma demo_guesses_log:
  "fst (attempts_run (\<lambda>_ _ _. []) demo_guesses demo_users) =
     map (\<lambda>t. (''ops'', t, Inl InvalidCredentials)) [1, 2, 3, 4, 5] @
     map (\<lambda>t. (''ops'', t, Inl (AccountLocked (301 - t)))) [6, 7]"
  by (simp add: demo_guesses_def demo_users_def authenticate_def is_locked_def record_failure_def
      failures_of_def recent_failures_def LOCKOUT_SECONDS_def MAX_FAILED_ATTEMPTS_def Let_def
      verify_password_def parse_hash_def seconds_until_unlock_def)

theorem guessing_is_bounded_witness:
  "let lg = fst (attempts_run (\<lambda>_ _ _. []) demo_guesses demo_users)
   in length (failed_guesses ''ops'' lg) = 5 \<and>
      length (in_window 1 (failed_guesses ''ops'' lg)) \<le> MAX_FAILED_ATTEMPTS"
proof -
  have c: "clock_from 0 demo_guesses" by (simp add: demo_guesses_def)
  have e: "au_failures demo_users = []" by (simp add: demo_users_def)
  have n: "list_all (\<lambda>(v, _, r). v = ''ops'' \<longrightarrow> isl r) (fst (attempts_run (\<lambda>_ _ _. []) demo_guesses demo_users))"
    unfolding demo_guesses_log by simp
  show ?thesis using guessing_is_bounded [OF c e n, of 1]
    by (simp add: demo_guesses_log failed_guesses_def)
qed

section \<open>The refusal names the true waiting time\<close>

text \<open>At most five failures are kept of an account, oldest first, none in the future.\<close>

definition failures_ok :: "rat \<Rightarrow> authenticator \<Rightarrow> bool" where
  "failures_ok L a \<longleftrightarrow> (\<forall>u. length (failures_of a u) \<le> MAX_FAILED_ATTEMPTS \<and>
     sorted (failures_of a u) \<and> (\<forall>t\<in>set (failures_of a u). t \<le> L))"

lemma recent_sub: "set (recent_failures now ts) \<subseteq> set ts"
  by (auto simp: recent_failures_def)

lemma failures_ok_prune:
  assumes "failures_ok L a" and "L \<le> L'"
  shows "failures_ok L' (snd (is_locked now u a))"
  using assms recent_sub [of now "failures_of a u"]
  by (fastforce simp: failures_ok_def failures_after_lock_check recent_failures_def
      intro: order_trans [OF length_filter_le] sorted_filter [where f = "\<lambda>x. x", simplified])

lemma failures_ok_step:
  assumes ok: "failures_ok L a" and c: "L \<le> now" "now \<le> now2"
    and A: "authenticate kdf now now2 u p a = (r, a')"
  shows "failures_ok now2 a'"
proof -
  have pr: "failures_ok now (snd (is_locked now u a))" "failures_ok now2 (snd (is_locked now u a))"
    using failures_ok_prune [OF ok] c by auto
  from A show ?thesis
  proof (cases rule: authenticate_cases)
    case failed
    let ?a1 = "snd (is_locked now u a)"
    have few: "length (recent_failures now2 (failures_of ?a1 u)) < MAX_FAILED_ATTEMPTS"
      using failed(1)
      by (simp add: failures_after_lock_check)
         (rule le_less_trans [OF _ failed(1)], simp add: recent_failures_def [of now2])
    have so: "sorted (recent_failures now2 (failures_of ?a1 u) @ [now2])"
      using pr(2) recent_sub [of now2 "failures_of ?a1 u"]
      by (auto simp: failures_ok_def sorted_append recent_failures_def
          intro: sorted_filter [where f = "\<lambda>x. x", simplified])
    show ?thesis
      unfolding failures_ok_def failed(3) failures_after_record
      using few so pr(2) recent_sub [of now2 "failures_of ?a1 u"] by (auto simp: failures_ok_def)
  next
    case (accepted user)
    then show ?thesis using pr(2) by (auto simp: failures_ok_def failures_after_pop)
  qed (use pr in auto)
qed

lemma failures_ok_run:
  assumes "failures_ok L a" and "clock_from L (xs @ ys)"
  shows "\<exists>L'. failures_ok L' (snd (attempts_run kdf xs a)) \<and> clock_from L' ys"
  using assms
proof (induction xs arbitrary: a L)
  case (Cons x xs)
  obtain now now2 v p where x: "x = (now, now2, v, p)" by (cases x)
  obtain r a1 where A: "authenticate kdf now now2 v p a = (r, a1)"
    by (cases "authenticate kdf now now2 v p a")
  have c: "L \<le> now" "now \<le> now2" "clock_from now2 (xs @ ys)" using Cons.prems(2) x by simp_all
  have "failures_ok now2 a1" using failures_ok_step [OF Cons.prems(1) c(1,2) A] .
  from Cons.IH [OF this c(3)] show ?case by (auto simp: x A split: prod.split)
qed auto

lemma locked_until:
  assumes ok: "failures_ok L a" and c: "L \<le> now" "now \<le> now2" "now2 \<le> t"
    and few: "length (recent_failures now (failures_of a u)) \<ge> MAX_FAILED_ATTEMPTS"
  defines "a1 \<equiv> snd (is_locked now u a)"
  shows "fst (is_locked t u a1) \<longleftrightarrow> t < now2 + seconds_until_unlock now2 u a1"
proof -
  let ?F = "failures_of a u"
  have "length ?F \<le> MAX_FAILED_ATTEMPTS" and so: "sorted ?F" using ok by (auto simp: failures_ok_def)
  then have len: "length ?F = MAX_FAILED_ATTEMPTS" and "length (recent_failures now ?F) = length ?F"
    using few length_filter_le [of "\<lambda>t. now - t < LOCKOUT_SECONDS" ?F]
    unfolding recent_failures_def by linarith+
  then have all: "recent_failures now ?F = ?F"
    unfolding recent_failures_def by (metis filter_True length_filter_conv_card length_filter_less less_irrefl)
  then have F: "failures_of a1 u = ?F" by (simp add: a1_def failures_after_lock_check)
  obtain f fs where f: "?F = f # fs" using len by (cases ?F) (auto simp: MAX_FAILED_ATTEMPTS_def)
  have "fst (is_locked t u a1) \<longleftrightarrow> length (recent_failures t ?F) = length ?F"
    using len length_filter_le [of "\<lambda>x. t - x < LOCKOUT_SECONDS" ?F]
    by (auto simp: is_locked_def F Let_def recent_failures_def)
  also have "\<dots> \<longleftrightarrow> (\<forall>x\<in>set ?F. t - x < LOCKOUT_SECONDS)"
    unfolding recent_failures_def by (metis filter_True length_filter_less less_irrefl)
  also have "\<dots> \<longleftrightarrow> t - f < LOCKOUT_SECONDS"
    using so by (force simp: f)
  also have "\<dots> \<longleftrightarrow> t < now2 + seconds_until_unlock now2 u a1"
    using c by (auto simp: seconds_until_unlock_def F f max_def)
  finally show ?thesis .
qed

text \<open>A lockout is honest: after any history of attempts, when a login is refused because the
  account is locked, the refusal does not depend on the password, and the account is locked at
  a later instant exactly while the waiting time named in the refusal has not passed, so that
  attempts during the lockout do not prolong it.\<close>

theorem lockout_time_is_true:
  assumes "clock_from t0 (xs @ [(now, now2, u, p)])" and "au_failures a = []"
    and "authenticate kdf now now2 u p (snd (attempts_run kdf xs a)) = (Inl (AccountLocked w), a')"
    and "now2 \<le> t"
  shows "(fst (is_locked t u a') \<longleftrightarrow> t < now2 + w) \<and>
         authenticate kdf now now2 u q (snd (attempts_run kdf xs a)) = (Inl (AccountLocked w), a')"
proof -
  let ?b = "snd (attempts_run kdf xs a)"
  have "failures_ok t0 a" using assms(2) by (simp add: failures_ok_def failures_of_def)
  then obtain L where L: "failures_ok L ?b" "L \<le> now" "now \<le> now2"
    using failures_ok_run [OF _ assms(1)] by auto
  from assms(3) show ?thesis
  proof (cases rule: authenticate_cases)
    case locked
    obtain b c where l: "is_locked now u ?b = (b, c)" by (cases "is_locked now u ?b")
    then have "b" "c = a'" using locked by (auto simp: is_locked_def Let_def)
    moreover have "(fst (is_locked t u a') \<longleftrightarrow> t < now2 + w)"
      using locked_until [OF L assms(4) locked(1)] locked by simp
    ultimately show ?thesis using locked l by (simp add: authenticate_def)
  qed auto
qed

lemma demo_lock:
  "authenticate (\<lambda>_ _ _. []) 6 7 ''ops'' ''guess'' (snd (attempts_run (\<lambda>_ _ _. []) (take 5 demo_guesses) demo_users))
     = (Inl (AccountLocked 294), snd (attempts_run (\<lambda>_ _ _. []) (take 5 demo_guesses) demo_users))"
  by (simp add: demo_guesses_def demo_users_def authenticate_def is_locked_def record_failure_def
      failures_of_def recent_failures_def LOCKOUT_SECONDS_def MAX_FAILED_ATTEMPTS_def Let_def
      verify_password_def parse_hash_def seconds_until_unlock_def)

theorem lockout_time_is_true_witness:
  "let a = snd (attempts_run (\<lambda>_ _ _. []) (take 5 demo_guesses) demo_users)
   in fst (is_locked 300 ''ops'' a) \<and> \<not> fst (is_locked 301 ''ops'' a)"
proof -
  have c: "clock_from 0 (take 5 demo_guesses @ [(6, 7, ''ops'', ''guess'')])" by (simp add: demo_guesses_def)
  have e: "au_failures demo_users = []" by (simp add: demo_users_def)
  show ?thesis
    using lockout_time_is_true [OF c e demo_lock, of 300] lockout_time_is_true [OF c e demo_lock, of 301]
    by (simp add: Let_def)
qed

end
