(* ===== verification/Sessions.thy ===== *)
theory Sessions
  imports Base64 Complex_Main
begin

text \<open>
  Signed session tokens, \<^verbatim>\<open>src/tms/core/sessions.py\<close>. The codec's signature is the parameter
  \<open>mac\<close> (HMAC-SHA256 under the shared secret) and its claims format the parameters \<open>dumps\<close> and
  \<open>loads\<close> (compact JSON in bytes and back); base64 is the model of theory \<open>Base64\<close>. Instants are
  seconds.
\<close>

record claims =
  cl_username :: string
  cl_roles :: "string list"
  cl_iat :: rat
  cl_seen :: rat
  cl_chg :: bool

record codec =
  mac :: "bytes \<Rightarrow> bytes"
  dumps :: "claims \<Rightarrow> bytes"
  loads :: "bytes \<Rightarrow> claims option"
  idle_timeout_seconds :: rat
  absolute_timeout_seconds :: rat

datatype session_exn =
    MalformedToken | SignatureMismatch | MalformedPayload | AbsoluteLifetime | IdleTimeout
  | SecretRequired

definition new_codec :: "string \<Rightarrow> (string \<Rightarrow> bytes \<Rightarrow> bytes) \<Rightarrow> (claims \<Rightarrow> bytes) \<Rightarrow>
    (bytes \<Rightarrow> claims option) \<Rightarrow> rat \<Rightarrow> rat \<Rightarrow> session_exn + codec" where
  "new_codec secret hmac_sha256 dmp lds idle absolute =
     (if secret = [] then Inl SecretRequired
      else Inr \<lparr>mac = hmac_sha256 secret, dumps = dmp, loads = lds,
                idle_timeout_seconds = idle, absolute_timeout_seconds = absolute\<rparr>)"

definition rstrip_eq :: "string \<Rightarrow> string" where
  "rstrip_eq s = rev (dropWhile (\<lambda>c. c = CHR ''='') (rev s))"

definition b64_encode :: "bytes \<Rightarrow> string" where
  "b64_encode raw = rstrip_eq (urlsafe_b64encode raw)"

definition b64_decode :: "string \<Rightarrow> bytes option" where
  "b64_decode text = urlsafe_b64decode (text @ b64_padding text)"

definition sign :: "codec \<Rightarrow> bytes \<Rightarrow> string" where
  "sign k payload = b64_encode (mac k payload)"

definition issue :: "codec \<Rightarrow> string \<Rightarrow> string list \<Rightarrow> rat \<Rightarrow> rat option \<Rightarrow> bool \<Rightarrow> string" where
  "issue k username roles now issued_at must_change =
     (let c = \<lparr>cl_username = username, cl_roles = roles,
               cl_iat = (case issued_at of Some t \<Rightarrow> t | None \<Rightarrow> now), cl_seen = now,
               cl_chg = must_change\<rparr>;
          payload = dumps k c
      in b64_encode payload @ ''.'' @ sign k payload)"

text \<open>\<open>token.rsplit(".", 1)\<close> on a token with a dot.\<close>

definition rsplit_dot :: "string \<Rightarrow> string \<times> string" where
  "rsplit_dot token =
     (rev (tl (dropWhile (\<lambda>c. c \<noteq> CHR ''.'') (rev token))),
      rev (takeWhile (\<lambda>c. c \<noteq> CHR ''.'') (rev token)))"

definition verify :: "codec \<Rightarrow> string \<Rightarrow> rat \<Rightarrow> session_exn + claims" where
  "verify k token now =
     (if token = [] \<or> CHR ''.'' \<notin> set token then Inl MalformedToken
      else case rsplit_dot token of (encoded_payload, signature) \<Rightarrow>
        (case b64_decode encoded_payload of
           None \<Rightarrow> Inl MalformedToken
         | Some payload \<Rightarrow>
             (if sign k payload \<noteq> signature then Inl SignatureMismatch
              else case loads k payload of
                     None \<Rightarrow> Inl MalformedPayload
                   | Some c \<Rightarrow>
                       (if now - cl_iat c > absolute_timeout_seconds k then Inl AbsoluteLifetime
                        else if now - cl_seen c > idle_timeout_seconds k then Inl IdleTimeout
                        else Inr c))))"

definition refresh :: "codec \<Rightarrow> claims \<Rightarrow> rat \<Rightarrow> string" where
  "refresh k c now = issue k (cl_username c) (cl_roles c) now (Some (cl_iat c)) (cl_chg c)"

section \<open>Tokens are read back\<close>

lemma rstrip_eq_body: "rstrip_eq (urlsafe_b64encode bs) = b64_body True bs"
proof -
  have r: "dropWhile (\<lambda>c. c = CHR ''='') (replicate n (CHR ''='') @ s) = dropWhile (\<lambda>c. c = CHR ''='') s" for n s
    by (induction n) auto
  have "dropWhile (\<lambda>c. c = CHR ''='') s = s" if "CHR ''='' \<notin> set s" for s
    using that by (cases s) auto
  from this [of "rev (b64_body True bs)"] show ?thesis
    using urlsafe_no_equals [of bs] by (simp add: rstrip_eq_def urlsafe_b64encode_def b64_padding_def r)
qed

lemma b64_decode_encode [simp]: "b64_decode (b64_encode bs) = Some bs"
  by (simp add: b64_decode_def b64_encode_def rstrip_eq_body urlsafe_decode_body)

lemma b64_encode_no_dot: "CHR ''.'' \<notin> set (b64_encode bs)"
  by (simp add: b64_encode_def rstrip_eq_body urlsafe_no_dot)

lemma rsplit_dot_token: "CHR ''.'' \<notin> set s \<Longrightarrow> rsplit_dot (p @ ''.'' @ s) = (p, s)"
proof -
  assume a: "CHR ''.'' \<notin> set s"
  have "takeWhile (\<lambda>c. c \<noteq> CHR ''.'') (rev s @ CHR ''.'' # rev p) = rev s"
    and "dropWhile (\<lambda>c. c \<noteq> CHR ''.'') (rev s @ CHR ''.'' # rev p) = CHR ''.'' # rev p"
    using a by (simp_all add: takeWhile_append dropWhile_append)
  then show ?thesis by (simp add: rsplit_dot_def)
qed

definition token_of :: "codec \<Rightarrow> claims \<Rightarrow> string" where
  "token_of k c = b64_encode (dumps k c) @ ''.'' @ sign k (dumps k c)"

text \<open>The named hypothesis on JSON: the claims of this session, as they are at each of its uses, are
  read back as they were written.\<close>

definition json_roundtrip :: "codec \<Rightarrow> claims \<Rightarrow> rat list \<Rightarrow> bool" where
  "json_roundtrip k c uses \<longleftrightarrow>
     list_all (\<lambda>t. loads k (dumps k (c\<lparr>cl_seen := t\<rparr>)) = Some (c\<lparr>cl_seen := t\<rparr>)) uses"

lemma verify_token_of:
  assumes "loads k (dumps k c) = Some c"
  shows "verify k (token_of k c) now =
    (if now - cl_iat c > absolute_timeout_seconds k then Inl AbsoluteLifetime
     else if now - cl_seen c > idle_timeout_seconds k then Inl IdleTimeout else Inr c)"
proof -
  have "rsplit_dot (token_of k c) = (b64_encode (dumps k c), sign k (dumps k c))"
    unfolding token_of_def by (rule rsplit_dot_token) (simp add: sign_def b64_encode_no_dot)
  then show ?thesis
    using assms by (simp add: verify_def) (simp add: token_of_def)
qed

lemma issue_token_of:
  "issue k u r now i chg = token_of k \<lparr>cl_username = u, cl_roles = r,
     cl_iat = (case i of Some t \<Rightarrow> t | None \<Rightarrow> now), cl_seen = now, cl_chg = chg\<rparr>"
  by (simp add: issue_def token_of_def Let_def)

lemma refresh_token_of: "refresh k c now = token_of k (c\<lparr>cl_seen := now\<rparr>)"
  by (cases c) (simp add: refresh_def issue_token_of)

text \<open>A session in use: at each instant the current token is verified and, when accepted,
  replaced by a refreshed one; the first refusal ends it.\<close>

fun use_session :: "codec \<Rightarrow> string \<Rightarrow> rat list \<Rightarrow> session_exn + string" where
  "use_session k token [] = Inr token"
| "use_session k token (now # uses) =
     (case verify k token now of
        Inl e \<Rightarrow> Inl e
      | Inr c \<Rightarrow> use_session k (refresh k c now) uses)"

lemma use_session_token:
  assumes "json_roundtrip k c (cl_seen c # uses)" and "use_session k (token_of k c) uses = Inr token"
  shows "token = token_of k (c\<lparr>cl_seen := last (cl_seen c # uses)\<rparr>)"
  using assms
proof (induction uses arbitrary: c)
  case (Cons now uses)
  have l: "loads k (dumps k c) = Some c"
    using Cons.prems(1) by (simp add: json_roundtrip_def)
  have v: "use_session k (token_of k (c\<lparr>cl_seen := now\<rparr>)) uses = Inr token"
    using Cons.prems(2) by (auto simp: verify_token_of [OF l] refresh_token_of split: if_splits)
  have "json_roundtrip k (c\<lparr>cl_seen := now\<rparr>) (cl_seen (c\<lparr>cl_seen := now\<rparr>) # uses)"
    using Cons.prems(1) by (simp add: json_roundtrip_def)
  from Cons.IH [OF this v] show ?case by simp
qed simp

text \<open>However a session is used and refreshed after a login at \<open>t0\<close>, the token in force still names
  the same user, roles and pending password change and carries the login time \<open>t0\<close>: it is
  accepted at \<open>now\<close> exactly while both deadlines hold, the absolute one counted from the login and
  the idle one from the last use, and refused as over its absolute lifetime from then on.\<close>

theorem session_deadlines:
  assumes "json_roundtrip k \<lparr>cl_username = user, cl_roles = roles, cl_iat = t0, cl_seen = t0, cl_chg = chg\<rparr>
       (t0 # uses)"
    and "use_session k (issue k user roles t0 None chg) uses = Inr token"
  shows "verify k token now =
    (if now - t0 > absolute_timeout_seconds k then Inl AbsoluteLifetime
     else if now - last (t0 # uses) > idle_timeout_seconds k then Inl IdleTimeout
     else Inr \<lparr>cl_username = user, cl_roles = roles, cl_iat = t0, cl_seen = last (t0 # uses),
               cl_chg = chg\<rparr>)"
proof -
  let ?c = "\<lparr>cl_username = user, cl_roles = roles, cl_iat = t0, cl_seen = t0, cl_chg = chg\<rparr>"
  have "last (t0 # uses) \<in> set (t0 # uses)" by (rule last_in_set) simp
  then have l: "loads k (dumps k (?c\<lparr>cl_seen := last (t0 # uses)\<rparr>)) = Some (?c\<lparr>cl_seen := last (t0 # uses)\<rparr>)"
    using assms(1) unfolding json_roundtrip_def list_all_iff by blast
  have "token = token_of k (?c\<lparr>cl_seen := last (t0 # uses)\<rparr>)"
    using use_session_token [of k ?c uses token] assms by (simp add: issue_token_of)
  then show ?thesis using verify_token_of [OF l] by simp
qed

definition demo_session_codec :: codec where
  "demo_session_codec = \<lparr>mac = (\<lambda>p. rev p @ [1]), dumps = (\<lambda>c. if cl_seen c = 0 then [0] else [1]),
     loads = (\<lambda>p. Some \<lparr>cl_username = ''ops'', cl_roles = [''viewer''], cl_iat = 0,
        cl_seen = (if p = [0] then 0 else 1500), cl_chg = False\<rparr>),
     idle_timeout_seconds = 1800, absolute_timeout_seconds = 3000\<rparr>"

theorem session_deadlines_witness:
  "\<exists>token. use_session demo_session_codec (issue demo_session_codec ''ops'' [''viewer''] 0 None False) [1500]
       = Inr token \<and>
     isl (verify demo_session_codec token 2900) = False \<and>
     verify demo_session_codec token 3001 = Inl AbsoluteLifetime"
proof -
  let ?k = demo_session_codec
  let ?c = "\<lparr>cl_username = ''ops'', cl_roles = [''viewer''], cl_iat = 0, cl_seen = 0, cl_chg = False\<rparr>"
  have j: "json_roundtrip ?k ?c [0, 1500]"
    by (simp add: json_roundtrip_def demo_session_codec_def)
  then have l: "loads ?k (dumps ?k ?c) = Some ?c" by (simp add: json_roundtrip_def)
  have t: "use_session ?k (issue ?k ''ops'' [''viewer''] 0 None False) [1500] = Inr (token_of ?k (?c\<lparr>cl_seen := 1500\<rparr>))"
    using verify_token_of [OF l, of 1500] by (simp add: issue_token_of refresh_token_of)
       (simp add: demo_session_codec_def)
  show ?thesis
    using session_deadlines [OF j t, of 2900] session_deadlines [OF j t, of 3001] t
    by (auto simp: demo_session_codec_def)
qed

text \<open>A token is accepted only with a valid signature: if verification succeeds, the part after the
  last dot is the encoded MAC of exactly the bytes the claims were read from; whoever cannot
  compute the MAC of a payload cannot have it accepted.\<close>

theorem accepted_token_is_signed:
  assumes "verify k token now = Inr c"
  shows "\<exists>enc payload. token = enc @ ''.'' @ b64_encode (mac k payload) \<and>
           b64_decode enc = Some payload \<and> loads k payload = Some c \<and>
           now - cl_iat c \<le> absolute_timeout_seconds k \<and> now - cl_seen c \<le> idle_timeout_seconds k"
proof -
  obtain enc sg where sp: "rsplit_dot token = (enc, sg)" by (cases "rsplit_dot token")
  have dot: "CHR ''.'' \<in> set token" using assms by (auto simp: verify_def split: if_splits)
  obtain payload where p: "b64_decode enc = Some payload" "sign k payload = sg" "loads k payload = Some c"
    and t: "now - cl_iat c \<le> absolute_timeout_seconds k" "now - cl_seen c \<le> idle_timeout_seconds k"
    using assms by (auto simp: verify_def sp split: if_splits option.splits)
  let ?d = "dropWhile (\<lambda>c. c \<noteq> CHR ''.'') (rev token)"
  have "?d \<noteq> []" "hd ?d = CHR ''.''"
    using dot by (auto simp: dropWhile_eq_Nil_conv intro: hd_dropWhile [where P = "\<lambda>c. c \<noteq> CHR ''.''", simplified])
  then have d: "?d = CHR ''.'' # tl ?d" by (metis list.collapse)
  have "rev token = takeWhile (\<lambda>c. c \<noteq> CHR ''.'') (rev token) @ CHR ''.'' # tl ?d"
    using takeWhile_dropWhile_id [of "\<lambda>c. c \<noteq> CHR ''.''" "rev token"] d by simp
  then have "token = rev (tl ?d) @ ''.'' @ rev (takeWhile (\<lambda>c. c \<noteq> CHR ''.'') (rev token))"
    by (metis append.assoc append_Cons append_Nil rev.simps(2) rev_append rev_rev_ident)
  then have "token = enc @ ''.'' @ sg" using sp by (simp add: rsplit_dot_def)
  then show ?thesis using p t by (auto simp: sign_def)
qed

text \<open>A codec over one user's claims, to run the properties on.\<close>

definition demo_codec :: codec where
  "demo_codec = \<lparr>mac = (\<lambda>p. rev p @ [1]), dumps = (\<lambda>c. [of_nat (length (cl_username c))]),
     loads = (\<lambda>p. if p = [3] then Some \<lparr>cl_username = ''ops'', cl_roles = [''viewer''], cl_iat = 10,
        cl_seen = 20, cl_chg = False\<rparr> else None),
     idle_timeout_seconds = 1800, absolute_timeout_seconds = 43200\<rparr>"

lemma demo_verify:
  "verify demo_codec (b64_encode [3] @ ''.'' @ b64_encode [3, 1]) 100 =
     Inr \<lparr>cl_username = ''ops'', cl_roles = [''viewer''], cl_iat = 10, cl_seen = 20, cl_chg = False\<rparr>"
proof -
  have "rsplit_dot (b64_encode [3] @ ''.'' @ b64_encode [3, 1]) = (b64_encode [3], b64_encode [3, 1])"
    by (rule rsplit_dot_token) (rule b64_encode_no_dot)
  then show ?thesis by (simp add: verify_def demo_codec_def sign_def)
qed

theorem accepted_token_is_signed_witness:
  "\<exists>enc payload. b64_encode [3] @ ''.'' @ b64_encode [3, 1] = enc @ ''.'' @ b64_encode (mac demo_codec payload) \<and>
     b64_decode enc = Some payload"
  using accepted_token_is_signed [OF demo_verify] by blast

end
