(* ===== verification/Json.thy ===== *)
theory Json
  imports PyText Complex_Main
begin

text \<open>
  Values read from JSON as the program handles them: truth of a value, dictionary access, numbers.
  Python keeps integers and floats apart and a bool is an integer to \<open>isinstance\<close>; numbers here are
  rationals, so results of float arithmetic are the exact values before rounding.
\<close>

datatype json =
    JNull
  | JBool bool
  | JNum rat
  | JStr string
  | JList "json list"
  | JObj "(string \<times> json) list"

fun truthy :: "json \<Rightarrow> bool" where
  "truthy JNull = False"
| "truthy (JBool b) = b"
| "truthy (JNum n) = (n \<noteq> 0)"
| "truthy (JStr s) = (s \<noteq> [])"
| "truthy (JList xs) = (xs \<noteq> [])"
| "truthy (JObj fs) = (fs \<noteq> [])"

text \<open>\<open>isinstance(x, dict)\<close> and \<open>x.get(k)\<close> on a dictionary: a missing key reads as None.\<close>

fun fields_of :: "json \<Rightarrow> (string \<times> json) list option" where
  "fields_of (JObj fs) = Some fs"
| "fields_of _ = None"

definition dget :: "string \<Rightarrow> (string \<times> json) list \<Rightarrow> json" where
  "dget k fs = (case map_of fs k of None \<Rightarrow> JNull | Some v \<Rightarrow> v)"

definition is_text :: "json \<Rightarrow> bool" where
  "is_text j \<longleftrightarrow> (case j of JStr s \<Rightarrow> True | _ \<Rightarrow> False)"

text \<open>\<open>isinstance(x, (int, float))\<close>: a bool passes.\<close>

fun num_or_bool :: "json \<Rightarrow> rat option" where
  "num_or_bool (JNum n) = Some n"
| "num_or_bool (JBool b) = Some (if b then 1 else 0)"
| "num_or_bool _ = None"

text \<open>A number that is not a bool.\<close>

fun number_only :: "json \<Rightarrow> rat option" where
  "number_only (JNum n) = Some n"
| "number_only _ = None"

text \<open>\<open>int(x)\<close> of a float truncates towards zero.\<close>

definition py_trunc :: "rat \<Rightarrow> int" where
  "py_trunc x = (if x \<ge> 0 then \<lfloor>x\<rfloor> else \<lceil>x\<rceil>)"

lemma py_trunc_int [simp]: "py_trunc (of_int n) = n"
  by (simp add: py_trunc_def)

text \<open>\<open>round(x, 1)\<close>: to the nearest tenth, a tie to the even one.\<close>

definition round_tenth :: "rat \<Rightarrow> rat" where
  "round_tenth x =
     (let y = 10 * x; f = \<lfloor>y\<rfloor>; d = y - of_int f
      in of_int (if d < 1/2 \<or> d = 1/2 \<and> even f then f else f + 1) / 10)"

text \<open>\<open>str(x)\<close>: a string is itself; the rendering of other values is the argument \<open>shown\<close>.\<close>

definition str_of :: "(json \<Rightarrow> string) \<Rightarrow> json \<Rightarrow> string" where
  "str_of shown j = (case j of JStr s \<Rightarrow> s | _ \<Rightarrow> shown j)"

text \<open>Exceptions of the interpreter, \<open>int(x)\<close>, \<open>d.get(k, fallback)\<close>, and \<open>(x or {})\<close> where a
  dictionary is needed.\<close>

datatype py_exn = ValueError | TypeError | AttributeError

definition to_int :: "json \<Rightarrow> py_exn + int" where
  "to_int j =
     (case j of JNum n \<Rightarrow> Inr (py_trunc n)
      | JBool b \<Rightarrow> Inr (if b then 1 else 0)
      | JStr s \<Rightarrow> (case py_int s of None \<Rightarrow> Inl ValueError | Some n \<Rightarrow> Inr n)
      | _ \<Rightarrow> Inl TypeError)"

definition get_or :: "string \<Rightarrow> json \<Rightarrow> (string \<times> json) list \<Rightarrow> json" where
  "get_or k d fs = (case map_of fs k of None \<Rightarrow> d | Some v \<Rightarrow> v)"

definition or_dict :: "json \<Rightarrow> py_exn + (string \<times> json) list" where
  "or_dict j =
     (if \<not> truthy j then Inr []
      else case fields_of j of None \<Rightarrow> Inl AttributeError | Some fs \<Rightarrow> Inr fs)"

fun map_exn :: "('a \<Rightarrow> 'e + 'b) \<Rightarrow> 'a list \<Rightarrow> 'e + 'b list" where
  "map_exn f [] = Inr []"
| "map_exn f (x # xs) =
     (case f x of Inl e \<Rightarrow> Inl e
      | Inr y \<Rightarrow> (case map_exn f xs of Inl e \<Rightarrow> Inl e | Inr ys \<Rightarrow> Inr (y # ys)))"

text \<open>What follows a step that may raise.\<close>

fun then_view :: "'e + 'a \<Rightarrow> ('a \<Rightarrow> 'e + 'b) \<Rightarrow> 'e + 'b" where
  "then_view (Inl e) k = Inl e"
| "then_view (Inr x) k = k x"

lemma then_view_Inr: "then_view x k = Inr y \<longleftrightarrow> (\<exists>z. x = Inr z \<and> k z = Inr y)"
  by (cases x) auto

lemma map_sum_Inr: "map_sum g h x = Inr y \<longleftrightarrow> (\<exists>z. x = Inr z \<and> y = h z)"
  by (cases x) auto

end
