(* ===== verification/Snapshots.thy ===== *)
theory Snapshots
  imports Json
begin

text \<open>
  Snapshots and the collector's store, \<^verbatim>\<open>src/tms/collector/snapshot.py\<close>
  (\<open>InMemorySnapshotRepository\<close>). Instants are rational seconds.
\<close>

definition KIND_QUERIES :: string where "KIND_QUERIES = ''queries''"
definition KIND_JMX :: string where "KIND_JMX = ''jmx''"
definition KIND_INFO :: string where "KIND_INFO = ''info''"
definition KIND_HEALTH :: string where "KIND_HEALTH = ''health''"
definition KIND_GATEWAY :: string where "KIND_GATEWAY = ''gateway''"
definition GATEWAY_SCOPE :: string where "GATEWAY_SCOPE = ''*''"

definition ALLOWED_KINDS :: "string list" where
  "ALLOWED_KINDS = [KIND_QUERIES, KIND_JMX, KIND_INFO, KIND_HEALTH, ''resource_groups'', KIND_GATEWAY,
     ''fleet'', ''config'']"

record snapshot =
  sn_cluster :: string
  sn_kind :: string
  sn_collected_at :: rat
  sn_payload :: json
  sn_error :: "string option"
  sn_advice :: "string option"

definition trustworthy :: "snapshot \<Rightarrow> bool" where
  "trustworthy s \<longleftrightarrow> sn_error s = None"

definition is_stale :: "snapshot \<Rightarrow> rat \<Rightarrow> rat \<Rightarrow> bool" where
  "is_stale s now threshold_seconds \<longleftrightarrow> now - sn_collected_at s > threshold_seconds"

section \<open>The store\<close>

record override =
  ov_enabled :: "bool option"
  ov_thresholds :: "(string \<times> rat) list option"
  ov_updated_by :: "string option"

record 'e snapshot_repo =
  snapshots :: "(string \<times> snapshot) list"
  health_events :: "'e list"
  overrides :: "(string \<times> (string \<times> override) list) list"

definition snapshot_key :: "string \<Rightarrow> string \<Rightarrow> string" where
  "snapshot_key c kind = c @ ''::'' @ kind"

definition save_snapshot :: "snapshot \<Rightarrow> 'e snapshot_repo \<Rightarrow> 'e snapshot_repo" where
  "save_snapshot s r =
     r\<lparr>snapshots := dset (snapshot_key (sn_cluster s) (sn_kind s)) s (snapshots r)\<rparr>"

definition load_snapshot :: "string \<Rightarrow> string \<Rightarrow> 'e snapshot_repo \<Rightarrow> snapshot option" where
  "load_snapshot c kind r = map_of (snapshots r) (snapshot_key c kind)"

definition record_health_events :: "'e list \<Rightarrow> 'e snapshot_repo \<Rightarrow> 'e snapshot_repo" where
  "record_health_events evs r = r\<lparr>health_events := health_events r @ evs\<rparr>"

definition no_override :: override where
  "no_override = \<lparr>ov_enabled = None, ov_thresholds = None, ov_updated_by = None\<rparr>"

definition overrides_of :: "'e snapshot_repo \<Rightarrow> string \<Rightarrow> (string \<times> override) list" where
  "overrides_of r c = (case map_of (overrides r) c of None \<Rightarrow> [] | Some os \<Rightarrow> os)"

definition save_health_override ::
    "string \<Rightarrow> string \<Rightarrow> bool option \<Rightarrow> (string \<times> rat) list option \<Rightarrow> string \<Rightarrow>
       'e snapshot_repo \<Rightarrow> 'e snapshot_repo" where
  "save_health_override c test_id enabled thresholds updated_by r =
     (let os = overrides_of r c;
          entry = (case map_of os test_id of None \<Rightarrow> no_override | Some e \<Rightarrow> e);
          e1 = (if enabled \<noteq> None then entry\<lparr>ov_enabled := enabled\<rparr> else entry);
          e2 = (if thresholds \<noteq> None \<and> thresholds \<noteq> Some [] then e1\<lparr>ov_thresholds := thresholds\<rparr> else e1)
      in r\<lparr>overrides := dset c (dset test_id (e2\<lparr>ov_updated_by := Some updated_by\<rparr>) os) (overrides r)\<rparr>)"

definition list_health_events :: "('e \<Rightarrow> string) \<Rightarrow> string \<Rightarrow> nat \<Rightarrow> 'e snapshot_repo \<Rightarrow> 'e list" where
  "list_health_events cluster_of c limit r =
     take limit (rev (filter (\<lambda>e. cluster_of e = c) (health_events r)))"

lemma load_after_save:
  "load_snapshot (sn_cluster s) (sn_kind s) (save_snapshot s r) = Some s"
  by (simp add: load_snapshot_def save_snapshot_def)

end
