(* ===== verification/HealthTests.thy ===== *)
theory HealthTests
  imports Snapshots
begin

text \<open>
  The health states and the catalogue of tests H-01 to H-09, \<^verbatim>\<open>src/tms/health/states.py\<close> and
  \<^verbatim>\<open>src/tms/health/tests.py\<close>. A test that raises has no result (None). The sentences of the
  catalogue are constructors that carry the values formatted in; the advice a snapshot brings is
  kept as the text it is.
\<close>

section \<open>States\<close>

datatype health_state = GOOD | CONCERNING | BAD | HUNKNOWN

fun severity :: "health_state \<Rightarrow> nat" where
  "severity GOOD = 0"
| "severity HUNKNOWN = 1"
| "severity CONCERNING = 2"
| "severity BAD = 3"

definition worst :: "health_state list \<Rightarrow> health_state" where
  "worst states = (case states of [] \<Rightarrow> HUNKNOWN | s # ss \<Rightarrow> max_by severity s ss)"

definition requires_advice :: "health_state \<Rightarrow> bool" where
  "requires_advice s \<longleftrightarrow> s = BAD \<or> s = CONCERNING"

definition is_worse :: "health_state \<Rightarrow> health_state option \<Rightarrow> bool" where
  "is_worse new old = (case old of None \<Rightarrow> new \<noteq> GOOD | Some o' \<Rightarrow> severity new > severity o')"

lemma severity_inj: "severity s = severity t \<longleftrightarrow> s = t"
  by (cases s; cases t) simp_all

section \<open>Results\<close>

datatype sentence =
    NoDataYet | CoordinatorDown | NoInfo | NoStartingField | StillStarting | JmxUnavailable
  | WorkersMissing int int int int int     \<comment> \<open>active, expected, unplanned, capacity, planned\<close>
  | NoHeapNumbers | NoHeapMaximum | HeapHigh rat
  | NoTraffic | FailuresHigh rat | InternalErrors int | OomKills int
  | NoBackendList | NotRegistered | Deactivated
  | NoQuerySnapshot | QueryListUntrusted
  | TestRaised | StaleData | NoRemedy

datatype advice = NoAdvice | Said sentence | FromSnapshot string

datatype observed =
    ObsNone | ObsText string | ObsNum rat
  | ObsWorkers int int int int             \<comment> \<open>active, expected, planned out, unplanned missing\<close>
  | ObsOom int "int option"                \<comment> \<open>total, delta\<close>

record health_result =
  hr_test :: string
  hr_state :: health_state
  hr_observed :: observed
  hr_threshold :: "rat option"
  hr_advice :: advice

record health_context =
  cx_cluster :: string
  cx_expected_workers :: int
  cx_thresholds :: "(string \<times> rat option) list"    \<comment> \<open>None: not a number\<close>
  cx_info :: "snapshot option"
  cx_jmx :: "snapshot option"
  cx_queries :: "snapshot option"
  cx_coordinator_counted :: bool
  cx_gateway_backends :: "json list option"
  cx_previous_oom :: "int option"

definition threshold :: "health_context \<Rightarrow> string \<Rightarrow> rat \<Rightarrow> rat" where
  "threshold cx key dflt =
     (case map_of (cx_thresholds cx) key of Some (Some v) \<Rightarrow> v | _ \<Rightarrow> dflt)"

definition mbean :: "health_context \<Rightarrow> string \<Rightarrow> (string \<times> json) list option" where
  "mbean cx name =
     (case cx_jmx cx of
        None \<Rightarrow> None
      | Some s \<Rightarrow>
          (case fields_of (sn_payload s) of
             None \<Rightarrow> None
           | Some fs \<Rightarrow>
               (case fields_of (dget ''mbeans'' fs) of
                  None \<Rightarrow> None
                | Some ms \<Rightarrow> fields_of (dget name ms))))"

definition attribute :: "health_context \<Rightarrow> string \<Rightarrow> string \<Rightarrow> json" where
  "attribute cx name attr = (case mbean cx name of None \<Rightarrow> JNull | Some fs \<Rightarrow> dget attr fs)"

definition number :: "health_context \<Rightarrow> string \<Rightarrow> string \<Rightarrow> rat option" where
  "number cx name attr = number_only (attribute cx name attr)"

definition QUERY_MANAGER_MBEAN :: string where "QUERY_MANAGER_MBEAN = ''trino.execution:name=QueryManager''"
definition MEMORY_MBEAN :: string where "MEMORY_MBEAN = ''java.lang:type=Memory''"
definition CLUSTER_MEMORY_MBEAN :: string where
  "CLUSTER_MEMORY_MBEAN = ''trino.memory:name=ClusterMemoryManager''"
definition NODE_MANAGER_MBEAN :: string where
  "NODE_MANAGER_MBEAN = ''trino.node:name=CoordinatorNodeManager''"

definition result :: "string \<Rightarrow> health_state \<Rightarrow> observed \<Rightarrow> rat option \<Rightarrow> advice \<Rightarrow> health_result" where
  "result t s obs th adv = \<lparr>hr_test = t, hr_state = s, hr_observed = obs, hr_threshold = th, hr_advice = adv\<rparr>"

definition unknown :: "string \<Rightarrow> advice \<Rightarrow> health_result" where
  "unknown t why = result t HUNKNOWN ObsNone None why"

text \<open>\<open>advice or "..."\<close>\<close>

definition advice_or :: "string option \<Rightarrow> sentence \<Rightarrow> advice" where
  "advice_or a s = (case a of None \<Rightarrow> Said s | Some t \<Rightarrow> if t = [] then Said s else FromSnapshot t)"

definition jmx_unavailable :: "string \<Rightarrow> health_context \<Rightarrow> health_result" where
  "jmx_unavailable t cx =
     unknown t (advice_or (case cx_jmx cx of None \<Rightarrow> None | Some s \<Rightarrow> sn_advice s) JmxUnavailable)"

text \<open>The comparison every graded test makes.\<close>

definition grade :: "rat \<Rightarrow> rat \<Rightarrow> rat \<Rightarrow> health_state" where
  "grade v concerning bad = (if v \<ge> bad then BAD else if v \<ge> concerning then CONCERNING else GOOD)"

definition graded :: "string \<Rightarrow> rat \<Rightarrow> rat \<Rightarrow> rat \<Rightarrow> observed \<Rightarrow> sentence \<Rightarrow> health_result" where
  "graded t v concerning bad obs s =
     (let st = grade v concerning bad
      in result t st obs (Some bad) (if st \<noteq> GOOD then Said s else NoAdvice))"

section \<open>The tests\<close>

definition h01 :: "health_context \<Rightarrow> health_result option" where
  "h01 cx =
     (case cx_info cx of
        None \<Rightarrow> Some (unknown ''H-01'' (Said NoDataYet))
      | Some s \<Rightarrow>
          (if \<not> trustworthy s
           then Some (result ''H-01'' BAD (ObsText ''unreachable'') None (advice_or (sn_advice s) CoordinatorDown))
           else Some (result ''H-01'' GOOD (ObsText ''responsive'') None NoAdvice)))"

text \<open>\<open>(payload or {}).get("info")\<close> raises when the payload is a true value that is no dictionary.\<close>

definition h02 :: "health_context \<Rightarrow> health_result option" where
  "h02 cx =
     (case cx_info cx of
        None \<Rightarrow> Some (unknown ''H-02'' (Said NoInfo))
      | Some s \<Rightarrow>
          (if \<not> trustworthy s then Some (unknown ''H-02'' (Said NoInfo))
           else
             (case (if truthy (sn_payload s) then fields_of (sn_payload s) else Some []) of
                None \<Rightarrow> None
              | Some fs \<Rightarrow>
                  (case fields_of (dget ''info'' fs) of
                     None \<Rightarrow> Some (unknown ''H-02'' (Said NoStartingField))
                   | Some info \<Rightarrow>
                       (if map_of info ''starting'' = None
                        then Some (unknown ''H-02'' (Said NoStartingField))
                        else if truthy (dget ''starting'' info)
                        then Some (result ''H-02'' CONCERNING (ObsText ''starting'') None (Said StillStarting))
                        else Some (result ''H-02'' GOOD (ObsText ''started'') None NoAdvice))))))"

definition planned_out :: "health_context \<Rightarrow> int" where
  "planned_out cx =
     (\<Sum>attr\<leftarrow>[''DrainingNodeCount'', ''DrainedNodeCount'', ''ShuttingDownNodeCount''].
        case number cx NODE_MANAGER_MBEAN attr of None \<Rightarrow> 0 | Some v \<Rightarrow> py_trunc v)"

definition h03 :: "health_context \<Rightarrow> health_result option" where
  "h03 cx =
     (case number cx NODE_MANAGER_MBEAN ''ActiveNodeCount'' of
        None \<Rightarrow> Some (jmx_unavailable ''H-03'' cx)
      | Some active \<Rightarrow>
          (let active_workers = py_trunc active - (if cx_coordinator_counted cx then 1 else 0);
               planned = planned_out cx;
               expected = cx_expected_workers cx;
               unplanned = max 0 (expected - active_workers - planned);
               bad_pct = threshold cx ''missing_workers_pct_bad'' 20;
               bad_threshold = max 1 (py_trunc (of_int expected * bad_pct / 100));
               obs = ObsWorkers active_workers expected planned unplanned
           in if unplanned = 0
              then Some (result ''H-03'' GOOD obs (Some (of_int expected)) NoAdvice)
              else
                (let capacity_pct = (if expected \<noteq> 0
                       then py_trunc (of_int (100 * active_workers) / of_int expected) else 0)
                 in Some (result ''H-03'' (if unplanned \<ge> bad_threshold then BAD else CONCERNING) obs
                      (Some (of_int expected))
                      (Said (WorkersMissing active_workers expected unplanned capacity_pct planned))))))"

definition h04 :: "health_context \<Rightarrow> health_result option" where
  "h04 cx =
     (case fields_of (attribute cx MEMORY_MBEAN ''HeapMemoryUsage'') of
        None \<Rightarrow> Some (jmx_unavailable ''H-04'' cx)
      | Some usage \<Rightarrow>
          (case (num_or_bool (dget ''used'' usage), num_or_bool (dget ''max'' usage)) of
             (Some used, Some maximum) \<Rightarrow>
               (if maximum \<le> 0 then Some (unknown ''H-04'' (Said NoHeapMaximum))
                else
                  (let pct = 100 * used / maximum
                   in Some (graded ''H-04'' pct (threshold cx ''heap_used_pct_concerning'' 80)
                         (threshold cx ''heap_used_pct_bad'' 90) (ObsNum (round_tenth pct)) (HeapHigh pct))))
           | _ \<Rightarrow> Some (unknown ''H-04'' (Said NoHeapNumbers))))"

definition h05 :: "health_context \<Rightarrow> health_result option" where
  "h05 cx =
     (case (number cx QUERY_MANAGER_MBEAN ''FailedQueries.FiveMinute.Count'',
            number cx QUERY_MANAGER_MBEAN ''CompletedQueries.FiveMinute.Count'') of
        (Some failed, Some completed) \<Rightarrow>
          (if completed \<le> 0 then Some (unknown ''H-05'' (Said NoTraffic))
           else
             (let raw = 100 * failed / completed;
                  pct = (if raw > 100 then 100 else raw)
              in Some (graded ''H-05'' pct (threshold cx ''failure_rate_pct_concerning'' 5)
                    (threshold cx ''failure_rate_pct_bad'' 20) (ObsNum (round_tenth pct)) (FailuresHigh pct))))
      | _ \<Rightarrow> Some (jmx_unavailable ''H-05'' cx))"

definition h06 :: "health_context \<Rightarrow> health_result option" where
  "h06 cx =
     (case number cx QUERY_MANAGER_MBEAN ''InternalFailures.FiveMinute.Count'' of
        None \<Rightarrow> Some (jmx_unavailable ''H-06'' cx)
      | Some internal \<Rightarrow>
          (let n = py_trunc internal
           in Some (graded ''H-06'' (of_int n) (threshold cx ''internal_failures_concerning'' 1)
                 (threshold cx ''internal_failures_bad'' 5) (ObsNum (of_int n)) (InternalErrors n))))"

text \<open>H-07 also leaves the counter in the context: the second component.\<close>

definition h07 :: "health_context \<Rightarrow> health_result option \<times> int option" where
  "h07 cx =
     (case number cx CLUSTER_MEMORY_MBEAN ''QueriesKilledDueToOutOfMemory'' of
        None \<Rightarrow> (Some (jmx_unavailable ''H-07'' cx), None)
      | Some kills \<Rightarrow>
          (let current = py_trunc kills
           in case cx_previous_oom cx of
                None \<Rightarrow> (Some (result ''H-07'' GOOD (ObsOom current None) None NoAdvice), Some current)
              | Some previous \<Rightarrow>
                  (let delta = max 0 (current - previous)
                   in (Some (graded ''H-07'' (of_int delta) (threshold cx ''oom_kills_concerning'' 1)
                         (threshold cx ''oom_kills_bad'' 3) (ObsOom current (Some delta)) (OomKills delta)),
                       Some current))))"

fun backend_entry :: "string \<Rightarrow> json list \<Rightarrow> (string \<times> json) list option" where
  "backend_entry c [] = None"
| "backend_entry c (b # bs) =
     (case fields_of b of
        None \<Rightarrow> backend_entry c bs
      | Some fs \<Rightarrow>
          (if dget ''cluster'' fs = JStr c then Some fs
           else if map_of fs ''cluster'' = None \<and> dget ''name'' fs = JStr c then Some fs
           else backend_entry c bs))"

definition h08 :: "health_context \<Rightarrow> health_result option" where
  "h08 cx =
     (case cx_gateway_backends cx of
        None \<Rightarrow> Some (unknown ''H-08'' (Said NoBackendList))
      | Some bs \<Rightarrow>
          (case backend_entry (cx_cluster cx) bs of
             None \<Rightarrow> Some (result ''H-08'' BAD (ObsText ''not registered'') None (Said NotRegistered))
           | Some e \<Rightarrow>
               (if \<not> truthy (dget ''active'' e)
                then Some (result ''H-08'' CONCERNING (ObsText ''inactive'') None (Said Deactivated))
                else Some (result ''H-08'' GOOD (ObsText ''active'') None NoAdvice))))"

definition h09 :: "health_context \<Rightarrow> health_result option" where
  "h09 cx =
     (case cx_queries cx of
        None \<Rightarrow> Some (unknown ''H-09'' (Said NoQuerySnapshot))
      | Some s \<Rightarrow>
          (if trustworthy s then Some (result ''H-09'' GOOD (ObsText ''consistent'') None NoAdvice)
           else Some (result ''H-09'' HUNKNOWN
                  (case sn_error s of None \<Rightarrow> ObsNone | Some e \<Rightarrow> ObsText e) None
                  (advice_or (sn_advice s) QueryListUntrusted))))"

definition GATEWAY_TESTS :: "string list" where "GATEWAY_TESTS = [''H-08'']"

definition ALL_TESTS :: "(string \<times> (health_context \<Rightarrow> health_result option \<times> int option)) list" where
  "ALL_TESTS =
     [(''H-01'', \<lambda>cx. (h01 cx, None)), (''H-02'', \<lambda>cx. (h02 cx, None)), (''H-03'', \<lambda>cx. (h03 cx, None)),
      (''H-04'', \<lambda>cx. (h04 cx, None)), (''H-05'', \<lambda>cx. (h05 cx, None)), (''H-06'', \<lambda>cx. (h06 cx, None)),
      (''H-07'', h07), (''H-08'', \<lambda>cx. (h08 cx, None)), (''H-09'', \<lambda>cx. (h09 cx, None))]"

section \<open>What a test may say\<close>

text \<open>A result that raises an alarm carries a remedy: a sentence of the catalogue or a non-empty text of
  the collector.\<close>

definition has_remedy :: "advice \<Rightarrow> bool" where
  "has_remedy a \<longleftrightarrow> (case a of NoAdvice \<Rightarrow> False | Said _ \<Rightarrow> True | FromSnapshot t \<Rightarrow> \<not> blank t)"

lemma grade_GOOD: "grade v c b = GOOD \<longleftrightarrow> v < b \<and> v < c"
  by (auto simp: grade_def)

lemma grade_known: "grade v c b \<noteq> HUNKNOWN"
  by (simp add: grade_def)

lemma graded_fields [simp]:
  "hr_state (graded t v c b obs s) = grade v c b" "hr_test (graded t v c b obs s) = t"
  by (simp_all add: graded_def result_def Let_def)

lemma graded_remedy: "hr_state (graded t v c b obs s) \<noteq> GOOD \<Longrightarrow> has_remedy (hr_advice (graded t v c b obs s))"
  by (simp add: graded_def result_def Let_def has_remedy_def)

lemma unknown_fields [simp]: "hr_state (unknown t why) = HUNKNOWN" "hr_test (unknown t why) = t"
  by (simp_all add: unknown_def result_def)

lemma result_fields [simp]:
  "hr_state (result t s obs th a) = s" "hr_test (result t s obs th a) = t" "hr_advice (result t s obs th a) = a"
  by (simp_all add: result_def)

lemma jmx_unavailable_fields [simp]: "hr_state (jmx_unavailable t cx) = HUNKNOWN" "hr_test (jmx_unavailable t cx) = t"
  by (simp_all add: jmx_unavailable_def)

lemmas test_defs = h01_def h02_def h03_def h04_def h05_def h06_def h07_def h08_def h09_def

text \<open>A missing snapshot.\<close>

lemma number_no_jmx: "cx_jmx cx = None \<Longrightarrow> number cx m a = None"
  by (simp add: number_def attribute_def mbean_def)

lemma attribute_no_jmx: "cx_jmx cx = None \<Longrightarrow> attribute cx m a = JNull"
  by (simp add: attribute_def mbean_def)

end
