(* ===== verification/HealthEngine.thy ===== *)
theory HealthEngine
  imports HealthTests Access
begin

text \<open>
  The health engine, \<^verbatim>\<open>src/tms/health/engine.py\<close>: one evaluation of the catalogue with its roll-up,
  and the confirmation of transitions over successive evaluations.
\<close>

definition ROLLUP_KEY :: string where "ROLLUP_KEY = ''*''"

record cluster_health =
  ch_cluster :: string
  ch_rollup_state :: health_state
  ch_rollup_enabled :: bool
  ch_results :: "health_result list"
  ch_stale :: bool

record engine =
  stabilization_polls :: nat
  gateway_enabled :: bool
  confirmed :: "(string \<times> health_state) list"
  pending :: "(string \<times> (health_state \<times> nat)) list"
  oom_counters :: "(string \<times> int) list"

record transition =
  tr_cluster :: string
  tr_test :: string
  tr_from :: health_state
  tr_to :: health_state
  tr_observed :: observed
  tr_threshold :: "rat option"
  tr_advice :: advice

definition new_engine :: "int \<Rightarrow> bool \<Rightarrow> engine" where
  "new_engine polls gateway = \<lparr>stabilization_polls = nat (max 1 polls), gateway_enabled = gateway,
     confirmed = [], pending = [], oom_counters = []\<rparr>"

definition health_key :: "string \<Rightarrow> string \<Rightarrow> string" where
  "health_key c t = c @ ''::'' @ t"

section \<open>One evaluation\<close>

definition switched_off :: "(string \<times> override) list \<Rightarrow> string \<Rightarrow> bool" where
  "switched_off ovs key \<longleftrightarrow> (case map_of ovs key of None \<Rightarrow> False | Some o1 \<Rightarrow> ov_enabled o1 = Some False)"

definition active_tests ::
    "engine \<Rightarrow> (string \<times> override) list \<Rightarrow> (string \<times> (health_context \<Rightarrow> health_result option \<times> int option)) list" where
  "active_tests e ovs =
     filter (\<lambda>(t, _). \<not> (t \<in> set GATEWAY_TESTS \<and> \<not> gateway_enabled e) \<and> \<not> switched_off ovs t) ALL_TESTS"

definition check_advice :: "health_result \<Rightarrow> health_result" where
  "check_advice r =
     (if requires_advice (hr_state r) \<and> \<not> has_remedy (hr_advice r) then r\<lparr>hr_advice := Said NoRemedy\<rparr> else r)"

definition run_test ::
    "health_context \<Rightarrow> bool \<Rightarrow> string \<times> (health_context \<Rightarrow> health_result option \<times> int option) \<Rightarrow>
       health_result \<times> int option" where
  "run_test cx stale test =
     (case test of (t, f) \<Rightarrow>
        (case f cx of (r, current) \<Rightarrow>
           (let r1 = (case r of None \<Rightarrow> result t HUNKNOWN ObsNone None (Said TestRaised) | Some x \<Rightarrow> x);
                r2 = (if stale then r1\<lparr>hr_state := HUNKNOWN, hr_advice := Said StaleData\<rparr> else r1)
            in (check_advice r2, current))))"

definition evaluate ::
    "health_context \<Rightarrow> bool \<Rightarrow> (string \<times> override) list \<Rightarrow> engine \<Rightarrow> cluster_health \<times> engine" where
  "evaluate cx0 stale ovs e =
     (let cx = cx0\<lparr>cx_previous_oom := map_of (oom_counters e) (cx_cluster cx0)\<rparr>;
          runs = map (run_test cx stale) (active_tests e ovs);
          results = map fst runs;
          current = fold (\<lambda>(_, c) acc. if c \<noteq> None then c else acc) runs None;
          e' = (case current of None \<Rightarrow> e
                | Some n \<Rightarrow> e\<lparr>oom_counters := dset (cx_cluster cx) n (oom_counters e)\<rparr>);
          enabled = (\<not> switched_off ovs ROLLUP_KEY)
      in (\<lparr>ch_cluster = cx_cluster cx,
           ch_rollup_state = (if enabled then worst (map hr_state results) else HUNKNOWN),
           ch_rollup_enabled = enabled, ch_results = results, ch_stale = stale\<rparr>, e'))"

section \<open>Transitions\<close>

definition confirm_one :: "string \<Rightarrow> health_result \<Rightarrow> engine \<Rightarrow> engine \<times> transition option" where
  "confirm_one c r e =
     (let key = health_key c (hr_test r);
          conf = map_of (confirmed e) key
      in if conf = Some (hr_state r) then (e\<lparr>pending := dpop key (pending e)\<rparr>, None)
         else case map_of (pending e) key of
                Some (cand, n) \<Rightarrow>
                  (if cand \<noteq> hr_state r then (e\<lparr>pending := dset key (hr_state r, 1) (pending e)\<rparr>, None)
                   else if n + 1 < stabilization_polls e
                   then (e\<lparr>pending := dset key (cand, n + 1) (pending e)\<rparr>, None)
                   else
                     (e\<lparr>pending := dpop key (pending e), confirmed := dset key (hr_state r) (confirmed e)\<rparr>,
                      map_option (\<lambda>old. \<lparr>tr_cluster = c, tr_test = hr_test r, tr_from = old,
                         tr_to = hr_state r, tr_observed = hr_observed r, tr_threshold = hr_threshold r,
                         tr_advice = hr_advice r\<rparr>) conf))
              | None \<Rightarrow> (e\<lparr>pending := dset key (hr_state r, 1) (pending e)\<rparr>, None))"

fun confirm_results :: "string \<Rightarrow> health_result list \<Rightarrow> engine \<Rightarrow> engine \<times> transition list" where
  "confirm_results c [] e = (e, [])"
| "confirm_results c (r # rs) e =
     (case confirm_one c r e of (e1, ev) \<Rightarrow>
        (case confirm_results c rs e1 of (e2, evs) \<Rightarrow>
           (e2, (case ev of None \<Rightarrow> evs | Some x \<Rightarrow> x # evs))))"

definition confirm_transitions :: "cluster_health \<Rightarrow> engine \<Rightarrow> engine \<times> transition list" where
  "confirm_transitions h e = confirm_results (ch_cluster h) (ch_results h) e"

definition confirmed_state :: "engine \<Rightarrow> string \<Rightarrow> string \<Rightarrow> health_state option" where
  "confirmed_state e c t = map_of (confirmed e) (health_key c t)"

section \<open>The result of an evaluation\<close>

lemma run_test_remedy:
  "requires_advice (hr_state (fst (run_test cx stale test))) \<Longrightarrow> has_remedy (hr_advice (fst (run_test cx stale test)))"
  by (cases test; cases "snd test cx")
     (auto simp: run_test_def check_advice_def requires_advice_def has_remedy_def Let_def
       split: if_splits option.splits)

lemma run_test_stale: "hr_state (fst (run_test cx True test)) = HUNKNOWN"
  by (cases test; cases "snd test cx") (auto simp: run_test_def check_advice_def Let_def)

lemma worst_ge: "s \<in> set ss \<Longrightarrow> severity s \<le> severity (worst ss)"
  by (cases ss) (auto simp: worst_def intro: max_by_ge)

lemma worst_in: "ss \<noteq> [] \<Longrightarrow> worst ss \<in> set ss"
  using max_by_in by (cases ss) (fastforce simp: worst_def)+

lemma worst_good: "worst ss = GOOD \<longleftrightarrow> ss \<noteq> [] \<and> list_all (\<lambda>s. s = GOOD) ss"
proof
  assume w: "worst ss = GOOD"
  then have "ss \<noteq> []" by (auto simp: worst_def)
  moreover have "s = GOOD" if "s \<in> set ss" for s
    using worst_ge [OF that] w by (cases s) auto
  ultimately show "ss \<noteq> [] \<and> list_all (\<lambda>s. s = GOOD) ss" by (simp add: list_all_iff)
next
  assume "ss \<noteq> [] \<and> list_all (\<lambda>s. s = GOOD) ss"
  then show "worst ss = GOOD" using worst_in by (auto simp: list_all_iff)
qed

text \<open>C16: Every evaluation is honest: the roll-up is GOOD exactly when it is enabled, at least one test is
  active and every active test is GOOD; otherwise it is the most severe state found. Every BAD or
  CONCERNING result carries a remedy, and on stale data every result is UNKNOWN and the roll-up
  with it.\<close>

theorem evaluation_is_honest:
  "let h = fst (evaluate cx stale ovs e)
   in (ch_rollup_state h = GOOD) =
        (ch_rollup_enabled h \<and> ch_results h \<noteq> [] \<and> list_all (\<lambda>r. hr_state r = GOOD) (ch_results h)) \<and>
      (if ch_rollup_enabled h \<and> ch_results h \<noteq> []
       then ch_rollup_state h \<in> hr_state ` set (ch_results h) \<and>
            list_all (\<lambda>r. severity (hr_state r) \<le> severity (ch_rollup_state h)) (ch_results h)
       else ch_rollup_state h = HUNKNOWN) \<and>
      list_all (\<lambda>r. if requires_advice (hr_state r) then has_remedy (hr_advice r) else True) (ch_results h) \<and>
      (if stale then list_all (\<lambda>r. hr_state r = HUNKNOWN) (ch_results h) \<and> ch_rollup_state h = HUNKNOWN
       else True)"
proof -
  obtain h where h: "fst (evaluate cx stale ovs e) = h" by simp
  let ?cx = "cx\<lparr>cx_previous_oom := map_of (oom_counters e) (cx_cluster cx)\<rparr>"
  have rs: "ch_results h = map (\<lambda>t. fst (run_test ?cx stale t)) (active_tests e ovs)"
    and roll: "ch_rollup_state h = (if ch_rollup_enabled h then worst (map hr_state (ch_results h)) else HUNKNOWN)"
    using h by (auto simp: evaluate_def Let_def)
  have good: "(ch_rollup_state h = GOOD) = (ch_rollup_enabled h \<and> ch_results h \<noteq> [] \<and>
      list_all (\<lambda>r. hr_state r = GOOD) (ch_results h))"
    using roll worst_good [of "map hr_state (ch_results h)"] by (auto simp: list_all_iff)
  have top: "if ch_rollup_enabled h \<and> ch_results h \<noteq> []
       then ch_rollup_state h \<in> hr_state ` set (ch_results h) \<and>
            list_all (\<lambda>r. severity (hr_state r) \<le> severity (ch_rollup_state h)) (ch_results h)
       else ch_rollup_state h = HUNKNOWN"
    using roll worst_in [of "map hr_state (ch_results h)"] worst_ge [of _ "map hr_state (ch_results h)"]
    by (auto simp: list_all_iff worst_def)
  have rem: "list_all (\<lambda>r. if requires_advice (hr_state r) then has_remedy (hr_advice r) else True) (ch_results h)"
    using run_test_remedy by (auto simp: rs list_all_iff)
  have st: "list_all (\<lambda>r. hr_state r = HUNKNOWN) (ch_results h) \<and> ch_rollup_state h = HUNKNOWN" if stale
  proof -
    have all: "list_all (\<lambda>r. hr_state r = HUNKNOWN) (ch_results h)"
      using that run_test_stale by (auto simp: rs list_all_iff)
    then show ?thesis using top by (auto simp: list_all_iff split: if_splits)
  qed
  show ?thesis using good top rem st by (simp add: h)
qed

text \<open>Every test of the catalogue says UNKNOWN when it was given nothing to read.\<close>

lemma no_data_unknown:
  assumes "cx_info cx = None" "cx_jmx cx = None" "cx_queries cx = None" "cx_gateway_backends cx = None"
    and "(t, f) \<in> set ALL_TESTS"
  shows "case fst (f cx) of None \<Rightarrow> True | Some r \<Rightarrow> hr_state r = HUNKNOWN"
  using assms(5)
  by (auto simp: ALL_TESTS_def test_defs assms number_no_jmx attribute_no_jmx Let_def)

text \<open>No evidence is never health: a cluster nothing was collected of is UNKNOWN in every active test
  and in the roll-up, whatever the thresholds, the overrides and the engine's memory.\<close>

theorem no_evidence_is_not_good:
  "let h = fst (evaluate (cx\<lparr>cx_info := None, cx_jmx := None, cx_queries := None,
                cx_gateway_backends := None\<rparr>) stale ovs e)
   in list_all (\<lambda>r. hr_state r = HUNKNOWN) (ch_results h) \<and> ch_rollup_state h = HUNKNOWN"
proof -
  let ?cx = "cx\<lparr>cx_info := None, cx_jmx := None, cx_queries := None, cx_gateway_backends := None,
     cx_previous_oom := map_of (oom_counters e) (cx_cluster cx)\<rparr>"
  have t: "hr_state (fst (run_test ?cx stale test)) = HUNKNOWN" if "test \<in> set (active_tests e ovs)" for test
  proof -
    obtain t f where p: "test = (t, f)" by (cases test)
    then have tf: "test = (t, f)" "(t, f) \<in> set ALL_TESTS" using that by (auto simp: active_tests_def)
    have "case fst (f ?cx) of None \<Rightarrow> True | Some r \<Rightarrow> hr_state r = HUNKNOWN"
      by (rule no_data_unknown [OF _ _ _ _ tf(2)]) simp_all
    then show ?thesis
      by (cases "f ?cx") (auto simp: run_test_def check_advice_def requires_advice_def Let_def tf
          split: option.splits)
  qed
  let ?rs = "map (\<lambda>t. fst (run_test ?cx stale t)) (active_tests e ovs)"
  have all: "list_all (\<lambda>r. hr_state r = HUNKNOWN) ?rs"
    unfolding list_all_iff using t by auto
  then have "worst (map hr_state ?rs) = HUNKNOWN"
    using worst_in [of "map hr_state ?rs"] by (cases "?rs = []") (auto simp: list_all_iff worst_def)
  then show ?thesis using all by (simp add: evaluate_def Let_def comp_def)
qed

section \<open>Transitions are confirmed\<close>

fun confirm_history :: "cluster_health list \<Rightarrow> engine \<Rightarrow> engine" where
  "confirm_history [] e = e"
| "confirm_history (h # hs) e = confirm_history hs (fst (confirm_transitions h e))"

text \<open>What was seen of one test of one cluster over the evaluations.\<close>

definition seen_in :: "string \<Rightarrow> string \<Rightarrow> health_result list \<Rightarrow> health_state list" where
  "seen_in key c rs = map hr_state (filter (\<lambda>r. health_key c (hr_test r) = key) rs)"

definition seen :: "string \<Rightarrow> cluster_health list \<Rightarrow> health_state list" where
  "seen key hs = concat (map (\<lambda>h. seen_in key (ch_cluster h) (ch_results h)) hs)"

text \<open>How many of the last observations are \<open>s\<close>.\<close>

definition streak :: "health_state \<Rightarrow> health_state list \<Rightarrow> nat" where
  "streak s os = length (takeWhile (\<lambda>x. x = s) (rev os))"

lemma streak_snoc: "streak s (os @ [t]) = (if t = s then Suc (streak s os) else 0)"
  by (simp add: streak_def)

definition needed :: "engine \<Rightarrow> nat" where
  "needed e = max 2 (stabilization_polls e)"

text \<open>What the engine remembers of a key, against what was seen: the pending candidate is the current
  streak, and a confirmed state is kept until another one held long enough.\<close>

definition tracks :: "engine \<Rightarrow> string \<Rightarrow> health_state list \<Rightarrow> bool" where
  "tracks e key os \<longleftrightarrow>
     (case map_of (pending e) key of
        None \<Rightarrow> (os = [] \<and> map_of (confirmed e) key = None) \<or>
               (os \<noteq> [] \<and> map_of (confirmed e) key = Some (last os))
      | Some (cand, n) \<Rightarrow> os \<noteq> [] \<and> last os = cand \<and> n = streak cand os \<and> 1 \<le> n \<and> n < needed e \<and>
          map_of (confirmed e) key \<noteq> Some cand) \<and>
     (\<forall>s. needed e \<le> streak s os \<longrightarrow> map_of (confirmed e) key = Some s)"

lemma streak_last: "os \<noteq> [] \<Longrightarrow> streak s os > 0 \<longleftrightarrow> last os = s"
  by (cases os rule: rev_cases) (simp_all add: streak_snoc)

lemma confirm_one_settings: "stabilization_polls (fst (confirm_one c r e)) = stabilization_polls e"
  by (auto simp: confirm_one_def Let_def split: option.split prod.split)

lemma needed_confirm: "needed (fst (confirm_one c r e)) = needed e"
  by (simp add: needed_def confirm_one_settings)

lemma confirm_one_other:
  "health_key c (hr_test r) \<noteq> key \<Longrightarrow>
     map_of (confirmed (fst (confirm_one c r e))) key = map_of (confirmed e) key \<and>
     map_of (pending (fst (confirm_one c r e))) key = map_of (pending e) key"
  by (auto simp: confirm_one_def Let_def split: option.split prod.split)

lemma tracks_other:
  assumes "tracks e key os" and "health_key c (hr_test r) \<noteq> key"
  shows "tracks (fst (confirm_one c r e)) key os"
proof -
  have e1: "map_of (confirmed (fst (confirm_one c r e))) key = map_of (confirmed e) key"
    and e2: "map_of (pending (fst (confirm_one c r e))) key = map_of (pending e) key"
    using confirm_one_other [OF assms(2)] by blast+
  show ?thesis unfolding tracks_def needed_confirm e1 e2 by (rule assms(1) [unfolded tracks_def])
qed


lemma streak_zero: "os = [] \<or> last os \<noteq> s \<Longrightarrow> streak s os = 0"
  by (cases os rule: rev_cases) (auto simp: streak_snoc streak_def)

text \<open>One observation of the key.\<close>

lemma tracks_step:
  assumes T: "tracks e key os" and k: "key = health_key c (hr_test r)"
  shows "tracks (fst (confirm_one c r e)) key (os @ [hr_state r]) \<and>
    (case snd (confirm_one c r e) of
       None \<Rightarrow> True
     | Some t \<Rightarrow> tr_from t \<noteq> tr_to t \<and> tr_to t = hr_state r \<and> tr_test t = hr_test r \<and> tr_cluster t = c \<and>
         map_of (confirmed e) key = Some (tr_from t) \<and> needed e \<le> streak (tr_to t) (os @ [hr_state r]))"
proof -
  let ?s = "hr_state r"
  have two: "2 \<le> needed e" "stabilization_polls e \<le> needed e" by (simp_all add: needed_def)
  have old: "\<And>s. needed e \<le> streak s os \<Longrightarrow> map_of (confirmed e) key = Some s"
    using T by (simp add: tracks_def)
  show ?thesis
  proof (cases "map_of (confirmed e) key = Some ?s")
    case True
    then have "confirm_one c r e = (e\<lparr>pending := dpop key (pending e)\<rparr>, None)"
      by (simp add: confirm_one_def k Let_def)
    then show ?thesis using True two old by (auto simp: tracks_def streak_snoc needed_def)
  next
    case diff: False
    show ?thesis
    proof (cases "\<exists>n. map_of (pending e) key = Some (?s, n)")
      case False
      then have "confirm_one c r e = (e\<lparr>pending := dset key (?s, 1) (pending e)\<rparr>, None)"
        using diff by (auto simp: confirm_one_def k Let_def split: option.split)
      moreover have z: "streak ?s os = 0"
      proof (cases "map_of (pending e) key")
        case None
        then show ?thesis using T diff by (intro streak_zero) (auto simp: tracks_def)
      next
        case (Some q)
        then show ?thesis using T False by (cases q) (auto simp: tracks_def intro!: streak_zero)
      qed
      ultimately show ?thesis using diff two old
        by (auto simp: tracks_def streak_snoc needed_def)
    next
      case True
      then obtain n where n: "map_of (pending e) key = Some (?s, n)" by blast
      then have st: "n = streak ?s os" "1 \<le> n" using T by (auto simp: tracks_def)
      show ?thesis
      proof (cases "n + 1 < stabilization_polls e")
        case True
        then have "confirm_one c r e = (e\<lparr>pending := dset key (?s, n + 1) (pending e)\<rparr>, None)"
          using diff n by (simp add: confirm_one_def k Let_def)
        then show ?thesis using diff two old st True
          by (auto simp: tracks_def streak_snoc needed_def)
      next
        case False
        then have c1: "fst (confirm_one c r e) = e\<lparr>pending := dpop key (pending e),
            confirmed := dset key ?s (confirmed e)\<rparr>"
          and c2: "snd (confirm_one c r e) = map_option (\<lambda>old. \<lparr>tr_cluster = c, tr_test = hr_test r,
             tr_from = old, tr_to = ?s, tr_observed = hr_observed r, tr_threshold = hr_threshold r,
             tr_advice = hr_advice r\<rparr>) (map_of (confirmed e) key)"
          using diff n by (simp_all add: confirm_one_def k Let_def)
        have "needed e \<le> Suc (streak ?s os)" using False st by (simp add: needed_def)
        then show ?thesis unfolding c1 c2 using diff two
          by (cases "map_of (confirmed e) key") (auto simp: tracks_def streak_snoc needed_def)
      qed
    qed
  qed
qed

lemma tracks_results:
  "tracks e key os \<Longrightarrow> tracks (fst (confirm_results c rs e)) key (os @ seen_in key c rs) \<and>
     needed (fst (confirm_results c rs e)) = needed e"
proof (induction rs arbitrary: e os)
  case (Cons r rs)
  let ?e1 = "fst (confirm_one c r e)"
  have fst_eq: "fst (confirm_results c (r # rs) e) = fst (confirm_results c rs ?e1)"
    by (simp split: prod.split)
  show ?case
  proof (cases "health_key c (hr_test r) = key")
    case True
    then have "tracks ?e1 key (os @ [hr_state r])"
      by (intro conjunct1 [OF tracks_step [OF Cons.prems]]) simp
    from Cons.IH [OF this] show ?thesis unfolding fst_eq using True
      by (simp add: seen_in_def needed_confirm)
  next
    case False
    from Cons.IH [OF tracks_other [OF Cons.prems False]] show ?thesis unfolding fst_eq using False
      by (simp add: seen_in_def needed_confirm)
  qed
qed (simp add: seen_in_def)

lemma tracks_history:
  "tracks e key os \<Longrightarrow> tracks (confirm_history hs e) key (os @ seen key hs) \<and>
     needed (confirm_history hs e) = needed e"
proof (induction hs arbitrary: e os)
  case (Cons h hs)
  have "tracks (fst (confirm_transitions h e)) key (os @ seen_in key (ch_cluster h) (ch_results h))"
    "needed (fst (confirm_transitions h e)) = needed e"
    using tracks_results [OF Cons.prems] by (simp_all add: confirm_transitions_def)
  with Cons.IH [OF this(1)] show ?case by (simp add: seen_def)
qed (simp add: seen_def)

lemma tracks_new: "tracks (new_engine n g) key []"
  by (simp add: tracks_def new_engine_def streak_def needed_def)

lemma key_inj: "health_key c t = health_key c t' \<longleftrightarrow> t = t'"
  by (simp add: health_key_def)

text \<open>The events of one evaluation, each traced to its result.\<close>

lemma events_held:
  assumes "distinct (map hr_test rs)"
    and "\<And>r. r \<in> set rs \<Longrightarrow> tracks e (health_key c (hr_test r)) (os (hr_test r))"
    and "t \<in> set (snd (confirm_results c rs e))"
  shows "\<exists>r\<in>set rs. tr_test t = hr_test r \<and> tr_to t = hr_state r \<and> tr_from t \<noteq> tr_to t \<and> tr_cluster t = c \<and>
     map_of (confirmed e) (health_key c (hr_test r)) = Some (tr_from t) \<and>
     needed e \<le> streak (tr_to t) (os (hr_test r) @ [hr_state r])"
  using assms
proof (induction rs arbitrary: e)
  case (Cons r rs)
  let ?e1 = "fst (confirm_one c r e)"
  have split: "set (snd (confirm_results c (r # rs) e)) =
      set_option (snd (confirm_one c r e)) \<union> set (snd (confirm_results c rs ?e1))"
    by (auto split: prod.split option.split)
  show ?case
  proof (cases "t \<in> set (snd (confirm_results c rs ?e1))")
    case True
    have o: "health_key c (hr_test r) \<noteq> health_key c (hr_test r')" if "r' \<in> set rs" for r'
      using Cons.prems(1) that by (force simp: key_inj)
    have "tracks ?e1 (health_key c (hr_test r')) (os (hr_test r'))" if "r' \<in> set rs" for r'
      using tracks_other [OF Cons.prems(2) [of r'] o [OF that]] that by simp
    from Cons.IH [OF _ this True] Cons.prems(1) obtain r' where r': "r' \<in> set rs" "tr_test t = hr_test r'"
      "tr_to t = hr_state r'" "tr_from t \<noteq> tr_to t" "tr_cluster t = c"
      "map_of (confirmed ?e1) (health_key c (hr_test r')) = Some (tr_from t)"
      "needed ?e1 \<le> streak (tr_to t) (os (hr_test r') @ [hr_state r'])" by auto
    then show ?thesis using confirm_one_other [OF o [OF r'(1)], of e] by (auto simp: needed_confirm)
  next
    case False
    then have "snd (confirm_one c r e) = Some t" using Cons.prems(3) split by auto
    then show ?thesis using tracks_step [OF Cons.prems(2) [of r] refl] by auto
  qed
qed simp

text \<open>C17: An event is written only for a state that held, and a state that held is confirmed. Over any
  history of evaluations and one more with each test at most once: every transition reported goes
  from the confirmed state to a different one that this test of this cluster has shown in at least
  the last \<open>max 2 stabilization_polls\<close> observations, and after the evaluation every test whose state has held
  that long has it as its confirmed state.\<close>

theorem transitions_have_held:
  assumes "distinct (map hr_test (ch_results h))"
  shows "let e = confirm_history hs (new_engine n g);
             seen_of = (\<lambda>t. seen (health_key (ch_cluster h) t) (hs @ [h]));
             long = max 2 (nat (max 1 n))
         in list_all (\<lambda>t. tr_cluster t = ch_cluster h \<and> tr_from t \<noteq> tr_to t \<and>
               confirmed_state e (ch_cluster h) (tr_test t) = Some (tr_from t) \<and>
               long \<le> streak (tr_to t) (seen_of (tr_test t))) (snd (confirm_transitions h e)) \<and>
            list_all (\<lambda>r. if long \<le> streak (hr_state r) (seen_of (hr_test r))
               then confirmed_state (fst (confirm_transitions h e)) (ch_cluster h) (hr_test r) = Some (hr_state r)
               else True) (ch_results h)"
proof -
  let ?e = "confirm_history hs (new_engine n g)" and ?c = "ch_cluster h"
  have T: "tracks ?e key (seen key hs)" and N: "needed ?e = max 2 (nat (max 1 n))" for key
    using tracks_history [OF tracks_new, where hs = hs] by (simp_all add: needed_def new_engine_def)
  have one: "seen_in (health_key ?c (hr_test r)) ?c (ch_results h) = [hr_state r]" if "r \<in> set (ch_results h)" for r
  proof -
    have "filter (\<lambda>x. hr_test x = hr_test r) rs = [r]" if "distinct (map hr_test rs)" "r \<in> set rs" for rs
      using that by (induction rs) (auto simp: filter_empty_conv image_iff)
    then show ?thesis using assms that by (simp add: seen_in_def key_inj)
  qed
  have app: "seen key (hs @ [h]) = seen key hs @ seen_in key ?c (ch_results h)" for key
    by (simp add: seen_def)
  have events: "list_all (\<lambda>t. tr_cluster t = ?c \<and> tr_from t \<noteq> tr_to t \<and>
      confirmed_state ?e ?c (tr_test t) = Some (tr_from t) \<and>
      max 2 (nat (max 1 n)) \<le> streak (tr_to t) (seen (health_key ?c (tr_test t)) (hs @ [h])))
      (snd (confirm_transitions h ?e))"
    unfolding list_all_iff
  proof
    fix t assume "t \<in> set (snd (confirm_transitions h ?e))"
    then obtain r where "r \<in> set (ch_results h)" "tr_test t = hr_test r" "tr_to t = hr_state r"
      "tr_from t \<noteq> tr_to t" "tr_cluster t = ?c"
      "map_of (confirmed ?e) (health_key ?c (hr_test r)) = Some (tr_from t)"
      "needed ?e \<le> streak (tr_to t) (seen (health_key ?c (hr_test r)) hs @ [hr_state r])"
      using events_held [OF assms, of ?e ?c "\<lambda>t. seen (health_key ?c t) hs" t] T
      by (auto simp: confirm_transitions_def)
    then show "tr_cluster t = ?c \<and> tr_from t \<noteq> tr_to t \<and> confirmed_state ?e ?c (tr_test t) = Some (tr_from t) \<and>
      max 2 (nat (max 1 n)) \<le> streak (tr_to t) (seen (health_key ?c (tr_test t)) (hs @ [h]))"
      by (simp add: confirmed_state_def N app one)
  qed
  have conf: "list_all (\<lambda>r. if max 2 (nat (max 1 n)) \<le> streak (hr_state r) (seen (health_key ?c (hr_test r)) (hs @ [h]))
      then confirmed_state (fst (confirm_transitions h ?e)) ?c (hr_test r) = Some (hr_state r) else True) (ch_results h)"
    using tracks_results [OF T, of ?c "ch_results h"] N
    by (auto simp: list_all_iff tracks_def confirmed_state_def confirm_transitions_def app)
  show ?thesis using events conf by (simp add: Let_def)
qed


definition demo_result :: "health_state \<Rightarrow> health_result" where
  "demo_result s = \<lparr>hr_test = ''H-01'', hr_state = s, hr_observed = ObsNone, hr_threshold = None,
     hr_advice = Said CoordinatorDown\<rparr>"

definition demo_health :: "health_state \<Rightarrow> cluster_health" where
  "demo_health s = \<lparr>ch_cluster = ''a'', ch_rollup_state = s, ch_rollup_enabled = True,
     ch_results = [demo_result s], ch_stale = False\<rparr>"

theorem transitions_have_held_witness:
  "let e = confirm_history (map demo_health [GOOD, GOOD, BAD, BAD]) (new_engine 3 False)
   in (case snd (confirm_transitions (demo_health BAD) e) of
         [t] \<Rightarrow> tr_from t = GOOD \<and> tr_to t = BAD
       | _ \<Rightarrow> confirmed_state e ''a'' ''H-01'' = None) \<and>
      list_all (\<lambda>t. tr_from t \<noteq> tr_to t) (snd (confirm_transitions (demo_health BAD) e))"
proof -
  let ?e = "confirm_history (map demo_health [GOOD, GOOD, BAD, BAD]) (new_engine 3 False)"
  have d: "distinct (map hr_test (ch_results (demo_health BAD)))" by (simp add: demo_health_def)
  have "case snd (confirm_transitions (demo_health BAD) ?e) of
         [t] \<Rightarrow> tr_from t = GOOD \<and> tr_to t = BAD
       | _ \<Rightarrow> confirmed_state ?e ''a'' ''H-01'' = None"
    by code_simp
  moreover have "list_all (\<lambda>t. tr_from t \<noteq> tr_to t) (snd (confirm_transitions (demo_health BAD) ?e))"
    using transitions_have_held [OF d, of "map demo_health [GOOD, GOOD, BAD, BAD]" 3 False]
    by (auto simp: Let_def list_all_iff)
  ultimately show ?thesis by (simp only: Let_def)
qed

end
