(* ===== verification/GroupRules.thy ===== *)
theory GroupRules
  imports Nodes Json
begin

text \<open>
  What may be saved into Trino's resource group tables (\<^verbatim>\<open>ops/resource_group_rules.py\<close>):
  the checks on single groups, on the tree and on the selectors. A message is a constructor of
  \<open>complaint\<close> holding the values the text mentions. \<open>re.compile\<close> on an operator's pattern is the
  argument \<open>compiles\<close>; the module's own three patterns are written out.
\<close>

datatype level = ERROR | WARNING

datatype complaint =
    NameMissing
  | NameTooLong nat
  | Required string
  | StopsGroup string int
  | BadMemory string
  | BadDuration string string
  | SoftWithoutHard
  | BadPolicy string
  | BadScan string
  | ScanQuota
  | CpuQuota
  | NoExport
  | SharedPath nat
  | PriorityBelow "string option"
  | SharesExceed rat string rat
  | NoSuchGroup
  | ColumnTooLong string nat nat
  | BadRegex string
  | NoGroupProvider
  | NoCatchAll
  | NothingSent

record finding =
  f_level :: level
  f_code :: string
  f_target :: string
  f_message :: complaint

definition finding :: "level \<Rightarrow> string \<Rightarrow> string \<Rightarrow> complaint \<Rightarrow> finding" where
  "finding l c t m = \<lparr>f_level = l, f_code = c, f_target = t, f_message = m\<rparr>"

record group =
  g_id :: "string option"
  g_name :: "string option"
  g_path :: "string list"
  max_queued :: "int option"
  hard_concurrency_limit :: "int option"
  soft_memory_limit :: "string option"
  soft_cpu_limit :: "string option"
  hard_cpu_limit :: "string option"
  scheduling_policy :: "string option"
  hard_physical_data_scan_limit :: "string option"
  jmx_export :: bool

record selector =
  s_id :: "int option"
  s_target :: "string option"
  s_matchers :: "string pydict"
  s_catch_all :: bool

definition MAX_NAME :: nat where "MAX_NAME = 250"
definition MAX_REGEX :: nat where "MAX_REGEX = 512"
definition MAX_USER_GROUP_REGEX :: nat where "MAX_USER_GROUP_REGEX = 2048"

definition SCHEDULING_POLICIES :: "string list" where
  "SCHEDULING_POLICIES = [''fair'', ''weighted_fair'', ''weighted'', ''query_priority'']"

definition REGEX_COLUMNS :: "(string \<times> nat) list" where
  "REGEX_COLUMNS =
     [(''user_regex'', MAX_REGEX), (''source_regex'', MAX_REGEX), (''query_type'', MAX_REGEX),
      (''client_tags'', MAX_REGEX), (''original_user_regex'', MAX_REGEX),
      (''authenticated_user_regex'', MAX_REGEX), (''user_group_regex'', MAX_USER_GROUP_REGEX)]"

definition REGEX_SYNTAX_COLUMNS :: "string list" where
  "REGEX_SYNTAX_COLUMNS =
     [''user_regex'', ''source_regex'', ''original_user_regex'', ''authenticated_user_regex'',
      ''user_group_regex'']"

section \<open>The limit formats\<close>

text \<open>\<open>\s*\d+(\.\d+)?\<close> at the front of a text: the digits before and after the point and what
  follows the number.\<close>

definition lex_number :: "string \<Rightarrow> (string \<times> string \<times> string) option" where
  "lex_number s =
     (let t = dropWhile is_space s;
          whole = takeWhile is_ascii_digit t;
          r = dropWhile is_ascii_digit t
      in if whole = [] then None
         else case r of
                [] \<Rightarrow> Some (whole, [], r)
              | c # r' \<Rightarrow>
                  (let part = takeWhile is_ascii_digit r'
                   in if c = CHR ''.'' \<and> part \<noteq> []
                      then Some (whole, part, dropWhile is_ascii_digit r') else Some (whole, [], r)))"

text \<open>The rest of the three patterns, \<open>\s*unit\s*$\<close>.\<close>

definition with_unit :: "(string \<Rightarrow> bool) \<Rightarrow> string \<Rightarrow> bool" where
  "with_unit unit s = (case lex_number s of None \<Rightarrow> False | Some (w, p, r) \<Rightarrow> unit (strip r))"

definition is_data_size :: "string \<Rightarrow> bool" where
  "is_data_size = with_unit (\<lambda>u. lower u \<in> set [''b'', ''kb'', ''mb'', ''gb'', ''tb'', ''pb''])"

definition is_percentage :: "string \<Rightarrow> bool" where
  "is_percentage = with_unit (\<lambda>u. u = ''%'')"

definition is_duration :: "string \<Rightarrow> bool" where
  "is_duration = with_unit (\<lambda>u. u \<in> set [''ns'', ''us'', ''ms'', ''s'', ''m'', ''h'', ''d''])"

text \<open>\<open>float(str(value).strip().rstrip("%").strip())\<close> of a matching text.\<close>

definition percentage_of :: "string option \<Rightarrow> rat option" where
  "percentage_of value =
     (case value of
        None \<Rightarrow> None
      | Some s \<Rightarrow>
          (if s = [] \<or> \<not> is_percentage s then None
           else case lex_number s of
                  None \<Rightarrow> None
                | Some (w, p, r) \<Rightarrow>
                    Some (of_nat (digits_value w) + of_nat (digits_value p) / 10 ^ length p)))"

definition is_size :: "string \<Rightarrow> bool" where
  "is_size s \<longleftrightarrow> is_data_size s \<or> is_percentage s"

definition parent_id :: "group \<Rightarrow> string" where
  "parent_id g = join ''.'' (butlast (g_path g))"

text \<open>\<open>x or ""\<close>, and the truth of an optional text.\<close>

definition or_empty :: "string option \<Rightarrow> string" where
  "or_empty x = (case x of None \<Rightarrow> [] | Some s \<Rightarrow> s)"

definition given :: "string option \<Rightarrow> bool" where
  "given x \<longleftrightarrow> or_empty x \<noteq> []"

section \<open>The checks\<close>

definition label_of :: "group \<Rightarrow> string" where
  "label_of g = (if given (g_id g) then or_empty (g_id g)
                 else if given (g_name g) then or_empty (g_name g) else ''(unnamed)'')"

definition check_limit :: "string \<Rightarrow> string \<Rightarrow> int option \<Rightarrow> finding list" where
  "check_limit gid label v =
     (case v of
        None \<Rightarrow> [finding ERROR ''V2'' gid (Required label)]
      | Some n \<Rightarrow> (if n \<le> 0 then [finding ERROR ''V2'' gid (StopsGroup label n)] else []))"

definition check_duration :: "string \<Rightarrow> string \<Rightarrow> string option \<Rightarrow> finding list" where
  "check_duration gid column v =
     (if given v \<and> \<not> is_duration (or_empty v)
      then [finding ERROR ''V3'' gid (BadDuration column (or_empty v))] else [])"

definition check_group :: "group \<Rightarrow> finding list" where
  "check_group g =
     (let gid = label_of g; name = strip (or_empty (g_name g))
      in (if name = [] then [finding ERROR ''V1'' gid NameMissing]
          else if length name > MAX_NAME
          then [finding ERROR ''V1'' gid (NameTooLong (length name))] else [])
       @ check_limit gid ''Max queued'' (max_queued g)
       @ check_limit gid ''Concurrency limit'' (hard_concurrency_limit g)
       @ (if given (soft_memory_limit g) \<and> \<not> is_size (or_empty (soft_memory_limit g))
          then [finding ERROR ''V3'' gid (BadMemory (or_empty (soft_memory_limit g)))] else [])
       @ check_duration gid ''soft_cpu_limit'' (soft_cpu_limit g)
       @ check_duration gid ''hard_cpu_limit'' (hard_cpu_limit g)
       @ (if given (soft_cpu_limit g) \<and> \<not> given (hard_cpu_limit g)
          then [finding ERROR ''V4'' gid SoftWithoutHard] else [])
       @ (if given (scheduling_policy g) \<and> or_empty (scheduling_policy g) \<notin> set SCHEDULING_POLICIES
          then [finding ERROR ''V5'' gid (BadPolicy (or_empty (scheduling_policy g)))] else [])
       @ (if given (hard_physical_data_scan_limit g)
          then (if \<not> is_size (or_empty (hard_physical_data_scan_limit g))
                then [finding ERROR ''V3'' gid (BadScan (or_empty (hard_physical_data_scan_limit g)))]
                else [finding WARNING ''W3'' gid ScanQuota]) else [])
       @ (if given (hard_cpu_limit g) then [finding WARNING ''W3'' gid CpuQuota] else [])
       @ (if \<not> jmx_export g then [finding WARNING ''W2'' gid NoExport] else []))"

definition check_groups :: "group list \<Rightarrow> finding list" where
  "check_groups gs = concat (map check_group gs)"

definition path_of :: "group \<Rightarrow> string" where
  "path_of g = or_empty (g_id g)"

definition below :: "string \<Rightarrow> group \<Rightarrow> bool" where
  "below gid g = prefix (gid @ ''.'') (path_of g)"

definition uses_priority :: "group \<Rightarrow> bool" where
  "uses_priority g \<longleftrightarrow> scheduling_policy g = Some ''query_priority''"

definition check_shared :: "group list \<Rightarrow> finding list" where
  "check_shared gs =
     [finding ERROR ''V9'' gid (SharedPath n). gid \<leftarrow> sort_by (\<lambda>x. x) (remdups (map path_of gs)),
        n \<leftarrow> [count_list (map path_of gs) gid], n > 1]"

definition check_priority :: "group list \<Rightarrow> finding list" where
  "check_priority gs =
     [finding ERROR ''V6'' (path_of h) (PriorityBelow (g_id g)).
        g \<leftarrow> gs, uses_priority g, h \<leftarrow> gs, below (path_of g) h \<and> \<not> uses_priority h]"

text \<open>\<open>by_id.get(parent_id)\<close>: of several groups with one id the dictionary keeps the last.\<close>

definition group_by_id :: "string \<Rightarrow> group list \<Rightarrow> group option" where
  "group_by_id gid gs = map_of (rev (map (\<lambda>g. (g_id g, g)) gs)) (Some gid)"

definition check_shares :: "group list \<Rightarrow> finding list" where
  "check_shares gs =
     [finding WARNING ''W1'' pid (SharesExceed summed pid share).
        pid \<leftarrow> sort_by (\<lambda>x. x) (remdups (map parent_id gs)), pid \<noteq> [],
        share \<leftarrow> (case percentage_of (Option.bind (group_by_id pid gs) soft_memory_limit) of
                    None \<Rightarrow> [] | Some s \<Rightarrow> [s]),
        summed \<leftarrow> [sum_list (List.map_filter (\<lambda>g. percentage_of (soft_memory_limit g))
                                 (filter (\<lambda>g. parent_id g = pid) gs))],
        summed > share]"

definition check_hierarchy :: "group list \<Rightarrow> finding list" where
  "check_hierarchy gs = check_shared gs @ check_priority gs @ check_shares gs"

definition selector_label :: "selector \<Rightarrow> string" where
  "selector_label s =
     ''selector '' @ (case s_id s of None \<Rightarrow> ''None'' | Some n \<Rightarrow> show_int n)"

definition check_selector ::
    "(string \<Rightarrow> bool) \<Rightarrow> group list \<Rightarrow> bool \<Rightarrow> selector \<Rightarrow> finding list" where
  "check_selector compiles gs provider s =
     (let sid = selector_label s; m = map_of (s_matchers s)
      in (if \<not> given (s_target s) \<or> s_target s \<notin> set (map g_id gs)
          then [finding ERROR ''V8'' sid NoSuchGroup] else [])
       @ [finding ERROR ''V7'' sid (ColumnTooLong column (length v) limit).
            (column, limit) \<leftarrow> REGEX_COLUMNS, v \<leftarrow> (case m column of None \<Rightarrow> [] | Some v \<Rightarrow> [v]),
            length v > limit]
       @ [finding ERROR ''V7'' sid (BadRegex column).
            column \<leftarrow> REGEX_SYNTAX_COLUMNS, given (m column) \<and> \<not> compiles (or_empty (m column))]
       @ (if given (m ''user_group_regex'') \<and> \<not> provider
          then [finding WARNING ''W4'' sid NoGroupProvider] else []))"

definition check_selectors ::
    "(string \<Rightarrow> bool) \<Rightarrow> group list \<Rightarrow> selector list \<Rightarrow> bool \<Rightarrow> finding list" where
  "check_selectors compiles gs ss provider =
     concat (map (check_selector compiles gs provider) ss)
   @ (if gs \<noteq> [] \<and> \<not> list_ex s_catch_all ss
      then [finding ERROR ''V10'' ''selectors'' NoCatchAll] else [])
   @ [finding WARNING ''W5'' (path_of g) NothingSent.
        g \<leftarrow> gs, Some (path_of g) \<notin> set (map s_target ss) \<and> \<not> list_ex (below (path_of g)) gs]"

definition validate_tree ::
    "(string \<Rightarrow> bool) \<Rightarrow> group list \<Rightarrow> selector list \<Rightarrow> bool \<Rightarrow> finding list" where
  "validate_tree compiles gs ss provider =
     check_groups gs @ check_hierarchy gs @ check_selectors compiles gs ss provider"

definition blocking :: "finding list \<Rightarrow> finding list" where
  "blocking fs = filter (\<lambda>f. f_level f = ERROR) fs"

section \<open>What a tree without blocking findings is\<close>

definition positive_limit :: "int option \<Rightarrow> bool" where
  "positive_limit v = (case v of None \<Rightarrow> False | Some n \<Rightarrow> 0 < n)"

definition well_formed :: "(string \<Rightarrow> bool) \<Rightarrow> string option \<Rightarrow> bool" where
  "well_formed p v = (case v of None \<Rightarrow> True | Some s \<Rightarrow> s = [] \<or> p s)"

definition group_ok :: "group \<Rightarrow> bool" where
  "group_ok g \<longleftrightarrow>
     \<not> blank_opt (g_name g) \<and> length (strip (or_empty (g_name g))) \<le> 250 \<and>
     positive_limit (max_queued g) \<and> positive_limit (hard_concurrency_limit g) \<and>
     well_formed is_size (soft_memory_limit g) \<and>
     well_formed is_size (hard_physical_data_scan_limit g) \<and>
     well_formed is_duration (soft_cpu_limit g) \<and> well_formed is_duration (hard_cpu_limit g) \<and>
     (given (soft_cpu_limit g) \<longrightarrow> given (hard_cpu_limit g)) \<and>
     well_formed (\<lambda>s. s \<in> set SCHEDULING_POLICIES) (scheduling_policy g)"

definition selector_ok :: "(string \<Rightarrow> bool) \<Rightarrow> group list \<Rightarrow> selector \<Rightarrow> bool" where
  "selector_ok compiles gs s \<longleftrightarrow>
     (\<exists>t. s_target s = Some t \<and> t \<noteq> [] \<and> Some t \<in> g_id ` set gs) \<and>
     (\<forall>(column, limit) \<in> set REGEX_COLUMNS.
        case map_of (s_matchers s) column of None \<Rightarrow> True | Some v \<Rightarrow> length v \<le> limit) \<and>
     (\<forall>column \<in> set REGEX_SYNTAX_COLUMNS. well_formed compiles (map_of (s_matchers s) column))"

definition tree_ok :: "(string \<Rightarrow> bool) \<Rightarrow> group list \<Rightarrow> selector list \<Rightarrow> bool" where
  "tree_ok compiles gs ss \<longleftrightarrow>
     (\<forall>g \<in> set gs. group_ok g) \<and> distinct (map path_of gs) \<and>
     (\<forall>g \<in> set gs. \<forall>h \<in> set gs.
        uses_priority g \<and> prefix (path_of g @ ''.'') (path_of h) \<longrightarrow> uses_priority h) \<and>
     (\<forall>s \<in> set ss. selector_ok compiles gs s) \<and>
     (gs \<noteq> [] \<longrightarrow> (\<exists>s \<in> set ss. s_catch_all s))"

lemma blocking_simps [simp]:
  "blocking [] = []" "blocking (f # fs) = (if f_level f = ERROR then f # blocking fs else blocking fs)"
  "blocking (fs @ gs) = blocking fs @ blocking gs"
  by (simp_all add: blocking_def)

lemma blocking_concat: "blocking (concat fss) = [] \<longleftrightarrow> (\<forall>fs \<in> set fss. blocking fs = [])"
  by (induction fss) auto

lemma blocking_warnings: "\<forall>f \<in> set fs. f_level f = WARNING \<Longrightarrow> blocking fs = []"
  by (auto simp: blocking_def filter_empty_conv)

lemma blocking_errors: "\<forall>f \<in> set fs. f_level f = ERROR \<Longrightarrow> blocking fs = [] \<longleftrightarrow> fs = []"
  by (induction fs) auto

lemma finding_level [simp]: "f_level (finding l c t m) = l"
  by (simp add: finding_def)

lemma strip_or_empty: "strip (or_empty x) = [] \<longleftrightarrow> blank_opt x"
  by (cases x) (auto simp: or_empty_def blank_opt_def)

lemma well_formed_given: "well_formed p v \<longleftrightarrow> \<not> (given v \<and> \<not> p (or_empty v))"
  by (cases v) (auto simp: well_formed_def given_def or_empty_def)

lemma check_limit_ok: "blocking (check_limit gid label v) = [] \<longleftrightarrow> positive_limit v"
  by (cases v) (auto simp: check_limit_def positive_limit_def)

lemma check_duration_ok:
  "blocking (check_duration gid column v) = [] \<longleftrightarrow> well_formed is_duration v"
  by (simp add: check_duration_def well_formed_given)

lemma concat_map_Nil: "concat (map f xs) = [] \<longleftrightarrow> (\<forall>x \<in> set xs. f x = [])"
  by (induction xs) auto

lemma if_Nil: "(if P then x # xs else []) = [] \<longleftrightarrow> \<not> P"
  by simp

lemma error_if: "blocking (if P then [finding ERROR c t m] else []) = [] \<longleftrightarrow> \<not> P"
  by simp

lemma warning_if: "blocking (if P then [finding WARNING c t m] else []) = []"
  by simp

lemma name_rules:
  "blocking (if P then [finding ERROR c t m]
             else if n > MAX_NAME then [finding ERROR c t m'] else []) = [] \<longleftrightarrow>
   \<not> P \<and> n \<le> 250"
  by (auto simp: MAX_NAME_def)

lemma scan_rules:
  "blocking (if P then (if \<not> Q then [finding ERROR c t m] else [finding WARNING c' t' m']) else []) = []
   \<longleftrightarrow> \<not> (P \<and> \<not> Q)"
  by simp

lemma check_group_ok: "blocking (check_group g) = [] \<longleftrightarrow> group_ok g"
  unfolding check_group_def Let_def blocking_simps append_is_Nil_conv error_if warning_if
    strip_or_empty name_rules scan_rules check_limit_ok check_duration_ok group_ok_def well_formed_given
  by blast

lemma distinct_counts: "distinct xs \<longleftrightarrow> (\<forall>x \<in> set xs. \<not> count_list xs x > 1)"
proof (induction xs)
  case (Cons x xs)
  have "x \<in> set xs \<longleftrightarrow> count_list xs x \<noteq> 0" by (simp add: count_list_0_iff)
  with Cons show ?case by (cases "x \<in> set xs") auto
qed simp

lemma check_shared_ok: "check_shared gs = [] \<longleftrightarrow> distinct (map path_of gs)"
  unfolding check_shared_def concat_map_Nil if_Nil distinct_counts by simp

lemma check_priority_ok:
  "check_priority gs = [] \<longleftrightarrow>
     (\<forall>g \<in> set gs. \<forall>h \<in> set gs.
        uses_priority g \<and> prefix (path_of g @ ''.'') (path_of h) \<longrightarrow> uses_priority h)"
proof -
  have "(if P then xs else []) = [] \<longleftrightarrow> (P \<longrightarrow> xs = [])" for P and xs :: "finding list" by simp
  then show ?thesis unfolding check_priority_def concat_map_Nil if_Nil below_def by auto
qed

lemma check_hierarchy_ok:
  "blocking (check_hierarchy gs) = [] \<longleftrightarrow> check_shared gs = [] \<and> check_priority gs = []"
proof -
  have "blocking (check_shares gs) = []"
    by (rule blocking_warnings) (auto simp: check_shares_def)
  moreover have "blocking (check_shared gs) = [] \<longleftrightarrow> check_shared gs = []"
    by (rule blocking_errors) (auto simp: check_shared_def)
  moreover have "blocking (check_priority gs) = [] \<longleftrightarrow> check_priority gs = []"
    by (rule blocking_errors) (auto simp: check_priority_def)
  ultimately show ?thesis by (simp add: check_hierarchy_def)
qed

lemma check_selector_ok:
  "blocking (check_selector compiles gs provider s) = [] \<longleftrightarrow> selector_ok compiles gs s"
proof -
  let ?m = "map_of (s_matchers s)" and ?sid = "selector_label s"
  let ?long = "[finding ERROR ''V7'' ?sid (ColumnTooLong column (length v) limit).
            (column, limit) \<leftarrow> REGEX_COLUMNS, v \<leftarrow> (case ?m column of None \<Rightarrow> [] | Some v \<Rightarrow> [v]),
            length v > limit]"
  let ?bad = "[finding ERROR ''V7'' ?sid (BadRegex column).
            column \<leftarrow> REGEX_SYNTAX_COLUMNS, given (?m column) \<and> \<not> compiles (or_empty (?m column))]"
  have "blocking ?long = [] \<longleftrightarrow>
          (\<forall>(column, limit) \<in> set REGEX_COLUMNS. case ?m column of None \<Rightarrow> True | Some v \<Rightarrow> length v \<le> limit)"
    by (subst blocking_errors, force)
       (simp only: concat_map_Nil case_prod_beta if_Nil, auto split: option.splits simp: not_less)
  moreover have "blocking ?bad = [] \<longleftrightarrow>
          (\<forall>column \<in> set REGEX_SYNTAX_COLUMNS. well_formed compiles (?m column))"
    by (subst blocking_errors, force) (simp only: concat_map_Nil if_Nil well_formed_given)
  moreover have "\<not> (\<not> given (s_target s) \<or> s_target s \<notin> set (map g_id gs)) \<longleftrightarrow>
          (\<exists>t. s_target s = Some t \<and> t \<noteq> [] \<and> Some t \<in> g_id ` set gs)"
    by (cases "s_target s") (auto simp: given_def or_empty_def)
  ultimately show ?thesis
    unfolding check_selector_def Let_def selector_ok_def blocking_simps append_is_Nil_conv
    by (auto simp del: set_map split: if_splits)
qed

text \<open>C20: the rules accept exactly the trees that mean something to Trino. Validation of a whole tree
  has no blocking finding if and only if every group has a name that fits its column, positive
  limits, well-formed sizes, durations and policy and a hard CPU limit wherever it has a soft one;
  no two groups share a path; everything below a \<open>query_priority\<close> group uses it too; every selector
  names an existing group and holds patterns that fit and compile; and there is a catch-all selector
  as soon as there is a group. Warnings never decide.\<close>

theorem rules_decide_tree:
  "blocking (validate_tree compiles gs ss provider) = [] \<longleftrightarrow> tree_ok compiles gs ss"
proof -
  let ?w5 = "[finding WARNING ''W5'' (path_of g) NothingSent.
        g \<leftarrow> gs, Some (path_of g) \<notin> set (map s_target ss) \<and> \<not> list_ex (below (path_of g)) gs]"
  have "blocking ?w5 = []" by (rule blocking_warnings) auto
  then have "blocking (check_selectors compiles gs ss provider) = [] \<longleftrightarrow>
      (\<forall>s \<in> set ss. selector_ok compiles gs s) \<and> (gs \<noteq> [] \<longrightarrow> (\<exists>s \<in> set ss. s_catch_all s))"
    unfolding check_selectors_def blocking_simps append_is_Nil_conv blocking_concat
    by (auto simp: check_selector_ok list_ex_iff)
  moreover have "blocking (check_groups gs) = [] \<longleftrightarrow> (\<forall>g \<in> set gs. group_ok g)"
    by (simp add: check_groups_def blocking_concat check_group_ok)
  ultimately show ?thesis
    by (auto simp: validate_tree_def check_hierarchy_ok check_shared_ok check_priority_ok tree_ok_def)
qed

end
