(* ===== verification/FleetJobs.thy ===== *)
theory FleetJobs
  imports Executor Json
begin

text \<open>
  Configured playbooks (\<^verbatim>\<open>fleet/jobs.py\<close>) and the record of their runs
  (\<open>InMemoryJobRepository\<close> of \<^verbatim>\<open>fleet/jobstore.py\<close>): declared integer parameters, job
  definitions built from the configuration, the command line of a run and what its result means.
  Job and parameter names are ASCII text, a form value is the text \<open>str(raw)\<close>; \<open>float(text)\<close> of a
  quoted number in the configuration is the argument \<open>float_text\<close>.
\<close>

datatype job_state = Running | Succeeded | Failed | Unknown

definition TERMINAL_JOB :: "job_state list" where
  "TERMINAL_JOB = [Succeeded, Failed, Unknown]"

datatype job_exn =
    MinAboveMax string int int
  | NotWhole string
  | OutOfRange string int int
  | PlaybookNotAbsolute string
  | NotMapping string
  | UnknownJob string
  | NoInventory string
  | Interpreter py_exn

section \<open>Parameters and definitions\<close>

record job_parameter =
  p_name :: string
  p_label :: string
  p_minimum :: int
  p_maximum :: int
  p_default :: int

definition new_parameter ::
    "string \<Rightarrow> string \<Rightarrow> int \<Rightarrow> int \<Rightarrow> int option \<Rightarrow> job_exn + job_parameter" where
  "new_parameter name label lo hi default_v =
     (if lo > hi then Inl (MinAboveMax name lo hi)
      else Inr \<lparr>p_name = name, p_label = (if label = [] then name else label), p_minimum = lo,
                p_maximum = hi, p_default = (case default_v of Some d \<Rightarrow> d | None \<Rightarrow> lo)\<rparr>)"

definition clean_parameter :: "job_parameter \<Rightarrow> string \<Rightarrow> job_exn + int" where
  "clean_parameter p raw =
     (case py_int (strip raw) of
        None \<Rightarrow> Inl (NotWhole (p_label p))
      | Some v \<Rightarrow>
          (if \<not> (p_minimum p \<le> v \<and> v \<le> p_maximum p)
           then Inl (OutOfRange (p_label p) (p_minimum p) (p_maximum p)) else Inr v))"

record job_definition =
  j_key :: string
  j_playbook :: string
  j_title :: string
  j_description :: string
  j_parameters :: "job_parameter list"
  j_timeout :: rat

text \<open>\<open>key.replace("_", " ").capitalize()\<close>\<close>

definition upper_char :: "char \<Rightarrow> char" where
  "upper_char c = (if 97 \<le> code c \<and> code c \<le> 122 then char_of (code c - 32) else c)"

definition capitalize :: "string \<Rightarrow> string" where
  "capitalize s = (case s of [] \<Rightarrow> [] | c # cs \<Rightarrow> upper_char c # lower cs)"

definition new_job ::
    "string \<Rightarrow> string \<Rightarrow> string \<Rightarrow> string \<Rightarrow> job_parameter list \<Rightarrow> rat \<Rightarrow> job_exn + job_definition" where
  "new_job key path title description params timeout =
     (if path = [] \<or> \<not> isabs path then Inl (PlaybookNotAbsolute key)
      else Inr \<lparr>j_key = key, j_playbook = path,
                j_title = (if title = [] then capitalize (map (\<lambda>c. if c = CHR ''_'' then CHR '' '' else c) key)
                           else title),
                j_description = description, j_parameters = params, j_timeout = timeout\<rparr>)"

text \<open>\<open>{p.name: p.clean(submitted.get(p.name, p.default)) for p in self.parameters}\<close>\<close>

fun clean_all ::
    "job_parameter list \<Rightarrow> string pydict \<Rightarrow> int pydict \<Rightarrow> job_exn + int pydict" where
  "clean_all [] submitted acc = Inr acc"
| "clean_all (p # ps) submitted acc =
     (case clean_parameter p (case map_of submitted (p_name p) of
                                Some raw \<Rightarrow> raw | None \<Rightarrow> show_int (p_default p)) of
        Inl e \<Rightarrow> Inl e
      | Inr v \<Rightarrow> clean_all ps submitted (dset (p_name p) v acc))"

definition clean_job :: "job_definition \<Rightarrow> string pydict \<Rightarrow> job_exn + int pydict" where
  "clean_job j submitted = clean_all (j_parameters j) submitted []"

section \<open>From the configuration\<close>

text \<open>\<open>int(x)\<close> and \<open>float(x)\<close> of a configured value.\<close>

definition config_int :: "json \<Rightarrow> job_exn + int" where
  "config_int j = map_sum Interpreter id (to_int j)"

definition config_float :: "(string \<Rightarrow> rat option) \<Rightarrow> json \<Rightarrow> job_exn + rat" where
  "config_float float_text j =
     (case j of JNum n \<Rightarrow> Inr n
      | JBool b \<Rightarrow> Inr (if b then 1 else 0)
      | JStr s \<Rightarrow> (case float_text s of None \<Rightarrow> Inl (Interpreter ValueError) | Some x \<Rightarrow> Inr x)
      | _ \<Rightarrow> Inl (Interpreter TypeError))"

definition or_text :: "(json \<Rightarrow> string) \<Rightarrow> json \<Rightarrow> string" where
  "or_text shown j = (if truthy j then str_of shown j else [])"

definition build_parameter :: "(json \<Rightarrow> string) \<Rightarrow> string \<Rightarrow> json \<Rightarrow> job_exn + job_parameter" where
  "build_parameter shown name spec =
     (case or_dict spec of
        Inl e \<Rightarrow> Inl (Interpreter e)
      | Inr fs \<Rightarrow>
          (case config_int (get_or ''min'' (JNum 1) fs) of
             Inl e \<Rightarrow> Inl e
           | Inr lo \<Rightarrow>
               (case config_int (get_or ''max'' (JNum 10) fs) of
                  Inl e \<Rightarrow> Inl e
                | Inr hi \<Rightarrow>
                    (if dget ''default'' fs = JNull
                     then new_parameter name (or_text shown (dget ''label'' fs)) lo hi None
                     else case config_int (dget ''default'' fs) of
                            Inl e \<Rightarrow> Inl e
                          | Inr d \<Rightarrow> new_parameter name (or_text shown (dget ''label'' fs)) lo hi (Some d)))))"

definition build_job ::
    "(json \<Rightarrow> string) \<Rightarrow> (string \<Rightarrow> rat option) \<Rightarrow> string \<times> json \<Rightarrow> job_exn + (string \<times> job_definition)" where
  "build_job shown float_text kv =
     (case kv of
        (key, entry) \<Rightarrow>
          (case fields_of entry of
             None \<Rightarrow> Inl (NotMapping key)
           | Some fs \<Rightarrow>
               (case or_dict (dget ''parameters'' fs) of
                  Inl e \<Rightarrow> Inl (Interpreter e)
                | Inr specs \<Rightarrow>
                    (case map_exn (\<lambda>(n, sp). build_parameter shown n sp) (sort_by fst specs) of
                       Inl e \<Rightarrow> Inl e
                     | Inr params \<Rightarrow>
                         (case config_float float_text (get_or ''timeout_seconds'' (JNum 1800) fs) of
                            Inl e \<Rightarrow> Inl e
                          | Inr timeout \<Rightarrow>
                              map_sum id (Pair key)
                                (new_job key (or_text shown (dget ''playbook'' fs))
                                   (or_text shown (dget ''title'' fs))
                                   (or_text shown (dget ''description'' fs)) params timeout))))))"

definition build_jobs ::
    "(json \<Rightarrow> string) \<Rightarrow> (string \<Rightarrow> rat option) \<Rightarrow> (string \<times> json) list \<Rightarrow>
     job_exn + job_definition pydict" where
  "build_jobs shown float_text raw = map_exn (build_job shown float_text) (sort_by fst raw)"

section \<open>The runner\<close>

record job_runner =
  jobs :: "job_definition pydict"
  cluster_inventories :: "string pydict"
  runner_binary :: string
  runner_state_dir :: string

definition find_job :: "job_runner \<Rightarrow> string \<Rightarrow> job_exn + job_definition" where
  "find_job r key =
     (case map_of (jobs r) key of None \<Rightarrow> Inl (UnknownJob key) | Some j \<Rightarrow> Inr j)"

definition job_command :: "job_runner \<Rightarrow> string \<Rightarrow> string \<Rightarrow> int pydict \<Rightarrow> job_exn + string list" where
  "job_command r key cl params =
     (case find_job r key of
        Inl e \<Rightarrow> Inl e
      | Inr j \<Rightarrow>
          (case map_of (cluster_inventories r) cl of
             None \<Rightarrow> Inl (NoInventory cl)
           | Some inventory \<Rightarrow>
               Inr ([runner_binary r, ''--inventory'', inventory, j_playbook j] @
                    concat (map (\<lambda>(n, v). [''--extra-vars'', n @ ''='' @ show_int v])
                                (sort_by fst params)))))"

text \<open>What \<open>stream_command\<close> reports: a code, a failure to start, or a timeout; \<open>Crashed\<close> is an
  exception inside the worker thread.\<close>

datatype job_result = Ran stream_result | Crashed string

record job_outcome =
  o_state :: job_state
  o_exit_code :: "int option"
  o_error :: "string option"

definition job_outcome_of :: "job_result \<Rightarrow> job_outcome" where
  "job_outcome_of r =
     (case r of
        Crashed e \<Rightarrow> \<lparr>o_state = Failed, o_exit_code = None, o_error = Some e\<rparr>
      | Ran TimedOut \<Rightarrow>
          \<lparr>o_state = Failed, o_exit_code = None,
           o_error = Some (''The playbook was still running when the timeout expired and was killed. '' @
             ''Whatever it had already done on the nodes has been done.'')\<rparr>
      | Ran (NotStarted e) \<Rightarrow>
          (if e = [] then \<lparr>o_state = Failed, o_exit_code = None,
                           o_error = Some ''The playbook exited with code None.''\<rparr>
           else \<lparr>o_state = Failed, o_exit_code = None, o_error = Some e\<rparr>)
      | Ran (Exited rc) \<Rightarrow>
          (if rc = 0 then \<lparr>o_state = Succeeded, o_exit_code = Some 0, o_error = None\<rparr>
           else \<lparr>o_state = Failed, o_exit_code = Some rc,
                 o_error = Some (''The playbook exited with code '' @ show_int rc @ ''.'')\<rparr>))"

section \<open>The record of runs\<close>

record job_run =
  jr_id :: nat
  jr_cluster :: string
  jr_job :: string
  jr_actor :: string
  jr_roles :: "string list"
  jr_reason :: string
  jr_parameters :: "int pydict"
  jr_state :: job_state
  jr_exit_code :: "int option"
  jr_error :: "string option"
  jr_started_at :: nat
  jr_finished_at :: "nat option"

record job_store =
  job_runs :: "job_run list"
  job_output :: "(nat \<times> (string \<times> string) list) list"
  next_job :: nat

definition new_job_store :: job_store where
  "new_job_store = \<lparr>job_runs = [], job_output = [], next_job = 1\<rparr>"

datatype store_exn = ActiveJobExists string | JobStoreUnavailable string

definition create_run ::
    "nat \<Rightarrow> string \<Rightarrow> string \<Rightarrow> string \<Rightarrow> string list \<Rightarrow> string \<Rightarrow> int pydict \<Rightarrow> job_store \<Rightarrow>
     store_exn + (job_run \<times> job_store)" where
  "create_run now cl job actor roles reason params st =
     (if list_ex (\<lambda>r. jr_state r = Running \<and> jr_cluster r = cl) (job_runs st)
      then Inl (ActiveJobExists cl)
      else let r = \<lparr>jr_id = next_job st, jr_cluster = cl, jr_job = job, jr_actor = actor,
                    jr_roles = roles, jr_reason = reason, jr_parameters = params,
                    jr_state = Running, jr_exit_code = None, jr_error = None,
                    jr_started_at = now, jr_finished_at = None\<rparr>
           in Inr (r, st\<lparr>next_job := next_job st + 1, job_runs := job_runs st @ [r],
                        job_output := dset (next_job st) [] (job_output st)\<rparr>))"

definition append_output :: "nat \<Rightarrow> string \<Rightarrow> string \<Rightarrow> job_store \<Rightarrow> job_store" where
  "append_output rid lvl message st =
     st\<lparr>job_output :=
          dset rid ((case map_of (job_output st) rid of None \<Rightarrow> [] | Some ls \<Rightarrow> ls) @ [(lvl, message)])
               (job_output st)\<rparr>"

definition finish_run_row :: "nat \<Rightarrow> nat \<Rightarrow> job_outcome \<Rightarrow> job_store \<Rightarrow> job_store" where
  "finish_run_row now rid out st =
     st\<lparr>job_runs :=
          map (\<lambda>r. if jr_id r = rid
                   then r\<lparr>jr_state := o_state out, jr_exit_code := o_exit_code out,
                          jr_error := o_error out,
                          jr_finished_at := (if o_state out = Unknown then None else Some now)\<rparr>
                   else r) (job_runs st)\<rparr>"

definition get_run :: "nat \<Rightarrow> job_store \<Rightarrow> (job_run \<times> (string \<times> string) list \<times> bool) option" where
  "get_run rid st =
     map_option (\<lambda>r. (r, (case map_of (job_output st) (jr_id r) of None \<Rightarrow> [] | Some ls \<Rightarrow> ls),
                      jr_state r \<in> set TERMINAL_JOB))
       (find (\<lambda>r. jr_id r = rid) (job_runs st))"

definition of_cluster :: "string option \<Rightarrow> job_run \<Rightarrow> bool" where
  "of_cluster cl r = (case cl of None \<Rightarrow> True | Some c \<Rightarrow> jr_cluster r = c)"

definition recent_runs :: "nat \<Rightarrow> string option \<Rightarrow> job_store \<Rightarrow> job_run list" where
  "recent_runs limit cl st =
     take limit (rev (sort_key jr_id (rev (filter (of_cluster cl) (job_runs st)))))"

definition active_runs :: "string option \<Rightarrow> job_store \<Rightarrow> job_run list" where
  "active_runs cl st = filter (\<lambda>r. jr_state r = Running \<and> of_cluster cl r) (job_runs st)"

section \<open>What reaches the command line\<close>

text \<open>The way a request takes: find the job, clean its parameters, build the command.\<close>

definition requested_command ::
    "job_runner \<Rightarrow> string \<Rightarrow> string \<Rightarrow> string pydict \<Rightarrow> job_exn + string list" where
  "requested_command r key cl submitted =
     (case find_job r key of
        Inl e \<Rightarrow> Inl e
      | Inr j \<Rightarrow>
          (case clean_job j submitted of Inl e \<Rightarrow> Inl e | Inr params \<Rightarrow> job_command r key cl params))"

definition bounded_by :: "job_parameter list \<Rightarrow> string \<times> int \<Rightarrow> bool" where
  "bounded_by ps nv \<longleftrightarrow>
     (\<exists>p \<in> set ps. p_name p = fst nv \<and> p_minimum p \<le> snd nv \<and> snd nv \<le> p_maximum p)"

definition extra_var :: "string \<times> int \<Rightarrow> string list" where
  "extra_var nv = [''--extra-vars'', fst nv @ ''='' @ show_int (snd nv)]"

lemma clean_parameter_bounds:
  "clean_parameter p raw = Inr v \<Longrightarrow> p_minimum p \<le> v \<and> v \<le> p_maximum p"
  by (auto simp: clean_parameter_def split: option.splits if_splits)

lemma set_dset: "set (dset k v xs) \<subseteq> insert (k, v) (set xs)"
proof (induction xs)
  case (Cons x xs)
  then show ?case by (cases x) auto
qed simp

lemma clean_all_bounds:
  assumes "clean_all ps submitted acc = Inr params"
    and "\<forall>nv \<in> set acc. bounded_by qs nv" and "set ps \<subseteq> set qs"
  shows "(\<forall>nv \<in> set params. bounded_by qs nv) \<and>
         fst ` set params = p_name ` set ps \<union> fst ` set acc"
  using assms
proof (induction ps arbitrary: acc)
  case (Cons p ps)
  obtain raw v where v: "clean_parameter p raw = Inr v"
    and rest: "clean_all ps submitted (dset (p_name p) v acc) = Inr params"
    using Cons.prems(1) by (auto split: sum.splits)
  have "bounded_by qs (p_name p, v)"
    using Cons.prems(3) clean_parameter_bounds [OF v] by (auto simp: bounded_by_def)
  then have "\<forall>nv \<in> set (dset (p_name p) v acc). bounded_by qs nv"
    using Cons.prems(2) set_dset [of "p_name p" v acc] by blast
  then show ?case using Cons.IH [OF rest] Cons.prems(3) by auto
qed simp

lemma show_int_chars: "list_all (\<lambda>c. is_ascii_digit c \<or> c = CHR ''-'') (show_int n)"
  using show_nat_digits by (auto simp: show_int_def list_all_iff)


definition demo_job :: job_definition where
  "demo_job = \<lparr>j_key = ''scale_out'', j_playbook = ''/opt/scale.yml'', j_title = ''Scale out'',
     j_description = [],
     j_parameters = [\<lparr>p_name = ''count'', p_label = ''Workers'', p_minimum = 1, p_maximum = 5,
                      p_default = 1\<rparr>], j_timeout = 1800\<rparr>"

definition demo_runner :: job_runner where
  "demo_runner = \<lparr>jobs = [(''scale_out'', demo_job)], cluster_inventories = [(''a'', ''/etc/inv'')],
     runner_binary = ''ansible-playbook'', runner_state_dir = ''/var/lib/tms''\<rparr>"

lemma demo_command:
  "requested_command demo_runner ''scale_out'' ''a'' [(''count'', '' 3 ''), (''x'', ''; rm -rf /'')] =
     Inr [''ansible-playbook'', ''--inventory'', ''/etc/inv'', ''/opt/scale.yml'',
          ''--extra-vars'', ''count=3'']"
  by code_simp


section \<open>The life of a run\<close>

datatype job_op =
    Create nat string string string "string list" string "int pydict"
  | Output nat string string
  | Finish nat nat job_result

fun job_step :: "job_op \<Rightarrow> job_store \<Rightarrow> store_exn + job_store" where
  "job_step (Create now cl job actor roles reason params) st =
     map_sum id snd (create_run now cl job actor roles reason params st)"
| "job_step (Output rid lvl message) st = Inr (append_output rid lvl message st)"
| "job_step (Finish now rid result) st = Inr (finish_run_row now rid (job_outcome_of result) st)"

definition store_ok :: "job_store \<Rightarrow> bool" where
  "store_ok st \<longleftrightarrow>
     distinct (map jr_id (job_runs st)) \<and> (\<forall>r \<in> set (job_runs st). jr_id r < next_job st) \<and>
     distinct (map jr_cluster (filter (\<lambda>r. jr_state r = Running) (job_runs st))) \<and>
     (\<forall>r \<in> set (job_runs st). jr_state r \<noteq> Unknown \<and>
        (jr_state r = Running \<longleftrightarrow> jr_finished_at r = None) \<and>
        (jr_state r = Succeeded \<longrightarrow> jr_exit_code r = Some 0 \<and> jr_error r = None) \<and>
        (jr_state r = Failed \<longrightarrow> jr_error r \<noteq> None))"

lemma outcome_shape:
  "o_state (job_outcome_of res) \<in> {Succeeded, Failed} \<and>
   (o_state (job_outcome_of res) = Succeeded \<longrightarrow>
      res = Ran (Exited 0) \<and> o_exit_code (job_outcome_of res) = Some 0 \<and>
      o_error (job_outcome_of res) = None) \<and>
   (o_state (job_outcome_of res) = Failed \<longrightarrow> o_error (job_outcome_of res) \<noteq> None)"
  by (auto simp: job_outcome_of_def split: job_result.splits stream_result.splits)

lemma store_ok_create:
  assumes "store_ok st" "create_run now cl job actor roles reason params st = Inr (r, st')"
  shows "store_ok st'"
  using assms
  by (fastforce simp: store_ok_def create_run_def Let_def list_ex_iff split: if_splits)

definition finished :: "nat \<Rightarrow> nat \<Rightarrow> job_result \<Rightarrow> job_run \<Rightarrow> job_run" where
  "finished now rid res r =
     (let out = job_outcome_of res
      in if jr_id r = rid
         then r\<lparr>jr_state := o_state out, jr_exit_code := o_exit_code out, jr_error := o_error out,
                jr_finished_at := (if o_state out = Unknown then None else Some now)\<rparr>
         else r)"

lemma finish_run_row_map:
  "finish_run_row now rid (job_outcome_of res) st = st\<lparr>job_runs := map (finished now rid res) (job_runs st)\<rparr>"
  unfolding finish_run_row_def finished_def [abs_def] Let_def by (rule refl)

lemma finished_ids: "jr_id (finished now rid res r) = jr_id r"
  by (simp add: finished_def Let_def)

lemma finished_running:
  "map jr_cluster (filter (\<lambda>r. jr_state r = Running) (map (finished now rid res) rs)) =
   map jr_cluster (filter (\<lambda>r. jr_id r \<noteq> rid) (filter (\<lambda>r. jr_state r = Running) rs))"
  using outcome_shape [of res] by (induction rs) (auto simp: finished_def Let_def)

lemma distinct_map_filter': "distinct (map f xs) \<Longrightarrow> distinct (map f (filter P xs))"
  by (induction xs) auto

lemma store_ok_finish:
  assumes "store_ok st"
  shows "store_ok (finish_run_row now rid (job_outcome_of res) st)"
proof -
  have row: "jr_state r' \<noteq> Unknown \<and> (jr_state r' = Running \<longleftrightarrow> jr_finished_at r' = None) \<and>
        (jr_state r' = Succeeded \<longrightarrow> jr_exit_code r' = Some 0 \<and> jr_error r' = None) \<and>
        (jr_state r' = Failed \<longrightarrow> jr_error r' \<noteq> None)"
    if "r \<in> set (job_runs st)" "r' = finished now rid res r" for r r'
    using assms that outcome_shape [of res] by (auto simp: store_ok_def finished_def Let_def)
  have runs: "job_runs (st\<lparr>job_runs := xs\<rparr>) = xs" for xs by simp
  show ?thesis
    unfolding store_ok_def finish_run_row_map
  proof (intro conjI)
    show "distinct (map jr_id (job_runs (st\<lparr>job_runs := map (finished now rid res) (job_runs st)\<rparr>)))"
      using assms by (simp add: store_ok_def finished_ids comp_def)
    show "distinct (map jr_cluster (filter (\<lambda>r. jr_state r = Running)
            (job_runs (st\<lparr>job_runs := map (finished now rid res) (job_runs st)\<rparr>))))"
      unfolding runs finished_running
      by (rule distinct_map_filter') (use assms in \<open>simp add: store_ok_def\<close>)
  qed (use assms row in \<open>auto simp: store_ok_def finished_ids\<close>)
qed

lemma job_step_ok: "store_ok st \<Longrightarrow> job_step op st = Inr st' \<Longrightarrow> store_ok st'"
proof (cases op)
  case (Create now cl job actor roles reason params)
  assume st: "store_ok st" and step: "job_step op st = Inr st'"
  obtain r where "create_run now cl job actor roles reason params st = Inr (r, st')"
    using step Create by (cases "create_run now cl job actor roles reason params st") auto
  then show ?thesis by (rule store_ok_create [OF st])
next
  case (Finish now rid res)
  then show "store_ok st \<Longrightarrow> job_step op st = Inr st' \<Longrightarrow> ?thesis"
    using store_ok_finish by auto
qed (auto simp: store_ok_def append_output_def)

text \<open>a cluster has at most one running job, whatever requests, output and endings arrive in
  whatever order: of two runs marked as running the clusters differ, no two runs share an id, a run
  has an end time exactly when it is over, a success is an observed exit code 0, and a failure
  always says why.\<close>

theorem one_job_per_cluster:
  "store_ok (run_all job_step ops new_job_store)"
proof (rule run_all_inv)
  show "store_ok new_job_store" by (simp add: store_ok_def new_job_store_def)
qed (rule job_step_ok)

end
