(* ===== verification/Schedules.thy ===== *)
theory Schedules
  imports FleetJobs
begin

text \<open>
  When a benchmark runs without anybody pressing anything (\<^verbatim>\<open>bench/schedules.py\<close>):
  the checks on a schedule, the next firing time, and the store with its atomic claim. Instants are
  whole microseconds, as \<open>datetime\<close> keeps them; the division of two float spans in \<open>advance\<close> is the
  exact one here.
\<close>

definition MIN_INTERVAL_MINUTES :: int where "MIN_INTERVAL_MINUTES = 15"
definition MAX_INTERVAL_MINUTES :: int where "MAX_INTERVAL_MINUTES = 60 * 24 * 90"
definition FAILURE_LIMIT :: int where "FAILURE_LIMIT = 3"

section \<open>What may be scheduled\<close>

datatype schedule_exn =
    NameNeeded | NameTooLong | ReasonNeeded | IntervalNotNumber | IntervalTooShort | IntervalTooLong
  | RepetitionsNotNumber | RepetitionsRange | NoCluster | DuplicateSchedule string

record schedule_fields =
  sf_name :: string
  sf_interval :: int
  sf_repetitions :: int
  sf_clusters :: "string list"
  sf_reason :: string

definition validate_schedule ::
    "string option \<Rightarrow> json \<Rightarrow> json \<Rightarrow> string list option \<Rightarrow> string option \<Rightarrow>
     schedule_exn + schedule_fields" where
  "validate_schedule name interval_minutes repetitions clusters reason =
     (let n = strip (case name of Some s \<Rightarrow> s | None \<Rightarrow> [])
      in if n = [] then Inl NameNeeded
         else if length n > 200 then Inl NameTooLong
         else if blank_opt reason then Inl ReasonNeeded
         else case to_int interval_minutes of
                Inl _ \<Rightarrow> Inl IntervalNotNumber
              | Inr interval \<Rightarrow>
                  (if interval < MIN_INTERVAL_MINUTES then Inl IntervalTooShort
                   else if interval > MAX_INTERVAL_MINUTES then Inl IntervalTooLong
                   else case to_int repetitions of
                          Inl _ \<Rightarrow> Inl RepetitionsNotNumber
                        | Inr reps \<Rightarrow>
                            (if \<not> (1 \<le> reps \<and> reps \<le> 50) then Inl RepetitionsRange
                             else let chosen = filter (\<lambda>c. c \<noteq> []) (case clusters of Some cs \<Rightarrow> cs | None \<Rightarrow> [])
                                  in if chosen = [] then Inl NoCluster
                                     else Inr \<lparr>sf_name = n, sf_interval = interval,
                                               sf_repetitions = reps, sf_clusters = chosen,
                                               sf_reason = (case reason of Some r \<Rightarrow> strip r | None \<Rightarrow> [])\<rparr>)))"

section \<open>The next firing\<close>

definition step_of :: "int \<Rightarrow> int" where
  "step_of interval_minutes = interval_minutes * 60 * 1000000"

definition advance :: "int \<Rightarrow> int \<Rightarrow> int \<Rightarrow> int" where
  "advance next_run_at interval_minutes now =
     (let stp = step_of interval_minutes; nxt = next_run_at + stp
      in if nxt \<le> now
         then let missed = (now - next_run_at) div stp in next_run_at + stp * (missed + 1)
         else nxt)"

section \<open>The store\<close>

record schedule =
  sc_id :: nat
  sc_name :: string
  sc_query_set :: string
  sc_clusters :: "string list"
  sc_repetitions :: int
  sc_label :: "string option"
  sc_reason :: string
  sc_interval :: int
  sc_next_run_at :: int
  sc_created_by :: string
  sc_enabled :: bool
  sc_paused_reason :: "string option"
  sc_consecutive_failures :: int
  sc_last_run_at :: "int option"
  sc_last_outcome :: "string option"
  sc_created_at :: int

record schedule_store =
  sc_rows :: "schedule list"
  sc_next_id :: nat

definition create_schedule :: "int \<Rightarrow> schedule \<Rightarrow> schedule_store \<Rightarrow> schedule_exn + (schedule \<times> schedule_store)" where
  "create_schedule now given st =
     (if list_ex (\<lambda>r. sc_name r = sc_name given) (sc_rows st)
      then Inl (DuplicateSchedule (sc_name given))
      else let row = given\<lparr>sc_id := sc_next_id st, sc_enabled := True, sc_paused_reason := None,
                            sc_consecutive_failures := 0, sc_last_run_at := None,
                            sc_last_outcome := None, sc_created_at := now\<rparr>
           in Inr (row, st\<lparr>sc_next_id := sc_next_id st + 1, sc_rows := sc_rows st @ [row]\<rparr>))"

definition list_schedules :: "schedule_store \<Rightarrow> schedule list" where
  "list_schedules st = sort_by sc_name (sc_rows st)"

definition get_schedule :: "nat \<Rightarrow> schedule_store \<Rightarrow> schedule option" where
  "get_schedule sid st = find (\<lambda>r. sc_id r = sid) (sc_rows st)"

fun update_first :: "nat \<Rightarrow> (schedule \<Rightarrow> schedule) \<Rightarrow> schedule list \<Rightarrow> schedule list" where
  "update_first sid f [] = []"
| "update_first sid f (r # rs) = (if sc_id r = sid then f r # rs else r # update_first sid f rs)"

definition update_schedule ::
    "nat \<Rightarrow> (schedule \<Rightarrow> schedule) \<Rightarrow> schedule_store \<Rightarrow> schedule option \<times> schedule_store" where
  "update_schedule sid changes st =
     (map_option changes (get_schedule sid st),
      st\<lparr>sc_rows := update_first sid changes (sc_rows st)\<rparr>)"

definition delete_schedule :: "nat \<Rightarrow> schedule_store \<Rightarrow> bool \<times> schedule_store" where
  "delete_schedule sid st =
     (let kept = filter (\<lambda>r. sc_id r \<noteq> sid) (sc_rows st)
      in (length kept \<noteq> length (sc_rows st), st\<lparr>sc_rows := kept\<rparr>))"

definition due :: "int \<Rightarrow> schedule \<Rightarrow> bool" where
  "due now r \<longleftrightarrow> sc_enabled r \<and> sc_next_run_at r \<le> now"

definition moved :: "int \<Rightarrow> schedule \<Rightarrow> schedule" where
  "moved now r = r\<lparr>sc_next_run_at := advance (sc_next_run_at r) (sc_interval r) now\<rparr>"

text \<open>The loop of \<open>claim_due\<close>: the claimed rows, and all rows after it.\<close>

fun claim_rows :: "int \<Rightarrow> schedule list \<Rightarrow> schedule list \<times> schedule list" where
  "claim_rows now [] = ([], [])"
| "claim_rows now (r # rs) =
     (case claim_rows now rs of
        (claimed, rows) \<Rightarrow>
          if due now r then (moved now r # claimed, moved now r # rows) else (claimed, r # rows))"

definition claim_due :: "int \<Rightarrow> schedule_store \<Rightarrow> schedule list \<times> schedule_store" where
  "claim_due now st =
     (case claim_rows now (sc_rows st) of (claimed, rows) \<Rightarrow> (claimed, st\<lparr>sc_rows := rows\<rparr>))"

section \<open>Properties\<close>

lemma step_pos: "0 < interval \<Longrightarrow> 0 < step_of interval"
  by (simp add: step_of_def)

lemma advance_eq:
  assumes "0 < interval"
  shows "advance t interval now =
           t + step_of interval * (max 0 ((now - t) div step_of interval) + 1)"
proof -
  let ?s = "step_of interval"
  have s: "0 < ?s" using assms by (rule step_pos)
  show ?thesis
  proof (cases "t + ?s \<le> now")
    case True
    then have "0 \<le> now - t" using s by linarith
    then have "0 \<le> (now - t) div ?s" using s by (simp add: pos_imp_zdiv_nonneg_iff)
    then show ?thesis using True by (simp add: advance_def Let_def)
  next
    case False
    then have "now - t < ?s * 1" by linarith
    then have "(now - t) div ?s \<le> 0"
      using s div_neg_pos_less0 [of "now - t" ?s]
      by (cases "0 \<le> now - t") (simp_all add: div_pos_pos_trivial)
    then show ?thesis using False by (simp add: advance_def Let_def max_def)
  qed
qed

lemma advance_least:
  assumes "0 < interval"
  shows "t < advance t interval now" and "now < advance t interval now"
    and "(advance t interval now - t) mod step_of interval = 0"
    and "advance t interval now - step_of interval \<le> max t now"
proof -
  let ?s = "step_of interval" and ?q = "(now - t) div step_of interval"
  have s: "0 < ?s" using assms by (rule step_pos)
  have eq: "advance t interval now = t + ?s * (max 0 ?q + 1)" using assms by (rule advance_eq)
  have eq': "advance t interval now = t + ?s * max 0 ?q + ?s" using eq by (simp add: algebra_simps)
  have "0 < ?s * (max 0 ?q + 1)" using s by simp
  then show "t < advance t interval now" using eq by linarith
  have dm: "now - t = ?s * ?q + (now - t) mod ?s" by simp
  have md: "0 \<le> (now - t) mod ?s" "(now - t) mod ?s < ?s" using s by auto
  have "?s * ?q \<le> ?s * max 0 ?q" using s by (intro mult_left_mono) auto
  then show "now < advance t interval now" using eq' dm md by linarith
  show "(advance t interval now - t) mod ?s = 0" using eq by simp
  have "advance t interval now - ?s = t + ?s * max 0 ?q" using eq' by linarith
  moreover have "t + ?s * max 0 ?q \<le> max t now"
  proof (cases "0 \<le> ?q")
    case True
    then have "t + ?s * max 0 ?q = t + ?s * ?q" by simp
    then show ?thesis using dm md by linarith
  qed simp
  ultimately show "advance t interval now - ?s \<le> max t now" by linarith
qed

text \<open>a schedule keeps its time of day and never catches up. The next firing lies after both
  the last scheduled time and the present, a whole number of intervals from the last scheduled time,
  and it is the first such moment, one interval earlier would
  not do, however long the service was away.\<close>

theorem next_firing_is_first_on_grid:
  assumes "0 < interval"
  shows "max t now < advance t interval now \<and>
         (advance t interval now - t) mod step_of interval = 0 \<and>
         advance t interval now - step_of interval \<le> max t now"
  using advance_least [OF assms, where t = t and now = now] by simp

lemma next_firing_is_first_on_grid_witness:
  "max 0 (200 * 60 * 1000000) < advance 0 60 (200 * 60 * 1000000) \<and>
   (advance 0 60 (200 * 60 * 1000000) - 0) mod step_of 60 = 0 \<and>
   advance 0 60 (200 * 60 * 1000000) - step_of 60 \<le> max 0 (200 * 60 * 1000000)"
  by (rule next_firing_is_first_on_grid) simp

lemma claim_rows_eq:
  "claim_rows now rows =
     (map (moved now) (filter (due now) rows),
      map (\<lambda>r. if due now r then moved now r else r) rows)"
  by (induction rows) auto

lemma not_due_after:
  "0 < sc_interval r \<Longrightarrow> due now r \<Longrightarrow> \<not> due now (moved now r)"
  using advance_least(2) [of "sc_interval r" now "sc_next_run_at r"]
  by (simp add: due_def moved_def)

text \<open>every due schedule is claimed exactly once. A claim hands out the enabled schedules whose
  time has come, in their order and no others, leaves every other row as it was, and moves each
  handed out row to a firing after the present, so that a second claim at the same moment finds
  nothing.\<close>

theorem claim_once:
  assumes "list_all (\<lambda>r. 0 < sc_interval r) (sc_rows st)"
  shows "case claim_due now st of
           (claimed, st') \<Rightarrow>
             map sc_id claimed = map sc_id (filter (due now) (sc_rows st)) \<and>
             map sc_id (sc_rows st') = map sc_id (sc_rows st) \<and>
             filter (\<lambda>r. sc_id r \<notin> set (map sc_id claimed)) (sc_rows st') =
               filter (\<lambda>r. sc_id r \<notin> set (map sc_id claimed)) (sc_rows st) \<and>
             list_all (\<lambda>r. now < sc_next_run_at r) claimed \<and>
             claim_due now st' = ([], st')"
proof -
  let ?f = "\<lambda>r. if due now r then moved now r else r"
  obtain claimed st' where cl: "claim_due now st = (claimed, st')" by (cases "claim_due now st")
  have c: "claimed = map (moved now) (filter (due now) (sc_rows st))"
    and s: "st' = st\<lparr>sc_rows := map ?f (sc_rows st)\<rparr>"
    using cl by (auto simp: claim_due_def claim_rows_eq)
  have ids: "sc_id (moved now r) = sc_id r" for r by (simp add: moved_def)
  have none: "filter (due now) (map ?f (sc_rows st)) = []"
    using assms not_due_after [of _ now] by (auto simp: filter_empty_conv list_all_iff)
  have stay: "map (\<lambda>r. if due now r then moved now r else r) rows = rows"
    if "filter (due now) rows = []" for rows
    using that by (induction rows) (auto split: if_splits)
  have kept: "filter (\<lambda>r. sc_id r \<notin> A) (map ?f rows) = filter (\<lambda>r. sc_id r \<notin> A) rows"
    if "sc_id ` set (filter (due now) rows) \<subseteq> A" for rows A
    using that by (induction rows) (auto simp: ids)
  have "claim_due now st' = ([], st')"
    unfolding s claim_due_def claim_rows_eq using none stay [OF none] by simp
  moreover have "list_all (\<lambda>r. now < sc_next_run_at r) claimed"
    using assms advance_least(2) unfolding c by (auto simp: list_all_iff moved_def)
  moreover have "filter (\<lambda>r. sc_id r \<notin> set (map sc_id claimed)) (sc_rows st') =
      filter (\<lambda>r. sc_id r \<notin> set (map sc_id claimed)) (sc_rows st)"
    unfolding s c using kept by (simp add: ids image_image del: filter_map)
  ultimately show ?thesis
    unfolding cl prod.case using c s by (simp add: ids comp_def if_distrib)
qed

definition demo_schedule :: schedule where
  "demo_schedule = \<lparr>sc_id = 1, sc_name = ''nightly'', sc_query_set = ''tpch'', sc_clusters = [''a''],
     sc_repetitions = 3, sc_label = None, sc_reason = ''trend'', sc_interval = 15,
     sc_next_run_at = 100, sc_created_by = ''ops'', sc_enabled = True, sc_paused_reason = None,
     sc_consecutive_failures = 0, sc_last_run_at = None, sc_last_outcome = None, sc_created_at = 0\<rparr>"

definition demo_schedules :: schedule_store where
  "demo_schedules = \<lparr>sc_rows = [demo_schedule], sc_next_id = 2\<rparr>"

lemma claim_once_witness:
  "case claim_due 500 demo_schedules of
     (claimed, st') \<Rightarrow>
       map sc_id claimed = map sc_id (filter (due 500) (sc_rows demo_schedules)) \<and>
       map sc_id (sc_rows st') = map sc_id (sc_rows demo_schedules) \<and>
       filter (\<lambda>r. sc_id r \<notin> set (map sc_id claimed)) (sc_rows st') =
         filter (\<lambda>r. sc_id r \<notin> set (map sc_id claimed)) (sc_rows demo_schedules) \<and>
       list_all (\<lambda>r. 500 < sc_next_run_at r) claimed \<and>
       claim_due 500 st' = ([], st')"
  by (rule claim_once) (simp add: demo_schedules_def demo_schedule_def)

end
