(* ===== verification/BenchGuard.thy ===== *)
theory BenchGuard
  imports Snapshots
begin

text \<open>
  Was a cluster out of rotation and idle when a benchmark ran? (\<^verbatim>\<open>bench/guard.py\<close>). The
  Gateway's live answer is an argument: None without an integration, otherwise the list of backends
  or a failure. Values keep the shape they have in the stored JSON, and reading them may raise as in
  the program.
\<close>

definition NO_GATEWAY :: string where "NO_GATEWAY = ''no_gateway''"
definition NO_BACKEND :: string where "NO_BACKEND = ''no_backend''"
definition STILL_ROUTED :: string where "STILL_ROUTED = ''still_routed''"
definition GATEWAY_UNREACHABLE :: string where "GATEWAY_UNREACHABLE = ''gateway_unreachable''"
definition QUERIES_RUNNING :: string where "QUERIES_RUNNING = ''queries_running''"
definition NO_QUERY_VIEW :: string where "NO_QUERY_VIEW = ''no_query_view''"
definition STALE_QUERY_VIEW :: string where "STALE_QUERY_VIEW = ''stale_query_view''"

record guard_result =
  gr_cluster :: string
  refusals :: "string list"
  gr_backends :: "(json \<times> bool option) list"
  running_queries :: "int option"
  observed_at :: "rat option"
  checked_gateway_live :: bool

definition new_guard_result :: "string \<Rightarrow> guard_result" where
  "new_guard_result c = \<lparr>gr_cluster = c, refusals = [], gr_backends = [], running_queries = None,
                         observed_at = None, checked_gateway_live = False\<rparr>"

definition guard_ok :: "guard_result \<Rightarrow> bool" where
  "guard_ok g \<longleftrightarrow> refusals g = []"

definition refuse :: "string \<Rightarrow> guard_result \<Rightarrow> guard_result" where
  "refuse c g = (if c \<notin> set (refusals g) then g\<lparr>refusals := refusals g @ [c]\<rparr> else g)"

record envelope =
  en_stale :: bool
  en_collected_at :: "rat option"
  en_data :: json

type_synonym fields = "(string \<times> json) list"

text \<open>The members of a JSON list that are iterated as dictionaries.\<close>

definition dicts_of :: "json \<Rightarrow> py_exn + fields list" where
  "dicts_of j =
     (case j of
        JList xs \<Rightarrow> map_exn (\<lambda>x. case fields_of x of None \<Rightarrow> Inl AttributeError | Some fs \<Rightarrow> Inr fs) xs
      | JObj fs \<Rightarrow> (if fs = [] then Inr [] else Inl AttributeError)
      | JStr s \<Rightarrow> (if s = [] then Inr [] else Inl AttributeError)
      | _ \<Rightarrow> Inl TypeError)"

definition mapped_backends :: "string \<Rightarrow> snapshot option \<Rightarrow> py_exn + fields list" where
  "mapped_backends c sn =
     (case or_dict (case sn of None \<Rightarrow> JObj [] | Some s \<Rightarrow> sn_payload s) of
        Inl e \<Rightarrow> Inl e
      | Inr fs \<Rightarrow>
          (case dicts_of (get_or ''backends'' (JList []) fs) of
             Inl e \<Rightarrow> Inl e
           | Inr bs \<Rightarrow> Inr (filter (\<lambda>b. dget ''cluster'' b = JStr c) bs)))"

text \<open>The dictionary of the live list: the last backend of a name counts.\<close>

definition live_active :: "fields list \<Rightarrow> json \<Rightarrow> bool option" where
  "live_active bs = map_of (rev (map (\<lambda>b. (dget ''name'' b, truthy (dget ''active'' b))) bs))"

fun check_backends :: "(json \<Rightarrow> bool option) \<Rightarrow> fields list \<Rightarrow> guard_result \<Rightarrow> guard_result" where
  "check_backends live [] g = g"
| "check_backends live (b # bs) g =
     (let active = live (dget ''name'' b);
          g1 = g\<lparr>gr_backends := gr_backends g @ [(dget ''name'' b, active)]\<rparr>;
          g2 = (if active \<noteq> Some False
                then refuse (if checked_gateway_live g1 then STILL_ROUTED else GATEWAY_UNREACHABLE) g1
                else g1)
      in check_backends live bs g2)"

definition check_rotation ::
    "string \<Rightarrow> (unit + fields list) option \<Rightarrow> 'e snapshot_repo \<Rightarrow> guard_result \<Rightarrow> py_exn + guard_result" where
  "check_rotation c gateway repo g =
     (case gateway of
        None \<Rightarrow> Inr (refuse NO_GATEWAY g)
      | Some answer \<Rightarrow>
          (case mapped_backends c (load_snapshot GATEWAY_SCOPE KIND_GATEWAY repo) of
             Inl e \<Rightarrow> Inl e
           | Inr mapped \<Rightarrow>
               (if mapped = [] then Inr (refuse NO_BACKEND g)
                else case answer of
                       Inl _ \<Rightarrow>
                         Inr (check_backends (\<lambda>_. None) mapped (refuse GATEWAY_UNREACHABLE g))
                     | Inr bs \<Rightarrow>
                         Inr (check_backends (live_active bs) mapped
                                (g\<lparr>checked_gateway_live := True\<rparr>)))))"

definition running_of :: "envelope \<Rightarrow> py_exn + json" where
  "running_of e =
     (case or_dict (en_data e) of
        Inl x \<Rightarrow> Inl x
      | Inr d \<Rightarrow> map_sum id (dget ''running'') (or_dict (dget ''summary'' d)))"

definition check_idle :: "envelope \<Rightarrow> guard_result \<Rightarrow> py_exn + guard_result" where
  "check_idle e g =
     (let g1 = (if en_stale e then refuse STALE_QUERY_VIEW g else g);
          g2 = g1\<lparr>observed_at := en_collected_at e\<rparr>
      in case running_of e of
           Inl x \<Rightarrow> Inl x
         | Inr running \<Rightarrow>
             (if running = JNull then Inr (refuse NO_QUERY_VIEW g2)
              else case to_int running of
                     Inl x \<Rightarrow> Inl x
                   | Inr n \<Rightarrow>
                       (let g3 = g2\<lparr>running_queries := Some n\<rparr>
                        in Inr (if n > 0 then refuse QUERIES_RUNNING g3 else g3))))"

definition guard_check ::
    "string \<Rightarrow> (unit + fields list) option \<Rightarrow> 'e snapshot_repo \<Rightarrow> rat \<Rightarrow> rat \<Rightarrow> envelope option \<Rightarrow>
     py_exn + guard_result" where
  "guard_check c gateway repo now stale_threshold queries =
     (case check_rotation c gateway repo (new_guard_result c) of
        Inl e \<Rightarrow> Inl e
      | Inr g \<Rightarrow>
          (case queries of
             Some e \<Rightarrow> check_idle e g
           | None \<Rightarrow>
               (case load_snapshot c KIND_QUERIES repo of
                  None \<Rightarrow> Inr (refuse NO_QUERY_VIEW g)
                | Some s \<Rightarrow>
                    check_idle \<lparr>en_stale = is_stale s now stale_threshold,
                                en_collected_at = Some (sn_collected_at s), en_data = sn_payload s\<rparr> g)))"

section \<open>What a quiet cluster is\<close>

definition out_of_rotation :: "string \<Rightarrow> (unit + fields list) option \<Rightarrow> 'e snapshot_repo \<Rightarrow> bool" where
  "out_of_rotation c gateway repo \<longleftrightarrow>
     (\<exists>bs mapped. gateway = Some (Inr bs) \<and>
        mapped_backends c (load_snapshot GATEWAY_SCOPE KIND_GATEWAY repo) = Inr mapped \<and>
        mapped \<noteq> [] \<and> (\<forall>b \<in> set mapped. live_active bs (dget ''name'' b) = Some False))"

definition idle_view :: "envelope \<Rightarrow> bool" where
  "idle_view e \<longleftrightarrow>
     \<not> en_stale e \<and>
     (\<exists>running n. running_of e = Inr running \<and> running \<noteq> JNull \<and> to_int running = Inr n \<and> n \<le> 0)"

definition queries_seen :: "string \<Rightarrow> 'e snapshot_repo \<Rightarrow> rat \<Rightarrow> rat \<Rightarrow> envelope option \<Rightarrow> envelope option" where
  "queries_seen c repo now stale_threshold queries =
     (case queries of
        Some e \<Rightarrow> Some e
      | None \<Rightarrow>
          map_option (\<lambda>s. \<lparr>en_stale = is_stale s now stale_threshold,
                          en_collected_at = Some (sn_collected_at s), en_data = sn_payload s\<rparr>)
            (load_snapshot c KIND_QUERIES repo))"

lemma refuse_not_ok [simp]: "\<not> guard_ok (refuse c g)"
  by (auto simp: guard_ok_def refuse_def)

lemma guard_ok_update [simp]:
  "guard_ok (g\<lparr>gr_backends := x\<rparr>) = guard_ok g" "guard_ok (g\<lparr>observed_at := y\<rparr>) = guard_ok g"
  "guard_ok (g\<lparr>running_queries := z\<rparr>) = guard_ok g" "guard_ok (g\<lparr>checked_gateway_live := w\<rparr>) = guard_ok g"
  by (simp_all add: guard_ok_def)

lemma new_guard_ok [simp]: "guard_ok (new_guard_result c)"
  by (simp add: guard_ok_def new_guard_result_def)

lemma check_backends_ok:
  "guard_ok (check_backends live bs g) \<longleftrightarrow>
     guard_ok g \<and> (\<forall>b \<in> set bs. live (dget ''name'' b) = Some False)"
  by (induction live bs g rule: check_backends.induct) (auto simp: Let_def)

lemma check_rotation_ok:
  assumes "check_rotation c gateway repo g = Inr g'" "guard_ok g"
  shows "guard_ok g' \<longleftrightarrow> out_of_rotation c gateway repo"
  using assms
  by (auto simp: check_rotation_def out_of_rotation_def check_backends_ok
           split: option.splits sum.splits if_splits)

lemma check_idle_ok:
  assumes "check_idle e g = Inr g'"
  shows "guard_ok g' \<longleftrightarrow> guard_ok g \<and> idle_view e"
  using assms
  by (auto simp: check_idle_def idle_view_def Let_def split: sum.splits if_splits)

text \<open>a run is labelled as taken on a quiet cluster exactly when that was seen to be so. The
  guard's answer is free of refusals if and only if the Gateway itself answered, at least one backend
  is mapped to the cluster and the live answer calls every mapped one inactive, and a fresh view of
  the queries counts none running.\<close>

theorem quiet_means_observed_quiet:
  assumes "guard_check c gateway repo now stale_threshold queries = Inr g"
  shows "guard_ok g \<longleftrightarrow>
           out_of_rotation c gateway repo \<and>
           (case queries_seen c repo now stale_threshold queries of
              None \<Rightarrow> False | Some e \<Rightarrow> idle_view e)"
proof -
  obtain g1 where g1: "check_rotation c gateway repo (new_guard_result c) = Inr g1"
    using assms by (auto simp: guard_check_def split: sum.splits)
  note rot = check_rotation_ok [OF g1 new_guard_ok]
  show ?thesis
    using assms rot g1 check_idle_ok [of _ g1 g]
    by (auto simp: guard_check_def queries_seen_def split: option.splits)
qed

definition demo_repo :: "unit snapshot_repo" where
  "demo_repo =
     save_snapshot \<lparr>sn_cluster = ''a'', sn_kind = KIND_QUERIES, sn_collected_at = 100,
        sn_payload = JObj [(''summary'', JObj [(''running'', JNum 0)])], sn_error = None,
        sn_advice = None\<rparr>
     (save_snapshot \<lparr>sn_cluster = GATEWAY_SCOPE, sn_kind = KIND_GATEWAY, sn_collected_at = 100,
        sn_payload = JObj [(''backends'', JList [JObj [(''name'', JStr ''b1''), (''cluster'', JStr ''a'')]])],
        sn_error = None, sn_advice = None\<rparr>
     \<lparr>snapshots = [], health_events = [], overrides = []\<rparr>)"

definition demo_live :: "fields list" where
  "demo_live = [[(''name'', JStr ''b1''), (''active'', JBool False)]]"

definition demo_guard :: guard_result where
  "demo_guard = \<lparr>gr_cluster = ''a'', refusals = [], gr_backends = [(JStr ''b1'', Some False)],
     running_queries = Some 0, observed_at = Some 100, checked_gateway_live = True\<rparr>"

lemma demo_guard_check:
  "guard_check ''a'' (Some (Inr demo_live)) demo_repo 110 60 None = Inr demo_guard"
  by code_simp

lemma quiet_means_observed_quiet_witness:
  "guard_ok demo_guard \<longleftrightarrow>
     out_of_rotation ''a'' (Some (Inr demo_live)) demo_repo \<and>
     (case queries_seen ''a'' demo_repo 110 60 None of None \<Rightarrow> False | Some e \<Rightarrow> idle_view e)"
  by (rule quiet_means_observed_quiet [OF demo_guard_check])

end
