(* ===== verification/AuditedService.thy ===== *)
theory AuditedService
  imports Auditing Access
begin

text \<open>
  How the services of the API wrap a change in \<open>with self.audit.action(...)\<close>. Every service has its
  own world, in which the audit store is one part, and its own exceptions. The locale states the
  interface (a part that can be read and written, the exceptions of the guard among the service's
  own) and holds the consequence each service needs: either the guard refused and nothing changed, or
  the body ran once and exactly one record with its real outcome follows.
\<close>

definition audited_in ::
    "('w \<Rightarrow> audit_repo) \<Rightarrow> (audit_repo \<Rightarrow> 'w \<Rightarrow> 'w) \<Rightarrow> (audit_exn \<Rightarrow> 'e) \<Rightarrow> ('e \<Rightarrow> string) \<Rightarrow>
     nat \<Rightarrow> string \<Rightarrow> audit_call \<Rightarrow> ('w \<Rightarrow> ('e + 'a) \<times> 'w) \<Rightarrow> 'w \<Rightarrow> ('e + 'a) \<times> 'w" where
  "audited_in get put refusal describe now uuid call body w =
     (case audited now uuid describe call
             (\<lambda>(au, w1). case body (put au w1) of (r, w2) \<Rightarrow> (r, get w2, w2)) (get w, w) of
        (Inl (Inl e), au, w') \<Rightarrow> (Inl (refusal e), put au w')
      | (Inl (Inr e), au, w') \<Rightarrow> (Inl e, put au w')
      | (Inr x, au, w') \<Rightarrow> (Inr x, put au w'))"

text \<open>What the record of a call says.\<close>

definition audit_entry :: "audit_call \<Rightarrow> bool \<Rightarrow> audit_record \<Rightarrow> bool" where
  "audit_entry call success rec \<longleftrightarrow>
     aud_actor rec = ac_actor call \<and> aud_action_type rec = ac_action_type call \<and>
     aud_target_id rec = ac_target_id call \<and> aud_target_cluster rec = ac_target_cluster call \<and>
     normalise_reason (ac_reason call) = Inr (aud_reason rec) \<and>
     aud_outcome rec = (if success then SUCCESS else FAILURE)"

lemma guard_exit_writes:
  assumes "guard_action uuid call repo = Inr rec"
  shows "\<exists>rec'. records (guard_exit now details err rec repo) = records repo @ [rec'] \<and>
                audit_entry call (err = None) rec'"
  using assms
  by (auto simp: guard_exit_def guard_action_def is_writable_def write_record_def audit_entry_def
        Let_def split: option.split sum.splits if_splits)

locale audited_service =
  fixes get :: "'w \<Rightarrow> audit_repo"
    and put :: "audit_repo \<Rightarrow> 'w \<Rightarrow> 'w"
    and refusal :: "audit_exn \<Rightarrow> 'e"
  assumes get_put: "get (put au w) = au"
    and put_get: "put (get w) w = w"
begin

lemma audited_cases:
  assumes "audited_in get put refusal describe now uuid call body w = (r, w')"
    and "get (snd (body w)) = get w"
  obtains (refused) e where "r = Inl (refusal e)" "w' = w" "guard_action uuid call (get w) = Inl e"
  | (ran) wb au rec where "body w = (r, wb)" "writable (get w)" "w' = put au wb"
      "records (get w') = records (get w) @ [rec]" "audit_entry call (\<exists>x. r = Inr x) rec"
proof (cases "guard_action uuid call (get w)")
  case (Inl e)
  then show ?thesis using assms(1) refused by (auto simp: audited_in_def audited_def put_get)
next
  case (Inr rec)
  obtain rb wb where b: "body w = (rb, wb)" by (cases "body w")
  have au: "get wb = get w" using assms(2) b by simp
  define err where "err = (case rb of Inl e \<Rightarrow> Some (describe e) | Inr _ \<Rightarrow> None)"
  have r: "r = rb" and w': "w' = put (guard_exit now [] err rec (get w)) wb"
    using assms(1) b Inr au by (auto simp: audited_in_def audited_def err_def put_get split: sum.splits)
  obtain rec' where "records (get w') = records (get w) @ [rec']"
    "audit_entry call (err = None) rec'"
    using guard_exit_writes [OF Inr, of now "[]" err] w' by (auto simp: get_put)
  moreover have "(err = None) = (\<exists>x. r = Inr x)" by (cases rb) (auto simp: err_def r)
  moreover have "writable (get w)" using guard_action_fields(6) [OF Inr] .
  ultimately show ?thesis using ran [of wb _ rec'] b r w' by simp
qed

lemma audited_part:
  assumes "audited_in get put refusal describe now uuid call body w = (r, w')"
    and "get (snd (body w)) = get w" and "\<And>au v. part (put au v) = part v"
  shows "part w' = part w \<and> (\<exists>e. r = Inl e) \<or> (\<exists>wb. body w = (r, wb) \<and> part w' = part wb)"
  using assms(1,2) by (cases rule: audited_cases) (auto simp: assms(3))

end

end
