(* ===== verification/Circuit.thy ===== *)
theory Circuit
  imports Machines Complex_Main
begin

text \<open>
  The circuit breaker in front of a coordinator (\<^verbatim>\<open>clients/circuit.py\<close>). Its clock is a
  float in the program and a rational here; every reading of the clock is an argument. Reading
  \<open>state\<close> may change it, since the breaker has no timer of its own.
\<close>

datatype breaker_state = CLOSED | OPEN | HALF_OPEN

record breaker =
  failure_threshold :: int
  reset_seconds :: rat
  consecutive_failures :: int
  opened_at :: rat
  br_state :: breaker_state

datatype breaker_exn = BadThreshold

definition new_breaker :: "int \<Rightarrow> rat \<Rightarrow> breaker_exn + breaker" where
  "new_breaker threshold reset =
     (if threshold < 1 then Inl BadThreshold
      else Inr \<lparr>failure_threshold = threshold, reset_seconds = reset, consecutive_failures = 0,
                opened_at = 0, br_state = CLOSED\<rparr>)"

text \<open>The property \<open>state\<close>, read when the clock shows \<open>now\<close>.\<close>

definition read_state :: "rat \<Rightarrow> breaker \<Rightarrow> breaker_state \<times> breaker" where
  "read_state now b =
     (let b' = (if br_state b = OPEN \<and> now - opened_at b \<ge> reset_seconds b
                then b\<lparr>br_state := HALF_OPEN\<rparr> else b)
      in (br_state b', b'))"

definition allows_request :: "rat \<Rightarrow> breaker \<Rightarrow> bool \<times> breaker" where
  "allows_request now b = (case read_state now b of (st, b') \<Rightarrow> (st \<noteq> OPEN, b'))"

definition record_success :: "breaker \<Rightarrow> breaker" where
  "record_success b = b\<lparr>consecutive_failures := 0, br_state := CLOSED\<rparr>"

definition record_failure :: "rat \<Rightarrow> bool \<Rightarrow> breaker \<Rightarrow> breaker" where
  "record_failure now transient b =
     (if \<not> transient then b
      else let b1 = b\<lparr>consecutive_failures := consecutive_failures b + 1\<rparr>
           in if consecutive_failures b1 \<ge> failure_threshold b1
              then b1\<lparr>br_state := OPEN, opened_at := now\<rparr> else b1)"

text \<open>Two readings of the clock: one for \<open>state\<close>, one for the remaining time.\<close>

definition seconds_until_retry :: "rat \<Rightarrow> rat \<Rightarrow> breaker \<Rightarrow> rat \<times> breaker" where
  "seconds_until_retry now now' b =
     (case read_state now b of
        (st, b') \<Rightarrow>
          (if st \<noteq> OPEN then 0 else max 0 (reset_seconds b' - (now' - opened_at b')), b'))"

section \<open>What a history of calls means\<close>

datatype br_event = StateRead rat | CallOk | CallFailed rat bool

fun br_step :: "br_event \<Rightarrow> breaker \<Rightarrow> breaker" where
  "br_step (StateRead now) b = snd (read_state now b)"
| "br_step CallOk b = record_success b"
| "br_step (CallFailed now transient) b = record_failure now transient b"

definition br_run :: "br_event list \<Rightarrow> breaker \<Rightarrow> breaker" where
  "br_run es b = fold br_step es b"

fun event_time :: "br_event \<Rightarrow> rat list" where
  "event_time (StateRead now) = [now]"
| "event_time CallOk = []"
| "event_time (CallFailed now transient) = [now]"

text \<open>The times of the transient failures since the last success, the latest first.\<close>

fun failure_times :: "br_event list \<Rightarrow> rat list \<Rightarrow> rat list" where
  "failure_times [] fs = fs"
| "failure_times (StateRead _ # es) fs = failure_times es fs"
| "failure_times (CallOk # es) fs = failure_times es []"
| "failure_times (CallFailed now transient # es) fs =
     failure_times es (if transient then now # fs else fs)"

text \<open>The abstract breaker: calls pause while the threshold is reached and the latest failure is
  younger than the reset time.\<close>

definition paused :: "int \<Rightarrow> rat \<Rightarrow> rat list \<Rightarrow> rat \<Rightarrow> bool" where
  "paused threshold reset fs now \<longleftrightarrow>
     threshold \<le> int (length fs) \<and> now - hd fs < reset"

text \<open>The relation between the fields of a breaker and its history, at a time \<open>t\<close>.\<close>

definition follows :: "int \<Rightarrow> rat \<Rightarrow> rat \<Rightarrow> rat list \<Rightarrow> breaker \<Rightarrow> bool" where
  "follows th rs t fs b \<longleftrightarrow>
     failure_threshold b = th \<and> reset_seconds b = rs \<and>
     consecutive_failures b = int (length fs) \<and>
     (br_state b = CLOSED \<longleftrightarrow> int (length fs) < th) \<and>
     (br_state b \<noteq> CLOSED \<longrightarrow> opened_at b = hd fs) \<and>
     (br_state b = HALF_OPEN \<longrightarrow> t - hd fs \<ge> rs)"

lemma follows_later: "follows th rs t fs b \<Longrightarrow> t \<le> t' \<Longrightarrow> follows th rs t' fs b"
  unfolding follows_def by linarith

lemma follows_read:
  assumes "follows th rs t fs b"
  shows "follows th rs t fs (snd (read_state t b))"
    and "fst (read_state t b) = OPEN \<longleftrightarrow> paused th rs fs t"
proof -
  show "follows th rs t fs (snd (read_state t b))"
    using assms by (auto simp: follows_def read_state_def Let_def)
  show "fst (read_state t b) = OPEN \<longleftrightarrow> paused th rs fs t"
    using assms by (cases "br_state b") (auto simp: follows_def read_state_def Let_def paused_def)
qed

lemma follows_step:
  assumes "follows th rs t fs b" "0 < th"
  shows "follows th rs t [] (br_step CallOk b)"
    and "follows th rs t (if tr then t # fs else fs) (br_step (CallFailed t tr) b)"
  using assms by (auto simp: follows_def record_success_def record_failure_def Let_def)

lemma follows_run:
  assumes "follows th rs t fs b" "0 < th" "sorted (t # concat (map event_time es) @ [now])"
  shows "follows th rs now (failure_times es fs) (br_run es b)"
  using assms
proof (induction es arbitrary: t fs b)
  case Nil
  then show ?case by (auto simp: br_run_def intro: follows_later)
next
  case (Cons e es)
  show ?case
  proof (cases e)
    case (StateRead s)
    with Cons.prems have s: "follows th rs s fs b" by (auto intro: follows_later)
    show ?thesis using Cons.IH [OF follows_read(1) [OF s]] Cons.prems StateRead
      by (simp add: br_run_def)
  next
    case CallOk
    show ?thesis using Cons.IH [OF follows_step(1)] Cons.prems CallOk
      by (simp add: br_run_def)
  next
    case (CallFailed s tr)
    with Cons.prems have s: "follows th rs s fs b" by (auto intro: follows_later)
    show ?thesis using Cons.IH [OF follows_step(2) [OF s]] Cons.prems CallFailed
      by (simp add: br_run_def)
  qed
qed

lemma follows_new:
  "new_breaker th rs = Inr b \<Longrightarrow> follows th rs t [] b \<and> 0 < th"
  by (auto simp: new_breaker_def follows_def split: if_splits)

text \<open>C21: the breaker is what its history says. After any series of successes, failures and
  questions in the order of the clock, a call is refused exactly when at least
  \<open>failure_threshold\<close> transient failures were recorded since the last success and the latest of them
  is younger than \<open>reset_seconds\<close>, and the time announced is what is left of that pause. Permanent
  failures and the questions themselves change nothing.\<close>

theorem breaker_matches_history:
  assumes "new_breaker threshold reset = Inr b"
    and "sorted (concat (map event_time es) @ [now])"
  shows "fst (allows_request now (br_run es b)) =
           (\<not> paused threshold reset (failure_times es []) now) \<and>
         fst (seconds_until_retry now now (br_run es b)) =
           (if paused threshold reset (failure_times es []) now
            then reset - (now - hd (failure_times es [])) else 0)"
proof -
  let ?t = "hd (concat (map event_time es) @ [now])" and ?b = "br_run es b"
  have "sorted (?t # concat (map event_time es) @ [now])"
    using assms(2) by (cases "concat (map event_time es) @ [now]") auto
  then have tr: "follows threshold reset now (failure_times es []) ?b"
    using follows_run follows_new [OF assms(1)] by blast
  note rd = follows_read [OF tr]
  show ?thesis using rd
    by (auto simp: allows_request_def seconds_until_retry_def split_beta follows_def paused_def
             max_def)
qed

definition demo_breaker :: breaker where
  "demo_breaker = \<lparr>failure_threshold = 2, reset_seconds = 30, consecutive_failures = 0,
                   opened_at = 0, br_state = CLOSED\<rparr>"

lemma breaker_matches_history_witness:
  "fst (allows_request 20 (br_run [CallFailed 5 True, StateRead 6, CallFailed 7 False, CallFailed 10 True]
          demo_breaker)) = False \<and>
   fst (seconds_until_retry 20 20 (br_run [CallFailed 5 True, StateRead 6, CallFailed 7 False, CallFailed 10 True]
          demo_breaker)) = 20"
  using breaker_matches_history [of 2 30 demo_breaker
      "[CallFailed 5 True, StateRead 6, CallFailed 7 False, CallFailed 10 True]" 20]
  by (simp add: new_breaker_def demo_breaker_def paused_def)

text \<open>In the half-open state any number of calls passes until one of them is recorded.\<close>

lemma half_open_admits_all:
  assumes "fst (read_state now b) = HALF_OPEN"
  shows "fst (allows_request later (snd (allows_request now b)))"
  using assms by (auto simp: allows_request_def read_state_def Let_def split: if_splits)

end
