(* ===== verification/TrinoClient.thy ===== *)
theory TrinoClient
  imports Circuit Json Base64
begin

text \<open>
  The coordinator client (\<^verbatim>\<open>clients/trino.py\<close>, \<^verbatim>\<open>clients/errors.py\<close>). A call runs
  against an environment that holds what the client cannot decide: the clock readings, the answer
  of the transport to each attempt (its TransportError text or an HTTP response) and the JSON
  decoder. The requests sent and the pauses made are returned in order, next to the result and the
  client with its breaker.
\<close>

section \<open>Errors\<close>

datatype client_exn =
    Unavailable string
  | CircuitOpen string
  | Unauthorized string
  | ForbiddenBy string
  | MissingResource string
  | MBeanNotRegistered string
  | ProtocolError string
  | NotIterable

text \<open>The class attribute \<open>transient\<close>; the last constructor is a TypeError of the interpreter.\<close>

fun transient :: "client_exn \<Rightarrow> bool" where
  "transient (Unavailable m) = True"
| "transient (CircuitOpen m) = True"
| "transient e = False"

fun has_substring :: "string \<Rightarrow> string \<Rightarrow> bool" where
  "has_substring p [] = (p = [])"
| "has_substring p (c # cs) = (take (length p) (c # cs) = p \<or> has_substring p cs)"

definition classify_status :: "int \<Rightarrow> string \<Rightarrow> client_exn" where
  "classify_status st uri =
     (let msg = ''HTTP '' @ show_int st @ '' for '' @ uri
      in if st = 401 then Unauthorized msg
         else if st = 403 then ForbiddenBy msg
         else if st = 404 then MissingResource msg
         else if st = 500 \<and> has_substring ''/v1/jmx/mbean/'' uri then MBeanNotRegistered msg
         else Unavailable msg)"

section \<open>The standard library's part\<close>

definition hex_digit :: "nat \<Rightarrow> char" where
  "hex_digit d = char_of (if d < 10 then 48 + d else 55 + d)"

text \<open>\<open>urllib.parse.quote(s, safe="")\<close> and \<open>urlencode\<close>, which writes a space as a plus sign.\<close>

definition quote_byte :: "8 word \<Rightarrow> string" where
  "quote_byte w =
     (let n = unat w; c = (char_of n :: char)
      in if is_ascii_alnum c \<or> c \<in> set ''_.-~'' then [c]
         else [CHR ''%'', hex_digit (n div 16), hex_digit (n mod 16)])"

definition quote :: "string \<Rightarrow> string" where
  "quote s = concat (map quote_byte (utf8 s))"

definition quote_plus :: "string \<Rightarrow> string" where
  "quote_plus s =
     concat (map (\<lambda>b. if b = 32 then ''+'' else quote_byte b) (utf8 s))"

definition urlencode :: "(string \<times> string) list \<Rightarrow> string" where
  "urlencode ps = join ''&'' (map (\<lambda>(k, v). quote_plus k @ ''='' @ quote_plus v) ps)"

text \<open>\<open>"{:.0f}".format(x)\<close>: the nearest integer, a tie to the even one.\<close>

definition show_rounded :: "rat \<Rightarrow> string" where
  "show_rounded x =
     (let f = \<lfloor>x\<rfloor>; d = x - of_int f
      in show_int (if d < 1/2 \<or> d = 1/2 \<and> even f then f else f + 1))"

definition build_kill_message :: "string \<Rightarrow> string \<Rightarrow> string \<Rightarrow> string" where
  "build_kill_message actor reason request_id =
     (let cleaned = join '' '' (split_ws reason);
          cleaned' = (if length cleaned > 512 then take 509 cleaned @ ''...'' else cleaned)
      in ''Killed by TMS. actor='' @ actor @ '', reason='' @ cleaned' @ '', request_id='' @ request_id)"

section \<open>One call\<close>

record http_request =
  rq_method :: string
  rq_url :: string
  rq_headers :: "string pydict"
  rq_body :: "bytes option"
  rq_connect_timeout :: rat
  rq_read_timeout :: rat
  rq_verify_tls :: bool

record http_response =
  rs_status :: int
  rs_body :: bytes
  rs_elapsed :: rat

record trino_client =
  base_url :: string
  user :: string
  password :: string
  verify_tls :: bool
  connect_timeout :: rat
  read_timeout :: rat
  write_timeout :: rat
  read_retries :: int
  client_breaker :: breaker

definition new_client ::
    "string \<Rightarrow> string \<Rightarrow> string \<Rightarrow> bool \<Rightarrow> rat \<Rightarrow> rat \<Rightarrow> rat \<Rightarrow> int \<Rightarrow> breaker \<Rightarrow> trino_client" where
  "new_client url usr pw tls conn rd wr retries b =
     \<lparr>base_url = rev (dropWhile (\<lambda>c. c = CHR ''/'') (rev url)), user = usr, password = pw,
      verify_tls = tls, connect_timeout = conn, read_timeout = rd, write_timeout = wr,
      read_retries = retries, client_breaker = b\<rparr>"

record call_env =
  at_check :: rat
  at_report :: rat
  at_report' :: rat
  at_failure :: rat
  answer :: "nat \<Rightarrow> http_request \<Rightarrow> string + http_response"
  json_loads :: "bytes \<Rightarrow> string + json"

datatype effect = Sent http_request | Slept rat

definition auth_header :: "trino_client \<Rightarrow> string pydict" where
  "auth_header c =
     [(''Authorization'',
       ''Basic '' @ b64encode (utf8 (user c @ '':'' @ password c)))]"

datatype attempts_end = Answered http_response | Permanent client_exn | Exhausted "client_exn option"

text \<open>The loop over the attempts: \<open>n\<close> still to make, \<open>k\<close> the number of the next one.\<close>

fun attempt_loop ::
    "call_env \<Rightarrow> string \<Rightarrow> http_request \<Rightarrow> nat \<Rightarrow> nat \<Rightarrow> client_exn option \<Rightarrow> attempts_end \<times> effect list" where
  "attempt_loop ev uri rq 0 k prev = (Exhausted prev, [])"
| "attempt_loop ev uri rq (Suc n) k prev =
     (let again = (\<lambda>e. case attempt_loop ev uri rq n (Suc k) (Some e) of
                         (r, eff) \<Rightarrow> (r, Sent rq # (if n > 0 then [Slept (1/5 * 2 ^ k)] else []) @ eff))
      in case answer ev k rq of
           Inl text \<Rightarrow> again (Unavailable (uri @ '': '' @ text))
         | Inr resp \<Rightarrow>
             (if 200 \<le> rs_status resp \<and> rs_status resp < 300 then (Answered resp, [Sent rq])
              else let e = classify_status (rs_status resp) uri
                   in if \<not> transient e then (Permanent e, [Sent rq]) else again e))"

definition request_for ::
    "trino_client \<Rightarrow> string \<Rightarrow> string \<Rightarrow> bool \<Rightarrow> bytes option \<Rightarrow> rat option \<Rightarrow> http_request" where
  "request_for c verb uri authenticated body timeout =
     \<lparr>rq_method = verb, rq_url = base_url c @ uri,
      rq_headers = (let h = (if authenticated then auth_header c else [])
                    in if body \<noteq> None then dset ''Content-Type'' ''application/json'' h else h),
      rq_body = body, rq_connect_timeout = connect_timeout c,
      rq_read_timeout = (case timeout of Some t \<Rightarrow> t | None \<Rightarrow> read_timeout c),
      rq_verify_tls = verify_tls c\<rparr>"

type_synonym 'a called = "(client_exn + 'a) \<times> trino_client \<times> effect list"

definition trino_call ::
    "call_env \<Rightarrow> string \<Rightarrow> string \<Rightarrow> bool \<Rightarrow> bytes option \<Rightarrow> int \<Rightarrow> rat option \<Rightarrow> trino_client \<Rightarrow>
     http_response called" where
  "trino_call ev verb uri authenticated body retries timeout c =
     (case allows_request (at_check ev) (client_breaker c) of
        (False, b) \<Rightarrow>
          (case seconds_until_retry (at_report ev) (at_report' ev) b of
             (left, b') \<Rightarrow>
               (Inl (CircuitOpen (''circuit open for '' @ base_url c @ '' ('' @ show_rounded left @
                                  ''s remaining)'')),
                c\<lparr>client_breaker := b'\<rparr>, []))
      | (True, b) \<Rightarrow>
          (case attempt_loop ev uri (request_for c verb uri authenticated body timeout)
                  (nat (retries + 1)) 0 None of
             (Answered resp, eff) \<Rightarrow> (Inr resp, c\<lparr>client_breaker := record_success b\<rparr>, eff)
           | (Permanent e, eff) \<Rightarrow>
               (Inl e, c\<lparr>client_breaker := record_failure (at_failure ev) False b\<rparr>, eff)
           | (Exhausted prev, eff) \<Rightarrow>
               (Inl (case prev of Some e \<Rightarrow> e | None \<Rightarrow> Unavailable uri),
                c\<lparr>client_breaker := record_failure (at_failure ev) True b\<rparr>, eff)))"

section \<open>The endpoints\<close>

definition map_result :: "('a \<Rightarrow> client_exn + 'b) \<Rightarrow> 'a called \<Rightarrow> 'b called" where
  "map_result f r =
     (case r of (Inl e, c, eff) \<Rightarrow> (Inl e, c, eff) | (Inr x, c, eff) \<Rightarrow> (f x, c, eff))"

definition parse_json :: "call_env \<Rightarrow> string \<Rightarrow> http_response \<Rightarrow> client_exn + json" where
  "parse_json ev uri resp =
     (case json_loads ev (rs_body resp) of
        Inl text \<Rightarrow> Inl (ProtocolError (uri @ '': invalid JSON ('' @ text @ '')''))
      | Inr j \<Rightarrow> Inr j)"

definition expect :: "string \<Rightarrow> (json \<Rightarrow> 'a option) \<Rightarrow> client_exn + json \<Rightarrow> client_exn + 'a" where
  "expect complaint shape r =
     (case r of Inl e \<Rightarrow> Inl e
      | Inr j \<Rightarrow> (case shape j of None \<Rightarrow> Inl (ProtocolError complaint) | Some x \<Rightarrow> Inr x))"

fun string_of :: "json \<Rightarrow> string option" where
  "string_of (JStr s) = Some s"
| "string_of _ = None"

fun list_of :: "json \<Rightarrow> json list option" where
  "list_of (JList xs) = Some xs"
| "list_of _ = None"

definition read_call :: "call_env \<Rightarrow> string \<Rightarrow> bool \<Rightarrow> trino_client \<Rightarrow> http_response called" where
  "read_call ev uri authenticated c =
     trino_call ev ''GET'' uri authenticated None (read_retries c) None c"

definition get_server_info :: "call_env \<Rightarrow> trino_client \<Rightarrow> (string \<times> json) list called" where
  "get_server_info ev c =
     map_result (\<lambda>resp. expect ''/v1/info: expected an object'' fields_of
                          (parse_json ev ''/v1/info'' resp))
       (read_call ev ''/v1/info'' False c)"

definition get_node_state :: "call_env \<Rightarrow> trino_client \<Rightarrow> string called" where
  "get_node_state ev c =
     map_result (\<lambda>resp. expect ''/v1/info/state: expected a string'' string_of
                          (parse_json ev ''/v1/info/state'' resp))
       (read_call ev ''/v1/info/state'' False c)"

definition list_mbean_names :: "(json \<Rightarrow> string) \<Rightarrow> call_env \<Rightarrow> trino_client \<Rightarrow> string list called" where
  "list_mbean_names shown ev c =
     map_result (\<lambda>resp. case expect ''/v1/jmx/mbean: expected a list'' list_of
                                (parse_json ev ''/v1/jmx/mbean'' resp) of
                          Inl e \<Rightarrow> Inl e
                        | Inr payload \<Rightarrow>
                            Inr [str_of shown (dget ''objectName'' fs). entry \<leftarrow> payload,
                                 fs \<leftarrow> (case fields_of entry of Some fs \<Rightarrow> [fs] | None \<Rightarrow> []),
                                 truthy (dget ''objectName'' fs)])
       (read_call ev ''/v1/jmx/mbean'' True c)"

text \<open>\<open>for attribute in payload.get("attributes") or []\<close>: the members of a dictionary or of a text
  are texts, which the loop skips; a true number or boolean cannot be iterated.\<close>

definition attribute_items :: "json \<Rightarrow> client_exn + json list" where
  "attribute_items j =
     (if \<not> truthy j then Inr []
      else case j of JList xs \<Rightarrow> Inr xs
           | JObj fs \<Rightarrow> Inr (map (JStr \<circ> fst) fs)
           | JStr s \<Rightarrow> Inr (map (\<lambda>ch. JStr [ch]) s)
           | _ \<Rightarrow> Inl NotIterable)"

fun flatten_attributes :: "(json \<Rightarrow> string) \<Rightarrow> json list \<Rightarrow> json pydict \<Rightarrow> json pydict" where
  "flatten_attributes shown [] acc = acc"
| "flatten_attributes shown (a # as) acc =
     flatten_attributes shown as
       (case fields_of a of
          None \<Rightarrow> acc
        | Some fs \<Rightarrow> (if dget ''name'' fs = JNull then acc
                      else dset (str_of shown (dget ''name'' fs)) (dget ''value'' fs) acc))"

definition get_mbean :: "(json \<Rightarrow> string) \<Rightarrow> call_env \<Rightarrow> string \<Rightarrow> trino_client \<Rightarrow> json pydict called" where
  "get_mbean shown ev object_name c =
     (let uri = ''/v1/jmx/mbean/'' @ quote object_name
      in map_result (\<lambda>resp. case expect (uri @ '': expected an object'') fields_of
                                     (parse_json ev uri resp) of
                              Inl e \<Rightarrow> Inl e
                            | Inr payload \<Rightarrow>
                                (case attribute_items (dget ''attributes'' payload) of
                                   Inl e \<Rightarrow> Inl e
                                 | Inr items \<Rightarrow> Inr (flatten_attributes shown items [])))
           (read_call ev uri True c))"

definition NODE_MANAGER_MBEAN :: string where
  "NODE_MANAGER_MBEAN = ''trino.node:name=CoordinatorNodeManager''"

definition ends_with :: "string \<Rightarrow> string \<Rightarrow> bool" where
  "ends_with s t = (take (length t) (rev s) = rev t)"

definition node_counts_of :: "json pydict \<Rightarrow> (string \<times> int) list" where
  "node_counts_of attributes =
     [(k, py_trunc n). (k, v) \<leftarrow> attributes, ends_with k ''NodeCount'',
        n \<leftarrow> (case num_or_bool v of Some n \<Rightarrow> [n] | None \<Rightarrow> [])]"

definition get_node_counts :: "(json \<Rightarrow> string) \<Rightarrow> call_env \<Rightarrow> trino_client \<Rightarrow> (string \<times> int) list called" where
  "get_node_counts shown ev c =
     map_result (\<lambda>attributes.
         let counts = node_counts_of attributes
         in if ''ActiveNodeCount'' \<notin> fst ` set counts
            then Inl (ProtocolError (NODE_MANAGER_MBEAN @ '': ActiveNodeCount missing''))
            else Inr counts)
       (get_mbean shown ev NODE_MANAGER_MBEAN c)"

definition LIVE_STATES :: "string list" where
  "LIVE_STATES = [''QUEUED'', ''WAITING_FOR_RESOURCES'', ''DISPATCHING'', ''PLANNING'', ''STARTING'',
                  ''RUNNING'', ''FINISHING'']"

record query_list =
  queries :: "(string \<times> json) list list"
  response_bytes :: nat
  elapsed_seconds :: rat

definition list_queries :: "call_env \<Rightarrow> string list option \<Rightarrow> trino_client \<Rightarrow> query_list called" where
  "list_queries ev states c =
     (let selected = (case states of Some (s # ss) \<Rightarrow> s # ss | _ \<Rightarrow> LIVE_STATES);
          uri = ''/v1/query?'' @ urlencode (map (\<lambda>s. (''state'', s)) selected)
      in map_result (\<lambda>resp. case expect ''/v1/query: expected a list'' list_of
                                     (parse_json ev uri resp) of
                              Inl e \<Rightarrow> Inl e
                            | Inr payload \<Rightarrow>
                                Inr \<lparr>queries = List.map_filter fields_of payload,
                                     response_bytes = length (rs_body resp),
                                     elapsed_seconds = rs_elapsed resp\<rparr>)
           (read_call ev uri True c))"

definition get_query :: "call_env \<Rightarrow> string \<Rightarrow> trino_client \<Rightarrow> (string \<times> json) list called" where
  "get_query ev query_id c =
     (let uri = ''/v1/query/'' @ quote query_id
      in map_result (\<lambda>resp. expect (uri @ '': expected an object'') fields_of (parse_json ev uri resp))
           (read_call ev uri True c))"

definition kill_query :: "call_env \<Rightarrow> string \<Rightarrow> string \<Rightarrow> trino_client \<Rightarrow> unit called" where
  "kill_query ev query_id message c =
     map_result (\<lambda>_. Inr ())
       (trino_call ev ''PUT'' (''/v1/query/'' @ quote query_id @ ''/killed'') True
          (Some (utf8 message)) 0 (Some (write_timeout c)) c)"

section \<open>What a call does\<close>

fun sent_of :: "effect \<Rightarrow> http_request list" where
  "sent_of (Sent rq) = [rq]"
| "sent_of (Slept t) = []"

definition requests :: "effect list \<Rightarrow> http_request list" where
  "requests eff = concat (map sent_of eff)"

lemma requests_simps [simp]:
  "requests [] = []" "requests (Sent rq # eff) = rq # requests eff"
  "requests (Slept t # eff) = requests eff" "requests (xs @ ys) = requests xs @ requests ys"
  by (simp_all add: requests_def)

definition end_ok :: "attempts_end \<Rightarrow> bool" where
  "end_ok r \<longleftrightarrow>
     (case r of Answered resp \<Rightarrow> 200 \<le> rs_status resp \<and> rs_status resp < 300
      | Permanent e \<Rightarrow> \<not> transient e
      | Exhausted None \<Rightarrow> True
      | Exhausted (Some e) \<Rightarrow> transient e)"

lemma attempt_loop_ok:
  assumes "\<And>e. prev = Some e \<Longrightarrow> transient e"
  shows "end_ok (fst (attempt_loop ev uri rq n k prev))"
  using assms
proof (induction ev uri rq n k prev rule: attempt_loop.induct)
  case (1 ev uri rq k prev)
  then show ?case by (auto simp: end_ok_def split: option.split)
next
  case (2 ev uri rq n k prev)
  have IH: "end_ok (fst (attempt_loop ev uri rq n (Suc k) (Some e)))" if "transient e" for e
    using "2.IH" [of e] that by simp
  show ?case
    using IH [of "Unavailable _"] IH [of "classify_status _ uri"]
    by (cases "answer ev k rq")
       (auto simp: Let_def split_beta end_ok_def [of "Answered _"] end_ok_def [of "Permanent _"])
qed

lemma attempt_loop_sent:
  "case attempt_loop ev uri rq n k prev of
     (r, eff) \<Rightarrow> length (requests eff) \<le> n \<and> list_all (\<lambda>rq'. rq' = rq) (requests eff) \<and>
                 (case r of Exhausted _ \<Rightarrow> length (requests eff) = n | _ \<Rightarrow> True)"
proof (induction ev uri rq n k prev rule: attempt_loop.induct)
  case (2 ev uri rq n k prev)
  show ?case
  proof (cases "answer ev k rq")
    case (Inl msg)
    then show ?thesis using "2.IH"(1) [of "Unavailable (uri @ '': '' @ msg)"]
      by (auto simp: Let_def split: prod.splits attempts_end.splits)
  next
    case (Inr resp)
    then show ?thesis using "2.IH"(1) [of "classify_status (rs_status resp) uri"]
      by (auto simp: Let_def split: prod.splits attempts_end.splits)
  qed
qed simp

lemma request_headers:
  "''Authorization'' \<in> fst ` set (rq_headers (request_for c m uri auth body timeout)) \<longleftrightarrow> auth"
  "''X-Trino-User'' \<notin> fst ` set (rq_headers (request_for c m uri auth body timeout))"
  by (auto simp: request_for_def auth_header_def Let_def)

lemma call_sent:
  "case trino_call ev verb uri auth body retries timeout c of
     (r, c', eff) \<Rightarrow> length (requests eff) \<le> nat (retries + 1) \<and>
       list_all (\<lambda>rq. rq = request_for c verb uri auth body timeout) (requests eff)"
  using attempt_loop_sent [where n = "nat (retries + 1)" and k = 0 and prev = None and ev = ev and
      uri = uri and rq = "request_for c verb uri auth body timeout"]
  by (auto simp: trino_call_def split: prod.splits bool.splits attempts_end.splits)

text \<open>C22: what one call to a coordinator does. While the breaker is open nothing is sent and the
  caller gets CircuitOpen. Otherwise at most \<open>retries + 1\<close> identical requests leave, carrying the
  credentials exactly when the call is an authenticated one and never \<open>X-Trino-User\<close>; a success is
  a 2xx answer and closes the breaker; a failure that another try might cure is reported only when
  every attempt was made and is counted once; any other failure leaves the breaker as the check
  found it.\<close>

theorem call_contract:
  "case trino_call ev verb uri auth body retries timeout c of
     (r, c', eff) \<Rightarrow>
       (case allows_request (at_check ev) (client_breaker c) of
          (False, b) \<Rightarrow>
            eff = [] \<and> (case r of Inl (CircuitOpen m) \<Rightarrow> True | _ \<Rightarrow> False)
        | (True, b) \<Rightarrow>
            length (requests eff) \<le> nat (retries + 1) \<and>
            list_all (\<lambda>rq. rq_method rq = verb \<and> rq_url rq = base_url c @ uri \<and> rq_body rq = body \<and>
                           ''X-Trino-User'' \<notin> fst ` set (rq_headers rq) \<and>
                           (''Authorization'' \<in> fst ` set (rq_headers rq)) = auth)
                     (requests eff) \<and>
            (case r of
               Inr resp \<Rightarrow>
                 200 \<le> rs_status resp \<and> rs_status resp < 300 \<and>
                 br_state (client_breaker c') = CLOSED \<and> consecutive_failures (client_breaker c') = 0
             | Inl e \<Rightarrow>
                 (if transient e
                  then length (requests eff) = nat (retries + 1) \<and>
                       client_breaker c' = record_failure (at_failure ev) True b
                  else client_breaker c' = b)))"
proof -
  let ?rq = "request_for c verb uri auth body timeout"
  obtain ok b where chk: "allows_request (at_check ev) (client_breaker c) = (ok, b)"
    by (metis surj_pair)
  obtain e eff where lp: "attempt_loop ev uri ?rq (nat (retries + 1)) 0 None = (e, eff)"
    by (metis surj_pair)
  note sent = attempt_loop_sent [where n = "nat (retries + 1)" and k = 0 and prev = None and ev = ev and
      uri = uri and rq = ?rq, unfolded lp prod.case]
  have end_e: "end_ok e" using attempt_loop_ok [where prev = None and ev = ev and uri = uri and rq = ?rq] lp by (metis fst_conv option.distinct(1))
  have fits: "list_all (\<lambda>rq. rq_method rq = verb \<and> rq_url rq = base_url c @ uri \<and> rq_body rq = body \<and>
                 ''X-Trino-User'' \<notin> fst ` set (rq_headers rq) \<and>
                 (''Authorization'' \<in> fst ` set (rq_headers rq)) = auth) (requests eff)"
    using sent request_headers [of c verb uri auth body timeout]
    by (auto simp: list_all_iff) (auto simp: request_for_def)
  show ?thesis
  proof (cases ok)
    case True
    with chk lp sent end_e fits show ?thesis
      by (cases e)
         (auto simp: trino_call_def end_ok_def record_success_def record_failure_def
               split: option.splits)
  qed (use chk in \<open>simp add: trino_call_def split: prod.split\<close>)
qed

text \<open>A kill is sent at most once.\<close>

lemma kill_once: "length (requests (snd (snd (kill_query ev query_id message c)))) \<le> 1"
  using call_sent [where ev = ev and verb = "''PUT''" and
      uri = "''/v1/query/'' @ quote query_id @ ''/killed''" and auth = True and
      body = "Some (utf8 message)" and retries = 0 and timeout = "Some (write_timeout c)" and c = c]
  by (auto simp: kill_query_def map_result_def split: prod.splits sum.splits)

text \<open>A node count is only reported with the number of active nodes in it.\<close>

lemma node_counts_have_active:
  "case get_node_counts shown ev c of
     (Inr counts, _, _) \<Rightarrow> ''ActiveNodeCount'' \<in> fst ` set counts | _ \<Rightarrow> True"
  by (auto simp: get_node_counts_def map_result_def Let_def split: prod.splits sum.splits)

end
