(* ===== verification/FleetService.thy ===== *)
theory FleetService
  imports FleetJobs AuditedService Snapshots TrinoClient
begin

text \<open>
  Acting on the fleet (\<^verbatim>\<open>fleet/service.py\<close>, and the shutdown call of
  \<^verbatim>\<open>clients/node.py\<close>): running a declared job on a cluster, and asking one worker to drain
  and exit. The world is the audit store, the record of job runs, and what has left the process,
  newest last. The environment of a request holds the clock, the collector's snapshots, what a node
  answers and whether the job table can be written.
\<close>

datatype fleet_effect = Launched string "string list" | ShutdownSent http_request

record fleet_world =
  fw_audit :: audit_repo
  fw_store :: job_store
  fw_effects :: "fleet_effect list"

record fleet_env =
  fe_now :: nat
  fe_uuid :: string
  fe_clusters :: "string list"
  fe_runner :: "job_runner option"                               \<comment> \<open>None: no \<open>fleet.jobs\<close>\<close>
  fe_store_error :: "string option"
  fe_fleet :: "string \<Rightarrow> snapshot option"                        \<comment> \<open>the stored node list\<close>
  fe_node_url :: "string \<Rightarrow> string \<Rightarrow> string"                      \<comment> \<open>the template: address, host\<close>
  fe_shown :: "json \<Rightarrow> string"
  fe_user :: string
  fe_password :: string
  fe_verify_tls :: bool
  fe_write_timeout :: rat
  fe_job_text :: "job_exn \<Rightarrow> string"                            \<comment> \<open>\<open>str(exc)\<close>\<close>
  fe_answer :: "http_request \<Rightarrow> string + http_response"

datatype shutdown_exn = NodeUnreachable string string | NodeForbids string | NodeRefuses string int

datatype fleet_message =
    NoPermission string | UnknownClusterMsg string | ReasonNeededFor string | JobsOff
  | JobSays job_exn | AlreadyRunning string | CannotRecord string | AuditSays audit_exn
  | NotInInventory string string | IsCoordinator string | AlreadyShuttingDown string
  | NodeSays shutdown_exn

datatype fleet_exn =
    FleetApi api_kind fleet_message
  | FleetAudit audit_exn
  | FleetInterp py_exn

type_synonym 'a fleet = "fleet_world \<Rightarrow> (fleet_exn + 'a) \<times> fleet_world"

definition known_cluster :: "fleet_env \<Rightarrow> string \<Rightarrow> bool" where
  "known_cluster ev c \<longleftrightarrow> c \<in> set (fe_clusters ev)"

text \<open>\<open>with self.audit.action(...): body\<close>\<close>

definition put_fleet_audit :: "audit_repo \<Rightarrow> fleet_world \<Rightarrow> fleet_world" where
  "put_fleet_audit au w = w\<lparr>fw_audit := au\<rparr>"

definition fleet_audited ::
    "(fleet_exn \<Rightarrow> string) \<Rightarrow> fleet_env \<Rightarrow> audit_call \<Rightarrow> 'a fleet \<Rightarrow> 'a fleet" where
  "fleet_audited desc ev call body w =
     audited_in fw_audit put_fleet_audit FleetAudit desc (fe_now ev) (fe_uuid ev) call body w"

interpretation fleet_guard: audited_service fw_audit put_fleet_audit FleetAudit
  by unfold_locales (simp_all add: put_fleet_audit_def)

section \<open>Jobs\<close>

definition job_call :: "principal \<Rightarrow> string \<Rightarrow> string \<Rightarrow> string option \<Rightarrow> audit_call" where
  "job_call p c key reason =
     \<lparr>ac_actor = pr_username p, ac_roles = pr_roles p, ac_action_type = ''FLEET_JOB_RUN'',
      ac_target_kind = ''cluster'', ac_target_id = c @ '':'' @ key, ac_reason = reason,
      ac_target_cluster = Some c, ac_actor_ip = pr_ip p, ac_request_id = None\<rparr>"

definition failed_with :: "string \<Rightarrow> job_outcome" where
  "failed_with e = \<lparr>o_state = Failed, o_exit_code = None, o_error = Some e\<rparr>"

text \<open>The body of \<open>_start_job_audited\<close>; the worker thread reports its end later.\<close>

definition start_job_body ::
    "fleet_env \<Rightarrow> principal \<Rightarrow> job_runner \<Rightarrow> string \<Rightarrow> string \<Rightarrow> int pydict \<Rightarrow> string option \<Rightarrow>
     (job_run \<times> string list) fleet" where
  "start_job_body ev p runner c key cleaned reason w =
     (case fe_store_error ev of
        Some e \<Rightarrow> (Inl (FleetApi UpstreamUnavailable (CannotRecord e)), w)
      | None \<Rightarrow>
          (case create_run (fe_now ev) c key (pr_username p) (pr_roles p)
                  (case reason of Some r \<Rightarrow> r | None \<Rightarrow> []) cleaned (fw_store w) of
             Inl _ \<Rightarrow> (Inl (FleetApi InvalidRequest (AlreadyRunning c)), w)
           | Inr (r, st) \<Rightarrow>
               (case job_command runner key c cleaned of
                  Inl e \<Rightarrow>
                    (Inl (FleetApi InvalidRequest (JobSays e)),
                     w\<lparr>fw_store := finish_run_row (fe_now ev) (jr_id r) (failed_with (fe_job_text ev e)) st\<rparr>)
                | Inr command \<Rightarrow>
                    (Inr (r, command),
                     w\<lparr>fw_store := st, fw_effects := fw_effects w @ [Launched c command]\<rparr>))))"

definition start_job ::
    "(fleet_exn \<Rightarrow> string) \<Rightarrow> fleet_env \<Rightarrow> principal \<Rightarrow> string \<Rightarrow> string \<Rightarrow> string pydict \<Rightarrow>
     string option \<Rightarrow> nat fleet" where
  "start_job desc ev p c key params reason w =
     (if \<not> can p MANAGE_HEALTH then (Inl (FleetApi Forbidden (NoPermission ''run fleet jobs'')), w)
      else if \<not> known_cluster ev c then (Inl (FleetApi NotFound (UnknownClusterMsg c)), w)
      else if blank_opt reason then (Inl (FleetApi InvalidRequest (ReasonNeededFor ''run a job'')), w)
      else case fe_runner ev of
             None \<Rightarrow> (Inl (FleetApi InvalidRequest JobsOff), w)
           | Some runner \<Rightarrow>
               (case find_job runner key of
                  Inl e \<Rightarrow> (Inl (FleetApi InvalidRequest (JobSays e)), w)
                | Inr j \<Rightarrow>
                    (case clean_job j params of
                       Inl e \<Rightarrow> (Inl (FleetApi InvalidRequest (JobSays e)), w)
                     | Inr cleaned \<Rightarrow>
                         (case fleet_audited desc ev (job_call p c key reason)
                                 (start_job_body ev p runner c key cleaned reason) w of
                            (Inl (FleetAudit AuditUnavailable), w') \<Rightarrow>
                              (Inl (FleetApi AuditUnavailableError (AuditSays AuditUnavailable)), w')
                          | (Inl e, w') \<Rightarrow> (Inl e, w')
                          | (Inr (r, command), w') \<Rightarrow>
                              (Inr (jr_id r),
                               w'\<lparr>fw_store := append_output (jr_id r) ''info''
                                     (''Running '' @ join '' '' command) (fw_store w')\<rparr>)))))"

text \<open>What the worker thread does: a line of output, and the outcome.\<close>

definition job_line :: "nat \<Rightarrow> string \<Rightarrow> fleet_world \<Rightarrow> fleet_world" where
  "job_line rid line w = w\<lparr>fw_store := append_output rid ''output'' line (fw_store w)\<rparr>"

definition job_finished :: "nat \<Rightarrow> nat \<Rightarrow> job_result \<Rightarrow> fleet_world \<Rightarrow> fleet_world" where
  "job_finished now rid result w =
     w\<lparr>fw_store := finish_run_row now rid (job_outcome_of result) (fw_store w)\<rparr>"

section \<open>Graceful shutdown\<close>

definition node_base :: "string \<Rightarrow> string" where
  "node_base url = rev (dropWhile (\<lambda>c. c = CHR ''/'') (rev url))"

definition shutdown_request :: "fleet_env \<Rightarrow> string \<Rightarrow> http_request" where
  "shutdown_request ev url =
     \<lparr>rq_method = ''PUT'', rq_url = node_base url @ ''/v1/info/state'',
      rq_headers = (''Content-Type'', ''application/json'') #
        (if fe_user ev \<noteq> []
         then [(''X-Trino-User'', fe_user ev),
               (''Authorization'', ''Basic '' @ b64encode (utf8 (fe_user ev @ '':'' @ fe_password ev)))]
         else []),
      rq_body = Some (utf8 (CHR 0x22 # ''SHUTTING_DOWN'' @ [CHR 0x22])),
      rq_connect_timeout = 2, rq_read_timeout = fe_write_timeout ev, rq_verify_tls = fe_verify_tls ev\<rparr>"

definition begin_shutdown :: "fleet_env \<Rightarrow> string \<Rightarrow> fleet_world \<Rightarrow> (shutdown_exn + unit) \<times> fleet_world" where
  "begin_shutdown ev url w =
     (let rq = shutdown_request ev url; w' = w\<lparr>fw_effects := fw_effects w @ [ShutdownSent rq]\<rparr>
      in case fe_answer ev rq of
           Inl e \<Rightarrow> (Inl (NodeUnreachable (node_base url) e), w')
         | Inr resp \<Rightarrow>
             (if rs_status resp = 403 then (Inl (NodeForbids (node_base url)), w')
              else if rs_status resp \<ge> 400
              then (Inl (NodeRefuses (node_base url) (rs_status resp)), w')
              else (Inr (), w')))"

text \<open>\<open>for node in (payload or {}).get("nodes", [])\<close>: the first node of that host. Reading a member
  that is not a dictionary raises.\<close>

fun first_host :: "string \<Rightarrow> json list \<Rightarrow> py_exn + (string \<times> json) list option" where
  "first_host h [] = Inr None"
| "first_host h (n # ns) =
     (case fields_of n of
        None \<Rightarrow> Inl AttributeError
      | Some fs \<Rightarrow> (if dget ''host'' fs = JStr h then Inr (Some fs) else first_host h ns))"

definition find_node :: "fleet_env \<Rightarrow> string \<Rightarrow> string \<Rightarrow> py_exn + (string \<times> json) list option" where
  "find_node ev c h =
     (case or_dict (case fe_fleet ev c of None \<Rightarrow> JObj [] | Some s \<Rightarrow> sn_payload s) of
        Inl e \<Rightarrow> Inl e
      | Inr fs \<Rightarrow>
          (case get_or ''nodes'' (JList []) fs of
             JList ns \<Rightarrow> first_host h ns
           | JObj gs \<Rightarrow> (if gs = [] then Inr None else Inl AttributeError)
           | JStr s \<Rightarrow> (if s = [] then Inr None else Inl AttributeError)
           | _ \<Rightarrow> Inl TypeError))"

definition url_of_node :: "fleet_env \<Rightarrow> (string \<times> json) list \<Rightarrow> string" where
  "url_of_node ev node =
     fe_node_url ev
       (str_of (fe_shown ev) (if truthy (dget ''address'' node) then dget ''address'' node
                              else dget ''host'' node))
       (str_of (fe_shown ev) (dget ''host'' node))"

definition shutdown_call :: "principal \<Rightarrow> string \<Rightarrow> string \<Rightarrow> string option \<Rightarrow> audit_call" where
  "shutdown_call p c h reason =
     \<lparr>ac_actor = pr_username p, ac_roles = pr_roles p, ac_action_type = ''NODE_SHUTDOWN'',
      ac_target_kind = ''node'', ac_target_id = h, ac_reason = reason,
      ac_target_cluster = Some c, ac_actor_ip = pr_ip p, ac_request_id = None\<rparr>"

definition shutdown_body :: "fleet_env \<Rightarrow> string \<Rightarrow> unit fleet" where
  "shutdown_body ev url w =
     (case begin_shutdown ev url w of
        (Inl e, w') \<Rightarrow> (Inl (FleetApi UpstreamUnavailable (NodeSays e)), w')
      | (Inr _, w') \<Rightarrow> (Inr (), w'))"

definition shutdown_node ::
    "(fleet_exn \<Rightarrow> string) \<Rightarrow> fleet_env \<Rightarrow> principal \<Rightarrow> string \<Rightarrow> string \<Rightarrow> string option \<Rightarrow> unit fleet" where
  "shutdown_node desc ev p c h reason w =
     (if \<not> can p MANAGE_HEALTH then (Inl (FleetApi Forbidden (NoPermission ''shut down a node'')), w)
      else if \<not> known_cluster ev c then (Inl (FleetApi NotFound (UnknownClusterMsg c)), w)
      else if blank_opt reason
      then (Inl (FleetApi InvalidRequest (ReasonNeededFor ''shut down a node'')), w)
      else case find_node ev c h of
             Inl e \<Rightarrow> (Inl (FleetInterp e), w)
           | Inr None \<Rightarrow> (Inl (FleetApi NotFound (NotInInventory h c)), w)
           | Inr (Some node) \<Rightarrow>
               (if dget ''role'' node \<noteq> JStr ''worker''
                then (Inl (FleetApi InvalidRequest (IsCoordinator h)), w)
                else if dget ''state'' node = JStr ''SHUTTING_DOWN''
                then (Inl (FleetApi InvalidRequest (AlreadyShuttingDown h)), w)
                else fleet_audited desc ev (shutdown_call p c h reason)
                       (shutdown_body ev (url_of_node ev node)) w))"

section \<open>Nothing happens unseen\<close>

lemma put_fleet_audit_rest [simp]:
  "fw_effects (put_fleet_audit au w) = fw_effects w" "fw_store (put_fleet_audit au w) = fw_store w"
  by (simp_all add: put_fleet_audit_def)

lemma shutdown_body_facts:
  "shutdown_body ev url w = (r, w') \<Longrightarrow>
     fw_audit w' = fw_audit w \<and> fw_effects w' = fw_effects w @ [ShutdownSent (shutdown_request ev url)]"
  by (auto simp: shutdown_body_def begin_shutdown_def Let_def split: sum.splits if_splits prod.splits)

text \<open>C18: a shutdown reaches a node only when all of this holds: an administrator gave a reason, the
  audit store can be written, and the stored inventory of that cluster lists the host as a worker
  that is not already leaving - never a coordinator, never a host or an address the request made up.
  One request is sent at most; every request that leaves is followed by one audit record naming the
  actor, the host and the real outcome; and success is reported only after a request left.\<close>

theorem shutdown_only_known_workers:
  "case shutdown_node desc ev p c h reason w of
     (r, w') \<Rightarrow>
       (fw_effects w' = fw_effects w \<and> (case r of Inl _ \<Rightarrow> True | Inr _ \<Rightarrow> False)) \<or>
       (\<exists>node rec. find_node ev c h = Inr (Some node) \<and>
          dget ''role'' node = JStr ''worker'' \<and> dget ''state'' node \<noteq> JStr ''SHUTTING_DOWN'' \<and>
          can p MANAGE_HEALTH \<and> known_cluster ev c \<and> \<not> blank_opt reason \<and> writable (fw_audit w) \<and>
          fw_effects w' = fw_effects w @ [ShutdownSent (shutdown_request ev (url_of_node ev node))] \<and>
          records (fw_audit w') = records (fw_audit w) @ [rec] \<and>
          audit_entry (shutdown_call p c h reason) (\<exists>x. r = Inr x) rec)"
proof -
  obtain r w' where res: "shutdown_node desc ev p c h reason w = (r, w')" by (metis surj_pair)
  show ?thesis
  proof (cases "\<exists>node. can p MANAGE_HEALTH \<and> known_cluster ev c \<and> \<not> blank_opt reason \<and>
      find_node ev c h = Inr (Some node) \<and> dget ''role'' node = JStr ''worker'' \<and>
      dget ''state'' node \<noteq> JStr ''SHUTTING_DOWN''")
    case True
    then obtain node where ok: "can p MANAGE_HEALTH" "known_cluster ev c" "\<not> blank_opt reason"
      "find_node ev c h = Inr (Some node)" "dget ''role'' node = JStr ''worker''"
      "dget ''state'' node \<noteq> JStr ''SHUTTING_DOWN''" by blast
    let ?body = "shutdown_body ev (url_of_node ev node)"
    have aud: "fleet_audited desc ev (shutdown_call p c h reason) ?body w = (r, w')"
      using res ok by (simp add: shutdown_node_def)
    have keep: "fw_audit (snd (?body w)) = fw_audit w"
      using shutdown_body_facts by (metis surj_pair snd_conv)
    from aud [unfolded fleet_audited_def] keep show ?thesis
    proof (cases rule: fleet_guard.audited_cases)
      case (ran wb au rec)
      then show ?thesis using ok res shutdown_body_facts [OF ran(1)] by auto
    qed (use res in auto)
  next
    case False
    then show ?thesis using res
      by (auto simp: shutdown_node_def split: if_splits sum.splits option.splits)
  qed
qed

lemma start_job_body_facts:
  assumes "start_job_body ev p runner c key cleaned reason w = (r, w')"
  shows "fw_audit w' = fw_audit w"
    and "(\<exists>e. r = Inl e \<and> fw_effects w' = fw_effects w) \<or>
         (\<exists>run command. r = Inr (run, command) \<and> job_command runner key c cleaned = Inr command \<and>
            fw_effects w' = fw_effects w @ [Launched c command] \<and>
            create_run (fe_now ev) c key (pr_username p) (pr_roles p)
              (case reason of Some s \<Rightarrow> s | None \<Rightarrow> []) cleaned (fw_store w) = Inr (run, fw_store w'))"
  using assms by (auto simp: start_job_body_def split: option.splits sum.splits)

lemma created_alone:
  "create_run now c key actor roles reason params st = Inr (run, st') \<Longrightarrow>
     \<not> list_ex (\<lambda>r. jr_state r = Running \<and> jr_cluster r = c) (job_runs st) \<and>
     jr_state run = Running \<and> jr_cluster run = c \<and> job_runs st' = job_runs st @ [run]"
  by (auto simp: create_run_def Let_def split: if_splits)

text \<open>a playbook is launched only when all of this holds: an administrator gave a reason, the audit
  store can be written, the job and the cluster are configured, and no other job of that cluster is
  running. The launched command is the declared one for the cleaned parameters, the run is on record
  as running before it starts, and one audit record naming the actor and the job follows.\<close>

theorem job_launch_is_recorded:
  "case start_job desc ev p c key params reason w of
     (r, w') \<Rightarrow>
       (fw_effects w' = fw_effects w \<and> (case r of Inl _ \<Rightarrow> True | Inr _ \<Rightarrow> False)) \<or>
       (\<exists>runner command run rec. fe_runner ev = Some runner \<and>
          requested_command runner key c params = Inr command \<and>
          can p MANAGE_HEALTH \<and> known_cluster ev c \<and> \<not> blank_opt reason \<and> writable (fw_audit w) \<and>
          \<not> list_ex (\<lambda>r. jr_state r = Running \<and> jr_cluster r = c) (job_runs (fw_store w)) \<and>
          r = Inr (jr_id run) \<and> jr_state run = Running \<and> jr_cluster run = c \<and>
          job_runs (fw_store w') = job_runs (fw_store w) @ [run] \<and>
          fw_effects w' = fw_effects w @ [Launched c command] \<and>
          records (fw_audit w') = records (fw_audit w) @ [rec] \<and>
          audit_entry (job_call p c key reason) True rec)"
proof -
  obtain r w' where res: "start_job desc ev p c key params reason w = (r, w')" by (metis surj_pair)
  show ?thesis
  proof (cases "\<exists>runner j cleaned. can p MANAGE_HEALTH \<and> known_cluster ev c \<and> \<not> blank_opt reason \<and>
      fe_runner ev = Some runner \<and> find_job runner key = Inr j \<and> clean_job j params = Inr cleaned")
    case True
    then obtain runner j cleaned where ok: "can p MANAGE_HEALTH" "known_cluster ev c"
      "\<not> blank_opt reason" "fe_runner ev = Some runner" "find_job runner key = Inr j"
      "clean_job j params = Inr cleaned" by blast
    have cmd: "requested_command runner key c params = job_command runner key c cleaned"
      using ok by (simp add: requested_command_def)
    obtain r1 w1 where aud: "fleet_audited desc ev (job_call p c key reason)
        (start_job_body ev p runner c key cleaned reason) w = (r1, w1)" by (metis surj_pair)
    have keep: "fw_audit (snd (start_job_body ev p runner c key cleaned reason w)) = fw_audit w"
      using start_job_body_facts(1) by (metis surj_pair snd_conv)
    from aud [unfolded fleet_audited_def] keep show ?thesis
    proof (cases rule: fleet_guard.audited_cases)
      case (refused e)
      then show ?thesis using res aud ok
        by (cases e) (auto simp: start_job_def)
    next
      case (ran wb au rec)
      show ?thesis
      proof (cases r1)
        case (Inl e)
        then have "fw_effects w1 = fw_effects w" using ran(3) start_job_body_facts(2) [OF ran(1)] by auto
        moreover have "w' = w1 \<and> (\<exists>e. r = Inl e)"
          using res aud ok Inl by (auto simp: start_job_def split: fleet_exn.splits audit_exn.splits)
        ultimately show ?thesis using res by auto
      next
        case (Inr rc)
        then obtain run command where r1: "r1 = Inr (run, command)" by (cases rc) auto
        have b: "job_command runner key c cleaned = Inr command"
          "fw_effects wb = fw_effects w @ [Launched c command]"
          "create_run (fe_now ev) c key (pr_username p) (pr_roles p)
              (case reason of Some s \<Rightarrow> s | None \<Rightarrow> []) cleaned (fw_store w) = Inr (run, fw_store wb)"
          using start_job_body_facts(2) [OF ran(1)] r1 by auto
        have "r = Inr (jr_id run) \<and> fw_effects w' = fw_effects w1 \<and> fw_audit w' = fw_audit w1 \<and>
              job_runs (fw_store w') = job_runs (fw_store w1)"
          using res aud ok r1 by (auto simp: start_job_def append_output_def)
        then show ?thesis
          using res ran b created_alone [OF b(3)] ok cmd r1 by auto
      qed
    qed
  next
    case False
    then show ?thesis using res
      by (auto simp: start_job_def split: if_splits sum.splits option.splits)
  qed
qed

end
