(* ===== verification/PropertyFiles.thy ===== *)
theory PropertyFiles
  imports Json
begin

text \<open>
  Trino's property files as the program reads and writes them: which keys read like a credential
  (\<open>SECRET_KEY\<close> of \<^verbatim>\<open>ops/catalogs.py\<close>, \<^verbatim>\<open>ops/configedit.py\<close> and
  \<^verbatim>\<open>ops/configscan.py\<close>), what an environment reference is, reading a file
  (\<open>parse_properties\<close>) and writing one (\<open>render\<close>). Reading gives back what was written, for entries
  on one line each.
\<close>

section \<open>Credentials\<close>

definition any_sub :: "string list \<Rightarrow> string \<Rightarrow> bool" where
  "any_sub ps s \<longleftrightarrow> list_ex (\<lambda>p. has_sub p s) ps"

text \<open>\<open>$\<close> in a pattern also matches before a line feed that ends the text.\<close>

definition drop_final_lf :: "string \<Rightarrow> string" where
  "drop_final_lf s = (if s \<noteq> [] \<and> last s = CHR 0x0A then butlast s else s)"

definition ends_in :: "string \<Rightarrow> string \<Rightarrow> bool" where
  "ends_in p s \<longleftrightarrow> suffix p s \<or> suffix p (drop_final_lf s)"

definition secret_key :: "string \<Rightarrow> bool" where
  "secret_key k \<longleftrightarrow>
     any_sub [''password'', ''secret'', ''credential'',
              ''accesskey'', ''access-key'', ''access_key'', ''access.key'',
              ''privatekey'', ''private-key'', ''private_key'', ''private.key'',
              ''keystore'', ''truststore''] (lower k) \<or>
     ends_in ''.key'' (lower k)"

definition scan_secret_key :: "string \<Rightarrow> bool" where
  "scan_secret_key k \<longleftrightarrow>
     any_sub [''password'', ''secret'', ''credential'', ''token'',
              ''accesskey'', ''access-key'', ''access_key'', ''access.key'',
              ''privatekey'', ''private-key'', ''private_key'', ''private.key'',
              ''keystore'', ''truststore''] (lower k) \<or>
     ends_in ''.key'' (lower k)"

lemma secret_key_scanned: "secret_key k \<Longrightarrow> scan_secret_key k"
  by (auto simp: secret_key_def scan_secret_key_def any_sub_def)

definition ident_char :: "char \<Rightarrow> bool" where
  "ident_char c \<longleftrightarrow> is_ascii_alnum c \<or> c = CHR ''_''"

definition env_name :: "string \<Rightarrow> bool" where
  "env_name s \<longleftrightarrow> s \<noteq> [] \<and> \<not> is_ascii_digit (hd s) \<and> list_all ident_char s"

definition whole_reference :: "string \<Rightarrow> bool" where
  "whole_reference s \<longleftrightarrow>
     take 6 s = ''${ENV:'' \<and> length s \<ge> 8 \<and> last s = CHR ''}'' \<and> env_name (butlast (drop 6 s))"

definition env_reference :: "string \<Rightarrow> bool" where
  "env_reference s \<longleftrightarrow> whole_reference s \<or> whole_reference (drop_final_lf s)"

text \<open>What a credential-shaped entry may hold.\<close>

definition no_literal :: "string \<times> string \<Rightarrow> bool" where
  "no_literal kv = (case kv of (k, v) \<Rightarrow> \<not> secret_key k \<or> env_reference (strip v))"

section \<open>Files\<close>

definition parse_line :: "string \<Rightarrow> (string \<times> string) option" where
  "parse_line l0 =
     (let l = strip l0
      in if l = [] \<or> hd l = CHR ''#'' \<or> hd l = CHR ''!'' then None
         else case partition_at (CHR ''='') l of
                (k, found, v) \<Rightarrow> (if found then Some (strip k, strip v) else None))"

fun parse_lines :: "string list \<Rightarrow> string pydict \<Rightarrow> string pydict" where
  "parse_lines [] d = d"
| "parse_lines (l # ls) d =
     parse_lines ls (case parse_line l of None \<Rightarrow> d | Some (k, v) \<Rightarrow> dset k v d)"

definition parse_properties :: "string \<Rightarrow> string pydict" where
  "parse_properties s = parse_lines (splitlines s) []"

definition entry_line :: "string \<times> string \<Rightarrow> string" where
  "entry_line kv = (case kv of (k, v) \<Rightarrow> k @ ''='' @ v)"

definition render_file :: "string \<Rightarrow> string pydict \<Rightarrow> string" where
  "render_file connector props =
     join [CHR 0x0A] (entry_line (''connector.name'', connector) # map entry_line (sort_by fst props))
       @ [CHR 0x0A]"

definition one_line :: "string \<Rightarrow> bool" where
  "one_line s \<longleftrightarrow> list_all (\<lambda>c. \<not> is_line_break c) s"

definition plain_entry :: "string \<times> string \<Rightarrow> bool" where
  "plain_entry kv =
     (case kv of (k, v) \<Rightarrow>
        one_line k \<and> one_line v \<and> k \<noteq> [] \<and> strip k = k \<and> strip v = v \<and>
        CHR ''='' \<notin> set k \<and> hd k \<noteq> CHR ''#'' \<and> hd k \<noteq> CHR ''!'')"

lemma join_snoc_Nil: "ls \<noteq> [] \<Longrightarrow> join sep (ls @ [[]]) = join sep ls @ sep"
  by (induction sep ls rule: join.induct) auto

lemma splitlines_rendered:
  assumes "ls \<noteq> []" "list_all one_line ls"
  shows "splitlines (join [CHR 0x0A] ls @ [CHR 0x0A]) = ls"
  using splitlines_join [of "ls @ [[]]"] assms
  by (simp add: join_snoc_Nil one_line_def [abs_def])

lemma strip_same_iff: "strip s = s \<longleftrightarrow> s = [] \<or> \<not> is_space (hd s) \<and> \<not> is_space (last s)"
proof
  assume st: "strip s = s"
  show "s = [] \<or> \<not> is_space (hd s) \<and> \<not> is_space (last s)"
  proof (cases "s = []")
    case False
    let ?d = "dropWhile is_space s"
    have len: "length (strip s) \<le> length ?d"
      unfolding strip_def by (metis length_dropWhile_le length_rev)
    have hd: "\<not> is_space (hd s)"
    proof
      assume "is_space (hd s)"
      then have "length ?d < length s" using False
        by (cases s) (auto simp: less_Suc_eq_le intro: length_dropWhile_le)
      then show False using len st by simp
    qed
    then have d: "?d = s" using False by (cases s) auto
    have "rev (dropWhile is_space (rev s)) = s" using st d by (simp add: strip_def)
    then have "dropWhile is_space (rev s) = rev s" by (metis rev_rev_ident)
    then have "\<not> is_space (hd (rev s))" using False by (metis hd_dropWhile rev_is_Nil_conv)
    then show ?thesis using hd False by (simp add: hd_rev)
  qed simp
next
  assume "s = [] \<or> \<not> is_space (hd s) \<and> \<not> is_space (last s)"
  then show "strip s = s"
  proof
    assume *: "\<not> is_space (hd s) \<and> \<not> is_space (last s)"
    show ?thesis
    proof (cases "s = []")
      case False
      then have "dropWhile is_space s = s" "dropWhile is_space (rev s) = rev s"
        using * by (simp_all add: dropWhile_eq_self_iff hd_rev)
      then show ?thesis by (simp add: strip_def)
    qed (simp add: strip_def)
  qed (simp add: strip_def)
qed

lemma parse_entry_line: "plain_entry kv \<Longrightarrow> parse_line (entry_line kv) = Some kv"
proof -
  assume plain: "plain_entry kv"
  obtain k v where kv: "kv = (k, v)" by (cases kv)
  have k: "k \<noteq> []" "strip k = k" "strip v = v" "CHR ''='' \<notin> set k"
    "hd k \<noteq> CHR ''#''" "hd k \<noteq> CHR ''!''"
    using plain by (auto simp: plain_entry_def kv)
  have eq: "\<not> is_space (CHR ''='')" by code_simp
  have str: "strip (entry_line kv) = entry_line kv"
    using k strip_same_iff [of k] strip_same_iff [of v] eq
    by (auto simp: strip_same_iff entry_line_def kv)
  have tw: "takeWhile (\<lambda>c. c \<noteq> CHR ''='') (k @ CHR ''='' # v) = k"
    and dw: "dropWhile (\<lambda>c. c \<noteq> CHR ''='') (k @ CHR ''='' # v) = CHR ''='' # v"
    using k(4) by (auto simp: takeWhile_append dropWhile_append)
  show ?thesis using k str tw dw
    by (auto simp: parse_line_def Let_def partition_at_def entry_line_def kv)
qed

lemma dset_fresh: "k \<notin> fst ` set d \<Longrightarrow> dset k v d = d @ [(k, v)]"
  by (induction d) auto

lemma parse_lines_plain:
  "list_all plain_entry kvs \<Longrightarrow> distinct (map fst (d @ kvs)) \<Longrightarrow>
   parse_lines (map entry_line kvs) d = d @ kvs"
proof (induction kvs arbitrary: d)
  case (Cons kv kvs)
  obtain k v where kv: "kv = (k, v)" by (cases kv)
  then have "k \<notin> fst ` set d" using Cons.prems by auto
  then show ?case using Cons kv by (auto simp: parse_entry_line dset_fresh)
qed simp

lemma entry_line_one_line: "plain_entry kv \<Longrightarrow> one_line (entry_line kv)"
proof -
  have "\<not> is_line_break (CHR ''='')" by code_simp
  then show "plain_entry kv \<Longrightarrow> one_line (entry_line kv)"
    by (auto simp: plain_entry_def entry_line_def one_line_def split: prod.splits)
qed

lemma parse_rendered_file:
  assumes plain: "list_all plain_entry ((''connector.name'', connector) # props)"
    and dist: "distinct (map fst ((''connector.name'', connector) # props))"
  shows "parse_properties (render_file connector props) =
           (''connector.name'', connector) # sort_by fst props"
proof -
  let ?kvs = "(''connector.name'', connector) # sort_by fst props"
  have all: "list_all plain_entry ?kvs" using plain by (simp add: list_all_iff)
  have one: "list_all one_line (map entry_line ?kvs)"
    using all entry_line_one_line by (auto simp: list_all_iff)
  have d: "distinct (map fst ([] @ ?kvs))" using dist by simp
  have "splitlines (render_file connector props) = map entry_line ?kvs"
    using splitlines_rendered [OF _ one] by (simp add: render_file_def)
  then show ?thesis
    using parse_lines_plain [OF all d] by (simp add: parse_properties_def)
qed

end
