(* ===== verification/DevFirst.thy ===== *)
theory DevFirst
  imports Prelude
begin

text \<open>
  Proved on a development cluster first. Catalog drafts and configuration changes follow one rule: a
  row is marked when its content has landed on a development cluster, an edit takes the mark away,
  and only a marked row may go to production. The locale states what a service promises of each of
  its steps, and holds the consequence: a mark is always earned by the content the row has now. The
  promise \<open>steady\<close> is the one a service cannot keep by itself - content must not change while a
  deployment of it runs.
\<close>

datatype deploy_state = DepRunning | DepSucceeded | DepFailed

text \<open>How the playbook process of a deployment ended: a result with an exit code (None when it did not
  start or was stopped) and perhaps an error, or an exception; and what is recorded of it.\<close>

datatype runner_end = RunnerResult "int option" "string option" | RunnerRaised string

definition end_state :: "runner_end \<Rightarrow> deploy_state \<times> string option" where
  "end_state r =
     (case r of
        RunnerRaised e \<Rightarrow> (DepFailed, Some e)
      | RunnerResult rc err \<Rightarrow>
          (if rc = Some 0 then (DepSucceeded, None)
           else (DepFailed,
                 Some (let exited = ''ansible-playbook exited '' @
                                      (case rc of None \<Rightarrow> ''None'' | Some n \<Rightarrow> show_int n)
                       in case err of None \<Rightarrow> exited | Some e \<Rightarrow> if e = [] then exited else e))))"

text \<open>\<open>for row in rows: if ...: row.update(...); return\<close>\<close>

fun update_first :: "('r \<Rightarrow> bool) \<Rightarrow> ('r \<Rightarrow> 'r) \<Rightarrow> 'r list \<Rightarrow> 'r list" where
  "update_first p f [] = []"
| "update_first p f (d # ds) = (if p d then f d # ds else d # update_first p f ds)"

lemma find_update_first:
  assumes "\<And>d. p d \<Longrightarrow> p (f d)"
  shows "find p (update_first p f ds) = map_option f (find p ds)"
  using assms by (induction ds) auto

lemma find_update_other:
  assumes "\<And>d. q d \<Longrightarrow> \<not> p d" and "\<And>d. p d \<Longrightarrow> \<not> q (f d)"
  shows "find q (update_first p f ds) = find q ds"
  using assms by (induction ds) auto

lemma update_first_image: "(\<And>d. g (f d) = g d) \<Longrightarrow> g ` set (update_first p f ds) = g ` set ds"
  by (induction ds) auto

lemma update_first_all:
  "\<forall>d\<in>set ds. P d \<and> P (f d) \<Longrightarrow> d \<in> set (update_first p f ds) \<Longrightarrow> P d"
  by (induction ds) (auto split: if_splits)

lemma find_append: "find p (xs @ ys) = (case find p xs of None \<Rightarrow> find p ys | Some x \<Rightarrow> Some x)"
  by (induction xs) auto

lemma find_filter_other:
  assumes "\<And>d. q d \<Longrightarrow> p d"
  shows "find q (filter p ds) = find q ds"
  using assms by (induction ds) auto

lemma find_filter_same: "find p (filter (\<lambda>d. \<not> p d) ds) = None"
  by (induction ds) auto

locale proved_first =
  fixes step :: "'w \<Rightarrow> 'w \<Rightarrow> bool"
    and valid :: "'w \<Rightarrow> bool"
    and content :: "'w \<Rightarrow> nat \<Rightarrow> 'c option"
    and mark :: "'w \<Rightarrow> nat \<Rightarrow> string option"
    and landed :: "'w \<Rightarrow> (nat \<times> 'c \<times> string) set"
    and inflight :: "'w \<Rightarrow> (nat \<times> 'c \<times> string) set"
  assumes valid_step: "valid w \<Longrightarrow> step w w' \<Longrightarrow> valid w'"
    and landed_stays: "valid w \<Longrightarrow> step w w' \<Longrightarrow> landed w \<subseteq> landed w'"
    and launched: "valid w \<Longrightarrow> step w w' \<Longrightarrow> (i, x, c) \<in> inflight w' \<Longrightarrow>
                     (i, x, c) \<in> inflight w \<or> content w' i = Some x"
    and steady: "valid w \<Longrightarrow> step w w' \<Longrightarrow> (i, x, c) \<in> inflight w \<Longrightarrow>
                     content w' i = content w i \<or> content w' i = None"
    and marked: "valid w \<Longrightarrow> step w w' \<Longrightarrow> mark w' i = Some c \<Longrightarrow> content w' i = Some x \<Longrightarrow>
                     (mark w i = Some c \<and> content w i = Some x) \<or>
                     (\<exists>y. (i, y, c) \<in> inflight w \<and> (i, y, c) \<in> landed w' \<and> content w' i = content w i)"
begin

definition earned :: "'w \<Rightarrow> bool" where
  "earned w \<longleftrightarrow> valid w \<and>
     (\<forall>(i, x, c)\<in>inflight w. content w i = None \<or> content w i = Some x) \<and>
     (\<forall>i c x. mark w i = Some c \<and> content w i = Some x \<longrightarrow> (i, x, c) \<in> landed w)"

lemma earned_step:
  assumes "earned w" "step w w'"
  shows "earned w'"
proof -
  have valid: "valid w" using assms(1) by (simp add: earned_def)
  have running: "content w i = None \<or> content w i = Some x" if "(i, x, c) \<in> inflight w" for i x c
    using assms(1) that by (auto simp: earned_def)
  have run': "content w' i = None \<or> content w' i = Some x" if "(i, x, c) \<in> inflight w'" for i x c
    using launched [OF valid assms(2) that] running [of i x c] steady [OF valid assms(2), of i x c]
    by auto
  have "(i, x, c) \<in> landed w'" if "mark w' i = Some c" "content w' i = Some x" for i c x
    using marked [OF valid assms(2) that]
  proof
    assume "mark w i = Some c \<and> content w i = Some x"
    then show ?thesis using assms(1) landed_stays [OF valid assms(2)] by (auto simp: earned_def)
  next
    assume "\<exists>y. (i, y, c) \<in> inflight w \<and> (i, y, c) \<in> landed w' \<and> content w' i = content w i"
    then obtain y where "(i, y, c) \<in> inflight w" "(i, y, c) \<in> landed w'" "content w' i = content w i"
      by blast
    then show ?thesis using running [of i y c] that(2) by auto
  qed
  moreover have "\<forall>(i, x, c)\<in>inflight w'. content w' i = None \<or> content w' i = Some x"
    using run' by blast
  ultimately show ?thesis using valid_step [OF valid assms(2)] by (simp add: earned_def)
qed

lemma earned_reach: "step\<^sup>*\<^sup>* w w' \<Longrightarrow> earned w \<Longrightarrow> earned w'"
  by (induction rule: rtranclp_induct) (auto intro: earned_step)

lemma mark_is_earned:
  "step\<^sup>*\<^sup>* w w' \<Longrightarrow> earned w \<Longrightarrow> mark w' i = Some c \<Longrightarrow> content w' i = Some x \<Longrightarrow> (i, x, c) \<in> landed w'"
  using earned_reach by (auto simp: earned_def)

end

end
