(* ===== verification/Catalogs.thy ===== *)
theory Catalogs
  imports PropertyFiles Base64 DevFirst
begin

text \<open>
  Catalog drafts (\<^verbatim>\<open>ops/catalogs.py\<close>) and where they are kept
  (\<open>InMemoryCatalogRepository\<close> of \<^verbatim>\<open>ops/catalogstore.py\<close>). A property value of a request is a
  JSON value; \<open>str\<close> of one that is not text is \<open>shown\<close>. The fingerprint is an argument \<open>hash\<close> (the
  first 16 digits of SHA-256) of the rendered file. Time stamps are left out: rows are
  created at increasing instants.
\<close>

section \<open>Validation\<close>

definition MAX_PROPERTIES :: nat where "MAX_PROPERTIES = 100"
definition MAX_VALUE_CHARS :: int where "MAX_VALUE_CHARS = 2000"

definition lower_letter :: "char \<Rightarrow> bool" where
  "lower_letter c \<longleftrightarrow> 97 \<le> PyText.code c \<and> PyText.code c \<le> 122"

text \<open>\<open>^[a-z][a-z0-9_]*$\<close> on text without surrounding white space.\<close>

definition catalog_name :: "string \<Rightarrow> bool" where
  "catalog_name s \<longleftrightarrow> s \<noteq> [] \<and> lower_letter (hd s) \<and>
     list_all (\<lambda>c. lower_letter c \<or> is_ascii_digit c \<or> c = CHR ''_'') s"

datatype catalog_error =
    BadCatalogName | NoConnector | BadConnector | ReservedKey | ValueTooLong string
  | LiteralCredential string | TooManyProperties

record catalog_fields =
  cf_name :: string
  cf_connector :: string
  cf_properties :: "string pydict"

definition value_text :: "(json \<Rightarrow> string) \<Rightarrow> json \<Rightarrow> string" where
  "value_text shown v = (if v = JNull then [] else str_of shown v)"

fun clean_props ::
    "(json \<Rightarrow> string) \<Rightarrow> json pydict \<Rightarrow> string pydict \<Rightarrow> catalog_error + string pydict" where
  "clean_props shown [] cleaned = Inr cleaned"
| "clean_props shown ((k0, v0) # rest) cleaned =
     (let k = strip k0; v = value_text shown v0
      in if k = [] then clean_props shown rest cleaned
         else if k = ''connector.name'' then Inl ReservedKey
         else if int (length v) > MAX_VALUE_CHARS then Inl (ValueTooLong k)
         else if secret_key k \<and> \<not> env_reference (strip v) then Inl (LiteralCredential k)
         else clean_props shown rest (dset k v cleaned))"

definition validate_catalog ::
    "(json \<Rightarrow> string) \<Rightarrow> string \<Rightarrow> string \<Rightarrow> json pydict \<Rightarrow> catalog_error + catalog_fields" where
  "validate_catalog shown name0 connector0 props =
     (let name = strip name0; connector = strip connector0
      in if \<not> catalog_name name then Inl BadCatalogName
         else if connector = [] then Inl NoConnector
         else if \<not> catalog_name connector then Inl BadConnector
         else case clean_props shown props [] of
                Inl e \<Rightarrow> Inl e
              | Inr cleaned \<Rightarrow>
                  (if length cleaned > MAX_PROPERTIES then Inl TooManyProperties
                   else Inr \<lparr>cf_name = name, cf_connector = connector, cf_properties = cleaned\<rparr>))"

section \<open>Environment variables a catalog needs\<close>

fun references_in :: "string \<Rightarrow> string list" where
  "references_in [] = []"
| "references_in (c # cs) =
     (let name = takeWhile ident_char (drop 6 (c # cs))
      in if take 6 (c # cs) = ''${ENV:'' \<and> env_name name \<and>
            take 1 (drop (6 + length name) (c # cs)) = ''}''
         then [name] else []) @ references_in cs"

definition environment_references :: "string pydict \<Rightarrow> string list" where
  "environment_references ps =
     sort_by (\<lambda>s. s) (remdups (concat (map (references_in \<circ> snd) ps)))"

section \<open>The deployment gate\<close>

definition fingerprint :: "(string \<Rightarrow> string) \<Rightarrow> string \<Rightarrow> string pydict \<Rightarrow> string" where
  "fingerprint hash connector props = hash (render_file connector props)"

datatype gate_refusal =
    NowhereToProve | NotProvedYet | ProvedElsewhere string

definition refuse_catalog :: "string option \<Rightarrow> string \<Rightarrow> string list \<Rightarrow> gate_refusal option" where
  "refuse_catalog verified c development =
     (if c \<in> set development then None
      else if development = [] then Some NowhereToProve
      else case verified of
             None \<Rightarrow> Some NotProvedYet
           | Some v \<Rightarrow> (if v = [] then Some NotProvedYet
                       else if v \<notin> set development then Some (ProvedElsewhere v) else None))"

record target_view =
  tv_cluster :: string
  tv_development :: bool
  tv_refusal :: "gate_refusal option"

definition deployable :: "string option \<Rightarrow> string list \<Rightarrow> string list \<Rightarrow> target_view list" where
  "deployable verified clusters development =
     map (\<lambda>c. \<lparr>tv_cluster = c, tv_development = (c \<in> set development),
               tv_refusal = refuse_catalog verified c development\<rparr>) clusters"

lemma refuse_catalog_None:
  "refuse_catalog verified c development = None \<longleftrightarrow>
     c \<in> set development \<or> (\<exists>v. verified = Some v \<and> v \<noteq> [] \<and> v \<in> set development)"
  by (auto simp: refuse_catalog_def split: option.splits)

section \<open>The store\<close>

record draft_row =
  dr_id :: nat
  dr_name :: string
  dr_connector :: string
  dr_properties :: "string pydict"
  dr_notes :: "string option"
  dr_verified_on :: "string option"
  dr_created_by :: string
  dr_updated_by :: "string option"

record catalog_deployment =
  cd_id :: nat
  cd_catalog :: nat
  cd_name :: string
  cd_cluster :: string
  cd_action :: string
  cd_connector :: string
  cd_properties :: "string pydict"
  cd_state :: deploy_state
  cd_detail :: "string option"
  cd_reason :: "string option"
  cd_actor :: string

record catalog_store =
  cs_drafts :: "draft_row list"
  cs_deployments :: "catalog_deployment list"
  cs_next :: nat
  cs_next_deploy :: nat

definition new_catalog_store :: catalog_store where
  "new_catalog_store = \<lparr>cs_drafts = [], cs_deployments = [], cs_next = 1, cs_next_deploy = 1\<rparr>"

definition create_draft ::
    "catalog_fields \<Rightarrow> string option \<Rightarrow> string \<Rightarrow> catalog_store \<Rightarrow> (draft_row \<times> catalog_store) option" where
  "create_draft f notes actor st =
     (if list_ex (\<lambda>d. dr_name d = cf_name f) (cs_drafts st) then None
      else let row = \<lparr>dr_id = cs_next st, dr_name = cf_name f, dr_connector = cf_connector f,
                      dr_properties = cf_properties f, dr_notes = notes, dr_verified_on = None,
                      dr_created_by = actor, dr_updated_by = None\<rparr>
           in Some (row, st\<lparr>cs_next := cs_next st + 1, cs_drafts := cs_drafts st @ [row]\<rparr>))"

definition list_drafts :: "catalog_store \<Rightarrow> draft_row list" where
  "list_drafts st = sort_by dr_name (cs_drafts st)"

definition get_draft :: "nat \<Rightarrow> catalog_store \<Rightarrow> draft_row option" where
  "get_draft i st = find (\<lambda>d. dr_id d = i) (cs_drafts st)"

definition update_draft :: "nat \<Rightarrow> (draft_row \<Rightarrow> draft_row) \<Rightarrow> catalog_store \<Rightarrow> catalog_store" where
  "update_draft i f st = st\<lparr>cs_drafts := update_first (\<lambda>d. dr_id d = i) f (cs_drafts st)\<rparr>"

definition delete_draft :: "nat \<Rightarrow> catalog_store \<Rightarrow> bool \<times> catalog_store" where
  "delete_draft i st =
     (let left = filter (\<lambda>d. dr_id d \<noteq> i) (cs_drafts st)
      in (length left \<noteq> length (cs_drafts st), st\<lparr>cs_drafts := left\<rparr>))"

definition start_deployment ::
    "draft_row \<Rightarrow> string \<Rightarrow> string \<Rightarrow> string option \<Rightarrow> string \<Rightarrow> catalog_store \<Rightarrow>
     catalog_deployment \<times> catalog_store" where
  "start_deployment d cluster action reason actor st =
     (let row = \<lparr>cd_id = cs_next_deploy st, cd_catalog = dr_id d, cd_name = dr_name d,
                 cd_cluster = cluster, cd_action = action, cd_connector = dr_connector d,
                 cd_properties = dr_properties d, cd_state = DepRunning, cd_detail = None,
                 cd_reason = reason, cd_actor = actor\<rparr>
      in (row, st\<lparr>cs_next_deploy := cs_next_deploy st + 1,
                  cs_deployments := cs_deployments st @ [row]\<rparr>))"

definition finish_deployment ::
    "nat \<Rightarrow> deploy_state \<Rightarrow> string option \<Rightarrow> catalog_store \<Rightarrow> catalog_store" where
  "finish_deployment i state detail st =
     st\<lparr>cs_deployments :=
          map (\<lambda>d. if cd_id d = i then d\<lparr>cd_state := state, cd_detail := detail\<rparr> else d)
              (cs_deployments st)\<rparr>"

definition recent_deployments :: "nat \<Rightarrow> nat option \<Rightarrow> catalog_store \<Rightarrow> catalog_deployment list" where
  "recent_deployments limit catalog st =
     take limit (rev (filter (\<lambda>d. case catalog of None \<Rightarrow> True | Some i \<Rightarrow> cd_catalog d = i)
                             (cs_deployments st)))"

section \<open>What validation gives\<close>

definition stored_entry :: "string \<times> string \<Rightarrow> bool" where
  "stored_entry kv =
     (case kv of (k, v) \<Rightarrow> k \<noteq> [] \<and> strip k = k \<and> k \<noteq> ''connector.name'' \<and>
        int (length v) \<le> MAX_VALUE_CHARS \<and> no_literal (k, v))"

definition as_json :: "string pydict \<Rightarrow> json pydict" where
  "as_json ps = map (\<lambda>(k, v). (k, JStr v)) ps"

lemma stored_dset:
  "list_all stored_entry ps \<Longrightarrow> stored_entry (k, v) \<Longrightarrow> list_all stored_entry (dset k v ps)"
  by (induction ps) auto

lemma clean_props_stored:
  "clean_props shown props acc = Inr out \<Longrightarrow> list_all stored_entry acc \<Longrightarrow> distinct (map fst acc) \<Longrightarrow>
     list_all stored_entry out \<and> distinct (map fst out)"
proof (induction shown props acc rule: clean_props.induct)
  case (2 shown k0 v0 rest acc)
  let ?k = "strip k0" and ?v = "value_text shown v0"
  show ?case
  proof (cases "?k = []")
    case False
    then have *: "?k \<noteq> ''connector.name''" "int (length ?v) \<le> MAX_VALUE_CHARS"
      "\<not> secret_key ?k \<or> env_reference (strip ?v)"
      "clean_props shown rest (dset ?k ?v acc) = Inr out"
      using "2.prems"(1) by (auto simp: Let_def split: if_splits)
    have "stored_entry (?k, ?v)" using * False by (simp add: stored_entry_def no_literal_def)
    then show ?thesis
      using "2.IH"(2) [OF refl refl] False * "2.prems"(2,3) stored_dset distinct_dset by auto
  next
    case True
    then have "clean_props shown rest acc = Inr out" using "2.prems"(1) by (simp add: Let_def)
    then show ?thesis using "2.IH"(1) [OF refl refl True] "2.prems"(2,3) by simp
  qed
qed simp

lemma clean_props_again:
  "list_all stored_entry ps \<Longrightarrow> distinct (map fst (acc @ ps)) \<Longrightarrow>
     clean_props shown (as_json ps) acc = Inr (acc @ ps)"
proof (induction ps arbitrary: acc)
  case (Cons kv ps)
  obtain k v where kv: "kv = (k, v)" by (cases kv)
  then have e: "k \<noteq> []" "strip k = k" "k \<noteq> ''connector.name''" "int (length v) \<le> MAX_VALUE_CHARS"
    "\<not> secret_key k \<or> env_reference (strip v)"
    using Cons.prems(1) by (auto simp: stored_entry_def no_literal_def)
  have "dset k v acc = acc @ [(k, v)]" using Cons.prems(2) kv by (intro dset_fresh) auto
  then show ?case using Cons kv e by (simp add: as_json_def value_text_def str_of_def)
qed (simp add: as_json_def)

lemma catalog_name_strip: "catalog_name s \<Longrightarrow> strip s = s"
proof -
  assume n: "catalog_name s"
  have "\<not> is_space c" if "c \<in> set s" for c
    using n that unfolding catalog_name_def list_all_iff
    by (auto simp: lower_letter_def is_ascii_digit_def is_space_def Let_def code_def)
  then show ?thesis using n by (simp add: strip_same_iff catalog_name_def)
qed

lemma validate_catalog_facts:
  assumes "validate_catalog shown name con props = Inr f"
  shows "list_all stored_entry (cf_properties f)" "distinct (map fst (cf_properties f))"
    "catalog_name (cf_name f)" "catalog_name (cf_connector f)"
    "length (cf_properties f) \<le> MAX_PROPERTIES"
proof -
  obtain out where out: "clean_props shown props [] = Inr out" "cf_properties f = out"
    using assms by (auto simp: validate_catalog_def Let_def split: if_splits sum.splits)
  have "list_all stored_entry out \<and> distinct (map fst out)"
    by (rule clean_props_stored [OF out(1)]) simp_all
  then show "list_all stored_entry (cf_properties f)" "distinct (map fst (cf_properties f))"
    using out(2) by simp_all
  show "catalog_name (cf_name f)" "catalog_name (cf_connector f)" "length (cf_properties f) \<le> MAX_PROPERTIES"
    using assms by (auto simp: validate_catalog_def Let_def split: if_splits sum.splits)
qed

definition well_formed_draft :: "string \<Rightarrow> string \<Rightarrow> string pydict \<Rightarrow> bool" where
  "well_formed_draft name con ps \<longleftrightarrow>
     list_all stored_entry ps \<and> distinct (map fst ps) \<and> catalog_name name \<and> catalog_name con \<and>
     length ps \<le> MAX_PROPERTIES"

definition proper_fields :: "catalog_fields \<Rightarrow> bool" where
  "proper_fields f \<longleftrightarrow> well_formed_draft (cf_name f) (cf_connector f) (cf_properties f)"

lemma validated_proper: "validate_catalog shown name con props = Inr f \<Longrightarrow> proper_fields f"
  using validate_catalog_facts by (simp add: proper_fields_def well_formed_draft_def)

lemma validated_again:
  "well_formed_draft name con ps \<Longrightarrow>
     validate_catalog shown name con (as_json ps) =
       Inr \<lparr>cf_name = name, cf_connector = con, cf_properties = ps\<rparr>"
  using clean_props_again [of ps "[]" shown]
  by (auto simp: well_formed_draft_def validate_catalog_def catalog_name_strip Let_def)
     (simp_all add: catalog_name_def)

lemma connector_entry_plain: "catalog_name con \<Longrightarrow> plain_entry (''connector.name'', con)"
proof -
  assume n: "catalog_name con"
  have "\<not> is_line_break c" if "c \<in> set con" for c
    using n that unfolding catalog_name_def list_all_iff
    by (auto simp: lower_letter_def is_ascii_digit_def is_line_break_def code_def)
  then have "one_line con" by (simp add: one_line_def list_all_iff)
  moreover have "one_line ''connector.name''" "strip ''connector.name'' = ''connector.name''"
    "CHR ''='' \<notin> set ''connector.name''"
    by code_simp+
  ultimately show ?thesis using catalog_name_strip [OF n] by (simp add: plain_entry_def)
qed

text \<open>A validated catalog whose entries are one line each says in the file exactly what was validated: the
  file written for it reads back as the connector and the entries in order of their keys, and no
  credential-shaped key of the file holds anything but an environment reference.\<close>

theorem catalog_file_roundtrip:
  assumes "validate_catalog shown name con props = Inr f" and "list_all plain_entry (cf_properties f)"
  shows "parse_properties (render_file (cf_connector f) (cf_properties f)) =
           (''connector.name'', cf_connector f) # sort_by fst (cf_properties f) \<and>
         list_all no_literal (parse_properties (render_file (cf_connector f) (cf_properties f)))"
proof -
  note v = validate_catalog_facts [OF assms(1)]
  have fresh: "''connector.name'' \<notin> fst ` set (cf_properties f)"
    using v(1) by (auto simp: list_all_iff stored_entry_def)
  have read: "parse_properties (render_file (cf_connector f) (cf_properties f)) =
      (''connector.name'', cf_connector f) # sort_by fst (cf_properties f)"
    by (rule parse_rendered_file) (use assms(2) v connector_entry_plain fresh in simp_all)
  have "\<not> secret_key ''connector.name''" by code_simp
  then have "no_literal (''connector.name'', cf_connector f)" by (simp add: no_literal_def)
  then show ?thesis using v(1) by (simp add: read list_all_iff) (auto simp: stored_entry_def)
qed

theorem catalog_file_roundtrip_witness:
  "parse_properties (render_file ''postgresql'' [(''user'', ''tms''), (''connection-password'', ''${ENV:PG}'')]) =
     [(''connector.name'', ''postgresql''), (''connection-password'', ''${ENV:PG}''), (''user'', ''tms'')]"
proof -
  let ?f = "\<lparr>cf_name = ''pg'', cf_connector = ''postgresql'',
    cf_properties = [(''user'', ''tms''), (''connection-password'', ''${ENV:PG}'')]\<rparr>"
  have v: "validate_catalog (\<lambda>_. []) ''pg'' ''postgresql''
      [(''user'', JStr ''tms''), (''connection-password'', JStr ''${ENV:PG}'')] = Inr ?f"
    by code_simp
  have p: "list_all plain_entry (cf_properties ?f)" by code_simp
  have s: "sort_by fst (cf_properties ?f) = [(''connection-password'', ''${ENV:PG}''), (''user'', ''tms'')]"
    by code_simp
  show ?thesis using catalog_file_roundtrip [OF v p] s by simp
qed

text \<open>A value may hold a line feed, and then the file holds more than was validated: here a
  literal password, under a key that validation refuses.\<close>

theorem newline_smuggles_credential:
  "case validate_catalog (\<lambda>_. []) ''p'' ''q''
          [(''u'', JStr (''t'' @ CHR 0x0A # ''password=x''))] of
     Inl _ \<Rightarrow> False
   | Inr f \<Rightarrow>
       (''password'', ''x'') \<in>
         set (parse_properties (render_file (cf_connector f) (cf_properties f))) \<and>
       \<not> no_literal (''password'', ''x'')"
  by code_simp

end
