(* ===== verification/CatalogService.thy ===== *)
theory CatalogService
  imports Catalogs AuditedService
begin

text \<open>
  Drafting and deploying catalogs (\<^verbatim>\<open>ops/catalogservice.py\<close>). The world is the audit store, the
  catalog tables, the busy clusters, the deployment threads that have not ended (with the draft row
  each was started with) and the commands started so far. A thread's end is an event of its own.
\<close>

record catalog_thread =
  ct_cluster :: string
  ct_deployment :: nat
  ct_draft :: draft_row
  ct_action :: string

record catalog_world =
  cw_audit :: audit_repo
  cw_store :: catalog_store
  cw_busy :: "string list"
  cw_threads :: "catalog_thread list"
  cw_commands :: "string list list"

record catalog_config =
  cc_clusters :: "string list"
  cc_inventories :: "string pydict"
  cc_playbook :: string
  cc_binary :: string
  cc_development :: "string list"
  cc_shown :: "json \<Rightarrow> string"
  cc_hash :: "string \<Rightarrow> string"

record catalog_env =
  ce_now :: nat
  ce_uuid :: string

datatype catalog_message =
    NoViewPermission | NoAdminPermission | UnknownCatalogCluster string | NoInventoryFor string
  | NoSuchCatalog nat | Invalid catalog_error | NoLongerValid catalog_error | DuplicateName string
  | BadAction | Refused gate_refusal | DeployRunning string | GuardSays audit_exn

datatype catalog_exn = CatalogApi api_kind catalog_message | CatalogGuard audit_exn

type_synonym 'a catalog_op = "catalog_world \<Rightarrow> (catalog_exn + 'a) \<times> catalog_world"

text \<open>\<open>_audited\<close> turns the guard's exceptions into API errors.\<close>

definition guard_error :: "audit_exn \<Rightarrow> catalog_exn" where
  "guard_error e =
     (case e of
        ReasonRequired \<Rightarrow> CatalogApi Access.ReasonRequiredError (GuardSays e)
      | AuditUnavailable \<Rightarrow> CatalogApi AuditUnavailableError (GuardSays e)
      | InvalidActionType _ \<Rightarrow> CatalogGuard e)"

definition put_catalog_audit :: "audit_repo \<Rightarrow> catalog_world \<Rightarrow> catalog_world" where
  "put_catalog_audit au w = w\<lparr>cw_audit := au\<rparr>"

definition catalog_audited ::
    "(catalog_exn \<Rightarrow> string) \<Rightarrow> catalog_env \<Rightarrow> audit_call \<Rightarrow> 'a catalog_op \<Rightarrow> 'a catalog_op" where
  "catalog_audited desc ev call body w =
     audited_in cw_audit put_catalog_audit guard_error desc (ce_now ev) (ce_uuid ev) call body w"

interpretation catalog_guard: audited_service cw_audit put_catalog_audit guard_error
  by unfold_locales (simp_all add: put_catalog_audit_def)

definition catalog_call ::
    "principal \<Rightarrow> string \<Rightarrow> string \<Rightarrow> string \<Rightarrow> string option \<Rightarrow> string option \<Rightarrow> audit_call" where
  "catalog_call p action_type kind target reason cluster =
     \<lparr>ac_actor = pr_username p, ac_roles = pr_roles p, ac_action_type = action_type,
      ac_target_kind = kind, ac_target_id = target, ac_reason = reason,
      ac_target_cluster = cluster, ac_actor_ip = pr_ip p, ac_request_id = None\<rparr>"

section \<open>Reading\<close>

definition cluster_inventory :: "catalog_config \<Rightarrow> string \<Rightarrow> catalog_exn + string" where
  "cluster_inventory cfg c =
     (if c \<notin> set (cc_clusters cfg) then Inl (CatalogApi NotFound (UnknownCatalogCluster c))
      else case map_of (cc_inventories cfg) c of
             None \<Rightarrow> Inl (CatalogApi InvalidRequest (NoInventoryFor c))
           | Some i \<Rightarrow> (if i = [] then Inl (CatalogApi InvalidRequest (NoInventoryFor c)) else Inr i))"

definition draft_or_404 :: "nat \<Rightarrow> catalog_world \<Rightarrow> catalog_exn + draft_row" where
  "draft_or_404 i w =
     (case get_draft i (cw_store w) of
        None \<Rightarrow> Inl (CatalogApi NotFound (NoSuchCatalog i)) | Some d \<Rightarrow> Inr d)"

record draft_view =
  dv_row :: draft_row
  dv_file :: string
  dv_environment :: "string list"
  dv_fingerprint :: string
  dv_targets :: "target_view list"

definition describe_draft :: "catalog_config \<Rightarrow> draft_row \<Rightarrow> draft_view" where
  "describe_draft cfg d =
     \<lparr>dv_row = d, dv_file = render_file (dr_connector d) (dr_properties d),
      dv_environment = environment_references (dr_properties d),
      dv_fingerprint = fingerprint (cc_hash cfg) (dr_connector d) (dr_properties d),
      dv_targets = deployable (dr_verified_on d) (cc_clusters cfg) (cc_development cfg)\<rparr>"

record catalog_overview =
  ov_catalogs :: "draft_view list"
  ov_deployments :: "catalog_deployment list"
  ov_clusters :: "(string \<times> bool) list"
  ov_development :: "string list"
  ov_can_edit :: bool
  ov_busy :: "(string \<times> bool) list"

definition catalog_overview ::
    "catalog_config \<Rightarrow> principal \<Rightarrow> catalog_world \<Rightarrow> catalog_exn + catalog_overview" where
  "catalog_overview cfg p w =
     (if \<not> can p VIEW_HEALTH then Inl (CatalogApi Forbidden NoViewPermission)
      else Inr \<lparr>ov_catalogs = map (describe_draft cfg) (list_drafts (cw_store w)),
                ov_deployments = recent_deployments 25 None (cw_store w),
                ov_clusters = map (\<lambda>c. (c, c \<in> set (cc_development cfg))) (cc_clusters cfg),
                ov_development = cc_development cfg, ov_can_edit = can p MANAGE_HEALTH,
                ov_busy = map (\<lambda>c. (c, c \<in> set (cw_busy w))) (cc_clusters cfg)\<rparr>)"

section \<open>Drafting\<close>

definition create_body ::
    "principal \<Rightarrow> catalog_fields \<Rightarrow> string option \<Rightarrow> draft_row catalog_op" where
  "create_body p f notes w =
     (case create_draft f notes (pr_username p) (cw_store w) of
        None \<Rightarrow> (Inl (CatalogApi InvalidRequest (DuplicateName (cf_name f))), w)
      | Some (row, st) \<Rightarrow> (Inr row, w\<lparr>cw_store := st\<rparr>))"

definition create_catalog ::
    "(catalog_exn \<Rightarrow> string) \<Rightarrow> catalog_config \<Rightarrow> catalog_env \<Rightarrow> principal \<Rightarrow> string \<Rightarrow> string \<Rightarrow>
     json pydict \<Rightarrow> string option \<Rightarrow> string option \<Rightarrow> draft_row catalog_op" where
  "create_catalog desc cfg ev p name connector props reason notes w =
     (if \<not> can p MANAGE_HEALTH then (Inl (CatalogApi Forbidden NoAdminPermission), w)
      else case validate_catalog (cc_shown cfg) name connector props of
             Inl e \<Rightarrow> (Inl (CatalogApi InvalidRequest (Invalid e)), w)
           | Inr f \<Rightarrow>
               catalog_audited desc ev
                 (catalog_call p ''CATALOG_CHANGE'' ''catalog'' (cf_name f) reason None)
                 (create_body p f notes) w)"

text \<open>An edit that changes the fingerprint takes the proof away.\<close>

definition saved_draft ::
    "(string \<Rightarrow> string) \<Rightarrow> catalog_fields \<Rightarrow> string option \<Rightarrow> string \<Rightarrow> draft_row \<Rightarrow> draft_row \<Rightarrow> draft_row" where
  "saved_draft hash f notes actor existing d =
     (let d1 = d\<lparr>dr_connector := cf_connector f, dr_properties := cf_properties f, dr_notes := notes,
                 dr_updated_by := Some actor\<rparr>
      in if fingerprint hash (dr_connector existing) (dr_properties existing) \<noteq>
            fingerprint hash (cf_connector f) (cf_properties f)
         then d1\<lparr>dr_verified_on := None\<rparr> else d1)"

definition save_body :: "nat \<Rightarrow> (draft_row \<Rightarrow> draft_row) \<Rightarrow> draft_row option catalog_op" where
  "save_body i change w =
     (let st = update_draft i change (cw_store w) in (Inr (get_draft i st), w\<lparr>cw_store := st\<rparr>))"

definition save_catalog ::
    "(catalog_exn \<Rightarrow> string) \<Rightarrow> catalog_config \<Rightarrow> catalog_env \<Rightarrow> principal \<Rightarrow> nat \<Rightarrow> string \<Rightarrow>
     json pydict \<Rightarrow> string option \<Rightarrow> string option \<Rightarrow> draft_row option catalog_op" where
  "save_catalog desc cfg ev p i connector props reason notes w =
     (if \<not> can p MANAGE_HEALTH then (Inl (CatalogApi Forbidden NoAdminPermission), w)
      else case draft_or_404 i w of
             Inl e \<Rightarrow> (Inl e, w)
           | Inr existing \<Rightarrow>
               (case validate_catalog (cc_shown cfg) (dr_name existing) connector props of
                  Inl e \<Rightarrow> (Inl (CatalogApi InvalidRequest (Invalid e)), w)
                | Inr f \<Rightarrow>
                    catalog_audited desc ev
                      (catalog_call p ''CATALOG_CHANGE'' ''catalog'' (dr_name existing) reason None)
                      (save_body i (saved_draft (cc_hash cfg) f notes (pr_username p) existing)) w))"

definition delete_body :: "nat \<Rightarrow> unit catalog_op" where
  "delete_body i w = (Inr (), w\<lparr>cw_store := snd (delete_draft i (cw_store w))\<rparr>)"

definition delete_catalog ::
    "(catalog_exn \<Rightarrow> string) \<Rightarrow> catalog_env \<Rightarrow> principal \<Rightarrow> nat \<Rightarrow> string option \<Rightarrow> unit catalog_op" where
  "delete_catalog desc ev p i reason w =
     (if \<not> can p MANAGE_HEALTH then (Inl (CatalogApi Forbidden NoAdminPermission), w)
      else case draft_or_404 i w of
             Inl e \<Rightarrow> (Inl e, w)
           | Inr existing \<Rightarrow>
               catalog_audited desc ev
                 (catalog_call p ''CATALOG_CHANGE'' ''catalog'' (dr_name existing) reason None)
                 (delete_body i) w)"

section \<open>Deploying\<close>

definition deploy_body ::
    "principal \<Rightarrow> draft_row \<Rightarrow> string \<Rightarrow> string \<Rightarrow> string option \<Rightarrow> catalog_deployment catalog_op" where
  "deploy_body p d cluster action reason w =
     (case start_deployment d cluster action reason (pr_username p) (cw_store w) of
        (row, st) \<Rightarrow> (Inr row, w\<lparr>cw_store := st\<rparr>))"

definition deploy_command :: "catalog_config \<Rightarrow> string \<Rightarrow> draft_row \<Rightarrow> string \<Rightarrow> string list" where
  "deploy_command cfg inventory d action =
     [cc_binary cfg, ''--inventory'', inventory, cc_playbook cfg,
      ''--extra-vars'', ''catalog_name='' @ dr_name d,
      ''--extra-vars'', ''catalog_action='' @ action,
      ''--extra-vars'', ''catalog_content='' @
         b64encode (utf8 (render_file (dr_connector d) (dr_properties d)))]"

text \<open>Why a deployment is refused before the cluster is taken.\<close>

definition deploy_checks :: "catalog_config \<Rightarrow> draft_row \<Rightarrow> string \<Rightarrow> string \<Rightarrow> catalog_message option" where
  "deploy_checks cfg d cluster action =
     (if action \<notin> {''deploy'', ''remove''} then Some BadAction
      else if action = ''deploy''
      then (case validate_catalog (cc_shown cfg) (dr_name d) (dr_connector d)
                   (as_json (dr_properties d)) of
              Inl e \<Rightarrow> Some (NoLongerValid e)
            | Inr _ \<Rightarrow> map_option Refused (refuse_catalog (dr_verified_on d) cluster (cc_development cfg)))
      else None)"

definition deploy_catalog ::
    "(catalog_exn \<Rightarrow> string) \<Rightarrow> catalog_config \<Rightarrow> catalog_env \<Rightarrow> principal \<Rightarrow> nat \<Rightarrow> string \<Rightarrow>
     string option \<Rightarrow> string \<Rightarrow> catalog_deployment catalog_op" where
  "deploy_catalog desc cfg ev p i cluster reason action w =
     (if \<not> can p MANAGE_HEALTH then (Inl (CatalogApi Forbidden NoAdminPermission), w)
      else case cluster_inventory cfg cluster of
             Inl e \<Rightarrow> (Inl e, w)
           | Inr inventory \<Rightarrow>
               (case draft_or_404 i w of
                  Inl e \<Rightarrow> (Inl e, w)
                | Inr d \<Rightarrow>
                    (case deploy_checks cfg d cluster action of
                       Some m \<Rightarrow> (Inl (CatalogApi InvalidRequest m), w)
                     | None \<Rightarrow>
                         (if cluster \<in> set (cw_busy w)
                          then (Inl (CatalogApi InvalidRequest (DeployRunning cluster)), w)
                          else case catalog_audited desc ev
                                      (catalog_call p ''CATALOG_DEPLOY'' ''cluster''
                                         (cluster @ '':'' @ dr_name d) reason (Some cluster))
                                      (deploy_body p d cluster action reason) w of
                                 (Inl e, w') \<Rightarrow> (Inl e, w')
                               | (Inr row, w') \<Rightarrow>
                                   (Inr row,
                                    w'\<lparr>cw_busy := cluster # cw_busy w',
                                       cw_threads := cw_threads w' @
                                         [\<lparr>ct_cluster = cluster, ct_deployment = cd_id row,
                                           ct_draft = d, ct_action = action\<rparr>],
                                       cw_commands := cw_commands w' @
                                         [deploy_command cfg inventory d action]\<rparr>)))))"

text \<open>The end of \<open>_deploy_now\<close>: the record, the mark on the draft, the cluster free again.\<close>

definition ended_store ::
    "catalog_config \<Rightarrow> catalog_thread \<Rightarrow> runner_end \<Rightarrow> catalog_store \<Rightarrow> catalog_store" where
  "ended_store cfg t r st0 =
     (case end_state r of
        (state, detail) \<Rightarrow>
          (let st = finish_deployment (ct_deployment t) state detail st0
           in if state = DepSucceeded \<and> ct_action t = ''deploy'' \<and>
                 ct_cluster t \<in> set (cc_development cfg)
              then update_draft (dr_id (ct_draft t))
                     (\<lambda>d. d\<lparr>dr_verified_on := Some (ct_cluster t)\<rparr>) st
              else st))"

definition deploy_ended :: "catalog_config \<Rightarrow> catalog_thread \<Rightarrow> runner_end \<Rightarrow> catalog_world \<Rightarrow> catalog_world" where
  "deploy_ended cfg t r w =
     w\<lparr>cw_store := ended_store cfg t r (cw_store w),
       cw_busy := filter (\<lambda>c. c \<noteq> ct_cluster t) (cw_busy w),
       cw_threads := filter (\<lambda>u. ct_deployment u \<noteq> ct_deployment t) (cw_threads w)\<rparr>"

section \<open>Runs of the service\<close>

datatype catalog_event =
    EvCreate principal string string "json pydict" "string option" "string option"
  | EvSave principal nat string "json pydict" "string option" "string option"
  | EvDelete principal nat "string option"
  | EvDeploy principal nat string "string option" string
  | EvEnded nat runner_end

fun catalog_step ::
    "(catalog_exn \<Rightarrow> string) \<Rightarrow> catalog_config \<Rightarrow> catalog_env \<times> catalog_event \<Rightarrow> catalog_world \<Rightarrow>
     catalog_world" where
  "catalog_step desc cfg (ev, EvCreate p name con ps reason notes) w =
     snd (create_catalog desc cfg ev p name con ps reason notes w)"
| "catalog_step desc cfg (ev, EvSave p i con ps reason notes) w =
     snd (save_catalog desc cfg ev p i con ps reason notes w)"
| "catalog_step desc cfg (ev, EvDelete p i reason) w = snd (delete_catalog desc ev p i reason w)"
| "catalog_step desc cfg (ev, EvDeploy p i c reason action) w =
     snd (deploy_catalog desc cfg ev p i c reason action w)"
| "catalog_step desc cfg (ev, EvEnded k r) w =
     (case find (\<lambda>t. ct_deployment t = k) (cw_threads w) of
        None \<Rightarrow> w | Some t \<Rightarrow> deploy_ended cfg t r w)"

definition catalog_run ::
    "(catalog_exn \<Rightarrow> string) \<Rightarrow> catalog_config \<Rightarrow> (catalog_env \<times> catalog_event) list \<Rightarrow>
     catalog_world \<Rightarrow> catalog_world" where
  "catalog_run desc cfg es w = fold (catalog_step desc cfg) es w"

definition new_catalog_world :: "audit_repo \<Rightarrow> catalog_world" where
  "new_catalog_world au =
     \<lparr>cw_audit = au, cw_store = new_catalog_store, cw_busy = [], cw_threads = [], cw_commands = []\<rparr>"

text \<open>No draft is saved while a deployment of it runs.\<close>

definition deploying :: "nat \<Rightarrow> catalog_thread list \<Rightarrow> bool" where
  "deploying i ts \<longleftrightarrow> list_ex (\<lambda>t. dr_id (ct_draft t) = i) ts"

fun undisturbed ::
    "(catalog_exn \<Rightarrow> string) \<Rightarrow> catalog_config \<Rightarrow> (catalog_env \<times> catalog_event) list \<Rightarrow>
     catalog_world \<Rightarrow> bool" where
  "undisturbed desc cfg [] w = True"
| "undisturbed desc cfg (x # xs) w \<longleftrightarrow>
     (case snd x of EvSave p i con ps reason notes \<Rightarrow> \<not> deploying i (cw_threads w) | _ \<Rightarrow> True) \<and>
     undisturbed desc cfg xs (catalog_step desc cfg x w)"

end
