(* ===== verification/CatalogSafety.thy ===== *)
theory CatalogSafety
  imports CatalogService
begin

text \<open>
  Why a catalog that reaches production was proved on a development cluster: the service's steps
  refine the moves of drafts, records and threads below, the moves keep the promises of
  \<open>proved_first\<close>, and the gate lets only marked drafts through.
\<close>

section \<open>The moves\<close>

type_synonym catalog_core = "catalog_store \<times> catalog_thread list"

inductive cat_move :: "bool \<Rightarrow> catalog_config \<Rightarrow> catalog_core \<Rightarrow> catalog_core \<Rightarrow> bool" for calm cfg where
  created: "proper_fields f \<Longrightarrow> create_draft f notes actor st = Some (row, st') \<Longrightarrow> cat_move calm cfg (st, ts) (st', ts)"
| saved: "get_draft i st = Some d \<Longrightarrow> (calm \<longrightarrow> \<not> deploying i ts) \<Longrightarrow> proper_fields f \<Longrightarrow>
    cat_move calm cfg (st, ts) (update_draft i (saved_draft (cc_hash cfg) f notes actor d) st, ts)"
| deleted: "cat_move calm cfg (st, ts) (snd (delete_draft i st), ts)"
| launched: "get_draft i st = Some d \<Longrightarrow> deploy_checks cfg d c action = None \<Longrightarrow>
    start_deployment d c action reason actor st = (row, st') \<Longrightarrow>
    cat_move calm cfg (st, ts)
      (st', ts @ [\<lparr>ct_cluster = c, ct_deployment = cd_id row, ct_draft = d, ct_action = action\<rparr>])"
| ended: "t \<in> set ts \<Longrightarrow>
    cat_move calm cfg (st, ts)
      (ended_store cfg t r st, filter (\<lambda>u. ct_deployment u \<noteq> ct_deployment t) ts)"

definition core :: "catalog_world \<Rightarrow> catalog_core" where
  "core w = (cw_store w, cw_threads w)"

lemma core_simps [simp]:
  "core (put_catalog_audit au w) = core w"
  "core (w\<lparr>cw_store := st\<rparr>) = (st, cw_threads w)"
  by (simp_all add: core_def put_catalog_audit_def)

lemma audited_result:
  assumes "catalog_audited desc ev call body w = (r, w')" "cw_audit (snd (body w)) = cw_audit w"
  shows "core w' = core w \<and> (\<exists>e. r = Inl e) \<or> (\<exists>wb. body w = (r, wb) \<and> core w' = core wb)"
  using catalog_guard.audited_part [OF assms(1) [unfolded catalog_audited_def] assms(2) core_simps(1)] .

lemma audited_core:
  assumes "snd (catalog_audited desc ev call body w) = w'" "cw_audit (snd (body w)) = cw_audit w"
  shows "core w' = core w \<or> core w' = core (snd (body w))"
proof -
  obtain r where "catalog_audited desc ev call body w = (r, w')" using assms(1) by (metis surj_pair snd_conv)
  from audited_result [OF this assms(2)] show ?thesis by auto
qed

lemma create_moves:
  "snd (create_catalog desc cfg ev p name con ps reason notes w) = w' \<Longrightarrow>
     core w' = core w \<or> cat_move calm cfg (core w) (core w')"
proof -
  assume w': "snd (create_catalog desc cfg ev p name con ps reason notes w) = w'"
  show ?thesis
  proof (cases "core w' = core w")
    case False
    then obtain f where v: "validate_catalog (cc_shown cfg) name con ps = Inr f"
      and aud: "snd (catalog_audited desc ev
                 (catalog_call p ''CATALOG_CHANGE'' ''catalog'' (cf_name f) reason None)
                 (create_body p f notes) w) = w'"
      using w' by (auto simp: create_catalog_def split: if_splits sum.splits)
    have keep: "cw_audit (snd (create_body p f notes w)) = cw_audit w"
      by (auto simp: create_body_def split: option.splits)
    have "core w' = core (snd (create_body p f notes w))" using audited_core [OF aud keep] False by auto
    then show ?thesis using False validated_proper [OF v]
      by (auto simp: create_body_def core_def split: option.splits intro: cat_move.created)
  qed simp
qed

lemma save_moves:
  assumes w': "snd (save_catalog desc cfg ev p i con ps reason notes w) = w'"
    and free: "calm \<longrightarrow> \<not> deploying i (cw_threads w)"
  shows "core w' = core w \<or> cat_move calm cfg (core w) (core w')"
proof (cases "core w' = core w")
  case False
  then obtain d f where d: "draft_or_404 i w = Inr d"
    and v: "validate_catalog (cc_shown cfg) (dr_name d) con ps = Inr f"
    and aud: "snd (catalog_audited desc ev
                 (catalog_call p ''CATALOG_CHANGE'' ''catalog'' (dr_name d) reason None)
                 (save_body i (saved_draft (cc_hash cfg) f notes (pr_username p) d)) w) = w'"
    using w' by (auto simp: save_catalog_def split: if_splits sum.splits)
  have "core w' = core (snd (save_body i (saved_draft (cc_hash cfg) f notes (pr_username p) d) w))"
    using audited_core [OF aud] False by (auto simp: save_body_def Let_def)
  moreover have "get_draft i (cw_store w) = Some d"
    using d by (auto simp: draft_or_404_def split: option.splits)
  ultimately show ?thesis using free validated_proper [OF v]
    by (simp add: save_body_def Let_def core_def cat_move.saved)
qed simp

lemma delete_moves:
  assumes w': "snd (delete_catalog desc ev p i reason w) = w'"
  shows "core w' = core w \<or> cat_move calm cfg (core w) (core w')"
proof (cases "can p MANAGE_HEALTH \<and> (\<exists>d. draft_or_404 i w = Inr d)")
  case True
  then obtain d where d: "draft_or_404 i w = Inr d" by blast
  have aud: "snd (catalog_audited desc ev
                 (catalog_call p ''CATALOG_CHANGE'' ''catalog'' (dr_name d) reason None)
                 (delete_body i) w) = w'"
    using w' True d by (simp add: delete_catalog_def)
  have "core w' = core w \<or> core w' = core (snd (delete_body i w))"
    by (rule audited_core [OF aud]) (simp add: delete_body_def)
  then show ?thesis by (auto simp: delete_body_def core_def intro: cat_move.deleted)
next
  case False
  then show ?thesis using w' by (auto simp: delete_catalog_def split: if_splits sum.splits)
qed

lemma deploy_moves:
  assumes w': "snd (deploy_catalog desc cfg ev p i c reason action w) = w'"
  shows "core w' = core w \<or> cat_move calm cfg (core w) (core w')"
proof (cases "\<exists>d. draft_or_404 i w = Inr d \<and> deploy_checks cfg d c action = None")
  case True
  then obtain d where d: "draft_or_404 i w = Inr d" and ok: "deploy_checks cfg d c action = None" by blast
  let ?aud = "catalog_audited desc ev
      (catalog_call p ''CATALOG_DEPLOY'' ''cluster'' (c @ '':'' @ dr_name d) reason (Some c))
      (deploy_body p d c action reason) w"
  obtain r w1 where aud: "?aud = (r, w1)" by (metis surj_pair)
  have keep: "cw_audit (snd (deploy_body p d c action reason w)) = cw_audit w"
    by (auto simp: deploy_body_def split: prod.splits)
  obtain row st where start: "start_deployment d c action reason (pr_username p) (cw_store w) = (row, st)"
    by (metis surj_pair)
  have g: "get_draft i (cw_store w) = Some d"
    using d by (auto simp: draft_or_404_def split: option.splits)
  have part: "core w1 = core w \<and> (\<exists>e. r = Inl e) \<or> r = Inr row \<and> core w1 = (st, cw_threads w)"
    using audited_result [OF aud keep] by (auto simp: deploy_body_def start)
  show ?thesis
  proof (cases r)
    case (Inl e)
    then have "core w1 = core w" using part by auto
    then show ?thesis using w' d ok aud Inl
      by (auto simp: deploy_catalog_def split: if_splits sum.splits)
  next
    case (Inr row')
    then have "row' = row" "core w1 = (st, cw_threads w)" using part by auto
    then show ?thesis using w' d ok aud Inr cat_move.launched [OF g ok start]
      by (auto simp: deploy_catalog_def core_def split: if_splits sum.splits)
  qed
next
  case False
  then show ?thesis using w'
    by (auto simp: deploy_catalog_def split: if_splits sum.splits option.splits)
qed

lemma ended_moves:
  "core (catalog_step desc cfg (ev, EvEnded k r) w) = core w \<or>
   cat_move calm cfg (core w) (core (catalog_step desc cfg (ev, EvEnded k r) w))"
  by (auto simp: core_def deploy_ended_def split: option.splits dest: find_Some_set intro: cat_move.ended)

text \<open>Every run of the service is a run of moves, an undisturbed one of calm moves.\<close>

lemma run_refines_moves:
  "(calm \<longrightarrow> undisturbed desc cfg es w) \<Longrightarrow>
     (cat_move calm cfg)\<^sup>*\<^sup>* (core w) (core (catalog_run desc cfg es w))"
proof (induction es arbitrary: w)
  case (Cons x xs)
  obtain ev e where x: "x = (ev, e)" by (cases x)
  let ?w = "catalog_step desc cfg x w"
  have "core ?w = core w \<or> cat_move calm cfg (core w) (core ?w)"
  proof (cases e)
    case (EvSave p i con ps reason memo)
    then show ?thesis using Cons.prems x save_moves [OF refl, of calm] by simp
  next
    case (EvEnded k r)
    then show ?thesis using x ended_moves by simp
  qed (use x create_moves [OF refl] delete_moves [OF refl] deploy_moves [OF refl] in simp_all)
  moreover have "(cat_move calm cfg)\<^sup>*\<^sup>* (core ?w) (core (catalog_run desc cfg xs ?w))"
    using Cons by auto
  ultimately show ?case
    by (auto simp: catalog_run_def intro: converse_rtranclp_into_rtranclp)
qed (simp add: catalog_run_def)

section \<open>The promises of \<open>proved_first\<close>\<close>

definition draft_print :: "catalog_config \<Rightarrow> draft_row \<Rightarrow> string" where
  "draft_print cfg d = fingerprint (cc_hash cfg) (dr_connector d) (dr_properties d)"

definition row_print :: "catalog_config \<Rightarrow> catalog_deployment \<Rightarrow> string" where
  "row_print cfg d = fingerprint (cc_hash cfg) (cd_connector d) (cd_properties d)"

definition cat_content :: "catalog_config \<Rightarrow> catalog_core \<Rightarrow> nat \<Rightarrow> string option" where
  "cat_content cfg w i = map_option (draft_print cfg) (get_draft i (fst w))"

definition cat_mark :: "catalog_core \<Rightarrow> nat \<Rightarrow> string option" where
  "cat_mark w i = (case get_draft i (fst w) of None \<Rightarrow> None | Some d \<Rightarrow> dr_verified_on d)"

definition cat_landed :: "catalog_config \<Rightarrow> catalog_core \<Rightarrow> (nat \<times> string \<times> string) set" where
  "cat_landed cfg w =
     {(cd_catalog d, row_print cfg d, cd_cluster d) | d.
        d \<in> set (cs_deployments (fst w)) \<and> cd_state d = DepSucceeded \<and> cd_action d = ''deploy''}"

definition cat_inflight :: "catalog_config \<Rightarrow> catalog_core \<Rightarrow> (nat \<times> string \<times> string) set" where
  "cat_inflight cfg w =
     {(dr_id (ct_draft t), draft_print cfg (ct_draft t), ct_cluster t) | t. t \<in> set (snd w)}"

definition row_of_thread :: "catalog_thread \<Rightarrow> catalog_deployment \<Rightarrow> bool" where
  "row_of_thread t d \<longleftrightarrow>
     cd_id d = ct_deployment t \<and> cd_state d = DepRunning \<and> cd_cluster d = ct_cluster t \<and>
     cd_action d = ct_action t \<and> cd_catalog d = dr_id (ct_draft t) \<and>
     cd_connector d = dr_connector (ct_draft t) \<and> cd_properties d = dr_properties (ct_draft t)"

definition cat_valid :: "catalog_core \<Rightarrow> bool" where
  "cat_valid w \<longleftrightarrow>
     (\<forall>d\<in>set (cs_drafts (fst w)). dr_id d < cs_next (fst w)) \<and>
     (\<forall>t\<in>set (snd w). dr_id (ct_draft t) < cs_next (fst w)) \<and>
     distinct (map cd_id (cs_deployments (fst w))) \<and>
     (\<forall>d\<in>set (cs_deployments (fst w)). cd_id d < cs_next_deploy (fst w)) \<and>
     (\<forall>t\<in>set (snd w). \<exists>d\<in>set (cs_deployments (fst w)). row_of_thread t d)"

lemmas cat_view_defs = cat_content_def cat_mark_def cat_landed_def cat_inflight_def

lemma saved_draft_id [simp]: "dr_id (saved_draft h f notes actor d0 d) = dr_id d"
  by (simp add: saved_draft_def Let_def)

lemma ended_drafts:
  "cs_next (ended_store cfg t r st) = cs_next st \<and>
   cs_next_deploy (ended_store cfg t r st) = cs_next_deploy st \<and>
   cs_deployments (ended_store cfg t r st) =
     cs_deployments (finish_deployment (ct_deployment t) (fst (end_state r)) (snd (end_state r)) st) \<and>
   (cs_drafts (ended_store cfg t r st) = cs_drafts st \<or>
    fst (end_state r) = DepSucceeded \<and> ct_action t = ''deploy'' \<and>
    cs_drafts (ended_store cfg t r st) =
      update_first (\<lambda>d. dr_id d = dr_id (ct_draft t))
        (\<lambda>d. d\<lparr>dr_verified_on := Some (ct_cluster t)\<rparr>) (cs_drafts st))"
  by (auto simp: ended_store_def update_draft_def finish_deployment_def Let_def split: prod.splits)

lemma get_draft_update:
  assumes "\<And>d. dr_id (f d) = dr_id d"
  shows "get_draft i (update_draft j f st) =
           (if i = j then map_option f (get_draft i st) else get_draft i st)"
  using assms
  by (auto simp: get_draft_def update_draft_def intro: find_update_first find_update_other)

lemma get_draft_ended:
  "get_draft i (ended_store cfg t r st) = get_draft i st \<or>
   i = dr_id (ct_draft t) \<and> fst (end_state r) = DepSucceeded \<and> ct_action t = ''deploy'' \<and>
   get_draft i (ended_store cfg t r st) =
     map_option (\<lambda>d. d\<lparr>dr_verified_on := Some (ct_cluster t)\<rparr>) (get_draft i st)"
proof -
  let ?f = "\<lambda>d. d\<lparr>dr_verified_on := Some (ct_cluster t)\<rparr>"
  have fin: "get_draft i (finish_deployment k s det st) = get_draft i st" for i k s det
    by (simp add: get_draft_def finish_deployment_def)
  have upd: "get_draft i (update_draft j ?f st') =
      (if i = j then map_option ?f (get_draft i st') else get_draft i st')" for i j st'
    by (rule get_draft_update) simp
  show ?thesis by (auto simp: ended_store_def fin upd Let_def split: prod.splits)
qed

lemma get_draft_less: "cat_valid w \<Longrightarrow> get_draft i (fst w) = Some d \<Longrightarrow> dr_id d = i \<and> i < cs_next (fst w)"
  by (auto simp: cat_valid_def get_draft_def dest: find_Some_set)

lemma finished_deployments:
  "cs_deployments (finish_deployment k s det st) =
     map (\<lambda>e. if cd_id e = k then e\<lparr>cd_state := s, cd_detail := det\<rparr> else e) (cs_deployments st)"
  by (simp add: finish_deployment_def)

lemma finished_rows:
  "d \<in> set (cs_deployments (finish_deployment k s det st)) \<longleftrightarrow>
     (\<exists>e\<in>set (cs_deployments st). d = (if cd_id e = k then e\<lparr>cd_state := s, cd_detail := det\<rparr> else e))"
  unfolding finished_deployments set_map image_iff ..

lemma updated_ids:
  "(\<And>d. dr_id (f d) = dr_id d) \<Longrightarrow>
     dr_id ` set (cs_drafts (update_draft i f st)) = dr_id ` set (cs_drafts st)"
  by (simp add: update_draft_def update_first_image)

lemma ended_ids: "dr_id ` set (cs_drafts (ended_store cfg t r st)) = dr_id ` set (cs_drafts st)"
proof -
  have fin: "cs_drafts (finish_deployment k s det st) = cs_drafts st" for k s det
    by (simp add: finish_deployment_def)
  have upd: "dr_id ` set (cs_drafts (update_draft i (\<lambda>d. d\<lparr>dr_verified_on := v\<rparr>) st')) =
      dr_id ` set (cs_drafts st')" for i v st'
    by (rule updated_ids) simp
  show ?thesis by (simp add: ended_store_def Let_def upd fin split: prod.split)
qed

lemma created_draft:
  "create_draft f notes actor st = Some (row, st') \<Longrightarrow>
     dr_id row = cs_next st \<and> dr_verified_on row = None \<and> cs_drafts st' = cs_drafts st @ [row] \<and>
     cs_next st' = cs_next st + 1 \<and> cs_deployments st' = cs_deployments st \<and>
     cs_next_deploy st' = cs_next_deploy st"
  by (auto simp: create_draft_def Let_def split: if_splits)

lemma started_row:
  "start_deployment d c action reason actor st = (row, st') \<Longrightarrow>
     row_of_thread \<lparr>ct_cluster = c, ct_deployment = cd_id row, ct_draft = d, ct_action = action\<rparr> row \<and>
     cd_id row = cs_next_deploy st \<and> cs_drafts st' = cs_drafts st \<and> cs_next st' = cs_next st \<and>
     cs_deployments st' = cs_deployments st @ [row] \<and> cs_next_deploy st' = cs_next_deploy st + 1"
  by (auto simp: start_deployment_def Let_def row_of_thread_def)

lemma thread_ids_differ:
  assumes "cat_valid (st, ts)" "t \<in> set ts" "d \<in> set (cs_deployments st)" "cd_id d = ct_deployment t"
  shows "row_of_thread t d"
proof -
  obtain e where e: "e \<in> set (cs_deployments st)" "row_of_thread t e"
    using assms(1,2) by (auto simp: cat_valid_def)
  then have "cd_id e = cd_id d" using assms(4) by (simp add: row_of_thread_def)
  then have "e = d" using e(1) assms(1,3) by (auto simp: cat_valid_def dest: inj_onD distinct_map [THEN iffD1])
  then show ?thesis using e(2) by simp
qed

lemma move_valid: "cat_move calm cfg w w' \<Longrightarrow> cat_valid w \<Longrightarrow> cat_valid w'"
proof (induction rule: cat_move.induct)
  case (created f memo actor st row st' ts)
  then show ?case using created_draft [OF created(2)] by (auto simp: cat_valid_def)
next
  case (saved i st d ts f memo actor)
  let ?st = "update_draft i (saved_draft (cc_hash cfg) f memo actor d) st"
  have ids: "dr_id ` set (cs_drafts ?st) = dr_id ` set (cs_drafts st)"
    by (rule updated_ids) simp
  have old: "\<forall>n\<in>dr_id ` set (cs_drafts st). n < cs_next st" using saved(4) by (simp add: cat_valid_def)
  have "dr_id x < cs_next st" if "x \<in> set (cs_drafts ?st)" for x
    using old [folded ids] that by blast
  then show ?case using saved(4) by (simp add: cat_valid_def) (simp add: update_draft_def)
next
  case (deleted i st ts)
  then show ?case by (auto simp: cat_valid_def delete_draft_def Let_def)
next
  case (launched i st d c action reason actor row st' ts)
  have "i < cs_next st" "dr_id d = i" using get_draft_less [OF launched(4)] launched(1) by simp_all
  then show ?case using launched(4) started_row [OF launched(3)]
    by (auto simp: cat_valid_def)
next
  case (ended t ts st r)
  let ?k = "ct_deployment t" and ?st = "ended_store cfg t r st"
  have rows: "cs_deployments ?st =
      cs_deployments (finish_deployment ?k (fst (end_state r)) (snd (end_state r)) st)"
    and next_ids: "cs_next ?st = cs_next st" "cs_next_deploy ?st = cs_next_deploy st"
    using ended_drafts [of cfg t r st] by auto
  have same_ids: "map cd_id (cs_deployments ?st) = map cd_id (cs_deployments st)"
    by (simp add: rows finish_deployment_def o_def if_distrib cong: map_cong)
  have drafts: "dr_id ` set (cs_drafts ?st) = dr_id ` set (cs_drafts st)"
    by (rule ended_ids)
  have others: "\<exists>d\<in>set (cs_deployments ?st). row_of_thread u d" if "u \<in> set ts" "ct_deployment u \<noteq> ?k" for u
    using ended(2) that by (force simp: cat_valid_def rows finished_rows row_of_thread_def)
  have ids: "cd_id d < cs_next_deploy st" if "d \<in> set (cs_deployments ?st)" for d
    using that ended(2) by (auto simp: cat_valid_def rows finished_rows)
  have old: "\<forall>n\<in>dr_id ` set (cs_drafts st). n < cs_next st" using ended(2) by (simp add: cat_valid_def)
  have dids: "dr_id d < cs_next st" if "d \<in> set (cs_drafts ?st)" for d
    using old [folded drafts] that by blast
  show ?case using ended(2) others ids dids same_ids next_ids by (simp add: cat_valid_def)
qed

section \<open>Drafts after a move\<close>

lemma print_of_thread: "row_of_thread t d \<Longrightarrow> row_print cfg d = draft_print cfg (ct_draft t)"
  by (simp add: row_of_thread_def row_print_def draft_print_def)

lemma print_marked [simp]: "draft_print cfg (d\<lparr>dr_verified_on := v\<rparr>) = draft_print cfg d"
  by (simp add: draft_print_def)

lemma get_draft_created:
  "create_draft f notes actor st = Some (row, st') \<Longrightarrow>
     get_draft i st' = (case get_draft i st of Some d \<Rightarrow> Some d
                        | None \<Rightarrow> if i = cs_next st then Some row else None)"
  using created_draft [of f _ actor st row st']
  by (auto simp: get_draft_def find_append split: option.split)

lemma get_draft_deleted:
  "get_draft i (snd (delete_draft j st)) = (if i = j then None else get_draft i st)"
  using find_filter_other [of "\<lambda>d. dr_id d = i" "\<lambda>d. dr_id d \<noteq> j" "cs_drafts st"]
    find_filter_same [of "\<lambda>d. dr_id d = j" "cs_drafts st"]
  by (auto simp: get_draft_def delete_draft_def Let_def)

lemma get_draft_saved:
  "get_draft i (update_draft j (saved_draft h f notes actor e) st) =
     (if i = j then map_option (saved_draft h f notes actor e) (get_draft i st) else get_draft i st)"
  by (rule get_draft_update) simp

lemma get_draft_started:
  "start_deployment d c action reason actor st = (row, st') \<Longrightarrow> get_draft i st' = get_draft i st"
  using started_row [of d c action reason actor st row st'] by (simp add: get_draft_def)

text \<open>A mark survives an edit only when the fingerprint does.\<close>

lemma saved_mark:
  "dr_verified_on (saved_draft (cc_hash cfg) f notes actor d d) = Some v \<Longrightarrow>
     dr_verified_on d = Some v \<and> draft_print cfg (saved_draft (cc_hash cfg) f notes actor d d) = draft_print cfg d"
  by (auto simp: saved_draft_def Let_def draft_print_def split: if_splits)

lemma move_content:
  assumes "cat_move True cfg w w'" "cat_valid w" "(i, x, c) \<in> cat_inflight cfg w"
  shows "cat_content cfg w' i = cat_content cfg w i \<or> cat_content cfg w' i = None"
  using assms
proof (induction rule: cat_move.induct)
  case (created f memo actor st row st' ts)
  then have "i < cs_next st" by (auto simp: cat_valid_def cat_inflight_def)
  then show ?case
    by (auto simp: cat_content_def get_draft_created [OF created(2)] split: option.split)
next
  case (saved j st d ts f memo actor)
  then have "i \<noteq> j" by (auto simp: deploying_def cat_inflight_def list_ex_iff)
  then show ?case by (simp add: cat_content_def get_draft_saved)
next
  case (deleted j st ts)
  then show ?case by (simp add: cat_content_def get_draft_deleted)
next
  case (launched j st d c action reason actor row st' ts)
  then show ?case by (simp add: cat_content_def get_draft_started [OF launched(3)])
next
  case (ended t ts st r)
  then show ?case using get_draft_ended [of i cfg t r st]
    by (auto simp: cat_content_def option.map_comp o_def)
qed

lemma move_landed:
  assumes "cat_move calm cfg w w'" "cat_valid w"
  shows "cat_landed cfg w \<subseteq> cat_landed cfg w'"
  using assms
proof (induction rule: cat_move.induct)
  case (created f memo actor st row st' ts)
  then show ?case using created_draft [OF created(2)] by (simp add: cat_landed_def)
next
  case (launched j st d c action reason actor row st' ts)
  then show ?case using started_row [OF launched(3)] by (auto simp: cat_landed_def)
next
  case (ended t ts st r)
  have "d \<in> set (cs_deployments (ended_store cfg t r st))"
    if d: "d \<in> set (cs_deployments st)" "cd_state d = DepSucceeded" for d
  proof -
    have "cd_id d \<noteq> ct_deployment t"
      using thread_ids_differ [OF ended(2) ended(1) d(1)] d(2) by (auto simp: row_of_thread_def)
    then have "d \<in> set (cs_deployments (finish_deployment (ct_deployment t) (fst (end_state r))
        (snd (end_state r)) st))"
      unfolding finished_rows using d(1) by (intro bexI [of _ d]) simp_all
    then show ?thesis using ended_drafts [of cfg t r st] by simp
  qed
  then show ?case by (auto simp: cat_landed_def)
qed (simp_all add: cat_landed_def delete_draft_def update_draft_def Let_def)

lemma move_launched:
  assumes "cat_move calm cfg w w'" "(i, x, c) \<in> cat_inflight cfg w'"
  shows "(i, x, c) \<in> cat_inflight cfg w \<or> cat_content cfg w' i = Some x"
  using assms
proof (induction rule: cat_move.induct)
  case (launched j st d c action reason actor row st' ts)
  have "dr_id d = j" using launched(1) by (auto simp: get_draft_def dest: find_Some_set)
  then show ?case using launched
    by (auto simp: cat_inflight_def cat_content_def get_draft_started [OF launched(3)])
qed (auto simp: cat_inflight_def)

lemma move_marked:
  assumes "cat_move calm cfg w w'" "cat_valid w" "cat_mark w' i = Some c" "cat_content cfg w' i = Some x"
  shows "cat_mark w i = Some c \<and> cat_content cfg w i = Some x \<or>
         (\<exists>y. (i, y, c) \<in> cat_inflight cfg w \<and> (i, y, c) \<in> cat_landed cfg w' \<and>
              cat_content cfg w' i = cat_content cfg w i)"
  using assms
proof (induction rule: cat_move.induct)
  case (created f memo actor st row st' ts)
  then show ?case using created_draft [OF created(2)]
    by (auto simp: cat_mark_def cat_content_def get_draft_created [OF created(2)]
        split: option.splits if_splits)
next
  case (saved j st d ts f memo actor)
  then show ?case
    by (auto simp: cat_mark_def cat_content_def get_draft_saved split: option.splits if_splits
        dest!: saved_mark)
next
  case (deleted j st ts)
  then show ?case by (auto simp: cat_mark_def cat_content_def get_draft_deleted split: if_splits)
next
  case (launched j st d e action reason actor row st' ts)
  then show ?case by (simp add: cat_mark_def cat_content_def get_draft_started [OF launched(3)])
next
  case (ended t ts st r)
  show ?case
  proof (cases "get_draft i (ended_store cfg t r st) = get_draft i st")
    case True
    then show ?thesis using ended(3,4) by (simp add: cat_mark_def cat_content_def)
  next
    case False
    let ?st = "ended_store cfg t r st"
    from False have hit: "i = dr_id (ct_draft t)" "fst (end_state r) = DepSucceeded"
      "ct_action t = ''deploy''"
      "get_draft i ?st = map_option (\<lambda>d. d\<lparr>dr_verified_on := Some (ct_cluster t)\<rparr>) (get_draft i st)"
      using get_draft_ended [of i cfg t r st] by auto
    have c: "c = ct_cluster t"
      using ended(3) hit(4) by (auto simp: cat_mark_def split: option.splits)
    obtain d where d: "d \<in> set (cs_deployments st)" "row_of_thread t d"
      using ended(1,2) by (auto simp: cat_valid_def)
    let ?d = "d\<lparr>cd_state := DepSucceeded, cd_detail := snd (end_state r)\<rparr>"
    have "?d \<in> set (cs_deployments (finish_deployment (ct_deployment t) (fst (end_state r))
        (snd (end_state r)) st))"
      unfolding finished_rows using d hit(2) by (intro bexI [of _ d]) (simp_all add: row_of_thread_def)
    then have in_st: "?d \<in> set (cs_deployments ?st)" using ended_drafts [of cfg t r st] by simp
    have "(i, draft_print cfg (ct_draft t), c) \<in> cat_landed cfg (?st, filter (\<lambda>u. ct_deployment u \<noteq> ct_deployment t) ts)"
      using in_st d(2) hit(1,3) c
      by (auto simp: cat_landed_def row_print_def draft_print_def row_of_thread_def
          intro!: exI [of _ ?d])
    moreover have "(i, draft_print cfg (ct_draft t), c) \<in> cat_inflight cfg (st, ts)"
      using ended(1) hit(1) c by (auto simp: cat_inflight_def)
    moreover have "cat_content cfg (?st, filter (\<lambda>u. ct_deployment u \<noteq> ct_deployment t) ts) i =
        cat_content cfg (st, ts) i"
      using hit(4) by (simp add: cat_content_def option.map_comp o_def)
    ultimately show ?thesis by blast
  qed
qed

interpretation catalog_proof: proved_first "cat_move True cfg" cat_valid "cat_content cfg" cat_mark
    "cat_landed cfg" "cat_inflight cfg" for cfg
proof (unfold_locales, goal_cases)
  case 1
  then show ?case by (rule move_valid [rotated])
next
  case 2
  then show ?case by (rule move_landed [rotated])
next
  case 3
  then show ?case by (intro move_launched)
next
  case 4
  then show ?case by (intro move_content)
next
  case 5
  then show ?case by (intro move_marked)
qed

section \<open>Nothing unproved reaches production\<close>

definition gated :: "catalog_config \<Rightarrow> catalog_core \<Rightarrow> bool" where
  "gated cfg w \<longleftrightarrow>
     (\<forall>d\<in>set (cs_deployments (fst w)).
        cd_action d = ''deploy'' \<and> cd_cluster d \<notin> set (cc_development cfg) \<longrightarrow>
        (\<exists>v\<in>set (cc_development cfg). (cd_catalog d, row_print cfg d, v) \<in> cat_landed cfg w))"

lemma checks_passed:
  "deploy_checks cfg d c ''deploy'' = None \<Longrightarrow>
     c \<in> set (cc_development cfg) \<or>
     (\<exists>v. dr_verified_on d = Some v \<and> v \<in> set (cc_development cfg))"
  by (auto simp: deploy_checks_def refuse_catalog_None split: sum.splits)

lemma move_rows:
  assumes "cat_move calm cfg w w'" "d' \<in> set (cs_deployments (fst w'))"
  shows "(\<exists>d\<in>set (cs_deployments (fst w)). cd_catalog d' = cd_catalog d \<and>
            row_print cfg d' = row_print cfg d \<and> cd_action d' = cd_action d \<and> cd_cluster d' = cd_cluster d) \<or>
         (\<exists>d. get_draft (cd_catalog d') (fst w) = Some d \<and>
            deploy_checks cfg d (cd_cluster d') (cd_action d') = None \<and> row_print cfg d' = draft_print cfg d)"
  using assms
proof (induction rule: cat_move.induct)
  case (created f memo actor st row st' ts)
  then show ?case using created_draft [OF created(2)] by auto
next
  case (launched i st d c action reason actor row st' ts)
  have "dr_id d = i" using launched(1) by (auto simp: get_draft_def dest: find_Some_set)
  then show ?case using launched started_row [OF launched(3)]
    by (auto simp: row_of_thread_def row_print_def draft_print_def)
next
  case (ended t ts st r)
  then have "d' \<in> set (cs_deployments (finish_deployment (ct_deployment t) (fst (end_state r))
      (snd (end_state r)) st))"
    using ended_drafts [of cfg t r st] by simp
  then obtain e where "e \<in> set (cs_deployments st)"
    "d' = (if cd_id e = ct_deployment t
           then e\<lparr>cd_state := fst (end_state r), cd_detail := snd (end_state r)\<rparr> else e)"
    unfolding finished_rows by blast
  then show ?case by (intro disjI1 bexI [of _ e]) (auto simp: row_print_def)
qed (auto simp: delete_draft_def update_draft_def Let_def)

lemma move_gated:
  assumes "cat_move True cfg w w'" "catalog_proof.earned cfg w" "gated cfg w"
  shows "gated cfg w'"
  unfolding gated_def
proof (intro ballI impI, elim conjE)
  fix d' assume d': "d' \<in> set (cs_deployments (fst w'))" "cd_action d' = ''deploy''"
    "cd_cluster d' \<notin> set (cc_development cfg)"
  have valid: "cat_valid w" using assms(2) by (simp add: catalog_proof.earned_def)
  have stays: "cat_landed cfg w \<subseteq> cat_landed cfg w'" by (rule move_landed [OF assms(1) valid])
  from move_rows [OF assms(1) d'(1)]
  show "\<exists>v\<in>set (cc_development cfg). (cd_catalog d', row_print cfg d', v) \<in> cat_landed cfg w'"
  proof
    assume "\<exists>d\<in>set (cs_deployments (fst w)). cd_catalog d' = cd_catalog d \<and>
            row_print cfg d' = row_print cfg d \<and> cd_action d' = cd_action d \<and> cd_cluster d' = cd_cluster d"
    then show ?thesis using assms(3) d' stays by (fastforce simp: gated_def)
  next
    assume "\<exists>d. get_draft (cd_catalog d') (fst w) = Some d \<and>
            deploy_checks cfg d (cd_cluster d') (cd_action d') = None \<and> row_print cfg d' = draft_print cfg d"
    then obtain d v where d: "get_draft (cd_catalog d') (fst w) = Some d"
      "row_print cfg d' = draft_print cfg d"
      and v: "dr_verified_on d = Some v" "v \<in> set (cc_development cfg)"
      using d' checks_passed by metis
    have "cat_mark w (cd_catalog d') = Some v" "cat_content cfg w (cd_catalog d') = Some (row_print cfg d')"
      using d v by (simp_all add: cat_mark_def cat_content_def)
    then have "(cd_catalog d', row_print cfg d', v) \<in> cat_landed cfg w"
      using assms(2) by (simp add: catalog_proof.earned_def)
    then show ?thesis using v(2) stays by blast
  qed
qed

lemma moves_gated:
  "(cat_move True cfg)\<^sup>*\<^sup>* w w' \<Longrightarrow> catalog_proof.earned cfg w \<Longrightarrow> gated cfg w \<Longrightarrow> gated cfg w'"
proof (induction rule: rtranclp_induct)
  case (step y z)
  then show ?case using move_gated catalog_proof.earned_reach by blast
qed

lemma new_world_earned:
  "catalog_proof.earned cfg (core (new_catalog_world au)) \<and> gated cfg (core (new_catalog_world au))"
  by (simp add: catalog_proof.earned_def gated_def core_def new_catalog_world_def new_catalog_store_def
      cat_valid_def cat_inflight_def cat_mark_def get_draft_def)

lemma gated_rows:
  assumes "gated cfg w"
  shows "let deps = cs_deployments (fst w)
         in list_all (\<lambda>d. cd_action d \<noteq> ''deploy'' \<or> cd_cluster d \<in> set (cc_development cfg) \<or>
              list_ex (\<lambda>p. cd_action p = ''deploy'' \<and> cd_state p = DepSucceeded \<and>
                           cd_cluster p \<in> set (cc_development cfg) \<and> cd_catalog p = cd_catalog d \<and>
                           row_print cfg p = row_print cfg d) deps) deps"
proof -
  have "\<exists>p\<in>set (cs_deployments (fst w)). cd_action p = ''deploy'' \<and> cd_state p = DepSucceeded \<and>
          cd_cluster p \<in> set (cc_development cfg) \<and> cd_catalog p = cd_catalog d \<and>
          row_print cfg p = row_print cfg d"
    if d: "d \<in> set (cs_deployments (fst w))" "cd_action d = ''deploy''"
      "cd_cluster d \<notin> set (cc_development cfg)" for d
  proof -
    obtain v where v: "v \<in> set (cc_development cfg)" "(cd_catalog d, row_print cfg d, v) \<in> cat_landed cfg w"
      using assms d by (auto simp: gated_def)
    from v(2) obtain p where "p \<in> set (cs_deployments (fst w))" "cd_state p = DepSucceeded"
      "cd_action p = ''deploy''" "cd_catalog p = cd_catalog d" "row_print cfg p = row_print cfg d"
      "cd_cluster p = v"
      by (auto simp: cat_landed_def)
    then show ?thesis using v(1) by blast
  qed
  then show ?thesis unfolding Let_def list_all_iff list_ex_iff by blast
qed

text \<open>C4: What reaches production was proved first. In every run of the service from its start in which no
  draft is saved while a deployment of it runs, each deployment to a cluster that is not a development
  cluster has, in the evidence table, an earlier successful deployment of the same catalog with the
  same fingerprint on a development cluster.\<close>

theorem production_only_after_proof:
  assumes "undisturbed desc cfg es (new_catalog_world au)"
  shows "let deps = cs_deployments (cw_store (catalog_run desc cfg es (new_catalog_world au)))
         in list_all (\<lambda>d. cd_action d \<noteq> ''deploy'' \<or> cd_cluster d \<in> set (cc_development cfg) \<or>
              list_ex (\<lambda>p. cd_action p = ''deploy'' \<and> cd_state p = DepSucceeded \<and>
                           cd_cluster p \<in> set (cc_development cfg) \<and> cd_catalog p = cd_catalog d \<and>
                           row_print cfg p = row_print cfg d) deps) deps"
proof -
  have "gated cfg (core (catalog_run desc cfg es (new_catalog_world au)))"
    by (rule moves_gated [OF run_refines_moves [of True]]) (use assms new_world_earned in simp_all)
  from gated_rows [OF this] show ?thesis by (simp add: core_def)
qed

section \<open>Stored drafts stay valid\<close>

definition well_formed_drafts :: "draft_row list \<Rightarrow> bool" where
  "well_formed_drafts ds \<longleftrightarrow>
     list_all (\<lambda>d. well_formed_draft (dr_name d) (dr_connector d) (dr_properties d)) ds"

lemma well_formed_update:
  "well_formed_drafts ds \<Longrightarrow>
   (\<And>d. well_formed_draft (dr_name d) (dr_connector d) (dr_properties d) \<Longrightarrow>
        well_formed_draft (dr_name (f d)) (dr_connector (f d)) (dr_properties (f d))) \<Longrightarrow>
   well_formed_drafts (update_first p f ds)"
  by (induction ds) (auto simp: well_formed_drafts_def)

lemma move_well_formed:
  "cat_move calm cfg w w' \<Longrightarrow> well_formed_drafts (cs_drafts (fst w)) \<Longrightarrow>
     well_formed_drafts (cs_drafts (fst w'))"
proof (induction rule: cat_move.induct)
  case (created f memo actor st row st' ts)
  then show ?case
    by (auto simp: create_draft_def Let_def well_formed_drafts_def proper_fields_def split: if_splits)
next
  case (saved i st d ts f memo actor)
  have "well_formed_drafts (update_first (\<lambda>d. dr_id d = i) (saved_draft (cc_hash cfg) f memo actor d)
      (cs_drafts st))"
    by (rule well_formed_update)
       (use saved in \<open>auto simp: saved_draft_def Let_def well_formed_draft_def proper_fields_def\<close>)
  then show ?case by (simp add: update_draft_def)
next
  case (deleted i st ts)
  then show ?case by (auto simp: delete_draft_def Let_def well_formed_drafts_def list_all_iff)
next
  case (launched i st d c action reason actor row st' ts)
  then show ?case using started_row [OF launched(3)] by simp
next
  case (ended t ts st r)
  have "well_formed_drafts (update_first p (\<lambda>d. d\<lparr>dr_verified_on := v\<rparr>) (cs_drafts st))" for p v
    by (rule well_formed_update) (use ended in simp_all)
  then show ?case using ended ended_drafts [of cfg t r st] by auto
qed

text \<open>In every run of the service, whatever the order of its requests and of the ends of its threads, every
  stored draft would pass validation again unchanged: its name and connector are names, its keys are
  trimmed, distinct and not reserved, no value is too long, and no credential-shaped key holds
  anything but an environment reference.\<close>

theorem stored_drafts_stay_valid:
  "list_all (\<lambda>d. validate_catalog shown (dr_name d) (dr_connector d) (as_json (dr_properties d)) =
               Inr \<lparr>cf_name = dr_name d, cf_connector = dr_connector d, cf_properties = dr_properties d\<rparr> \<and>
             list_all no_literal (dr_properties d))
     (cs_drafts (cw_store (catalog_run desc cfg es (new_catalog_world au))))"
proof -
  have reach: "well_formed_drafts (cs_drafts (fst w'))"
    if "(cat_move False cfg)\<^sup>*\<^sup>* w w'" "well_formed_drafts (cs_drafts (fst w))" for w w'
    using that by (induction rule: rtranclp_induct) (auto intro: move_well_formed)
  have "well_formed_drafts (cs_drafts (fst (core (catalog_run desc cfg es (new_catalog_world au)))))"
    by (rule reach [OF run_refines_moves [of False]])
       (simp_all add: core_def new_catalog_world_def new_catalog_store_def well_formed_drafts_def)
  then show ?thesis
    by (auto simp: well_formed_drafts_def core_def list_all_iff validated_again)
       (auto simp: well_formed_draft_def list_all_iff stored_entry_def)
qed

section \<open>A run\<close>

definition admin :: principal where
  "admin = new_principal ''r'' [ROLE_ADMIN] None"

definition run_config :: catalog_config where
  "run_config = \<lparr>cc_clusters = [''dev'', ''prod''],
     cc_inventories = [(''dev'', ''/d''), (''prod'', ''/p'')],
     cc_playbook = ''/c'', cc_binary = ''ap'',
     cc_development = [''dev''], cc_shown = (\<lambda>_. []), cc_hash = (\<lambda>s. s)\<rparr>"

definition at_time :: "nat \<Rightarrow> catalog_env" where
  "at_time t = \<lparr>ce_now = t, ce_uuid = ''r''\<rparr>"

definition open_audit :: audit_repo where "open_audit = \<lparr>records = [], writable = True\<rparr>"

definition good_events :: "(catalog_env \<times> catalog_event) list" where
  "good_events =
     [(at_time 1, EvCreate admin ''p'' ''q'' [(''u'', JStr ''a'')] (Some ''n'') None),
      (at_time 2, EvDeploy admin 1 ''dev'' (Some ''t'') ''deploy''),
      (at_time 3, EvEnded 1 (RunnerResult (Some 0) None)),
      (at_time 4, EvDeploy admin 1 ''prod'' (Some ''s'') ''deploy'')]"

theorem production_only_after_proof_witness:
  "undisturbed (\<lambda>_. []) run_config good_events (new_catalog_world open_audit) \<and>
   map cd_cluster (cs_deployments (cw_store (catalog_run (\<lambda>_. []) run_config good_events
      (new_catalog_world open_audit)))) = [''dev'', ''prod''] \<and>
   list_all (\<lambda>d. cd_action d \<noteq> ''deploy'' \<or> cd_cluster d \<in> set (cc_development run_config) \<or>
      list_ex (\<lambda>p. cd_cluster p \<in> set (cc_development run_config) \<and> cd_state p = DepSucceeded)
        (cs_deployments (cw_store (catalog_run (\<lambda>_. []) run_config good_events (new_catalog_world open_audit)))))
      (cs_deployments (cw_store (catalog_run (\<lambda>_. []) run_config good_events (new_catalog_world open_audit))))"
proof -
  have u: "undisturbed (\<lambda>_. []) run_config good_events (new_catalog_world open_audit)" by code_simp
  have c: "map cd_cluster (cs_deployments (cw_store (catalog_run (\<lambda>_. []) run_config good_events
      (new_catalog_world open_audit)))) = [''dev'', ''prod'']" by code_simp
  show ?thesis using production_only_after_proof [OF u] u c
    by (fastforce simp: Let_def list_all_iff list_ex_iff)
qed

text \<open>The condition is needed. An edit that is saved while the development deployment still runs is
  marked as proved when that deployment ends, and goes to production without ever having been on a
  development cluster.\<close>

definition racing_events :: "(catalog_env \<times> catalog_event) list" where
  "racing_events =
     [(at_time 1, EvCreate admin ''p'' ''q'' [(''u'', JStr ''a'')] (Some ''n'') None),
      (at_time 2, EvDeploy admin 1 ''dev'' (Some ''t'') ''deploy''),
      (at_time 3, EvSave admin 1 ''q'' [(''u'', JStr ''b'')] (Some ''e'') None),
      (at_time 4, EvEnded 1 (RunnerResult (Some 0) None)),
      (at_time 5, EvDeploy admin 1 ''prod'' (Some ''s'') ''deploy'')]"

theorem edit_during_deployment_counts_as_proved:
  "map (\<lambda>d. (cd_cluster d, cd_state d, cd_properties d))
       (cs_deployments (cw_store (catalog_run (\<lambda>_. []) run_config racing_events
          (new_catalog_world open_audit)))) =
     [(''dev'', DepSucceeded, [(''u'', ''a'')]), (''prod'', DepRunning, [(''u'', ''b'')])]"
  by code_simp

end
