(* ===== verification/ConfigScan.thy ===== *)
theory ConfigScan
  imports PropertyFiles
begin

text \<open>
  What is on each node and where nodes of one role disagree (\<^verbatim>\<open>ops/configscan.py\<close>). The tagged
  line of a host is decoded by \<open>json.loads\<close> (the argument \<open>loads\<close>: None is its \<open>ValueError\<close>), file
  content by base64 and UTF-8 (\<open>content_of\<close>), checksums by SHA-256 (\<open>sha\<close>); \<open>dumps\<close> is
  \<open>json.dumps(v, sort_keys=True)\<close>. Host, role, error and a checksum sent along are text in this
  model, another JSON value is rendered by \<open>show_json\<close>; \<open>valid_names\<close> is a list of texts, anything else a \<open>TypeError\<close>.
\<close>

definition MARKER :: string where "MARKER = ''TMS-CONFIG-SCAN ''"
definition CONTENT_FILES :: "string list" where
  "CONTENT_FILES = [''etc/config.properties'', ''etc/jvm.config'', ''etc/log.properties'']"
definition REDACTED :: string where "REDACTED = ''[REDACTED]''"
definition PER_NODE_FILES :: "string list" where "PER_NODE_FILES = [''etc/node.properties'']"

section \<open>One host\<close>

definition redact :: "json pydict \<Rightarrow> json pydict" where
  "redact ps = map (\<lambda>(k, v). (k, if scan_secret_key k then JStr REDACTED else v)) ps"

record codec =
  loads :: "string \<Rightarrow> json option"
  dumps :: "json \<Rightarrow> string"
  content_of :: "string \<Rightarrow> string option"
  sha :: "string \<Rightarrow> string"
  show_json :: "json \<Rightarrow> string"

definition checksum :: "codec \<Rightarrow> json \<Rightarrow> py_exn + string option" where
  "checksum cd j =
     (case j of JNull \<Rightarrow> Inr None | JStr s \<Rightarrow> Inr (Some (sha cd s)) | _ \<Rightarrow> Inl AttributeError)"

definition decode_entry :: "codec \<Rightarrow> (string \<times> json) list \<Rightarrow> json" where
  "decode_entry cd e =
     (if dget ''content'' e \<noteq> JNull then dget ''content'' e
      else case dget ''content_b64'' e of
             JStr s \<Rightarrow> (if s = [] then JNull
                       else case content_of cd s of None \<Rightarrow> JNull | Some t \<Rightarrow> JStr t)
           | _ \<Rightarrow> JNull)"

text \<open>\<open>(text or "").splitlines()\<close>\<close>

definition properties_of :: "json \<Rightarrow> py_exn + json pydict" where
  "properties_of j =
     (if \<not> truthy j then Inr []
      else case j of JStr s \<Rightarrow> Inr (map (\<lambda>(k, v). (k, JStr v)) (parse_properties s))
           | _ \<Rightarrow> Inl AttributeError)"

record file_record =
  fr_present :: bool
  fr_sha :: "string option"
  fr_collected :: bool
  fr_properties :: "json pydict option"

definition file_record_of :: "codec \<Rightarrow> string \<Rightarrow> json \<Rightarrow> py_exn + file_record" where
  "file_record_of cd path0 entry =
     (let e = (case fields_of entry of None \<Rightarrow> [] | Some fs \<Rightarrow> fs);
          content = decode_entry cd e; given = dget ''sha256'' e;
          collected = (path0 \<in> set CONTENT_FILES \<and> content \<noteq> JNull)
      in case (if truthy given then Inr (Some (str_of (show_json cd) given)) else checksum cd content) of
           Inl x \<Rightarrow> Inl x
         | Inr digest \<Rightarrow>
             (case (if collected then map_sum id (Some \<circ> redact) (properties_of content) else Inr None) of
                Inl x \<Rightarrow> Inl x
              | Inr ps \<Rightarrow> Inr \<lparr>fr_present = truthy (dget ''present'' e), fr_sha = digest,
                            fr_collected = collected, fr_properties = ps\<rparr>))"

record scanned_node =
  sc_host :: string
  sc_role :: string
  sc_reachable :: bool
  sc_error :: "string option"
  sc_files :: "file_record pydict"
  sc_properties :: "json pydict"
  sc_names :: "string list"

definition text_or :: "codec \<Rightarrow> string \<Rightarrow> json \<Rightarrow> string" where
  "text_or cd d j = (if truthy j then str_of (show_json cd) j else d)"

fun texts_of :: "json list \<Rightarrow> py_exn + string list" where
  "texts_of [] = Inr []"
| "texts_of (JStr s # js) = map_sum id ((#) s) (texts_of js)"
| "texts_of (_ # js) = Inl TypeError"

definition names_of :: "json \<Rightarrow> py_exn + string list" where
  "names_of j =
     (if \<not> truthy j then Inr []
      else case j of JList js \<Rightarrow> map_sum id (sort_by (\<lambda>s. s)) (texts_of js) | _ \<Rightarrow> Inl TypeError)"

definition effective_of :: "file_record pydict \<Rightarrow> json pydict" where
  "effective_of fs =
     (case map_of fs ''etc/config.properties'' of
        None \<Rightarrow> []
      | Some r \<Rightarrow> (case fr_properties r of None \<Rightarrow> [] | Some ps \<Rightarrow> ps))"

definition node_of :: "codec \<Rightarrow> json \<Rightarrow> py_exn + scanned_node" where
  "node_of cd raw0 =
     (case fields_of raw0 of
        None \<Rightarrow> Inl AttributeError
      | Some raw \<Rightarrow>
          (case or_dict (dget ''files'' raw) of
             Inl x \<Rightarrow> Inl x
           | Inr entries \<Rightarrow>
               (case map_exn (\<lambda>(p, e). map_sum id (Pair p) (file_record_of cd p e)) entries of
                  Inl x \<Rightarrow> Inl x
                | Inr fs \<Rightarrow>
                    (case or_dict (dget ''properties'' raw) of
                       Inl x \<Rightarrow> Inl x
                     | Inr reported \<Rightarrow>
                         (case names_of (dget ''valid_names'' raw) of
                            Inl x \<Rightarrow> Inl x
                          | Inr names \<Rightarrow>
                              Inr \<lparr>sc_host = text_or cd ''?'' (dget ''host'' raw),
                                   sc_role = text_or cd ''unknown'' (dget ''role'' raw),
                                   sc_reachable = truthy (get_or ''reachable'' (JBool True) raw),
                                   sc_error = (case dget ''error'' raw of JNull \<Rightarrow> None
                                               | e \<Rightarrow> Some (str_of (show_json cd) e)),
                                   sc_files = fs,
                                   sc_properties = dupdate (effective_of fs) (redact reported),
                                   sc_names = names\<rparr>)))))"

section \<open>The output of a scan\<close>

text \<open>\<open>line.find(MARKER)\<close>: what follows the first occurrence.\<close>

fun after_first :: "string \<Rightarrow> string \<Rightarrow> string option" where
  "after_first p [] = (if p = [] then Some [] else None)"
| "after_first p (c # cs) =
     (if prefix p (c # cs) then Some (drop (length p) (c # cs)) else after_first p cs)"

definition unreadable :: scanned_node where
  "unreadable = \<lparr>sc_host = ''?'', sc_role = ''unknown'', sc_reachable = False,
     sc_error = Some ''TMS could not read this node's scan output'', sc_files = [],
     sc_properties = [], sc_names = []\<rparr>"

fun parse_scan :: "codec \<Rightarrow> string list \<Rightarrow> py_exn + scanned_node list" where
  "parse_scan cd [] = Inr []"
| "parse_scan cd (line # rest) =
     (case after_first MARKER line of
        None \<Rightarrow> parse_scan cd rest
      | Some payload \<Rightarrow>
          (case (case loads cd (strip payload) of None \<Rightarrow> Inl ValueError | Some j \<Rightarrow> node_of cd j) of
             Inr n \<Rightarrow> map_sum id ((#) n) (parse_scan cd rest)
           | Inl AttributeError \<Rightarrow> Inl AttributeError
           | Inl _ \<Rightarrow> map_sum id ((#) unreadable) (parse_scan cd rest)))"

section \<open>Comparison\<close>

definition answered :: "scanned_node \<Rightarrow> bool" where
  "answered n \<longleftrightarrow> sc_reachable n \<and> (case sc_error n of None \<Rightarrow> True | Some e \<Rightarrow> e = [])"

definition by_host :: "(scanned_node \<Rightarrow> 'v) \<Rightarrow> scanned_node list \<Rightarrow> 'v pydict" where
  "by_host f peers = foldl (\<lambda>d n. dset (sc_host n) (f n) d) [] peers"

definition differ :: "'v pydict \<Rightarrow> bool" where
  "differ d \<longleftrightarrow> length (remdups (map snd d)) \<ge> 2"

datatype drift =
    FileDrift string string "string option pydict" bool        \<comment> \<open>role, path, checksums, expected\<close>
  | ValueDrift string string "json pydict"                     \<comment> \<open>role, name, values\<close>
  | NotReached "string list"

definition file_digest :: "string \<Rightarrow> scanned_node \<Rightarrow> string option" where
  "file_digest path0 n =
     (case map_of (sc_files n) path0 of
        None \<Rightarrow> None
      | Some r \<Rightarrow> (if fr_present r then fr_sha r else None))"

definition file_findings :: "string \<Rightarrow> scanned_node list \<Rightarrow> drift list" where
  "file_findings role peers =
     concat (map (\<lambda>p. let d = by_host (file_digest p) peers
                      in if differ d then [FileDrift role p d (p \<in> set PER_NODE_FILES)] else [])
               (sort_by (\<lambda>p. p) (remdups (concat (map (\<lambda>n. map fst (sc_files n)) peers)))))"

definition property_findings :: "codec \<Rightarrow> string \<Rightarrow> scanned_node list \<Rightarrow> drift list" where
  "property_findings cd role peers =
     concat (map (\<lambda>name. let d = by_host (\<lambda>n. dget name (sc_properties n)) peers
                      in if differ (map (map_prod id (dumps cd)) d) then [ValueDrift role name d] else [])
               (sort_by (\<lambda>p. p) (remdups (concat (map (\<lambda>n. map fst (sc_properties n)) peers)))))"

definition shared_names :: "scanned_node list \<Rightarrow> string list" where
  "shared_names ns =
     (case filter (\<lambda>xs. xs \<noteq> []) (map sc_names ns) of
        [] \<Rightarrow> []
      | first # rest \<Rightarrow>
          sort_by (\<lambda>s. s) (foldl (\<lambda>acc other. filter (\<lambda>x. x \<in> set other) acc) (remdups first) rest))"

record scan_comparison =
  cp_nodes :: "scanned_node list"
  cp_findings :: "drift list"
  cp_agree :: bool
  cp_names :: "string list"
  cp_roles :: "string list"

definition roles_of :: "scanned_node list \<Rightarrow> string list" where
  "roles_of ns = sort_by (\<lambda>r. r) (remdups (map sc_role ns))"

definition peer_findings :: "codec \<Rightarrow> scanned_node list \<Rightarrow> string \<Rightarrow> drift list" where
  "peer_findings cd ns role =
     (let peers = filter (\<lambda>n. sc_role n = role) ns
      in if length peers < 2 then [] else file_findings role peers @ property_findings cd role peers)"

definition compare_scan :: "codec \<Rightarrow> bool \<Rightarrow> scanned_node list \<Rightarrow> scan_comparison" where
  "compare_scan cd ignore_missing nodes =
     (let up = filter answered nodes; down = filter (\<lambda>n. \<not> answered n) nodes;
          found = concat (map (peer_findings cd up) (roles_of up)) @
                  (if down \<noteq> [] \<and> \<not> ignore_missing then [NotReached (map sc_host down)] else [])
      in \<lparr>cp_nodes = nodes, cp_findings = found, cp_agree = (found = []),
          cp_names = shared_names up, cp_roles = roles_of nodes\<rparr>)"

section \<open>What the comparison means\<close>

lemma by_host_values:
  assumes "distinct (map sc_host peers)"
  shows "by_host f peers = map (\<lambda>n. (sc_host n, f n)) peers"
proof -
  have "foldl (\<lambda>d n. dset (sc_host n) (f n) d) d peers = d @ map (\<lambda>n. (sc_host n, f n)) peers"
    if "distinct (map fst d @ map sc_host peers)" for d
    using that
  proof (induction peers arbitrary: d)
    case (Cons n ns)
    then have "sc_host n \<notin> fst ` set d" by auto
    then show ?case using Cons by (auto simp: dset_fresh)
  qed simp
  from this [of "[]"] assms show ?thesis by (simp add: by_host_def)
qed

lemma differ_iff: "differ d \<longleftrightarrow> (\<exists>x y. x \<in> snd ` set d \<and> y \<in> snd ` set d \<and> x \<noteq> y)"
proof -
  have "length (remdups xs) \<ge> 2 \<longleftrightarrow> (\<exists>x y. x \<in> set xs \<and> y \<in> set xs \<and> x \<noteq> y)" for xs :: "'b list"
  proof -
    have "length (remdups xs) = card (set xs)" by (simp add: length_remdups_card_conv)
    moreover have "2 \<le> card (set xs) \<longleftrightarrow> (\<exists>x y. x \<in> set xs \<and> y \<in> set xs \<and> x \<noteq> y)"
      using card_le_Suc0_iff_eq [of "set xs"] by (auto simp: not_less_eq_eq numeral_2_eq_2)
    ultimately show ?thesis by simp
  qed
  from this [of "map snd d"] show ?thesis by (simp add: differ_def)
qed

lemma concat_if_Nil: "concat (map (\<lambda>x. if P x then [f x] else []) xs) = [] \<longleftrightarrow> list_all (\<lambda>x. \<not> P x) xs"
  by (induction xs) auto

definition same_files :: "scanned_node \<Rightarrow> scanned_node \<Rightarrow> bool" where
  "same_files a b \<longleftrightarrow> (\<forall>p. file_digest p a = file_digest p b)"

definition same_values :: "codec \<Rightarrow> scanned_node \<Rightarrow> scanned_node \<Rightarrow> bool" where
  "same_values cd a b \<longleftrightarrow>
     (\<forall>name. dumps cd (dget name (sc_properties a)) = dumps cd (dget name (sc_properties b)))"

lemma file_findings_Nil:
  assumes "distinct (map sc_host peers)"
  shows "file_findings role peers = [] \<longleftrightarrow> (\<forall>a\<in>set peers. \<forall>b\<in>set peers. same_files a b)"
proof -
  have none: "file_digest p n = None" if "p \<notin> fst ` set (sc_files n)" for p n
    using that by (simp add: file_digest_def map_of_eq_None_iff [THEN iffD2])
  have "file_findings role peers = [] \<longleftrightarrow>
      (\<forall>p\<in>(\<Union>n\<in>set peers. fst ` set (sc_files n)). \<forall>a\<in>set peers. \<forall>b\<in>set peers.
          file_digest p a = file_digest p b)"
    by (simp add: file_findings_def Let_def concat_if_Nil list_all_iff differ_iff
        by_host_values [OF assms] image_image) blast
  also have "\<dots> \<longleftrightarrow> (\<forall>a\<in>set peers. \<forall>b\<in>set peers. same_files a b)"
    unfolding same_files_def by (metis none UN_I)
  finally show ?thesis .
qed

lemma property_findings_Nil:
  assumes "distinct (map sc_host peers)"
  shows "property_findings cd role peers = [] \<longleftrightarrow>
           (\<forall>a\<in>set peers. \<forall>b\<in>set peers. same_values cd a b)"
proof -
  have none: "dget name (sc_properties n) = JNull" if "name \<notin> fst ` set (sc_properties n)" for name n
    using that by (simp add: dget_def map_of_eq_None_iff [THEN iffD2])
  have "property_findings cd role peers = [] \<longleftrightarrow>
      (\<forall>p\<in>(\<Union>n\<in>set peers. fst ` set (sc_properties n)). \<forall>a\<in>set peers. \<forall>b\<in>set peers.
          dumps cd (dget p (sc_properties a)) = dumps cd (dget p (sc_properties b)))"
    by (simp add: property_findings_def Let_def concat_if_Nil list_all_iff differ_iff
        by_host_values [OF assms] image_image) blast
  also have "\<dots> \<longleftrightarrow> (\<forall>a\<in>set peers. \<forall>b\<in>set peers. same_values cd a b)"
    unfolding same_values_def by (metis none UN_I)
  finally show ?thesis .
qed

lemma peer_findings_Nil:
  assumes "distinct (map sc_host ns)"
  shows "peer_findings cd ns role = [] \<longleftrightarrow>
           (\<forall>a\<in>set ns. \<forall>b\<in>set ns. sc_role a = role \<and> sc_role b = role \<longrightarrow>
              same_files a b \<and> same_values cd a b)"
proof -
  let ?peers = "filter (\<lambda>n. sc_role n = role) ns"
  have d: "distinct (map sc_host ?peers)" using assms by (induction ns) auto
  show ?thesis
  proof (cases "length ?peers < 2")
    case True
    then have "a = b" if "a \<in> set ?peers" "b \<in> set ?peers" for a b
      using that by (cases ?peers) auto
    then show ?thesis using True
      by (auto simp: peer_findings_def same_files_def same_values_def)
  next
    case False
    then show ?thesis
      by (auto simp: peer_findings_def Let_def file_findings_Nil [OF d] property_findings_Nil [OF d])
  qed
qed

text \<open>The verdict "these nodes agree" is right: it is given exactly when every two answering nodes of one
  role have the same checksum for every file and the same value for every property, and no node was
  left out (unless the cluster is one whose missing nodes are ignored). Nodes of different roles are
  never compared.\<close>

theorem agreement_is_real:
  assumes "distinct (map sc_host nodes)"
  shows "cp_agree (compare_scan cd ignore_missing nodes) \<longleftrightarrow>
           (ignore_missing \<or> list_all answered nodes) \<and>
           (\<forall>a\<in>set nodes. \<forall>b\<in>set nodes. answered a \<and> answered b \<and> sc_role a = sc_role b \<longrightarrow>
              same_files a b \<and> same_values cd a b)"
proof -
  let ?up = "filter answered nodes"
  have d: "distinct (map sc_host ?up)" using assms by (induction nodes) auto
  have down: "filter (\<lambda>n. \<not> answered n) nodes = [] \<longleftrightarrow> list_all answered nodes"
    by (induction nodes) auto
  have "concat (map (peer_findings cd ?up) (roles_of ?up)) = [] \<longleftrightarrow>
      (\<forall>role\<in>sc_role ` set ?up. peer_findings cd ?up role = [])"
    by (auto simp: roles_of_def)
  also have "\<dots> \<longleftrightarrow> (\<forall>a\<in>set nodes. \<forall>b\<in>set nodes. answered a \<and> answered b \<and> sc_role a = sc_role b \<longrightarrow>
              same_files a b \<and> same_values cd a b)"
    unfolding peer_findings_Nil [OF d] by auto
  finally show ?thesis using down by (auto simp: compare_scan_def Let_def)
qed

definition sample_codec :: codec where
  "sample_codec = \<lparr>loads = (\<lambda>s. if s = ''5'' then Some (JNum 5) else None),
     dumps = (\<lambda>j. case j of JStr s \<Rightarrow> s | _ \<Rightarrow> []), content_of = Some, sha = (\<lambda>s. s), show_json = (\<lambda>_. [])\<rparr>"

definition sample_scan :: "string \<Rightarrow> string \<Rightarrow> string list \<Rightarrow> scanned_node" where
  "sample_scan host value names =
     \<lparr>sc_host = host, sc_role = ''worker'', sc_reachable = True, sc_error = None, sc_files = [],
      sc_properties = [(''query.max-memory'', JStr value)], sc_names = names\<rparr>"

theorem agreement_is_real_witness:
  "\<not> cp_agree (compare_scan sample_codec False [sample_scan ''a'' ''1GB'' [], sample_scan ''b'' ''2GB'' []])"
proof -
  have d: "distinct (map sc_host [sample_scan ''a'' ''1GB'' [], sample_scan ''b'' ''2GB'' []])"
    by (simp add: sample_scan_def)
  have "\<not> same_values sample_codec (sample_scan ''a'' ''1GB'' []) (sample_scan ''b'' ''2GB'' [])"
    by (auto simp: same_values_def sample_codec_def sample_scan_def dget_def intro!: exI [of _ "''query.max-memory''"])
  then show ?thesis
    by (simp add: agreement_is_real [OF d]) (simp add: sample_scan_def answered_def)
qed

section \<open>Names a deployment may use\<close>

lemma kept_in_all: "set (foldl (\<lambda>acc other. filter (\<lambda>x. x \<in> set other) acc) xs rest) =
    {x \<in> set xs. \<forall>other\<in>set rest. x \<in> set other}"
  by (induction rest arbitrary: xs) auto

lemma shared_names_iff:
  "x \<in> set (shared_names ns) \<longleftrightarrow>
     (\<exists>n\<in>set ns. sc_names n \<noteq> []) \<and> (\<forall>n\<in>set ns. sc_names n \<noteq> [] \<longrightarrow> x \<in> set (sc_names n))"
proof (cases "filter (\<lambda>xs. xs \<noteq> []) (map sc_names ns)")
  case Nil
  then have "\<forall>n\<in>set ns. sc_names n = []" by (auto simp: filter_empty_conv)
  then show ?thesis using Nil by (auto simp: shared_names_def)
next
  case (Cons first rest)
  have members: "set (first # rest) = {sc_names n |n. n \<in> set ns \<and> sc_names n \<noteq> []}"
    unfolding Cons [symmetric] by auto
  have all: "(\<forall>other\<in>set (first # rest). x \<in> set other) \<longleftrightarrow>
      (\<forall>n\<in>set ns. sc_names n \<noteq> [] \<longrightarrow> x \<in> set (sc_names n))"
    unfolding members by blast
  have "first \<in> set (first # rest)" by simp
  then have ex: "\<exists>n\<in>set ns. sc_names n \<noteq> []" unfolding members by blast
  show ?thesis using all ex by (simp add: shared_names_def Cons kept_in_all)
qed

text \<open>A node whose list of names is empty does not take part, although the code promises "property
  names every scanned node accepts".\<close>

theorem silent_node_is_skipped:
  "shared_names [sample_scan ''a'' [] [''query.max-memory''], sample_scan ''b'' [] []] =
     [''query.max-memory'']"
  by code_simp

text \<open>A tagged line whose JSON is not an object ends the whole reading with an \<open>AttributeError\<close>, where the
  code promises to report such a host as unreadable.\<close>

theorem scan_line_not_an_object_raises:
  "parse_scan sample_codec [''TMS-CONFIG-SCAN 5''] = Inl AttributeError"
  by code_simp

section \<open>No credential is kept\<close>

definition redacted :: "json pydict \<Rightarrow> bool" where
  "redacted ps \<longleftrightarrow> list_all (\<lambda>(k, v). \<not> scan_secret_key k \<or> v = JStr REDACTED) ps"

definition node_redacted :: "scanned_node \<Rightarrow> bool" where
  "node_redacted n \<longleftrightarrow> redacted (sc_properties n) \<and>
     list_all (\<lambda>(p, r). case fr_properties r of None \<Rightarrow> True
                       | Some ps \<Rightarrow> p \<in> set CONTENT_FILES \<and> redacted ps) (sc_files n)"

lemma redact_redacted: "redacted (redact ps)"
  by (auto simp: redacted_def redact_def list_all_iff)

lemma redacted_dset: "redacted ps \<Longrightarrow> \<not> scan_secret_key k \<or> v = JStr REDACTED \<Longrightarrow> redacted (dset k v ps)"
  by (induction ps) (auto simp: redacted_def split: if_splits)

lemma redacted_dupdate: "redacted ps \<Longrightarrow> redacted new \<Longrightarrow> redacted (dupdate ps new)"
proof (induction new arbitrary: ps)
  case (Cons kv new)
  obtain k v where kv: "kv = (k, v)" by (cases kv)
  with Cons.prems have new: "redacted new" "\<not> scan_secret_key k \<or> v = JStr REDACTED"
    by (auto simp: redacted_def)
  with Cons.prems have "redacted (dset k v ps)" by (intro redacted_dset)
  then show ?case using Cons.IH new kv by (simp add: dupdate_def)
qed (simp add: dupdate_def)

lemma file_record_redacted:
  "file_record_of cd p e = Inr r \<Longrightarrow>
     (case fr_properties r of None \<Rightarrow> True | Some ps \<Rightarrow> p \<in> set CONTENT_FILES \<and> redacted ps)"
  by (auto simp: file_record_of_def Let_def redact_redacted map_sum_def split: sum.splits if_splits)

lemma map_exn_all:
  "map_exn f xs = Inr ys \<Longrightarrow> (\<And>x y. f x = Inr y \<Longrightarrow> P y) \<Longrightarrow> list_all P ys"
  by (induction xs arbitrary: ys) (auto split: sum.splits)

lemma node_of_redacted: "node_of cd j = Inr n \<Longrightarrow> node_redacted n"
proof -
  assume n: "node_of cd j = Inr n"
  then obtain raw entries fs reported names where
    fs: "map_exn (\<lambda>(p, e). map_sum id (Pair p) (file_record_of cd p e)) entries = Inr fs"
    and parts: "sc_files n = fs" "sc_properties n = dupdate (effective_of fs) (redact reported)"
    by (auto simp: node_of_def split: option.splits sum.splits)
  let ?ok = "\<lambda>(p, r). case fr_properties r of None \<Rightarrow> True | Some ps \<Rightarrow> p \<in> set CONTENT_FILES \<and> redacted ps"
  have files: "list_all ?ok fs"
    by (rule map_exn_all [OF fs])
       (auto simp: map_sum_def dest: file_record_redacted split: sum.splits prod.splits)
  have "redacted (effective_of fs)"
  proof (cases "map_of fs ''etc/config.properties''")
    case None
    then show ?thesis by (simp add: effective_of_def redacted_def)
  next
    case (Some r)
    then have "?ok (''etc/config.properties'', r)" using files map_of_SomeD by (fastforce simp: list_all_iff)
    then show ?thesis using Some by (auto simp: effective_of_def redacted_def split: option.splits)
  qed
  then show ?thesis
    using parts files redacted_dupdate redact_redacted by (simp add: node_redacted_def)
qed

lemma unreadable_redacted: "node_redacted unreadable"
  by (simp add: node_redacted_def unreadable_def redacted_def)

text \<open>Whatever a playbook prints, no value under a key that reads like a credential is kept: in the
  properties of every parsed node, and in every file whose content was read, such a key holds the
  word \<open>[REDACTED]\<close>; and content is kept only of the three allowlisted files, never of a catalog.\<close>

theorem scan_keeps_no_credential:
  "case parse_scan cd ls of Inl _ \<Rightarrow> True | Inr ns \<Rightarrow> list_all node_redacted ns"
proof (induction cd ls rule: parse_scan.induct)
  case (2 cd line rest)
  show ?case
  proof (cases "after_first MARKER line")
    case None
    then show ?thesis using 2 by simp
  next
    case (Some payload)
    let ?n = "case loads cd (strip payload) of None \<Rightarrow> Inl ValueError | Some j \<Rightarrow> node_of cd j"
    have "node_redacted n" if "?n = Inr n" for n
      using that node_of_redacted by (auto split: option.splits)
    then show ?thesis using 2 Some unreadable_redacted
      by (cases ?n) (auto simp: map_sum_def split: sum.splits py_exn.splits)
  qed
qed simp

end
