(* ===== verification/ConfigEdit.thy ===== *)
theory ConfigEdit
  imports ConfigScan DevFirst
begin

text \<open>
  Changes to \<open>config.properties\<close> (\<^verbatim>\<open>ops/configedit.py\<close>) and where they are kept
  (\<open>InMemoryConfigChangeRepository\<close> of \<^verbatim>\<open>ops/configeditstore.py\<close>). A change is a set of edits; an
  entry of a request is a dictionary of JSON values, \<open>str\<close> of one that is not text is \<open>shown\<close>. Rows
  are created at increasing instants, which are left out.
\<close>

section \<open>Validation\<close>

definition MAX_ENTRIES :: nat where "MAX_ENTRIES = 50"
definition MAX_EDIT_CHARS :: int where "MAX_EDIT_CHARS = 2000"

definition edit_letter :: "char \<Rightarrow> bool" where
  "edit_letter c \<longleftrightarrow> is_ascii_alnum c \<and> \<not> is_ascii_digit c"

text \<open>\<open>^[a-zA-Z][A-Za-z0-9_.\-]*$\<close> on trimmed text.\<close>

definition property_name :: "string \<Rightarrow> bool" where
  "property_name s \<longleftrightarrow> s \<noteq> [] \<and> edit_letter (hd s) \<and>
     list_all (\<lambda>c. is_ascii_alnum c \<or> c = CHR ''_'' \<or> c = CHR ''.'' \<or> c = CHR ''-'') s"

datatype edit_error =
    NoTitle | BadTargetRole string | NoEntries | TooManyEntries | NotAName string
  | KeyTwice string | BadEditAction string | NoValue string | EditTooLong string
  | NotOneLine string | LiteralSecret string

datatype config_entry = SetTo string string | Unset string

fun entry_key :: "config_entry \<Rightarrow> string" where
  "entry_key (SetTo k v) = k"
| "entry_key (Unset k) = k"

fun is_set :: "config_entry \<Rightarrow> bool" where
  "is_set (SetTo k v) = True"
| "is_set (Unset k) = False"

record config_change =
  cg_title :: string
  cg_role :: string
  cg_entries :: "config_entry list"

definition ROLES :: "string list" where "ROLES = [''all'', ''coordinator'', ''worker'']"

definition text_or_empty :: "(json \<Rightarrow> string) \<Rightarrow> json \<Rightarrow> string" where
  "text_or_empty shown j = (if truthy j then str_of shown j else [])"

definition entry_value :: "(json \<Rightarrow> string) \<Rightarrow> json \<Rightarrow> string" where
  "entry_value shown j = (if j = JNull then [] else strip (str_of shown j))"

definition entry_action :: "(json \<Rightarrow> string) \<Rightarrow> json \<Rightarrow> string" where
  "entry_action shown j = lower (strip (if truthy j then str_of shown j else ''set''))"

definition check_set :: "string \<Rightarrow> string \<Rightarrow> edit_error + config_entry" where
  "check_set k v =
     (if v = [] then Inl (NoValue k)
      else if int (length v) > MAX_EDIT_CHARS then Inl (EditTooLong k)
      else if CHR 0x0A \<in> set v \<or> CHR 0x0D \<in> set v then Inl (NotOneLine k)
      else if secret_key k \<and> \<not> env_reference v then Inl (LiteralSecret k)
      else Inr (SetTo k v))"

fun clean_entries ::
    "(json \<Rightarrow> string) \<Rightarrow> string list \<Rightarrow> (string \<times> json) list list \<Rightarrow> edit_error + config_entry list" where
  "clean_entries shown seen [] = Inr []"
| "clean_entries shown seen (e # es) =
     (let k = strip (text_or_empty shown (dget ''key'' e));
          action = entry_action shown (dget ''action'' e);
          v = entry_value shown (dget ''value'' e)
      in if \<not> property_name k then Inl (NotAName k)
         else if k \<in> set seen then Inl (KeyTwice k)
         else if action \<notin> {''set'', ''unset''} then Inl (BadEditAction k)
         else case (if action = ''unset'' then Inr (Unset k) else check_set k v) of
                Inl x \<Rightarrow> Inl x
              | Inr c \<Rightarrow> map_sum id ((#) c) (clean_entries shown (k # seen) es))"

definition validate_change ::
    "(json \<Rightarrow> string) \<Rightarrow> string \<Rightarrow> string \<Rightarrow> (string \<times> json) list list \<Rightarrow> edit_error + config_change" where
  "validate_change shown title0 role0 es =
     (let title = strip title0; role = lower (strip role0)
      in if title = [] then Inl NoTitle
         else if role \<notin> set ROLES then Inl (BadTargetRole role)
         else if es = [] then Inl NoEntries
         else if length es > MAX_ENTRIES then Inl TooManyEntries
         else case clean_entries shown [] es of
                Inl x \<Rightarrow> Inl x
              | Inr cs \<Rightarrow> Inr \<lparr>cg_title = title, cg_role = role, cg_entries = sort_by entry_key cs\<rparr>)"

section \<open>The deployment gate\<close>

definition unknown_names :: "config_entry list \<Rightarrow> string list \<Rightarrow> string list" where
  "unknown_names es names =
     sort_by (\<lambda>s. s) (remdups (map entry_key (filter (\<lambda>e. is_set e \<and> entry_key e \<notin> set names) es)))"

datatype edit_refusal =
    NotScanned | NoNames | UnknownNames "string list" | NowhereFirst | UnprovedChange
  | ProvedOffDevelopment string

definition refuse_edit ::
    "config_entry list \<Rightarrow> string option \<Rightarrow> string \<Rightarrow> string list \<Rightarrow> string list \<Rightarrow> bool \<Rightarrow> edit_refusal option" where
  "refuse_edit es verified cluster development names scanned =
     (if \<not> scanned then Some NotScanned
      else if names = [] then Some NoNames
      else if unknown_names es names \<noteq> [] then Some (UnknownNames (unknown_names es names))
      else if cluster \<in> set development then None
      else if development = [] then Some NowhereFirst
      else case verified of
             None \<Rightarrow> Some UnprovedChange
           | Some v \<Rightarrow> (if v = [] then Some UnprovedChange
                       else if v \<notin> set development then Some (ProvedOffDevelopment v) else None))"

text \<open>Settings about to land on workers that only coordinators have today: the key and the number of
  workers the sentence mentions.\<close>

definition role_advice ::
    "config_entry list \<Rightarrow> string \<Rightarrow> scanned_node list \<Rightarrow> (string \<times> nat) list" where
  "role_advice es target nodes =
     (let up = filter answered nodes;
          ws = filter (\<lambda>n. sc_role n = ''worker'') up;
          cs = filter (\<lambda>n. sc_role n = ''coordinator'') up;
          has = (\<lambda>k n. k \<in> fst ` set (sc_properties n))
      in if target = ''coordinator'' \<or> ws = [] \<or> cs = [] then []
         else map (\<lambda>e. (entry_key e, length ws))
                (filter (\<lambda>e. is_set e \<and> list_ex (has (entry_key e)) cs \<and>
                             \<not> list_ex (has (entry_key e)) ws) es))"

definition summarise_change :: "config_entry list \<Rightarrow> string" where
  "summarise_change es =
     (let sets = map entry_key (filter is_set es); unsets = map entry_key (filter (Not \<circ> is_set) es)
      in join [CHR '' '', char_of (183::nat), CHR '' '']
           ((if sets = [] then [] else [''set '' @ join '', '' sets]) @
            (if unsets = [] then [] else [''remove '' @ join '', '' unsets])))"

section \<open>The store\<close>

record change_row =
  gr_id :: nat
  gr_title :: string
  gr_role :: string
  gr_entries :: "config_entry list"
  gr_notes :: "string option"
  gr_verified_on :: "string option"
  gr_created_by :: string
  gr_updated_by :: "string option"

record config_deployment =
  gd_id :: nat
  gd_change :: nat
  gd_title :: string
  gd_cluster :: string
  gd_role :: string
  gd_entries :: "config_entry list"
  gd_reason :: "string option"
  gd_actor :: string
  gd_state :: deploy_state
  gd_detail :: "string option"
  gd_log :: "string option"

record change_store =
  gs_changes :: "change_row list"
  gs_deployments :: "config_deployment list"
  gs_next :: nat
  gs_next_deploy :: nat

definition new_change_store :: change_store where
  "new_change_store = \<lparr>gs_changes = [], gs_deployments = [], gs_next = 1, gs_next_deploy = 1\<rparr>"

definition create_change ::
    "config_change \<Rightarrow> string option \<Rightarrow> string \<Rightarrow> change_store \<Rightarrow> change_row \<times> change_store" where
  "create_change c notes actor st =
     (let row = \<lparr>gr_id = gs_next st, gr_title = cg_title c, gr_role = cg_role c,
                 gr_entries = cg_entries c, gr_notes = notes, gr_verified_on = None,
                 gr_created_by = actor, gr_updated_by = None\<rparr>
      in (row, st\<lparr>gs_next := gs_next st + 1, gs_changes := gs_changes st @ [row]\<rparr>))"

definition list_changes :: "change_store \<Rightarrow> change_row list" where
  "list_changes st = rev (gs_changes st)"

definition get_change :: "nat \<Rightarrow> change_store \<Rightarrow> change_row option" where
  "get_change i st = find (\<lambda>d. gr_id d = i) (gs_changes st)"

definition update_change :: "nat \<Rightarrow> (change_row \<Rightarrow> change_row) \<Rightarrow> change_store \<Rightarrow> change_store" where
  "update_change i f st = st\<lparr>gs_changes := update_first (\<lambda>d. gr_id d = i) f (gs_changes st)\<rparr>"

definition delete_change :: "nat \<Rightarrow> change_store \<Rightarrow> bool \<times> change_store" where
  "delete_change i st =
     (let left = filter (\<lambda>d. gr_id d \<noteq> i) (gs_changes st)
      in (length left \<noteq> length (gs_changes st), st\<lparr>gs_changes := left\<rparr>))"

definition start_edit ::
    "change_row \<Rightarrow> string \<Rightarrow> config_change \<Rightarrow> string option \<Rightarrow> string \<Rightarrow> change_store \<Rightarrow>
     config_deployment \<times> change_store" where
  "start_edit d cluster clean reason actor st =
     (let row = \<lparr>gd_id = gs_next_deploy st, gd_change = gr_id d, gd_title = gr_title d,
                 gd_cluster = cluster, gd_role = cg_role clean, gd_entries = cg_entries clean,
                 gd_reason = reason, gd_actor = actor, gd_state = DepRunning, gd_detail = None,
                 gd_log = None\<rparr>
      in (row, st\<lparr>gs_next_deploy := gs_next_deploy st + 1,
                  gs_deployments := gs_deployments st @ [row]\<rparr>))"

definition finish_edit ::
    "nat \<Rightarrow> deploy_state \<Rightarrow> string option \<Rightarrow> string \<Rightarrow> change_store \<Rightarrow> change_store" where
  "finish_edit i state detail kept st =
     st\<lparr>gs_deployments :=
          map (\<lambda>d. if gd_id d = i
                   then d\<lparr>gd_state := state, gd_detail := detail, gd_log := Some kept\<rparr> else d)
              (gs_deployments st)\<rparr>"

definition recent_edits :: "nat \<Rightarrow> change_store \<Rightarrow> config_deployment list" where
  "recent_edits limit st = take limit (rev (gs_deployments st))"

section \<open>What validation gives\<close>

fun entry_fields :: "config_entry \<Rightarrow> (string \<times> json) list" where
  "entry_fields (SetTo k v) = [(''key'', JStr k), (''action'', JStr ''set''), (''value'', JStr v)]"
| "entry_fields (Unset k) = [(''key'', JStr k), (''action'', JStr ''unset''), (''value'', JNull)]"

fun proper_entry :: "config_entry \<Rightarrow> bool" where
  "proper_entry (SetTo k v) \<longleftrightarrow>
     property_name k \<and> v \<noteq> [] \<and> strip v = v \<and> int (length v) \<le> MAX_EDIT_CHARS \<and>
     CHR 0x0A \<notin> set v \<and> CHR 0x0D \<notin> set v \<and> (\<not> secret_key k \<or> env_reference v)"
| "proper_entry (Unset k) \<longleftrightarrow> property_name k"

definition proper_change :: "config_change \<Rightarrow> bool" where
  "proper_change c \<longleftrightarrow>
     cg_title c \<noteq> [] \<and> strip (cg_title c) = cg_title c \<and> cg_role c \<in> set ROLES \<and>
     cg_entries c \<noteq> [] \<and> length (cg_entries c) \<le> MAX_ENTRIES \<and>
     list_all proper_entry (cg_entries c) \<and> distinct (map entry_key (cg_entries c)) \<and>
     sorted_by entry_key (cg_entries c)"

lemma property_name_strip: "property_name k \<Longrightarrow> strip k = k \<and> k \<noteq> []"
proof -
  assume n: "property_name k"
  have "\<not> is_space c" if "c \<in> set k" for c
    using n that unfolding property_name_def list_all_iff
    by (auto simp: is_ascii_alnum_def is_space_def Let_def code_def)
  then show ?thesis using n by (simp add: strip_same_iff property_name_def)
qed

lemma check_set_proper:
  "check_set k v = Inr c \<Longrightarrow> property_name k \<Longrightarrow> strip v = v \<Longrightarrow> proper_entry c \<and> entry_key c = k"
  by (auto simp: check_set_def split: if_splits)

lemma entry_value_strip: "strip (entry_value shown j) = entry_value shown j"
  by (simp add: entry_value_def)

lemma clean_entries_proper:
  "clean_entries shown seen es = Inr cs \<Longrightarrow>
     list_all proper_entry cs \<and> distinct (map entry_key cs) \<and> set (map entry_key cs) \<inter> set seen = {} \<and>
     length cs = length es"
proof (induction shown seen es arbitrary: cs rule: clean_entries.induct)
  case (2 shown seen e es)
  let ?k = "strip (text_or_empty shown (dget ''key'' e))"
  let ?a = "entry_action shown (dget ''action'' e)"
  let ?v = "entry_value shown (dget ''value'' e)"
  from "2.prems" have ok: "property_name ?k" "?k \<notin> set seen" "?a \<in> {''set'', ''unset''}"
    by (auto simp: Let_def split: if_splits)
  from "2.prems" ok obtain c rest where c: "(if ?a = ''unset'' then Inr (Unset ?k) else check_set ?k ?v) = Inr c"
    and rest: "clean_entries shown (?k # seen) es = Inr rest" and cs: "cs = c # rest"
    by (auto simp: Let_def map_sum_def split: sum.splits if_splits)
  have "proper_entry c \<and> entry_key c = ?k"
    using c ok(1) check_set_proper [OF _ ok(1) entry_value_strip] by (auto split: if_splits)
  moreover have "list_all proper_entry rest \<and> distinct (map entry_key rest) \<and>
      set (map entry_key rest) \<inter> set (?k # seen) = {} \<and> length rest = length es"
    using "2.IH" [OF refl refl refl] ok c rest by auto
  ultimately show ?case using cs ok(2) by auto
qed simp

lemma validate_change_proper:
  assumes "validate_change shown title role es = Inr c"
  shows "proper_change c"
proof -
  obtain cs where cs: "clean_entries shown [] es = Inr cs" "cg_entries c = sort_by entry_key cs"
    and head: "cg_title c = strip title" "strip title \<noteq> []" "cg_role c \<in> set ROLES" "es \<noteq> []"
      "length es \<le> MAX_ENTRIES"
    using assms by (auto simp: validate_change_def Let_def split: if_splits sum.splits)
  have p: "list_all proper_entry cs \<and> distinct (map entry_key cs) \<and> length cs = length es"
    using clean_entries_proper [OF cs(1)] by simp
  moreover have "sort_by entry_key cs \<noteq> []"
    using p head(4) sort_by_length [of entry_key cs] by (metis length_0_conv)
  ultimately show ?thesis
    using cs(2) head by (simp add: proper_change_def sort_by_sorted list_all_iff)
qed

lemma entry_again:
  assumes "proper_entry c"
  shows "strip (text_or_empty shown (dget ''key'' (entry_fields c))) = entry_key c"
    and "entry_action shown (dget ''action'' (entry_fields c)) = (if is_set c then ''set'' else ''unset'')"
    and "is_set c \<Longrightarrow> check_set (entry_key c) (entry_value shown (dget ''value'' (entry_fields c))) = Inr c"
proof -
  have low: "lower (strip ''set'') = ''set''" "lower (strip ''unset'') = ''unset''" by code_simp+
  have key: "property_name (entry_key c)" using assms by (cases c) auto
  then show "strip (text_or_empty shown (dget ''key'' (entry_fields c))) = entry_key c"
    using property_name_strip by (cases c) (auto simp: text_or_empty_def dget_def str_of_def)
  show "entry_action shown (dget ''action'' (entry_fields c)) = (if is_set c then ''set'' else ''unset'')"
    using low by (cases c) (simp_all add: entry_action_def dget_def str_of_def)
  show "is_set c \<Longrightarrow> check_set (entry_key c) (entry_value shown (dget ''value'' (entry_fields c))) = Inr c"
    using assms by (cases c) (auto simp: entry_value_def dget_def str_of_def check_set_def)
qed

lemma clean_entries_again:
  "list_all proper_entry cs \<Longrightarrow> distinct (map entry_key cs) \<Longrightarrow> set (map entry_key cs) \<inter> set seen = {} \<Longrightarrow>
     clean_entries shown seen (map entry_fields cs) = Inr cs"
proof (induction cs arbitrary: seen)
  case (Cons c cs)
  have c: "proper_entry c" using Cons.prems by simp
  have n: "property_name (entry_key c)" using c by (cases c) auto
  have rest: "clean_entries shown (entry_key c # seen) (map entry_fields cs) = Inr cs"
    using Cons by auto
  have "entry_key c \<notin> set seen" using Cons.prems(3) by auto
  then show ?case
    using entry_again [OF c] n rest by (cases c) (simp_all add: Let_def)
qed simp

lemma role_again: "r \<in> set ROLES \<Longrightarrow> lower (strip r) = r"
proof -
  have "list_all (\<lambda>r. lower (strip r) = r) ROLES" by code_simp
  then show "r \<in> set ROLES \<Longrightarrow> lower (strip r) = r" by (simp add: list_all_iff)
qed

text \<open>Validating what was stored gives what was stored, so the second check before a deployment refuses
  nothing that was saved through the console.\<close>

lemma validate_change_again:
  assumes "proper_change c"
  shows "validate_change shown (cg_title c) (cg_role c) (map entry_fields (cg_entries c)) = Inr c"
  using assms clean_entries_again [of "cg_entries c" "[]" shown]
  by (simp add: proper_change_def validate_change_def Let_def role_again sort_by_fixed)

end
