(* ===== verification/ConfigEditService.thy ===== *)
theory ConfigEditService
  imports ConfigEdit AuditedService Base64
begin

text \<open>
  Editing \<open>config.properties\<close> and sending it to a cluster (\<^verbatim>\<open>ops/configeditservice.py\<close>). The
  world is the audit store, the change tables, the busy clusters, the deployment threads that have
  not ended and the commands started so far. The environment of a request holds the stored scan of
  every cluster: the nodes of its latest snapshot, or None when there is none. \<open>json.dumps\<close> of the
  entries is the argument \<open>fc_dumps\<close>.
\<close>

record edit_thread =
  et_cluster :: string
  et_deployment :: nat
  et_change :: change_row

record edit_world =
  ew_audit :: audit_repo
  ew_store :: change_store
  ew_busy :: "string list"
  ew_threads :: "edit_thread list"
  ew_commands :: "string list list"

record edit_config =
  fc_clusters :: "string list"
  fc_inventories :: "string pydict"
  fc_playbook :: string
  fc_binary :: string
  fc_development :: "string list"
  fc_shown :: "json \<Rightarrow> string"
  fc_dumps :: "config_entry list \<Rightarrow> string"
  fc_codec :: codec

record edit_env =
  ee_now :: nat
  ee_uuid :: string
  ee_scan :: "string \<Rightarrow> scanned_node list option"

datatype edit_message =
    NoViewRight | NoAdminRight | UnknownEditCluster string | NoEditInventory string
  | NoSuchChange nat | InvalidChange edit_error | StaleChange edit_error | EditRefused edit_refusal
  | EditRunning string | EditGuardSays audit_exn

datatype edit_exn = EditApi api_kind edit_message | EditGuard audit_exn

type_synonym 'a edit_op = "edit_world \<Rightarrow> (edit_exn + 'a) \<times> edit_world"

definition edit_guard_error :: "audit_exn \<Rightarrow> edit_exn" where
  "edit_guard_error e =
     (case e of
        ReasonRequired \<Rightarrow> EditApi Access.ReasonRequiredError (EditGuardSays e)
      | AuditUnavailable \<Rightarrow> EditApi AuditUnavailableError (EditGuardSays e)
      | InvalidActionType _ \<Rightarrow> EditGuard e)"

definition put_edit_audit :: "audit_repo \<Rightarrow> edit_world \<Rightarrow> edit_world" where
  "put_edit_audit au w = w\<lparr>ew_audit := au\<rparr>"

definition edit_audited ::
    "(edit_exn \<Rightarrow> string) \<Rightarrow> edit_env \<Rightarrow> audit_call \<Rightarrow> 'a edit_op \<Rightarrow> 'a edit_op" where
  "edit_audited desc ev call body w =
     audited_in ew_audit put_edit_audit edit_guard_error desc (ee_now ev) (ee_uuid ev) call body w"

interpretation edit_guard: audited_service ew_audit put_edit_audit edit_guard_error
  by unfold_locales (simp_all add: put_edit_audit_def)

definition edit_call ::
    "principal \<Rightarrow> string \<Rightarrow> string \<Rightarrow> string \<Rightarrow> string option \<Rightarrow> string option \<Rightarrow> audit_call" where
  "edit_call p action_type kind target reason cluster =
     \<lparr>ac_actor = pr_username p, ac_roles = pr_roles p, ac_action_type = action_type,
      ac_target_kind = kind, ac_target_id = target, ac_reason = reason,
      ac_target_cluster = cluster, ac_actor_ip = pr_ip p, ac_request_id = None\<rparr>"

section \<open>Reading\<close>

definition edit_inventory :: "edit_config \<Rightarrow> string \<Rightarrow> edit_exn + string" where
  "edit_inventory cfg c =
     (if c \<notin> set (fc_clusters cfg) then Inl (EditApi NotFound (UnknownEditCluster c))
      else case map_of (fc_inventories cfg) c of
             None \<Rightarrow> Inl (EditApi InvalidRequest (NoEditInventory c))
           | Some i \<Rightarrow> (if i = [] then Inl (EditApi InvalidRequest (NoEditInventory c)) else Inr i))"

definition change_or_404 :: "nat \<Rightarrow> edit_world \<Rightarrow> edit_exn + change_row" where
  "change_or_404 i w =
     (case get_change i (ew_store w) of
        None \<Rightarrow> Inl (EditApi NotFound (NoSuchChange i)) | Some d \<Rightarrow> Inr d)"

record scan_material =
  sm_scanned :: bool
  sm_names :: "string list"
  sm_nodes :: "scanned_node list"

definition scan_of :: "edit_config \<Rightarrow> edit_env \<Rightarrow> string \<Rightarrow> scan_material" where
  "scan_of cfg ev c =
     (case ee_scan ev c of
        None \<Rightarrow> \<lparr>sm_scanned = False, sm_names = [], sm_nodes = []\<rparr>
      | Some nodes \<Rightarrow>
          (let cp = compare_scan (fc_codec cfg) (c \<in> set (fc_development cfg)) nodes
           in \<lparr>sm_scanned = True, sm_names = cp_names cp, sm_nodes = cp_nodes cp\<rparr>))"

record change_view =
  gv_row :: change_row
  gv_summary :: string
  gv_unknown :: "string list"
  gv_advice :: "(string \<times> nat) list"
  gv_targets :: "(string \<times> bool \<times> edit_refusal option) list"

definition gate_for :: "edit_config \<Rightarrow> edit_env \<Rightarrow> change_row \<Rightarrow> string \<Rightarrow> edit_refusal option" where
  "gate_for cfg ev d c =
     (let scan = scan_of cfg ev c
      in refuse_edit (gr_entries d) (gr_verified_on d) c (fc_development cfg) (sm_names scan)
           (sm_scanned scan))"

definition describe_change :: "edit_config \<Rightarrow> edit_env \<Rightarrow> string \<Rightarrow> change_row \<Rightarrow> change_view" where
  "describe_change cfg ev c d =
     (let scan = scan_of cfg ev c
      in \<lparr>gv_row = d, gv_summary = summarise_change (gr_entries d),
          gv_unknown = unknown_names (gr_entries d) (sm_names scan),
          gv_advice = role_advice (gr_entries d) (gr_role d) (sm_nodes scan),
          gv_targets = map (\<lambda>n. (n, n \<in> set (fc_development cfg), gate_for cfg ev d n))
                         (fc_clusters cfg)\<rparr>)"

definition change_overview ::
    "edit_config \<Rightarrow> edit_env \<Rightarrow> principal \<Rightarrow> string \<Rightarrow> edit_world \<Rightarrow>
     edit_exn + change_view list \<times> config_deployment list \<times> bool \<times> nat \<times> bool" where
  "change_overview cfg ev p c w =
     (if \<not> can p VIEW_HEALTH then Inl (EditApi Forbidden NoViewRight)
      else Inr (map (describe_change cfg ev c) (list_changes (ew_store w)),
                recent_edits 25 (ew_store w), sm_scanned (scan_of cfg ev c),
                length (sm_names (scan_of cfg ev c)), c \<in> set (ew_busy w)))"

section \<open>Writing\<close>

text \<open>\<open>(notes or "").strip() or None\<close>\<close>

definition kept_notes :: "string option \<Rightarrow> string option" where
  "kept_notes n = (case n of None \<Rightarrow> None | Some s \<Rightarrow> if strip s = [] then None else Some (strip s))"

definition create_edit_body ::
    "principal \<Rightarrow> config_change \<Rightarrow> string option \<Rightarrow> change_row edit_op" where
  "create_edit_body p c notes w =
     (case create_change c (kept_notes notes) (pr_username p) (ew_store w) of
        (row, st) \<Rightarrow> (Inr row, w\<lparr>ew_store := st\<rparr>))"

definition create_edit ::
    "(edit_exn \<Rightarrow> string) \<Rightarrow> edit_config \<Rightarrow> edit_env \<Rightarrow> principal \<Rightarrow> string \<Rightarrow> string \<Rightarrow>
     (string \<times> json) list list \<Rightarrow> string option \<Rightarrow> string option \<Rightarrow> change_row edit_op" where
  "create_edit desc cfg ev p title role es notes reason w =
     (if \<not> can p MANAGE_HEALTH then (Inl (EditApi Forbidden NoAdminRight), w)
      else case validate_change (fc_shown cfg) title role es of
             Inl e \<Rightarrow> (Inl (EditApi InvalidRequest (InvalidChange e)), w)
           | Inr c \<Rightarrow>
               edit_audited desc ev
                 (edit_call p ''CONFIG_CHANGE'' ''config_change'' (cg_title c) reason None)
                 (create_edit_body p c notes) w)"

text \<open>Editing clears the proof.\<close>

definition edited_row ::
    "config_change \<Rightarrow> string option \<Rightarrow> string \<Rightarrow> change_row \<Rightarrow> change_row" where
  "edited_row c notes actor d =
     d\<lparr>gr_title := cg_title c, gr_role := cg_role c, gr_entries := cg_entries c,
       gr_notes := kept_notes notes, gr_verified_on := None, gr_updated_by := Some actor\<rparr>"

definition update_edit_body :: "nat \<Rightarrow> (change_row \<Rightarrow> change_row) \<Rightarrow> change_row option edit_op" where
  "update_edit_body i change w =
     (let st = update_change i change (ew_store w) in (Inr (get_change i st), w\<lparr>ew_store := st\<rparr>))"

definition update_edit ::
    "(edit_exn \<Rightarrow> string) \<Rightarrow> edit_config \<Rightarrow> edit_env \<Rightarrow> principal \<Rightarrow> nat \<Rightarrow> string \<Rightarrow> string \<Rightarrow>
     (string \<times> json) list list \<Rightarrow> string option \<Rightarrow> string option \<Rightarrow> change_row option edit_op" where
  "update_edit desc cfg ev p i title role es notes reason w =
     (if \<not> can p MANAGE_HEALTH then (Inl (EditApi Forbidden NoAdminRight), w)
      else case change_or_404 i w of
             Inl e \<Rightarrow> (Inl e, w)
           | Inr existing \<Rightarrow>
               (case validate_change (fc_shown cfg) title role es of
                  Inl e \<Rightarrow> (Inl (EditApi InvalidRequest (InvalidChange e)), w)
                | Inr c \<Rightarrow>
                    edit_audited desc ev
                      (edit_call p ''CONFIG_CHANGE'' ''config_change'' (show_nat i) reason None)
                      (update_edit_body i (edited_row c notes (pr_username p))) w))"

definition delete_edit_body :: "nat \<Rightarrow> nat \<Rightarrow> nat edit_op" where
  "delete_edit_body i shown_id w =
     (Inr shown_id, w\<lparr>ew_store := snd (delete_change i (ew_store w))\<rparr>)"

definition delete_edit ::
    "(edit_exn \<Rightarrow> string) \<Rightarrow> edit_env \<Rightarrow> principal \<Rightarrow> nat \<Rightarrow> string option \<Rightarrow> nat edit_op" where
  "delete_edit desc ev p i reason w =
     (if \<not> can p MANAGE_HEALTH then (Inl (EditApi Forbidden NoAdminRight), w)
      else case change_or_404 i w of
             Inl e \<Rightarrow> (Inl e, w)
           | Inr existing \<Rightarrow>
               edit_audited desc ev
                 (edit_call p ''CONFIG_CHANGE'' ''config_change'' (show_nat i) reason None)
                 (delete_edit_body i (gr_id existing)) w)"

section \<open>Deploying\<close>

definition edit_body ::
    "principal \<Rightarrow> change_row \<Rightarrow> string \<Rightarrow> config_change \<Rightarrow> string option \<Rightarrow> config_deployment edit_op" where
  "edit_body p d cluster clean reason w =
     (case start_edit d cluster clean reason (pr_username p) (ew_store w) of
        (row, st) \<Rightarrow> (Inr row, w\<lparr>ew_store := st\<rparr>))"

definition edit_command :: "edit_config \<Rightarrow> string \<Rightarrow> config_change \<Rightarrow> string list" where
  "edit_command cfg inventory c =
     [fc_binary cfg, ''--inventory'', inventory, fc_playbook cfg,
      ''--extra-vars'', ''target_role='' @ cg_role c,
      ''--extra-vars'', ''config_edits='' @ b64encode (utf8 (fc_dumps cfg (cg_entries c)))]"

text \<open>The change a deployment carries, or why it is refused before the cluster is taken.\<close>

definition edit_checks ::
    "edit_config \<Rightarrow> edit_env \<Rightarrow> change_row \<Rightarrow> string \<Rightarrow> edit_message + config_change" where
  "edit_checks cfg ev d cluster =
     (case validate_change (fc_shown cfg) (gr_title d) (gr_role d) (map entry_fields (gr_entries d)) of
        Inl e \<Rightarrow> Inl (StaleChange e)
      | Inr clean \<Rightarrow>
          (case gate_for cfg ev d cluster of Some r \<Rightarrow> Inl (EditRefused r) | None \<Rightarrow> Inr clean))"

definition deploy_edit ::
    "(edit_exn \<Rightarrow> string) \<Rightarrow> edit_config \<Rightarrow> edit_env \<Rightarrow> principal \<Rightarrow> nat \<Rightarrow> string \<Rightarrow> string option \<Rightarrow>
     config_deployment edit_op" where
  "deploy_edit desc cfg ev p i cluster reason w =
     (if \<not> can p MANAGE_HEALTH then (Inl (EditApi Forbidden NoAdminRight), w)
      else case edit_inventory cfg cluster of
             Inl e \<Rightarrow> (Inl e, w)
           | Inr inventory \<Rightarrow>
               (case change_or_404 i w of
                  Inl e \<Rightarrow> (Inl e, w)
                | Inr d \<Rightarrow>
                    (case edit_checks cfg ev d cluster of
                       Inl m \<Rightarrow> (Inl (EditApi InvalidRequest m), w)
                     | Inr clean \<Rightarrow>
                         (if cluster \<in> set (ew_busy w)
                          then (Inl (EditApi InvalidRequest (EditRunning cluster)), w)
                          else case edit_audited desc ev
                                      (edit_call p ''CONFIG_DEPLOY'' ''cluster''
                                         (cluster @ '':'' @ gr_title d) reason (Some cluster))
                                      (edit_body p d cluster clean reason) w of
                                 (Inl e, w') \<Rightarrow> (Inl e, w')
                               | (Inr row, w') \<Rightarrow>
                                   (Inr row,
                                    w'\<lparr>ew_busy := cluster # ew_busy w',
                                       ew_threads := ew_threads w' @
                                         [\<lparr>et_cluster = cluster, et_deployment = gd_id row,
                                           et_change = d\<rparr>],
                                       ew_commands := ew_commands w' @
                                         [edit_command cfg inventory clean]\<rparr>)))))"

text \<open>The end of \<open>_deploy_now\<close>: the record with the playbook's last lines, the mark on the change, the
  cluster free again.\<close>

definition MAX_LOG_CHARS :: int where "MAX_LOG_CHARS = 60000"

text \<open>\<open>s[-n:]\<close>\<close>

definition take_last :: "int \<Rightarrow> 'a list \<Rightarrow> 'a list" where
  "take_last n xs = drop (nat (int (length xs) - n)) xs"

definition edit_ended_store ::
    "edit_config \<Rightarrow> edit_thread \<Rightarrow> string list \<Rightarrow> runner_end \<Rightarrow> change_store \<Rightarrow> change_store" where
  "edit_ended_store cfg t ls r st0 =
     (case end_state r of
        (state, detail) \<Rightarrow>
          (let st = finish_edit (et_deployment t) state detail
                      (take_last MAX_LOG_CHARS (join [CHR 0x0A] ls)) st0
           in if state = DepSucceeded \<and> et_cluster t \<in> set (fc_development cfg)
              then update_change (gr_id (et_change t))
                     (\<lambda>d. d\<lparr>gr_verified_on := Some (et_cluster t)\<rparr>) st
              else st))"

definition edit_ended ::
    "edit_config \<Rightarrow> edit_thread \<Rightarrow> string list \<Rightarrow> runner_end \<Rightarrow> edit_world \<Rightarrow> edit_world" where
  "edit_ended cfg t ls r w =
     w\<lparr>ew_store := edit_ended_store cfg t ls r (ew_store w),
       ew_busy := filter (\<lambda>c. c \<noteq> et_cluster t) (ew_busy w),
       ew_threads := filter (\<lambda>u. et_deployment u \<noteq> et_deployment t) (ew_threads w)\<rparr>"

section \<open>Runs of the service\<close>

datatype edit_event =
    EdCreate principal string string "(string \<times> json) list list" "string option" "string option"
  | EdUpdate principal nat string string "(string \<times> json) list list" "string option" "string option"
  | EdDelete principal nat "string option"
  | EdDeploy principal nat string "string option"
  | EdEnded nat "string list" runner_end

fun edit_step ::
    "(edit_exn \<Rightarrow> string) \<Rightarrow> edit_config \<Rightarrow> edit_env \<times> edit_event \<Rightarrow> edit_world \<Rightarrow> edit_world" where
  "edit_step desc cfg (ev, EdCreate p title role es memo reason) w =
     snd (create_edit desc cfg ev p title role es memo reason w)"
| "edit_step desc cfg (ev, EdUpdate p i title role es memo reason) w =
     snd (update_edit desc cfg ev p i title role es memo reason w)"
| "edit_step desc cfg (ev, EdDelete p i reason) w = snd (delete_edit desc ev p i reason w)"
| "edit_step desc cfg (ev, EdDeploy p i c reason) w = snd (deploy_edit desc cfg ev p i c reason w)"
| "edit_step desc cfg (ev, EdEnded k ls r) w =
     (case find (\<lambda>t. et_deployment t = k) (ew_threads w) of
        None \<Rightarrow> w | Some t \<Rightarrow> edit_ended cfg t ls r w)"

definition edit_run ::
    "(edit_exn \<Rightarrow> string) \<Rightarrow> edit_config \<Rightarrow> (edit_env \<times> edit_event) list \<Rightarrow> edit_world \<Rightarrow> edit_world" where
  "edit_run desc cfg es w = fold (edit_step desc cfg) es w"

definition new_edit_world :: "audit_repo \<Rightarrow> edit_world" where
  "new_edit_world au =
     \<lparr>ew_audit = au, ew_store = new_change_store, ew_busy = [], ew_threads = [], ew_commands = []\<rparr>"

definition change_deploying :: "nat \<Rightarrow> edit_thread list \<Rightarrow> bool" where
  "change_deploying i ts \<longleftrightarrow> list_ex (\<lambda>t. gr_id (et_change t) = i) ts"

fun unhurried ::
    "(edit_exn \<Rightarrow> string) \<Rightarrow> edit_config \<Rightarrow> (edit_env \<times> edit_event) list \<Rightarrow> edit_world \<Rightarrow> bool" where
  "unhurried desc cfg [] w = True"
| "unhurried desc cfg (x # xs) w \<longleftrightarrow>
     (case snd x of EdUpdate p i title role es memo reason \<Rightarrow> \<not> change_deploying i (ew_threads w)
      | _ \<Rightarrow> True) \<and>
     unhurried desc cfg xs (edit_step desc cfg x w)"

end
