(* ===== verification/ConfigEditSafety.thy ===== *)
theory ConfigEditSafety
  imports ConfigEditService
begin

text \<open>
  Why a configuration change that reaches production was proved on a development cluster, carries no
  literal credential and only names the cluster knows: the service's steps refine the moves of
  changes, records and threads below, and the moves keep the promises of \<open>proved_first\<close>.
\<close>

section \<open>The moves\<close>

type_synonym edit_core = "change_store \<times> edit_thread list"

inductive edit_move :: "bool \<Rightarrow> edit_config \<Rightarrow> edit_core \<Rightarrow> edit_core \<Rightarrow> bool" for calm cfg where
  created: "proper_change c \<Longrightarrow> create_change c memo actor st = (row, st') \<Longrightarrow>
    edit_move calm cfg (st, ts) (st', ts)"
| edited: "(calm \<longrightarrow> \<not> change_deploying i ts) \<Longrightarrow> proper_change c \<Longrightarrow>
    edit_move calm cfg (st, ts) (update_change i (edited_row c memo actor) st, ts)"
| deleted: "edit_move calm cfg (st, ts) (snd (delete_change i st), ts)"
| launched: "get_change i st = Some d \<Longrightarrow> edit_checks cfg ev d c = Inr clean \<Longrightarrow>
    start_edit d c clean reason actor st = (row, st') \<Longrightarrow>
    edit_move calm cfg (st, ts)
      (st', ts @ [\<lparr>et_cluster = c, et_deployment = gd_id row, et_change = d\<rparr>])"
| ended: "t \<in> set ts \<Longrightarrow>
    edit_move calm cfg (st, ts)
      (edit_ended_store cfg t ls r st, filter (\<lambda>u. et_deployment u \<noteq> et_deployment t) ts)"

definition edit_core :: "edit_world \<Rightarrow> edit_core" where
  "edit_core w = (ew_store w, ew_threads w)"

lemma edit_core_simps [simp]:
  "edit_core (put_edit_audit au w) = edit_core w"
  "edit_core (w\<lparr>ew_store := st\<rparr>) = (st, ew_threads w)"
  by (simp_all add: edit_core_def put_edit_audit_def)

lemma edit_audited_result:
  assumes "edit_audited desc ev call body w = (r, w')" "ew_audit (snd (body w)) = ew_audit w"
  shows "edit_core w' = edit_core w \<and> (\<exists>e. r = Inl e) \<or>
         (\<exists>wb. body w = (r, wb) \<and> edit_core w' = edit_core wb)"
  using edit_guard.audited_part [OF assms(1) [unfolded edit_audited_def] assms(2) edit_core_simps(1)] .

lemma edit_audited_core:
  assumes "snd (edit_audited desc ev call body w) = w'" "ew_audit (snd (body w)) = ew_audit w"
  shows "edit_core w' = edit_core w \<or> edit_core w' = edit_core (snd (body w))"
proof -
  obtain r where "edit_audited desc ev call body w = (r, w')" using assms(1) by (metis surj_pair snd_conv)
  from edit_audited_result [OF this assms(2)] show ?thesis by auto
qed

lemma create_edit_moves:
  assumes w': "snd (create_edit desc cfg ev p title role es memo reason w) = w'"
  shows "edit_core w' = edit_core w \<or> edit_move calm cfg (edit_core w) (edit_core w')"
proof (cases "can p MANAGE_HEALTH \<and> (\<exists>c. validate_change (fc_shown cfg) title role es = Inr c)")
  case True
  then obtain c where v: "validate_change (fc_shown cfg) title role es = Inr c" by blast
  have aud: "snd (edit_audited desc ev
      (edit_call p ''CONFIG_CHANGE'' ''config_change'' (cg_title c) reason None)
      (create_edit_body p c memo) w) = w'"
    using w' True v by (simp add: create_edit_def)
  obtain row st where cr: "create_change c (kept_notes memo) (pr_username p) (ew_store w) = (row, st)"
    by (metis surj_pair)
  have "edit_core w' = edit_core w \<or> edit_core w' = (st, ew_threads w)"
    using edit_audited_core [OF aud] by (simp add: create_edit_body_def cr)
  then show ?thesis
    using edit_move.created [OF validate_change_proper [OF v] cr] by (auto simp: edit_core_def)
next
  case False
  then show ?thesis using w' by (auto simp: create_edit_def split: if_splits sum.splits)
qed

lemma update_edit_moves:
  assumes w': "snd (update_edit desc cfg ev p i title role es memo reason w) = w'"
    and free: "calm \<longrightarrow> \<not> change_deploying i (ew_threads w)"
  shows "edit_core w' = edit_core w \<or> edit_move calm cfg (edit_core w) (edit_core w')"
proof (cases "can p MANAGE_HEALTH \<and> (\<exists>d. change_or_404 i w = Inr d) \<and>
    (\<exists>c. validate_change (fc_shown cfg) title role es = Inr c)")
  case True
  then obtain d c where d: "change_or_404 i w = Inr d"
    and v: "validate_change (fc_shown cfg) title role es = Inr c" by blast
  have aud: "snd (edit_audited desc ev
      (edit_call p ''CONFIG_CHANGE'' ''config_change'' (show_nat i) reason None)
      (update_edit_body i (edited_row c memo (pr_username p))) w) = w'"
    using w' True d v by (simp add: update_edit_def)
  have "edit_core w' = edit_core w \<or>
      edit_core w' = (update_change i (edited_row c memo (pr_username p)) (ew_store w), ew_threads w)"
    using edit_audited_core [OF aud] by (simp add: update_edit_body_def Let_def)
  then show ?thesis
    using edit_move.edited [OF free validate_change_proper [OF v]] by (auto simp: edit_core_def)
next
  case False
  then show ?thesis using w' by (auto simp: update_edit_def split: if_splits sum.splits)
qed

lemma delete_edit_moves:
  assumes w': "snd (delete_edit desc ev p i reason w) = w'"
  shows "edit_core w' = edit_core w \<or> edit_move calm cfg (edit_core w) (edit_core w')"
proof (cases "can p MANAGE_HEALTH \<and> (\<exists>d. change_or_404 i w = Inr d)")
  case True
  then obtain d where d: "change_or_404 i w = Inr d" by blast
  have aud: "snd (edit_audited desc ev
      (edit_call p ''CONFIG_CHANGE'' ''config_change'' (show_nat i) reason None)
      (delete_edit_body i (gr_id d)) w) = w'"
    using w' True d by (simp add: delete_edit_def)
  have "edit_core w' = edit_core w \<or> edit_core w' = (snd (delete_change i (ew_store w)), ew_threads w)"
    using edit_audited_core [OF aud] by (simp add: delete_edit_body_def)
  then show ?thesis by (auto simp: edit_core_def intro: edit_move.deleted)
next
  case False
  then show ?thesis using w' by (auto simp: delete_edit_def split: if_splits sum.splits)
qed

lemma deploy_edit_moves:
  assumes w': "snd (deploy_edit desc cfg ev p i c reason w) = w'"
  shows "edit_core w' = edit_core w \<or> edit_move calm cfg (edit_core w) (edit_core w')"
proof (cases "\<exists>d clean. change_or_404 i w = Inr d \<and> edit_checks cfg ev d c = Inr clean")
  case True
  then obtain d clean where d: "change_or_404 i w = Inr d" and ok: "edit_checks cfg ev d c = Inr clean"
    by blast
  let ?aud = "edit_audited desc ev
      (edit_call p ''CONFIG_DEPLOY'' ''cluster'' (c @ '':'' @ gr_title d) reason (Some c))
      (edit_body p d c clean reason) w"
  obtain r w1 where aud: "?aud = (r, w1)" by (metis surj_pair)
  have keep: "ew_audit (snd (edit_body p d c clean reason w)) = ew_audit w"
    by (auto simp: edit_body_def split: prod.splits)
  obtain row st where start: "start_edit d c clean reason (pr_username p) (ew_store w) = (row, st)"
    by (metis surj_pair)
  have g: "get_change i (ew_store w) = Some d"
    using d by (auto simp: change_or_404_def split: option.splits)
  have part: "edit_core w1 = edit_core w \<and> (\<exists>e. r = Inl e) \<or> r = Inr row \<and> edit_core w1 = (st, ew_threads w)"
    using edit_audited_result [OF aud keep] by (auto simp: edit_body_def start)
  show ?thesis
  proof (cases r)
    case (Inl e)
    then have "edit_core w1 = edit_core w" using part by auto
    then show ?thesis using w' d ok aud Inl
      by (auto simp: deploy_edit_def split: if_splits sum.splits)
  next
    case (Inr row')
    then have "row' = row" "edit_core w1 = (st, ew_threads w)" using part by auto
    then show ?thesis using w' d ok aud Inr edit_move.launched [OF g ok start]
      by (auto simp: deploy_edit_def edit_core_def split: if_splits sum.splits)
  qed
next
  case False
  then show ?thesis using w'
    by (auto simp: deploy_edit_def split: if_splits sum.splits option.splits)
qed

lemma edit_ended_moves:
  "edit_core (edit_step desc cfg (ev, EdEnded k ls r) w) = edit_core w \<or>
   edit_move calm cfg (edit_core w) (edit_core (edit_step desc cfg (ev, EdEnded k ls r) w))"
  by (auto simp: edit_core_def edit_ended_def split: option.splits dest: find_Some_set
      intro: edit_move.ended)

lemma edit_run_refines_moves:
  "(calm \<longrightarrow> unhurried desc cfg es w) \<Longrightarrow>
     (edit_move calm cfg)\<^sup>*\<^sup>* (edit_core w) (edit_core (edit_run desc cfg es w))"
proof (induction es arbitrary: w)
  case (Cons x xs)
  obtain ev e where x: "x = (ev, e)" by (cases x)
  let ?w = "edit_step desc cfg x w"
  have "edit_core ?w = edit_core w \<or> edit_move calm cfg (edit_core w) (edit_core ?w)"
  proof (cases e)
    case (EdUpdate p i title role es memo reason)
    then show ?thesis using Cons.prems x update_edit_moves [OF refl, of calm] by simp
  next
    case (EdEnded k ls r)
    then show ?thesis using x edit_ended_moves by simp
  qed (use x create_edit_moves [OF refl] delete_edit_moves [OF refl] deploy_edit_moves [OF refl] in simp_all)
  moreover have "(edit_move calm cfg)\<^sup>*\<^sup>* (edit_core ?w) (edit_core (edit_run desc cfg xs ?w))"
    using Cons by auto
  ultimately show ?case
    by (auto simp: edit_run_def intro: converse_rtranclp_into_rtranclp)
qed (simp add: edit_run_def)

section \<open>The promises of \<open>proved_first\<close>\<close>

type_synonym edit_content = "string \<times> config_entry list"

definition row_change :: "change_row \<Rightarrow> config_change" where
  "row_change d = \<lparr>cg_title = gr_title d, cg_role = gr_role d, cg_entries = gr_entries d\<rparr>"

definition row_content :: "change_row \<Rightarrow> edit_content" where
  "row_content d = (gr_role d, gr_entries d)"

definition edit_content :: "edit_core \<Rightarrow> nat \<Rightarrow> edit_content option" where
  "edit_content w i = map_option row_content (get_change i (fst w))"

definition edit_mark :: "edit_core \<Rightarrow> nat \<Rightarrow> string option" where
  "edit_mark w i = (case get_change i (fst w) of None \<Rightarrow> None | Some d \<Rightarrow> gr_verified_on d)"

definition edit_landed :: "edit_core \<Rightarrow> (nat \<times> edit_content \<times> string) set" where
  "edit_landed w =
     {(gd_change g, (gd_role g, gd_entries g), gd_cluster g) | g.
        g \<in> set (gs_deployments (fst w)) \<and> gd_state g = DepSucceeded}"

definition edit_inflight :: "edit_core \<Rightarrow> (nat \<times> edit_content \<times> string) set" where
  "edit_inflight w = {(gr_id (et_change t), row_content (et_change t), et_cluster t) | t. t \<in> set (snd w)}"

definition row_of_edit :: "edit_thread \<Rightarrow> config_deployment \<Rightarrow> bool" where
  "row_of_edit t g \<longleftrightarrow>
     gd_id g = et_deployment t \<and> gd_state g = DepRunning \<and> gd_cluster g = et_cluster t \<and>
     gd_change g = gr_id (et_change t) \<and> (gd_role g, gd_entries g) = row_content (et_change t)"

definition edit_valid :: "edit_core \<Rightarrow> bool" where
  "edit_valid w \<longleftrightarrow>
     (\<forall>d\<in>set (gs_changes (fst w)). gr_id d < gs_next (fst w) \<and> proper_change (row_change d)) \<and>
     (\<forall>t\<in>set (snd w). gr_id (et_change t) < gs_next (fst w)) \<and>
     distinct (map gd_id (gs_deployments (fst w))) \<and>
     (\<forall>g\<in>set (gs_deployments (fst w)).
        gd_id g < gs_next_deploy (fst w) \<and> list_all proper_entry (gd_entries g)) \<and>
     (\<forall>t\<in>set (snd w). \<exists>g\<in>set (gs_deployments (fst w)). row_of_edit t g)"

lemma edit_validD:
  assumes "edit_valid w"
  shows "d \<in> set (gs_changes (fst w)) \<Longrightarrow> gr_id d < gs_next (fst w)"
    and "d \<in> set (gs_changes (fst w)) \<Longrightarrow> proper_change (row_change d)"
    and "t \<in> set (snd w) \<Longrightarrow> gr_id (et_change t) < gs_next (fst w)"
    and "distinct (map gd_id (gs_deployments (fst w)))"
    and "g \<in> set (gs_deployments (fst w)) \<Longrightarrow> gd_id g < gs_next_deploy (fst w)"
    and "g \<in> set (gs_deployments (fst w)) \<Longrightarrow> list_all proper_entry (gd_entries g)"
    and "t \<in> set (snd w) \<Longrightarrow> \<exists>g\<in>set (gs_deployments (fst w)). row_of_edit t g"
  using assms unfolding edit_valid_def by blast+

lemma edit_row_simps [simp]:
  "gr_id (edited_row c memo actor d) = gr_id d"
  "gr_verified_on (edited_row c memo actor d) = None"
  "row_change (edited_row c memo actor d) = c"
  "row_content (d\<lparr>gr_verified_on := v\<rparr>) = row_content d"
  "row_change (d\<lparr>gr_verified_on := v\<rparr>) = row_change d"
  by (simp_all add: edited_row_def row_change_def row_content_def)

lemma finished_edits:
  "gs_deployments (finish_edit k s det kept st) =
     map (\<lambda>e. if gd_id e = k then e\<lparr>gd_state := s, gd_detail := det, gd_log := Some kept\<rparr> else e)
       (gs_deployments st)"
  by (simp add: finish_edit_def)

lemma finished_edit_rows:
  "g \<in> set (gs_deployments (finish_edit k s det kept st)) \<longleftrightarrow>
     (\<exists>e\<in>set (gs_deployments st).
        g = (if gd_id e = k then e\<lparr>gd_state := s, gd_detail := det, gd_log := Some kept\<rparr> else e))"
  unfolding finished_edits set_map image_iff ..

lemma edit_ended_facts:
  "gs_next (edit_ended_store cfg t ls r st) = gs_next st \<and>
   gs_next_deploy (edit_ended_store cfg t ls r st) = gs_next_deploy st \<and>
   gs_deployments (edit_ended_store cfg t ls r st) =
     gs_deployments (finish_edit (et_deployment t) (fst (end_state r)) (snd (end_state r))
       (take_last MAX_LOG_CHARS (join [CHR 0x0A] ls)) st) \<and>
   (gs_changes (edit_ended_store cfg t ls r st) = gs_changes st \<or>
    gs_changes (edit_ended_store cfg t ls r st) =
      update_first (\<lambda>d. gr_id d = gr_id (et_change t))
        (\<lambda>d. d\<lparr>gr_verified_on := Some (et_cluster t)\<rparr>) (gs_changes st))"
  by (auto simp: edit_ended_store_def update_change_def finish_edit_def Let_def split: prod.splits)

lemma get_change_update:
  assumes "\<And>d. gr_id (f d) = gr_id d"
  shows "get_change i (update_change j f st) =
           (if i = j then map_option f (get_change i st) else get_change i st)"
  using assms
  by (auto simp: get_change_def update_change_def intro: find_update_first find_update_other)

lemma get_change_ended:
  "get_change i (edit_ended_store cfg t ls r st) = get_change i st \<or>
   i = gr_id (et_change t) \<and> fst (end_state r) = DepSucceeded \<and>
   get_change i (edit_ended_store cfg t ls r st) =
     map_option (\<lambda>d. d\<lparr>gr_verified_on := Some (et_cluster t)\<rparr>) (get_change i st)"
proof -
  let ?f = "\<lambda>d. d\<lparr>gr_verified_on := Some (et_cluster t)\<rparr>"
  have fin: "get_change i (finish_edit k s det kept st) = get_change i st" for i k s det kept
    by (simp add: get_change_def finish_edit_def)
  have upd: "get_change i (update_change j ?f st') =
      (if i = j then map_option ?f (get_change i st') else get_change i st')" for i j st'
    by (rule get_change_update) simp
  show ?thesis by (auto simp: edit_ended_store_def fin upd Let_def split: prod.splits)
qed

lemma get_change_found: "get_change i st = Some d \<Longrightarrow> d \<in> set (gs_changes st) \<and> gr_id d = i"
  by (auto simp: get_change_def dest: find_Some_set)

lemma changes_updated:
  assumes "\<forall>d\<in>set (gs_changes st). gr_id d < n \<and> proper_change (row_change d)"
    and "\<And>d. gr_id (f d) = gr_id d" "\<And>d. proper_change (row_change d) \<Longrightarrow> proper_change (row_change (f d))"
  shows "\<forall>d\<in>set (gs_changes (update_change i f st)). gr_id d < n \<and> proper_change (row_change d)"
proof -
  have "\<forall>d\<in>set (gs_changes st). (gr_id d < n \<and> proper_change (row_change d)) \<and>
      (gr_id (f d) < n \<and> proper_change (row_change (f d)))"
    using assms by simp
  from update_first_all [OF this] show ?thesis by (auto simp: update_change_def)
qed

lemma created_change:
  "create_change c memo actor st = (row, st') \<Longrightarrow>
     gr_id row = gs_next st \<and> gr_verified_on row = None \<and> row_change row = c \<and>
     gs_changes st' = gs_changes st @ [row] \<and> gs_next st' = gs_next st + 1 \<and>
     gs_deployments st' = gs_deployments st \<and> gs_next_deploy st' = gs_next_deploy st"
  by (auto simp: create_change_def Let_def row_change_def)

lemma started_edit:
  "start_edit d c clean reason actor st = (row, st') \<Longrightarrow>
     gd_id row = gs_next_deploy st \<and> gd_state row = DepRunning \<and> gd_cluster row = c \<and>
     gd_change row = gr_id d \<and> gd_role row = cg_role clean \<and> gd_entries row = cg_entries clean \<and>
     gs_changes st' = gs_changes st \<and> gs_next st' = gs_next st \<and>
     gs_deployments st' = gs_deployments st @ [row] \<and> gs_next_deploy st' = gs_next_deploy st + 1"
  by (auto simp: start_edit_def Let_def)

text \<open>What passes the checks is what is stored.\<close>

lemma checked_change:
  assumes "edit_checks cfg ev d c = Inr clean" "proper_change (row_change d)"
  shows "clean = row_change d"
  using assms validate_change_again [OF assms(2), of "fc_shown cfg"]
  by (simp add: edit_checks_def row_change_def split: option.splits)

lemma edit_thread_row:
  assumes "edit_valid (st, ts)" "t \<in> set ts" "g \<in> set (gs_deployments st)" "gd_id g = et_deployment t"
  shows "row_of_edit t g"
proof -
  obtain e where e: "e \<in> set (gs_deployments st)" "row_of_edit t e"
    using edit_validD(7) [OF assms(1)] assms(2) by auto
  then have "gd_id e = gd_id g" using assms(4) by (simp add: row_of_edit_def)
  then have "e = g"
    using e(1) assms(3) edit_validD(4) [OF assms(1)] by (auto dest: inj_onD distinct_map [THEN iffD1])
  then show ?thesis using e(2) by simp
qed

lemma edit_move_valid: "edit_move calm cfg w w' \<Longrightarrow> edit_valid w \<Longrightarrow> edit_valid w'"
proof (induction rule: edit_move.induct)
  case (created c memo actor st row st' ts)
  then show ?case using created_change [OF created(2)] unfolding edit_valid_def by auto
next
  case (edited i ts c st memo actor)
  have "\<forall>d\<in>set (gs_changes (update_change i (edited_row c memo actor) st)).
      gr_id d < gs_next st \<and> proper_change (row_change d)"
    by (rule changes_updated) (use edited edit_validD(1,2) [OF edited(3)] in simp_all)
  then show ?case using edited(3) unfolding edit_valid_def by (simp add: update_change_def)
next
  case (deleted i st ts)
  then show ?case by (auto simp: edit_valid_def delete_change_def Let_def)
next
  case (launched i st d ev c clean reason actor row st' ts)
  note started = started_edit [OF launched(3)] and found = get_change_found [OF launched(1)]
  have proper: "proper_change (row_change d)" using edit_validD(2) [OF launched(4)] found by simp
  then have clean: "clean = row_change d" by (rule checked_change [OF launched(2)])
  have "row_of_edit \<lparr>et_cluster = c, et_deployment = gd_id row, et_change = d\<rparr> row"
    using started clean by (simp add: row_of_edit_def row_change_def row_content_def)
  moreover have "list_all proper_entry (gd_entries row)"
    using started clean proper by (simp add: proper_change_def row_change_def)
  moreover have "i < gs_next st" "gr_id d = i" using edit_validD(1) [OF launched(4)] found by auto
  ultimately show ?case using launched(4) started unfolding edit_valid_def by auto
next
  case (ended t ts st ls r)
  let ?k = "et_deployment t" and ?st = "edit_ended_store cfg t ls r st"
  note facts = edit_ended_facts [of cfg t ls r st]
  let ?fin = "finish_edit ?k (fst (end_state r)) (snd (end_state r))
      (take_last MAX_LOG_CHARS (join [CHR 0x0A] ls)) st"
  have rows: "gs_deployments ?st = gs_deployments ?fin" using facts by simp
  have same_ids: "map gd_id (gs_deployments ?st) = map gd_id (gs_deployments st)"
    by (simp add: rows finished_edits o_def if_distrib cong: map_cong)
  have others: "\<exists>g\<in>set (gs_deployments ?st). row_of_edit u g"
    if u: "u \<in> set ts" "et_deployment u \<noteq> ?k" for u
  proof -
    obtain g where g: "g \<in> set (gs_deployments st)" "row_of_edit u g"
      using edit_validD(7) [OF ended(2)] u(1) by auto
    then have "g \<in> set (gs_deployments ?st)"
      unfolding rows finished_edit_rows using u(2) by (intro bexI [of _ g]) (auto simp: row_of_edit_def)
    then show ?thesis using g(2) by blast
  qed
  have deps: "\<forall>g\<in>set (gs_deployments ?st). gd_id g < gs_next_deploy st \<and> list_all proper_entry (gd_entries g)"
  proof
    fix g assume "g \<in> set (gs_deployments ?st)"
    then obtain e where e: "e \<in> set (gs_deployments st)" "gd_id g = gd_id e" "gd_entries g = gd_entries e"
      unfolding rows finished_edit_rows by force
    then show "gd_id g < gs_next_deploy st \<and> list_all proper_entry (gd_entries g)"
      using edit_validD(5,6) [OF ended(2)] by simp
  qed
  have "\<forall>d\<in>set (update_first p (\<lambda>d. d\<lparr>gr_verified_on := v\<rparr>) (gs_changes st)).
      gr_id d < gs_next st \<and> proper_change (row_change d)" for p v
  proof -
    have "\<forall>d\<in>set (gs_changes st). (gr_id d < gs_next st \<and> proper_change (row_change d)) \<and>
        (gr_id (d\<lparr>gr_verified_on := v\<rparr>) < gs_next st \<and> proper_change (row_change (d\<lparr>gr_verified_on := v\<rparr>)))"
      using edit_validD(1,2) [OF ended(2)] by simp
    from update_first_all [OF this] show ?thesis by blast
  qed
  then have changes: "\<forall>d\<in>set (gs_changes ?st). gr_id d < gs_next st \<and> proper_change (row_change d)"
    using facts edit_validD(1,2) [OF ended(2)] by auto
  show ?case
    using others deps changes same_ids facts edit_validD(3,4) [OF ended(2)] unfolding edit_valid_def by auto
qed

lemma get_change_created:
  "create_change c memo actor st = (row, st') \<Longrightarrow>
     get_change i st' = (case get_change i st of Some d \<Rightarrow> Some d
                         | None \<Rightarrow> if i = gs_next st then Some row else None)"
  using created_change [of c memo actor st row st']
  by (auto simp: get_change_def find_append split: option.split)

lemma get_change_deleted:
  "get_change i (snd (delete_change j st)) = (if i = j then None else get_change i st)"
  using find_filter_other [of "\<lambda>d. gr_id d = i" "\<lambda>d. gr_id d \<noteq> j" "gs_changes st"]
    find_filter_same [of "\<lambda>d. gr_id d = j" "gs_changes st"]
  by (auto simp: get_change_def delete_change_def Let_def)

lemma get_change_edited:
  "get_change i (update_change j (edited_row c memo actor) st) =
     (if i = j then map_option (edited_row c memo actor) (get_change i st) else get_change i st)"
  by (rule get_change_update) simp

lemma get_change_started:
  "start_edit d c clean reason actor st = (row, st') \<Longrightarrow> get_change i st' = get_change i st"
  using started_edit [of d c clean reason actor st row st'] by (simp add: get_change_def)

lemma edit_move_content:
  assumes "edit_move True cfg w w'" "edit_valid w" "(i, x, c) \<in> edit_inflight w"
  shows "edit_content w' i = edit_content w i \<or> edit_content w' i = None"
  using assms
proof (induction rule: edit_move.induct)
  case (created d memo actor st row st' ts)
  then have "i < gs_next st" using edit_validD(3) [OF created(3)] by (auto simp: edit_inflight_def)
  then show ?case
    by (auto simp: edit_content_def get_change_created [OF created(2)] split: option.split)
next
  case (edited j ts d st memo actor)
  then have "i \<noteq> j" by (auto simp: change_deploying_def edit_inflight_def list_ex_iff)
  then show ?case by (simp add: edit_content_def get_change_edited)
next
  case (deleted j st ts)
  then show ?case by (simp add: edit_content_def get_change_deleted)
next
  case (launched j st d ev e clean reason actor row st' ts)
  then show ?case by (simp add: edit_content_def get_change_started [OF launched(3)])
next
  case (ended t ts st ls r)
  then show ?case using get_change_ended [of i cfg t ls r st]
    by (auto simp: edit_content_def option.map_comp o_def)
qed

lemma edit_move_landed:
  assumes "edit_move calm cfg w w'" "edit_valid w"
  shows "edit_landed w \<subseteq> edit_landed w'"
  using assms
proof (induction rule: edit_move.induct)
  case (created c memo actor st row st' ts)
  then show ?case using created_change [OF created(2)] by (simp add: edit_landed_def)
next
  case (launched j st d ev c clean reason actor row st' ts)
  then show ?case using started_edit [OF launched(3)] by (auto simp: edit_landed_def)
next
  case (ended t ts st ls r)
  have "g \<in> set (gs_deployments (edit_ended_store cfg t ls r st))"
    if g: "g \<in> set (gs_deployments st)" "gd_state g = DepSucceeded" for g
  proof -
    have "gd_id g \<noteq> et_deployment t"
      using edit_thread_row [OF ended(2) ended(1) g(1)] g(2) by (auto simp: row_of_edit_def)
    then have "g \<in> set (gs_deployments (finish_edit (et_deployment t) (fst (end_state r))
        (snd (end_state r)) (take_last MAX_LOG_CHARS (join [CHR 0x0A] ls)) st))"
      unfolding finished_edit_rows using g(1) by (intro bexI [of _ g]) simp_all
    then show ?thesis using edit_ended_facts [of cfg t ls r st] by simp
  qed
  then show ?case by (auto simp: edit_landed_def)
qed (simp_all add: edit_landed_def delete_change_def update_change_def Let_def)

lemma edit_move_launched:
  assumes "edit_move calm cfg w w'" "(i, x, c) \<in> edit_inflight w'"
  shows "(i, x, c) \<in> edit_inflight w \<or> edit_content w' i = Some x"
  using assms
proof (induction rule: edit_move.induct)
  case (launched j st d ev e clean reason actor row st' ts)
  then show ?case using get_change_found [OF launched(1)]
    by (auto simp: edit_inflight_def edit_content_def get_change_started [OF launched(3)])
qed (auto simp: edit_inflight_def)

lemma edit_move_marked:
  assumes "edit_move calm cfg w w'" "edit_valid w" "edit_mark w' i = Some c" "edit_content w' i = Some x"
  shows "edit_mark w i = Some c \<and> edit_content w i = Some x \<or>
         (\<exists>y. (i, y, c) \<in> edit_inflight w \<and> (i, y, c) \<in> edit_landed w' \<and>
              edit_content w' i = edit_content w i)"
  using assms
proof (induction rule: edit_move.induct)
  case (created d memo actor st row st' ts)
  then show ?case using created_change [OF created(2)]
    by (auto simp: edit_mark_def edit_content_def get_change_created [OF created(2)]
        split: option.splits if_splits)
next
  case (edited j ts d st memo actor)
  then show ?case
    by (auto simp: edit_mark_def edit_content_def get_change_edited split: option.splits if_splits)
next
  case (deleted j st ts)
  then show ?case by (auto simp: edit_mark_def edit_content_def get_change_deleted split: if_splits)
next
  case (launched j st d ev e clean reason actor row st' ts)
  then show ?case by (simp add: edit_mark_def edit_content_def get_change_started [OF launched(3)])
next
  case (ended t ts st ls r)
  show ?case
  proof (cases "get_change i (edit_ended_store cfg t ls r st) = get_change i st")
    case True
    then show ?thesis using ended(3,4) by (simp add: edit_mark_def edit_content_def)
  next
    case False
    let ?st = "edit_ended_store cfg t ls r st" and ?k = "et_deployment t"
    let ?kept = "take_last MAX_LOG_CHARS (join [CHR 0x0A] ls)"
    from False have hit: "i = gr_id (et_change t)" "fst (end_state r) = DepSucceeded"
      "get_change i ?st = map_option (\<lambda>d. d\<lparr>gr_verified_on := Some (et_cluster t)\<rparr>) (get_change i st)"
      using get_change_ended [of i cfg t ls r st] by auto
    have c: "c = et_cluster t"
      using ended(3) hit(3) by (auto simp: edit_mark_def split: option.splits)
    obtain g where g: "g \<in> set (gs_deployments st)" "row_of_edit t g"
      using edit_validD(7) [OF ended(2)] ended(1) by auto
    let ?g = "g\<lparr>gd_state := DepSucceeded, gd_detail := snd (end_state r), gd_log := Some ?kept\<rparr>"
    have "?g \<in> set (gs_deployments (finish_edit ?k (fst (end_state r)) (snd (end_state r)) ?kept st))"
      unfolding finished_edit_rows using g hit(2) by (intro bexI [of _ g]) (simp_all add: row_of_edit_def)
    then have in_st: "?g \<in> set (gs_deployments ?st)" using edit_ended_facts [of cfg t ls r st] by simp
    have "(gd_change ?g, (gd_role ?g, gd_entries ?g), gd_cluster ?g) \<in>
        edit_landed (?st, filter (\<lambda>u. et_deployment u \<noteq> ?k) ts)"
      unfolding edit_landed_def using in_st by (intro CollectI exI [of _ ?g]) simp
    then have "(i, row_content (et_change t), c) \<in> edit_landed (?st, filter (\<lambda>u. et_deployment u \<noteq> ?k) ts)"
      using g(2) hit(1) c by (simp add: row_of_edit_def)
    moreover have "(i, row_content (et_change t), c) \<in> edit_inflight (st, ts)"
      using ended(1) hit(1) c by (auto simp: edit_inflight_def)
    moreover have "edit_content (?st, filter (\<lambda>u. et_deployment u \<noteq> ?k) ts) i = edit_content (st, ts) i"
      using hit(3) by (simp add: edit_content_def option.map_comp o_def)
    ultimately show ?thesis by blast
  qed
qed

interpretation edit_proof: proved_first "edit_move True cfg" edit_valid edit_content edit_mark
    edit_landed edit_inflight for cfg
proof (unfold_locales, goal_cases)
  case 1
  then show ?case by (rule edit_move_valid [rotated])
next
  case 2
  then show ?case by (rule edit_move_landed [rotated])
next
  case 3
  then show ?case by (intro edit_move_launched)
next
  case 4
  then show ?case by (intro edit_move_content)
next
  case 5
  then show ?case by (intro edit_move_marked)
qed

section \<open>What a deployment may carry\<close>

lemma edit_run_valid: "edit_valid (edit_core (edit_run desc cfg es (new_edit_world au)))"
proof -
  have reach: "edit_valid w'" if "(edit_move False cfg)\<^sup>*\<^sup>* w w'" "edit_valid w" for w w'
    using that by (induction rule: rtranclp_induct) (auto intro: edit_move_valid)
  show ?thesis
    by (rule reach [OF edit_run_refines_moves [of False]])
       (simp_all add: edit_core_def new_edit_world_def new_change_store_def edit_valid_def)
qed

text \<open>C24: Every entry of every deployment on record, in every run of the service, is safe to merge into
  \<open>config.properties\<close>: its key is a property name, its value is one trimmed, non-empty line of bounded
  length, and under a credential-shaped key it is an environment reference, never a literal.\<close>

theorem deployed_entries_are_safe:
  "list_all (\<lambda>g. list_all proper_entry (gd_entries g))
     (gs_deployments (ew_store (edit_run desc cfg es (new_edit_world au))))"
  using edit_validD(6) [OF edit_run_valid] by (fastforce simp: edit_core_def list_all_iff)

text \<open>A property name no answering node objects to.\<close>

definition accepted_by :: "scanned_node list \<Rightarrow> string \<Rightarrow> bool" where
  "accepted_by nodes k \<longleftrightarrow>
     list_ex (\<lambda>n. answered n \<and> k \<in> set (sc_names n)) nodes \<and>
     list_all (\<lambda>n. \<not> answered n \<or> sc_names n = [] \<or> k \<in> set (sc_names n)) nodes"

lemma known_names_accepted:
  "k \<in> set (cp_names (compare_scan cd b nodes)) \<Longrightarrow> accepted_by nodes k"
  by (auto simp: compare_scan_def Let_def shared_names_iff accepted_by_def list_all_iff list_ex_iff)

lemma gate_passed:
  assumes "gate_for cfg ev d c = None"
  shows "\<exists>nodes. ee_scan ev c = Some nodes \<and>
           list_all (\<lambda>e. if is_set e then accepted_by nodes (entry_key e) else True) (gr_entries d)"
    and "c \<in> set (fc_development cfg) \<or> (\<exists>v. gr_verified_on d = Some v \<and> v \<in> set (fc_development cfg))"
proof -
  obtain nodes where nodes: "ee_scan ev c = Some nodes"
    using assms by (auto simp: gate_for_def scan_of_def refuse_edit_def split: option.splits)
  let ?names = "cp_names (compare_scan (fc_codec cfg) (c \<in> set (fc_development cfg)) nodes)"
  have "set (unknown_names (gr_entries d) ?names) = {}"
    using assms nodes
    by (auto simp: gate_for_def scan_of_def refuse_edit_def Let_def split: if_splits option.splits)
  then have "list_all (\<lambda>e. if is_set e then accepted_by nodes (entry_key e) else True) (gr_entries d)"
    using known_names_accepted by (auto simp: unknown_names_def list_all_iff)
  then show "\<exists>nodes. ee_scan ev c = Some nodes \<and>
      list_all (\<lambda>e. if is_set e then accepted_by nodes (entry_key e) else True) (gr_entries d)"
    using nodes by blast
  show "c \<in> set (fc_development cfg) \<or> (\<exists>v. gr_verified_on d = Some v \<and> v \<in> set (fc_development cfg))"
    using assms
    by (auto simp: gate_for_def refuse_edit_def Let_def split: if_splits option.splits)
qed

lemma checks_gate: "edit_checks cfg ev d c = Inr clean \<Longrightarrow> gate_for cfg ev d c = None"
  by (auto simp: edit_checks_def split: sum.splits option.splits)

lemma deploy_edit_result:
  assumes "deploy_edit desc cfg ev p i c reason w = (Inr row, w')"
  shows "\<exists>d clean. get_change i (ew_store w) = Some d \<and> edit_checks cfg ev d c = Inr clean \<and>
           gd_role row = cg_role clean \<and> gd_entries row = cg_entries clean \<and>
           can p MANAGE_HEALTH \<and> c \<in> set (fc_clusters cfg) \<and> c \<notin> set (ew_busy w) \<and>
           writable (ew_audit w) \<and> (\<exists>rec. records (ew_audit w') = records (ew_audit w) @ [rec] \<and>
              audit_entry (edit_call p ''CONFIG_DEPLOY'' ''cluster'' (c @ '':'' @ gr_title d) reason (Some c))
                True rec)"
proof -
  obtain d clean w1 where d: "change_or_404 i w = Inr d" and ok: "edit_checks cfg ev d c = Inr clean"
    and aud: "edit_audited desc ev
        (edit_call p ''CONFIG_DEPLOY'' ''cluster'' (c @ '':'' @ gr_title d) reason (Some c))
        (edit_body p d c clean reason) w = (Inr row, w1)"
    and w': "ew_audit w' = ew_audit w1"
    and pre: "can p MANAGE_HEALTH" "c \<in> set (fc_clusters cfg)" "c \<notin> set (ew_busy w)"
    using assms
    by (auto simp: deploy_edit_def edit_inventory_def split: if_splits sum.splits prod.splits option.splits)
  have keep: "ew_audit (snd (edit_body p d c clean reason w)) = ew_audit w"
    by (auto simp: edit_body_def split: prod.splits)
  from aud [unfolded edit_audited_def] keep show ?thesis
  proof (cases rule: edit_guard.audited_cases)
    case (ran wb au rec)
    obtain st where "start_edit d c clean reason (pr_username p) (ew_store w) = (row, st)"
      using ran(1) by (auto simp: edit_body_def split: prod.splits)
    then show ?thesis using ran started_edit d ok pre w'
      by (auto simp: change_or_404_def split: option.splits)
  qed simp
qed

text \<open>A deployment that is accepted, in whatever state the service has reached, was asked for by an
  administrator; goes to a configured cluster that has been scanned and has no other deployment
  running; sets only names that some answering node listed and none that listed names left out; targets one
  of three roles; and is on record in the audit log under the actor and the cluster.\<close>

theorem accepted_edit_is_gated:
  "case deploy_edit desc cfg ev p i c reason (edit_run desc cfg es (new_edit_world au)) of
     (Inl e, w') \<Rightarrow> True
   | (Inr row, w') \<Rightarrow>
       can p MANAGE_HEALTH \<and> c \<in> set (fc_clusters cfg) \<and>
       c \<notin> set (ew_busy (edit_run desc cfg es (new_edit_world au))) \<and>
       (\<exists>nodes. ee_scan ev c = Some nodes \<and>
          list_all (\<lambda>e. if is_set e then accepted_by nodes (entry_key e) else True) (gd_entries row)) \<and>
       gd_role row \<in> set ROLES \<and>
       (\<exists>rec title. records (ew_audit w') =
            records (ew_audit (edit_run desc cfg es (new_edit_world au))) @ [rec] \<and>
          audit_entry (edit_call p ''CONFIG_DEPLOY'' ''cluster'' (c @ '':'' @ title) reason (Some c)) True rec)"
proof -
  let ?w = "edit_run desc cfg es (new_edit_world au)"
  show ?thesis
  proof (cases "deploy_edit desc cfg ev p i c reason ?w")
    case (Pair r w')
    show ?thesis
    proof (cases r)
      case (Inr row)
      obtain d clean where d: "get_change i (ew_store ?w) = Some d" "edit_checks cfg ev d c = Inr clean"
        "gd_role row = cg_role clean" "gd_entries row = cg_entries clean"
        and rest: "can p MANAGE_HEALTH" "c \<in> set (fc_clusters cfg)" "c \<notin> set (ew_busy ?w)"
          "\<exists>rec. records (ew_audit w') = records (ew_audit ?w) @ [rec] \<and>
              audit_entry (edit_call p ''CONFIG_DEPLOY'' ''cluster'' (c @ '':'' @ gr_title d) reason (Some c))
                True rec"
        using deploy_edit_result [OF Pair [unfolded Inr]] by blast
      have "d \<in> set (gs_changes (fst (edit_core ?w)))"
        using get_change_found [OF d(1)] by (simp add: edit_core_def)
      then have proper: "proper_change (row_change d)" by (rule edit_validD(2) [OF edit_run_valid])
      then have "clean = row_change d" by (rule checked_change [OF d(2)])
      then have row: "gd_entries row = gr_entries d" "gd_role row \<in> set ROLES"
        using d proper by (simp_all add: row_change_def proper_change_def)
      show ?thesis using Pair Inr rest row gate_passed(1) [OF checks_gate [OF d(2)]] by auto
    qed (use Pair in simp)
  qed
qed

section \<open>Nothing unproved reaches production\<close>

definition edit_gated :: "edit_config \<Rightarrow> edit_core \<Rightarrow> bool" where
  "edit_gated cfg w \<longleftrightarrow>
     (\<forall>g\<in>set (gs_deployments (fst w)). gd_cluster g \<notin> set (fc_development cfg) \<longrightarrow>
        (\<exists>v\<in>set (fc_development cfg). (gd_change g, (gd_role g, gd_entries g), v) \<in> edit_landed w))"

lemma edit_move_rows:
  assumes "edit_move calm cfg w w'" "edit_valid w" "g' \<in> set (gs_deployments (fst w'))"
  shows "(\<exists>g\<in>set (gs_deployments (fst w)). gd_change g' = gd_change g \<and> gd_role g' = gd_role g \<and>
            gd_entries g' = gd_entries g \<and> gd_cluster g' = gd_cluster g) \<or>
         (\<exists>d ev. get_change (gd_change g') (fst w) = Some d \<and>
            gate_for cfg ev d (gd_cluster g') = None \<and> (gd_role g', gd_entries g') = row_content d)"
  using assms
proof (induction rule: edit_move.induct)
  case (created c memo actor st row st' ts)
  then show ?case using created_change [OF created(2)] by auto
next
  case (launched i st d ev c clean reason actor row st' ts)
  note started = started_edit [OF launched(3)] and found = get_change_found [OF launched(1)]
  have proper: "proper_change (row_change d)" using edit_validD(2) [OF launched(4)] found by simp
  have clean: "clean = row_change d" by (rule checked_change [OF launched(2) proper])
  consider "g' \<in> set (gs_deployments st)" | "g' = row" using launched(5) started by auto
  then show ?case
  proof cases
    case 2
    then have "get_change (gd_change g') st = Some d" "gate_for cfg ev d (gd_cluster g') = None"
      "(gd_role g', gd_entries g') = row_content d"
      using launched(1) started found clean checks_gate [OF launched(2)]
      by (simp_all add: row_content_def row_change_def)
    then show ?thesis by auto
  qed auto
next
  case (ended t ts st ls r)
  then have "g' \<in> set (gs_deployments (finish_edit (et_deployment t) (fst (end_state r))
      (snd (end_state r)) (take_last MAX_LOG_CHARS (join [CHR 0x0A] ls)) st))"
    using edit_ended_facts [of cfg t ls r st] by simp
  then obtain e where "e \<in> set (gs_deployments st)" "gd_change g' = gd_change e" "gd_role g' = gd_role e"
    "gd_entries g' = gd_entries e" "gd_cluster g' = gd_cluster e"
    unfolding finished_edit_rows by force
  then show ?case by auto
qed (auto simp: delete_change_def update_change_def Let_def)

lemma edit_move_gated:
  assumes "edit_move True cfg w w'" "edit_proof.earned w" "edit_gated cfg w"
  shows "edit_gated cfg w'"
  unfolding edit_gated_def
proof (intro ballI impI)
  fix g' assume g': "g' \<in> set (gs_deployments (fst w'))" "gd_cluster g' \<notin> set (fc_development cfg)"
  have valid: "edit_valid w" using assms(2) by (simp add: edit_proof.earned_def)
  have stays: "edit_landed w \<subseteq> edit_landed w'" by (rule edit_move_landed [OF assms(1) valid])
  from edit_move_rows [OF assms(1) valid g'(1)]
  show "\<exists>v\<in>set (fc_development cfg). (gd_change g', (gd_role g', gd_entries g'), v) \<in> edit_landed w'"
  proof
    assume "\<exists>g\<in>set (gs_deployments (fst w)). gd_change g' = gd_change g \<and> gd_role g' = gd_role g \<and>
            gd_entries g' = gd_entries g \<and> gd_cluster g' = gd_cluster g"
    then show ?thesis using assms(3) g' stays by (fastforce simp: edit_gated_def)
  next
    assume "\<exists>d ev. get_change (gd_change g') (fst w) = Some d \<and>
            gate_for cfg ev d (gd_cluster g') = None \<and> (gd_role g', gd_entries g') = row_content d"
    then obtain d ev where d: "get_change (gd_change g') (fst w) = Some d"
      "gate_for cfg ev d (gd_cluster g') = None" "(gd_role g', gd_entries g') = row_content d" by blast
    obtain v where v: "gr_verified_on d = Some v" "v \<in> set (fc_development cfg)"
      using gate_passed(2) [OF d(2)] g'(2) by blast
    have "edit_mark w (gd_change g') = Some v" "edit_content w (gd_change g') = Some (row_content d)"
      using d(1) v by (simp_all add: edit_mark_def edit_content_def)
    then have "(gd_change g', row_content d, v) \<in> edit_landed w"
      by (rule edit_proof.mark_is_earned [OF rtranclp.rtrancl_refl assms(2)])
    then show ?thesis using v(2) stays d(3) by auto
  qed
qed

lemma edit_moves_gated:
  "(edit_move True cfg)\<^sup>*\<^sup>* w w' \<Longrightarrow> edit_proof.earned w \<Longrightarrow> edit_gated cfg w \<Longrightarrow> edit_gated cfg w'"
proof (induction rule: rtranclp_induct)
  case (step y z)
  then show ?case using edit_move_gated edit_proof.earned_reach by blast
qed

lemma new_edit_world_earned:
  "edit_proof.earned (edit_core (new_edit_world au)) \<and> edit_gated cfg (edit_core (new_edit_world au))"
  by (simp add: edit_proof.earned_def edit_gated_def edit_core_def new_edit_world_def new_change_store_def
      edit_valid_def edit_inflight_def edit_mark_def get_change_def)

lemma edit_gated_rows:
  assumes "edit_gated cfg w"
  shows "let deps = gs_deployments (fst w)
         in list_all (\<lambda>g. gd_cluster g \<in> set (fc_development cfg) \<or>
              list_ex (\<lambda>p. gd_state p = DepSucceeded \<and> gd_cluster p \<in> set (fc_development cfg) \<and>
                           gd_change p = gd_change g \<and> gd_role p = gd_role g \<and>
                           gd_entries p = gd_entries g) deps) deps"
proof -
  have "\<exists>p\<in>set (gs_deployments (fst w)). gd_state p = DepSucceeded \<and>
          gd_cluster p \<in> set (fc_development cfg) \<and> gd_change p = gd_change g \<and>
          gd_role p = gd_role g \<and> gd_entries p = gd_entries g"
    if g: "g \<in> set (gs_deployments (fst w))" "gd_cluster g \<notin> set (fc_development cfg)" for g
  proof -
    obtain v where v: "v \<in> set (fc_development cfg)"
      "(gd_change g, (gd_role g, gd_entries g), v) \<in> edit_landed w"
      using assms g unfolding edit_gated_def by blast
    from v(2) obtain p where "p \<in> set (gs_deployments (fst w))" "gd_state p = DepSucceeded"
      "gd_change p = gd_change g" "gd_role p = gd_role g" "gd_entries p = gd_entries g" "gd_cluster p = v"
      by (auto simp: edit_landed_def)
    then show ?thesis using v(1) by blast
  qed
  then show ?thesis unfolding Let_def list_all_iff list_ex_iff by blast
qed

text \<open>C5: In every run of the service from its start in which no change is edited while a deployment of it
  runs, each deployment to a cluster that is not a development cluster has, in the evidence table, a
  successful deployment of the same change to a development cluster, for the same role and with the
  same entries.\<close>

theorem edits_reach_production_proved:
  assumes "unhurried desc cfg es (new_edit_world au)"
  shows "let deps = gs_deployments (ew_store (edit_run desc cfg es (new_edit_world au)))
         in list_all (\<lambda>g. gd_cluster g \<in> set (fc_development cfg) \<or>
              list_ex (\<lambda>p. gd_state p = DepSucceeded \<and> gd_cluster p \<in> set (fc_development cfg) \<and>
                           gd_change p = gd_change g \<and> gd_role p = gd_role g \<and>
                           gd_entries p = gd_entries g) deps) deps"
proof -
  have "edit_gated cfg (edit_core (edit_run desc cfg es (new_edit_world au)))"
    by (rule edit_moves_gated [OF edit_run_refines_moves [of True]])
       (use assms new_edit_world_earned in simp_all)
  from edit_gated_rows [OF this] show ?thesis by (simp add: edit_core_def)
qed

section \<open>A run\<close>

definition edit_admin :: principal where
  "edit_admin = new_principal ''r'' [ROLE_ADMIN] None"

definition edit_run_config :: edit_config where
  "edit_run_config = \<lparr>fc_clusters = [''dev'', ''prod''],
     fc_inventories = [(''dev'', ''/d''), (''prod'', ''/p'')],
     fc_playbook = ''/c'', fc_binary = ''ap'',
     fc_development = [''dev''], fc_shown = (\<lambda>_. []), fc_dumps = (\<lambda>_. ''[]''),
     fc_codec = sample_codec\<rparr>"

definition scanned_at :: "nat \<Rightarrow> edit_env" where
  "scanned_at t = \<lparr>ee_now = t, ee_uuid = ''r'',
     ee_scan = (\<lambda>_. Some [sample_scan ''a'' [] [''a.b'']])\<rparr>"

definition edit_audit :: audit_repo where "edit_audit = \<lparr>records = [], writable = True\<rparr>"

definition memory_entry :: "string \<Rightarrow> (string \<times> json) list" where
  "memory_entry v = [(''key'', JStr ''a.b''), (''value'', JStr v)]"

definition good_edits :: "(edit_env \<times> edit_event) list" where
  "good_edits =
     [(scanned_at 1, EdCreate edit_admin ''m'' ''all'' [memory_entry ''1''] None (Some ''n'')),
      (scanned_at 2, EdDeploy edit_admin 1 ''dev'' (Some ''t'')),
      (scanned_at 3, EdEnded 1 [] (RunnerResult (Some 0) None)),
      (scanned_at 4, EdDeploy edit_admin 1 ''prod'' (Some ''s''))]"

theorem edits_reach_production_proved_witness:
  "map gd_cluster (gs_deployments (ew_store (edit_run (\<lambda>_. []) edit_run_config good_edits
      (new_edit_world edit_audit)))) = [''dev'', ''prod''] \<and>
   list_all (\<lambda>g. gd_cluster g \<in> set (fc_development edit_run_config) \<or>
      list_ex (\<lambda>p. gd_cluster p \<in> set (fc_development edit_run_config) \<and> gd_state p = DepSucceeded)
        (gs_deployments (ew_store (edit_run (\<lambda>_. []) edit_run_config good_edits (new_edit_world edit_audit)))))
      (gs_deployments (ew_store (edit_run (\<lambda>_. []) edit_run_config good_edits (new_edit_world edit_audit))))"
proof -
  have u: "unhurried (\<lambda>_. []) edit_run_config good_edits (new_edit_world edit_audit)" by code_simp
  have c: "map gd_cluster (gs_deployments (ew_store (edit_run (\<lambda>_. []) edit_run_config good_edits
      (new_edit_world edit_audit)))) = [''dev'', ''prod'']" by code_simp
  show ?thesis using edits_reach_production_proved [OF u] c
    by (fastforce simp: Let_def list_all_iff list_ex_iff)
qed

text \<open>An edit saved while the development deployment runs is marked as proved when that deployment
  ends, and goes to production without having been on a development cluster.\<close>

definition hurried_edits :: "(edit_env \<times> edit_event) list" where
  "hurried_edits =
     [(scanned_at 1, EdCreate edit_admin ''m'' ''all'' [memory_entry ''1''] None (Some ''n'')),
      (scanned_at 2, EdDeploy edit_admin 1 ''dev'' (Some ''t'')),
      (scanned_at 3, EdUpdate edit_admin 1 ''m'' ''all'' [memory_entry ''9''] None (Some ''e'')),
      (scanned_at 4, EdEnded 1 [] (RunnerResult (Some 0) None)),
      (scanned_at 5, EdDeploy edit_admin 1 ''prod'' (Some ''s''))]"

theorem edit_while_deploying_counts_as_proved:
  "map (\<lambda>g. (gd_cluster g, gd_state g, gd_entries g))
       (gs_deployments (ew_store (edit_run (\<lambda>_. []) edit_run_config hurried_edits (new_edit_world edit_audit)))) =
     [(''dev'', DepSucceeded, [SetTo ''a.b'' ''1'']),
      (''prod'', DepRunning, [SetTo ''a.b'' ''9''])]"
  by code_simp

end
