(* ===== verification/QuerySet.thy ===== *)
theory QuerySet
  imports Json
begin

text \<open>
  What a benchmark statement may be (\<^verbatim>\<open>bench/queryset.py\<close>): the read-only allowlist, the names,
  and the sets built from the configuration. \<open>upper\<close> is \<open>str.upper\<close> on ASCII letters; no character
  below 256 becomes one of the allowlisted words otherwise. \<open>str\<close> of a JSON value that is not text is
  \<open>shown\<close>.
\<close>

definition READ_ONLY_STARTS :: "string list" where
  "READ_ONLY_STARTS = [''SELECT'', ''WITH'', ''SHOW'', ''EXPLAIN'', ''DESCRIBE'', ''VALUES'', ''TABLE'']"
definition MAX_QUERIES :: nat where "MAX_QUERIES = 50"
definition MAX_STATEMENT_CHARS :: int where "MAX_STATEMENT_CHARS = 20000"

section \<open>Comments\<close>

text \<open>The text after the first \<open>*/\<close>, if there is one.\<close>

fun after_close :: "string \<Rightarrow> string option" where
  "after_close (c # d # cs) =
     (if c = CHR ''*'' \<and> d = CHR ''/'' then Some cs else after_close (d # cs))"
| "after_close _ = None"

lemma after_close_length: "after_close s = Some t \<Longrightarrow> length t + 2 \<le> length s"
  by (induction s rule: after_close.induct) (auto split: if_splits)

text \<open>\<open>re.sub(r"/\*.*?\*/", " ", sql, flags=re.S)\<close>: an opening without a closing stays.\<close>

function drop_blocks :: "string \<Rightarrow> string" where
  "drop_blocks [] = []"
| "drop_blocks [c] = [c]"
| "drop_blocks (c # d # cs) =
     (if c = CHR ''/'' \<and> d = CHR ''*''
      then (case after_close cs of Some t \<Rightarrow> CHR '' '' # drop_blocks t | None \<Rightarrow> c # drop_blocks (d # cs))
      else c # drop_blocks (d # cs))"
  by pat_completeness auto
termination drop_blocks
  by (relation "measure length") (auto dest: after_close_length)

text \<open>\<open>re.sub(r"--[^\n]*", " ", s)\<close>\<close>

function drop_lines :: "string \<Rightarrow> string" where
  "drop_lines [] = []"
| "drop_lines [c] = [c]"
| "drop_lines (c # d # cs) =
     (if c = CHR ''-'' \<and> d = CHR ''-'' then CHR '' '' # drop_lines (dropWhile (\<lambda>x. x \<noteq> CHR 0x0A) cs)
      else c # drop_lines (d # cs))"
  by pat_completeness auto
termination drop_lines
  by (relation "measure length") (auto simp: less_Suc_eq_le le_SucI length_dropWhile_le)

definition without_comments :: "string \<Rightarrow> string" where
  "without_comments sql = drop_lines (drop_blocks sql)"

section \<open>The allowlist\<close>

definition upper_char :: "char \<Rightarrow> char" where
  "upper_char c = (if 97 \<le> PyText.code c \<and> PyText.code c \<le> 122 then char_of (PyText.code c - 32) else c)"

definition upper :: "string \<Rightarrow> string" where
  "upper s = map upper_char s"

datatype refusal =
    EmptyStatement | StatementTooLong | SeveralStatements | NotReadOnly string

text \<open>\<open>s.rstrip(";")\<close>, \<open>s.lstrip("(")\<close>\<close>

definition rstrip_char :: "char \<Rightarrow> string \<Rightarrow> string" where
  "rstrip_char d s = rev (dropWhile (\<lambda>c. c = d) (rev s))"

definition first_word :: "string \<Rightarrow> string" where
  "first_word s =
     upper (takeWhile (\<lambda>c. \<not> is_space c \<and> c \<noteq> CHR ''('') (dropWhile (\<lambda>c. c = CHR ''('') s))"

definition refuse_statement :: "string \<Rightarrow> refusal option" where
  "refuse_statement sql =
     (let s = strip (without_comments sql)
      in if s = [] then Some EmptyStatement
         else if int (length sql) > MAX_STATEMENT_CHARS then Some StatementTooLong
         else if CHR '';'' \<in> set (rstrip_char (CHR '';'') s) then Some SeveralStatements
         else if first_word s \<notin> set READ_ONLY_STARTS then Some (NotReadOnly (first_word s))
         else None)"

section \<open>Names\<close>

text \<open>\<open>^[a-z0-9][a-z0-9_-]{0,63}$\<close>: a line feed may follow the name.\<close>

definition name_char :: "char \<Rightarrow> bool" where
  "name_char c \<longleftrightarrow> is_ascii_digit c \<or> (97 \<le> PyText.code c \<and> PyText.code c \<le> 122)"

definition bare_name :: "string \<Rightarrow> bool" where
  "bare_name s \<longleftrightarrow> s \<noteq> [] \<and> name_char (hd s) \<and> length s \<le> 64 \<and>
     list_all (\<lambda>c. name_char c \<or> c = CHR ''_'' \<or> c = CHR ''-'') s"

definition usable_name :: "string \<Rightarrow> bool" where
  "usable_name s \<longleftrightarrow> bare_name s \<or> s \<noteq> [] \<and> last s = CHR 0x0A \<and> bare_name (butlast s)"

definition refuse_name :: "string option \<Rightarrow> bool" where
  "refuse_name n = (\<not> usable_name (case n of None \<Rightarrow> [] | Some s \<Rightarrow> s))"

section \<open>Sets from the configuration\<close>

record bench_query =
  bq_name :: string
  bq_sql :: string
  bq_title :: string
  bq_position :: int

record query_set =
  qs_key :: string
  qs_title :: string
  qs_description :: string
  qs_queries :: "bench_query list"

definition new_query :: "string \<Rightarrow> string \<Rightarrow> string \<Rightarrow> nat \<Rightarrow> bench_query" where
  "new_query name sql title pos =
     \<lparr>bq_name = name, bq_sql = sql, bq_title = (if title = [] then name else title), bq_position = int pos\<rparr>"

definition new_query_set :: "string \<Rightarrow> string \<Rightarrow> string \<Rightarrow> bench_query list \<Rightarrow> query_set" where
  "new_query_set key title description qs =
     \<lparr>qs_key = key, qs_title = (if title = [] then key else title), qs_description = description,
      qs_queries = qs\<rparr>"

datatype set_error =
    BadSetName string | NotAMapping string | NoQueries string | TooManyQueries string
  | QueryNotAMapping string nat | QueryUnnamed string nat | QueryTwice string string
  | QueryRefused string string refusal | SetTypeError

definition text_or_none :: "(json \<Rightarrow> string) \<Rightarrow> json \<Rightarrow> string" where
  "text_or_none shown j = (if truthy j then str_of shown j else [])"

fun build_queries ::
    "(json \<Rightarrow> string) \<Rightarrow> string \<Rightarrow> nat \<Rightarrow> string list \<Rightarrow> json list \<Rightarrow> set_error + bench_query list" where
  "build_queries shown key i seen [] = Inr []"
| "build_queries shown key i seen (e # es) =
     (case fields_of e of
        None \<Rightarrow> Inl (QueryNotAMapping key (i + 1))
      | Some fs \<Rightarrow>
          (let name = text_or_none shown (dget ''name'' fs); sql = text_or_none shown (dget ''sql'' fs)
           in if \<not> usable_name name then Inl (QueryUnnamed key (i + 1))
              else if name \<in> set seen then Inl (QueryTwice key name)
              else case refuse_statement sql of
                     Some r \<Rightarrow> Inl (QueryRefused key name r)
                   | None \<Rightarrow>
                       map_sum id ((#) (new_query name (rstrip_char (CHR '';'') (strip sql))
                                          (text_or_none shown (dget ''title'' fs)) i))
                         (build_queries shown key (i + 1) (name # seen) es)))"

definition build_set :: "(json \<Rightarrow> string) \<Rightarrow> string \<Rightarrow> json \<Rightarrow> set_error + query_set" where
  "build_set shown key declared =
     (if \<not> usable_name key then Inl (BadSetName key)
      else case fields_of declared of
             None \<Rightarrow> Inl (NotAMapping key)
           | Some fs \<Rightarrow>
               (if \<not> truthy (dget ''queries'' fs) then Inl (NoQueries key)
                else case dget ''queries'' fs of
                       JList qs \<Rightarrow>
                         (if length qs > MAX_QUERIES then Inl (TooManyQueries key)
                          else map_sum id (new_query_set key (text_or_none shown (dget ''title'' fs))
                                             (text_or_none shown (dget ''description'' fs)))
                                 (build_queries shown key 0 [] qs))
                     | JObj gs \<Rightarrow> Inl (if length gs > MAX_QUERIES then TooManyQueries key
                                      else QueryNotAMapping key 1)
                     | JStr s \<Rightarrow> Inl (if length s > MAX_QUERIES then TooManyQueries key
                                     else QueryNotAMapping key 1)
                     | _ \<Rightarrow> Inl SetTypeError))"

definition build_query_sets ::
    "(json \<Rightarrow> string) \<Rightarrow> json pydict \<Rightarrow> set_error + query_set list" where
  "build_query_sets shown raw = map_exn (\<lambda>(k, d). build_set shown k d) (sort_by fst raw)"

section \<open>What the allowlist lets through\<close>

definition is_letter :: "char \<Rightarrow> bool" where
  "is_letter c \<longleftrightarrow> is_ascii_alnum c \<and> \<not> is_ascii_digit c"

text \<open>Where a statement starts for a reader of SQL: white space, opening parentheses and comments are
  skipped from left to right, whichever comment opens first.\<close>

function statement_start :: "string \<Rightarrow> string" where
  "statement_start [] = []"
| "statement_start (c # cs) =
     (if is_space c \<or> c = CHR ''('' then statement_start cs
      else case cs of
             [] \<Rightarrow> [c]
           | d # ds \<Rightarrow>
               (if c = CHR ''-'' \<and> d = CHR ''-''
                then statement_start (dropWhile (\<lambda>x. x \<noteq> CHR 0x0A) ds)
                else if c = CHR ''/'' \<and> d = CHR ''*''
                then (case after_close ds of Some t \<Rightarrow> statement_start t | None \<Rightarrow> c # cs)
                else c # cs))"
  by pat_completeness auto
termination statement_start
  by (relation "measure length")
     (auto simp: less_Suc_eq_le le_SucI length_dropWhile_le dest: after_close_length)

lemma start_skip: "is_space c \<or> c = CHR ''('' \<Longrightarrow> statement_start (c # cs) = statement_start cs"
  by simp

lemma start_line: "statement_start (CHR ''-'' # CHR ''-'' # cs) =
    statement_start (dropWhile (\<lambda>x. x \<noteq> CHR 0x0A) cs)"
proof -
  have "\<not> is_space (CHR ''-'')" by code_simp
  then show ?thesis by simp
qed

lemma start_block: "after_close cs = Some t \<Longrightarrow>
    statement_start (CHR ''/'' # CHR ''*'' # cs) = statement_start t"
proof -
  have "\<not> is_space (CHR ''/'')" by code_simp
  then show "after_close cs = Some t \<Longrightarrow> ?thesis" by simp
qed

lemma start_here:
  "\<not> is_space c \<Longrightarrow> c \<noteq> CHR ''('' \<Longrightarrow> \<not> (c = CHR ''-'' \<and> d = CHR ''-'') \<Longrightarrow>
   \<not> (c = CHR ''/'' \<and> d = CHR ''*'' \<and> after_close cs \<noteq> None) \<Longrightarrow>
   statement_start (c # d # cs) = c # d # cs"
  by (auto split: option.split)

declare statement_start.simps [simp del]

definition keyword :: "string \<Rightarrow> string" where
  "keyword sql = upper (takeWhile is_letter (statement_start sql))"

text \<open>The word the allowlist looks at.\<close>

definition word_part :: "string \<Rightarrow> string" where
  "word_part u = takeWhile (\<lambda>c. \<not> is_space c \<and> c \<noteq> CHR ''('') u"

definition leading_word :: "string \<Rightarrow> string" where
  "leading_word u = word_part (dropWhile (\<lambda>c. c = CHR ''('') (dropWhile is_space u))"

lemma word_part_trim: "word_part (rev (dropWhile is_space (rev u))) = word_part u"
proof -
  obtain t where t: "u = rev (dropWhile is_space (rev u)) @ t" "list_all is_space t"
  proof
    show "u = rev (dropWhile is_space (rev u)) @ rev (takeWhile is_space (rev u))"
      by (metis rev_append rev_rev_ident takeWhile_dropWhile_id)
    show "list_all is_space (rev (takeWhile is_space (rev u)))"
      by (auto simp: list_all_iff dest: set_takeWhileD)
  qed
  have "takeWhile (\<lambda>c. \<not> is_space c \<and> c \<noteq> CHR ''('') t = []"
    using t(2) by (cases t) auto
  then show ?thesis unfolding word_part_def
    by (subst (2) t(1)) (auto simp: takeWhile_append)
qed

lemma dropWhile_paren_trim:
  "dropWhile (\<lambda>c. c = CHR ''('') (rev (dropWhile is_space (rev u))) =
     rev (dropWhile is_space (rev (dropWhile (\<lambda>c. c = CHR ''('') u)))"
proof (induction u)
  case (Cons c u)
  have p: "\<not> is_space (CHR ''('')" by code_simp
  show ?case
  proof (cases "c = CHR ''(''")
    case True
    then have "rev (dropWhile is_space (rev (c # u))) = c # rev (dropWhile is_space (rev u))"
      using p by (simp add: dropWhile_append)
    then show ?thesis using Cons True by simp
  next
    case False
    then show ?thesis
      by (cases "rev (dropWhile is_space (rev (c # u)))")
         (auto simp: dropWhile_append split: if_splits)
  qed
qed simp

lemma first_word_strip: "first_word (strip u) = upper (leading_word u)"
proof -
  have "first_word s = upper (word_part (dropWhile (\<lambda>c. c = CHR ''('') s))" for s
    by (simp add: first_word_def word_part_def)
  then show ?thesis by (simp add: strip_def leading_word_def dropWhile_paren_trim word_part_trim)
qed

lemma allowlisted_letters:
  "upper w \<in> set READ_ONLY_STARTS \<Longrightarrow> w \<noteq> [] \<and> list_all is_letter w"
proof -
  have up: "is_letter c" if "is_letter (upper_char c)" for c
    using that by (auto simp: is_letter_def upper_char_def is_ascii_alnum_def is_ascii_digit_def code_def
        split: if_splits)
  have "list_all (\<lambda>v. v \<noteq> [] \<and> list_all is_letter v) READ_ONLY_STARTS" by code_simp
  then have "upper w \<noteq> [] \<and> list_all is_letter (upper w)" if "upper w \<in> set READ_ONLY_STARTS"
    using that by (auto simp: list_all_iff)
  then show "upper w \<in> set READ_ONLY_STARTS \<Longrightarrow> w \<noteq> [] \<and> list_all is_letter w"
    using up by (auto simp: upper_def list_all_iff)
qed

lemma letter_facts: "is_letter c \<Longrightarrow> \<not> is_space c \<and> c \<noteq> CHR ''('' \<and> c \<noteq> CHR ''-'' \<and> c \<noteq> CHR ''/''"
  by (auto simp: is_letter_def is_ascii_alnum_def is_ascii_digit_def is_space_def Let_def code_def)

lemma copied_lines:
  "list_all is_letter (word_part (drop_lines s)) \<Longrightarrow> takeWhile is_letter s = word_part (drop_lines s)"
proof (induction s rule: drop_lines.induct)
  case (2 c)
  then show ?case using letter_facts [of c] by (auto simp: word_part_def split: if_splits)
next
  case (3 c d cs)
  have sp: "is_space (CHR '' '')" by code_simp
  have dash: "\<not> is_letter (CHR ''-'')" by code_simp
  show ?case
    using 3 letter_facts [of c] sp dash by (auto simp: word_part_def split: if_splits)
qed (simp add: word_part_def)

lemma copied_blocks:
  "list_all is_letter (word_part (drop_blocks s)) \<Longrightarrow> takeWhile is_letter s = word_part (drop_blocks s)"
proof (induction s rule: drop_blocks.induct)
  case (2 c)
  then show ?case using letter_facts [of c] by (auto simp: word_part_def split: if_splits)
next
  case (3 c d cs)
  have sp: "is_space (CHR '' '')" by code_simp
  have slash: "\<not> is_letter (CHR ''/'')" "\<not> is_space (CHR ''/'')" by code_simp+
  show ?case
    using 3 letter_facts [of c] sp slash by (auto simp: word_part_def split: if_splits option.splits)
qed (simp add: word_part_def)

lemma leading_word_simps:
  "is_space c \<Longrightarrow> leading_word (c # u) = leading_word u"
  "\<not> is_space c \<Longrightarrow> c \<noteq> CHR ''('' \<Longrightarrow> leading_word (c # u) = word_part (c # u)"
  by (simp_all add: leading_word_def)

lemma leading_word_paren:
  assumes "leading_word (CHR ''('' # u) \<noteq> []"
  shows "leading_word (CHR ''('' # u) = leading_word u"
proof -
  have p: "\<not> is_space (CHR ''('')" by code_simp
  have "dropWhile is_space u = u"
  proof (cases u)
    case (Cons c cs)
    then show ?thesis using assms p
      by (cases "is_space c") (auto simp: leading_word_def word_part_def split: if_splits)
  qed simp
  then show ?thesis using p by (simp add: leading_word_def)
qed

lemma sublist_tail: "\<not> sublist p (c # cs) \<Longrightarrow> \<not> sublist p cs"
  by (simp add: sublist_Cons_right)

lemma sublist_dropWhile: "\<not> sublist p s \<Longrightarrow> \<not> sublist p (dropWhile q s)"
  using sublist_order.order_trans suffix_dropWhile suffix_imp_sublist by blast

lemma pair_absent: "\<not> sublist [a, b] (c # d # cs) \<Longrightarrow> \<not> (c = a \<and> d = b)"
  by (auto simp: sublist_Cons_right)

lemma drop_lines_cases:
  "drop_lines (CHR ''-'' # CHR ''-'' # cs) = CHR '' '' # drop_lines (dropWhile (\<lambda>x. x \<noteq> CHR 0x0A) cs)"
  "\<not> (c = CHR ''-'' \<and> d = CHR ''-'') \<Longrightarrow> drop_lines (c # d # cs) = c # drop_lines (d # cs)"
  by auto

lemma drop_blocks_cases:
  "after_close cs = Some t \<Longrightarrow> drop_blocks (CHR ''/'' # CHR ''*'' # cs) = CHR '' '' # drop_blocks t"
  "\<not> (c = CHR ''/'' \<and> d = CHR ''*'' \<and> after_close cs \<noteq> None) \<Longrightarrow>
     drop_blocks (c # d # cs) = c # drop_blocks (d # cs)"
  by (auto split: option.split)

declare drop_lines.simps(3) [simp del] drop_blocks.simps(3) [simp del]

lemma start_after_lines:
  "list_all is_letter (leading_word (drop_lines s)) \<Longrightarrow> leading_word (drop_lines s) \<noteq> [] \<Longrightarrow>
   \<not> sublist ''/*'' s \<Longrightarrow>
   takeWhile is_letter (statement_start s) = leading_word (drop_lines s)"
proof (induction s rule: drop_lines.induct)
  case 1
  then show ?case by (simp add: leading_word_def word_part_def)
next
  case (2 c)
  then show ?case using copied_lines [of "[c]"]
    by (auto simp: leading_word_def word_part_def statement_start.simps split: if_splits)
next
  case (3 c d cs)
  have sp: "is_space (CHR '' '')" "\<not> is_space (CHR ''-'')" by code_simp+
  note block = pair_absent [OF "3.prems"(3)] and tail = sublist_tail [OF "3.prems"(3)]
  consider (line) "c = CHR ''-'' \<and> d = CHR ''-''" | (space) "is_space c"
    | (paren) "c = CHR ''(''" | (other) "\<not> (c = CHR ''-'' \<and> d = CHR ''-'')" "\<not> is_space c" "c \<noteq> CHR ''(''"
    by blast
  then show ?case
  proof cases
    case line
    have "\<not> sublist ''/*'' (dropWhile (\<lambda>x. x \<noteq> CHR 0x0A) cs)"
      using sublist_dropWhile sublist_tail [OF tail] by blast
    then show ?thesis using "3.IH"(1) [OF line] "3.prems" line sp
      by (simp add: leading_word_simps start_line drop_lines_cases(1))
  next
    case space
    then have no: "\<not> (c = CHR ''-'' \<and> d = CHR ''-'')" using sp by auto
    show ?thesis using "3.IH"(2) [OF no] "3.prems" space tail
      by (simp add: leading_word_simps start_skip drop_lines_cases(2) [OF no])
  next
    case paren
    then have no: "\<not> (c = CHR ''-'' \<and> d = CHR ''-'')" by simp
    have eq: "drop_lines (c # d # cs) = CHR ''('' # drop_lines (d # cs)"
      using paren drop_lines_cases(2) [OF no] by simp
    have "leading_word (drop_lines (c # d # cs)) = leading_word (drop_lines (d # cs))"
      unfolding eq by (rule leading_word_paren) (use "3.prems"(2) eq in simp)
    then show ?thesis using "3.IH"(2) [OF no] "3.prems" paren tail by (simp add: start_skip)
  next
    case other
    then have "leading_word (drop_lines (c # d # cs)) = word_part (drop_lines (c # d # cs))"
      by (simp add: leading_word_simps drop_lines_cases(2) [OF other(1)])
    moreover have "statement_start (c # d # cs) = c # d # cs"
      by (rule start_here) (use other block in blast)+
    ultimately show ?thesis using copied_lines [of "c # d # cs"] "3.prems"(1) by simp
  qed
qed

lemma start_after_blocks:
  "list_all is_letter (leading_word (drop_blocks s)) \<Longrightarrow> leading_word (drop_blocks s) \<noteq> [] \<Longrightarrow>
   \<not> sublist ''--'' s \<Longrightarrow>
   takeWhile is_letter (statement_start s) = leading_word (drop_blocks s)"
proof (induction s rule: drop_blocks.induct)
  case 1
  then show ?case by (simp add: leading_word_def word_part_def)
next
  case (2 c)
  then show ?case using copied_blocks [of "[c]"]
    by (auto simp: leading_word_def word_part_def statement_start.simps split: if_splits)
next
  case (3 c d cs)
  have sp: "is_space (CHR '' '')" "\<not> is_space (CHR ''/'')" "\<not> is_letter (CHR ''/'')" by code_simp+
  note line = pair_absent [OF "3.prems"(3)] and tail = sublist_tail [OF "3.prems"(3)]
  consider (block) t where "c = CHR ''/'' \<and> d = CHR ''*''" "after_close cs = Some t"
    | (space) "is_space c" | (paren) "c = CHR ''(''"
    | (other) "\<not> (c = CHR ''/'' \<and> d = CHR ''*'' \<and> after_close cs \<noteq> None)" "\<not> is_space c" "c \<noteq> CHR ''(''"
    by blast
  then show ?case
  proof cases
    case block
    have "suffix t cs" using block(2)
      by (induction cs rule: after_close.induct) (auto split: if_splits simp: suffix_Cons)
    then have "\<not> sublist ''--'' t"
      using sublist_order.order_trans suffix_imp_sublist sublist_tail [OF tail] by blast
    then show ?thesis using "3.IH"(2) [OF block] "3.prems" block sp
      by (simp add: leading_word_simps start_block drop_blocks_cases(1))
  next
    case space
    then have no: "\<not> (c = CHR ''/'' \<and> d = CHR ''*'')" using sp by auto
    then have keep: "drop_blocks (c # d # cs) = c # drop_blocks (d # cs)"
      by (intro drop_blocks_cases(2)) blast
    show ?thesis using "3.IH"(3) [OF no] "3.prems" space tail
      by (simp add: leading_word_simps start_skip keep)
  next
    case paren
    then have no: "\<not> (c = CHR ''/'' \<and> d = CHR ''*'')" by simp
    have "drop_blocks (c # d # cs) = c # drop_blocks (d # cs)"
      by (rule drop_blocks_cases(2)) (use no in blast)
    with paren have eq: "drop_blocks (c # d # cs) = CHR ''('' # drop_blocks (d # cs)" by simp
    have "leading_word (drop_blocks (c # d # cs)) = leading_word (drop_blocks (d # cs))"
      unfolding eq by (rule leading_word_paren) (use "3.prems"(2) eq in simp)
    then show ?thesis using "3.IH"(3) [OF no] "3.prems" paren tail by (simp add: start_skip)
  next
    case other
    then have "leading_word (drop_blocks (c # d # cs)) = word_part (drop_blocks (c # d # cs))"
      by (simp add: leading_word_simps drop_blocks_cases(2) [OF other(1)])
    moreover have "statement_start (c # d # cs) = c # d # cs"
      by (rule start_here) (use other line in blast)+
    ultimately show ?thesis using copied_blocks [of "c # d # cs"] "3.prems"(1) by simp
  qed
qed

lemma drop_blocks_absent: "\<not> sublist ''/*'' s \<Longrightarrow> drop_blocks s = s"
proof (induction s rule: drop_blocks.induct)
  case (3 c d cs)
  note no = pair_absent [OF "3.prems"]
  have keep: "drop_blocks (c # d # cs) = c # drop_blocks (d # cs)"
    by (rule drop_blocks_cases(2)) (use no in blast)
  show ?case unfolding keep using "3.IH"(3) [OF no sublist_tail [OF "3.prems"]] by simp
qed simp_all

lemma drop_lines_absent: "\<not> sublist ''--'' s \<Longrightarrow> drop_lines s = s"
proof (induction s rule: drop_lines.induct)
  case (3 c d cs)
  note no = pair_absent [OF "3.prems"]
  show ?case unfolding drop_lines_cases(2) [OF no]
    using "3.IH"(2) [OF no sublist_tail [OF "3.prems"]] by simp
qed simp_all

lemma drop_blocks_head: "drop_blocks (d # cs) = x # xs \<Longrightarrow> x = d \<or> x = CHR '' ''"
  by (cases cs) (auto simp: drop_blocks.simps(3) split: if_splits option.splits)

lemma drop_blocks_no_dashes: "\<not> sublist ''--'' s \<Longrightarrow> \<not> sublist ''--'' (drop_blocks s)"
proof (induction s rule: drop_blocks.induct)
  case (3 c d cs)
  have step: "\<not> sublist ''--'' (x # u)" if "\<not> sublist ''--'' u" "x = CHR ''-'' \<Longrightarrow> u = [] \<or> hd u \<noteq> CHR ''-''" for x u
    using that by (cases u) (auto simp: sublist_Cons_right)
  have tail: "\<not> sublist ''--'' (d # cs)" by (rule sublist_tail [OF "3.prems"])
  show ?case
  proof (cases "\<exists>t. c = CHR ''/'' \<and> d = CHR ''*'' \<and> after_close cs = Some t")
    case True
    then obtain t where t: "c = CHR ''/'' \<and> d = CHR ''*''" "after_close cs = Some t" by blast
    have "suffix t cs" using t(2)
      by (induction cs rule: after_close.induct) (auto split: if_splits simp: suffix_Cons)
    then have "\<not> sublist ''--'' t"
      using sublist_order.order_trans suffix_imp_sublist sublist_tail [OF tail] by blast
    then have "\<not> sublist ''--'' (CHR '' '' # drop_blocks t)" using "3.IH"(2) [OF t] by (intro step) auto
    then show ?thesis using t by (simp add: drop_blocks_cases(1))
  next
    case False
    then have eq: "drop_blocks (c # d # cs) = c # drop_blocks (d # cs)"
      by (intro drop_blocks_cases(2)) auto
    have rest: "\<not> sublist ''--'' (drop_blocks (d # cs))"
      using "3.IH"(1,3) tail False by (cases "after_close cs") auto
    have "c = CHR ''-'' \<Longrightarrow> d \<noteq> CHR ''-''" using pair_absent [OF "3.prems"] by blast
    then have "c = CHR ''-'' \<Longrightarrow> drop_blocks (d # cs) = [] \<or> hd (drop_blocks (d # cs)) \<noteq> CHR ''-''"
      using drop_blocks_head [of d cs] by (cases "drop_blocks (d # cs)") auto
    then show ?thesis unfolding eq using step [OF rest] by blast
  qed
qed simp_all



text \<open>Two ways past it. A block comment opened inside a line comment hides a statement from the allowlist,
  which removes block comments first, but not from a reader of SQL; and \<open>EXPLAIN ANALYZE\<close>, which
  executes the statement it explains, is an allowed start.\<close>

theorem mixed_comments_hide_a_delete:
  "let q = ''--/*'' @ CHR 0x0A # ''DELETE FROM t--*/'' @ CHR 0x0A # ''TABLE t''
   in refuse_statement q = None \<and> keyword q = ''DELETE''"
  by code_simp

theorem explain_analyze_passes:
  "refuse_statement ''EXPLAIN ANALYZE DELETE FROM t'' = None"
  by code_simp

end
