(* ===== verification/BenchRunner.thy ===== *)
theory BenchRunner
  imports QuerySet Complex_Main
begin

text \<open>
  Executing a query set (\<^verbatim>\<open>bench/runner.py\<close>). What the loop does not decide is the environment, by
  the number of statements already handled: whether an abort has been requested, what the SQL client
  answered, the milliseconds on the monotonic clock, and whether the result could be stored. A run is
  the results added, the statements sent, and how it was finished; \<open>finish\<close> itself is taken to return.
\<close>

datatype run_state = RunSucceeded | RunFailed | RunAborted

text \<open>What \<open>client.execute\<close> does: it returns the query id, the elapsed time and the statistics, or raises
  \<open>QueryFailed\<close>, a client error, or anything else.\<close>

datatype execution =
    Executed "string option" "int option" "(string \<times> json) list"
  | QueryFailed "string option" "int option" string
  | ClientFailed string
  | Crashed string

record bench_env =
  be_open_error :: "string option"
  be_abort :: "nat \<Rightarrow> bool"
  be_execute :: "nat \<Rightarrow> string \<Rightarrow> execution"
  be_clock_ms :: "nat \<Rightarrow> int"
  be_store_error :: "nat \<Rightarrow> string option"
  be_refusal_text :: "refusal \<Rightarrow> string"

definition STAT_COLUMNS :: "(string \<times> string) list" where
  "STAT_COLUMNS =
     [(''trino_elapsed_ms'', ''elapsedTimeMillis''), (''trino_cpu_ms'', ''cpuTimeMillis''),
      (''trino_queued_ms'', ''queuedTimeMillis''), (''trino_planning_ms'', ''planningTimeMillis''),
      (''processed_rows'', ''processedRows''), (''processed_bytes'', ''processedBytes''),
      (''peak_memory_bytes'', ''peakMemoryBytes'')]"

definition measurements :: "(string \<times> json) list \<Rightarrow> int option pydict" where
  "measurements stats =
     map (\<lambda>(column, key). (column, map_option py_trunc (num_or_bool (dget key stats)))) STAT_COLUMNS"

record bench_result =
  br_query :: string
  br_iteration :: nat
  br_failed :: bool
  br_query_id :: "string option"
  br_elapsed_ms :: int
  br_error :: "string option"
  br_measures :: "int option pydict"

text \<open>\<open>x or _ms(started)\<close>\<close>

definition elapsed_or :: "int \<Rightarrow> int option \<Rightarrow> int" where
  "elapsed_or measured x = (case x of None \<Rightarrow> measured | Some v \<Rightarrow> if v = 0 then measured else v)"

definition failed_result :: "bench_query \<Rightarrow> nat \<Rightarrow> string option \<Rightarrow> int \<Rightarrow> string \<Rightarrow> bench_result" where
  "failed_result q i qid ms e =
     \<lparr>br_query = bq_name q, br_iteration = i, br_failed = True, br_query_id = qid, br_elapsed_ms = ms,
      br_error = Some e, br_measures = measurements []\<rparr>"

text \<open>\<open>_one\<close>: the statements sent, and the outcome or the exception that leaves it.\<close>

definition run_one ::
    "bench_env \<Rightarrow> nat \<Rightarrow> bench_query \<Rightarrow> nat \<Rightarrow> string list \<times> (string + bench_result)" where
  "run_one ev n q i =
     (case refuse_statement (bq_sql q) of
        Some r \<Rightarrow>
          ([], Inr (failed_result q i None 0 (''Refused before execution: '' @ be_refusal_text ev r @ ''.'')))
      | None \<Rightarrow>
          ([bq_sql q],
           case be_execute ev n (bq_sql q) of
             QueryFailed qid ms e \<Rightarrow> Inr (failed_result q i qid (elapsed_or (be_clock_ms ev n) ms) e)
           | ClientFailed e \<Rightarrow> Inr (failed_result q i None (be_clock_ms ev n) e)
           | Crashed e \<Rightarrow> Inl e
           | Executed qid ms stats \<Rightarrow>
               Inr \<lparr>br_query = bq_name q, br_iteration = i, br_failed = False, br_query_id = qid,
                    br_elapsed_ms = elapsed_or (be_clock_ms ev n) ms, br_error = None,
                    br_measures = measurements stats\<rparr>))"

record run_log =
  rl_results :: "bench_result list"
  rl_sent :: "string list"
  rl_state :: run_state
  rl_error :: "string option"

definition aborted_text :: "nat \<Rightarrow> string" where
  "aborted_text n =
     ''Stopped on request after '' @ show_nat n @ '' quer'' @ (if n = 1 then ''y'' else ''ies'') @ ''.''"

fun run_items ::
    "bench_env \<Rightarrow> (nat \<times> bench_query) list \<Rightarrow> nat \<Rightarrow> nat \<Rightarrow> bench_result list \<Rightarrow> string list \<Rightarrow> run_log" where
  "run_items ev [] n failures rs sent =
     (if n \<noteq> 0 \<and> failures = n
      then \<lparr>rl_results = rs, rl_sent = sent, rl_state = RunFailed,
            rl_error = Some ''Every query failed. See the results for why.''\<rparr>
      else \<lparr>rl_results = rs, rl_sent = sent, rl_state = RunSucceeded, rl_error = None\<rparr>)"
| "run_items ev ((i, q) # rest) n failures rs sent =
     (if be_abort ev n
      then \<lparr>rl_results = rs, rl_sent = sent, rl_state = RunAborted, rl_error = Some (aborted_text n)\<rparr>
      else case run_one ev n q i of
             (s, Inl e) \<Rightarrow>
               \<lparr>rl_results = rs, rl_sent = sent @ s, rl_state = RunFailed, rl_error = Some e\<rparr>
           | (s, Inr r) \<Rightarrow>
               (case be_store_error ev n of
                  Some e \<Rightarrow>
                    \<lparr>rl_results = rs, rl_sent = sent @ s, rl_state = RunFailed, rl_error = Some e\<rparr>
                | None \<Rightarrow>
                    run_items ev rest (n + 1) (failures + (if br_failed r then 1 else 0)) (rs @ [r])
                      (sent @ s)))"

definition run_plan :: "bench_query list \<Rightarrow> nat \<Rightarrow> (nat \<times> bench_query) list" where
  "run_plan qs repetitions = concat (map (\<lambda>i. map (Pair i) qs) [1..<repetitions + 1])"

definition run_benchmark :: "bench_env \<Rightarrow> query_set \<Rightarrow> nat \<Rightarrow> run_log" where
  "run_benchmark ev qs repetitions =
     (case be_open_error ev of
        Some e \<Rightarrow> \<lparr>rl_results = [], rl_sent = [], rl_state = RunFailed, rl_error = Some e\<rparr>
      | None \<Rightarrow> run_items ev (run_plan (qs_queries qs) repetitions) 0 0 [] [])"

section \<open>What a run records\<close>

definition result_of_item :: "(nat \<times> bench_query) \<Rightarrow> bench_result \<Rightarrow> bool" where
  "result_of_item item r \<longleftrightarrow> br_iteration r = fst item \<and> br_query r = bq_name (snd item)"

lemma run_one_item: "run_one ev n q i = (s, Inr r) \<Longrightarrow> result_of_item (i, q) r"
  by (auto simp: run_one_def result_of_item_def failed_result_def split: option.splits execution.splits)

lemma run_one_sent: "run_one ev n q i = (s, x) \<Longrightarrow> list_all (\<lambda>t. refuse_statement t = None \<and> t = bq_sql q) s"
  by (auto simp: run_one_def split: option.splits)

definition failures_in :: "bench_result list \<Rightarrow> nat" where
  "failures_in rs = length (filter br_failed rs)"

lemma run_items_log:
  assumes "list_all2 result_of_item done rs" "n = length rs" "failures = failures_in rs"
    and "list_all (\<lambda>t. refuse_statement t = None \<and> t \<in> bq_sql ` snd ` set (done @ items)) sent"
  shows "let l = run_items ev items n failures rs sent
         in (\<exists>k. list_all2 result_of_item (take k (done @ items)) (rl_results l) \<and>
               (rl_state l = RunSucceeded \<longrightarrow> k = length (done @ items))) \<and>
            list_all (\<lambda>t. refuse_statement t = None \<and> t \<in> bq_sql ` snd ` set (done @ items)) (rl_sent l) \<and>
            (rl_state l = RunSucceeded \<longrightarrow> rl_results l = [] \<or> \<not> list_all br_failed (rl_results l)) \<and>
            (rl_state l = RunAborted \<longrightarrow> be_abort ev (length (rl_results l)))"
  using assms
proof (induction items arbitrary: "done" n failures rs sent)
  case Nil
  have all: "failures_in rs = length rs \<longleftrightarrow> list_all br_failed rs"
    unfolding failures_in_def
  proof (induction rs)
    case (Cons r rs)
    then show ?case using length_filter_le [of br_failed rs] by (auto simp del: length_filter_le)
  qed simp
  show ?case using Nil all by (auto simp: intro!: exI [of _ "length done"])
next
  case (Cons item items)
  obtain i q where item: "item = (i, q)" by (cases item)
  obtain s x where one: "run_one ev n q i = (s, x)" by (cases "run_one ev n q i")
  have sent: "list_all (\<lambda>t. refuse_statement t = None \<and> t \<in> bq_sql ` snd ` set (done @ item # items)) (sent @ s)"
    using Cons.prems(4) run_one_sent [OF one] item by (auto simp: list_all_iff)
  have stop: "\<exists>k. list_all2 result_of_item (take k (done @ item # items)) rs"
    using Cons.prems(1) by (intro exI [of _ "length done"]) simp
  show ?case
  proof (cases "be_abort ev n")
    case True
    then show ?thesis using Cons.prems stop item by auto
  next
    case False
    show ?thesis
    proof (cases "\<exists>r. x = Inr r \<and> be_store_error ev n = None")
      case True
      then obtain r where r: "x = Inr r" "be_store_error ev n = None" by blast
      have "list_all2 result_of_item (done @ [item]) (rs @ [r])"
        using Cons.prems(1) run_one_item [OF one [unfolded r]] item by (simp add: list_all2_appendI)
      moreover have "failures + (if br_failed r then 1 else 0) = failures_in (rs @ [r])"
        using Cons.prems(3) by (simp add: failures_in_def)
      ultimately show ?thesis
        using Cons.IH [of "done @ [item]" "rs @ [r]" "n + 1"] Cons.prems(2) sent False one r item by simp
    next
      case stopped: False
      then show ?thesis using False one sent stop item
        by (cases x) (auto split: option.split)
    qed
  qed
qed

lemma sent_statements:
  "list_all (\<lambda>t. refuse_statement t = None \<and> t \<in> bq_sql ` set (qs_queries qs))
     (rl_sent (run_benchmark ev qs repetitions))"
proof (cases "be_open_error ev")
  case None
  let ?plan = "run_plan (qs_queries qs) repetitions" and ?l = "run_benchmark ev qs repetitions"
  have l: "?l = run_items ev ?plan 0 0 [] []" using None by (simp add: run_benchmark_def)
  note facts = run_items_log [of "[]" "[]" 0 0 ?plan "[]" ev, unfolded Let_def, folded l, simplified,
      unfolded failures_in_def, simplified]
  have "bq_sql ` snd ` set ?plan \<subseteq> bq_sql ` set (qs_queries qs)"
    by (rule image_mono) (auto simp: run_plan_def)
  moreover have "list_all (\<lambda>t. refuse_statement t = None \<and> t \<in> bq_sql ` snd ` set ?plan) (rl_sent ?l)"
    using facts by simp
  ultimately show ?thesis unfolding list_all_iff by blast
qed (simp add: run_benchmark_def)

text \<open>Only statements of the set that pass the allowlist are ever sent to the cluster; the results are
  those of the planned statements, in order, up to where the run stopped; a run is called successful
  only when every planned statement has its result and not all of them failed; and it is called
  aborted only when somebody asked for that.\<close>

theorem run_is_honest:
  "let l = run_benchmark ev qs repetitions; plan = run_plan (qs_queries qs) repetitions
   in list_all (\<lambda>t. refuse_statement t = None \<and> t \<in> bq_sql ` set (qs_queries qs)) (rl_sent l) \<and>
      (\<exists>k. list_all2 result_of_item (take k plan) (rl_results l) \<and>
           (if rl_state l = RunSucceeded
            then k = length plan \<and> (if plan = [] then True else list_ex (\<lambda>r. \<not> br_failed r) (rl_results l))
            else True)) \<and>
      (if rl_state l = RunAborted then be_abort ev (length (rl_results l)) else True)"
proof (cases "be_open_error ev")
  case (Some e)
  then show ?thesis by (auto simp: run_benchmark_def intro!: exI [of _ "0::nat"])
next
  case None
  let ?plan = "run_plan (qs_queries qs) repetitions" and ?l = "run_benchmark ev qs repetitions"
  have l: "?l = run_items ev ?plan 0 0 [] []" using None by (simp add: run_benchmark_def)
  note facts = run_items_log [of "[]" "[]" 0 0 ?plan "[]" ev, unfolded Let_def, folded l, simplified,
      unfolded failures_in_def, simplified]
  note sent = sent_statements [of qs ev repetitions]
  obtain k where k: "list_all2 result_of_item (take k ?plan) (rl_results ?l)"
    "rl_state ?l = RunSucceeded \<longrightarrow> k = length ?plan"
    using facts by blast
  have "plan_done = [] \<or> list_ex (\<lambda>r. \<not> br_failed r) (rl_results ?l)"
    if "rl_state ?l = RunSucceeded" "plan_done = ?plan" for plan_done
    using that facts k by (auto simp: list_all_iff list_ex_iff)
  then show ?thesis using sent k facts unfolding Let_def by auto
qed

end
