(* ===== verification/BenchCompare.thy ===== *)
theory BenchCompare
  imports PyText Complex_Main "HOL-Library.Multiset"
begin

text \<open>
  Comparing two benchmark runs (\<^verbatim>\<open>bench/compare.py\<close>, and \<open>summarise\<close> of \<^verbatim>\<open>bench/trend.py\<close>).
  A run is what the store keeps of it; a stored result always has its elapsed time, as the runner
  writes it. Floats are exact rationals. A warning is a constructor with the values its sentence names.
\<close>

definition NOISE_PERCENT :: rat where "NOISE_PERCENT = 5"

record stored_result =
  sr_query :: string
  sr_failed :: bool
  sr_elapsed :: rat
  sr_cpu :: "rat option"
  sr_rows :: "rat option"
  sr_error :: "string option"

record stored_run =
  st_id :: string
  st_query_set :: string
  st_cluster :: string
  st_label :: string
  st_state :: string
  st_repetitions :: int
  st_guard_ok :: bool
  st_queries :: "(string \<times> string) list"                     \<comment> \<open>the statements at the time of the run\<close>
  st_results :: "stored_result list"

section \<open>The middle of a list\<close>

definition median :: "rat list \<Rightarrow> rat option" where
  "median values =
     (let ordered = sort values; middle = length ordered div 2
      in if ordered = [] then None
         else if odd (length ordered) then Some (ordered ! middle)
         else Some ((ordered ! (middle - 1) + ordered ! middle) / 2))"

record statistics =
  sx_count :: nat
  sx_average :: "rat option"
  sx_median :: "rat option"
  sx_min :: "rat option"
  sx_max :: "rat option"

definition summarise_values :: "rat list \<Rightarrow> statistics" where
  "summarise_values values =
     (let numbers = sort values
      in if numbers = []
         then \<lparr>sx_count = 0, sx_average = None, sx_median = None, sx_min = None, sx_max = None\<rparr>
         else \<lparr>sx_count = length numbers,
               sx_average = Some (sum_list numbers / of_nat (length numbers)),
               sx_median = median numbers, sx_min = Some (hd numbers), sx_max = Some (last numbers)\<rparr>)"

section \<open>One run\<close>

record query_summary =
  qu_name :: string
  qu_runs :: nat
  qu_failures :: nat
  qu_median :: "rat option"
  qu_median_cpu :: "rat option"
  qu_fastest :: "rat option"
  qu_rows :: "rat option"
  qu_range :: "(rat \<times> rat) option"                             \<comment> \<open>when the rows varied\<close>

definition given_values :: "'a option list \<Rightarrow> 'a list" where
  "given_values xs = concat (map (\<lambda>x. case x of None \<Rightarrow> [] | Some v \<Rightarrow> [v]) xs)"

definition summary_of :: "string \<Rightarrow> stored_result list \<Rightarrow> query_summary" where
  "summary_of name rs =
     (let mine = filter (\<lambda>r. sr_query r = name) rs;
          good = filter (\<lambda>r. \<not> sr_failed r) mine;
          elapsed = map sr_elapsed good;
          counted = given_values (map sr_rows good)
      in \<lparr>qu_name = name, qu_runs = length mine, qu_failures = length (filter sr_failed mine),
          qu_median = median elapsed, qu_median_cpu = median (given_values (map sr_cpu good)),
          qu_fastest = (if elapsed = [] then None else Some (Min (set elapsed))),
          qu_rows = median counted,
          qu_range = (if counted \<noteq> [] \<and> Min (set counted) \<noteq> Max (set counted)
                      then Some (Min (set counted), Max (set counted)) else None)\<rparr>)"

text \<open>The groups in the order their first result came.\<close>

fun first_seen :: "string list \<Rightarrow> string list \<Rightarrow> string list" where
  "first_seen seen [] = []"
| "first_seen seen (x # xs) = (if x \<in> set seen then first_seen seen xs else x # first_seen (x # seen) xs)"

definition summarise_run :: "stored_run \<Rightarrow> query_summary list" where
  "summarise_run r = map (\<lambda>n. summary_of n (st_results r)) (first_seen [] (map sr_query (st_results r)))"

definition summary_for :: "string \<Rightarrow> query_summary list \<Rightarrow> query_summary option" where
  "summary_for n ss = find (\<lambda>s. qu_name s = n) ss"

section \<open>Two runs\<close>

datatype verdict = Faster | Slower | Same | OnlyBaseline | OnlyCandidate

record compared_row =
  cr_name :: string
  cr_baseline :: "query_summary option"
  cr_candidate :: "query_summary option"
  cr_delta :: "rat option"
  cr_percent :: "rat option"
  cr_verdict :: verdict
  cr_changed :: bool

definition delta_percent :: "rat \<Rightarrow> rat \<Rightarrow> rat option" where
  "delta_percent a b = (if a = 0 then None else Some ((b - a) / a * 100))"

definition judge :: "rat \<Rightarrow> rat \<Rightarrow> verdict" where
  "judge a b =
     (case delta_percent a b of
        None \<Rightarrow> Same
      | Some p \<Rightarrow> (if \<bar>p\<bar> < NOISE_PERCENT then Same else if b - a > 0 then Slower else Faster))"

definition compare_row ::
    "string list \<Rightarrow> query_summary option \<Rightarrow> query_summary option \<Rightarrow> string \<Rightarrow> compared_row" where
  "compare_row edited a b name =
     (let row = (\<lambda>d p v. \<lparr>cr_name = name, cr_baseline = a, cr_candidate = b, cr_delta = d,
                          cr_percent = p, cr_verdict = v, cr_changed = (name \<in> set edited)\<rparr>)
      in case (a, b) of
           (None, _) \<Rightarrow> row None None OnlyCandidate
         | (Some _, None) \<Rightarrow> row None None OnlyBaseline
         | (Some sa, Some sb) \<Rightarrow>
             (case (qu_median sa, qu_median sb) of
                (_, None) \<Rightarrow> row None None OnlyBaseline
              | (None, Some _) \<Rightarrow> row None None OnlyCandidate
              | (Some x, Some y) \<Rightarrow> row (Some (y - x)) (delta_percent x y) (judge x y)))"

text \<open>\<open>{q["name"]: q["sql"] for q in queries if q["name"]}\<close>\<close>

definition statements_of :: "stored_run \<Rightarrow> string pydict" where
  "statements_of r =
     foldl (\<lambda>d (n, sql). dset n sql d) [] (filter (\<lambda>(n, sql). n \<noteq> []) (st_queries r))"

definition edited_between :: "stored_run \<Rightarrow> stored_run \<Rightarrow> string list" where
  "edited_between b c =
     (let l = statements_of b; r = statements_of c
      in if l = [] \<or> r = [] then []
         else filter (\<lambda>n. map_of r n \<noteq> None \<and> map_of l n \<noteq> map_of r n) (map fst l))"

datatype warning =
    MixedConditions string string                              \<comment> \<open>busy side, idle side\<close>
  | MayBeIncomplete string string string
  | StatementsChanged "string list"
  | DifferentRepetitions int int

definition comparison_warnings :: "stored_run \<Rightarrow> stored_run \<Rightarrow> warning list" where
  "comparison_warnings b c =
     (if st_guard_ok b \<noteq> st_guard_ok c
      then [if \<not> st_guard_ok b then MixedConditions ''baseline'' ''candidate''
            else MixedConditions ''candidate'' ''baseline'']
      else []) @
     (if st_state b \<noteq> ''SUCCEEDED'' then [MayBeIncomplete ''baseline'' (st_id b) (st_state b)] else []) @
     (if st_state c \<noteq> ''SUCCEEDED'' then [MayBeIncomplete ''candidate'' (st_id c) (st_state c)] else []) @
     (let edited = sort_by (\<lambda>s. s) (edited_between b c)
      in if edited = [] then [] else [StatementsChanged edited]) @
     (if st_repetitions b \<noteq> st_repetitions c
      then [DifferentRepetitions (st_repetitions b) (st_repetitions c)] else [])"

record comparison_result =
  cx_rows :: "compared_row list"
  cx_queries :: nat
  cx_faster :: nat
  cx_slower :: nat
  cx_same :: nat
  cx_unmatched :: nat
  cx_median_percent :: "rat option"
  cx_warnings :: "warning list"

datatype not_comparable = DifferentSets string string | SameRun

definition count_verdict :: "verdict list \<Rightarrow> compared_row list \<Rightarrow> nat" where
  "count_verdict vs rows = length (filter (\<lambda>r. cr_verdict r \<in> set vs) rows)"

definition compare_runs :: "stored_run \<Rightarrow> stored_run \<Rightarrow> not_comparable + comparison_result" where
  "compare_runs b c =
     (if st_query_set b \<noteq> st_query_set c then Inl (DifferentSets (st_query_set b) (st_query_set c))
      else if st_id b = st_id c then Inl SameRun
      else let l = summarise_run b; r = summarise_run c; edited = edited_between b c;
               names = sort_by (\<lambda>s. s) (remdups (map qu_name l @ map qu_name r));
               rows = map (\<lambda>n. compare_row edited (summary_for n l) (summary_for n r) n) names
           in Inr \<lparr>cx_rows = rows, cx_queries = length rows,
                   cx_faster = count_verdict [Faster] rows, cx_slower = count_verdict [Slower] rows,
                   cx_same = count_verdict [Same] rows,
                   cx_unmatched = count_verdict [OnlyBaseline, OnlyCandidate] rows,
                   cx_median_percent = median (given_values (map cr_percent rows)),
                   cx_warnings = comparison_warnings b c\<rparr>)"

definition first_error :: "stored_run \<Rightarrow> string \<Rightarrow> string option" where
  "first_error r name =
     (case find (\<lambda>x. sr_query x = name \<and> (case sr_error x of None \<Rightarrow> False | Some e \<Rightarrow> e \<noteq> [])) (st_results r) of
        None \<Rightarrow> None | Some x \<Rightarrow> sr_error x)"

record query_row =
  qw_summary :: query_summary
  qw_all_failed :: bool
  qw_error :: "string option"

definition query_rows :: "stored_run \<Rightarrow> query_row list" where
  "query_rows r =
     map (\<lambda>s. \<lparr>qw_summary = s, qw_all_failed = (qu_failures s = qu_runs s),
               qw_error = first_error r (qu_name s)\<rparr>)
       (sort_by qu_name (summarise_run r))"

section \<open>The median is in the middle\<close>

lemma sorted_nth_counts:
  assumes "sorted xs" "k < length xs"
  shows "length (filter (\<lambda>x. x \<le> xs ! k) xs) \<ge> k + 1"
    and "length (filter (\<lambda>x. x \<ge> xs ! k) xs) \<ge> length xs - k"
proof -
  have low: "list_all (\<lambda>x. x \<le> xs ! k) (take (k + 1) xs)"
    using assms by (auto simp: list_all_length intro: sorted_nth_mono)
  have high: "list_all (\<lambda>x. x \<ge> xs ! k) (drop k xs)"
    using assms by (auto simp: list_all_length intro: sorted_nth_mono)
  have "filter (\<lambda>x. x \<le> xs ! k) (take (k + 1) xs) = take (k + 1) xs"
    using low by (simp add: filter_id_conv list_all_iff)
  then have "length (filter (\<lambda>x. x \<le> xs ! k) (take (k + 1) xs @ drop (k + 1) xs)) \<ge> length (take (k + 1) xs)"
    unfolding filter_append by simp
  then show "length (filter (\<lambda>x. x \<le> xs ! k) xs) \<ge> k + 1" using assms(2) by simp
  have "filter (\<lambda>x. x \<ge> xs ! k) (drop k xs) = drop k xs"
    using high by (simp add: filter_id_conv list_all_iff)
  then have "length (filter (\<lambda>x. x \<ge> xs ! k) (take k xs @ drop k xs)) \<ge> length (drop k xs)"
    unfolding filter_append by simp
  then show "length (filter (\<lambda>x. x \<ge> xs ! k) xs) \<ge> length xs - k" by simp
qed

lemma filter_mono_length: "(\<And>x. P x \<Longrightarrow> Q x) \<Longrightarrow> length (filter P xs) \<le> length (filter Q xs)"
  by (induction xs) auto

lemma sort_counts: "length (filter P (sort xs)) = length (filter P xs)"
  by (metis mset_filter mset_sort size_mset)

text \<open>The median of a list of measurements lies in the middle whatever their order: at least half of them
  are not above it and at least half are not below it.\<close>

theorem median_in_the_middle:
  "case median xs of
     None \<Rightarrow> xs = []
   | Some m \<Rightarrow> length xs \<le> 2 * length (filter (\<lambda>x. x \<le> m) xs) \<and>
               length xs \<le> 2 * length (filter (\<lambda>x. x \<ge> m) xs)"
proof -
  let ?o = "sort xs"
  let ?m = "length xs div 2"
  show ?thesis
  proof (cases "xs = []")
    case True
    then show ?thesis by (simp add: median_def)
  next
    case False
    have len: "length ?o = length xs" by simp
    have ne: "?o \<noteq> []" using False by (metis len length_0_conv)
    have in_range: "?m < length ?o" using False by simp
    note mid = sorted_nth_counts [OF sorted_sort in_range, unfolded sort_counts len]
    show ?thesis
    proof (cases "odd (length xs)")
      case True
      then have "median xs = Some (?o ! ?m)" using ne by (simp add: median_def Let_def)
      moreover have "length xs = 2 * ?m + 1" using True by simp
      ultimately show ?thesis using mid by (simp add: sort_counts)
    next
      case even: False
      let ?a = "?o ! (?m - 1)" and ?b = "?o ! ?m"
      have m: "length xs = 2 * ?m" using even by simp
      have "length xs \<noteq> 0" using False by simp
      then have "?m \<ge> 1" using m by linarith
      have med: "median xs = Some ((?a + ?b) / 2)" using even ne by (simp add: median_def Let_def)
      have ab: "?a \<le> ?b" using in_range by (intro sorted_nth_mono) auto
      have "?m - 1 < length ?o" using in_range by simp
      note low = sorted_nth_counts(1) [OF sorted_sort this, unfolded sort_counts]
      have "length (filter (\<lambda>x. x \<le> ?a) xs) \<le> length (filter (\<lambda>x. x \<le> (?a + ?b) / 2) xs)"
        using ab by (intro filter_mono_length) (simp add: field_simps)
      moreover have "length (filter (\<lambda>x. x \<ge> ?b) xs) \<le> length (filter (\<lambda>x. x \<ge> (?a + ?b) / 2) xs)"
        using ab by (intro filter_mono_length) (simp add: field_simps)
      ultimately have "length xs \<le> 2 * length (filter (\<lambda>x. x \<le> (?a + ?b) / 2) xs) \<and>
          length xs \<le> 2 * length (filter (\<lambda>x. x \<ge> (?a + ?b) / 2) xs)"
        using m \<open>?m \<ge> 1\<close> low mid(2) by linarith
      then show ?thesis unfolding med option.case .
    qed
  qed
qed

section \<open>What a comparison says\<close>

lemma first_seen_set: "set (first_seen seen xs) = set xs - set seen"
  by (induction seen xs rule: first_seen.induct) auto

lemma first_seen_distinct: "distinct (first_seen seen xs)"
  by (induction seen xs rule: first_seen.induct) (auto simp: first_seen_set)

lemma summary_names: "map qu_name (summarise_run r) = first_seen [] (map sr_query (st_results r))"
  by (simp add: summarise_run_def summary_of_def Let_def o_def)

lemma summary_for_run:
  "summary_for n (summarise_run r) =
     (if n \<in> sr_query ` set (st_results r) then Some (summary_of n (st_results r)) else None)"
proof -
  have "find (\<lambda>s. qu_name s = n) (map (\<lambda>n. summary_of n rs) ns) =
      (if n \<in> set ns then Some (summary_of n rs) else None)" for ns rs
    by (induction ns) (auto simp: summary_of_def Let_def)
  then show ?thesis by (simp add: summary_for_def summarise_run_def first_seen_set)
qed

lemma judge_facts:
  "judge x y = Slower \<Longrightarrow> y > x \<and> \<bar>y - x\<bar> * 100 \<ge> \<bar>x\<bar> * NOISE_PERCENT"
  "judge x y = Faster \<Longrightarrow> y < x \<and> \<bar>y - x\<bar> * 100 \<ge> \<bar>x\<bar> * NOISE_PERCENT"
proof -
  have far: "\<bar>y - x\<bar> * 100 \<ge> \<bar>x\<bar> * NOISE_PERCENT \<and> y \<noteq> x" if "x \<noteq> 0" "\<not> \<bar>(y - x) / x * 100\<bar> < NOISE_PERCENT"
  proof -
    have "\<bar>(y - x) / x * 100\<bar> = \<bar>y - x\<bar> * 100 / \<bar>x\<bar>"
      by (simp only: abs_mult abs_divide)
    then have "NOISE_PERCENT * \<bar>x\<bar> \<le> \<bar>y - x\<bar> * 100"
      using that by (simp add: pos_le_divide_eq not_less)
    moreover have "NOISE_PERCENT * \<bar>x\<bar> > 0" using that(1) by (simp add: NOISE_PERCENT_def)
    ultimately show ?thesis by (auto simp: mult.commute)
  qed
  show "judge x y = Slower \<Longrightarrow> y > x \<and> \<bar>y - x\<bar> * 100 \<ge> \<bar>x\<bar> * NOISE_PERCENT"
    "judge x y = Faster \<Longrightarrow> y < x \<and> \<bar>y - x\<bar> * 100 \<ge> \<bar>x\<bar> * NOISE_PERCENT"
    using far by (auto simp: judge_def delta_percent_def split: if_splits)
qed

lemma judge_both [simp]: "judge x y \<noteq> OnlyBaseline" "judge x y \<noteq> OnlyCandidate"
  by (simp_all add: judge_def split: option.split)

text \<open>What a row may claim: "slower" or "faster" only when both runs measured the query and the medians
  of their successful executions differ, in that direction, by at least the noise bound; "only on one
  side" when the other side never ran it or never succeeded.\<close>

definition row_is_backed :: "stored_run \<Rightarrow> stored_run \<Rightarrow> compared_row \<Rightarrow> bool" where
  "row_is_backed b c row =
     (let med = (\<lambda>r. median (map sr_elapsed
                  (filter (\<lambda>x. sr_query x = cr_name row \<and> \<not> sr_failed x) (st_results r))))
      in case cr_verdict row of
           Slower \<Rightarrow> (case (med b, med c) of (Some x, Some y) \<Rightarrow> y > x \<and> \<bar>y - x\<bar> * 100 \<ge> \<bar>x\<bar> * NOISE_PERCENT | _ \<Rightarrow> False)
         | Faster \<Rightarrow> (case (med b, med c) of (Some x, Some y) \<Rightarrow> y < x \<and> \<bar>y - x\<bar> * 100 \<ge> \<bar>x\<bar> * NOISE_PERCENT | _ \<Rightarrow> False)
         | Same \<Rightarrow> med b \<noteq> None \<and> med c \<noteq> None
         | OnlyBaseline \<Rightarrow> med c = None
         | OnlyCandidate \<Rightarrow> med b = None)"

lemma summary_median:
  "qu_median (summary_of n rs) = median (map sr_elapsed (filter (\<lambda>x. sr_query x = n \<and> \<not> sr_failed x) rs))"
  by (simp add: summary_of_def Let_def conj_commute)

lemma unmeasured: "n \<notin> sr_query ` set rs \<Longrightarrow> median (map sr_elapsed (filter (\<lambda>x. sr_query x = n \<and> \<not> sr_failed x) rs)) = None"
proof -
  assume "n \<notin> sr_query ` set rs"
  then have "filter (\<lambda>x. sr_query x = n \<and> \<not> sr_failed x) rs = []" by (auto simp: filter_empty_conv)
  then show ?thesis by (simp only: list.map) (simp add: median_def)
qed

lemma row_backed:
  "row_is_backed b c
     (compare_row edited (summary_for n (summarise_run b)) (summary_for n (summarise_run c)) n)"
  using judge_facts
  by (auto simp: row_is_backed_def compare_row_def Let_def summary_for_run summary_median unmeasured
      split: option.split verdict.split)

lemma verdict_counts:
  "count_verdict [Faster] rows + count_verdict [Slower] rows + count_verdict [Same] rows +
   count_verdict [OnlyBaseline, OnlyCandidate] rows = length rows"
proof (induction rows)
  case (Cons r rows)
  then show ?case by (cases "cr_verdict r") (simp_all add: count_verdict_def)
qed (simp add: count_verdict_def)

text \<open>A comparison of two runs covers exactly the queries either run has results for, once each and in
  order; every row's verdict is backed by the medians of the successful executions; and the counts of
  the summary add up to the number of rows.\<close>

theorem comparison_is_backed:
  "case compare_runs b c of
     Inl (DifferentSets l r) \<Rightarrow> l = st_query_set b \<and> r = st_query_set c \<and> l \<noteq> r
   | Inl SameRun \<Rightarrow> st_query_set b = st_query_set c \<and> st_id b = st_id c
   | Inr x \<Rightarrow>
       set (map cr_name (cx_rows x)) = sr_query ` set (st_results b) \<union> sr_query ` set (st_results c) \<and>
       distinct (map cr_name (cx_rows x)) \<and> sorted_by (\<lambda>s. s) (map cr_name (cx_rows x)) \<and>
       list_all (row_is_backed b c) (cx_rows x) \<and>
       cx_faster x + cx_slower x + cx_same x + cx_unmatched x = cx_queries x"
proof (cases "compare_runs b c")
  case (Inl e)
  then show ?thesis by (auto simp: compare_runs_def Let_def split: if_splits not_comparable.split)
next
  case (Inr x)
  let ?l = "summarise_run b" and ?r = "summarise_run c"
  let ?names = "sort_by (\<lambda>s. s) (remdups (map qu_name ?l @ map qu_name ?r))"
  let ?row = "\<lambda>n. compare_row (edited_between b c) (summary_for n ?l) (summary_for n ?r) n"
  have x: "cx_rows x = map ?row ?names" "cx_queries x = length (cx_rows x)"
    "cx_faster x = count_verdict [Faster] (cx_rows x)" "cx_slower x = count_verdict [Slower] (cx_rows x)"
    "cx_same x = count_verdict [Same] (cx_rows x)"
    "cx_unmatched x = count_verdict [OnlyBaseline, OnlyCandidate] (cx_rows x)"
    using Inr by (auto simp: compare_runs_def Let_def split: if_splits)
  have "cr_name (?row n) = n" for n
    by (auto simp: compare_row_def Let_def split: option.split)
  then have names: "map cr_name (cx_rows x) = ?names" by (simp add: x(1) o_def)
  have members: "set ?names = sr_query ` set (st_results b) \<union> sr_query ` set (st_results c)"
    by (simp add: summary_names first_seen_set)
  have dist: "distinct ?names"
    using sort_by_distinct [of "\<lambda>s. s" "remdups (map qu_name ?l @ map qu_name ?r)"] by simp
  have "list_all (row_is_backed b c) (cx_rows x)" by (simp add: x(1) list_all_iff row_backed)
  then show ?thesis
    using Inr names members dist sort_by_sorted x(2-) verdict_counts [of "cx_rows x"] by simp
qed

text \<open>Against a baseline median of zero every candidate is called the same.\<close>

theorem zero_baseline_hides_slowdown: "judge 0 60000 = Same"
  by code_simp

end
