(* ===== verification/Units.thy ===== *)
theory Units
  imports Json Base64
begin

text \<open>
  Airlift durations and sizes as they appear in Trino's JSON, and cutting text to a number of bytes
  (\<^verbatim>\<open>collector/units.py\<close>). Numbers are exact rationals where the code has floats. UTF-8 is that of
  code points below 256: one byte, or a lead byte and one continuation byte.
\<close>

unbundle bit_operations_syntax

section \<open>Numbers with a unit\<close>

definition digits_of :: "string \<Rightarrow> string" where
  "digits_of s = takeWhile is_ascii_digit s"

definition fraction_value :: "string \<Rightarrow> rat" where
  "fraction_value ds = of_nat (digits_value ds) / 10 ^ length ds"

text \<open>\<open>[0-9]*\.?[0-9]+\<close> at the head of a text: its value and the rest.\<close>

definition leading_number :: "string \<Rightarrow> (rat \<times> string) option" where
  "leading_number s =
     (let whole = digits_of s; rest = drop (length whole) s
      in case rest of
           c # cs \<Rightarrow>
             (if c = CHR ''.''
              then (let frac = digits_of cs
                    in if frac = [] then None
                       else Some (of_nat (digits_value whole) + fraction_value frac, drop (length frac) cs))
              else if whole = [] then None else Some (of_nat (digits_value whole), rest))
         | [] \<Rightarrow> (if whole = [] then None else Some (of_nat (digits_value whole), [])))"

definition number_unit :: "(string \<times> rat) list \<Rightarrow> string \<Rightarrow> rat option" where
  "number_unit units s =
     (case leading_number (strip s) of
        None \<Rightarrow> None
      | Some (x, rest) \<Rightarrow> map_option (\<lambda>u. x * u) (map_of units (dropWhile is_space rest)))"

definition DURATION_TO_MS :: "(string \<times> rat) list" where
  "DURATION_TO_MS =
     [(''ns'', 1 / 1000000), (''us'', 1 / 1000), (''ms'', 1), (''s'', 1000), (''m'', 60000),
      (''h'', 3600000), (''d'', 86400000)]"

definition DATASIZE_TO_BYTES :: "(string \<times> rat) list" where
  "DATASIZE_TO_BYTES =
     [(''B'', 1), (''kB'', 2 ^ 10), (''MB'', 2 ^ 20), (''GB'', 2 ^ 30), (''TB'', 2 ^ 40),
      (''PB'', 2 ^ 50), (''EB'', 2 ^ 60)]"

definition parse_duration_ms :: "json \<Rightarrow> rat option" where
  "parse_duration_ms j =
     (case j of JNum n \<Rightarrow> Some n | JStr s \<Rightarrow> number_unit DURATION_TO_MS s | _ \<Rightarrow> None)"

definition parse_data_size_bytes :: "json \<Rightarrow> int option" where
  "parse_data_size_bytes j =
     (case j of JNum n \<Rightarrow> Some (py_trunc n)
      | JStr s \<Rightarrow> map_option py_trunc (number_unit DATASIZE_TO_BYTES s)
      | _ \<Rightarrow> None)"

section \<open>Cutting text\<close>

definition continuation :: "8 word \<Rightarrow> bool" where
  "continuation b \<longleftrightarrow> b AND 0xC0 = 0x80"

definition lead_byte :: "8 word \<Rightarrow> bool" where
  "lead_byte b \<longleftrightarrow> b AND 0xC0 = 0xC0"

definition drop_partial :: "bytes \<Rightarrow> bytes" where
  "drop_partial bs =
     (let r = rev (dropWhile continuation (rev bs))
      in if r \<noteq> [] \<and> lead_byte (last r) then butlast r else r)"

text \<open>\<open>bytes.decode("utf-8", errors="ignore")\<close> of one- and two-byte sequences.\<close>

fun utf8_decode :: "bytes \<Rightarrow> string" where
  "utf8_decode [] = []"
| "utf8_decode [b] = (if unat b < 128 then [char_of (unat b)] else [])"
| "utf8_decode (b # d # bs) =
     (if unat b < 128 then char_of (unat b) # utf8_decode (d # bs)
      else if (unat b = 194 \<or> unat b = 195) \<and> continuation d
      then char_of (64 * (unat b - 192) + (unat d - 128)) # utf8_decode bs
      else utf8_decode (d # bs))"

definition truncate_utf8 :: "string \<Rightarrow> int \<Rightarrow> string \<times> bool" where
  "truncate_utf8 s max_bytes =
     (if max_bytes \<le> 0 then ([], s \<noteq> [])
      else if int (length (utf8 s)) \<le> max_bytes then (s, False)
      else (utf8_decode (drop_partial (take (nat max_bytes) (utf8 s))), True))"

section \<open>What is cut is a prefix that fits\<close>

lemma unat_of_byte: "k < 256 \<Longrightarrow> unat (of_nat k :: 8 word) = k"
  by (simp add: unat_of_nat)

lemma nat_and_top: "(n :: nat) AND 192 = n div 64 mod 4 * 64"
proof -
  have "n AND push_bit 6 (mask 2) = push_bit 6 (take_bit 2 (drop_bit 6 n))"
    by (rule bit_eqI) (auto simp: bit_simps)
  then show ?thesis by (simp add: push_bit_eq_mult take_bit_eq_mod drop_bit_eq_div mask_eq_exp_minus_1)
qed

lemma unat_and_top: "unat ((b :: 8 word) AND 0xC0) = unat b div 64 * 64"
proof -
  have "unat b < 256" by (rule unat_byte)
  then show ?thesis by (simp add: unsigned_and_eq nat_and_top)
qed

lemma continuation_iff: "continuation b \<longleftrightarrow> unat b div 64 = 2"
proof -
  have "continuation b \<longleftrightarrow> unat (b AND 0xC0) = 128"
    by (simp add: continuation_def word_unat_eq_iff)
  then show ?thesis unfolding unat_and_top by simp
qed

lemma lead_byte_iff: "lead_byte b \<longleftrightarrow> unat b div 64 = 3"
proof -
  have "lead_byte b \<longleftrightarrow> unat (b AND 0xC0) = 192"
    by (simp add: lead_byte_def word_unat_eq_iff)
  then show ?thesis unfolding unat_and_top by simp
qed

lemma utf8_char_cases:
  obtains (one) b where "utf8_char c = [b]" "\<not> continuation b" "\<not> lead_byte b" "unat b < 128"
      "char_of (unat b) = c"
  | (two) b d where "utf8_char c = [b, d]" "\<not> continuation b" "lead_byte b" "continuation d"
      "unat b = 194 \<or> unat b = 195" "char_of (64 * (unat b - 192) + (unat d - 128)) = c"
proof (cases "PyText.code c < 128")
  case True
  define b :: "8 word" where "b = of_nat (PyText.code c)"
  have u: "unat b = PyText.code c" using True by (simp add: b_def unat_of_nat)
  show thesis
  proof (rule one)
    show "utf8_char c = [b]" using True by (simp add: utf8_char_def b_def)
    show "char_of (unat b) = c" unfolding u PyText.code_def by simp
  qed (use u True in \<open>simp_all add: continuation_iff lead_byte_iff\<close>)
next
  case False
  define b d :: "8 word" where "b = of_nat (192 + PyText.code c div 64)" and "d = of_nat (128 + PyText.code c mod 64)"
  have lt: "PyText.code c < 256" unfolding PyText.code_def by simp
  have u: "unat b = 192 + PyText.code c div 64" "unat d = 128 + PyText.code c mod 64"
    unfolding b_def d_def by (rule unat_of_byte, use lt in linarith)+
  show thesis
  proof (rule two)
    show "utf8_char c = [b, d]" using False by (simp add: utf8_char_def b_def d_def Let_def)
    have "64 * (unat b - 192) + (unat d - 128) = PyText.code c" unfolding u by simp
    then show "char_of (64 * (unat b - 192) + (unat d - 128)) = c"
      by (simp only: PyText.code_def char_of_char)
    have "unat b div 64 = 3" "unat d div 64 = 2" using lt u by simp_all
    then show "\<not> continuation b" "lead_byte b" "continuation d"
      by (simp_all add: continuation_iff lead_byte_iff)
    show "unat b = 194 \<or> unat b = 195" using lt False unfolding u by linarith
  qed
qed

lemma utf8_simps [simp]: "utf8 [] = []" "utf8 (c # s) = utf8_char c @ utf8 s" "utf8 (s @ t) = utf8 s @ utf8 t"
  by (simp_all add: utf8_def)

lemma decode_ascii: "unat b < 128 \<Longrightarrow> utf8_decode (b # bs) = char_of (unat b) # utf8_decode bs"
  by (cases bs) auto

lemma decode_utf8: "utf8_decode (utf8 s) = s"
proof (induction s)
  case (Cons c s)
  show ?case by (rule utf8_char_cases [of c]) (use Cons in \<open>auto simp: decode_ascii\<close>)
qed simp

lemma drop_partial_lead: "\<not> continuation b \<Longrightarrow> lead_byte b \<Longrightarrow> drop_partial (bs @ [b]) = bs"
  by (simp add: drop_partial_def)

lemma drop_partial_utf8: "\<exists>m. drop_partial (utf8 s) = utf8 (take m s)"
proof (cases s rule: rev_cases)
  case Nil
  then show ?thesis by (auto simp: drop_partial_def)
next
  case (snoc t c)
  show ?thesis
  proof (rule utf8_char_cases [of c])
    fix b assume "utf8_char c = [b]" "\<not> continuation b" "\<not> lead_byte b"
    then have "drop_partial (utf8 s) = utf8 (take (length s) s)" using snoc by (simp add: drop_partial_def)
    then show ?thesis by blast
  next
    fix b d assume "utf8_char c = [b, d]" "\<not> continuation b" "lead_byte b" "continuation d"
    then have "drop_partial (utf8 s) = utf8 (take (length t) s)" using snoc by (simp add: drop_partial_def)
    then show ?thesis by blast
  qed
qed

lemma take_utf8:
  "\<exists>m. take k (utf8 s) = utf8 (take m s) \<or>
       (\<exists>b. take k (utf8 s) = utf8 (take m s) @ [b] \<and> \<not> continuation b \<and> lead_byte b)"
proof (induction s arbitrary: k)
  case (Cons c s)
  show ?case
  proof (rule utf8_char_cases [of c])
    fix b assume c: "utf8_char c = [b]"
    show ?thesis
    proof (cases k)
      case (Suc j)
      obtain m where "take j (utf8 s) = utf8 (take m s) \<or>
          (\<exists>b. take j (utf8 s) = utf8 (take m s) @ [b] \<and> \<not> continuation b \<and> lead_byte b)"
        using Cons.IH by blast
      then show ?thesis using c Suc by (intro exI [of _ "Suc m"]) auto
    qed (auto intro: exI [of _ 0])
  next
    fix b d assume c: "utf8_char c = [b, d]" "\<not> continuation b" "lead_byte b"
    consider "k = 0" | "k = 1" | j where "k = Suc (Suc j)" by (cases k) (auto, metis not0_implies_Suc)
    then show ?thesis
    proof cases
      case 1
      then show ?thesis by (intro exI [of _ 0]) simp
    next
      case 2
      then show ?thesis using c by (intro exI [of _ 0]) simp
    next
      case (3 j)
      obtain m where "take j (utf8 s) = utf8 (take m s) \<or>
          (\<exists>b. take j (utf8 s) = utf8 (take m s) @ [b] \<and> \<not> continuation b \<and> lead_byte b)"
        using Cons.IH by blast
      then show ?thesis using c(1) 3 by (intro exI [of _ "Suc m"]) auto
    qed
  qed
qed simp

lemma drop_partial_take: "\<exists>m. drop_partial (take k (utf8 s)) = utf8 (take m s)"
proof -
  obtain m where "take k (utf8 s) = utf8 (take m s) \<or>
      (\<exists>b. take k (utf8 s) = utf8 (take m s) @ [b] \<and> \<not> continuation b \<and> lead_byte b)"
    using take_utf8 by blast
  then show ?thesis
  proof
    assume eq: "take k (utf8 s) = utf8 (take m s)"
    obtain m' where "drop_partial (utf8 (take m s)) = utf8 (take m' (take m s))"
      using drop_partial_utf8 by blast
    then show ?thesis using eq by auto
  qed (auto simp: drop_partial_lead)
qed

lemma drop_partial_shorter: "length (drop_partial bs) \<le> length bs"
  using length_dropWhile_le [of continuation "rev bs"] by (auto simp: drop_partial_def Let_def simp del: length_dropWhile_le)

text \<open>
  Cutting a query text to a budget of bytes never splits a character: what is shown is a prefix of
  the text, it takes at most the budget (nothing when the budget is not positive), and the flag says
  exactly whether something was left out.
\<close>

theorem truncated_text_is_a_prefix:
  "let (shown, cut_off) = truncate_utf8 s n
   in (\<exists>m. shown = take m s) \<and> int (length (utf8 shown)) \<le> max 0 n \<and> (cut_off = (shown \<noteq> s))"
proof -
  consider "n \<le> 0" | "0 < n" "int (length (utf8 s)) \<le> n" | "0 < n" "n < int (length (utf8 s))" by linarith
  then show ?thesis
  proof cases
    case 3
    obtain m where m: "drop_partial (take (nat n) (utf8 s)) = utf8 (take m s)"
      using drop_partial_take by blast
    have "length (utf8 (take m s)) \<le> nat n"
      using drop_partial_shorter [of "take (nat n) (utf8 s)"] m by simp
    moreover from this 3 have "take m s \<noteq> s" by (intro notI) simp
    ultimately show ?thesis using 3 m by (auto simp: truncate_utf8_def decode_utf8 Let_def)
  qed (auto simp: truncate_utf8_def intro: exI [of _ 0] exI [of _ "length s"])
qed

end
