(* ===== verification/ResourceGroups.thy ===== *)
theory ResourceGroups
  imports TrinoClient "HOL-Library.Multiset"
begin

text \<open>
  Resource groups as the coordinator shows them (\<^verbatim>\<open>collector/resourcegroups.py\<close>): the rows read from
  the MBeans, the diagnosis, the tree, the totals, the collection itself and the comparison with the
  configured groups. What a collector uses of its client is the record \<open>client_ops\<close>, over the client's
  own state; \<open>trino_ops\<close> is the client of \<open>TrinoClient\<close>. Floats are rationals.
\<close>

section \<open>The client as the collector sees it\<close>

text \<open>\<open>type(exc).__name__\<close>, \<open>str(exc)\<close> and \<open>exc.advice\<close> of \<^verbatim>\<open>clients/errors.py\<close>; \<open>NotIterable\<close> is the
  interpreter's TypeError and no client error.\<close>

fun exn_class :: "client_exn \<Rightarrow> string" where
  "exn_class (Unavailable m) = ''TrinoUnavailable''"
| "exn_class (CircuitOpen m) = ''CircuitOpen''"
| "exn_class (Unauthorized m) = ''TrinoUnauthorized''"
| "exn_class (ForbiddenBy m) = ''TrinoForbidden''"
| "exn_class (MissingResource m) = ''TrinoNotFound''"
| "exn_class (MBeanNotRegistered m) = ''MBeanNotRegistered''"
| "exn_class (ProtocolError m) = ''TrinoProtocolError''"
| "exn_class NotIterable = ''TypeError''"

fun exn_message :: "client_exn \<Rightarrow> string" where
  "exn_message (Unavailable m) = m"
| "exn_message (CircuitOpen m) = m"
| "exn_message (Unauthorized m) = m"
| "exn_message (ForbiddenBy m) = m"
| "exn_message (MissingResource m) = m"
| "exn_message (MBeanNotRegistered m) = m"
| "exn_message (ProtocolError m) = m"
| "exn_message NotIterable = []"

definition exn_text :: "client_exn \<Rightarrow> string" where
  "exn_text e = exn_class e @ '': '' @ exn_message e"

definition is_client_error :: "client_exn \<Rightarrow> bool" where
  "is_client_error e \<longleftrightarrow> e \<noteq> NotIterable"

text \<open>The advice of each class; the dashes of the source are written as two hyphens.\<close>

fun exn_advice :: "client_exn \<Rightarrow> string" where
  "exn_advice (Unavailable m) =
     ''The coordinator could not be reached. Check its systemd unit and logs -- this cluster may not be accepting new queries.''"
| "exn_advice (CircuitOpen m) =
     ''Calls to this coordinator are paused after repeated failures. They resume automatically once the breaker closes. Check the coordinator.''"
| "exn_advice (Unauthorized m) =
     ''Authentication failed (401). Check the tms-svc account and password (config.secret.yaml or TMS_TRINO_PASSWORD). Note that basic auth only works over HTTPS.''"
| "exn_advice (ForbiddenBy m) =
     ''Authorization denied (403). Check the tms-svc grants in rules.json -- JMX and /metrics need system_information: read; listing and killing queries need queries: view and queries: kill.''"
| "exn_advice (MissingResource m) = ''Not found. The query may have already finished.''"
| "exn_advice (MBeanNotRegistered m) =
     ''This MBean is not registered on the server (500). A Trino upgrade may have renamed it -- enumerate GET /v1/jmx/mbean and trust that list over the documentation.''"
| "exn_advice (ProtocolError m) = ''The response shape was not what we expect. Check whether Trino was upgraded.''"
| "exn_advice NotIterable = []"

record 'c client_ops =
  op_info :: "'c \<Rightarrow> (client_exn + json pydict) \<times> 'c"
  op_names :: "'c \<Rightarrow> (client_exn + string list) \<times> 'c"
  op_mbean :: "string \<Rightarrow> 'c \<Rightarrow> (client_exn + json pydict) \<times> 'c"
  op_queries :: "'c \<Rightarrow> (client_exn + query_list) \<times> 'c"

text \<open>The client of the program: each call has its own answers and clock readings, and what it sent is
  kept.\<close>

record trino_session =
  ts_client :: trino_client
  ts_calls :: nat
  ts_effects :: "effect list"

definition in_session ::
    "(nat \<Rightarrow> call_env) \<Rightarrow> (call_env \<Rightarrow> trino_client \<Rightarrow> 'a called) \<Rightarrow> trino_session \<Rightarrow>
     (client_exn + 'a) \<times> trino_session" where
  "in_session evs f s =
     (case f (evs (ts_calls s)) (ts_client s) of
        (r, c, eff) \<Rightarrow> (r, s\<lparr>ts_client := c, ts_calls := ts_calls s + 1, ts_effects := ts_effects s @ eff\<rparr>))"

definition trino_ops :: "(json \<Rightarrow> string) \<Rightarrow> (nat \<Rightarrow> call_env) \<Rightarrow> trino_session client_ops" where
  "trino_ops sh evs =
     \<lparr>op_info = in_session evs get_server_info, op_names = in_session evs (list_mbean_names sh),
      op_mbean = (\<lambda>name. in_session evs (\<lambda>ev. get_mbean sh ev name)),
      op_queries = in_session evs (\<lambda>ev. list_queries ev None)\<rparr>"

section \<open>One group\<close>

definition MBEAN_DOMAIN :: string where "MBEAN_DOMAIN = ''trino.execution.resourcegroups''"
definition GROUP_MBEAN_PREFIX :: string where
  "GROUP_MBEAN_PREFIX = MBEAN_DOMAIN @ '':type=InternalResourceGroup,name=''"

definition UNLIMITED_FLOOR :: rat where "UNLIMITED_FLOOR = of_int (9223372036854775807 div 2)"

datatype bottleneck = REJECTING | CONCURRENCY_CAPPED | MEMORY_CAPPED | CPU_CAPPED

text \<open>\<open>s.split(".")\<close> without the empty parts.\<close>

fun split_dots :: "string \<Rightarrow> string \<Rightarrow> string list" where
  "split_dots acc [] = (if acc = [] then [] else [rev acc])"
| "split_dots acc (c # cs) =
     (if c = CHR ''.'' then (if acc = [] then [] else [rev acc]) @ split_dots [] cs
      else split_dots (c # acc) cs)"

definition group_path :: "string \<Rightarrow> string list option" where
  "group_path object_name =
     (if take (length GROUP_MBEAN_PREFIX) object_name \<noteq> GROUP_MBEAN_PREFIX then None
      else let raw = strip (drop (length GROUP_MBEAN_PREFIX) object_name)
           in if raw = [] then None else Some (split_dots [] raw))"

definition number_attr :: "json pydict \<Rightarrow> string \<Rightarrow> rat option" where
  "number_attr attributes name = number_only (dget name attributes)"

definition limit_attr :: "json pydict \<Rightarrow> string \<Rightarrow> rat option" where
  "limit_attr attributes name =
     (case number_attr attributes name of
        None \<Rightarrow> None
      | Some v \<Rightarrow> (if v \<ge> UNLIMITED_FLOOR \<or> v \<le> 0 then None else Some v))"

record group_row =
  g_path :: "string list"
  g_running :: int
  g_queued :: int
  g_waiting :: int
  g_hard_concurrency :: "rat option"
  g_soft_concurrency :: "rat option"
  g_max_queued :: "rat option"
  g_soft_memory :: "rat option"
  g_hard_cpu :: "rat option"
  g_memory :: "rat option"
  g_cpu :: "rat option"
  g_input :: "rat option"
  g_policy :: json
  g_weight :: "rat option"
  g_started :: "rat option"
  g_bottleneck :: "bottleneck option"

definition g_id :: "group_row \<Rightarrow> string" where
  "g_id g = join ''.'' (g_path g)"

text \<open>\<open>x and used and used >= x\<close> for a limit that is None or positive.\<close>

definition reached :: "rat option \<Rightarrow> rat \<Rightarrow> bool" where
  "reached limit used \<longleftrightarrow> (case limit of None \<Rightarrow> False | Some x \<Rightarrow> x \<noteq> 0 \<and> used \<ge> x)"

definition diagnose :: "group_row \<Rightarrow> bottleneck option" where
  "diagnose g =
     (if reached (g_max_queued g) (of_int (g_queued g)) then Some REJECTING
      else if g_queued g \<le> 0 then None
      else if reached (g_hard_concurrency g) (of_int (g_running g)) then Some CONCURRENCY_CAPPED
      else if (case g_memory g of Some m \<Rightarrow> m \<noteq> 0 \<and> reached (g_soft_memory g) m | None \<Rightarrow> False)
      then Some MEMORY_CAPPED
      else if (case g_cpu g of Some m \<Rightarrow> m \<noteq> 0 \<and> reached (g_hard_cpu g) m | None \<Rightarrow> False)
      then Some CPU_CAPPED
      else None)"

definition count_attr :: "json pydict \<Rightarrow> string \<Rightarrow> int" where
  "count_attr attributes name = (case number_attr attributes name of None \<Rightarrow> 0 | Some v \<Rightarrow> py_trunc v)"

definition summarise_group :: "string list \<Rightarrow> json pydict \<Rightarrow> group_row" where
  "summarise_group path a =
     (let g = \<lparr>g_path = path, g_running = count_attr a ''RunningQueries'',
               g_queued = count_attr a ''QueuedQueries'', g_waiting = count_attr a ''WaitingQueuedQueries'',
               g_hard_concurrency = limit_attr a ''HardConcurrencyLimit'',
               g_soft_concurrency = limit_attr a ''SoftConcurrencyLimit'',
               g_max_queued = limit_attr a ''MaxQueuedQueries'',
               g_soft_memory = limit_attr a ''SoftMemoryLimitBytes'',
               g_hard_cpu = limit_attr a ''HardCpuLimitMillis'',
               g_memory = number_attr a ''MemoryUsageBytes'', g_cpu = number_attr a ''CpuUsageMillis'',
               g_input = number_attr a ''PhysicalInputDataUsageBytes'', g_policy = dget ''SchedulingPolicy'' a,
               g_weight = number_attr a ''SchedulingWeight'',
               g_started = number_attr a ''StartedQueries.TotalCount'', g_bottleneck = None\<rparr>
      in g\<lparr>g_bottleneck := diagnose g\<rparr>)"

section \<open>The tree\<close>

fun path_less :: "string list \<Rightarrow> string list \<Rightarrow> bool" where
  "path_less _ [] = False"
| "path_less [] (_ # _) = True"
| "path_less (a # as) (b # bs) = (str_less a b \<or> (a = b \<and> path_less as bs))"

fun insert_by_path :: "group_row \<Rightarrow> group_row list \<Rightarrow> group_row list" where
  "insert_by_path g [] = [g]"
| "insert_by_path g (h # hs) =
     (if path_less (g_path h) (g_path g) then h # insert_by_path g hs else g # h # hs)"

definition by_path :: "group_row list \<Rightarrow> group_row list" where
  "by_path gs = foldr insert_by_path gs []"

text \<open>\<open>by_id\<close> in insertion order, and the parent's id (None where there is no dotted prefix).\<close>

definition nodes_by_id :: "group_row list \<Rightarrow> group_row list" where
  "nodes_by_id gs = map snd (foldl (\<lambda>d g. dset (g_id g) g d) [] (by_path gs))"

definition g_parent :: "group_row \<Rightarrow> string option" where
  "g_parent g = (let p = join ''.'' (butlast (g_path g)) in if p = [] then None else Some p)"

datatype group_tree = GroupNode (tree_row: group_row) (tree_children: "group_tree list")

lemma join_snoc: "xs \<noteq> [] \<Longrightarrow> join sep (xs @ [x]) = join sep xs @ sep @ x"
  by (induction sep xs rule: join.induct) auto

lemma parent_shorter: "g_parent c = Some i \<Longrightarrow> length i < length (g_id c)"
proof -
  assume p: "g_parent c = Some i"
  then have i: "i = join ''.'' (butlast (g_path c))" "i \<noteq> []"
    by (auto simp: g_parent_def Let_def split: if_splits)
  then have ne: "butlast (g_path c) \<noteq> []" by auto
  then have "g_path c = butlast (g_path c) @ [List.last (g_path c)]" by (metis append_butlast_last_id butlast.simps(1))
  then have "g_id c = i @ ''.'' @ List.last (g_path c)" unfolding g_id_def i(1) using join_snoc [OF ne] by metis
  then show ?thesis by simp
qed

definition longest_id :: "group_row list \<Rightarrow> nat" where
  "longest_id ns = foldr (\<lambda>g n. max (length (g_id g)) n) ns 0"

lemma longest_id: "g \<in> set ns \<Longrightarrow> length (g_id g) \<le> longest_id ns"
  by (induction ns) (auto simp: longest_id_def)

function subtree :: "group_row list \<Rightarrow> group_row \<Rightarrow> group_tree" where
  "subtree ns g = GroupNode g (map (\<lambda>c. subtree ns c) (filter (\<lambda>c. g_parent c = Some (g_id g)) ns))"
  by pat_completeness auto
termination subtree
proof (relation "measure (\<lambda>(ns, g). Suc (longest_id ns) - length (g_id g))")
  fix ns g c assume "c \<in> set (filter (\<lambda>c. g_parent c = Some (g_id g)) ns)"
  then show "((ns, c), (ns, g)) \<in> measure (\<lambda>(ns, g). Suc (longest_id ns) - length (g_id g))"
    using parent_shorter [of c "g_id g"] longest_id [of c ns] by auto
qed simp

declare subtree.simps [simp del]

definition is_root :: "group_row list \<Rightarrow> group_row \<Rightarrow> bool" where
  "is_root ns g \<longleftrightarrow> (case g_parent g of None \<Rightarrow> True | Some p \<Rightarrow> p \<notin> g_id ` set ns)"

definition build_tree :: "group_row list \<Rightarrow> group_tree list" where
  "build_tree gs =
     (let ns = nodes_by_id gs
      in sort_by (\<lambda>t. g_id (tree_row t)) (map (subtree ns) (filter (is_root ns) ns)))"

fun tree_groups :: "group_tree \<Rightarrow> group_row list" where
  "tree_groups (GroupNode g ts) = g # concat (map tree_groups ts)"

text \<open>Descent in the tree, for a list of rows with distinct ids.\<close>

inductive under :: "group_row list \<Rightarrow> group_row \<Rightarrow> group_row \<Rightarrow> bool" for ns where
  self: "under ns g g"
| child: "under ns g p \<Longrightarrow> c \<in> set ns \<Longrightarrow> g_parent c = Some (g_id p) \<Longrightarrow> under ns g c"

lemma under_longer: "under ns g m \<Longrightarrow> g = m \<or> length (g_id g) < length (g_id m)"
proof (induction rule: under.induct)
  case (child g p c)
  then show ?case using parent_shorter [of c "g_id p"] by auto
qed simp

lemma under_from_child:
  "under ns c m \<Longrightarrow> c \<in> set ns \<Longrightarrow> g_parent c = Some (g_id g) \<Longrightarrow> under ns g m"
  by (induction rule: under.induct) (auto intro: under.intros)

lemma under_first:
  "under ns g m \<Longrightarrow> m = g \<or> (\<exists>c\<in>set ns. g_parent c = Some (g_id g) \<and> under ns c m)"
proof (induction rule: under.induct)
  case (child g p c)
  then show ?case using under.self [of ns c] under.child [of ns _ p c] by blast
qed simp

lemma subtree_groups: "set (tree_groups (subtree ns g)) = {m. under ns g m}"
proof (induction ns g rule: subtree.induct)
  case (1 ns g)
  have "set (tree_groups (subtree ns g)) =
      insert g (\<Union>c \<in> {c \<in> set ns. g_parent c = Some (g_id g)}. {m. under ns c m})"
    using "1.IH" by (subst subtree.simps) auto
  also have "\<dots> = {m. under ns g m}"
    using under_first [of ns g] under_from_child [of ns] under.self [of ns g] by blast
  finally show ?case .
qed

lemma under_linear:
  assumes "under ns a m" "distinct (map g_id ns)" "a \<in> set ns"
  shows "under ns b m \<Longrightarrow> b \<in> set ns \<Longrightarrow> under ns a b \<or> under ns b a"
  using assms(1,3)
proof (induction rule: under.induct)
  case (self g)
  then show ?case by simp
next
  case (child a p c)
  have p: "p \<in> set ns" using child.hyps(1) child.prems by (cases rule: under.cases) auto
  from child.prems(1) show ?case
  proof (cases rule: under.cases)
    case self
    then show ?thesis using under.child [OF child.hyps] by simp
  next
    case (child p')
    have "p' \<in> set ns" using child(1) \<open>b \<in> set ns\<close> by (cases rule: under.cases) auto
    then have "p' = p" using child(3) \<open>g_parent c = Some (g_id p)\<close> p assms(2)
      by (auto simp: distinct_map inj_on_def)
    then show ?thesis using child.IH [OF _ \<open>b \<in> set ns\<close>] child(1) \<open>a \<in> set ns\<close> by simp
  qed
qed

text \<open>Two rows of which neither is above the other have nothing below them in common.\<close>

lemma under_apart:
  assumes "distinct (map g_id ns)" "a \<in> set ns" "b \<in> set ns" "\<not> under ns a b" "\<not> under ns b a"
  shows "{m. under ns a m} \<inter> {m. under ns b m} = {}"
  using under_linear [OF _ assms(1,2) _ assms(3)] assms(4,5) by blast

lemma sibling_not_under:
  assumes "under ns a b" "a \<noteq> b" "g_parent a = Some i" "g_parent b = Some i"
  shows False
  using assms(1)
proof (cases rule: under.cases)
  case (child p)
  then show ?thesis using assms under_longer [OF child(1)] parent_shorter [of a i] by auto
qed (use assms(2) in simp)

lemma distinct_concat_apart:
  "distinct xs \<Longrightarrow> (\<And>x. x \<in> set xs \<Longrightarrow> distinct (f x)) \<Longrightarrow>
   (\<And>x y. x \<in> set xs \<Longrightarrow> y \<in> set xs \<Longrightarrow> x \<noteq> y \<Longrightarrow> set (f x) \<inter> set (f y) = {}) \<Longrightarrow>
   distinct (concat (map f xs))"
proof (induction xs)
  case (Cons x xs)
  have "set (f x) \<inter> set (f y) = {}" if "y \<in> set xs" for y
    using Cons.prems(1,3) that by (metis distinct.simps(2) list.set_intros)
  with Cons show ?case by auto
qed simp

lemma subtree_distinct:
  assumes "distinct (map g_id ns)"
  shows "distinct (tree_groups (subtree ns g))"
  using assms
proof (induction ns g rule: subtree.induct)
  case (1 ns g)
  let ?cs = "filter (\<lambda>c. g_parent c = Some (g_id g)) ns"
  have d: "distinct ?cs" using 1(2) by (simp add: distinct_map)
  have apart: "set (tree_groups (subtree ns a)) \<inter> set (tree_groups (subtree ns b)) = {}"
    if "a \<in> set ?cs" "b \<in> set ?cs" "a \<noteq> b" for a b
    using that under_apart [OF 1(2), of a b] sibling_not_under unfolding subtree_groups by auto
  have below: "g \<notin> set (tree_groups (subtree ns c))" if "c \<in> set ?cs" for c
  proof
    assume "g \<in> set (tree_groups (subtree ns c))"
    then have "under ns c g" by (simp add: subtree_groups)
    then show False using under_longer [of ns c g] parent_shorter [of c "g_id g"] that by auto
  qed
  have "distinct (concat (map (\<lambda>c. tree_groups (subtree ns c)) ?cs))"
    by (rule distinct_concat_apart [OF d]) (use 1 apart in auto)
  then show ?case using below by (subst subtree.simps) (auto simp: o_def)
qed

lemma under_root:
  "m \<in> set ns \<Longrightarrow> \<exists>r\<in>set ns. is_root ns r \<and> under ns r m"
proof (induction "length (g_id m)" arbitrary: m rule: less_induct)
  case less
  show ?case
  proof (cases "is_root ns m")
    case True
    then show ?thesis using less.prems under.self by blast
  next
    case False
    then obtain p where p: "g_parent m = Some (g_id p)" "p \<in> set ns"
      by (auto simp: is_root_def split: option.splits)
    then obtain r where "r \<in> set ns" "is_root ns r" "under ns r p"
      using less.hyps [of p] parent_shorter by blast
    then show ?thesis using under.child [OF _ less.prems p(1)] by blast
  qed
qed

lemma root_not_under:
  assumes "under ns a b" "a \<in> set ns" "is_root ns b"
  shows "a = b"
  using assms(1)
proof (cases rule: under.cases)
  case (child p)
  then have "p \<in> set ns" using assms(2) by (auto elim: under.cases)
  then show ?thesis using child assms(3) by (auto simp: is_root_def)
qed simp

lemma forest_groups:
  fixes ns :: "group_row list"
  assumes d: "distinct (map g_id ns)"
  defines "fs \<equiv> concat (map (\<lambda>r. tree_groups (subtree ns r)) (filter (is_root ns) ns))"
  shows "distinct fs" "set fs = set ns"
proof -
  show "distinct fs" unfolding fs_def
  proof (rule distinct_concat_apart)
    fix a b assume "a \<in> set (filter (is_root ns) ns)" "b \<in> set (filter (is_root ns) ns)" "a \<noteq> b"
    then show "set (tree_groups (subtree ns a)) \<inter> set (tree_groups (subtree ns b)) = {}"
      using under_apart [OF d, of a b] root_not_under [of ns] unfolding subtree_groups by auto
  qed (use d subtree_distinct in \<open>auto simp: distinct_map\<close>)
  have "m \<in> set ns" if "under ns r m" "r \<in> set ns" for r m
    using that by (induction rule: under.induct) auto
  then show "set fs = set ns" unfolding fs_def using under_root [of _ ns] by (fastforce simp: subtree_groups)
qed

lemma mset_insert_sorted [simp]: "mset (insert_sorted k x xs) = add_mset x (mset xs)"
  by (induction xs) auto

lemma mset_sort_by [simp]: "mset (sort_by k xs) = mset xs"
  by (induction xs) auto

lemma set_insert_by_path [simp]: "set (insert_by_path g hs) = insert g (set hs)"
  by (induction hs) auto

lemma set_by_path [simp]: "set (by_path gs) = set gs"
  by (induction gs) (auto simp: by_path_def)

lemma mset_concat_map:
  "mset (concat (map f xs)) = (\<Sum>x\<in>#mset xs. mset (f x))"
  by (induction xs) simp_all

lemma nodes_by_id:
  "distinct (map g_id (nodes_by_id gs))" "set (nodes_by_id gs) \<subseteq> set gs"
  "g_id ` set (nodes_by_id gs) = g_id ` set gs"
proof -
  have fold: "distinct (map fst e) \<and> (\<forall>(k, g)\<in>set e. k = g_id g \<and> g \<in> set hs \<union> snd ` set d) \<and>
      fst ` set e = fst ` set d \<union> g_id ` set hs"
    if "e = foldl (\<lambda>d g. dset (g_id g) g d) d hs" "distinct (map fst d)" "\<forall>(k, g)\<in>set d. k = g_id g"
    for d e hs
    using that
  proof (induction hs arbitrary: d)
    case Nil
    then show ?case by force
  next
    case (Cons h hs)
    have sub: "set (dset (g_id h) h d) \<subseteq> insert (g_id h, h) (set d)" by (rule dset_entries)
    then have "\<forall>(k, g)\<in>set (dset (g_id h) h d). k = g_id g" using Cons.prems(3) by auto
    with Cons.IH [of "dset (g_id h) h d"] Cons.prems
    have ih: "distinct (map fst e) \<and>
        (\<forall>(k, g)\<in>set e. k = g_id g \<and> g \<in> set hs \<union> snd ` set (dset (g_id h) h d)) \<and>
        fst ` set e = fst ` set (dset (g_id h) h d) \<union> g_id ` set hs" by simp
    have "snd ` set (dset (g_id h) h d) \<subseteq> insert h (snd ` set d)" using sub by force
    moreover have "snd x \<in> set hs \<union> snd ` set (dset (g_id h) h d)" "fst x = g_id (snd x)" if "x \<in> set e" for x
      using ih that by (auto simp: case_prod_beta)
    ultimately have "\<forall>x\<in>set e. fst x = g_id (snd x) \<and> snd x \<in> set (h # hs) \<union> snd ` set d"
      by (metis (no_types, lifting) Un_iff insert_iff list.set(2) subsetD)
    then show ?case using ih by (simp add: case_prod_beta)
  qed
  define e where "e = foldl (\<lambda>d g. dset (g_id g) g d) [] (by_path gs)"
  have e: "distinct (map fst e)" "\<forall>(k, g)\<in>set e. k = g_id g \<and> g \<in> set gs" "fst ` set e = g_id ` set gs"
    using fold [OF e_def] by auto
  have k: "map fst e = map g_id (nodes_by_id gs)" using e(2) by (auto simp: nodes_by_id_def e_def [symmetric])
  show "distinct (map g_id (nodes_by_id gs))" using e(1) k by simp
  show "set (nodes_by_id gs) \<subseteq> set gs" using e(2) by (auto simp: nodes_by_id_def e_def [symmetric])
  show "g_id ` set (nodes_by_id gs) = g_id ` set gs" using e(3) k by (metis list.set_map)
qed

text \<open>The tree shows every collected group exactly once, whether or not its parent exports an MBean: a
  group without a parent row is at the top.\<close>

theorem tree_shows_every_group_once:
  "let shown = concat (map tree_groups (build_tree gs))
   in distinct (map g_id shown) \<and> g_id ` set shown = g_id ` set gs \<and> set shown \<subseteq> set gs \<and>
      list_all (\<lambda>t. is_root (nodes_by_id gs) (tree_row t)) (build_tree gs)"
proof -
  let ?ns = "nodes_by_id gs" and ?shown = "concat (map tree_groups (build_tree gs))"
  let ?fs = "concat (map (\<lambda>r. tree_groups (subtree ?ns r)) (filter (is_root ?ns) ?ns))"
  have "mset ?shown = mset ?fs"
    by (simp only: mset_concat_map build_tree_def Let_def mset_sort_by mset_map image_mset.compositionality o_def)
  then have shown: "set ?shown = set ?ns" "distinct ?shown"
    using forest_groups [OF nodes_by_id(1), of gs] mset_eq_setD mset_eq_imp_distinct_iff by metis+
  have "distinct (map g_id ?shown)"
    using shown nodes_by_id(1) [of gs] by (simp add: distinct_map)
  moreover have "list_all (\<lambda>t. is_root ?ns (tree_row t)) (build_tree gs)"
    by (auto simp: build_tree_def Let_def list_all_iff subtree.simps)
  ultimately show ?thesis using shown nodes_by_id(2,3) [of gs] by (auto simp: Let_def)
qed

section \<open>Totals and the collection\<close>

fun bottleneck_code :: "bottleneck \<Rightarrow> string" where
  "bottleneck_code REJECTING = ''queue_full''"
| "bottleneck_code CONCURRENCY_CAPPED = ''concurrency_limit''"
| "bottleneck_code MEMORY_CAPPED = ''memory_limit''"
| "bottleneck_code CPU_CAPPED = ''cpu_limit''"

text \<open>The sentence of each diagnosis, the dash written as two hyphens.\<close>

fun bottleneck_text :: "bottleneck \<Rightarrow> string" where
  "bottleneck_text REJECTING = ''Queue full -- new queries rejected''"
| "bottleneck_text CONCURRENCY_CAPPED = ''At concurrency limit''"
| "bottleneck_text MEMORY_CAPPED = ''At memory limit''"
| "bottleneck_text CPU_CAPPED = ''At CPU limit''"

text \<open>\<open>sorted(xs, key=k, reverse=True)\<close>: larger first, equal ones in their order.\<close>

fun insert_larger :: "('a \<Rightarrow> int) \<Rightarrow> 'a \<Rightarrow> 'a list \<Rightarrow> 'a list" where
  "insert_larger k x [] = [x]"
| "insert_larger k x (y # ys) = (if k x < k y then y # insert_larger k x ys else x # y # ys)"

record group_totals =
  gt_groups :: nat
  gt_running :: int
  gt_queued :: int
  gt_blocked :: "(string \<times> bottleneck \<times> int) list"

definition rollup :: "group_row list \<Rightarrow> group_totals" where
  "rollup gs =
     \<lparr>gt_groups = length gs, gt_running = sum_list (map g_running gs), gt_queued = sum_list (map g_queued gs),
      gt_blocked = foldr (insert_larger (\<lambda>(_, _, q). q))
        (List.map_filter (\<lambda>g. map_option (\<lambda>b. (g_id g, b, g_queued g)) (g_bottleneck g)) gs) []\<rparr>"

record collection =
  cl_groups :: "group_row list"
  cl_tree :: "group_tree list"
  cl_totals :: group_totals
  cl_error :: "string option"
  cl_advice :: "string option"

definition new_collection :: "group_row list \<Rightarrow> string option \<Rightarrow> string option \<Rightarrow> collection" where
  "new_collection gs e a =
     \<lparr>cl_groups = gs, cl_tree = build_tree gs, cl_totals = rollup gs, cl_error = e, cl_advice = a\<rparr>"

definition NO_GROUPS_ADVICE :: string where
  "NO_GROUPS_ADVICE = ''No resource group MBeans are registered. Either no group has admitted a query yet, or resource-groups.json is missing \"jmxExport\": true - groups without it are invisible to TMS. See DESIGN_R2.md 1-2.''"

text \<open>The reads of the groups, in order: the rows, the number of failures and the first failure that
  carries an advice. An exception that is no client error leaves the loop.\<close>

fun read_groups ::
    "'c client_ops \<Rightarrow> (string \<times> string list) list \<Rightarrow> 'c \<Rightarrow>
     (client_exn + group_row list \<times> nat \<times> string option) \<times> 'c" where
  "read_groups ops [] c = (Inr ([], 0, None), c)"
| "read_groups ops ((name, path) # rest) c =
     (case op_mbean ops name c of
        (Inr attributes, c1) \<Rightarrow>
          (case read_groups ops rest c1 of
             (Inl e, c2) \<Rightarrow> (Inl e, c2)
           | (Inr (gs, n, a), c2) \<Rightarrow> (Inr (summarise_group path attributes # gs, n, a), c2))
      | (Inl e, c1) \<Rightarrow>
          (if \<not> is_client_error e then (Inl e, c1)
           else case read_groups ops rest c1 of
                  (Inl e', c2) \<Rightarrow> (Inl e', c2)
                | (Inr (gs, n, a), c2) \<Rightarrow> (Inr (gs, n + 1, Some (exn_advice e)), c2)))"

definition group_paths :: "string list \<Rightarrow> (string \<times> string list) list" where
  "group_paths names =
     List.map_filter (\<lambda>name. case group_path name of
                               None \<Rightarrow> None
                             | Some path \<Rightarrow> (if path = [] then None else Some (name, path))) names"

definition collect :: "'c client_ops \<Rightarrow> 'c \<Rightarrow> (client_exn + collection) \<times> 'c" where
  "collect ops c =
     (case op_names ops c of
        (Inl e, c1) \<Rightarrow>
          (if is_client_error e then Inr (new_collection [] (Some (exn_text e)) (Some (exn_advice e))) else Inl e, c1)
      | (Inr names, c1) \<Rightarrow>
          (let paths = group_paths names
           in if paths = []
              then (Inr (new_collection [] (Some ''no resource group MBeans registered'') (Some NO_GROUPS_ADVICE)), c1)
              else case read_groups ops paths c1 of
                     (Inl e, c2) \<Rightarrow> (Inl e, c2)
                   | (Inr (gs, n, a), c2) \<Rightarrow>
                       (Inr (new_collection gs
                          (if n = 0 then None
                           else Some (show_nat n @ '' of '' @ show_nat (length paths) @
                                      '' resource group MBeans unavailable'')) a), c2)))"

definition at_limit :: "rat option \<Rightarrow> rat option \<Rightarrow> bool" where
  "at_limit limit used \<longleftrightarrow> (case (limit, used) of (Some m, Some u) \<Rightarrow> 0 < m \<and> m \<le> u | _ \<Rightarrow> False)"

definition backed :: "group_row \<Rightarrow> bottleneck \<Rightarrow> bool" where
  "backed g b \<longleftrightarrow> g_queued g > 0 \<and>
     (case b of
        REJECTING \<Rightarrow> at_limit (g_max_queued g) (Some (of_int (g_queued g)))
      | CONCURRENCY_CAPPED \<Rightarrow> at_limit (g_hard_concurrency g) (Some (of_int (g_running g)))
      | MEMORY_CAPPED \<Rightarrow> at_limit (g_soft_memory g) (g_memory g)
      | CPU_CAPPED \<Rightarrow> at_limit (g_hard_cpu g) (g_cpu g))"

lemma reached_at_limit:
  "reached (limit_attr a name) u \<Longrightarrow> at_limit (limit_attr a name) (Some u)"
  by (auto simp: reached_def limit_attr_def at_limit_def split: option.splits if_splits)

lemma at_limit_count: "at_limit l (Some (of_int n)) \<Longrightarrow> 0 < n"
  using of_int_0_less_iff [of n, where 'a = rat]
  by (auto simp: at_limit_def split: option.splits dest: less_le_trans)

lemma diagnose_backed:
  assumes "diagnose g = Some b"
    and l: "\<And>u. reached (g_max_queued g) u \<Longrightarrow> at_limit (g_max_queued g) (Some u)"
      "\<And>u. reached (g_hard_concurrency g) u \<Longrightarrow> at_limit (g_hard_concurrency g) (Some u)"
      "\<And>u. reached (g_soft_memory g) u \<Longrightarrow> at_limit (g_soft_memory g) (Some u)"
      "\<And>u. reached (g_hard_cpu g) u \<Longrightarrow> at_limit (g_hard_cpu g) (Some u)"
  shows "backed g b"
proof (cases "reached (g_max_queued g) (of_int (g_queued g))")
  case True
  then show ?thesis using assms(1) l(1) [OF True] at_limit_count [OF l(1) [OF True]]
    by (simp add: backed_def diagnose_def)
next
  case False
  then have q: "g_queued g > 0" using assms(1) by (simp add: diagnose_def split: if_splits)
  show ?thesis
    using assms(1) False q l(2-4) by (auto simp: backed_def diagnose_def split: if_splits option.splits)
qed

text \<open>What is flagged is really waiting, and at the limit that is named.\<close>

theorem diagnosis_is_backed:
  "let g = summarise_group path a
   in case g_bottleneck g of None \<Rightarrow> True | Some b \<Rightarrow> backed g b"
proof -
  define g where "g = (summarise_group path a)\<lparr>g_bottleneck := None\<rparr>"
  have g: "summarise_group path a = g\<lparr>g_bottleneck := diagnose g\<rparr>"
    by (simp add: g_def summarise_group_def Let_def)
  have l: "g_max_queued g = limit_attr a ''MaxQueuedQueries''"
    "g_hard_concurrency g = limit_attr a ''HardConcurrencyLimit''"
    "g_soft_memory g = limit_attr a ''SoftMemoryLimitBytes''"
    "g_hard_cpu g = limit_attr a ''HardCpuLimitMillis''"
    by (simp_all add: g_def summarise_group_def Let_def)
  have "backed g b" if "diagnose g = Some b" for b
    by (rule diagnose_backed [OF that]) (simp_all only: l reached_at_limit)
  moreover have "backed (g\<lparr>g_bottleneck := d\<rparr>) b = backed g b" for d b
    by (cases b) (simp_all add: backed_def)
  ultimately show ?thesis by (simp add: g split: option.split)
qed

section \<open>Configured against running groups\<close>

record 'x configured =
  cg_id :: string
  cg_jmx_export :: bool
  cg_values :: 'x

datatype group_status = GroupRunning | GroupIdle | GroupHidden | GroupUnknown

record 'x reconciled =
  rc_group :: "'x configured"
  rc_status :: group_status
  rc_running :: "int option"
  rc_queued :: "int option"
  rc_bottleneck :: "bottleneck option"

text \<open>\<open>{group["id"]: group for group in live}\<close>: the last one of an id.\<close>

definition live_by_id :: "group_row list \<Rightarrow> string \<Rightarrow> group_row option" where
  "live_by_id live i = find (\<lambda>g. g_id g = i) (rev live)"

definition reconcile_one :: "bool \<Rightarrow> group_row list \<Rightarrow> 'x configured \<Rightarrow> 'x reconciled" where
  "reconcile_one available live g =
     (let observed = live_by_id live (cg_id g)
      in \<lparr>rc_group = g,
          rc_status = (if \<not> available then GroupUnknown
                       else if observed \<noteq> None then GroupRunning
                       else if \<not> cg_jmx_export g then GroupHidden
                       else GroupIdle),
          rc_running = map_option g_running observed, rc_queued = map_option g_queued observed,
          rc_bottleneck = Option.bind observed g_bottleneck\<rparr>)"

definition reconcile ::
    "'x configured list \<Rightarrow> group_row list \<Rightarrow> bool \<Rightarrow> 'x reconciled list \<times> group_row list" where
  "reconcile configured live available =
     (map (reconcile_one available live) configured,
      if available then filter (\<lambda>g. g_id g \<notin> cg_id ` set configured) live else [])"

lemma live_by_id_None: "live_by_id live i = None \<longleftrightarrow> i \<notin> g_id ` set live"
  by (auto simp: live_by_id_def find_None_iff)

text \<open>The comparison accounts for everything on both sides: each configured group has its row, in order,
  and is called running exactly when its MBean was seen; every group that was seen is either behind a
  configured row or listed as unmanaged; and when nobody looked, nothing is claimed.\<close>

theorem reconcile_accounts_for_all:
  "let (rs, unmanaged) = reconcile configured live available
   in map rc_group rs = configured \<and>
      map rc_status rs = map (\<lambda>g. if \<not> available then GroupUnknown
                                  else if cg_id g \<in> g_id ` set live then GroupRunning
                                  else if cg_jmx_export g then GroupIdle else GroupHidden) configured \<and>
      (if available
       then g_id ` set unmanaged \<union> (cg_id ` set configured \<inter> g_id ` set live) = g_id ` set live \<and>
            g_id ` set unmanaged \<inter> cg_id ` set configured = {}
       else unmanaged = [])"
  by (auto simp: reconcile_def reconcile_one_def Let_def live_by_id_None o_def)

end
