(* ===== verification/Poller.thy ===== *)
theory Poller
  imports ResourceGroups Snapshots Units
begin

text \<open>
  One coordinator polled on its schedules (\<^verbatim>\<open>collector/poller.py\<close>): what is due, the four polls, the
  cross-check of an empty query list against JMX (H-09), the adaptive interval, and the tick that runs
  the polls and stores their snapshots. A tick takes its clock readings and the outcome of each store
  access from its environment; the client is any \<open>client_ops\<close>.
\<close>

section \<open>State\<close>

definition KIND_RESOURCE_GROUPS :: string where "KIND_RESOURCE_GROUPS = ''resource_groups''"

record poller_config =
  pc_cluster :: string
  pc_base_interval :: rat
  pc_jmx_interval :: rat
  pc_info_interval :: rat
  pc_text_max_bytes :: int
  pc_long_running :: rat
  pc_backoff_bytes :: int
  pc_backoff_interval :: rat
  pc_check_max_age :: rat
  pc_confirm_polls :: int
  pc_groups_interval :: "rat option"

record 'c poller =
  pl_query_interval :: rat
  pl_next_due :: "(string \<times> rat) list"
  pl_suspicious :: int
  pl_last_success :: "(string \<times> rat) list"
  pl_client :: 'c

text \<open>The defaults of the constructor: no bound on the age of a JMX reading means the query interval,
  at least a second; at least one suspicious poll is needed.\<close>

definition new_poller_config ::
    "string \<Rightarrow> rat \<Rightarrow> rat \<Rightarrow> rat \<Rightarrow> int \<Rightarrow> rat \<Rightarrow> int \<Rightarrow> rat \<Rightarrow> rat option \<Rightarrow> int \<Rightarrow> rat option \<Rightarrow> poller_config" where
  "new_poller_config c query jmx info max_bytes long backoff_bytes backoff max_age confirm groups =
     \<lparr>pc_cluster = c, pc_base_interval = query, pc_jmx_interval = jmx, pc_info_interval = info,
      pc_text_max_bytes = max_bytes, pc_long_running = long, pc_backoff_bytes = backoff_bytes,
      pc_backoff_interval = backoff,
      pc_check_max_age = (case max_age of Some a \<Rightarrow> a | None \<Rightarrow> max query 1),
      pc_confirm_polls = max 1 confirm, pc_groups_interval = groups\<rparr>"

definition collects_groups :: "poller_config \<Rightarrow> bool" where
  "collects_groups cfg \<longleftrightarrow> (case pc_groups_interval cfg of None \<Rightarrow> False | Some i \<Rightarrow> i \<noteq> 0)"

definition new_poller :: "poller_config \<Rightarrow> 'c \<Rightarrow> 'c poller" where
  "new_poller cfg c =
     \<lparr>pl_query_interval = pc_base_interval cfg,
      pl_next_due = [(KIND_QUERIES, 0), (KIND_JMX, 0), (KIND_INFO, 0)] @
        (if collects_groups cfg then [(KIND_RESOURCE_GROUPS, 0)] else []),
      pl_suspicious = 0, pl_last_success = [], pl_client = c\<rparr>"

record tick_env =
  te_due :: rat
  te_done :: "string \<Rightarrow> rat"
  te_resched :: "string \<Rightarrow> rat"
  te_taken :: "string \<Rightarrow> rat"
  te_checked :: rat
  te_load_fails :: bool
  te_save_fails :: "string \<Rightarrow> bool"

text \<open>What can leave a tick: an exception of the interpreter, or a store that cannot be read.\<close>

datatype tick_exn = Raised py_exn | LoadFailed

section \<open>Schedule\<close>

definition POLL_ORDER :: "string list" where
  "POLL_ORDER = [KIND_JMX, KIND_QUERIES, KIND_INFO, KIND_RESOURCE_GROUPS]"

definition due_kinds :: "rat \<Rightarrow> 'c poller \<Rightarrow> string list" where
  "due_kinds now p =
     filter (\<lambda>kind. case map_of (pl_next_due p) kind of None \<Rightarrow> False | Some t \<Rightarrow> now \<ge> t) POLL_ORDER"

definition interval_of :: "poller_config \<Rightarrow> 'c poller \<Rightarrow> string \<Rightarrow> rat" where
  "interval_of cfg p kind =
     (if kind = KIND_QUERIES then pl_query_interval p
      else if kind = KIND_JMX then pc_jmx_interval cfg
      else if kind = KIND_INFO then pc_info_interval cfg
      else case pc_groups_interval cfg of Some i \<Rightarrow> i | None \<Rightarrow> 0)"

definition reschedule :: "poller_config \<Rightarrow> rat \<Rightarrow> string \<Rightarrow> 'c poller \<Rightarrow> 'c poller" where
  "reschedule cfg now kind p =
     p\<lparr>pl_next_due := dset kind (now + interval_of cfg p kind) (pl_next_due p)\<rparr>"

definition seconds_until_next_due :: "rat \<Rightarrow> 'c poller \<Rightarrow> rat" where
  "seconds_until_next_due now p = max 0 (Min (snd ` set (pl_next_due p)) - now)"

definition succeeded :: "tick_env \<Rightarrow> string \<Rightarrow> 'c poller \<Rightarrow> 'c poller" where
  "succeeded te kind p = p\<lparr>pl_last_success := dset kind (te_done te kind) (pl_last_success p)\<rparr>"

section \<open>One query\<close>

definition opt_num :: "rat option \<Rightarrow> json" where
  "opt_num x = (case x of None \<Rightarrow> JNull | Some n \<Rightarrow> JNum n)"

record live_query =
  lq_id :: json
  lq_state :: json
  lq_user :: json
  lq_source :: json
  lq_group :: json
  lq_elapsed :: "rat option"
  lq_queued :: "rat option"
  lq_cpu :: "rat option"
  lq_memory :: "int option"
  lq_input :: "int option"
  lq_progress :: json
  lq_running_drivers :: json
  lq_queued_drivers :: json
  lq_blocked :: json
  lq_preview :: string
  lq_truncated :: bool
  lq_long :: bool

definition summarise_query ::
    "(json \<Rightarrow> string) \<Rightarrow> poller_config \<Rightarrow> json pydict \<Rightarrow> py_exn + live_query" where
  "summarise_query sh cfg raw =
     (case or_dict (dget ''queryStats'' raw) of Inl e \<Rightarrow> Inl e
      | Inr stats \<Rightarrow>
     (case or_dict (dget ''session'' raw) of Inl e \<Rightarrow> Inl e
      | Inr session \<Rightarrow>
          (let elapsed = parse_duration_ms (dget ''elapsedTime'' stats);
               q = dget ''query'' raw;
               (preview, truncated) = truncate_utf8 (if truthy q then str_of sh q else []) (pc_text_max_bytes cfg)
           in Inr \<lparr>lq_id = dget ''queryId'' raw, lq_state = dget ''state'' raw,
                   lq_user = dget ''user'' session, lq_source = dget ''source'' session,
                   lq_group = (case dget ''resourceGroupId'' raw of JList xs \<Rightarrow> JList xs | _ \<Rightarrow> JNull),
                   lq_elapsed = elapsed, lq_queued = parse_duration_ms (dget ''queuedTime'' stats),
                   lq_cpu = parse_duration_ms (dget ''totalCpuTime'' stats),
                   lq_memory = parse_data_size_bytes (dget ''peakUserMemoryReservation'' stats),
                   lq_input = parse_data_size_bytes (dget ''physicalInputDataSize'' stats),
                   lq_progress = dget ''progressPercentage'' stats,
                   lq_running_drivers = dget ''runningDrivers'' stats,
                   lq_queued_drivers = dget ''queuedDrivers'' stats, lq_blocked = dget ''fullyBlocked'' stats,
                   lq_preview = preview, lq_truncated = truncated,
                   lq_long = (case elapsed of None \<Rightarrow> False | Some ms \<Rightarrow> ms \<ge> pc_long_running cfg * 1000)\<rparr>)))"

definition live_query_json :: "live_query \<Rightarrow> json" where
  "live_query_json q =
     JObj [(''query_id'', lq_id q), (''state'', lq_state q), (''user'', lq_user q), (''source'', lq_source q),
           (''resource_group_id'', lq_group q), (''elapsed_ms'', opt_num (lq_elapsed q)),
           (''queued_ms'', opt_num (lq_queued q)), (''total_cpu_ms'', opt_num (lq_cpu q)),
           (''peak_user_memory_bytes'', opt_num (map_option of_int (lq_memory q))),
           (''physical_input_bytes'', opt_num (map_option of_int (lq_input q))),
           (''progress_percentage'', lq_progress q), (''running_drivers'', lq_running_drivers q),
           (''queued_drivers'', lq_queued_drivers q), (''fully_blocked'', lq_blocked q),
           (''query_preview'', JStr (lq_preview q)), (''query_truncated'', JBool (lq_truncated q)),
           (''long_running'', JBool (lq_long q))]"

definition RUNNING_STATES :: "string list" where "RUNNING_STATES = [''RUNNING'', ''FINISHING'']"
definition QUEUED_STATES :: "string list" where "QUEUED_STATES = [''QUEUED'', ''WAITING_FOR_RESOURCES'']"

definition count_where :: "(live_query \<Rightarrow> bool) \<Rightarrow> live_query list \<Rightarrow> json" where
  "count_where P qs = JNum (of_nat (length (filter P qs)))"

definition in_states :: "string list \<Rightarrow> live_query \<Rightarrow> bool" where
  "in_states ss q \<longleftrightarrow> (case lq_state q of JStr s \<Rightarrow> s \<in> set ss | _ \<Rightarrow> False)"

definition summary_json :: "live_query list \<Rightarrow> json" where
  "summary_json qs =
     JObj [(''running'', count_where (in_states RUNNING_STATES) qs),
           (''queued'', count_where (in_states QUEUED_STATES) qs),
           (''long_running'', count_where lq_long qs), (''total'', JNum (of_nat (length qs)))]"

section \<open>The polls\<close>

type_synonym 'c poll = "'c poller \<Rightarrow> (tick_exn + snapshot) \<times> 'c poller"

definition snapshot_of ::
    "poller_config \<Rightarrow> tick_env \<Rightarrow> string \<Rightarrow> json \<Rightarrow> string option \<Rightarrow> string option \<Rightarrow> snapshot" where
  "snapshot_of cfg te kind payload e advice =
     \<lparr>sn_cluster = pc_cluster cfg, sn_kind = kind, sn_collected_at = te_taken te kind, sn_payload = payload,
      sn_error = e, sn_advice = advice\<rparr>"

definition failed_snapshot :: "poller_config \<Rightarrow> tick_env \<Rightarrow> string \<Rightarrow> client_exn \<Rightarrow> snapshot" where
  "failed_snapshot cfg te kind e =
     snapshot_of cfg te kind (JObj []) (Some (exn_text e)) (Some (exn_advice e))"

text \<open>\<open>except TrinoClientError\<close> around a read; anything else leaves the poll.\<close>

definition caught :: "poller_config \<Rightarrow> tick_env \<Rightarrow> string \<Rightarrow> client_exn \<Rightarrow> tick_exn + snapshot" where
  "caught cfg te kind e =
     (if is_client_error e then Inr (failed_snapshot cfg te kind e) else Inl (Raised TypeError))"

definition poll_info :: "poller_config \<Rightarrow> 'c client_ops \<Rightarrow> tick_env \<Rightarrow> 'c poll" where
  "poll_info cfg ops te p =
     (case op_info ops (pl_client p) of
        (Inl e, c) \<Rightarrow> (caught cfg te KIND_INFO e, p\<lparr>pl_client := c\<rparr>)
      | (Inr fs, c) \<Rightarrow>
          (Inr (snapshot_of cfg te KIND_INFO (JObj [(''info'', JObj fs)]) None None),
           succeeded te KIND_INFO (p\<lparr>pl_client := c\<rparr>)))"

definition QUERY_MANAGER :: string where "QUERY_MANAGER = ''trino.execution:name=QueryManager''"

definition JMX_MBEANS :: "string list" where
  "JMX_MBEANS = [NODE_MANAGER_MBEAN, ''java.lang:type=Memory'', QUERY_MANAGER,
                 ''trino.memory:name=ClusterMemoryManager'']"

record mbean_reads =
  mr_beans :: "(string \<times> json) list"
  mr_errors :: "(string \<times> json) list"
  mr_advice :: "string option"

fun read_mbeans ::
    "'c client_ops \<Rightarrow> string list \<Rightarrow> mbean_reads \<Rightarrow> 'c \<Rightarrow> (tick_exn + mbean_reads) \<times> 'c" where
  "read_mbeans ops [] r c = (Inr r, c)"
| "read_mbeans ops (name # names) r c =
     (case op_mbean ops name c of
        (Inr attributes, c1) \<Rightarrow> read_mbeans ops names (r\<lparr>mr_beans := mr_beans r @ [(name, JObj attributes)]\<rparr>) c1
      | (Inl e, c1) \<Rightarrow>
          (if \<not> is_client_error e then (Inl (Raised TypeError), c1)
           else read_mbeans ops names
                  (r\<lparr>mr_errors := mr_errors r @ [(name, JStr (exn_text e))],
                     mr_advice := (if mr_advice r = None then Some (exn_advice e) else mr_advice r)\<rparr>) c1))"

definition jmx_snapshot :: "poller_config \<Rightarrow> tick_env \<Rightarrow> mbean_reads \<Rightarrow> snapshot" where
  "jmx_snapshot cfg te r =
     (if mr_beans r = []
      then snapshot_of cfg te KIND_JMX (JObj [(''errors'', JObj (mr_errors r))])
             (Some ''all MBean reads failed'') (mr_advice r)
      else snapshot_of cfg te KIND_JMX
             (JObj [(''mbeans'', JObj (mr_beans r)), (''errors'', JObj (mr_errors r))])
             (if mr_errors r = [] then None
              else Some (show_nat (length (mr_errors r)) @ '' of '' @ show_nat (length JMX_MBEANS) @
                         '' MBeans unavailable'')) (mr_advice r))"

definition poll_jmx :: "poller_config \<Rightarrow> 'c client_ops \<Rightarrow> tick_env \<Rightarrow> 'c poll" where
  "poll_jmx cfg ops te p =
     (case read_mbeans ops JMX_MBEANS \<lparr>mr_beans = [], mr_errors = [], mr_advice = None\<rparr> (pl_client p) of
        (Inl e, c) \<Rightarrow> (Inl e, p\<lparr>pl_client := c\<rparr>)
      | (Inr r, c) \<Rightarrow>
          (Inr (jmx_snapshot cfg te r),
           if mr_beans r = [] then p\<lparr>pl_client := c\<rparr> else succeeded te KIND_JMX (p\<lparr>pl_client := c\<rparr>)))"

text \<open>The cross-check: the new count of suspicious polls, and whether the list is called filtered. A count
  of zero running queries is no ground for suspicion.\<close>

definition suspicious :: "bool \<Rightarrow> int option \<Rightarrow> bool" where
  "suspicious nothing reading \<longleftrightarrow> nothing \<and> (case reading of None \<Rightarrow> False | Some n \<Rightarrow> n \<noteq> 0)"

definition cross_check :: "poller_config \<Rightarrow> bool \<Rightarrow> int option \<Rightarrow> int \<Rightarrow> int \<times> bool" where
  "cross_check cfg nothing reading k =
     (if suspicious nothing reading then (k + 1, k + 1 \<ge> pc_confirm_polls cfg) else (0, False))"

definition filtered_text :: "int option \<Rightarrow> string" where
  "filtered_text reading =
     ''query list is empty but JMX reports '' @ show_int (case reading of Some n \<Rightarrow> n | None \<Rightarrow> 0) @
     '' running queries - the list is most likely being filtered by access control''"

definition FILTERED_ADVICE :: string where
  "FILTERED_ADVICE =
     ''Check the tms-svc account's queries: view grant in rules.json. With file access control a denied list arrives as an empty list, not a 403.''"

definition adapt_interval :: "poller_config \<Rightarrow> int \<Rightarrow> 'c poller \<Rightarrow> 'c poller" where
  "adapt_interval cfg n p =
     (if n \<ge> pc_backoff_bytes cfg then p\<lparr>pl_query_interval := pc_backoff_interval cfg\<rparr>
      else if n < pc_backoff_bytes cfg div 2 then p\<lparr>pl_query_interval := pc_base_interval cfg\<rparr>
      else p)"

definition poll_queries ::
    "(json \<Rightarrow> string) \<Rightarrow> poller_config \<Rightarrow> 'c client_ops \<Rightarrow> tick_env \<Rightarrow> int option \<Rightarrow> 'c poll" where
  "poll_queries sh cfg ops te reading p =
     (case op_queries ops (pl_client p) of
        (Inl e, c) \<Rightarrow> (caught cfg te KIND_QUERIES e, p\<lparr>pl_client := c\<rparr>)
      | (Inr ql, c) \<Rightarrow>
          (case map_exn (summarise_query sh cfg) (queries ql) of
             Inl e \<Rightarrow> (Inl (Raised e), p\<lparr>pl_client := c\<rparr>)
           | Inr qs \<Rightarrow>
               (let (k, denied) = cross_check cfg (qs = []) reading (pl_suspicious p);
                    p1 = adapt_interval cfg (int (response_bytes ql)) (p\<lparr>pl_client := c, pl_suspicious := k\<rparr>);
                    p2 = (if denied then p1 else succeeded te KIND_QUERIES p1)
                in (Inr (snapshot_of cfg te KIND_QUERIES
                           (JObj [(''queries'', JList (map live_query_json qs)), (''summary'', summary_json qs),
                                  (''response_bytes'', JNum (of_nat (response_bytes ql))),
                                  (''poll_interval_seconds'', JNum (pl_query_interval p1))])
                           (if denied then Some (filtered_text reading) else None)
                           (if denied then Some FILTERED_ADVICE else None)), p2))))"

text \<open>The payload of a collection of resource groups.\<close>

definition bottleneck_json :: "bottleneck option \<Rightarrow> json" where
  "bottleneck_json b = (case b of None \<Rightarrow> JNull | Some r \<Rightarrow> JStr (bottleneck_code r))"

definition group_fields :: "group_row \<Rightarrow> (string \<times> json) list" where
  "group_fields g =
     [(''path'', JList (map JStr (g_path g))), (''id'', JStr (g_id g)),
      (''name'', JStr (if g_path g = [] then [] else List.last (g_path g))),
      (''depth'', JNum (of_nat (length (g_path g)) - 1)), (''running'', JNum (of_int (g_running g))),
      (''queued'', JNum (of_int (g_queued g))), (''waiting_queued'', JNum (of_int (g_waiting g))),
      (''hard_concurrency_limit'', opt_num (g_hard_concurrency g)),
      (''soft_concurrency_limit'', opt_num (g_soft_concurrency g)),
      (''max_queued'', opt_num (g_max_queued g)), (''soft_memory_limit_bytes'', opt_num (g_soft_memory g)),
      (''hard_cpu_limit_ms'', opt_num (g_hard_cpu g)), (''memory_bytes'', opt_num (g_memory g)),
      (''cpu_ms'', opt_num (g_cpu g)), (''input_bytes'', opt_num (g_input g)),
      (''scheduling_policy'', g_policy g), (''scheduling_weight'', opt_num (g_weight g)),
      (''started_total'', opt_num (g_started g)), (''bottleneck'', bottleneck_json (g_bottleneck g)),
      (''bottleneck_text'', JStr (case g_bottleneck g of None \<Rightarrow> [] | Some r \<Rightarrow> bottleneck_text r))]"

fun tree_json :: "group_tree \<Rightarrow> json" where
  "tree_json (GroupNode g ts) = JObj (group_fields g @ [(''children'', JList (map tree_json ts))])"

definition totals_json :: "group_totals \<Rightarrow> json" where
  "totals_json t =
     JObj [(''groups'', JNum (of_nat (gt_groups t))), (''running'', JNum (of_int (gt_running t))),
           (''queued'', JNum (of_int (gt_queued t))),
           (''blocked_groups'', JNum (of_nat (length (gt_blocked t)))),
           (''blocked'', JList (map (\<lambda>(i, b, q). JObj [(''id'', JStr i), (''reason'', JStr (bottleneck_code b)),
              (''reason_text'', JStr (bottleneck_text b)), (''queued'', JNum (of_int q))]) (gt_blocked t)))]"

definition collection_json :: "collection \<Rightarrow> json" where
  "collection_json c =
     JObj [(''groups'', JList (map (JObj \<circ> group_fields) (cl_groups c))),
           (''tree'', JList (map tree_json (cl_tree c))), (''summary'', totals_json (cl_totals c)),
           (''complete'', JBool False)]"

definition poll_resource_groups :: "poller_config \<Rightarrow> 'c client_ops \<Rightarrow> tick_env \<Rightarrow> 'c poll" where
  "poll_resource_groups cfg ops te p =
     (case collect ops (pl_client p) of
        (Inl e, c) \<Rightarrow> (Inl (Raised TypeError), p\<lparr>pl_client := c\<rparr>)
      | (Inr col, c) \<Rightarrow>
          (Inr (snapshot_of cfg te KIND_RESOURCE_GROUPS (collection_json col) (cl_error col) (cl_advice col)),
           if cl_groups col = [] then p\<lparr>pl_client := c\<rparr>
           else succeeded te KIND_RESOURCE_GROUPS (p\<lparr>pl_client := c\<rparr>)))"

section \<open>A tick\<close>

fun json_path :: "string list \<Rightarrow> json \<Rightarrow> json" where
  "json_path [] j = j"
| "json_path (k # ks) j = (case fields_of j of None \<Rightarrow> JNull | Some fs \<Rightarrow> json_path ks (dget k fs))"

definition last_jmx_running_queries ::
    "poller_config \<Rightarrow> tick_env \<Rightarrow> 'e snapshot_repo \<Rightarrow> tick_exn + int option" where
  "last_jmx_running_queries cfg te repo =
     (if te_load_fails te then Inl LoadFailed
      else Inr (case load_snapshot (pc_cluster cfg) KIND_JMX repo of
                  None \<Rightarrow> None
                | Some s \<Rightarrow>
                    (if is_stale s (te_checked te) (pc_check_max_age cfg) then None
                     else map_option py_trunc (number_only
                            (json_path [''mbeans'', QUERY_MANAGER, ''RunningQueries''] (sn_payload s))))))"

definition poll_kind ::
    "(json \<Rightarrow> string) \<Rightarrow> poller_config \<Rightarrow> 'c client_ops \<Rightarrow> tick_env \<Rightarrow> 'e snapshot_repo \<Rightarrow> string \<Rightarrow> 'c poll" where
  "poll_kind sh cfg ops te repo kind p =
     (if kind = KIND_INFO then poll_info cfg ops te p
      else if kind = KIND_JMX then poll_jmx cfg ops te p
      else if kind = KIND_RESOURCE_GROUPS then poll_resource_groups cfg ops te p
      else case last_jmx_running_queries cfg te repo of
             Inl e \<Rightarrow> (Inl e, p)
           | Inr reading \<Rightarrow> poll_queries sh cfg ops te reading p)"

record ('c, 'e) tick_state =
  tk_poller :: "'c poller"
  tk_repo :: "'e snapshot_repo"
  tk_produced :: "snapshot list"
  tk_raised :: "tick_exn option"

fun tick_kinds ::
    "(json \<Rightarrow> string) \<Rightarrow> poller_config \<Rightarrow> 'c client_ops \<Rightarrow> tick_env \<Rightarrow> string list \<Rightarrow>
     ('c, 'e) tick_state \<Rightarrow> ('c, 'e) tick_state" where
  "tick_kinds sh cfg ops te [] st = st"
| "tick_kinds sh cfg ops te (kind # kinds) st =
     (case poll_kind sh cfg ops te (tk_repo st) kind (tk_poller st) of
        (Inl e, p) \<Rightarrow> st\<lparr>tk_poller := p, tk_raised := Some e\<rparr>
      | (Inr s, p) \<Rightarrow>
          tick_kinds sh cfg ops te kinds
            (st\<lparr>tk_poller := reschedule cfg (te_resched te kind) kind p,
                tk_repo := (if te_save_fails te kind then tk_repo st else save_snapshot s (tk_repo st)),
                tk_produced := tk_produced st @ [s]\<rparr>))"

definition tick ::
    "(json \<Rightarrow> string) \<Rightarrow> poller_config \<Rightarrow> 'c client_ops \<Rightarrow> tick_env \<Rightarrow> 'c poller \<Rightarrow> 'e snapshot_repo \<Rightarrow>
     ('c, 'e) tick_state" where
  "tick sh cfg ops te p repo =
     tick_kinds sh cfg ops te (due_kinds (te_due te) p)
       \<lparr>tk_poller = p, tk_repo = repo, tk_produced = [], tk_raised = None\<rparr>"

end
