(* ===== verification/PollerProps.thy ===== *)
theory PollerProps
  imports Poller
begin

text \<open>
  What polling does: an unreachable coordinator costs its own snapshots only, the H-09 verdict is the
  persistence of its condition, nothing but reads is sent, and at the default intervals the verdict
  cannot be reached.
\<close>

section \<open>Runs of ticks\<close>

text \<open>The process loop catches what leaves a tick and goes on with the poller as it is.\<close>

fun run_ticks ::
    "(json \<Rightarrow> string) \<Rightarrow> poller_config \<Rightarrow> 'c client_ops \<Rightarrow> tick_env list \<Rightarrow> 'c poller \<Rightarrow> 'e snapshot_repo \<Rightarrow>
     'c poller \<times> 'e snapshot_repo \<times> snapshot list" where
  "run_ticks sh cfg ops [] p repo = (p, repo, [])"
| "run_ticks sh cfg ops (te # tes) p repo =
     (let st = tick sh cfg ops te p repo
      in case run_ticks sh cfg ops tes (tk_poller st) (tk_repo st) of
           (p', repo', ss) \<Rightarrow> (p', repo', tk_produced st @ ss))"

section \<open>A property of the client kept by every read\<close>

locale kept_by_reads =
  fixes ops :: "'c client_ops" and good :: "'c \<Rightarrow> bool"
  assumes info: "good c \<Longrightarrow> op_info ops c = (ri, c') \<Longrightarrow> good c'"
    and names: "good c \<Longrightarrow> op_names ops c = (rn, c') \<Longrightarrow> good c'"
    and mbean: "good c \<Longrightarrow> op_mbean ops n c = (rb, c') \<Longrightarrow> good c'"
    and listed: "good c \<Longrightarrow> op_queries ops c = (rq, c') \<Longrightarrow> good c'"
begin

lemma keep_beans: "good c \<Longrightarrow> good (snd (read_mbeans ops ns r c))"
proof (induction ns arbitrary: r c)
  case (Cons n ns)
  obtain x c1 where x: "op_mbean ops n c = (x, c1)" by (cases "op_mbean ops n c")
  have "good c1" by (rule mbean [OF Cons.prems x])
  then show ?case using Cons.IH x by (auto split: sum.split)
qed simp

lemma keep_groups: "good c \<Longrightarrow> good (snd (read_groups ops ps c))"
proof (induction ps arbitrary: c)
  case (Cons item rest)
  obtain n path where item: "item = (n, path)" by (cases item)
  obtain x c1 where x: "op_mbean ops n c = (x, c1)" by (cases "op_mbean ops n c")
  obtain y c2 where y: "read_groups ops rest c1 = (y, c2)" by (cases "read_groups ops rest c1")
  have "good c2" using Cons.IH [OF mbean [OF Cons.prems x]] y by simp
  then show ?case using mbean [OF Cons.prems x] item x y by (auto split: sum.split prod.split)
qed simp

lemma keep_collect: "good c \<Longrightarrow> good (snd (collect ops c))"
proof -
  assume g: "good c"
  obtain x c1 where x: "op_names ops c = (x, c1)" by (cases "op_names ops c")
  have c1: "good c1" by (rule names [OF g x])
  have groups: "good c2" if "read_groups ops ps c1 = (y, c2)" for ps y c2
    using keep_groups [OF c1, of ps] that by simp
  show ?thesis using x c1 groups by (auto simp: collect_def Let_def split: sum.split prod.split)
qed

lemma keep_poll: "good (pl_client p) \<Longrightarrow> good (pl_client (snd (poll_kind sh cfg ops te repo kind p)))"
proof -
  assume g: "good (pl_client p)"
  obtain i ci where i: "op_info ops (pl_client p) = (i, ci)" by (cases "op_info ops (pl_client p)")
  obtain q cq where q: "op_queries ops (pl_client p) = (q, cq)" by (cases "op_queries ops (pl_client p)")
  have good: "good ci" "good cq" using info [OF g i] listed [OF g q] .
  have 1: "good (pl_client (snd (poll_info cfg ops te p)))"
    using good i by (simp add: poll_info_def succeeded_def split: sum.split)
  obtain b cb where b: "read_mbeans ops JMX_MBEANS \<lparr>mr_beans = [], mr_errors = [], mr_advice = None\<rparr> (pl_client p) = (b, cb)"
    by (metis surj_pair)
  have 2: "good (pl_client (snd (poll_jmx cfg ops te p)))"
    using keep_beans [OF g, of JMX_MBEANS] b
    by (auto simp: poll_jmx_def succeeded_def split: sum.split dest: arg_cong [where f = snd]) (metis snd_conv)+
  obtain x cx where x: "collect ops (pl_client p) = (x, cx)" by (metis surj_pair)
  have 3: "good (pl_client (snd (poll_resource_groups cfg ops te p)))"
    using keep_collect [OF g] x by (auto simp: poll_resource_groups_def succeeded_def split: sum.split)
  have 4: "good (pl_client (snd (poll_queries sh cfg ops te reading p)))" for reading
    using good q by (auto simp: poll_queries_def Let_def adapt_interval_def succeeded_def
        split: sum.split prod.split)
  show ?thesis using 1 2 3 4 g by (auto simp: poll_kind_def split: sum.split)
qed

lemma keep_kinds:
  "good (pl_client (tk_poller st)) \<Longrightarrow> good (pl_client (tk_poller (tick_kinds sh cfg ops te kinds st)))"
proof (induction kinds arbitrary: st)
  case (Cons kind kinds)
  obtain x p1 where x: "poll_kind sh cfg ops te (tk_repo st) kind (tk_poller st) = (x, p1)"
    by (cases "poll_kind sh cfg ops te (tk_repo st) kind (tk_poller st)")
  have "good (pl_client p1)" using keep_poll [OF Cons.prems, of sh cfg te "tk_repo st" kind] x by simp
  then show ?case using Cons.IH x by (cases x) (simp_all add: reschedule_def)
qed simp

lemma keep_tick: "good (pl_client p) \<Longrightarrow> good (pl_client (tk_poller (tick sh cfg ops te p repo)))"
  unfolding tick_def by (rule keep_kinds) simp

lemma keep_run: "good (pl_client p) \<Longrightarrow> good (pl_client (fst (run_ticks sh cfg ops tes p repo)))"
  by (induction tes arbitrary: p repo) (auto simp: Let_def keep_tick split: prod.split, metis fst_conv keep_tick)

end

text \<open>The program's client sends reads only.\<close>

definition is_read :: "http_request \<Rightarrow> bool" where
  "is_read rq \<longleftrightarrow> rq_method rq = ''GET'' \<and> rq_body rq = None"

definition only_read :: "trino_session \<Rightarrow> bool" where
  "only_read s \<longleftrightarrow> list_all is_read (requests (ts_effects s))"

lemma read_call_reads: "list_all is_read (requests (snd (snd (read_call ev uri auth c))))"
  using call_sent [where ev = ev and verb = "''GET''" and uri = uri and auth = auth and body = None and
      retries = "read_retries c" and timeout = None and c = c]
  by (auto simp: read_call_def list_all_iff is_read_def request_for_def split: prod.splits)

lemma map_result_sent [simp]: "snd (snd (map_result f r)) = snd (snd r)"
  by (auto simp: map_result_def split: prod.splits sum.splits)

lemma in_session_reads:
  assumes "only_read s" "in_session evs f s = (r, s')"
    and "\<And>ev c. list_all is_read (requests (snd (snd (f ev c))))"
  shows "only_read s'"
proof -
  obtain x c eff where x: "f (evs (ts_calls s)) (ts_client s) = (x, c, eff)" by (metis surj_pair)
  have "list_all is_read (requests eff)" using assms(3) [of "evs (ts_calls s)" "ts_client s"] x by simp
  then show ?thesis using assms(1,2) x by (auto simp: in_session_def only_read_def)
qed

lemma reads_of_ops:
  "list_all is_read (requests (snd (snd (get_server_info ev c))))"
  "list_all is_read (requests (snd (snd (list_mbean_names sh ev c))))"
  "list_all is_read (requests (snd (snd (get_mbean sh ev n c))))"
  "list_all is_read (requests (snd (snd (list_queries ev states c))))"
  by (simp_all add: get_server_info_def list_mbean_names_def get_mbean_def list_queries_def Let_def
      read_call_reads)

interpretation reads: kept_by_reads "trino_ops sh evs" only_read
  by unfold_locales (auto simp: trino_ops_def intro: in_session_reads reads_of_ops)

definition new_session :: "trino_client \<Rightarrow> trino_session" where
  "new_session c = \<lparr>ts_client = c, ts_calls = 0, ts_effects = []\<rparr>"

text \<open>C12: Whatever the coordinator answers and however often it is polled, the collector sends nothing but GET
  requests without a body.\<close>

theorem polling_only_reads:
  "list_all is_read (requests (ts_effects (pl_client (fst
     (run_ticks sh cfg (trino_ops sh evs) tes (new_poller cfg (new_session c)) repo)))))"
  by (rule reads.keep_run [unfolded only_read_def]) (simp add: new_poller_def new_session_def)

section \<open>An unreachable coordinator\<close>

definition unreachable :: "string \<Rightarrow> 'c client_ops" where
  "unreachable m =
     \<lparr>op_info = (\<lambda>c. (Inl (Unavailable m), c)), op_names = (\<lambda>c. (Inl (Unavailable m), c)),
      op_mbean = (\<lambda>_ c. (Inl (Unavailable m), c)), op_queries = (\<lambda>c. (Inl (Unavailable m), c))\<rparr>"

lemma unreachable_beans:
  "\<exists>r'. read_mbeans (unreachable m) ns r c = (Inr r', c) \<and> mr_beans r' = mr_beans r"
proof (induction ns arbitrary: r)
  case (Cons n ns)
  have "read_mbeans (unreachable m) (n # ns) r c = read_mbeans (unreachable m) ns
      (r\<lparr>mr_errors := mr_errors r @ [(n, JStr (exn_text (Unavailable m)))],
         mr_advice := (if mr_advice r = None then Some (exn_advice (Unavailable m)) else mr_advice r)\<rparr>) c"
    by (simp add: unreachable_def is_client_error_def)
  then show ?case using Cons.IH by fastforce
qed simp

lemma unreachable_poll:
  assumes "te_load_fails te = False"
  shows "\<exists>s. poll_kind sh cfg (unreachable m) te repo kind p = (Inr s, p) \<and> sn_error s \<noteq> None \<and>
     (kind \<in> set POLL_ORDER \<longrightarrow> sn_kind s = kind)"
proof -
  obtain r where r: "read_mbeans (unreachable m) JMX_MBEANS \<lparr>mr_beans = [], mr_errors = [], mr_advice = None\<rparr>
      (pl_client p) = (Inr r, pl_client p)" "mr_beans r = []"
    using unreachable_beans [of m JMX_MBEANS "\<lparr>mr_beans = [], mr_errors = [], mr_advice = None\<rparr>" "pl_client p"] by auto
  show ?thesis using assms r
    by (auto simp: poll_kind_def poll_info_def poll_jmx_def jmx_snapshot_def poll_resource_groups_def
        poll_queries_def last_jmx_running_queries_def caught_def collect_def unreachable_def
        is_client_error_def failed_snapshot_def snapshot_of_def new_collection_def POLL_ORDER_def)
qed

lemma unreachable_kinds:
  assumes "te_load_fails te = False" "set kinds \<subseteq> set POLL_ORDER" "tk_raised st = None" "distinct kinds"
  shows "let st' = tick_kinds sh cfg (unreachable m) te kinds st
     in tk_raised st' = None \<and>
        (\<exists>ss. tk_produced st' = tk_produced st @ ss \<and> map sn_kind ss = kinds \<and>
              list_all (\<lambda>s. sn_error s \<noteq> None) ss) \<and>
        pl_suspicious (tk_poller st') = pl_suspicious (tk_poller st) \<and>
        pl_last_success (tk_poller st') = pl_last_success (tk_poller st) \<and>
        pl_query_interval (tk_poller st') = pl_query_interval (tk_poller st) \<and>
        map_of (pl_next_due (tk_poller st')) =
          (\<lambda>k. if k \<in> set kinds then Some (te_resched te k + interval_of cfg (tk_poller st) k)
               else map_of (pl_next_due (tk_poller st)) k)"
  using assms(2-)
proof (induction kinds arbitrary: st)
  case (Cons kind kinds)
  obtain s where s: "poll_kind sh cfg (unreachable m) te (tk_repo st) kind (tk_poller st) = (Inr s, tk_poller st)"
    "sn_error s \<noteq> None" "sn_kind s = kind"
    using unreachable_poll [OF assms(1), of sh cfg m "tk_repo st" kind "tk_poller st"] Cons.prems(1) by auto
  let ?st = "st\<lparr>tk_poller := reschedule cfg (te_resched te kind) kind (tk_poller st),
      tk_repo := (if te_save_fails te kind then tk_repo st else save_snapshot s (tk_repo st)),
      tk_produced := tk_produced st @ [s]\<rparr>"
  have step: "tick_kinds sh cfg (unreachable m) te (kind # kinds) st =
      tick_kinds sh cfg (unreachable m) te kinds ?st" using s(1) by simp
  have same: "interval_of cfg (tk_poller ?st) = interval_of cfg (tk_poller st)"
    by (simp add: fun_eq_iff interval_of_def reschedule_def)
  have "map_of (pl_next_due (tk_poller ?st)) =
      (map_of (pl_next_due (tk_poller st)))(kind \<mapsto> te_resched te kind + interval_of cfg (tk_poller st) kind)"
    by (simp add: reschedule_def)
  then show ?case using Cons.IH [of ?st] Cons.prems s(2,3) same unfolding step
    by (auto simp: Let_def fun_eq_iff reschedule_def)
qed (auto simp: fun_eq_iff Let_def)


section \<open>The cross-check\<close>

text \<open>A query poll that was answered: whether the list was empty while a recent JMX reading counted
  running queries.\<close>

definition answered_poll ::
    "(json \<Rightarrow> string) \<Rightarrow> poller_config \<Rightarrow> 'c client_ops \<Rightarrow> int option \<Rightarrow> 'c poller \<Rightarrow> bool option" where
  "answered_poll sh cfg ops reading p =
     (case fst (op_queries ops (pl_client p)) of
        Inl e \<Rightarrow> None
      | Inr ql \<Rightarrow>
          (case map_exn (summarise_query sh cfg) (queries ql) of
             Inl e \<Rightarrow> None
           | Inr qs \<Rightarrow> Some (suspicious (qs = []) reading)))"

fun query_run ::
    "(json \<Rightarrow> string) \<Rightarrow> poller_config \<Rightarrow> 'c client_ops \<Rightarrow> (tick_env \<times> int option) list \<Rightarrow> 'c poller \<Rightarrow>
     (bool option \<times> (tick_exn + snapshot)) list" where
  "query_run sh cfg ops [] p = []"
| "query_run sh cfg ops ((te, reading) # rest) p =
     (case poll_queries sh cfg ops te reading p of
        (r, p1) \<Rightarrow> (answered_poll sh cfg ops reading p, r) # query_run sh cfg ops rest p1)"

text \<open>The verdict as it is meant: after an answered poll the list is called filtered exactly when the last
  \<open>n\<close> answered polls were all suspicious. \<open>past\<close> holds the earlier ones, the newest first.\<close>

definition persistent :: "nat \<Rightarrow> bool list \<Rightarrow> bool" where
  "persistent n past \<longleftrightarrow> n \<le> length past \<and> list_all (\<lambda>b. b) (take n past)"

fun verdicts :: "nat \<Rightarrow> bool list \<Rightarrow> bool option list \<Rightarrow> bool option list" where
  "verdicts n past [] = []"
| "verdicts n past (None # as) = None # verdicts n past as"
| "verdicts n past (Some b # as) = Some (persistent n (b # past)) # verdicts n (b # past) as"

definition called_filtered :: "tick_exn + snapshot \<Rightarrow> bool" where
  "called_filtered r = (case r of Inl _ \<Rightarrow> False | Inr s \<Rightarrow> sn_error s \<noteq> None)"

lemma persistent_count:
  "persistent n past \<longleftrightarrow> n \<le> length (takeWhile (\<lambda>b. b) past)"
proof (induction past arbitrary: n)
  case (Cons b past)
  then show ?case by (cases n) (auto simp: persistent_def)
qed (simp add: persistent_def)

lemma query_run_verdicts:
  assumes "pc_confirm_polls cfg = int n" "1 \<le> n" "pl_suspicious p = int (length (takeWhile (\<lambda>b. b) past))"
  shows "map (\<lambda>(a, r). map_option (\<lambda>_. called_filtered r) a) (query_run sh cfg ops rs p) =
     verdicts n past (map fst (query_run sh cfg ops rs p))"
  using assms(3)
proof (induction rs arbitrary: p past)
  case (Cons rd rest)
  obtain te reading where rd: "rd = (te, reading)" by (cases rd)
  obtain r p1 where r: "poll_queries sh cfg ops te reading p = (r, p1)" by (metis surj_pair)
  obtain o1 c1 where o: "op_queries ops (pl_client p) = (o1, c1)" by (metis surj_pair)
  show ?case
  proof (cases "answered_poll sh cfg ops reading p")
    case None
    then have "pl_suspicious p1 = pl_suspicious p" using r o
      by (auto simp: answered_poll_def poll_queries_def caught_def Let_def split: sum.splits if_splits)
    then show ?thesis using Cons rd r None by simp
  next
    case (Some b)
    then obtain ql qs where q: "o1 = Inr ql" "map_exn (summarise_query sh cfg) (queries ql) = Inr qs"
      "b = suspicious (qs = []) reading"
      using o by (auto simp: answered_poll_def split: sum.splits)
    have k: "pl_suspicious p1 = int (length (takeWhile (\<lambda>b. b) (b # past)))"
      using r o q Cons.prems
      by (auto simp: poll_queries_def cross_check_def Let_def adapt_interval_def succeeded_def split: if_splits)
    have "called_filtered r = persistent n (b # past)"
      using r o q Cons.prems assms(1,2)
      by (auto simp: persistent_count poll_queries_def cross_check_def called_filtered_def Let_def
          snapshot_of_def split: if_splits)
    then show ?thesis using Cons.IH [OF k] rd r Some by simp
  qed
qed simp


lemma one_reading_serves_one_poll:
  assumes "load_snapshot (pc_cluster cfg) KIND_JMX repo = Some s" "\<not> te_load_fails te"
    and "sn_collected_at s \<le> earlier" "te_checked te > earlier + pc_check_max_age cfg"
  shows "last_jmx_running_queries cfg te repo = Inr None"
  using assms by (auto simp: last_jmx_running_queries_def is_stale_def)

section \<open>The defaults\<close>

text \<open>A coordinator that filters the query list away while five queries run, polled by a loop that wakes
  when something is due and reads within tenths of a second.\<close>

definition denied_ops :: "unit client_ops" where
  "denied_ops =
     \<lparr>op_info = (\<lambda>c. (Inr [], c)), op_names = (\<lambda>c. (Inr [], c)),
      op_mbean = (\<lambda>name c. (Inr (if name = QUERY_MANAGER then [(''RunningQueries'', JNum 5)] else []), c)),
      op_queries = (\<lambda>c. (Inr \<lparr>queries = [], response_bytes = 2, elapsed_seconds = 0\<rparr>, c))\<rparr>"

definition prompt_env :: "rat \<Rightarrow> tick_env" where
  "prompt_env now =
     \<lparr>te_due = now, te_done = (\<lambda>_. now + 3/10), te_resched = (\<lambda>_. now + 3/10), te_taken = (\<lambda>_. now + 1/10),
      te_checked = now + 2/10, te_load_fails = False, te_save_fails = (\<lambda>_. False)\<rparr>"

definition default_config :: poller_config where
  "default_config = new_poller_config ''c'' 5 15 30 4096 300 5000000 10 None 2 None"

fun simulate :: "nat \<Rightarrow> rat \<Rightarrow> unit poller \<Rightarrow> unit snapshot_repo \<Rightarrow> (rat \<times> string \<times> bool) list" where
  "simulate 0 now p repo = []"
| "simulate (Suc n) now p repo =
     (let st = tick (\<lambda>_. []) default_config denied_ops (prompt_env now) p repo;
          later = now + 3/10
      in map (\<lambda>s. (now, sn_kind s, sn_error s = None)) (tk_produced st) @
         simulate n (later + seconds_until_next_due later (tk_poller st)) (tk_poller st) (tk_repo st))"
text \<open>At the default intervals three query polls in a row find the list empty on a busy cluster and none is
  marked: the JMX reading that made the first one suspicious is older than the query interval when the
  second one asks for it, and a poll without a reading clears the count, so the two suspicious polls in
  a row that a verdict takes do not come about.\<close>

theorem filtered_list_goes_unnoticed:
  "map (\<lambda>(t, kind, good). (kind, good)) (simulate 3 0 (new_poller default_config ())
     \<lparr>snapshots = [], health_events = [], overrides = []\<rparr>) =
   [(KIND_JMX, True), (KIND_QUERIES, True), (KIND_INFO, True), (KIND_QUERIES, True), (KIND_QUERIES, True)]"
  by code_simp

end
