(* ===== verification/StoreTables.thy ===== *)
theory StoreTables
  imports GroupRules
begin

text \<open>
  Trino's resource group tables as \<^verbatim>\<open>ops/config_store.py\<close> reads and writes them: the rows, each SQL
  statement of the module on them, and the shape the rest of the program speaks (dotted paths and
  matchers). Both foreign keys cascade; what else the tables require of a row is the predicate
  \<open>accepts\<close>. Cells are JSON values.
\<close>

section \<open>Rows\<close>

record db_group =
  dg_id :: int
  dg_env :: string
  dg_parent :: "int option"
  dg_cells :: "json pydict"

record db_selector =
  ds_id :: int
  ds_group :: int
  ds_priority :: int
  ds_cells :: "json pydict"

definition MATCHER_COLUMNS :: "string list" where
  "MATCHER_COLUMNS =
     [''user_regex'', ''user_group_regex'', ''source_regex'', ''query_type'', ''client_tags'',
      ''original_user_regex'', ''authenticated_user_regex'']"

definition EDITABLE_GROUP_COLUMNS :: "string list" where
  "EDITABLE_GROUP_COLUMNS =
     [''name'', ''soft_memory_limit'', ''soft_concurrency_limit'', ''hard_concurrency_limit'',
      ''max_queued'', ''scheduling_policy'', ''scheduling_weight'', ''jmx_export'', ''soft_cpu_limit'',
      ''hard_cpu_limit'', ''hard_physical_data_scan_limit'']"

fun text_cell :: "json \<Rightarrow> string option" where
  "text_cell (JStr s) = Some s"
| "text_cell _ = None"

fun int_cell :: "json \<Rightarrow> int option" where
  "int_cell (JNum n) = Some \<lfloor>n\<rfloor>"
| "int_cell _ = None"

definition row_name :: "db_group \<Rightarrow> string" where
  "row_name r = (case text_cell (dget ''name'' (dg_cells r)) of Some s \<Rightarrow> s | None \<Rightarrow> [])"

section \<open>Dotted paths\<close>

text \<open>\<open>by_id\<close>: the last row of an id.\<close>

definition row_by_id :: "db_group list \<Rightarrow> int \<Rightarrow> db_group option" where
  "row_by_id rows i = find (\<lambda>r. dg_id r = i) (rev rows)"

lemma find_facts: "find P xs = Some x \<Longrightarrow> x \<in> set xs \<and> P x"
  by (induction xs) (auto split: if_splits)

lemma row_by_id_Some: "row_by_id rows i = Some r \<Longrightarrow> r \<in> set rows \<and> dg_id r = i"
  using find_facts unfolding row_by_id_def by fastforce

text \<open>\<open>resolve\<close> with the memo \<open>paths\<close> and the set \<open>seen\<close> of the rows on the way up; every row it climbs
  to is new in \<open>seen\<close>, so the climb ends also where the parents form a cycle.\<close>

function resolve ::
    "db_group list \<Rightarrow> int \<Rightarrow> int list \<Rightarrow> (int \<times> string list) list \<Rightarrow>
     string list \<times> (int \<times> string list) list" where
  "resolve rows i seen paths =
     (case map_of paths i of
        Some p \<Rightarrow> (p, paths)
      | None \<Rightarrow>
          (case row_by_id rows i of
             None \<Rightarrow> ([], paths)
           | Some r \<Rightarrow>
               (if i \<in> set seen then ([], paths)
                else case dg_parent r of
                       None \<Rightarrow> ([row_name r], dset i [row_name r] paths)
                     | Some parent \<Rightarrow>
                         (case resolve rows parent (i # seen) paths of
                            (upper, paths') \<Rightarrow>
                              (upper @ [row_name r], dset i (upper @ [row_name r]) paths')))))"
  by pat_completeness auto
termination resolve
proof (relation "measure (\<lambda>(rows, i, seen, paths). card (dg_id ` set rows - set seen))")
  fix rows :: "db_group list" and i seen r parent and paths :: "(int \<times> string list) list"
  assume "row_by_id rows i = Some r" "i \<notin> set seen"
  then have "i \<in> dg_id ` set rows - set seen" using row_by_id_Some by fastforce
  then have "card (dg_id ` set rows - set (i # seen)) < card (dg_id ` set rows - set seen)"
    by (intro psubset_card_mono) auto
  then show "((rows, parent, i # seen, paths), (rows, i, seen, paths))
      \<in> measure (\<lambda>(rows, i, seen, paths). card (dg_id ` set rows - set seen))" by simp
qed simp

declare resolve.simps [simp del]

definition dotted_paths :: "db_group list \<Rightarrow> (int \<times> string list) list" where
  "dotted_paths rows = foldl (\<lambda>paths r. snd (resolve rows (dg_id r) [] paths)) [] rows"

section \<open>The shape\<close>

record shaped_group =
  sh_path :: "string list"
  sh_row :: int
  sh_cells :: "json pydict"

record shaped_selector =
  sv_id :: int
  sv_priority :: int
  sv_target :: string
  sv_target_row :: int
  sv_matchers :: "json pydict"

definition sh_id :: "shaped_group \<Rightarrow> string" where
  "sh_id g = join ''.'' (sh_path g)"

definition shape_group :: "(int \<times> string list) list \<Rightarrow> db_group \<Rightarrow> shaped_group" where
  "shape_group paths r =
     \<lparr>sh_path = (case map_of paths (dg_id r) of
                   None \<Rightarrow> [row_name r] | Some p \<Rightarrow> (if p = [] then [row_name r] else p)),
      sh_row = dg_id r, sh_cells = map (\<lambda>c. (c, dget c (dg_cells r))) EDITABLE_GROUP_COLUMNS\<rparr>"

text \<open>\<open>target_of\<close>: the last group of a row id.\<close>

definition target_of :: "shaped_group list \<Rightarrow> int \<Rightarrow> string" where
  "target_of gs i = (case find (\<lambda>g. sh_row g = i) (rev gs) of None \<Rightarrow> [] | Some g \<Rightarrow> sh_id g)"

definition kept_matchers :: "json pydict \<Rightarrow> json pydict" where
  "kept_matchers cells =
     filter (\<lambda>(c, v). v \<noteq> JNull \<and> v \<noteq> JStr []) (map (\<lambda>c. (c, dget c cells)) MATCHER_COLUMNS)"

definition shape_selector :: "shaped_group list \<Rightarrow> db_selector \<Rightarrow> shaped_selector" where
  "shape_selector gs s =
     \<lparr>sv_id = ds_id s, sv_priority = ds_priority s, sv_target = target_of gs (ds_group s),
      sv_target_row = ds_group s, sv_matchers = kept_matchers (ds_cells s)\<rparr>"

definition shape :: "db_group list \<Rightarrow> db_selector list \<Rightarrow> shaped_group list \<times> shaped_selector list" where
  "shape group_rows selector_rows =
     (let gs = map (shape_group (dotted_paths group_rows)) group_rows
      in (gs, map (shape_selector gs) selector_rows))"

text \<open>What the validator reads of them.\<close>

definition rule_group :: "shaped_group \<Rightarrow> group" where
  "rule_group g =
     (let c = (\<lambda>name. dget name (sh_cells g))
      in \<lparr>g_id = Some (sh_id g), g_name = text_cell (c ''name''), g_path = sh_path g,
          max_queued = int_cell (c ''max_queued''), hard_concurrency_limit = int_cell (c ''hard_concurrency_limit''),
          soft_memory_limit = text_cell (c ''soft_memory_limit''), soft_cpu_limit = text_cell (c ''soft_cpu_limit''),
          hard_cpu_limit = text_cell (c ''hard_cpu_limit''), scheduling_policy = text_cell (c ''scheduling_policy''),
          hard_physical_data_scan_limit = text_cell (c ''hard_physical_data_scan_limit''),
          jmx_export = truthy (c ''jmx_export'')\<rparr>)"

definition rule_selector :: "shaped_selector \<Rightarrow> selector" where
  "rule_selector s =
     \<lparr>s_id = Some (sv_id s), s_target = Some (sv_target s),
      s_matchers = List.map_filter (\<lambda>(c, v). map_option (Pair c) (text_cell v)) (sv_matchers s),
      s_catch_all = (sv_matchers s = [])\<rparr>"

section \<open>Statements\<close>

record revision =
  rv_id :: int
  rv_env :: string
  rv_actor :: string
  rv_reason :: string
  rv_request :: string
  rv_kind :: string
  rv_target :: string
  rv_before :: "shaped_group list \<times> shaped_selector list"
  rv_after :: "shaped_group list \<times> shaped_selector list"

record tables =
  tb_groups :: "db_group list"
  tb_selectors :: "db_selector list"
  tb_revisions :: "revision list"
  tb_next :: int

text \<open>\<open>SELECT ... FROM resource_groups WHERE environment = ?\<close>, and the selectors joined to it,
  \<open>ORDER BY s.priority DESC, s.id\<close>.\<close>

definition groups_in :: "string \<Rightarrow> tables \<Rightarrow> db_group list" where
  "groups_in env t = filter (\<lambda>r. dg_env r = env) (tb_groups t)"

definition selector_before :: "db_selector \<Rightarrow> db_selector \<Rightarrow> bool" where
  "selector_before a b \<longleftrightarrow> ds_priority a > ds_priority b \<or> (ds_priority a = ds_priority b \<and> ds_id a < ds_id b)"

fun insert_selector :: "db_selector \<Rightarrow> db_selector list \<Rightarrow> db_selector list" where
  "insert_selector s [] = [s]"
| "insert_selector s (x # xs) = (if selector_before x s then x # insert_selector s xs else s # x # xs)"

definition selectors_in :: "string \<Rightarrow> tables \<Rightarrow> db_selector list" where
  "selectors_in env t =
     foldr insert_selector
       (filter (\<lambda>s. ds_group s \<in> dg_id ` set (groups_in env t)) (tb_selectors t)) []"

definition tree_in :: "string \<Rightarrow> tables \<Rightarrow> shaped_group list \<times> shaped_selector list" where
  "tree_in env t = shape (groups_in env t) (selectors_in env t)"

text \<open>A deletion takes the rows below with it, and the selectors that point at a deleted row: the closure
  of the ids under \<open>parent\<close>, reached in at most as many rounds as there are rows.\<close>

fun closure :: "db_group list \<Rightarrow> nat \<Rightarrow> int list \<Rightarrow> int list" where
  "closure rows 0 ids = ids"
| "closure rows (Suc n) ids =
     closure rows n (ids @ map dg_id (filter (\<lambda>r. dg_id r \<notin> set ids \<and>
        (case dg_parent r of None \<Rightarrow> False | Some p \<Rightarrow> p \<in> set ids)) rows))"

definition delete_cascade :: "int list \<Rightarrow> tables \<Rightarrow> tables" where
  "delete_cascade ids t =
     (let gone = closure (tb_groups t) (length (tb_groups t)) ids
      in t\<lparr>tb_groups := filter (\<lambda>r. dg_id r \<notin> set gone) (tb_groups t),
           tb_selectors := filter (\<lambda>s. ds_group s \<notin> set gone) (tb_selectors t)\<rparr>)"

definition matching_groups :: "int \<Rightarrow> string \<Rightarrow> tables \<Rightarrow> int list" where
  "matching_groups i env t = map dg_id (filter (\<lambda>r. dg_id r = i \<and> dg_env r = env) (tb_groups t))"

text \<open>\<open>INSERT INTO resource_groups\<close>, with the parent's foreign key; \<open>INSERT INTO selectors\<close>.\<close>

definition insert_group ::
    "(db_group \<Rightarrow> bool) \<Rightarrow> string \<Rightarrow> int option \<Rightarrow> json pydict \<Rightarrow> tables \<Rightarrow> (int \<times> tables) option" where
  "insert_group accepts env parent cells t =
     (let r = \<lparr>dg_id = tb_next t, dg_env = env, dg_parent = parent, dg_cells = cells\<rparr>
      in if accepts r \<and> (case parent of None \<Rightarrow> True | Some p \<Rightarrow> p \<in> dg_id ` set (tb_groups t))
         then Some (tb_next t, t\<lparr>tb_groups := tb_groups t @ [r], tb_next := tb_next t + 1\<rparr>)
         else None)"

definition insert_selector_row :: "int \<Rightarrow> int \<Rightarrow> json pydict \<Rightarrow> tables \<Rightarrow> tables option" where
  "insert_selector_row gid priority cells t =
     (if gid \<in> dg_id ` set (tb_groups t)
      then Some (t\<lparr>tb_selectors := tb_selectors t @
                     [\<lparr>ds_id = tb_next t, ds_group = gid, ds_priority = priority, ds_cells = cells\<rparr>],
                   tb_next := tb_next t + 1\<rparr>)
      else None)"

end
