(* ===== verification/ConfigStore.thy ===== *)
theory ConfigStore
  imports StoreTables
begin

text \<open>
  The resource group store (\<^verbatim>\<open>ops/config_store.py\<close>): the probe the restart asks, the configured tree, the
  impact of a deletion, and the changes, each one a transaction that is committed only when the tree it
  produced passes the rules. Every step of a transaction may fail (\<open>outage\<close>); a failed one leaves the
  tables as they were. Row numbers come from one sequence.
\<close>

datatype stage = Connecting | Locking | ReadingBefore | Mutating | ReadingAfter | Recording | Committing

type_synonym outage = "stage \<Rightarrow> string option"

text \<open>\<open>ChangeRejected\<close> with its findings (the two V0 findings are constructors of their own), or what the
  driver raises.\<close>

datatype store_exn =
    NothingChanged | NoSuchRow string string | Blocked "finding list" | DbError string

record store_config =
  so_accepts :: "db_group \<Rightarrow> bool"
  so_compiles :: "string \<Rightarrow> bool"

record store_request =
  er_env :: string
  er_actor :: string
  er_reason :: string
  er_request :: string
  er_provider :: bool

record change_result =
  ch_before :: "shaped_group list \<times> shaped_selector list"
  ch_after :: "shaped_group list \<times> shaped_selector list"
  ch_warnings :: "finding list"
  ch_revision :: int

type_synonym mutation = "tables \<Rightarrow> store_exn + tables"

section \<open>The transaction\<close>

definition at_stage :: "outage \<Rightarrow> stage \<Rightarrow> store_exn + 'a \<Rightarrow> store_exn + 'a" where
  "at_stage out s r = (case out s of Some e \<Rightarrow> Inl (DbError e) | None \<Rightarrow> r)"

definition tree_findings ::
    "store_config \<Rightarrow> bool \<Rightarrow> shaped_group list \<times> shaped_selector list \<Rightarrow> finding list" where
  "tree_findings cfg provider tree =
     validate_tree (so_compiles cfg) (map rule_group (fst tree)) (map rule_selector (snd tree)) provider"

text \<open>The target a revision names: the group's dotted path while the row is still there.\<close>

definition named_target :: "string \<Rightarrow> int option \<Rightarrow> shaped_group list \<Rightarrow> string" where
  "named_target target target_row gs =
     (case target_row of
        None \<Rightarrow> target
      | Some i \<Rightarrow> (case find (\<lambda>g. sh_row g = i) gs of None \<Rightarrow> target | Some g \<Rightarrow> sh_id g))"

definition transaction ::
    "store_config \<Rightarrow> outage \<Rightarrow> store_request \<Rightarrow> string \<Rightarrow> string \<Rightarrow> int option \<Rightarrow> mutation \<Rightarrow> tables \<Rightarrow>
     store_exn + change_result \<times> tables" where
  "transaction cfg out rq kind target target_row mutate t =
     at_stage out Connecting (at_stage out Locking (at_stage out ReadingBefore
       (at_stage out Mutating
          (case mutate t of
             Inl e \<Rightarrow> Inl e
           | Inr t1 \<Rightarrow>
               at_stage out ReadingAfter
                 (let before = tree_in (er_env rq) t; after = tree_in (er_env rq) t1;
                      findings = tree_findings cfg (er_provider rq) after
                  in if blocking findings \<noteq> [] then Inl (Blocked (blocking findings))
                     else at_stage out Recording (at_stage out Committing
                       (let rv = \<lparr>rv_id = tb_next t1, rv_env = er_env rq, rv_actor = er_actor rq,
                                  rv_reason = er_reason rq, rv_request = er_request rq, rv_kind = kind,
                                  rv_target = named_target target target_row (fst before),
                                  rv_before = before, rv_after = after\<rparr>
                        in Inr (\<lparr>ch_before = before, ch_after = after,
                                 ch_warnings = filter (\<lambda>f. f_level f \<noteq> ERROR) findings,
                                 ch_revision = rv_id rv\<rparr>,
                                t1\<lparr>tb_revisions := tb_revisions t1 @ [rv],
                                   tb_next := tb_next t1 + 1\<rparr>))))))))"

definition apply_change ::
    "store_config \<Rightarrow> outage \<Rightarrow> store_request \<Rightarrow> string \<Rightarrow> string \<Rightarrow> int option \<Rightarrow> mutation \<Rightarrow> tables \<Rightarrow>
     (store_exn + change_result) \<times> tables" where
  "apply_change cfg out rq kind target target_row mutate t =
     (case transaction cfg out rq kind target target_row mutate t of
        Inl e \<Rightarrow> (Inl e, t) | Inr (r, t') \<Rightarrow> (Inr r, t'))"

section \<open>The changes\<close>

definition violates :: "store_exn" where
  "violates = DbError ''constraint''"

definition update_row :: "store_config \<Rightarrow> int \<Rightarrow> string \<Rightarrow> json pydict \<Rightarrow> mutation" where
  "update_row cfg i env changed t =
     (if length (matching_groups i env t) \<noteq> 1 then Inl (NoSuchRow (show_int i) env)
      else let put = (\<lambda>r. if dg_id r = i \<and> dg_env r = env then r\<lparr>dg_cells := dupdate (dg_cells r) changed\<rparr> else r)
           in if list_all (so_accepts cfg) (map put (filter (\<lambda>r. dg_id r = i \<and> dg_env r = env) (tb_groups t)))
              then Inr (t\<lparr>tb_groups := map put (tb_groups t)\<rparr>) else Inl violates)"

definition update_group ::
    "store_config \<Rightarrow> outage \<Rightarrow> store_request \<Rightarrow> int \<Rightarrow> json pydict \<Rightarrow> tables \<Rightarrow>
     (store_exn + change_result) \<times> tables" where
  "update_group cfg out rq i changes t =
     (let changed = filter (\<lambda>(c, v). c \<in> set EDITABLE_GROUP_COLUMNS) changes
      in if changed = [] then (Inl NothingChanged, t)
         else apply_change cfg out rq ''group_update'' (show_int i) (Some i)
                (update_row cfg i (er_env rq) changed) t)"

definition add_row :: "store_config \<Rightarrow> string \<Rightarrow> int option \<Rightarrow> json pydict \<Rightarrow> mutation" where
  "add_row cfg env parent cells t =
     (case insert_group (so_accepts cfg) env parent cells t of None \<Rightarrow> Inl violates | Some (i, t') \<Rightarrow> Inr t')"

definition create_group ::
    "store_config \<Rightarrow> outage \<Rightarrow> store_request \<Rightarrow> string \<Rightarrow> int option \<Rightarrow> json pydict \<Rightarrow> tables \<Rightarrow>
     (store_exn + change_result) \<times> tables" where
  "create_group cfg out rq name parent cells t =
     apply_change cfg out rq ''group_create'' name None
       (add_row cfg (er_env rq) parent
          ((''name'', JStr name) # filter (\<lambda>(c, v). c \<in> set EDITABLE_GROUP_COLUMNS \<and> c \<noteq> ''name'') cells)) t"

definition drop_row :: "int \<Rightarrow> string \<Rightarrow> mutation" where
  "drop_row i env t =
     (if length (matching_groups i env t) \<noteq> 1 then Inl (NoSuchRow (show_int i) env)
      else Inr (delete_cascade (matching_groups i env t) t))"

definition delete_group ::
    "store_config \<Rightarrow> outage \<Rightarrow> store_request \<Rightarrow> int \<Rightarrow> tables \<Rightarrow> (store_exn + change_result) \<times> tables" where
  "delete_group cfg out rq i t =
     apply_change cfg out rq ''group_delete'' (show_int i) (Some i) (drop_row i (er_env rq)) t"

definition add_selector :: "int \<Rightarrow> int \<Rightarrow> json pydict \<Rightarrow> mutation" where
  "add_selector gid priority cells t =
     (case insert_selector_row gid priority cells t of None \<Rightarrow> Inl violates | Some t' \<Rightarrow> Inr t')"

definition create_selector ::
    "store_config \<Rightarrow> outage \<Rightarrow> store_request \<Rightarrow> int \<Rightarrow> int \<Rightarrow> json pydict \<Rightarrow> tables \<Rightarrow>
     (store_exn + change_result) \<times> tables" where
  "create_selector cfg out rq gid priority matchers t =
     apply_change cfg out rq ''selector_create'' (show_int gid) (Some gid)
       (add_selector gid priority
          (filter (\<lambda>(c, v). c \<in> set MATCHER_COLUMNS \<and> v \<noteq> JNull \<and> v \<noteq> JStr []) matchers)) t"

definition drop_selector :: "int \<Rightarrow> string \<Rightarrow> mutation" where
  "drop_selector i env t =
     (let hit = (\<lambda>s. ds_id s = i \<and> ds_group s \<in> dg_id ` set (groups_in env t))
      in if length (filter hit (tb_selectors t)) \<noteq> 1 then Inl (NoSuchRow (show_int i) env)
         else Inr (t\<lparr>tb_selectors := filter (\<lambda>s. \<not> hit s) (tb_selectors t)\<rparr>))"

definition delete_selector ::
    "store_config \<Rightarrow> outage \<Rightarrow> store_request \<Rightarrow> int \<Rightarrow> tables \<Rightarrow> (store_exn + change_result) \<times> tables" where
  "delete_selector cfg out rq i t =
     apply_change cfg out rq ''selector_delete'' (show_int i) None (drop_selector i (er_env rq)) t"

section \<open>Going back\<close>

text \<open>\<open>_restore\<close>: the environment's rows go, the snapshot's groups are inserted with parents first, and the
  selectors whose target exists.\<close>

definition restored_cells :: "shaped_group \<Rightarrow> json pydict" where
  "restored_cells g =
     (''name'', dget ''name'' (sh_cells g)) #
     filter (\<lambda>(c, v). c \<noteq> ''name'' \<and> v \<noteq> JNull) (map (\<lambda>c. (c, dget c (sh_cells g))) EDITABLE_GROUP_COLUMNS)"

fun restore_groups ::
    "store_config \<Rightarrow> string \<Rightarrow> shaped_group list \<Rightarrow> (string \<times> int) list \<Rightarrow> tables \<Rightarrow>
     store_exn + (string \<times> int) list \<times> tables" where
  "restore_groups cfg env [] ids t = Inr (ids, t)"
| "restore_groups cfg env (g # gs) ids t =
     (case insert_group (so_accepts cfg) env (map_of ids (join ''.'' (butlast (sh_path g)))) (restored_cells g) t of
        None \<Rightarrow> Inl violates
      | Some (i, t') \<Rightarrow> restore_groups cfg env gs (dset (sh_id g) i ids) t')"

fun restore_selectors ::
    "shaped_selector list \<Rightarrow> (string \<times> int) list \<Rightarrow> tables \<Rightarrow> store_exn + tables" where
  "restore_selectors [] ids t = Inr t"
| "restore_selectors (s # ss) ids t =
     (case map_of ids (sv_target s) of
        None \<Rightarrow> restore_selectors ss ids t
      | Some i \<Rightarrow>
          (case insert_selector_row i (sv_priority s)
                  (filter (\<lambda>(c, v). c \<in> set MATCHER_COLUMNS) (sv_matchers s)) t of
             None \<Rightarrow> Inl violates
           | Some t' \<Rightarrow> restore_selectors ss ids t'))"

definition restore ::
    "store_config \<Rightarrow> string \<Rightarrow> shaped_group list \<times> shaped_selector list \<Rightarrow> mutation" where
  "restore cfg env tree t =
     (case restore_groups cfg env (sort_key (\<lambda>g. length (sh_path g)) (fst tree)) []
             (delete_cascade (map dg_id (groups_in env t)) t) of
        Inl e \<Rightarrow> Inl e
      | Inr (ids, t') \<Rightarrow> restore_selectors (snd tree) ids t')"

definition revert ::
    "store_config \<Rightarrow> outage \<Rightarrow> store_request \<Rightarrow> int \<Rightarrow> tables \<Rightarrow> (store_exn + change_result) \<times> tables" where
  "revert cfg out rq i t =
     (case out Connecting of
        Some e \<Rightarrow> (Inl (DbError e), t)
      | None \<Rightarrow>
          (case find (\<lambda>rv. rv_id rv = i \<and> rv_env rv = er_env rq) (tb_revisions t) of
             None \<Rightarrow> (Inl (NoSuchRow (show_int i) (er_env rq)), t)
           | Some rv \<Rightarrow>
               apply_change cfg out rq ''revert'' (show_int i) None (restore cfg (er_env rq) (rv_before rv)) t))"

section \<open>Reading\<close>

datatype probe_detail =
    Unconfigured | Unreachable string | NoGroupRows string | NoSelectorRows nat string | StoreReady nat nat string

record store_probe =
  pb_ready :: "bool option"
  pb_detail :: probe_detail

definition probe :: "outage \<Rightarrow> string option \<Rightarrow> tables \<Rightarrow> store_probe" where
  "probe out environment t =
     (let env = strip (case environment of None \<Rightarrow> [] | Some e \<Rightarrow> e)
      in if env = [] then \<lparr>pb_ready = None, pb_detail = Unconfigured\<rparr>
         else case out Connecting of
                Some e \<Rightarrow> \<lparr>pb_ready = Some False, pb_detail = Unreachable e\<rparr>
              | None \<Rightarrow>
                  (let n = length (groups_in env t); k = length (selectors_in env t)
                   in if n = 0 then \<lparr>pb_ready = Some False, pb_detail = NoGroupRows env\<rparr>
                      else if k = 0 then \<lparr>pb_ready = Some False, pb_detail = NoSelectorRows n env\<rparr>
                      else \<lparr>pb_ready = Some True, pb_detail = StoreReady n k env\<rparr>))"

datatype tree_error = NoEnvironment | TreeUnreachable string | NoGroupsFor string

record configured_tree =
  ct_groups :: "shaped_group list"
  ct_selectors :: "shaped_selector list"
  ct_error :: "tree_error option"

definition load_configured :: "outage \<Rightarrow> string option \<Rightarrow> tables \<Rightarrow> configured_tree" where
  "load_configured out environment t =
     (let env = strip (case environment of None \<Rightarrow> [] | Some e \<Rightarrow> e)
      in if env = [] then \<lparr>ct_groups = [], ct_selectors = [], ct_error = Some NoEnvironment\<rparr>
         else case out ReadingBefore of
                Some e \<Rightarrow> \<lparr>ct_groups = [], ct_selectors = [], ct_error = Some (TreeUnreachable e)\<rparr>
              | None \<Rightarrow> \<lparr>ct_groups = fst (tree_in env t), ct_selectors = snd (tree_in env t),
                         ct_error = (if fst (tree_in env t) = [] then Some (NoGroupsFor env) else None)\<rparr>)"

definition has_catch_all :: "configured_tree \<Rightarrow> bool" where
  "has_catch_all c = list_ex (\<lambda>s. sv_matchers s = []) (ct_selectors c)"

record impact =
  im_group :: "shaped_group option"
  im_groups :: "shaped_group list"
  im_selectors :: "shaped_selector list"

definition deletion_impact :: "outage \<Rightarrow> string \<Rightarrow> int \<Rightarrow> tables \<Rightarrow> impact" where
  "deletion_impact out env i t =
     (let c = load_configured out (Some env) t
      in case find (\<lambda>g. sh_row g = i) (ct_groups c) of
           None \<Rightarrow> \<lparr>im_group = None, im_groups = [], im_selectors = []\<rparr>
         | Some g \<Rightarrow>
             (let doomed = filter (\<lambda>h. sh_id h = sh_id g \<or> prefix (sh_id g @ ''.'') (sh_id h)) (ct_groups c)
              in \<lparr>im_group = Some g, im_groups = doomed,
                  im_selectors = filter (\<lambda>s. sv_target s \<in> sh_id ` set doomed) (ct_selectors c)\<rparr>))"

definition revisions_of :: "outage \<Rightarrow> string \<Rightarrow> nat \<Rightarrow> tables \<Rightarrow> revision list" where
  "revisions_of out env limit t =
     (case out ReadingBefore of
        Some e \<Rightarrow> []
      | None \<Rightarrow> take limit (rev (filter (\<lambda>rv. rv_env rv = env) (tb_revisions t))))"

end
