(* ===== verification/StoreProps.thy ===== *)
theory StoreProps
  imports ConfigStore
begin

text \<open>
  What a change to the resource group store promises: nothing or a tree that passes the rules, with its
  revision; and where it does not look: at the environment of the rows it is given.
\<close>

section \<open>Every operation\<close>

datatype store_op =
    UpdateGroup int "json pydict"
  | CreateGroup string "int option" "json pydict"
  | DeleteGroup int
  | CreateSelector int int "json pydict"
  | DeleteSelector int
  | Revert int

fun run_op ::
    "store_config \<Rightarrow> outage \<Rightarrow> store_request \<Rightarrow> store_op \<Rightarrow> tables \<Rightarrow> (store_exn + change_result) \<times> tables" where
  "run_op cfg out rq (UpdateGroup i changes) t = update_group cfg out rq i changes t"
| "run_op cfg out rq (CreateGroup name parent cells) t = create_group cfg out rq name parent cells t"
| "run_op cfg out rq (DeleteGroup i) t = delete_group cfg out rq i t"
| "run_op cfg out rq (CreateSelector i priority matchers) t = create_selector cfg out rq i priority matchers t"
| "run_op cfg out rq (DeleteSelector i) t = delete_selector cfg out rq i t"
| "run_op cfg out rq (Revert i) t = revert cfg out rq i t"

definition keeps_revisions :: "mutation \<Rightarrow> bool" where
  "keeps_revisions m \<longleftrightarrow> (\<forall>t t'. m t = Inr t' \<longrightarrow> tb_revisions t' = tb_revisions t)"

lemma insert_keeps:
  "insert_group ok env parent cells t = Some (i, t') \<Longrightarrow> tb_revisions t' = tb_revisions t"
  "insert_selector_row gid priority cells t = Some t' \<Longrightarrow> tb_revisions t' = tb_revisions t"
  by (auto simp: insert_group_def insert_selector_row_def Let_def split: if_splits)

lemma delete_cascade_keeps [simp]: "tb_revisions (delete_cascade ids t) = tb_revisions t"
  by (simp add: delete_cascade_def Let_def)

lemma restore_groups_keeps:
  "restore_groups cfg env gs ids t = Inr (ids', t') \<Longrightarrow> tb_revisions t' = tb_revisions t"
  by (induction gs arbitrary: ids t) (auto split: option.splits dest: insert_keeps)

lemma restore_selectors_keeps:
  "restore_selectors ss ids t = Inr t' \<Longrightarrow> tb_revisions t' = tb_revisions t"
  by (induction ss arbitrary: t) (auto split: option.splits dest: insert_keeps)

lemma restore_keeps: "restore cfg env tree t = Inr t' \<Longrightarrow> tb_revisions t' = tb_revisions t"
proof -
  assume "restore cfg env tree t = Inr t'"
  then obtain ids t1 where
    1: "restore_groups cfg env (sort_key (\<lambda>g. length (sh_path g)) (fst tree)) []
          (delete_cascade (map dg_id (groups_in env t)) t) = Inr (ids, t1)"
    and 2: "restore_selectors (snd tree) ids t1 = Inr t'"
    by (auto simp: restore_def split: sum.splits)
  show ?thesis using restore_groups_keeps [OF 1] restore_selectors_keeps [OF 2] by simp
qed

lemma mutations_keep:
  "keeps_revisions (update_row cfg i env changed)" "keeps_revisions (add_row cfg env parent cells)"
  "keeps_revisions (drop_row i env)" "keeps_revisions (add_selector gid priority cells)"
  "keeps_revisions (drop_selector i env)" "keeps_revisions (restore cfg env tree)"
  by (auto simp: keeps_revisions_def update_row_def add_row_def drop_row_def add_selector_def
      drop_selector_def Let_def split: if_splits option.splits sum.splits
      dest: insert_keeps restore_keeps)

lemma tree_in_revisions [simp]: "tree_in env (t\<lparr>tb_revisions := rs, tb_next := n\<rparr>) = tree_in env t"
  by (simp add: tree_in_def groups_in_def selectors_in_def)

definition change_ok ::
    "store_config \<Rightarrow> store_request \<Rightarrow> tables \<Rightarrow> (store_exn + change_result) \<times> tables \<Rightarrow> bool" where
  "change_ok cfg rq t rt \<longleftrightarrow>
     (case rt of
        (Inl e, t') \<Rightarrow> t' = t
      | (Inr r, t') \<Rightarrow>
          tree_ok (so_compiles cfg) (map rule_group (fst (tree_in (er_env rq) t')))
            (map rule_selector (snd (tree_in (er_env rq) t'))) \<and>
          ch_before r = tree_in (er_env rq) t \<and> ch_after r = tree_in (er_env rq) t' \<and>
          (\<exists>rv. tb_revisions t' = tb_revisions t @ [rv] \<and> rv_id rv = ch_revision r \<and>
                rv_before rv = tree_in (er_env rq) t \<and> rv_after rv = tree_in (er_env rq) t' \<and>
                rv_env rv = er_env rq \<and> rv_actor rv = er_actor rq \<and> rv_reason rv = er_reason rq))"

lemma apply_change_ok:
  assumes "keeps_revisions mutate"
  shows "change_ok cfg rq t (apply_change cfg out rq kind target target_row mutate t)"
proof (cases "transaction cfg out rq kind target target_row mutate t")
  case (Inr rt)
  obtain r t' where rt: "rt = (r, t')" by (cases rt)
  obtain t1 where t1: "mutate t = Inr t1"
    using Inr by (auto simp: transaction_def at_stage_def split: option.splits sum.splits)
  define fs where "fs = tree_findings cfg (er_provider rq) (tree_in (er_env rq) t1)"
  have ok: "blocking fs = []" "ch_before r = tree_in (er_env rq) t" "ch_after r = tree_in (er_env rq) t1"
    and t': "\<exists>rv. t' = t1\<lparr>tb_revisions := tb_revisions t1 @ [rv], tb_next := tb_next t1 + 1\<rparr> \<and>
      rv_id rv = ch_revision r \<and> rv_before rv = tree_in (er_env rq) t \<and> rv_after rv = tree_in (er_env rq) t1 \<and>
      rv_env rv = er_env rq \<and> rv_actor rv = er_actor rq \<and> rv_reason rv = er_reason rq"
    using Inr rt t1 by (auto simp: transaction_def at_stage_def Let_def fs_def split: option.splits if_splits)
  have "tb_revisions t1 = tb_revisions t" using assms t1 by (auto simp: keeps_revisions_def)
  then show ?thesis
    using ok t' Inr rt rules_decide_tree
    by (auto simp: apply_change_def change_ok_def fs_def tree_findings_def)
qed (simp add: apply_change_def change_ok_def)

text \<open>C10: A change to the resource groups is nothing or complete: when any step of its transaction fails, or
  the resulting tree breaks a rule, the tables are as they were; otherwise the tree the environment now
  has passes every rule, and the one revision that was added holds the tree before, the tree after, who
  made the change and why.\<close>

theorem committed_tree_is_valid:
  "case run_op cfg out rq op t of
     (Inl e, t') \<Rightarrow> t' = t
   | (Inr r, t') \<Rightarrow>
       tree_ok (so_compiles cfg) (map rule_group (fst (tree_in (er_env rq) t')))
         (map rule_selector (snd (tree_in (er_env rq) t'))) \<and>
       ch_before r = tree_in (er_env rq) t \<and> ch_after r = tree_in (er_env rq) t' \<and>
       (\<exists>rv. tb_revisions t' = tb_revisions t @ [rv] \<and> rv_id rv = ch_revision r \<and>
             rv_before rv = tree_in (er_env rq) t \<and> rv_after rv = tree_in (er_env rq) t' \<and>
             rv_env rv = er_env rq \<and> rv_actor rv = er_actor rq \<and> rv_reason rv = er_reason rq)"
proof -
  have "change_ok cfg rq t (run_op cfg out rq op t)"
    by (cases op)
       (auto simp: update_group_def create_group_def delete_group_def create_selector_def
          delete_selector_def revert_def Let_def apply_change_ok [OF mutations_keep(1)]
          apply_change_ok [OF mutations_keep(2)] apply_change_ok [OF mutations_keep(3)]
          apply_change_ok [OF mutations_keep(4)] apply_change_ok [OF mutations_keep(5)]
          apply_change_ok [OF mutations_keep(6)] change_ok_def [of _ _ _ "(Inl _, _)"] split: option.split)
  then show ?thesis unfolding change_ok_def .
qed

section \<open>Dotted paths follow the parents\<close>

text \<open>A row's path by its parents; a parent that is not there counts as none. A row on a cycle has no
  path.\<close>

inductive chain :: "db_group list \<Rightarrow> int \<Rightarrow> string list \<Rightarrow> bool" for rows where
  top: "row_by_id rows i = Some r \<Longrightarrow> dg_parent r = None \<Longrightarrow> chain rows i [row_name r]"
| orphan: "row_by_id rows i = Some r \<Longrightarrow> dg_parent r = Some q \<Longrightarrow> row_by_id rows q = None \<Longrightarrow>
    chain rows i [row_name r]"
| below: "row_by_id rows i = Some r \<Longrightarrow> dg_parent r = Some q \<Longrightarrow> chain rows q p \<Longrightarrow>
    chain rows i (p @ [row_name r])"

inductive_cases chainE: "chain rows i p"

lemma chain_row: "chain rows i p \<Longrightarrow> row_by_id rows i \<noteq> None"
  by (cases rule: chain.cases) auto

lemma no_row: "row_by_id rows i = None \<Longrightarrow> \<not> chain rows i p"
  using chain_row by blast

lemma chain_iff:
  assumes "row_by_id rows i = Some r"
  shows "chain rows i p \<longleftrightarrow>
    (case dg_parent r of
       None \<Rightarrow> p = [row_name r]
     | Some q \<Rightarrow> (if row_by_id rows q = None then p = [row_name r]
                 else \<exists>p'. chain rows q p' \<and> p = p' @ [row_name r]))"
proof
  assume "chain rows i p"
  then show "case dg_parent r of
       None \<Rightarrow> p = [row_name r]
     | Some q \<Rightarrow> (if row_by_id rows q = None then p = [row_name r]
                 else \<exists>p'. chain rows q p' \<and> p = p' @ [row_name r])"
    by (cases rule: chain.cases) (use assms in \<open>auto simp: no_row split: option.split\<close>)
next
  assume "case dg_parent r of
       None \<Rightarrow> p = [row_name r]
     | Some q \<Rightarrow> (if row_by_id rows q = None then p = [row_name r]
                 else \<exists>p'. chain rows q p' \<and> p = p' @ [row_name r])"
  then show "chain rows i p"
    using assms chain.intros [OF assms] by (auto split: option.splits if_splits)
qed

lemma chain_unique: "chain rows i p \<Longrightarrow> chain rows i p' \<Longrightarrow> p = p'"
proof (induction arbitrary: p' rule: chain.induct)
  case (below i r q p)
  obtain p1 where "chain rows q p1" "p' = p1 @ [row_name r]"
    using below.prems chain_row [OF below.hyps(3)] below.hyps(2) unfolding chain_iff [OF below.hyps(1)]
    by (auto split: if_splits)
  then show ?case using below.IH by simp
next
  case (top i r)
  then show ?case by (simp add: chain_iff [OF top(1)])
next
  case (orphan i r q)
  then show ?case by (simp add: chain_iff [OF orphan(1)])
qed

text \<open>Climbing: \<open>q\<close> is above \<open>i\<close>, and has a row.\<close>

inductive climbs :: "db_group list \<Rightarrow> int \<Rightarrow> int \<Rightarrow> bool" for rows where
  one: "row_by_id rows i = Some r \<Longrightarrow> dg_parent r = Some q \<Longrightarrow> climbs rows i q"
| more: "climbs rows i j \<Longrightarrow> row_by_id rows j = Some r \<Longrightarrow> dg_parent r = Some q \<Longrightarrow> climbs rows i q"

lemma chain_parent:
  assumes "chain rows i p" "row_by_id rows i = Some r" "dg_parent r = Some q" "chain rows q p'"
  shows "length p' < length p"
proof -
  have "row_by_id rows q \<noteq> None" using chain_row [OF assms(4)] .
  then obtain p2 where "chain rows q p2" "p = p2 @ [row_name r]"
    using assms(1,3) by (auto simp: chain_iff [OF assms(2)])
  then show ?thesis using chain_unique [OF assms(4)] by auto
qed

lemma climbs_shorter:
  "climbs rows i q \<Longrightarrow> chain rows i p \<Longrightarrow> chain rows q p' \<Longrightarrow> length p' < length p"
proof (induction arbitrary: p' rule: climbs.induct)
  case (one i r q)
  show ?case by (rule chain_parent [OF one(3) one(1,2) one(4)])
next
  case (more i j r q)
  obtain pj where "chain rows j pj" using chain.below [OF more(2,3) more(6)] by blast
  then show ?case using more.IH [OF more.prems(1)] chain_parent [OF _ more(2,3) more(6)] by fastforce
qed

lemma chain_acyclic: "chain rows i p \<Longrightarrow> \<not> climbs rows i i"
  using climbs_shorter by blast

definition memo_ok :: "db_group list \<Rightarrow> (int \<times> string list) list \<Rightarrow> bool" where
  "memo_ok rows paths \<longleftrightarrow>
     (\<forall>i p. map_of paths i = Some p \<longrightarrow> row_by_id rows i \<noteq> None \<and> (\<forall>p'. chain rows i p' \<longrightarrow> p = p'))"

lemma memo_ok_dset:
  "memo_ok rows paths \<Longrightarrow> row_by_id rows i \<noteq> None \<Longrightarrow> (\<And>p'. chain rows i p' \<Longrightarrow> p = p') \<Longrightarrow>
   memo_ok rows (dset i p paths)"
  by (auto simp: memo_ok_def)

lemma resolve_facts:
  assumes "memo_ok rows paths" "\<forall>s\<in>set seen. climbs rows s i"
  shows "memo_ok rows (snd (resolve rows i seen paths)) \<and>
     dom (map_of paths) \<subseteq> dom (map_of (snd (resolve rows i seen paths))) \<and>
     (\<forall>p. chain rows i p \<longrightarrow> fst (resolve rows i seen paths) = p \<and>
        i \<in> dom (map_of (snd (resolve rows i seen paths))))"
  using assms
proof (induction rows i seen paths rule: resolve.induct)
  case (1 rows i seen paths)
  show ?case
  proof (cases "map_of paths i = None \<and> row_by_id rows i \<noteq> None \<and> i \<notin> set seen")
    case False
    have "\<not> (\<exists>p. chain rows i p)" if "row_by_id rows i = None \<or> i \<in> set seen"
      using that 1(3) chain_row chain_acyclic by blast
    then show ?thesis using False 1(2)
      by (auto simp: resolve.simps [of rows i] memo_ok_def split: option.splits)
  next
    case True
    then obtain r where r: "row_by_id rows i = Some r" by blast
    show ?thesis
    proof (cases "dg_parent r")
      case None
      then show ?thesis using True r 1(2)
        by (auto simp: resolve.simps [of rows i] chain_iff [OF r] intro!: memo_ok_dset)
    next
      case (Some q)
      obtain up paths' where up: "resolve rows q (i # seen) paths = (up, paths')" by (metis surj_pair)
      have "\<forall>s\<in>set (i # seen). climbs rows s q"
        using 1(3) climbs.one [OF r Some] climbs.more [OF _ r Some] by auto
      then have ih: "memo_ok rows paths'" "dom (map_of paths) \<subseteq> dom (map_of paths')"
        "\<And>p. chain rows q p \<Longrightarrow> up = p"
        using "1.IH" [OF _ r _ Some] True 1(2) up by auto
      have orphan: "up = []" if "row_by_id rows q = None"
      proof -
        have "map_of paths q = None"
          using that 1(2) unfolding memo_ok_def by (metis option.exhaust)
        then show ?thesis using up that by (simp add: resolve.simps [of rows q])
      qed
      have path: "up @ [row_name r] = p" if "chain rows i p" for p
        using that ih(3) orphan Some by (auto simp: chain_iff [OF r] split: if_splits)
      show ?thesis using True r Some up ih path
        by (auto simp: resolve.simps [of rows i] intro!: memo_ok_dset)
    qed
  qed
qed

lemma dotted_path:
  assumes "chain rows i p"
  shows "map_of (dotted_paths rows) i = Some p"
proof -
  have fold: "memo_ok rows (foldl (\<lambda>paths r. snd (resolve rows (dg_id r) [] paths)) paths rs) \<and>
      dom (map_of paths) \<subseteq> dom (map_of (foldl (\<lambda>paths r. snd (resolve rows (dg_id r) [] paths)) paths rs)) \<and>
      (i \<in> dg_id ` set rs \<longrightarrow>
        i \<in> dom (map_of (foldl (\<lambda>paths r. snd (resolve rows (dg_id r) [] paths)) paths rs)))"
    if "memo_ok rows paths" for paths rs
    using that
  proof (induction rs arbitrary: paths)
    case (Cons r rs)
    note f = resolve_facts [OF Cons.prems, of "[]" "dg_id r"]
    have ok: "memo_ok rows (snd (resolve rows (dg_id r) [] paths))" using f by simp
    have "i \<in> dom (map_of (snd (resolve rows (dg_id r) [] paths)))" if "dg_id r = i"
      using f that assms by simp
    moreover note Cons.IH [OF ok] f
    ultimately show ?case by (simp only: foldl.simps list.set image_insert insert_iff) blast
  qed simp
  have "i \<in> dg_id ` set rows" using chain_row [OF assms] row_by_id_Some by fastforce
  then obtain p' where p': "map_of (dotted_paths rows) i = Some p'"
    using fold [of "[]" rows] by (auto simp: dotted_paths_def memo_ok_def)
  moreover have "memo_ok rows (dotted_paths rows)"
    using fold [of "[]" rows] by (auto simp: dotted_paths_def memo_ok_def)
  ultimately show ?thesis using assms by (auto simp: memo_ok_def)
qed

text \<open>C40: The conversion of parent ids to dotted paths ends on every table, also where parents form a cycle,
  and gives every row that is not on one (or below one) exactly the names along its parents.\<close>

theorem dotted_paths_follow_parents:
  assumes "chain rows i p"
  shows "map_of (dotted_paths rows) i = Some p"
  by (rule dotted_path [OF assms])

section \<open>Consistent tables\<close>

fun climb :: "db_group list \<Rightarrow> nat \<Rightarrow> int \<Rightarrow> string list option" where
  "climb rows 0 i = None"
| "climb rows (Suc n) i =
     (case row_by_id rows i of
        None \<Rightarrow> None
      | Some r \<Rightarrow>
          (case dg_parent r of
             None \<Rightarrow> Some [row_name r]
           | Some q \<Rightarrow> map_option (\<lambda>p. p @ [row_name r]) (climb rows n q)))"

lemma climb_chain: "climb rows n i = Some p \<Longrightarrow> chain rows i p"
  by (induction rows n i arbitrary: p rule: climb.induct)
     (auto split: option.splits intro: chain.intros)

text \<open>Distinct row ids, parents within the environment, and no cycles.\<close>

definition consistent :: "tables \<Rightarrow> bool" where
  "consistent t \<longleftrightarrow>
     distinct (map dg_id (tb_groups t)) \<and>
     list_all (\<lambda>r. climb (groups_in (dg_env r) t) (length (tb_groups t)) (dg_id r) \<noteq> None) (tb_groups t)"

lemma row_by_id_distinct:
  "distinct (map dg_id rows) \<Longrightarrow> r \<in> set rows \<Longrightarrow> row_by_id rows (dg_id r) = Some r"
proof -
  assume d: "distinct (map dg_id rows)" "r \<in> set rows"
  then obtain r' where r': "row_by_id rows (dg_id r) = Some r'"
    by (cases "row_by_id rows (dg_id r)") (auto simp: row_by_id_def find_None_iff)
  then show ?thesis using row_by_id_Some [OF r'] d by (auto simp: distinct_map inj_on_def)
qed

lemma groups_in_facts:
  "distinct (map dg_id (tb_groups t)) \<Longrightarrow> distinct (map dg_id (groups_in env t))"
  "r \<in> set (groups_in env t) \<longleftrightarrow> r \<in> set (tb_groups t) \<and> dg_env r = env"
  by (auto simp: groups_in_def distinct_map inj_on_def)

lemma consistent_chain:
  "consistent t \<Longrightarrow> r \<in> set (groups_in env t) \<Longrightarrow> \<exists>p. chain (groups_in env t) (dg_id r) p"
  using climb_chain by (auto simp: consistent_def list_all_iff groups_in_facts(2)) blast

lemma consistent_parent:
  assumes "consistent t" "r \<in> set (groups_in env t)" "dg_parent r = Some q"
  shows "\<exists>u\<in>set (groups_in env t). dg_id u = q"
proof -
  have d: "distinct (map dg_id (groups_in env t))"
    using assms(1) groups_in_facts(1) by (simp add: consistent_def)
  have r: "row_by_id (groups_in env t) (dg_id r) = Some r" by (rule row_by_id_distinct [OF d assms(2)])
  obtain n p where "climb (groups_in env t) n (dg_id r) = Some p"
    using assms(1,2) by (auto simp: consistent_def list_all_iff groups_in_facts(2))
  then have "climb (groups_in env t) (n - 1) q \<noteq> None"
    using r assms(3) by (cases n) auto
  then have "row_by_id (groups_in env t) q \<noteq> None"
    by (cases "n - 1") (auto split: option.splits)
  then show ?thesis using row_by_id_Some by fastforce
qed

lemma consistent_step:
  assumes "consistent t" "r \<in> set (groups_in env t)" "dg_parent r = Some q" "chain (groups_in env t) q p"
  shows "chain (groups_in env t) (dg_id r) (p @ [row_name r])"
proof -
  have d: "distinct (map dg_id (groups_in env t))"
    using assms(1) groups_in_facts(1) by (simp add: consistent_def)
  show ?thesis by (rule chain.below [OF row_by_id_distinct [OF d assms(2)] assms(3,4)])
qed

lemma chain_nonempty: "chain rows i p \<Longrightarrow> p \<noteq> []"
  by (cases rule: chain.cases) auto

definition tree_paths :: "string \<Rightarrow> tables \<Rightarrow> shaped_group list" where
  "tree_paths env t = fst (tree_in env t)"

lemma shaped_row:
  assumes "r \<in> set (groups_in env t)" "chain (groups_in env t) (dg_id r) p"
  shows "\<exists>g\<in>set (fst (tree_in env t)). sh_row g = dg_id r \<and> sh_path g = p"
  using assms dotted_path [OF assms(2)] chain_nonempty [OF assms(2)]
  by (auto simp: tree_in_def shape_def Let_def shape_group_def intro!: bexI [of _ r])

lemma shaped_rows: "map sh_row (fst (tree_in env t)) = map dg_id (groups_in env t)"
  by (simp add: tree_in_def shape_def Let_def shape_group_def)

lemma join_append: "xs \<noteq> [] \<Longrightarrow> ys \<noteq> [] \<Longrightarrow> join sep (xs @ ys) = join sep xs @ sep @ join sep ys"
proof (induction sep xs rule: join.induct)
  case (2 sep x)
  then show ?case by (cases ys) auto
qed auto

section \<open>What a deletion takes\<close>

lemma closure_below:
  assumes "consistent t"
    and "\<forall>j\<in>set ids. \<exists>s. chain (groups_in env t) j (p @ s)"
  shows "\<forall>j\<in>set (closure (tb_groups t) n ids). \<exists>s. chain (groups_in env t) j (p @ s)"
  using assms(2)
proof (induction n arbitrary: ids)
  case (Suc n)
  let ?new = "map dg_id (filter (\<lambda>r. dg_id r \<notin> set ids \<and>
        (case dg_parent r of None \<Rightarrow> False | Some p \<Rightarrow> p \<in> set ids)) (tb_groups t))"
  have "\<exists>s. chain (groups_in env t) j (p @ s)" if j: "j \<in> set ?new" for j
  proof -
    obtain r q where r: "r \<in> set (tb_groups t)" "dg_id r = j" "dg_parent r = Some q" "q \<in> set ids"
      using j by (auto split: option.splits)
    obtain s where s: "chain (groups_in env t) q (p @ s)" using Suc.prems r(4) by blast
    have own: "r \<in> set (groups_in (dg_env r) t)" using r(1) by (simp add: groups_in_facts(2))
    obtain u where u: "u \<in> set (groups_in (dg_env r) t)" "dg_id u = q"
      using consistent_parent [OF assms(1) own r(3)] by blast
    obtain u' where u': "u' \<in> set (groups_in env t)" "dg_id u' = q"
      using chain_row [OF s] row_by_id_Some by fastforce
    have "u = u'" using u u' assms(1)
      by (auto simp: groups_in_facts(2) consistent_def distinct_map inj_on_def)
    then have "r \<in> set (groups_in env t)" using u u' r(1) by (auto simp: groups_in_facts(2))
    from consistent_step [OF assms(1) this r(3) s] show ?thesis using r(2) by auto
  qed
  then have "\<forall>j\<in>set (ids @ ?new). \<exists>s. chain (groups_in env t) j (p @ s)" using Suc.prems by auto
  from Suc.IH [OF this] show ?case by simp
qed simp

lemma impact_of:
  assumes "strip env = env" "env \<noteq> []" "out ReadingBefore = None"
    and "find (\<lambda>g. sh_row g = i) (fst (tree_in env t)) = Some g"
  shows "im_groups (deletion_impact out env i t) =
      filter (\<lambda>h. sh_id h = sh_id g \<or> prefix (sh_id g @ ''.'') (sh_id h)) (fst (tree_in env t))"
    "im_selectors (deletion_impact out env i t) =
      filter (\<lambda>s. sv_target s \<in> sh_id ` set (im_groups (deletion_impact out env i t))) (snd (tree_in env t))"
  using assms by (simp_all add: deletion_impact_def load_configured_def Let_def)

lemma insert_selector_set [simp]: "set (insert_selector s xs) = insert s (set xs)"
  by (induction xs) auto

lemma selectors_in_set:
  "set (selectors_in env t) = {s \<in> set (tb_selectors t). ds_group s \<in> dg_id ` set (groups_in env t)}"
proof -
  have "set (foldr insert_selector xs []) = set xs" for xs by (induction xs) auto
  then show ?thesis by (simp add: selectors_in_def)
qed


section \<open>A small store\<close>

definition example_cells :: "string \<Rightarrow> json pydict" where
  "example_cells name = [(''name'', JStr name), (''max_queued'', JNum 5), (''hard_concurrency_limit'', JNum 2)]"

definition example_tables :: tables where
  "example_tables =
     \<lparr>tb_groups =
        [\<lparr>dg_id = 2, dg_env = ''p'', dg_parent = Some 1, dg_cells = example_cells ''b''\<rparr>,
         \<lparr>dg_id = 1, dg_env = ''p'', dg_parent = None, dg_cells = example_cells ''a''\<rparr>,
         \<lparr>dg_id = 9, dg_env = ''q'', dg_parent = None, dg_cells = example_cells ''z''\<rparr>],
      tb_selectors =
        [\<lparr>ds_id = 4, ds_group = 2, ds_priority = 7, ds_cells = [(''user_regex'', JStr ''u'')]\<rparr>,
         \<lparr>ds_id = 5, ds_group = 1, ds_priority = 1, ds_cells = []\<rparr>,
         \<lparr>ds_id = 6, ds_group = 9, ds_priority = 1, ds_cells = []\<rparr>],
      tb_revisions = [], tb_next = 20\<rparr>"

definition open_store :: store_config where
  "open_store = \<lparr>so_accepts = (\<lambda>r. True), so_compiles = (\<lambda>s. True)\<rparr>"

definition store_up :: outage where
  "store_up s = None"

definition in_env :: "string \<Rightarrow> store_request" where
  "in_env env = \<lparr>er_env = env, er_actor = ''w'', er_reason = ''r'', er_request = ''x'', er_provider = True\<rparr>"

lemmas example_store = example_tables_def example_cells_def open_store_def store_up_def in_env_def

text \<open>The path of a row of the example, and what deleting its parent takes.\<close>

lemma dotted_paths_follow_parents_witness:
  "map_of (dotted_paths (tb_groups example_tables)) 2 = Some [''a'', ''b'']"
proof (rule dotted_paths_follow_parents)
  show "chain (tb_groups example_tables) 2 [''a'', ''b'']"
    by (rule climb_chain [where n = 3]) code_simp
qed


section \<open>Across environments\<close>

text \<open>A selector for a group of another environment is stored: the request's own tree, which is the one
  that is checked, does not change, the revision records no difference, and the other environment's
  queries are routed by a rule no validation has seen.\<close>

lemma selector_crosses_environments:
  "case run_op open_store store_up (in_env ''p'') (CreateSelector 9 50 [(''user_regex'', JStr ''u'')]) example_tables of
     (Inl e, t') \<Rightarrow> False
   | (Inr r, t') \<Rightarrow> ch_before r = ch_after r \<and>
       map ds_id (selectors_in ''q'' example_tables) = [6] \<and> map ds_id (selectors_in ''q'' t') = [20, 6]"
  by code_simp

text \<open>A group below a parent of another environment passes as a root group, next to a root of the same
  name it would be refused.\<close>

lemma group_crosses_environments:
  "case run_op open_store store_up (in_env ''p'') (CreateGroup ''c'' (Some 9) (tl (example_cells ''c''))) example_tables of
     (Inl e, t') \<Rightarrow> False
   | (Inr r, t') \<Rightarrow> map sh_id (fst (ch_after r)) = [''a.b'', ''a'', ''c''] \<and>
       map dg_parent (groups_in ''p'' t') = [Some 1, None, Some 9]"
  by code_simp

end
