(* ===== verification/BenchStore.thy ===== *)
theory BenchStore
  imports BenchRunner BenchGuard BenchCompare
begin

text \<open>
  Where benchmark runs and query sets are kept (\<^verbatim>\<open>bench/store.py\<close>, \<^verbatim>\<open>bench/setstore.py\<close>): the in-memory
  repositories, with the orphan rule of the Postgres one. Instants are microseconds. The outages of the
  Postgres stores are events of the service.
\<close>

section \<open>Runs\<close>

datatype bench_state = BenchRunning | BenchEnded run_state | BenchUnknown

record bench_run =
  bn_id :: nat
  bn_cluster :: string
  bn_set :: string
  bn_label :: "string option"
  bn_state :: bench_state
  bn_reason :: "string option"
  bn_actor :: string
  bn_roles :: "string list"
  bn_repetitions :: int
  bn_guard :: guard_result
  bn_queries :: "bench_query list"
  bn_schedule :: "nat option"
  bn_started :: int
  bn_finished :: "int option"
  bn_error :: "string option"

record bench_repo =
  bp_runs :: "bench_run list"
  bp_results :: "(nat \<times> bench_result list) list"
  bp_next :: nat

definition new_bench_repo :: bench_repo where
  "new_bench_repo = \<lparr>bp_runs = [], bp_results = [], bp_next = 1\<rparr>"

definition is_running :: "bench_run \<Rightarrow> bool" where
  "is_running r \<longleftrightarrow> bn_state r = BenchRunning"

definition is_terminal :: "bench_run \<Rightarrow> bool" where
  "is_terminal r \<longleftrightarrow> (case bn_state r of BenchEnded _ \<Rightarrow> True | _ \<Rightarrow> False)"

definition bench_active :: "bench_repo \<Rightarrow> bench_run list" where
  "bench_active b = filter is_running (bp_runs b)"

text \<open>\<open>create\<close>: None when the cluster has a run going. The fields the store sets are overwritten.\<close>

definition bench_create :: "int \<Rightarrow> bench_run \<Rightarrow> bench_repo \<Rightarrow> (bench_run \<times> bench_repo) option" where
  "bench_create now given b =
     (if list_ex (\<lambda>r. is_running r \<and> bn_cluster r = bn_cluster given) (bp_runs b) then None
      else let run = given\<lparr>bn_id := bp_next b, bn_state := BenchRunning, bn_started := now,
                           bn_finished := None, bn_error := None\<rparr>
           in Some (run, b\<lparr>bp_next := bp_next b + 1, bp_runs := bp_runs b @ [run],
                           bp_results := dset (bn_id run) [] (bp_results b)\<rparr>))"

definition results_of :: "nat \<Rightarrow> bench_repo \<Rightarrow> bench_result list" where
  "results_of i b = (case map_of (bp_results b) i of None \<Rightarrow> [] | Some rs \<Rightarrow> rs)"

definition bench_add_result :: "nat \<Rightarrow> bench_result \<Rightarrow> bench_repo \<Rightarrow> bench_repo" where
  "bench_add_result i r b = b\<lparr>bp_results := dset i (results_of i b @ [r]) (bp_results b)\<rparr>"

definition bench_finish :: "int \<Rightarrow> nat \<Rightarrow> bench_state \<Rightarrow> string option \<Rightarrow> bench_repo \<Rightarrow> bench_repo" where
  "bench_finish now i state e b =
     b\<lparr>bp_runs := map (\<lambda>r. if bn_id r = i
                           then r\<lparr>bn_state := state, bn_error := e,
                                  bn_finished := (if state = BenchUnknown then None else Some now)\<rparr>
                           else r) (bp_runs b)\<rparr>"

definition bench_get :: "nat \<Rightarrow> bench_repo \<Rightarrow> (bench_run \<times> bench_result list) option" where
  "bench_get i b = map_option (\<lambda>r. (r, results_of i b)) (find (\<lambda>r. bn_id r = i) (bp_runs b))"

definition bench_recent :: "nat \<Rightarrow> string option \<Rightarrow> bench_repo \<Rightarrow> bench_run list" where
  "bench_recent limit query_set b =
     take limit (rev (sort_key bn_id
       (filter (\<lambda>r. case query_set of None \<Rightarrow> True | Some k \<Rightarrow> bn_set r = k) (bp_runs b))))"

record history_row =
  hi_run :: bench_run
  hi_result :: bench_result

text \<open>Newest run first, and within a run the last repetition first; the sort is stable and reversed, which
  keeps the order of equals.\<close>

definition history_before :: "history_row \<Rightarrow> history_row \<Rightarrow> bool" where
  "history_before a b \<longleftrightarrow>
     bn_id (hi_run a) > bn_id (hi_run b) \<or>
     (bn_id (hi_run a) = bn_id (hi_run b) \<and> br_iteration (hi_result a) \<ge> br_iteration (hi_result b))"

fun insert_history :: "history_row \<Rightarrow> history_row list \<Rightarrow> history_row list" where
  "insert_history x [] = [x]"
| "insert_history x (y # ys) = (if history_before x y then x # y # ys else y # insert_history x ys)"

definition bench_history :: "string \<Rightarrow> string \<Rightarrow> nat \<Rightarrow> bench_repo \<Rightarrow> history_row list" where
  "bench_history query_set query limit b =
     take limit (foldr insert_history
       (concat (map (\<lambda>(i, rs).
          case find (\<lambda>r. bn_id r = i) (rev (bp_runs b)) of
            None \<Rightarrow> []
          | Some r \<Rightarrow> (if bn_set r \<noteq> query_set then []
                       else map (\<lambda>x. \<lparr>hi_run = r, hi_result = x\<rparr>)
                              (filter (\<lambda>x. br_query x = query) rs))) (bp_results b))) [])"

text \<open>What a restarted process finds running has no thread any more.\<close>

definition ORPHAN_ERROR :: string where
  "ORPHAN_ERROR =
     ''tms-api restarted while this run was in flight, so the set may be incomplete. Compare with care.''"

definition reconcile_orphans :: "bench_repo \<Rightarrow> bench_repo" where
  "reconcile_orphans b =
     b\<lparr>bp_runs := map (\<lambda>r. if is_running r
                           then r\<lparr>bn_state := BenchUnknown,
                                  bn_error := (case bn_error r of None \<Rightarrow> Some ORPHAN_ERROR | Some e \<Rightarrow> Some e)\<rparr>
                           else r) (bp_runs b)\<rparr>"

section \<open>Query sets\<close>

type_synonym set_repo = "query_set pydict"

definition sets_values :: "set_repo \<Rightarrow> query_set list" where
  "sets_values s = map snd (sort_by fst s)"

definition sets_save :: "string \<Rightarrow> string \<Rightarrow> string \<Rightarrow> set_repo \<Rightarrow> query_set \<times> set_repo" where
  "sets_save key title description s =
     (let q = (case map_of s key of
                 None \<Rightarrow> new_query_set key title description []
               | Some q \<Rightarrow> q\<lparr>qs_title := (if title = [] then key else title), qs_description := description\<rparr>)
      in (q, dset key q s))"

definition sets_delete :: "string \<Rightarrow> set_repo \<Rightarrow> bool \<times> set_repo" where
  "sets_delete key s = (key \<in> set (map fst s), filter (\<lambda>(k, q). k \<noteq> key) s)"

datatype set_store_exn = UnknownSet string | DuplicateQueryName string

text \<open>\<open>_sorted\<close>: by position, then by name.\<close>

definition query_before :: "bench_query \<Rightarrow> bench_query \<Rightarrow> bool" where
  "query_before a b \<longleftrightarrow>
     bq_position a < bq_position b \<or>
     (bq_position a = bq_position b \<and> \<not> str_less (bq_name b) (bq_name a))"

fun insert_query :: "bench_query \<Rightarrow> bench_query list \<Rightarrow> bench_query list" where
  "insert_query x [] = [x]"
| "insert_query x (y # ys) = (if query_before x y then x # y # ys else y # insert_query x ys)"

definition sorted_queries :: "bench_query list \<Rightarrow> bench_query list" where
  "sorted_queries qs = foldr insert_query qs []"

text \<open>\<open>existing.pop(original_name)\<close> finds the last query of a name.\<close>

fun replace_last :: "string \<Rightarrow> (bench_query \<Rightarrow> bench_query) \<Rightarrow> bench_query list \<Rightarrow> bench_query list option" where
  "replace_last n f [] = None"
| "replace_last n f (q # qs) =
     (case replace_last n f qs of
        Some qs' \<Rightarrow> Some (q # qs')
      | None \<Rightarrow> (if bq_name q = n then Some (f q # qs) else None))"

definition set_save_query ::
    "string \<Rightarrow> string \<Rightarrow> string \<Rightarrow> string \<Rightarrow> int \<Rightarrow> string option \<Rightarrow> set_repo \<Rightarrow>
     (set_store_exn + bench_query) \<times> set_repo" where
  "set_save_query key name title statement position original s =
     (case map_of s key of
        None \<Rightarrow> (Inl (UnknownSet key), s)
      | Some found \<Rightarrow>
          (if name \<in> bq_name ` set (qs_queries found) \<and> original \<noteq> Some name
           then (Inl (DuplicateQueryName name), s)
           else let edited = (\<lambda>q. q\<lparr>bq_name := name, bq_sql := statement, bq_title := title,
                                   bq_position := position\<rparr>);
                    added = new_query name statement title 0\<lparr>bq_position := position\<rparr>;
                    (q, qs) = (case (case original of
                                       None \<Rightarrow> None
                                     | Some o' \<Rightarrow> (if o' = [] then None
                                                   else replace_last o' edited (qs_queries found))) of
                                 None \<Rightarrow> (added, qs_queries found @ [added])
                               | Some qs' \<Rightarrow> (edited added, qs'))
                in (Inr q, dset key (found\<lparr>qs_queries := sorted_queries qs\<rparr>) s)))"

definition set_delete_query :: "string \<Rightarrow> string \<Rightarrow> set_repo \<Rightarrow> (set_store_exn + bool) \<times> set_repo" where
  "set_delete_query key name s =
     (case map_of s key of
        None \<Rightarrow> (Inl (UnknownSet key), s)
      | Some found \<Rightarrow>
          (let remaining = filter (\<lambda>q. bq_name q \<noteq> name) (qs_queries found)
           in if length remaining = length (qs_queries found) then (Inr False, s)
              else (Inr True, dset key (found\<lparr>qs_queries := remaining\<rparr>) s)))"

end
