(* ===== verification/BenchTrend.thy ===== *)
theory BenchTrend
  imports BenchStore
begin

text \<open>
  Results over time for a chart (\<^verbatim>\<open>bench/trend.py\<close>): executions are put into buckets on one axis, a point
  is a cluster's bucket. Moments are microseconds since 1970 in UTC; a dictionary is a list of pairs in
  insertion order, a set of run ids a list without repetitions.
\<close>

section \<open>Dates\<close>

text \<open>Year, month and day of a number of days since 1970-01-01 in the Gregorian calendar; a year begins in
  March until the last line.\<close>

definition civil_date :: "int \<Rightarrow> int \<times> int \<times> int" where
  "civil_date days =
     (let z = days + 719468; era = z div 146097; doe = z - era * 146097;
          yoe = (doe - doe div 1460 + doe div 36524 - doe div 146096) div 365;
          doy = doe - (365 * yoe + yoe div 4 - yoe div 100);
          mp = (5 * doy + 2) div 153;
          d = doy - (153 * mp + 2) div 5 + 1;
          m = (if mp < 10 then mp + 3 else mp - 9)
      in (yoe + era * 400 + (if m \<le> 2 then 1 else 0), m, d))"

definition padded :: "nat \<Rightarrow> int \<Rightarrow> string" where
  "padded n i = (let s = show_int i in replicate (n - length s) (CHR ''0'') @ s)"

definition month_text :: "int \<Rightarrow> string" where
  "month_text micros =
     (case civil_date (micros div 86400000000) of (y, m, d) \<Rightarrow> padded 4 y @ ''-'' @ padded 2 m)"

definition day_text :: "int \<Rightarrow> string" where
  "day_text micros =
     (case civil_date (micros div 86400000000) of (y, m, d) \<Rightarrow> month_text micros @ ''-'' @ padded 2 d)"

lemma some_dates:
  "civil_date 0 = (1970, 1, 1)" "civil_date 11016 = (2000, 2, 29)" "civil_date 20671 = (2026, 8, 6)"
  "day_text (20671 * 86400000000) = ''2026-08-06''"
  by code_simp+

section \<open>Buckets\<close>

datatype bucket = BY_RUN | BY_DAY | BY_MONTH

fun bucket_name :: "bucket \<Rightarrow> string" where
  "bucket_name BY_RUN = ''run''"
| "bucket_name BY_DAY = ''day''"
| "bucket_name BY_MONTH = ''month''"

fun bucket_label :: "bucket \<Rightarrow> string" where
  "bucket_label BY_RUN = ''Every run''"
| "bucket_label BY_DAY = ''Daily''"
| "bucket_label BY_MONTH = ''Monthly''"

definition bucket_of :: "string \<Rightarrow> bucket" where
  "bucket_of s = (if s = ''day'' then BY_DAY else if s = ''month'' then BY_MONTH else BY_RUN)"

definition bucket_key :: "nat \<Rightarrow> int option \<Rightarrow> bucket \<Rightarrow> string" where
  "bucket_key run mo b =
     (case (b, mo) of
        (BY_DAY, Some m) \<Rightarrow> day_text m
      | (BY_MONTH, Some m) \<Rightarrow> month_text m
      | _ \<Rightarrow> ''run:'' @ show_nat run)"

record trend_row =
  tr_run :: nat
  tr_cluster :: string
  tr_at :: "int option"
  tr_failed :: bool
  tr_elapsed :: "rat option"

record axis_slot =
  sl_key :: string
  sl_at :: "int option"
  sl_runs :: "nat list"

record cell =
  cl_cluster :: string
  cl_bucket :: string
  cl_at :: "int option"
  cl_elapsed :: "rat list"
  cl_runs :: "nat list"

definition usable :: "trend_row \<Rightarrow> bool" where
  "usable e \<longleftrightarrow> \<not> tr_failed e \<and> tr_elapsed e \<noteq> None"

definition key_of :: "bucket \<Rightarrow> trend_row \<Rightarrow> string" where
  "key_of b e = bucket_key (tr_run e) (tr_at e) b"

text \<open>The earliest reading dates a bucket.\<close>

definition earlier :: "int option \<Rightarrow> int option \<Rightarrow> int option" where
  "earlier mo old =
     (case mo of
        None \<Rightarrow> old
      | Some m \<Rightarrow> (case old of None \<Rightarrow> mo | Some n \<Rightarrow> (if m < n then mo else old)))"

definition add_run :: "nat \<Rightarrow> nat list \<Rightarrow> nat list" where
  "add_run i is = (if i \<in> set is then is else is @ [i])"

definition put_axis :: "bucket \<Rightarrow> trend_row \<Rightarrow> (string \<times> axis_slot) list \<Rightarrow> (string \<times> axis_slot) list" where
  "put_axis b e axis =
     (let k = key_of b e;
          slot = (case map_of axis k of Some s \<Rightarrow> s | None \<Rightarrow> \<lparr>sl_key = k, sl_at = tr_at e, sl_runs = []\<rparr>)
      in dset k (slot\<lparr>sl_at := earlier (tr_at e) (sl_at slot), sl_runs := add_run (tr_run e) (sl_runs slot)\<rparr>) axis)"

definition put_cell ::
    "bucket \<Rightarrow> trend_row \<Rightarrow> ((string \<times> string) \<times> cell) list \<Rightarrow> ((string \<times> string) \<times> cell) list" where
  "put_cell b e cells =
     (let k = key_of b e;
          c = (case map_of cells (tr_cluster e, k) of
                 Some c \<Rightarrow> c
               | None \<Rightarrow> \<lparr>cl_cluster = tr_cluster e, cl_bucket = k, cl_at = tr_at e, cl_elapsed = [], cl_runs = []\<rparr>)
      in dset (tr_cluster e, k)
           (c\<lparr>cl_at := earlier (tr_at e) (cl_at c),
              cl_elapsed := cl_elapsed c @ (case tr_elapsed e of None \<Rightarrow> [] | Some v \<Rightarrow> [v]),
              cl_runs := add_run (tr_run e) (cl_runs c)\<rparr>) cells)"

definition axis_of :: "bucket \<Rightarrow> trend_row list \<Rightarrow> (string \<times> axis_slot) list" where
  "axis_of b es = fold (put_axis b) (filter usable es) []"

definition cells_of :: "bucket \<Rightarrow> trend_row list \<Rightarrow> ((string \<times> string) \<times> cell) list" where
  "cells_of b es = fold (put_cell b) (filter usable es) []"

text \<open>Oldest first, buckets without a date last.\<close>

definition slot_before :: "axis_slot \<Rightarrow> axis_slot \<Rightarrow> bool" where
  "slot_before s t =
     (case (sl_at s, sl_at t) of
        (Some m, Some n) \<Rightarrow> m < n \<or> (m = n \<and> \<not> str_less (sl_key t) (sl_key s))
      | (Some _, None) \<Rightarrow> True
      | (None, Some _) \<Rightarrow> False
      | (None, None) \<Rightarrow> \<not> str_less (sl_key t) (sl_key s))"

fun insert_slot :: "axis_slot \<Rightarrow> axis_slot list \<Rightarrow> axis_slot list" where
  "insert_slot x [] = [x]"
| "insert_slot x (y # ys) = (if slot_before x y then x # y # ys else y # insert_slot x ys)"

definition ordered_axis :: "bucket \<Rightarrow> trend_row list \<Rightarrow> axis_slot list" where
  "ordered_axis b es = foldr insert_slot (map snd (axis_of b es)) []"

fun position_in :: "string \<Rightarrow> axis_slot list \<Rightarrow> nat" where
  "position_in k [] = 0"
| "position_in k (s # ss) = (if sl_key s = k then 0 else Suc (position_in k ss))"

section \<open>Series\<close>

record trend_point =
  pt_x :: nat
  pt_bucket :: string
  pt_at :: "int option"
  pt_median :: "rat option"
  pt_avg :: "rat option"
  pt_runs :: nat
  pt_executions :: nat

definition point_of :: "axis_slot list \<Rightarrow> cell \<Rightarrow> trend_point" where
  "point_of axis c =
     (let s = summarise_values (cl_elapsed c)
      in \<lparr>pt_x = position_in (cl_bucket c) axis, pt_bucket = cl_bucket c, pt_at = cl_at c,
          pt_median = sx_median s, pt_avg = sx_average s, pt_runs = length (cl_runs c),
          pt_executions = sx_count s\<rparr>)"

record trend_series =
  se_cluster :: string
  se_points :: "trend_point list"
  se_mean :: "rat option"

definition cells_in :: "string \<Rightarrow> bucket \<Rightarrow> trend_row list \<Rightarrow> cell list" where
  "cells_in c b es = filter (\<lambda>x. cl_cluster x = c) (map snd (cells_of b es))"

definition series_of :: "bucket \<Rightarrow> trend_row list \<Rightarrow> string \<Rightarrow> trend_series" where
  "series_of b es c =
     (let axis = ordered_axis b es;
          points = map (point_of axis)
                     (sort_key (\<lambda>x. position_in (cl_bucket x) axis) (cells_in c b es));
          plotted = List.map_filter pt_median points
      in \<lparr>se_cluster = c, se_points = points,
          se_mean = (if plotted = [] then None else Some (sum_list plotted / of_nat (length plotted)))\<rparr>)"

record trend_summary =
  ts_cluster :: string
  ts_statistics :: statistics
  ts_runs :: nat
  ts_buckets :: nat

definition summary_in :: "bucket \<Rightarrow> trend_row list \<Rightarrow> string \<Rightarrow> trend_summary" where
  "summary_in b es c =
     \<lparr>ts_cluster = c, ts_statistics = summarise_values (concat (map cl_elapsed (cells_in c b es))),
      ts_runs = length (remdups (concat (map cl_runs (cells_in c b es)))),
      ts_buckets = length (cells_in c b es)\<rparr>"

record trend =
  td_bucket :: bucket
  td_buckets :: "axis_slot list"
  td_series :: "trend_series list"
  td_summaries :: "trend_summary list"
  td_drawable :: bool

definition trend_clusters :: "bucket \<Rightarrow> trend_row list \<Rightarrow> string list" where
  "trend_clusters b es = sort_by (\<lambda>c. c) (remdups (map (cl_cluster \<circ> snd) (cells_of b es)))"

definition build_trend :: "string \<Rightarrow> trend_row list \<Rightarrow> trend" where
  "build_trend wanted es =
     (let b = bucket_of wanted; series = map (series_of b es) (trend_clusters b es)
      in \<lparr>td_bucket = b, td_buckets = ordered_axis b es, td_series = series,
          td_summaries = map (summary_in b es) (trend_clusters b es),
          td_drawable = list_ex (\<lambda>s. 2 \<le> length (se_points s)) series\<rparr>)"

section \<open>What a chart shows\<close>

text \<open>The times of a cluster in a bucket, as the rows give them.\<close>

definition times_in :: "bucket \<Rightarrow> trend_row list \<Rightarrow> string \<Rightarrow> string \<Rightarrow> rat list" where
  "times_in b es c k =
     List.map_filter tr_elapsed (filter (\<lambda>e. usable e \<and> tr_cluster e = c \<and> key_of b e = k) es)"

definition cells_ok ::
    "bucket \<Rightarrow> trend_row list \<Rightarrow> ((string \<times> string) \<times> cell) list \<Rightarrow> bool" where
  "cells_ok b es cells \<longleftrightarrow>
     distinct (map fst cells) \<and>
     (\<forall>((c, k), x) \<in> set cells. cl_cluster x = c \<and> cl_bucket x = k \<and> cl_elapsed x = times_in b es c k) \<and>
     (\<forall>e \<in> set es. usable e \<longrightarrow> (tr_cluster e, key_of b e) \<in> fst ` set cells)"

lemma times_in_snoc:
  "times_in b (es @ [e]) c k =
     times_in b es c k @ (if usable e \<and> tr_cluster e = c \<and> key_of b e = k
                          then (case tr_elapsed e of None \<Rightarrow> [] | Some v \<Rightarrow> [v]) else [])"
  by (auto simp: times_in_def List.map_filter_def split: option.splits)

lemma times_in_none:
  "(\<And>e. e \<in> set es \<Longrightarrow> usable e \<Longrightarrow> tr_cluster e = c \<Longrightarrow> key_of b e = k \<Longrightarrow> False) \<Longrightarrow> times_in b es c k = []"
  by (auto simp: times_in_def List.map_filter_def filter_empty_conv)

lemma put_cell_ok:
  assumes "cells_ok b es cells" "usable e"
  shows "cells_ok b (es @ [e]) (put_cell b e cells)"
proof -
  let ?k = "(tr_cluster e, key_of b e)"
  have d: "distinct (map fst cells)" using assms(1) by (simp add: cells_ok_def)
  obtain x where put: "put_cell b e cells = dset ?k x cells"
    and x: "cl_cluster x = tr_cluster e" "cl_bucket x = key_of b e"
      "cl_elapsed x = times_in b es (tr_cluster e) (key_of b e) @ (case tr_elapsed e of None \<Rightarrow> [] | Some v \<Rightarrow> [v])"
  proof (cases "map_of cells ?k")
    case None
    then have new: "?k \<notin> fst ` set cells" by (simp add: map_of_eq_None_iff)
    have "(tr_cluster e', key_of b e') \<in> fst ` set cells" if "e' \<in> set es" "usable e'" for e'
      using that assms(1) unfolding cells_ok_def by blast
    then have "times_in b es (tr_cluster e) (key_of b e) = []"
      using new by (intro times_in_none) metis
    then show ?thesis using that None by (simp add: put_cell_def Let_def)
  next
    case (Some y)
    then have "(?k, y) \<in> set cells" by (rule map_of_SomeD)
    then have "cl_cluster y = tr_cluster e \<and> cl_bucket y = key_of b e \<and>
        cl_elapsed y = times_in b es (tr_cluster e) (key_of b e)"
      using assms(1) by (auto simp: cells_ok_def)
    then show ?thesis using that Some by (simp add: put_cell_def Let_def)
  qed
  have entries: "cl_cluster y = c \<and> cl_bucket y = k \<and> cl_elapsed y = times_in b (es @ [e]) c k"
    if "((c, k), y) \<in> set (dset ?k x cells)" for c k y
  proof (cases "(c, k) = ?k")
    case True
    then show ?thesis using that x assms(2) d by (auto simp: dset_set times_in_snoc)
  next
    case False
    then have "((c, k), y) \<in> set cells" using that d by (auto simp: dset_set)
    then have "cl_cluster y = c \<and> cl_bucket y = k \<and> cl_elapsed y = times_in b es c k"
      using assms(1) by (auto simp: cells_ok_def)
    then show ?thesis using False by (auto simp: times_in_snoc)
  qed
  have "(tr_cluster e', key_of b e') \<in> insert ?k (fst ` set cells)" if "e' \<in> set (es @ [e])" "usable e'" for e'
    using that assms(1) by (auto simp: cells_ok_def)
  then show ?thesis unfolding cells_ok_def put using entries distinct_dset [OF d, of ?k x]
    by (auto simp del: set_append)
qed

lemma cells_of_ok: "cells_ok b es (cells_of b es)"
proof (induction es rule: rev_induct)
  case (snoc e es)
  show ?case
  proof (cases "usable e")
    case True
    then show ?thesis using put_cell_ok [OF snoc True] by (simp add: cells_of_def)
  next
    case False
    then show ?thesis using snoc by (auto simp: cells_of_def cells_ok_def times_in_snoc)
  qed
qed (simp add: cells_of_def cells_ok_def)

lemma sum_by_test:
  "sum_list (map f ys) = sum_list (map f (filter P ys)) + sum_list (map (f :: 'a \<Rightarrow> nat) (filter (\<lambda>x. \<not> P x) ys))"
  by (induction ys) auto

lemma sum_by_class:
  "distinct cs \<Longrightarrow> g ` set xs \<subseteq> set cs \<Longrightarrow>
   sum_list (map (\<lambda>c. sum_list (map f (filter (\<lambda>x. g x = c) xs))) cs) = sum_list (map (f :: 'a \<Rightarrow> nat) xs)"
proof (induction cs arbitrary: xs)
  case (Cons c cs)
  let ?rest = "filter (\<lambda>x. g x \<noteq> c) xs"
  have same: "filter (\<lambda>x. g x = c') ?rest = filter (\<lambda>x. g x = c') xs" if "c' \<in> set cs" for c'
    using that Cons.prems(1) by (auto intro: filter_cong)
  have "sum_list (map (\<lambda>c'. sum_list (map f (filter (\<lambda>x. g x = c') xs))) cs) =
        sum_list (map (\<lambda>c'. sum_list (map f (filter (\<lambda>x. g x = c') ?rest))) cs)"
    by (rule arg_cong [where f = sum_list], rule map_cong) (simp_all only: same)
  also have "\<dots> = sum_list (map f ?rest)" using Cons.prems by (intro Cons.IH) auto
  finally show ?case using sum_by_test [of f xs "\<lambda>x. g x = c"] by simp
qed simp

lemma summarise_count: "sx_count (summarise_values vs) = length vs"
  by (cases "sort vs = []") (auto simp: summarise_values_def Let_def dest: arg_cong [of _ _ length])

lemma total_elapsed:
  "sum_list (map (\<lambda>x. length (cl_elapsed (snd x))) (cells_of b es)) = length (filter usable es)"
proof (induction es rule: rev_induct)
  case (snoc e es)
  have d: "distinct (map fst (cells_of b es))" using cells_of_ok by (auto simp: cells_ok_def)
  have put: "sum_list (map (\<lambda>x. f (snd x)) (dset k v d')) + (case map_of d' k of None \<Rightarrow> 0 | Some o' \<Rightarrow> f o') =
      sum_list (map (\<lambda>x. f (snd x)) d') + f v" for f :: "cell \<Rightarrow> nat" and k v and d' :: "((string \<times> string) \<times> cell) list"
    by (induction d') auto
  show ?case
  proof (cases "usable e")
    case True
    then obtain v where v: "tr_elapsed e = Some v" by (auto simp: usable_def)
    let ?k = "(tr_cluster e, key_of b e)"
    let ?old = "case map_of (cells_of b es) ?k of None \<Rightarrow> 0 | Some o' \<Rightarrow> length (cl_elapsed o')"
    obtain y where y: "put_cell b e (cells_of b es) = dset ?k y (cells_of b es)" "length (cl_elapsed y) = ?old + 1"
      using v by (cases "map_of (cells_of b es) ?k") (auto simp: put_cell_def Let_def)
    have "cells_of b (es @ [e]) = put_cell b e (cells_of b es)" using True by (simp add: cells_of_def)
    then show ?thesis using put [of "\<lambda>c. length (cl_elapsed c)" ?k y "cells_of b es"] y snoc True by simp
  next
    case False
    then show ?thesis using snoc by (simp add: cells_of_def)
  qed
qed (simp add: cells_of_def)

lemma series_points:
  "p \<in> set (se_points (series_of b es c)) \<longleftrightarrow>
     (\<exists>x \<in> set (cells_in c b es). p = point_of (ordered_axis b es) x)"
  by (auto simp: series_of_def Let_def)

text \<open>A chart counts every measured execution exactly once, and each point is the median and the number of
  the executions of its cluster in its bucket, at the bucket's place on the one axis all series share.\<close>

theorem chart_accounts_for_every_execution:
  "sum_list (map (\<lambda>s. sum_list (map pt_executions (se_points s))) (td_series (build_trend w es))) =
     length (filter usable es) \<and>
   list_all (\<lambda>s. list_all (\<lambda>p.
       pt_median p = sx_median (summarise_values (times_in (bucket_of w) es (se_cluster s) (pt_bucket p))) \<and>
       pt_executions p = length (times_in (bucket_of w) es (se_cluster s) (pt_bucket p)) \<and>
       pt_x p = position_in (pt_bucket p) (td_buckets (build_trend w es))) (se_points s))
     (td_series (build_trend w es))"
proof -
  define b where "b = bucket_of w"
  have series: "td_series (build_trend w es) = map (series_of b es) (trend_clusters b es)"
    and axis: "td_buckets (build_trend w es) = ordered_axis b es"
    by (simp_all add: build_trend_def Let_def b_def)
  have "sum_list (map pt_executions (se_points (series_of b es c))) =
      sum_list (map (\<lambda>x. length (cl_elapsed x)) (cells_in c b es))" for c
  proof -
    have "mset (map pt_executions (se_points (series_of b es c))) =
        mset (map (\<lambda>x. length (cl_elapsed x)) (cells_in c b es))"
      by (simp add: series_of_def Let_def point_of_def summarise_count comp_def mset_map)
    then show ?thesis by (metis sum_mset_sum_list)
  qed
  then have "sum_list (map (\<lambda>s. sum_list (map pt_executions (se_points s))) (td_series (build_trend w es))) =
      sum_list (map (\<lambda>c. sum_list (map (\<lambda>x. length (cl_elapsed (snd x)))
        (filter (\<lambda>x. (cl_cluster \<circ> snd) x = c) (cells_of b es)))) (trend_clusters b es))"
    by (simp add: series comp_def cells_in_def filter_map)
  also have "\<dots> = sum_list (map (\<lambda>x. length (cl_elapsed (snd x))) (cells_of b es))"
    by (rule sum_by_class) (use sort_by_distinct [of "\<lambda>c. c"] in \<open>simp_all add: trend_clusters_def comp_def\<close>)
  finally have total: "sum_list (map (\<lambda>s. sum_list (map pt_executions (se_points s))) (td_series (build_trend w es))) =
      length (filter usable es)" by (simp add: total_elapsed)
  have "cl_elapsed x = times_in b es c (cl_bucket x)" if "x \<in> set (cells_in c b es)" for c x
    using that cells_of_ok [of b es] by (auto simp: cells_in_def cells_ok_def)
  then show ?thesis
    using total by (auto simp: list_all_iff series axis series_points point_of_def summarise_count b_def [symmetric]) (simp_all add: series_of_def Let_def)
qed

end
