(* ===== verification/BenchService.thy ===== *)
theory BenchService
  imports BenchTrend AuditedService Schedules
begin

text \<open>
  What the benchmark harness does (\<^verbatim>\<open>bench/service.py\<close>) and the worker threads of \<^verbatim>\<open>bench/runner.py\<close>. The
  world is the audit store, the runs, the query sets, the schedules, the threads that have not ended and
  the aborts asked for. Storage may be down at every place the service reads or writes it. A thread holds
  the statements by value, as the Postgres store hands them out.
\<close>

section \<open>The world\<close>

record bench_thread =
  th_run :: nat
  th_cluster :: string
  th_set :: query_set
  th_repetitions :: nat

record bench_world =
  vw_audit :: audit_repo
  vw_runs :: bench_repo
  vw_sets :: set_repo
  vw_schedules :: "schedule_store option"
  vw_threads :: "bench_thread list"
  vw_aborting :: "nat list"

record bench_config =
  bc_clusters :: "string list"
  bc_max_repetitions :: "int option"
  bc_stale_threshold :: rat

datatype bench_site =
    SetRead | SetWrite | RunRead | RunActive | RunCreate | ScheduleRead | ScheduleWrite | ScheduleClaim

text \<open>What one request meets: the time (audit and clock), the outages, the Gateway's answer and the
  snapshots.\<close>

record bench_call =
  vc_now :: nat
  vc_uuid :: string
  vc_time :: int
  vc_down :: "bench_site \<Rightarrow> string option"
  vc_gateway :: "(unit + fields list) option"
  vc_snapshots :: "unit snapshot_repo"

datatype bench_message =
    NoBenchView | NoBenchAdmin | UnknownBenchCluster string | NoSuchSet string | SetsDown string
  | RunsDown string | NoSuchRun nat | CannotCompare not_comparable | RepetitionsNoNumber
  | RepetitionsBetween int | AlreadyRunning string | CannotRecord string | RunFinished
  | SetBusy string "string list" | BadName string | NotBenchmarkable refusal | SetFull string
  | SetExists string | QueryNameTaken string string | NoSuchQuery string string | SchedulesOff
  | SchedulesDown string | BadSchedule schedule_exn | NoSuchSchedule nat | NoClusterChosen
  | EveryClusterRefused "(string \<times> bench_message) list" | BenchGuardSays audit_exn

datatype bench_exn =
    BenchApi api_kind bench_message | BenchGuardExn audit_exn | BenchRaised py_exn | BenchStoreDown string

type_synonym 'a bench_op = "bench_world \<Rightarrow> (bench_exn + 'a) \<times> bench_world"

definition bench_guard_error :: "audit_exn \<Rightarrow> bench_exn" where
  "bench_guard_error e =
     (case e of
        ReasonRequired \<Rightarrow> BenchApi Access.ReasonRequiredError (BenchGuardSays e)
      | AuditUnavailable \<Rightarrow> BenchApi AuditUnavailableError (BenchGuardSays e)
      | InvalidActionType _ \<Rightarrow> BenchGuardExn e)"

definition put_bench_audit :: "audit_repo \<Rightarrow> bench_world \<Rightarrow> bench_world" where
  "put_bench_audit au w = w\<lparr>vw_audit := au\<rparr>"

definition bench_audited ::
    "(bench_exn \<Rightarrow> string) \<Rightarrow> bench_call \<Rightarrow> audit_call \<Rightarrow> 'a bench_op \<Rightarrow> 'a bench_op" where
  "bench_audited desc ev call body w =
     audited_in vw_audit put_bench_audit bench_guard_error desc (vc_now ev) (vc_uuid ev) call body w"

interpretation bench_guard: audited_service vw_audit put_bench_audit bench_guard_error
  by unfold_locales (simp_all add: put_bench_audit_def)

definition bench_audit_call ::
    "principal \<Rightarrow> string \<Rightarrow> string \<Rightarrow> string \<Rightarrow> string option \<Rightarrow> string option \<Rightarrow> audit_call" where
  "bench_audit_call p action_type kind target reason cluster =
     \<lparr>ac_actor = pr_username p, ac_roles = pr_roles p, ac_action_type = action_type,
      ac_target_kind = kind, ac_target_id = target, ac_reason = reason,
      ac_target_cluster = cluster, ac_actor_ip = pr_ip p, ac_request_id = None\<rparr>"

section \<open>Guards\<close>

definition set_or_404 :: "bench_call \<Rightarrow> string \<Rightarrow> bench_world \<Rightarrow> bench_exn + query_set" where
  "set_or_404 ev key w =
     (case vc_down ev SetRead of
        Some e \<Rightarrow> Inl (BenchApi UpstreamUnavailable (SetsDown e))
      | None \<Rightarrow>
          (case map_of (vw_sets w) key of
             None \<Rightarrow> Inl (BenchApi NotFound (NoSuchSet key)) | Some q \<Rightarrow> Inr q))"

definition all_sets :: "bench_call \<Rightarrow> bench_world \<Rightarrow> query_set list" where
  "all_sets ev w = (case vc_down ev SetRead of Some e \<Rightarrow> [] | None \<Rightarrow> sets_values (vw_sets w))"

text \<open>\<open>_not_while_running\<close>: when the runs cannot be read there are none.\<close>

definition busy_clusters :: "bench_call \<Rightarrow> string \<Rightarrow> bench_world \<Rightarrow> string list" where
  "busy_clusters ev key w =
     (case vc_down ev RunActive of
        Some e \<Rightarrow> []
      | None \<Rightarrow> map bn_cluster (filter (\<lambda>r. bn_set r = key) (bench_active (vw_runs w))))"

definition not_while_running :: "bench_call \<Rightarrow> string \<Rightarrow> bench_world \<Rightarrow> bench_exn option" where
  "not_while_running ev key w =
     (if busy_clusters ev key w = [] then None
      else Some (BenchApi InvalidRequest (SetBusy key (sort_by (\<lambda>c. c) (busy_clusters ev key w)))))"

definition guard_for :: "bench_config \<Rightarrow> bench_call \<Rightarrow> string \<Rightarrow> py_exn + guard_result" where
  "guard_for cfg ev c =
     guard_check c (vc_gateway ev) (vc_snapshots ev) (of_int (vc_time ev) / 1000000)
       (bc_stale_threshold cfg) None"

definition MAX_REPETITIONS :: int where "MAX_REPETITIONS = 20"

definition max_repetitions :: "bench_config \<Rightarrow> int" where
  "max_repetitions cfg =
     (case bc_max_repetitions cfg of None \<Rightarrow> MAX_REPETITIONS | Some n \<Rightarrow> (if n = 0 then MAX_REPETITIONS else n))"

section \<open>Starting and stopping\<close>

definition start_body ::
    "bench_call \<Rightarrow> bench_run \<Rightarrow> query_set \<Rightarrow> bench_run bench_op" where
  "start_body ev given declared w =
     (case vc_down ev RunCreate of
        Some e \<Rightarrow> (Inl (BenchApi UpstreamUnavailable (CannotRecord e)), w)
      | None \<Rightarrow>
          (case bench_create (vc_time ev) given (vw_runs w) of
             None \<Rightarrow> (Inl (BenchApi InvalidRequest (AlreadyRunning (bn_cluster given))), w)
           | Some (run, repo) \<Rightarrow>
               (Inr run, w\<lparr>vw_runs := repo,
                           vw_threads := vw_threads w @
                             [\<lparr>th_run = bn_id run, th_cluster = bn_cluster run, th_set = declared,
                               th_repetitions = nat (bn_repetitions run)\<rparr>]\<rparr>)))"

definition requested_run ::
    "principal \<Rightarrow> string \<Rightarrow> query_set \<Rightarrow> string option \<Rightarrow> int \<Rightarrow> string option \<Rightarrow> guard_result \<Rightarrow>
     nat option \<Rightarrow> bench_run" where
  "requested_run p c declared reason n label g sid =
     \<lparr>bn_id = 0, bn_cluster = c, bn_set = qs_key declared,
      bn_label = (case label of None \<Rightarrow> None | Some l \<Rightarrow> (if l = [] then None else Some l)),
      bn_state = BenchRunning, bn_reason = reason, bn_actor = pr_username p, bn_roles = pr_roles p,
      bn_repetitions = n, bn_guard = g, bn_queries = qs_queries declared, bn_schedule = sid,
      bn_started = 0, bn_finished = None, bn_error = None\<rparr>"

definition start_bench ::
    "(bench_exn \<Rightarrow> string) \<Rightarrow> bench_config \<Rightarrow> bench_call \<Rightarrow> principal \<Rightarrow> string \<Rightarrow> string \<Rightarrow>
     string option \<Rightarrow> json \<Rightarrow> string option \<Rightarrow> nat option \<Rightarrow> bench_run bench_op" where
  "start_bench desc cfg ev p c key reason repetitions label sid w =
     (if \<not> can p MANAGE_HEALTH then (Inl (BenchApi Forbidden NoBenchAdmin), w)
      else if c \<notin> set (bc_clusters cfg) then (Inl (BenchApi NotFound (UnknownBenchCluster c)), w)
      else case set_or_404 ev key w of
             Inl e \<Rightarrow> (Inl e, w)
           | Inr declared \<Rightarrow>
               (case to_int repetitions of
                  Inl _ \<Rightarrow> (Inl (BenchApi InvalidRequest RepetitionsNoNumber), w)
                | Inr n \<Rightarrow>
                    (if \<not> (1 \<le> n \<and> n \<le> max_repetitions cfg)
                     then (Inl (BenchApi InvalidRequest (RepetitionsBetween (max_repetitions cfg))), w)
                     else case guard_for cfg ev c of
                            Inl e \<Rightarrow> (Inl (BenchRaised e), w)
                          | Inr g \<Rightarrow>
                              bench_audited desc ev
                                (bench_audit_call p ''BENCHMARK_RUN'' ''cluster''
                                   (c @ '':'' @ qs_key declared) reason (Some c))
                                (start_body ev (requested_run p c declared reason n label g sid) declared) w)))"

text \<open>\<open>start_many\<close>: what is wrong with the request itself stops it, what a cluster refuses does not.\<close>

fun start_each ::
    "(string \<Rightarrow> bench_run bench_op) \<Rightarrow> string list \<Rightarrow> bench_run list \<Rightarrow> (string \<times> bench_message) list \<Rightarrow>
     (bench_run list \<times> (string \<times> bench_message) list) bench_op" where
  "start_each go [] started refused w = (Inr (started, refused), w)"
| "start_each go (c # cs) started refused w =
     (case go c w of
        (Inr run, w') \<Rightarrow> start_each go cs (started @ [run]) refused w'
      | (Inl (BenchApi k m), w') \<Rightarrow>
          (if k \<in> {Access.ReasonRequiredError, Forbidden, NotFound} then (Inl (BenchApi k m), w')
           else start_each go cs started (refused @ [(c, m)]) w')
      | (Inl e, w') \<Rightarrow> (Inl e, w'))"

definition start_many ::
    "(bench_exn \<Rightarrow> string) \<Rightarrow> bench_config \<Rightarrow> (string \<Rightarrow> bench_call) \<Rightarrow> principal \<Rightarrow> string list \<Rightarrow> string \<Rightarrow>
     string option \<Rightarrow> json \<Rightarrow> string option \<Rightarrow>
     (bench_run list \<times> (string \<times> bench_message) list) bench_op" where
  "start_many desc cfg evs p cs key reason repetitions label w =
     (if \<not> can p MANAGE_HEALTH then (Inl (BenchApi Forbidden NoBenchAdmin), w)
      else if cs = [] then (Inl (BenchApi InvalidRequest NoClusterChosen), w)
      else case find (\<lambda>c. c \<notin> set (bc_clusters cfg)) cs of
             Some c \<Rightarrow> (Inl (BenchApi NotFound (UnknownBenchCluster c)), w)
           | None \<Rightarrow>
               (case start_each (\<lambda>c. start_bench desc cfg (evs c) p c key reason repetitions label None) cs [] [] w of
                  (Inl e, w') \<Rightarrow> (Inl e, w')
                | (Inr (started, refused), w') \<Rightarrow>
                    (if started = [] \<and> refused \<noteq> []
                     then (Inl (BenchApi InvalidRequest (EveryClusterRefused refused)), w')
                     else (Inr (started, refused), w'))))"

definition view_run :: "bench_call \<Rightarrow> principal \<Rightarrow> nat \<Rightarrow> bench_world \<Rightarrow> bench_exn + bench_run \<times> bench_result list" where
  "view_run ev p i w =
     (if \<not> can p VIEW_HEALTH then Inl (BenchApi Forbidden NoBenchView)
      else case vc_down ev RunRead of
             Some e \<Rightarrow> Inl (BenchApi UpstreamUnavailable (RunsDown e))
           | None \<Rightarrow>
               (case bench_get i (vw_runs w) of
                  None \<Rightarrow> Inl (BenchApi NotFound (NoSuchRun i)) | Some r \<Rightarrow> Inr r))"

definition abort_bench :: "bench_call \<Rightarrow> principal \<Rightarrow> nat \<Rightarrow> bench_run bench_op" where
  "abort_bench ev p i w =
     (if \<not> can p MANAGE_HEALTH then (Inl (BenchApi Forbidden NoBenchAdmin), w)
      else case view_run ev p i w of
             Inl e \<Rightarrow> (Inl e, w)
           | Inr (run, rs) \<Rightarrow>
               (if \<not> is_running run then (Inl (BenchApi InvalidRequest RunFinished), w)
                else (Inr run, w\<lparr>vw_aborting := add_run (bn_id run) (vw_aborting w)\<rparr>)))"

section \<open>The worker threads\<close>

text \<open>A thread from its start to its end: the results it added and how it finished its run. It sees an abort
  only when one was asked for.\<close>

definition thread_log :: "bench_env \<Rightarrow> bench_thread \<Rightarrow> bench_world \<Rightarrow> run_log" where
  "thread_log be th w =
     run_benchmark (be\<lparr>be_abort := (\<lambda>n. be_abort be n \<and> th_run th \<in> set (vw_aborting w))\<rparr>)
       (th_set th) (th_repetitions th)"

definition end_thread :: "int \<Rightarrow> bench_env \<Rightarrow> nat \<Rightarrow> bench_world \<Rightarrow> bench_world" where
  "end_thread now be i w =
     (case find (\<lambda>th. th_run th = i) (vw_threads w) of
        None \<Rightarrow> w
      | Some th \<Rightarrow>
          (let l = thread_log be th w;
               repo = fold (bench_add_result i) (rl_results l) (vw_runs w)
           in w\<lparr>vw_runs := bench_finish now i (BenchEnded (rl_state l)) (rl_error l) repo,
                vw_threads := filter (\<lambda>t. th_run t \<noteq> i) (vw_threads w),
                vw_aborting := filter (\<lambda>j. j \<noteq> i) (vw_aborting w)\<rparr>))"

text \<open>A restart of the process: no thread survives it, and its runs are marked.\<close>

definition restart_process :: "bench_world \<Rightarrow> bench_world" where
  "restart_process w =
     w\<lparr>vw_runs := reconcile_orphans (vw_runs w), vw_threads := [], vw_aborting := []\<rparr>"

section \<open>Editing the query sets\<close>

definition set_call :: "principal \<Rightarrow> string \<Rightarrow> string option \<Rightarrow> audit_call" where
  "set_call p target reason =
     bench_audit_call p ''BENCHMARK_QUERY_CHANGE'' ''benchmark_query_set'' target reason None"

text \<open>One write to the sets, or the store's outage.\<close>

definition write_sets :: "bench_call \<Rightarrow> (set_repo \<Rightarrow> (bench_exn + 'a) \<times> set_repo) \<Rightarrow> 'a bench_op" where
  "write_sets ev f w =
     (case vc_down ev SetWrite of
        Some e \<Rightarrow> (Inl (BenchApi UpstreamUnavailable (SetsDown e)), w)
      | None \<Rightarrow> (case f (vw_sets w) of (r, s) \<Rightarrow> (r, w\<lparr>vw_sets := s\<rparr>)))"

definition text_of :: "string option \<Rightarrow> string" where
  "text_of x = strip (case x of None \<Rightarrow> [] | Some s \<Rightarrow> s)"

definition save_bench_set ::
    "(bench_exn \<Rightarrow> string) \<Rightarrow> bench_call \<Rightarrow> principal \<Rightarrow> string \<Rightarrow> string option \<Rightarrow> string option \<Rightarrow>
     string option \<Rightarrow> query_set bench_op" where
  "save_bench_set desc ev p key title description reason w =
     (if \<not> can p MANAGE_HEALTH then (Inl (BenchApi Forbidden NoBenchAdmin), w)
      else if refuse_name (Some key) then (Inl (BenchApi InvalidRequest (BadName ''set key'')), w)
      else case not_while_running ev key w of
             Some e \<Rightarrow> (Inl e, w)
           | None \<Rightarrow>
               bench_audited desc ev (set_call p key reason)
                 (write_sets ev (\<lambda>s. case sets_save key (text_of title) (text_of description) s of
                                      (q, s') \<Rightarrow> (Inr q, s'))) w)"

definition delete_bench_set ::
    "(bench_exn \<Rightarrow> string) \<Rightarrow> bench_call \<Rightarrow> principal \<Rightarrow> string \<Rightarrow> string option \<Rightarrow> bool bench_op" where
  "delete_bench_set desc ev p key reason w =
     (if \<not> can p MANAGE_HEALTH then (Inl (BenchApi Forbidden NoBenchAdmin), w)
      else case set_or_404 ev key w of
             Inl e \<Rightarrow> (Inl e, w)
           | Inr _ \<Rightarrow>
               (case not_while_running ev key w of
                  Some e \<Rightarrow> (Inl e, w)
                | None \<Rightarrow>
                    bench_audited desc ev (set_call p key reason)
                      (write_sets ev (\<lambda>s. case sets_delete key s of (b, s') \<Rightarrow> (Inr b, s'))) w))"

definition clean_statement :: "string option \<Rightarrow> string" where
  "clean_statement statement = rstrip_char (CHR '';'') (text_of statement)"

definition set_exn :: "string \<Rightarrow> set_store_exn \<Rightarrow> bench_exn" where
  "set_exn key e =
     (case e of
        UnknownSet _ \<Rightarrow> BenchApi NotFound (NoSuchSet key)
      | DuplicateQueryName name \<Rightarrow> BenchApi InvalidRequest (QueryNameTaken key name))"

definition save_bench_query ::
    "(bench_exn \<Rightarrow> string) \<Rightarrow> bench_call \<Rightarrow> principal \<Rightarrow> string \<Rightarrow> string \<Rightarrow> string option \<Rightarrow>
     string option \<Rightarrow> string option \<Rightarrow> int \<Rightarrow> string option \<Rightarrow> bench_query bench_op" where
  "save_bench_query desc ev p key name title statement reason position original w =
     (if \<not> can p MANAGE_HEALTH then (Inl (BenchApi Forbidden NoBenchAdmin), w)
      else case set_or_404 ev key w of
             Inl e \<Rightarrow> (Inl e, w)
           | Inr found \<Rightarrow>
               (if refuse_name (Some name) then (Inl (BenchApi InvalidRequest (BadName ''query name'')), w)
                else case refuse_statement (clean_statement statement) of
                       Some r \<Rightarrow> (Inl (BenchApi InvalidRequest (NotBenchmarkable r)), w)
                     | None \<Rightarrow>
                         (if original \<noteq> Some name \<and> length (qs_queries found) \<ge> MAX_QUERIES
                          then (Inl (BenchApi InvalidRequest (SetFull key)), w)
                          else case not_while_running ev key w of
                                 Some e \<Rightarrow> (Inl e, w)
                               | None \<Rightarrow>
                                   bench_audited desc ev (set_call p (key @ ''.'' @ name) reason)
                                     (write_sets ev (\<lambda>s.
                                        case set_save_query key name (text_of title) (clean_statement statement)
                                               position original s of
                                          (Inl e, s') \<Rightarrow> (Inl (set_exn key e), s') | (Inr q, s') \<Rightarrow> (Inr q, s'))) w)))"

definition delete_bench_query ::
    "(bench_exn \<Rightarrow> string) \<Rightarrow> bench_call \<Rightarrow> principal \<Rightarrow> string \<Rightarrow> string \<Rightarrow> string option \<Rightarrow> unit bench_op" where
  "delete_bench_query desc ev p key name reason w =
     (if \<not> can p MANAGE_HEALTH then (Inl (BenchApi Forbidden NoBenchAdmin), w)
      else case set_or_404 ev key w of
             Inl e \<Rightarrow> (Inl e, w)
           | Inr _ \<Rightarrow>
               (case not_while_running ev key w of
                  Some e \<Rightarrow> (Inl e, w)
                | None \<Rightarrow>
                    (case bench_audited desc ev (set_call p (key @ ''.'' @ name) reason)
                            (write_sets ev (\<lambda>s.
                               case set_delete_query key name s of
                                 (Inl e, s') \<Rightarrow> (Inl (set_exn key e), s') | (Inr b, s') \<Rightarrow> (Inr b, s'))) w of
                       (Inl e, w') \<Rightarrow> (Inl e, w')
                     | (Inr removed, w') \<Rightarrow>
                         (if removed then (Inr (), w')
                          else (Inl (BenchApi NotFound (NoSuchQuery name key)), w')))))"

text \<open>\<open>create_set\<close>: checked first, then two edits, each with its own record. The second read of the sets is
  not guarded against an outage. The calls are the environments of its three parts.\<close>

definition create_bench_set ::
    "(bench_exn \<Rightarrow> string) \<Rightarrow> bench_call \<Rightarrow> bench_call \<Rightarrow> bench_call \<Rightarrow> principal \<Rightarrow> string \<Rightarrow>
     string option \<Rightarrow> string option \<Rightarrow> string \<Rightarrow> string option \<Rightarrow> string option \<Rightarrow>
     query_set option bench_op" where
  "create_bench_set desc ev ev1 ev2 p key title description name statement reason w =
     (if \<not> can p MANAGE_HEALTH then (Inl (BenchApi Forbidden NoBenchAdmin), w)
      else if refuse_name (Some key) then (Inl (BenchApi InvalidRequest (BadName ''set key'')), w)
      else if refuse_name (Some name) then (Inl (BenchApi InvalidRequest (BadName ''query name'')), w)
      else case refuse_statement (clean_statement statement) of
             Some r \<Rightarrow> (Inl (BenchApi InvalidRequest (NotBenchmarkable r)), w)
           | None \<Rightarrow>
               (case vc_down ev SetRead of
                  Some e \<Rightarrow> (Inl (BenchStoreDown e), w)
                | None \<Rightarrow>
                    (if map_of (vw_sets w) key \<noteq> None
                     then (Inl (BenchApi InvalidRequest (SetExists key)), w)
                     else case save_bench_set desc ev1 p key title description reason w of
                            (Inl e, w1) \<Rightarrow> (Inl e, w1)
                          | (Inr _, w1) \<Rightarrow>
                              (case save_bench_query desc ev2 p key name None (Some (clean_statement statement))
                                      reason 0 None w1 of
                                 (Inl e, w2) \<Rightarrow> (Inl e, w2)
                               | (Inr _, w2) \<Rightarrow>
                                   (case vc_down ev2 SetRead of
                                      Some e \<Rightarrow> (Inl (BenchStoreDown e), w2)
                                    | None \<Rightarrow> (Inr (map_of (vw_sets w2) key), w2))))))"

section \<open>Schedules\<close>

definition schedule_call :: "principal \<Rightarrow> string \<Rightarrow> string option \<Rightarrow> audit_call" where
  "schedule_call p name reason =
     bench_audit_call p ''BENCHMARK_SCHEDULE_CHANGE'' ''benchmark_query_set'' name reason None"

definition schedules_or_503 :: "bench_world \<Rightarrow> bench_exn + schedule_store" where
  "schedules_or_503 w =
     (case vw_schedules w of
        None \<Rightarrow> Inl (BenchApi UpstreamUnavailable SchedulesOff) | Some st \<Rightarrow> Inr st)"

definition new_schedule ::
    "principal \<Rightarrow> string \<Rightarrow> string option \<Rightarrow> int \<Rightarrow> schedule_fields \<Rightarrow> schedule" where
  "new_schedule p key label first f =
     \<lparr>sc_id = 0, sc_name = sf_name f, sc_query_set = key, sc_clusters = sf_clusters f,
      sc_repetitions = sf_repetitions f, sc_label = label, sc_reason = sf_reason f,
      sc_interval = sf_interval f, sc_next_run_at = first, sc_created_by = pr_username p,
      sc_enabled = True, sc_paused_reason = None, sc_consecutive_failures = 0,
      sc_last_run_at = None, sc_last_outcome = None, sc_created_at = 0\<rparr>"

definition create_schedule_body :: "bench_call \<Rightarrow> schedule \<Rightarrow> schedule bench_op" where
  "create_schedule_body ev given w =
     (case vc_down ev ScheduleWrite of
        Some e \<Rightarrow> (Inl (BenchApi UpstreamUnavailable (SchedulesDown e)), w)
      | None \<Rightarrow>
          (case vw_schedules w of
             None \<Rightarrow> (Inl (BenchApi UpstreamUnavailable SchedulesOff), w)
           | Some st \<Rightarrow>
               (case create_schedule (vc_time ev) given st of
                  Inl e \<Rightarrow> (Inl (BenchApi InvalidRequest (BadSchedule e)), w)
                | Inr (row, st') \<Rightarrow> (Inr row, w\<lparr>vw_schedules := Some st'\<rparr>))))"

text \<open>\<open>starts\<close> is the parsed moment of the request, if it has one.\<close>

definition create_bench_schedule ::
    "(bench_exn \<Rightarrow> string) \<Rightarrow> bench_config \<Rightarrow> bench_call \<Rightarrow> principal \<Rightarrow> string option \<Rightarrow> string \<Rightarrow>
     string list option \<Rightarrow> json \<Rightarrow> string option \<Rightarrow> json \<Rightarrow> string option \<Rightarrow> int option \<Rightarrow>
     schedule bench_op" where
  "create_bench_schedule desc cfg ev p name key clusters interval reason repetitions label starts w =
     (if \<not> can p MANAGE_HEALTH then (Inl (BenchApi Forbidden NoBenchAdmin), w)
      else case schedules_or_503 w of
             Inl e \<Rightarrow> (Inl e, w)
           | Inr _ \<Rightarrow>
               (case validate_schedule name interval repetitions clusters reason of
                  Inl e \<Rightarrow> (Inl (BenchApi InvalidRequest (BadSchedule e)), w)
                | Inr f \<Rightarrow>
                    (case set_or_404 ev key w of
                       Inl e \<Rightarrow> (Inl e, w)
                     | Inr _ \<Rightarrow>
                         (case find (\<lambda>c. c \<notin> set (bc_clusters cfg)) (sf_clusters f) of
                            Some c \<Rightarrow> (Inl (BenchApi NotFound (UnknownBenchCluster c)), w)
                          | None \<Rightarrow>
                              bench_audited desc ev (schedule_call p (sf_name f) (Some (sf_reason f)))
                                (create_schedule_body ev
                                   (new_schedule p key label
                                      (case starts of None \<Rightarrow> vc_time ev | Some m \<Rightarrow> m) f)) w))))"

text \<open>An outage of the schedule store in the three edits below leaves the service as it is raised.\<close>

definition schedule_or_404 :: "bench_call \<Rightarrow> nat \<Rightarrow> bench_world \<Rightarrow> bench_exn + schedule" where
  "schedule_or_404 ev sid w =
     (case schedules_or_503 w of
        Inl e \<Rightarrow> Inl e
      | Inr st \<Rightarrow>
          (case vc_down ev ScheduleRead of
             Some e \<Rightarrow> Inl (BenchStoreDown e)
           | None \<Rightarrow>
               (case get_schedule sid st of
                  None \<Rightarrow> Inl (BenchApi NotFound (NoSuchSchedule sid)) | Some row \<Rightarrow> Inr row)))"

definition write_schedules ::
    "bench_call \<Rightarrow> (schedule_store \<Rightarrow> 'a \<times> schedule_store) \<Rightarrow> 'a bench_op" where
  "write_schedules ev f w =
     (case vc_down ev ScheduleWrite of
        Some e \<Rightarrow> (Inl (BenchStoreDown e), w)
      | None \<Rightarrow>
          (case vw_schedules w of
             None \<Rightarrow> (Inl (BenchApi UpstreamUnavailable SchedulesOff), w)
           | Some st \<Rightarrow> (case f st of (x, st') \<Rightarrow> (Inr x, w\<lparr>vw_schedules := Some st'\<rparr>))))"

definition switched :: "bool \<Rightarrow> int \<Rightarrow> schedule \<Rightarrow> schedule \<Rightarrow> schedule" where
  "switched enabled now row r =
     (let r1 = r\<lparr>sc_enabled := enabled\<rparr>
      in if enabled
         then r1\<lparr>sc_consecutive_failures := 0, sc_paused_reason := None,
                 sc_next_run_at := advance (sc_next_run_at row) (sc_interval row) now\<rparr>
         else r1)"

definition set_schedule_enabled ::
    "(bench_exn \<Rightarrow> string) \<Rightarrow> bench_call \<Rightarrow> principal \<Rightarrow> nat \<Rightarrow> bool \<Rightarrow> string option \<Rightarrow>
     schedule option bench_op" where
  "set_schedule_enabled desc ev p sid enabled reason w =
     (if \<not> can p MANAGE_HEALTH then (Inl (BenchApi Forbidden NoBenchAdmin), w)
      else case schedule_or_404 ev sid w of
             Inl e \<Rightarrow> (Inl e, w)
           | Inr row \<Rightarrow>
               bench_audited desc ev (schedule_call p (sc_name row) reason)
                 (write_schedules ev (update_schedule sid (switched enabled (vc_time ev) row))) w)"

definition delete_bench_schedule ::
    "(bench_exn \<Rightarrow> string) \<Rightarrow> bench_call \<Rightarrow> principal \<Rightarrow> nat \<Rightarrow> string option \<Rightarrow> bool bench_op" where
  "delete_bench_schedule desc ev p sid reason w =
     (if \<not> can p MANAGE_HEALTH then (Inl (BenchApi Forbidden NoBenchAdmin), w)
      else case schedule_or_404 ev sid w of
             Inl e \<Rightarrow> (Inl e, w)
           | Inr row \<Rightarrow>
               bench_audited desc ev (schedule_call p (sc_name row) reason)
                 (write_schedules ev (delete_schedule sid)) w)"

text \<open>\<open>_fire\<close>: the clusters of one schedule in turn; a run that is already going is no failure.\<close>

record firing =
  fg_schedule :: string
  fg_started :: "string list"
  fg_refused :: "(string \<times> string \<times> bool) list"               \<comment> \<open>cluster, message, skipped\<close>

definition is_skip :: "bench_exn \<Rightarrow> bool" where
  "is_skip e = (case e of BenchApi k (AlreadyRunning c) \<Rightarrow> True | _ \<Rightarrow> False)"

fun fire_each ::
    "(bench_exn \<Rightarrow> string) \<Rightarrow> (string \<Rightarrow> bench_run bench_op) \<Rightarrow> string list \<Rightarrow> firing \<Rightarrow> bench_world \<Rightarrow>
     firing \<times> bench_world" where
  "fire_each desc go [] f w = (f, w)"
| "fire_each desc go (c # cs) f w =
     (case go c w of
        (Inr run, w') \<Rightarrow> fire_each desc go cs (f\<lparr>fg_started := fg_started f @ [bn_cluster run]\<rparr>) w'
      | (Inl e, w') \<Rightarrow>
          fire_each desc go cs (f\<lparr>fg_refused := fg_refused f @ [(c, desc e, is_skip e)]\<rparr>) w')"

definition paused_text :: "int \<Rightarrow> string \<Rightarrow> string" where
  "paused_text n m = ''Paused after '' @ show_int n @ '' failures in a row. Last: '' @ take 300 m"

definition fired :: "int \<Rightarrow> firing \<Rightarrow> schedule \<Rightarrow> schedule \<Rightarrow> schedule" where
  "fired now f row r =
     (let r1 = r\<lparr>sc_last_run_at := Some now\<rparr>; broke = filter (\<lambda>(c, m, skipped). \<not> skipped) (fg_refused f)
      in if fg_started f \<noteq> [] then r1\<lparr>sc_last_outcome := Some ''started'', sc_consecutive_failures := 0\<rparr>
         else if broke \<noteq> []
         then let m = fst (snd (hd broke)); n = sc_consecutive_failures row + 1;
                  r2 = r1\<lparr>sc_last_outcome := Some (take 500 m), sc_consecutive_failures := n\<rparr>
              in (if n \<ge> FAILURE_LIMIT
                  then r2\<lparr>sc_enabled := False, sc_paused_reason := Some (paused_text n m)\<rparr> else r2)
         else r1\<lparr>sc_last_outcome := Some ''skipped - a run was already going''\<rparr>)"

definition fire ::
    "(bench_exn \<Rightarrow> string) \<Rightarrow> bench_config \<Rightarrow> (string \<Rightarrow> bench_call) \<Rightarrow> bench_call \<Rightarrow> schedule \<Rightarrow>
     bench_world \<Rightarrow> firing \<times> bench_world" where
  "fire desc cfg evs ev row w =
     (case fire_each desc
             (\<lambda>c. start_bench desc cfg (evs c) (new_principal (sc_created_by row) [ROLE_ADMIN] None) c
                    (sc_query_set row) (Some (sc_reason row)) (JNum (of_int (sc_repetitions row)))
                    (sc_label row) (Some (sc_id row)))
             (sc_clusters row) \<lparr>fg_schedule = sc_name row, fg_started = [], fg_refused = []\<rparr> w of
        (f, w') \<Rightarrow> (f, snd (write_schedules ev (update_schedule (sc_id row) (fired (vc_time ev) f row)) w')))"

fun fire_all ::
    "(bench_exn \<Rightarrow> string) \<Rightarrow> bench_config \<Rightarrow> (nat \<Rightarrow> string \<Rightarrow> bench_call) \<Rightarrow> (nat \<Rightarrow> bench_call) \<Rightarrow>
     schedule list \<Rightarrow> bench_world \<Rightarrow> firing list \<times> bench_world" where
  "fire_all desc cfg evs ev [] w = ([], w)"
| "fire_all desc cfg evs ev (row # rows) w =
     (case fire desc cfg (evs (sc_id row)) (ev (sc_id row)) row w of
        (f, w1) \<Rightarrow> (case fire_all desc cfg evs ev rows w1 of (fs, w2) \<Rightarrow> (f # fs, w2)))"

definition tick_schedules ::
    "(bench_exn \<Rightarrow> string) \<Rightarrow> bench_config \<Rightarrow> bench_call \<Rightarrow> (nat \<Rightarrow> string \<Rightarrow> bench_call) \<Rightarrow>
     (nat \<Rightarrow> bench_call) \<Rightarrow> bench_world \<Rightarrow> firing list \<times> bench_world" where
  "tick_schedules desc cfg ev0 evs ev w =
     (case vw_schedules w of
        None \<Rightarrow> ([], w)
      | Some st \<Rightarrow>
          (case vc_down ev0 ScheduleClaim of
             Some e \<Rightarrow> ([], w)
           | None \<Rightarrow>
               (case claim_due (vc_time ev0) st of
                  (due_rows, st') \<Rightarrow>
                    fire_all desc cfg evs ev due_rows (w\<lparr>vw_schedules := Some st'\<rparr>))))"

end
