(* ===== verification/BenchSafety.thy ===== *)
theory BenchSafety
  imports BenchService
begin

text \<open>
  What the benchmark harness keeps over any history of requests, ticks, ended threads and restarts: one run
  per cluster, a thread for every run that is going, one audit record for every run, and statements that
  stand in the run's own record.
\<close>

section \<open>Events\<close>

datatype bench_event =
    StartRun bench_call principal string string "string option" json "string option"
  | StartRuns "string \<Rightarrow> bench_call" principal "string list" string "string option" json "string option"
  | AbortRun bench_call principal nat
  | SaveSet bench_call principal string "string option" "string option" "string option"
  | DeleteSet bench_call principal string "string option"
  | SaveQuery bench_call principal string string "string option" "string option" "string option" int "string option"
  | DeleteQuery bench_call principal string string "string option"
  | CreateSet bench_call bench_call bench_call principal string "string option" "string option" string
      "string option" "string option"
  | CreateSchedule bench_call principal "string option" string "string list option" json "string option" json
      "string option" "int option"
  | SwitchSchedule bench_call principal nat bool "string option"
  | DropSchedule bench_call principal nat "string option"
  | Tick bench_call "nat \<Rightarrow> string \<Rightarrow> bench_call" "nat \<Rightarrow> bench_call"
  | ThreadEnds int bench_env nat
  | ProcessRestarts
  | AuditStore bool

fun apply_event :: "(bench_exn \<Rightarrow> string) \<Rightarrow> bench_config \<Rightarrow> bench_event \<Rightarrow> bench_world \<Rightarrow> bench_world" where
  "apply_event desc cfg (StartRun ev p c key reason reps label) w =
     snd (start_bench desc cfg ev p c key reason reps label None w)"
| "apply_event desc cfg (StartRuns evs p cs key reason reps label) w =
     snd (start_many desc cfg evs p cs key reason reps label w)"
| "apply_event desc cfg (AbortRun ev p i) w = snd (abort_bench ev p i w)"
| "apply_event desc cfg (SaveSet ev p key title description reason) w =
     snd (save_bench_set desc ev p key title description reason w)"
| "apply_event desc cfg (DeleteSet ev p key reason) w = snd (delete_bench_set desc ev p key reason w)"
| "apply_event desc cfg (SaveQuery ev p key name title statement reason position original) w =
     snd (save_bench_query desc ev p key name title statement reason position original w)"
| "apply_event desc cfg (DeleteQuery ev p key name reason) w =
     snd (delete_bench_query desc ev p key name reason w)"
| "apply_event desc cfg (CreateSet ev ev1 ev2 p key title description name statement reason) w =
     snd (create_bench_set desc ev ev1 ev2 p key title description name statement reason w)"
| "apply_event desc cfg (CreateSchedule ev p name key clusters interval reason reps label starts) w =
     snd (create_bench_schedule desc cfg ev p name key clusters interval reason reps label starts w)"
| "apply_event desc cfg (SwitchSchedule ev p sid enabled reason) w =
     snd (set_schedule_enabled desc ev p sid enabled reason w)"
| "apply_event desc cfg (DropSchedule ev p sid reason) w = snd (delete_bench_schedule desc ev p sid reason w)"
| "apply_event desc cfg (Tick ev0 evs ev) w = snd (tick_schedules desc cfg ev0 evs ev w)"
| "apply_event desc cfg (ThreadEnds now be i) w = end_thread now be i w"
| "apply_event desc cfg ProcessRestarts w = restart_process w"
| "apply_event desc cfg (AuditStore up) w = w\<lparr>vw_audit := (vw_audit w)\<lparr>writable := up\<rparr>\<rparr>"

definition run_events ::
    "(bench_exn \<Rightarrow> string) \<Rightarrow> bench_config \<Rightarrow> bench_event list \<Rightarrow> bench_world \<Rightarrow> bench_world" where
  "run_events desc cfg es w = foldl (\<lambda>w e. apply_event desc cfg e w) w es"

section \<open>Moves\<close>

text \<open>What a record says of the run it stands for.\<close>

definition records_run :: "bench_run \<Rightarrow> audit_record \<Rightarrow> bool" where
  "records_run r rec \<longleftrightarrow>
     aud_actor rec = bn_actor r \<and> aud_target_cluster rec = Some (bn_cluster r) \<and>
     normalise_reason (bn_reason r) = Inr (aud_reason rec)"

definition run_records :: "audit_repo \<Rightarrow> audit_record list" where
  "run_records au =
     filter (\<lambda>rec. aud_action_type rec = ''BENCHMARK_RUN'' \<and> aud_outcome rec = SUCCESS) (records au)"

inductive bench_move :: "bench_world \<Rightarrow> bench_world \<Rightarrow> bool" where
  started: "bench_create now given (vw_runs w) = Some (run, repo) \<Longrightarrow> bn_queries given = qs_queries declared \<Longrightarrow>
     run_records au = run_records (vw_audit w) @ [rec] \<Longrightarrow> records_run given rec \<Longrightarrow>
     bench_move w (w\<lparr>vw_audit := au, vw_runs := repo,
        vw_threads := vw_threads w @ [\<lparr>th_run = bn_id run, th_cluster = bn_cluster run, th_set = declared,
                                       th_repetitions = n\<rparr>]\<rparr>)"
| noted: "run_records au = run_records (vw_audit w) \<Longrightarrow> bench_move w (w\<lparr>vw_audit := au\<rparr>)"
| edited: "bench_move w (w\<lparr>vw_sets := s\<rparr>)"
| scheduled: "bench_move w (w\<lparr>vw_schedules := st\<rparr>)"
| aborting: "bench_move w (w\<lparr>vw_aborting := is\<rparr>)"
| ended: "bench_move w (end_thread now be i w)"
| restarted: "bench_move w (restart_process w)"

abbreviation bench_moves :: "bench_world \<Rightarrow> bench_world \<Rightarrow> bool" where
  "bench_moves \<equiv> bench_move\<^sup>*\<^sup>*"

section \<open>Operations are moves\<close>

lemma audit_entry_run:
  "audit_entry (bench_audit_call p a k t reason c) ok rec \<Longrightarrow>
   filter (\<lambda>rec. aud_action_type rec = ''BENCHMARK_RUN'' \<and> aud_outcome rec = SUCCESS) [rec] =
     (if a = ''BENCHMARK_RUN'' \<and> ok then [rec] else [])"
  by (auto simp: audit_entry_def bench_audit_call_def SUCCESS_def FAILURE_def)

lemma put_audit_move:
  assumes "vw_audit wb = vw_audit w" "run_records au = run_records (vw_audit w)"
  shows "bench_move wb (put_bench_audit au wb)"
  using noted [of au wb] assms by (simp add: put_bench_audit_def)

lemma audited_edit:
  assumes "a \<noteq> ''BENCHMARK_RUN''" "vw_audit (snd (body w)) = vw_audit w" "bench_moves w (snd (body w))"
  shows "bench_moves w (snd (bench_audited desc ev (bench_audit_call p a k t reason c) body w))"
proof -
  obtain r w' where run: "bench_audited desc ev (bench_audit_call p a k t reason c) body w = (r, w')"
    by (cases "bench_audited desc ev (bench_audit_call p a k t reason c) body w")
  show ?thesis
    using run [unfolded bench_audited_def] assms(2)
  proof (cases rule: bench_guard.audited_cases)
    case (ran wb au rec)
    have "run_records au = run_records (vw_audit w)"
      using ran(3,4) audit_entry_run [OF ran(5)] assms(1)
      by (simp only: run_records_def put_bench_audit_def filter_append bench_world.select_convs bench_world.update_convs) simp
    then have "bench_move wb w'" using ran put_audit_move [of wb w au] assms(2) by simp
    then show ?thesis using assms(3) ran(1) run by (auto intro: rtranclp.rtrancl_into_rtrancl)
  qed (use run in simp)
qed

lemma write_sets_moves:
  "vw_audit (snd (write_sets ev f w)) = vw_audit w" "bench_moves w (snd (write_sets ev f w))"
  by (simp_all add: write_sets_def edited r_into_rtranclp split: option.split prod.split)

lemma set_edit_moves:
  "bench_moves w (snd (bench_audited desc ev (set_call p t reason) (write_sets ev f) w))"
  unfolding set_call_def by (rule audited_edit) (simp_all add: write_sets_moves)

lemma schedule_body_moves:
  "vw_audit (snd (write_schedules ev g w)) = vw_audit w" "bench_moves w (snd (write_schedules ev g w))"
  "vw_audit (snd (create_schedule_body ev given w)) = vw_audit w"
  "bench_moves w (snd (create_schedule_body ev given w))"
  by (simp_all add: write_schedules_def create_schedule_body_def scheduled r_into_rtranclp
      split: option.split prod.split sum.split)

lemma schedule_edit_moves:
  "bench_moves w (snd (bench_audited desc ev (schedule_call p t reason) (write_schedules ev g) w))"
  "bench_moves w (snd (bench_audited desc ev (schedule_call p t reason) (create_schedule_body ev given) w))"
  unfolding schedule_call_def by (rule audited_edit; simp add: schedule_body_moves)+

lemma start_body_keeps: "vw_audit (snd (start_body ev given declared w)) = vw_audit w"
  by (auto simp: start_body_def split: option.split prod.split)

lemma start_moves:
  "bench_moves w (snd (start_bench desc cfg ev p c key reason reps label sid w))"
proof (cases "\<exists>declared n g. set_or_404 ev key w = Inr declared \<and> to_int reps = Inr n \<and>
    1 \<le> n \<and> n \<le> max_repetitions cfg \<and> guard_for cfg ev c = Inr g \<and> can p MANAGE_HEALTH \<and> c \<in> set (bc_clusters cfg)")
  case False
  then show ?thesis by (auto simp: start_bench_def split: sum.split)
next
  case True
  then obtain declared n g where ok: "set_or_404 ev key w = Inr declared" "to_int reps = Inr n"
    "1 \<le> n" "n \<le> max_repetitions cfg" "guard_for cfg ev c = Inr g" "can p MANAGE_HEALTH" "c \<in> set (bc_clusters cfg)"
    by blast
  let ?given = "requested_run p c declared reason n label g sid"
  let ?call = "bench_audit_call p ''BENCHMARK_RUN'' ''cluster'' (c @ '':'' @ qs_key declared) reason (Some c)"
  obtain r w' where run: "bench_audited desc ev ?call (start_body ev ?given declared) w = (r, w')"
    by (cases "bench_audited desc ev ?call (start_body ev ?given declared) w")
  have "bench_moves w w'"
    using run [unfolded bench_audited_def] start_body_keeps
  proof (cases rule: bench_guard.audited_cases)
    case (ran wb au rec)
    have au: "vw_audit w' = au" using ran(3) by (simp add: put_bench_audit_def)
    show ?thesis
    proof (cases r)
      case (Inl e)
      then have "wb = w" using ran(1) by (auto simp: start_body_def split: option.splits prod.splits)
      moreover have "run_records au = run_records (vw_audit w)"
        using ran(4) au Inl audit_entry_run [OF ran(5)] by (simp only: run_records_def filter_append) simp
      ultimately show ?thesis using put_audit_move [of w w au] ran(3) by simp
    next
      case (Inr x)
      then obtain repo where made: "bench_create (vc_time ev) ?given (vw_runs w) = Some (x, repo)"
        and wb: "wb = w\<lparr>vw_runs := repo, vw_threads := vw_threads w @
          [\<lparr>th_run = bn_id x, th_cluster = bn_cluster x, th_set = declared, th_repetitions = nat (bn_repetitions x)\<rparr>]\<rparr>"
        using ran(1) by (auto simp: start_body_def split: option.splits prod.splits)
      have "run_records au = run_records (vw_audit w) @ [rec]"
        using ran(4) au Inr audit_entry_run [OF ran(5)] by (simp only: run_records_def filter_append) simp
      moreover have "records_run ?given rec"
        using ran(5) by (simp add: records_run_def audit_entry_def bench_audit_call_def requested_run_def)
      ultimately have "bench_move w (w\<lparr>vw_audit := au, vw_runs := repo, vw_threads := vw_threads w @
          [\<lparr>th_run = bn_id x, th_cluster = bn_cluster x, th_set = declared, th_repetitions = nat (bn_repetitions x)\<rparr>]\<rparr>)"
        by (intro started [OF made]) (simp_all add: requested_run_def)
      moreover have "w' = w\<lparr>vw_audit := au, vw_runs := repo, vw_threads := vw_threads w @
          [\<lparr>th_run = bn_id x, th_cluster = bn_cluster x, th_set = declared, th_repetitions = nat (bn_repetitions x)\<rparr>]\<rparr>"
        using ran(3) wb by (cases w) (simp add: put_bench_audit_def)
      ultimately show ?thesis by (metis r_into_rtranclp)
    qed
  qed simp
  then show ?thesis using ok run by (simp add: start_bench_def)
qed

lemma start_each_moves:
  assumes "\<And>c w. bench_moves w (snd (go c w))"
  shows "bench_moves w (snd (start_each go cs started refused w))"
proof (induction cs arbitrary: started refused w)
  case (Cons c cs)
  obtain r w1 where go: "go c w = (r, w1)" by (cases "go c w")
  have "bench_moves w w1" using assms [of w c] go by simp
  moreover have "bench_moves w1 (snd (start_each go cs st rf w1))" for st rf by (rule Cons.IH)
  ultimately show ?case using go
    by (auto split: sum.split bench_exn.split intro: rtranclp_trans)
qed simp

lemma fire_each_moves:
  assumes "\<And>c w. bench_moves w (snd (go c w))"
  shows "bench_moves w (snd (fire_each desc go cs f w))"
proof (induction cs arbitrary: f w)
  case (Cons c cs)
  obtain r w1 where go: "go c w = (r, w1)" by (cases "go c w")
  have "bench_moves w w1" using assms [of w c] go by simp
  moreover have "bench_moves w1 (snd (fire_each desc go cs g w1))" for g by (rule Cons.IH)
  ultimately show ?case using go by (auto split: sum.split intro: rtranclp_trans)
qed simp

lemma fire_moves: "bench_moves w (snd (fire desc cfg evs ev row w))"
proof -
  obtain f w1 where fe: "fire_each desc
             (\<lambda>c. start_bench desc cfg (evs c) (new_principal (sc_created_by row) [ROLE_ADMIN] None) c
                    (sc_query_set row) (Some (sc_reason row)) (JNum (of_int (sc_repetitions row)))
                    (sc_label row) (Some (sc_id row)))
             (sc_clusters row) \<lparr>fg_schedule = sc_name row, fg_started = [], fg_refused = []\<rparr> w = (f, w1)"
    by (rule prod.exhaust)
  have "bench_moves w (snd (fire_each desc
             (\<lambda>c. start_bench desc cfg (evs c) (new_principal (sc_created_by row) [ROLE_ADMIN] None) c
                    (sc_query_set row) (Some (sc_reason row)) (JNum (of_int (sc_repetitions row)))
                    (sc_label row) (Some (sc_id row)))
             (sc_clusters row) \<lparr>fg_schedule = sc_name row, fg_started = [], fg_refused = []\<rparr> w))"
    by (rule fire_each_moves) (rule start_moves)
  then have "bench_moves w w1" by (simp only: fe snd_conv)
  then show ?thesis
    using rtranclp_trans [OF _ schedule_body_moves(2)] by (simp only: fire_def fe prod.case snd_conv) blast
qed

lemma fire_all_moves: "bench_moves w (snd (fire_all desc cfg evs ev rows w))"
proof (induction rows arbitrary: w)
  case (Cons row rows)
  obtain f w1 where f: "fire desc cfg (evs (sc_id row)) (ev (sc_id row)) row w = (f, w1)" by (rule prod.exhaust)
  have "bench_moves w w1" using fire_moves f by (metis snd_conv)
  then show ?case using Cons.IH [of w1] f by (auto split: prod.split intro: rtranclp_trans)
qed simp

lemma tick_moves: "bench_moves w (snd (tick_schedules desc cfg ev0 evs ev w))"
proof (cases "vw_schedules w")
  case (Some st)
  obtain rows st' where c: "claim_due (vc_time ev0) st = (rows, st')" by (rule prod.exhaust)
  have "bench_moves w (w\<lparr>vw_schedules := Some st'\<rparr>)" using scheduled by blast
  then show ?thesis using Some c fire_all_moves
    by (auto simp: tick_schedules_def split: option.split intro: rtranclp_trans)
qed (simp add: tick_schedules_def)

lemma start_many_moves: "bench_moves w (snd (start_many desc cfg evs p cs key reason reps label w))"
proof -
  let ?go = "\<lambda>c. start_bench desc cfg (evs c) p c key reason reps label None"
  obtain r w1 where e: "start_each ?go cs [] [] w = (r, w1)" by (rule prod.exhaust)
  have "bench_moves w (snd (start_each ?go cs [] [] w))" by (rule start_each_moves) (rule start_moves)
  then have "bench_moves w w1" by (simp only: e snd_conv)
  then show ?thesis using e by (auto simp: start_many_def split: option.split sum.split)
qed

lemma save_set_moves: "bench_moves w (snd (save_bench_set desc ev p key title description reason w))"
  by (auto simp: save_bench_set_def set_edit_moves split: option.split)

lemma save_query_moves:
  "bench_moves w (snd (save_bench_query desc ev p key name title statement reason position original w))"
  by (auto simp: save_bench_query_def set_edit_moves split: option.split sum.split)

lemma delete_query_moves: "bench_moves w (snd (delete_bench_query desc ev p key name reason w))"
proof -
  have "bench_moves w (snd (case bench_audited desc ev (set_call p (key @ ''.'' @ name) reason) (write_sets ev g) w of
      (Inl e, w') \<Rightarrow> (Inl e, w')
    | (Inr removed, w') \<Rightarrow>
        (if removed then (Inr (), w') else (Inl (BenchApi NotFound (NoSuchQuery name key)), w'))))" for g
    using set_edit_moves [of w desc ev p "key @ ''.'' @ name" reason g]
    by (cases "bench_audited desc ev (set_call p (key @ ''.'' @ name) reason) (write_sets ev g) w")
       (auto split: sum.split)
  then show ?thesis
    unfolding delete_bench_query_def by (auto split: option.split sum.split simp del: split_paired_All)
qed

lemma create_set_moves:
  "bench_moves w (snd (create_bench_set desc ev ev1 ev2 p key title description name statement reason w))"
proof -
  obtain r w1 where s: "save_bench_set desc ev1 p key title description reason w = (r, w1)" by (rule prod.exhaust)
  obtain r2 w2 where q: "save_bench_query desc ev2 p key name None (Some (clean_statement statement)) reason 0 None w1 = (r2, w2)"
    by (rule prod.exhaust)
  have "bench_moves w w1" "bench_moves w1 w2"
    using save_set_moves s save_query_moves q by (metis snd_conv)+
  then show ?thesis
    using s q by (auto simp: create_bench_set_def split: option.split sum.split intro: rtranclp_trans)
qed

lemma event_moves: "bench_moves w (apply_event desc cfg e w)"
proof (cases e)
  case (AuditStore up)
  have "run_records ((vw_audit w)\<lparr>writable := up\<rparr>) = run_records (vw_audit w)" by (simp add: run_records_def)
  then show ?thesis using noted AuditStore by auto
qed (auto simp: start_moves start_many_moves save_set_moves save_query_moves delete_query_moves create_set_moves
    tick_moves abort_bench_def delete_bench_set_def set_edit_moves create_bench_schedule_def
    set_schedule_enabled_def delete_bench_schedule_def schedule_edit_moves ended restarted aborting
    r_into_rtranclp split: option.split sum.split prod.split)

lemma events_move: "bench_moves w (run_events desc cfg es w)"
proof (induction es arbitrary: w)
  case (Cons e es)
  then show ?case using event_moves [of w desc cfg e] by (auto simp: run_events_def intro: rtranclp_trans)
qed (simp add: run_events_def)

section \<open>What every move keeps\<close>

definition thread_ok :: "bench_repo \<Rightarrow> bench_thread \<Rightarrow> bool" where
  "thread_ok b th \<longleftrightarrow>
     (\<exists>r\<in>set (bench_active b). bn_id r = th_run th \<and> bn_cluster r = th_cluster th \<and>
        bn_queries r = qs_queries (th_set th))"

definition runs_ok :: "bench_repo \<Rightarrow> bench_thread list \<Rightarrow> bool" where
  "runs_ok b ths \<longleftrightarrow>
     distinct (map bn_cluster (bench_active b)) \<and> distinct (map bn_id (bp_runs b)) \<and>
     (\<forall>r\<in>set (bp_runs b). bn_id r < bp_next b) \<and>
     bn_id ` set (bench_active b) \<subseteq> th_run ` set ths \<and> (\<forall>th\<in>set ths. thread_ok b th)"

definition ledger :: "audit_record list \<Rightarrow> bench_world \<Rightarrow> bool" where
  "ledger old w \<longleftrightarrow>
     (\<exists>recs. run_records (vw_audit w) = old @ recs \<and> list_all2 records_run (bp_runs (vw_runs w)) recs)"

lemma list_all2_same_runs:
  assumes "\<And>r. records_run (f r) = records_run r"
  shows "list_all2 records_run (map f rs) recs = list_all2 records_run rs recs"
  using assms by (simp add: list_all2_map1)

lemma add_results_keeps:
  "bp_runs (fold (bench_add_result i) rs b) = bp_runs b \<and> bp_next (fold (bench_add_result i) rs b) = bp_next b"
  by (induction rs arbitrary: b) (auto simp: bench_add_result_def)

lemma create_facts:
  assumes "bench_create now given b = Some (run, repo)"
  shows "bp_runs repo = bp_runs b @ [run]" "bp_next repo = bp_next b + 1" "bn_id run = bp_next b"
    "is_running run" "bn_cluster run = bn_cluster given" "bn_queries run = bn_queries given"
    "bn_cluster run \<notin> bn_cluster ` set (bench_active b)" "\<And>rec. records_run run rec = records_run given rec"
  using assms
  by (auto simp: bench_create_def is_running_def bench_active_def list_ex_iff records_run_def Let_def
      split: if_splits)

lemma runs_ok_create:
  assumes ok: "runs_ok b ths" and made: "bench_create now given b = Some (run, repo)"
    and q: "bn_queries given = qs_queries declared"
  shows "runs_ok repo (ths @ [\<lparr>th_run = bn_id run, th_cluster = bn_cluster run, th_set = declared,
                               th_repetitions = n\<rparr>])"
proof -
  note f = create_facts [OF made]
  have active: "bench_active repo = bench_active b @ [run]" using f by (simp add: bench_active_def)
  have "thread_ok repo th" if "thread_ok b th" for th using that by (auto simp: thread_ok_def active)
  then show ?thesis using ok f q unfolding runs_ok_def active
    by (auto simp: thread_ok_def active)
qed

lemma runs_ok_end:
  assumes ok: "runs_ok b ths" and same: "bp_runs b' = bp_runs b" "bp_next b' = bp_next b"
  shows "runs_ok (bench_finish now i (BenchEnded s) e b') (filter (\<lambda>t. th_run t \<noteq> i) ths)"
proof -
  let ?f = "\<lambda>r. if bn_id r = i then r\<lparr>bn_state := BenchEnded s, bn_error := e, bn_finished := Some now\<rparr> else r"
  let ?b = "bench_finish now i (BenchEnded s) e b'"
  have runs: "bp_runs ?b = map ?f (bp_runs b)" and nxt: "bp_next ?b = bp_next b"
    using same by (simp_all add: bench_finish_def cong: if_cong)
  have "filter is_running (map ?f rs) = filter (\<lambda>r. bn_id r \<noteq> i) (filter is_running rs)" for rs
    by (induction rs) (auto simp: is_running_def)
  then have active: "bench_active ?b = filter (\<lambda>r. bn_id r \<noteq> i) (bench_active b)"
    by (simp only: bench_active_def runs)
  have names: "map bn_id (map ?f rs) = map bn_id rs" for rs by (induction rs) auto
  have ids: "distinct (map bn_id (map ?f (bp_runs b)))"
    unfolding names using ok by (simp add: runs_ok_def)
  have clusters: "distinct (map bn_cluster (filter (\<lambda>r. bn_id r \<noteq> i) (bench_active b)))"
    using ok by (simp add: runs_ok_def distinct_map_filter)
  have bound: "\<forall>r\<in>set (map ?f (bp_runs b)). bn_id r < bp_next b" using ok by (auto simp: runs_ok_def)
  have cover: "bn_id ` set (filter (\<lambda>r. bn_id r \<noteq> i) (bench_active b)) \<subseteq> th_run ` set (filter (\<lambda>t. th_run t \<noteq> i) ths)"
  proof
    fix j assume "j \<in> bn_id ` set (filter (\<lambda>r. bn_id r \<noteq> i) (bench_active b))"
    then have "j \<noteq> i" "j \<in> th_run ` set ths" using ok by (auto simp: runs_ok_def)
    then show "j \<in> th_run ` set (filter (\<lambda>t. th_run t \<noteq> i) ths)" by auto
  qed
  have "thread_ok ?b th" if "thread_ok b th" "th_run th \<noteq> i" for th
    using that by (auto simp: thread_ok_def active)
  then have "\<forall>th\<in>set (filter (\<lambda>t. th_run t \<noteq> i) ths). thread_ok ?b th"
    using ok by (auto simp: runs_ok_def)
  then show ?thesis unfolding runs_ok_def active nxt runs using ids clusters bound cover by blast
qed

lemma runs_ok_restart: "runs_ok b ths \<Longrightarrow> runs_ok (reconcile_orphans b) []"
proof -
  assume ok: "runs_ok b ths"
  have "bench_active (reconcile_orphans b) = []"
    by (auto simp: bench_active_def reconcile_orphans_def filter_empty_conv is_running_def)
  then show ?thesis using ok
    by (auto simp: runs_ok_def reconcile_orphans_def comp_def if_distrib [of bn_id] cong: if_cong)
qed

lemma move_keeps:
  assumes "bench_move w w'" "runs_ok (vw_runs w) (vw_threads w)" "ledger old w"
  shows "runs_ok (vw_runs w') (vw_threads w') \<and> ledger old w'"
  using assms(1)
proof (cases rule: bench_move.cases)
  case (started now given run repo declared au rec n)
  obtain recs where "run_records (vw_audit w) = old @ recs" "list_all2 records_run (bp_runs (vw_runs w)) recs"
    using assms(3) by (auto simp: ledger_def)
  then have "ledger old w'"
    using started create_facts(1,8) [OF started(2)]
    by (auto simp: ledger_def intro!: exI [of _ "recs @ [rec]"] list_all2_appendI)
  then show ?thesis using runs_ok_create [OF assms(2) started(2,3)] started(1) by simp
next
  case (ended now be i)
  show ?thesis
  proof (cases "find (\<lambda>th. th_run th = i) (vw_threads w)")
    case (Some th)
    let ?l = "thread_log be th w"
    let ?b = "fold (bench_add_result i) (rl_results ?l) (vw_runs w)"
    note same = add_results_keeps [of i "rl_results ?l" "vw_runs w"]
    have w': "w' = w\<lparr>vw_runs := bench_finish now i (BenchEnded (rl_state ?l)) (rl_error ?l) ?b,
                vw_threads := filter (\<lambda>t. th_run t \<noteq> i) (vw_threads w),
                vw_aborting := filter (\<lambda>j. j \<noteq> i) (vw_aborting w)\<rparr>"
      using Some ended by (simp add: end_thread_def Let_def)
    have "records_run (if bn_id r = i then r\<lparr>bn_state := s, bn_error := e, bn_finished := t\<rparr> else r) = records_run r"
      for r s e t by (auto simp: records_run_def fun_eq_iff)
    then have "list_all2 records_run (bp_runs (vw_runs w')) recs = list_all2 records_run (bp_runs (vw_runs w)) recs" for recs
      using same by (simp add: w' bench_finish_def list_all2_map1)
    then have "ledger old w'" using assms(3) by (simp add: ledger_def w')
    moreover have "runs_ok (vw_runs w') (vw_threads w')"
      using runs_ok_end [OF assms(2)] same by (simp add: w')
    ultimately show ?thesis by simp
  qed (use ended assms in \<open>simp add: end_thread_def\<close>)
next
  case restarted
  have "records_run (if is_running r then r\<lparr>bn_state := BenchUnknown, bn_error := e\<rparr> else r) = records_run r" for r e
    by (auto simp: records_run_def fun_eq_iff)
  then have "list_all2 records_run (bp_runs (vw_runs w')) recs = list_all2 records_run (bp_runs (vw_runs w)) recs" for recs
    by (simp add: restarted restart_process_def reconcile_orphans_def list_all2_map1)
  then have "ledger old w'" using assms(3) by (simp add: ledger_def restarted restart_process_def)
  then show ?thesis using runs_ok_restart [OF assms(2)] by (simp add: restarted restart_process_def)
qed (use assms(2,3) in \<open>simp_all add: ledger_def\<close>)

lemma moves_keep:
  "bench_moves w w' \<Longrightarrow> runs_ok (vw_runs w) (vw_threads w) \<Longrightarrow> ledger old w \<Longrightarrow>
   runs_ok (vw_runs w') (vw_threads w') \<and> ledger old w'"
  by (induction rule: rtranclp_induct) (use move_keeps in blast)+

definition first_world :: "audit_repo \<Rightarrow> set_repo \<Rightarrow> schedule_store option \<Rightarrow> bench_world" where
  "first_world au sets st =
     \<lparr>vw_audit = au, vw_runs = new_bench_repo, vw_sets = sets, vw_schedules = st, vw_threads = [],
      vw_aborting = []\<rparr>"

lemma first_world_ok: "runs_ok (vw_runs (first_world au sets st)) (vw_threads (first_world au sets st))"
  "ledger (run_records au) (first_world au sets st)"
  by (simp_all add: first_world_def new_bench_repo_def runs_ok_def bench_active_def ledger_def)

lemmas history_ok = moves_keep [OF events_move first_world_ok]



section \<open>Runs come to an end\<close>

lemma end_thread_threads: "vw_threads (end_thread now be i w) = filter (\<lambda>t. th_run t \<noteq> i) (vw_threads w)"
proof (cases "find (\<lambda>th. th_run th = i) (vw_threads w)")
  case None
  then have "\<forall>th\<in>set (vw_threads w). th_run th \<noteq> i" by (simp add: find_None_iff)
  then show ?thesis using None by (simp add: end_thread_def filter_id_conv)
qed (simp add: end_thread_def Let_def)

lemma end_threads:
  "bench_moves w (foldl (\<lambda>w i. end_thread now (be i) i w) w is) \<and>
   vw_threads (foldl (\<lambda>w i. end_thread now (be i) i w) w is) = filter (\<lambda>t. th_run t \<notin> set is) (vw_threads w)"
proof (induction "is" arbitrary: w)
  case (Cons i "is")
  have "bench_move w (end_thread now (be i) i w)" by (rule ended)
  then show ?case using Cons.IH [of "end_thread now (be i) i w"]
    by (auto simp: end_thread_threads conj_commute intro: converse_rtranclp_into_rtranclp)
qed simp


section \<open>When a schedule is paused\<close>

datatype firing_outcome = Fired | Broke | Skipped

definition outcome_of :: "firing \<Rightarrow> firing_outcome" where
  "outcome_of f =
     (if fg_started f \<noteq> [] then Fired
      else if list_ex (\<lambda>(c, m, skipped). \<not> skipped) (fg_refused f) then Broke else Skipped)"

text \<open>The failures at the end of a history, skips left out.\<close>

definition failures_at_end :: "firing_outcome list \<Rightarrow> nat" where
  "failures_at_end os = length (takeWhile (\<lambda>x. x = Broke) (rev (filter (\<lambda>x. x \<noteq> Skipped) os)))"

lemma failures_at_end_snoc:
  "failures_at_end (os @ [x]) = (case x of Fired \<Rightarrow> 0 | Broke \<Rightarrow> Suc (failures_at_end os) | Skipped \<Rightarrow> failures_at_end os)"
  by (cases x) (simp_all add: failures_at_end_def)

lemma fired_outcome:
  "sc_consecutive_failures (fired now f r r) =
     (case outcome_of f of Fired \<Rightarrow> 0 | Broke \<Rightarrow> sc_consecutive_failures r + 1
      | Skipped \<Rightarrow> sc_consecutive_failures r)"
  "sc_enabled (fired now f r r) =
     (sc_enabled r \<and> (outcome_of f = Broke \<longrightarrow> sc_consecutive_failures r + 1 < FAILURE_LIMIT))"
proof -
  have "filter (\<lambda>(c, m, skipped). \<not> skipped) (fg_refused f) \<noteq> [] \<longleftrightarrow>
      list_ex (\<lambda>(c, m, skipped). \<not> skipped) (fg_refused f)"
    by (auto simp: filter_empty_conv list_ex_iff)
  then show "sc_consecutive_failures (fired now f r r) =
     (case outcome_of f of Fired \<Rightarrow> 0 | Broke \<Rightarrow> sc_consecutive_failures r + 1
      | Skipped \<Rightarrow> sc_consecutive_failures r)"
    "sc_enabled (fired now f r r) =
     (sc_enabled r \<and> (outcome_of f = Broke \<longrightarrow> sc_consecutive_failures r + 1 < FAILURE_LIMIT))"
    by (auto simp: fired_def outcome_of_def Let_def)
qed


section \<open>Where the service falls short\<close>

text \<open>A schedule may be given up to 50 repetitions, a run at most MAX_REPETITIONS: such a schedule can be
  saved and every run of it is refused.\<close>

lemma schedule_that_never_runs:
  "case validate_schedule (Some ''n'') (JNum 15) (JNum 30) (Some [''a'']) (Some ''why'') of
     Inl e \<Rightarrow> False | Inr f \<Rightarrow> sf_repetitions f = 30"
  by code_simp

lemma thirty_repetitions_never_start:
  assumes "bc_max_repetitions cfg = None" "start_bench desc cfg ev p c key reason (JNum 30) label sid w = (Inr run, w')"
  shows False
proof -
  have "to_int (JNum 30) = Inr 30" by code_simp
  then show ?thesis
    using assms by (auto simp: start_bench_def max_repetitions_def MAX_REPETITIONS_def split: if_splits sum.splits)
qed

definition full_set :: query_set where
  "full_set = new_query_set ''s'' [] [] (map (\<lambda>i. new_query (show_nat i) ''SELECT 1'' [] i) [0..<50])"

definition idle_call :: bench_call where
  "idle_call = \<lparr>vc_now = 0, vc_uuid = ''u'', vc_time = 0, vc_down = (\<lambda>s. None), vc_gateway = None,
     vc_snapshots = \<lparr>snapshots = [], health_events = [], overrides = []\<rparr>\<rparr>"

definition bench_admin :: principal where
  "bench_admin = new_principal ''w'' [ROLE_ADMIN] None"

definition full_world :: bench_world where
  "full_world = first_world \<lparr>records = [], writable = True\<rparr> [(''s'', full_set)] None"

lemma full_world_facts:
  "can bench_admin MANAGE_HEALTH" "set_or_404 idle_call ''s'' full_world = Inr full_set"
  "length (qs_queries full_set) = 50" "refuse_statement (clean_statement (Some ''SELECT 1'')) = None"
  "not_while_running idle_call ''s'' full_world = None"
  "refuse_name (Some ''new'') = False" "refuse_name (Some ''50'') = False"
  by (simp add: bench_admin_def) code_simp+

text \<open>In a full set an existing query cannot be renamed: the rename is taken for an addition.\<close>

lemma rename_in_full_set_is_refused:
  "''0'' \<in> bq_name ` set (qs_queries full_set) \<and>
   fst (save_bench_query desc idle_call bench_admin ''s'' ''new'' None (Some ''SELECT 1'') (Some ''why'') 0
          (Some ''0'') full_world) = Inl (BenchApi InvalidRequest (SetFull ''s''))"
proof -
  have "''0'' \<in> bq_name ` set (qs_queries full_set)" by code_simp
  then show ?thesis by (simp add: save_bench_query_def full_world_facts MAX_QUERIES_def)
qed

text \<open>An edit of a query that is not there (any more) is taken for no addition: the set grows past the limit.\<close>

lemma full_set_grows:
  "MAX_QUERIES < length (qs_queries (the (map_of
     (snd (set_save_query ''s'' ''50'' [] ''SELECT 1'' 0 (Some ''50'') [(''s'', full_set)])) ''s''))) \<and>
   (\<exists>call. save_bench_query desc idle_call bench_admin ''s'' ''50'' None (Some ''SELECT 1'') (Some ''why'') 0
      (Some ''50'') full_world =
    bench_audited desc idle_call call (write_sets idle_call (\<lambda>s.
        case set_save_query ''s'' ''50'' [] ''SELECT 1'' 0 (Some ''50'') s of
          (Inl e, s') \<Rightarrow> (Inl (set_exn ''s'' e), s') | (Inr q, s') \<Rightarrow> (Inr q, s'))) full_world)"
proof -
  have c: "clean_statement (Some ''SELECT 1'') = ''SELECT 1''" "text_of None = []" by code_simp+
  have "MAX_QUERIES < length (qs_queries (the (map_of
     (snd (set_save_query ''s'' ''50'' [] ''SELECT 1'' 0 (Some ''50'') [(''s'', full_set)])) ''s'')))"
    by code_simp
  then show ?thesis
    using full_world_facts(4) by (auto simp: save_bench_query_def full_world_facts c)
qed

text \<open>A set is guarded against edits while a run of it is going only as long as the runs can be read.\<close>

lemma edit_guard_fails_open:
  "vc_down ev RunActive \<noteq> None \<Longrightarrow> not_while_running ev key w = None"
  by (auto simp: not_while_running_def busy_clusters_def)

end
