(* ===== verification/BenchViews.thy ===== *)
theory BenchViews
  imports BenchService
begin

text \<open>
  What the benchmark screens read (\<^verbatim>\<open>bench/service.py\<close>): the overview, one run, the comparison of two, the
  sets, and the history of a query with its chart.
\<close>

record cluster_readiness =
  cy_name :: string
  cy_guard :: guard_result
  cy_ready :: bool

record bench_screen =
  bo_clusters :: "cluster_readiness list"
  bo_sets :: "query_set list"
  bo_runs :: "bench_run list"
  bo_active :: "bench_run list"
  bo_can_edit :: bool
  bo_max_repetitions :: int

text \<open>An outage of either read leaves both lists empty.\<close>

definition recent_and_active :: "bench_call \<Rightarrow> bench_world \<Rightarrow> bench_run list \<times> bench_run list" where
  "recent_and_active ev w =
     (if vc_down ev RunRead \<noteq> None \<or> vc_down ev RunActive \<noteq> None then ([], [])
      else (bench_recent 25 None (vw_runs w), bench_active (vw_runs w)))"

definition bench_overview ::
    "bench_config \<Rightarrow> bench_call \<Rightarrow> principal \<Rightarrow> bench_world \<Rightarrow> bench_exn + bench_screen" where
  "bench_overview cfg ev p w =
     (if \<not> can p VIEW_HEALTH then Inl (BenchApi Forbidden NoBenchView)
      else let (recent, active) = recent_and_active ev w
           in case map_exn (\<lambda>c. map_sum BenchRaised (\<lambda>g.
                       \<lparr>cy_name = c, cy_guard = g, cy_ready = (c \<notin> bn_cluster ` set active)\<rparr>)
                     (guard_for cfg ev c)) (bc_clusters cfg) of
                Inl e \<Rightarrow> Inl e
              | Inr rows \<Rightarrow>
                  Inr \<lparr>bo_clusters = rows, bo_sets = all_sets ev w, bo_runs = recent, bo_active = active,
                       bo_can_edit = can p MANAGE_HEALTH, bo_max_repetitions = max_repetitions cfg\<rparr>)"

section \<open>Runs\<close>

definition state_name :: "bench_state \<Rightarrow> string" where
  "state_name s =
     (case s of
        BenchRunning \<Rightarrow> ''RUNNING''
      | BenchUnknown \<Rightarrow> ''UNKNOWN''
      | BenchEnded RunSucceeded \<Rightarrow> ''SUCCEEDED''
      | BenchEnded RunFailed \<Rightarrow> ''FAILED''
      | BenchEnded RunAborted \<Rightarrow> ''ABORTED'')"

definition measured :: "string \<Rightarrow> bench_result \<Rightarrow> rat option" where
  "measured column r =
     (case map_of (br_measures r) column of None \<Rightarrow> None | Some v \<Rightarrow> map_option of_int v)"

definition stored_result_of :: "bench_result \<Rightarrow> stored_result" where
  "stored_result_of r =
     \<lparr>sr_query = br_query r, sr_failed = br_failed r, sr_elapsed = of_int (br_elapsed_ms r),
      sr_cpu = measured ''trino_cpu_ms'' r, sr_rows = measured ''processed_rows'' r, sr_error = br_error r\<rparr>"

definition stored_run_of :: "bench_run \<times> bench_result list \<Rightarrow> stored_run" where
  "stored_run_of rr =
     (case rr of (r, rs) \<Rightarrow>
        \<lparr>st_id = show_nat (bn_id r), st_query_set = bn_set r, st_cluster = bn_cluster r,
         st_label = (case bn_label r of None \<Rightarrow> [] | Some l \<Rightarrow> l), st_state = state_name (bn_state r),
         st_repetitions = bn_repetitions r, st_guard_ok = guard_ok (bn_guard r),
         st_queries = map (\<lambda>q. (bq_name q, bq_sql q)) (bn_queries r),
         st_results = map stored_result_of rs\<rparr>)"

text \<open>\<open>run\<close> with the repetitions folded in.\<close>

definition run_detail ::
    "bench_call \<Rightarrow> principal \<Rightarrow> nat \<Rightarrow> bench_world \<Rightarrow>
     bench_exn + (bench_run \<times> bench_result list) \<times> query_row list" where
  "run_detail ev p i w = map_sum id (\<lambda>rr. (rr, query_rows (stored_run_of rr))) (view_run ev p i w)"

definition comparable_runs ::
    "bench_call \<Rightarrow> principal \<Rightarrow> bench_run \<Rightarrow> nat \<Rightarrow> bench_world \<Rightarrow> bench_exn + bench_run list" where
  "comparable_runs ev p run limit w =
     (if \<not> can p VIEW_HEALTH then Inl (BenchApi Forbidden NoBenchView)
      else if vc_down ev RunRead \<noteq> None then Inr []
      else Inr (take limit (filter (\<lambda>r. bn_id r \<noteq> bn_id run \<and> \<not> is_running r)
                  (bench_recent (limit + 1) (Some (bn_set run)) (vw_runs w)))))"

definition compare_benchmarks ::
    "bench_call \<Rightarrow> principal \<Rightarrow> nat \<Rightarrow> nat \<Rightarrow> bench_world \<Rightarrow> bench_exn + comparison_result" where
  "compare_benchmarks ev p baseline candidate w =
     (case view_run ev p baseline w of
        Inl e \<Rightarrow> Inl e
      | Inr b \<Rightarrow>
          (case view_run ev p candidate w of
             Inl e \<Rightarrow> Inl e
           | Inr c \<Rightarrow>
               map_sum (\<lambda>e. BenchApi InvalidRequest (CannotCompare e)) id
                 (compare_runs (stored_run_of b) (stored_run_of c))))"

section \<open>Sets and histories\<close>

definition sets_view ::
    "bench_call \<Rightarrow> principal \<Rightarrow> bench_world \<Rightarrow> bench_exn + (query_set \<times> bool) list" where
  "sets_view ev p w =
     (if \<not> can p VIEW_HEALTH then Inl (BenchApi Forbidden NoBenchView)
      else let counted = (if vc_down ev RunRead \<noteq> None then []
                          else map bn_set (bench_recent 200 None (vw_runs w)))
           in Inr (map (\<lambda>s. (s, qs_key s \<in> set counted)) (all_sets ev w)))"

definition set_view ::
    "bench_call \<Rightarrow> principal \<Rightarrow> string \<Rightarrow> bench_world \<Rightarrow> bench_exn + query_set \<times> bench_run list" where
  "set_view ev p key w =
     (if \<not> can p VIEW_HEALTH then Inl (BenchApi Forbidden NoBenchView)
      else map_sum id (\<lambda>s. (s, if vc_down ev RunRead \<noteq> None then []
                             else bench_recent 10 (Some key) (vw_runs w))) (set_or_404 ev key w))"

record history_view =
  hv_query :: bench_query
  hv_rows :: "(history_row \<times> string option \<times> bool) list"
  hv_changed :: bool
  hv_trend :: trend

definition statement_in :: "bench_query list \<Rightarrow> string \<Rightarrow> string option" where
  "statement_in qs name = map_option bq_sql (find (\<lambda>q. bq_name q = name) qs)"

definition trend_row_of :: "history_row \<Rightarrow> trend_row" where
  "trend_row_of h =
     \<lparr>tr_run = bn_id (hi_run h), tr_cluster = bn_cluster (hi_run h), tr_at = Some (bn_started (hi_run h)),
      tr_failed = br_failed (hi_result h), tr_elapsed = Some (of_int (br_elapsed_ms (hi_result h)))\<rparr>"

definition query_history ::
    "bench_call \<Rightarrow> principal \<Rightarrow> string \<Rightarrow> string \<Rightarrow> nat \<Rightarrow> string \<Rightarrow> bench_world \<Rightarrow>
     bench_exn + history_view" where
  "query_history ev p key name limit bucket w =
     (if \<not> can p VIEW_HEALTH then Inl (BenchApi Forbidden NoBenchView)
      else case set_or_404 ev key w of
             Inl e \<Rightarrow> Inl e
           | Inr found \<Rightarrow>
               (case find (\<lambda>q. bq_name q = name) (qs_queries found) of
                  None \<Rightarrow> Inl (BenchApi NotFound (NoSuchQuery name key))
                | Some current \<Rightarrow>
                    (case vc_down ev RunRead of
                       Some e \<Rightarrow> Inl (BenchApi UpstreamUnavailable (RunsDown e))
                     | None \<Rightarrow>
                         (let history = bench_history key name limit (vw_runs w);
                              rows = map (\<lambda>h. let s = (case bench_get (bn_id (hi_run h)) (vw_runs w) of
                                                        None \<Rightarrow> None
                                                      | Some (r, rs) \<Rightarrow> statement_in (bn_queries r) name)
                                            in (h, s, s \<noteq> None \<and> s \<noteq> Some (bq_sql current))) history
                          in Inr \<lparr>hv_query = current, hv_rows = rows,
                                  hv_changed = list_ex (\<lambda>(h, s, d). d) rows,
                                  hv_trend = build_trend bucket (map trend_row_of history)\<rparr>))))"

definition list_bench_schedules ::
    "bench_call \<Rightarrow> principal \<Rightarrow> bench_world \<Rightarrow> bench_exn + schedule list option" where
  "list_bench_schedules ev p w =
     (if \<not> can p VIEW_HEALTH then Inl (BenchApi Forbidden NoBenchView)
      else case vw_schedules w of
             None \<Rightarrow> Inr None
           | Some st \<Rightarrow>
               (case vc_down ev ScheduleRead of
                  Some e \<Rightarrow> Inl (BenchApi UpstreamUnavailable (SchedulesDown e))
                | None \<Rightarrow> Inr (Some (list_schedules st))))"

end
