(* ===== verification/NodeService.thy ===== *)
theory NodeService
  imports NodeProps AuditedService
begin

text \<open>
  Managing the node list (\<^verbatim>\<open>fleet/nodeservice.py\<close>): the table, the inventory files rendered from it, and the
  audit store. The table may be down at every read and at every write of a request, the disk at every
  write of a file; a file is replaced whole or not at all.
\<close>

record node_world =
  nw_audit :: audit_repo
  nw_rows :: "node_row list"
  nw_files :: "string pydict"

record node_config =
  nf_clusters :: "string list"
  nf_inventories :: "string pydict"
  nf_can_query :: bool

text \<open>The writes of a request are counted from 0; \<open>nv_query\<close> is the coordinator's answer, or the text of what
  the client raised.\<close>

record node_call =
  nv_now :: nat
  nv_uuid :: string
  nv_time :: nat
  nv_read_down :: "string option"
  nv_write_down :: "nat \<Rightarrow> string option"
  nv_disk_error :: "string option"
  nv_query :: "string + runtime_row list"

datatype node_message =
    NoNodeView | NoNodeAdmin | NoSuchNodeCluster string | NoInventoryPath string | NodesDown string
  | NotWritten string string | InvalidNode node_exn | AlreadyListed string string | NotListed string string
  | NoScan | ScanFailed string | NodeGuardSays audit_exn

datatype node_list_exn =
    NodeApi api_kind node_message | NodeGuard audit_exn | DuplicateNode string | BadUri

type_synonym 'a node_op = "node_world \<Rightarrow> (node_list_exn + 'a) \<times> node_world"

definition node_guard_error :: "audit_exn \<Rightarrow> node_list_exn" where
  "node_guard_error e =
     (case e of
        ReasonRequired \<Rightarrow> NodeApi Access.ReasonRequiredError (NodeGuardSays e)
      | AuditUnavailable \<Rightarrow> NodeApi AuditUnavailableError (NodeGuardSays e)
      | InvalidActionType _ \<Rightarrow> NodeGuard e)"

definition put_node_audit :: "audit_repo \<Rightarrow> node_world \<Rightarrow> node_world" where
  "put_node_audit au w = w\<lparr>nw_audit := au\<rparr>"

interpretation node_guard: audited_service nw_audit put_node_audit node_guard_error
  by unfold_locales (simp_all add: put_node_audit_def)

definition node_target :: "string \<Rightarrow> string \<Rightarrow> string" where
  "node_target c host = c @ ''/'' @ host"

definition node_call_of :: "principal \<Rightarrow> string \<Rightarrow> string \<Rightarrow> string option \<Rightarrow> audit_call" where
  "node_call_of p c host reason =
     \<lparr>ac_actor = pr_username p, ac_roles = pr_roles p, ac_action_type = ''CLUSTER_NODE_CHANGE'',
      ac_target_kind = ''cluster_node'', ac_target_id = node_target c host, ac_reason = reason,
      ac_target_cluster = Some c, ac_actor_ip = pr_ip p, ac_request_id = None\<rparr>"

definition node_audited ::
    "(node_list_exn \<Rightarrow> string) \<Rightarrow> node_call \<Rightarrow> audit_call \<Rightarrow> 'a node_op \<Rightarrow> 'a node_op" where
  "node_audited desc ev call body w =
     audited_in nw_audit put_node_audit node_guard_error desc (nv_now ev) (nv_uuid ev) call body w"

definition inventory_path :: "node_config \<Rightarrow> string \<Rightarrow> node_list_exn + string" where
  "inventory_path cfg c =
     (if c \<notin> set (nf_clusters cfg) then Inl (NodeApi NotFound (NoSuchNodeCluster c))
      else case map_of (nf_inventories cfg) c of
             None \<Rightarrow> Inl (NodeApi InvalidRequest (NoInventoryPath c))
           | Some p \<Rightarrow> (if p = [] then Inl (NodeApi InvalidRequest (NoInventoryPath c)) else Inr p))"

definition listed_rows :: "node_call \<Rightarrow> string \<Rightarrow> node_world \<Rightarrow> node_list_exn + node_row list" where
  "listed_rows ev c w =
     (case nv_read_down ev of
        Some e \<Rightarrow> Inl (NodeApi UpstreamUnavailable (NodesDown e))
      | None \<Rightarrow> Inr (list_rows (Some c) (nw_rows w)))"

section \<open>Reading\<close>

record node_overview =
  no_cluster :: string
  no_nodes :: "(node_row \<times> bool \<times> bool) list"
  no_total :: nat
  no_workers :: nat
  no_silent :: nat
  no_can_scan :: bool
  no_path :: string

definition node_overview_of ::
    "node_config \<Rightarrow> node_call \<Rightarrow> principal \<Rightarrow> string \<Rightarrow> node_world \<Rightarrow> node_list_exn + node_overview" where
  "node_overview_of cfg ev p c w =
     (if \<not> can p VIEW_HEALTH then Inl (NodeApi Forbidden NoNodeView)
      else case inventory_path cfg c of
             Inl e \<Rightarrow> Inl e
           | Inr path \<Rightarrow>
               (case listed_rows ev c w of
                  Inl e \<Rightarrow> Inl e
                | Inr rows \<Rightarrow>
                    (let ns = describe_all rows
                     in Inr \<lparr>no_cluster = c, no_nodes = ns, no_total = length ns,
                             no_workers = length (filter (\<lambda>(r, a, h). nr_role r = ROLE_WORKER) ns),
                             no_silent = length (filter (\<lambda>(r, a, h). \<not> a) ns),
                             no_can_scan = nf_can_query cfg, no_path = path\<rparr>)))"

section \<open>The file\<close>

definition write_inventory :: "node_config \<Rightarrow> node_call \<Rightarrow> string \<Rightarrow> string node_op" where
  "write_inventory cfg ev c w =
     (case listed_rows ev c w of
        Inl e \<Rightarrow> (Inl e, w)
      | Inr rows \<Rightarrow>
          (let path = (case map_of (nf_inventories cfg) c of None \<Rightarrow> [] | Some p \<Rightarrow> p)
           in case nv_disk_error ev of
                Some e \<Rightarrow> (Inl (NodeApi UpstreamUnavailable (NotWritten path e)), w)
              | None \<Rightarrow> (Inr path, w\<lparr>nw_files := dset path (render_inventory c rows) (nw_files w)\<rparr>)))"

definition then_answer :: "'x \<Rightarrow> (node_list_exn + string) \<times> node_world \<Rightarrow> (node_list_exn + 'x) \<times> node_world" where
  "then_answer x rw = (case rw of (Inl e, w') \<Rightarrow> (Inl e, w') | (Inr _, w') \<Rightarrow> (Inr x, w'))"

fun render_each :: "node_config \<Rightarrow> (string \<Rightarrow> node_call) \<Rightarrow> string list \<Rightarrow> node_world \<Rightarrow> node_world" where
  "render_each cfg evs [] w = w"
| "render_each cfg evs (c # cs) w = render_each cfg evs cs (snd (write_inventory cfg (evs c) c w))"

definition render_all :: "node_config \<Rightarrow> (string \<Rightarrow> node_call) \<Rightarrow> node_world \<Rightarrow> node_world" where
  "render_all cfg evs w = render_each cfg evs (sort_by (\<lambda>c. c) (map fst (nf_inventories cfg))) w"

section \<open>Writing\<close>

definition manual_row :: "valid_node \<Rightarrow> string option \<Rightarrow> node_row" where
  "manual_row v reason =
     \<lparr>nr_cluster = vn_cluster v, nr_host = vn_host v, nr_address = Some (vn_address v), nr_role = vn_role v,
      nr_source = SOURCE_MANUAL, nr_reason = reason, nr_node_id = None, nr_version = None,
      nr_last_seen_at = None\<rparr>"

definition add_node_body :: "node_config \<Rightarrow> node_call \<Rightarrow> string \<Rightarrow> node_row \<Rightarrow> node_row node_op" where
  "add_node_body cfg ev c row w =
     (case nv_write_down ev 0 of
        Some e \<Rightarrow> (Inl (NodeApi UpstreamUnavailable (NodesDown e)), w)
      | None \<Rightarrow>
          (case add_row row (nw_rows w) of
             Inl _ \<Rightarrow> (Inl (NodeApi InvalidRequest (AlreadyListed (nr_host row) c)), w)
           | Inr rows \<Rightarrow>
               then_answer row (write_inventory cfg ev c (w\<lparr>nw_rows := rows\<rparr>))))"

definition add_node ::
    "(node_list_exn \<Rightarrow> string) \<Rightarrow> node_config \<Rightarrow> node_call \<Rightarrow> principal \<Rightarrow> string \<Rightarrow> string option \<Rightarrow>
     string option \<Rightarrow> string option \<Rightarrow> string option \<Rightarrow> node_row node_op" where
  "add_node desc cfg ev p c host address role reason w =
     (if \<not> can p MANAGE_HEALTH then (Inl (NodeApi Forbidden NoNodeAdmin), w)
      else case inventory_path cfg c of
             Inl e \<Rightarrow> (Inl e, w)
           | Inr _ \<Rightarrow>
               (case validate_node (Some c) host address role (nf_clusters cfg) of
                  Inl e \<Rightarrow> (Inl (NodeApi InvalidRequest (InvalidNode e)), w)
                | Inr v \<Rightarrow>
                    node_audited desc ev (node_call_of p c (vn_host v) reason)
                      (add_node_body cfg ev c (manual_row v reason)) w))"

definition remove_node_body :: "node_config \<Rightarrow> node_call \<Rightarrow> string \<Rightarrow> string \<Rightarrow> unit node_op" where
  "remove_node_body cfg ev c host w =
     (case nv_write_down ev 0 of
        Some e \<Rightarrow> (Inl (NodeApi UpstreamUnavailable (NodesDown e)), w)
      | None \<Rightarrow>
          (case remove_row c host (nw_rows w) of
             (False, rows) \<Rightarrow> (Inl (NodeApi NotFound (NotListed host c)), w)
           | (True, rows) \<Rightarrow>
               then_answer () (write_inventory cfg ev c (w\<lparr>nw_rows := rows\<rparr>))))"

definition remove_node ::
    "(node_list_exn \<Rightarrow> string) \<Rightarrow> node_config \<Rightarrow> node_call \<Rightarrow> principal \<Rightarrow> string \<Rightarrow> string option \<Rightarrow>
     string option \<Rightarrow> unit node_op" where
  "remove_node desc cfg ev p c host reason w =
     (if \<not> can p MANAGE_HEALTH then (Inl (NodeApi Forbidden NoNodeAdmin), w)
      else case inventory_path cfg c of
             Inl e \<Rightarrow> (Inl e, w)
           | Inr _ \<Rightarrow>
               node_audited desc ev (node_call_of p c (clean host) reason)
                 (remove_node_body cfg ev c (clean host)) w)"

section \<open>Scanning\<close>

definition discovered_row :: "nat \<Rightarrow> string \<Rightarrow> found_node \<Rightarrow> node_row" where
  "discovered_row seen c n =
     \<lparr>nr_cluster = c, nr_host = fn_host n, nr_address = Some (fn_address n), nr_role = fn_role n,
      nr_source = SOURCE_DISCOVERED, nr_reason = None, nr_node_id = fn_node_id n,
      nr_version = fn_version n, nr_last_seen_at = Some seen\<rparr>"

definition touched_row :: "nat \<Rightarrow> node_change \<Rightarrow> node_row \<Rightarrow> node_row" where
  "touched_row seen ch r =
     r\<lparr>nr_source := nc_source ch, nr_node_id := nc_node_id ch, nr_version := nc_version ch,
       nr_role := nc_role ch, nr_reason := (if nc_clears_reason ch then None else nr_reason r),
       nr_last_seen_at := Some seen\<rparr>"

text \<open>A host that is already listed is not among what the scan expects to be raised here.\<close>

fun add_found ::
    "node_call \<Rightarrow> string \<Rightarrow> found_node list \<Rightarrow> nat \<Rightarrow> node_row list \<Rightarrow> (node_list_exn + nat) \<times> node_row list" where
  "add_found ev c [] i rows = (Inr i, rows)"
| "add_found ev c (n # ns) i rows =
     (case nv_write_down ev i of
        Some e \<Rightarrow> (Inl (NodeApi UpstreamUnavailable (NodesDown e)), rows)
      | None \<Rightarrow>
          (case add_row (discovered_row (nv_time ev) c n) rows of
             Inl h \<Rightarrow> (Inl (DuplicateNode h), rows)
           | Inr rows' \<Rightarrow> add_found ev c ns (i + 1) rows'))"

fun touch_found ::
    "node_call \<Rightarrow> string \<Rightarrow> node_change list \<Rightarrow> nat \<Rightarrow> node_row list \<Rightarrow> (node_list_exn + nat) \<times> node_row list" where
  "touch_found ev c [] i rows = (Inr i, rows)"
| "touch_found ev c (ch # chs) i rows =
     (case nv_write_down ev i of
        Some e \<Rightarrow> (Inl (NodeApi UpstreamUnavailable (NodesDown e)), rows)
      | None \<Rightarrow> touch_found ev c chs (i + 1) (touch_row c (nc_host ch) (touched_row (nv_time ev) ch) rows))"

record scan_result =
  sr_added :: "string list"
  sr_refreshed :: nat
  sr_not_answering :: "string list"
  sr_scanned_at :: nat

definition fold_in :: "node_call \<Rightarrow> string \<Rightarrow> refresh_plan \<Rightarrow> node_row list \<Rightarrow> (node_list_exn + nat) \<times> node_row list" where
  "fold_in ev c plan rows =
     (case add_found ev c (rp_added plan) 0 rows of
        (Inl e, rows1) \<Rightarrow> (Inl e, rows1)
      | (Inr i, rows1) \<Rightarrow> touch_found ev c (rp_touched plan) i rows1)"

definition scan_nodes ::
    "node_config \<Rightarrow> node_call \<Rightarrow> principal \<Rightarrow> string \<Rightarrow> scan_result node_op" where
  "scan_nodes cfg ev p c w =
     (if \<not> can p MANAGE_HEALTH then (Inl (NodeApi Forbidden NoNodeAdmin), w)
      else case inventory_path cfg c of
             Inl e \<Rightarrow> (Inl e, w)
           | Inr _ \<Rightarrow>
               (if \<not> nf_can_query cfg then (Inl (NodeApi InvalidRequest NoScan), w)
                else case nv_query ev of
                       Inl e \<Rightarrow> (Inl (NodeApi UpstreamUnavailable (ScanFailed e)), w)
                     | Inr answer \<Rightarrow>
                         (case from_discovery answer c of
                            Inl _ \<Rightarrow> (Inl BadUri, w)
                          | Inr found \<Rightarrow>
                              (case listed_rows ev c w of
                                 Inl e \<Rightarrow> (Inl e, w)
                               | Inr existing \<Rightarrow>
                                   (let plan = plan_refresh existing found
                                    in case fold_in ev c plan (nw_rows w) of
                                         (Inl e, rows) \<Rightarrow> (Inl e, w\<lparr>nw_rows := rows\<rparr>)
                                       | (Inr _, rows) \<Rightarrow>
                                           then_answer
                                             \<lparr>sr_added = map fn_host (rp_added plan),
                                              sr_refreshed = length (rp_touched plan),
                                              sr_not_answering = map nr_host (rp_silent plan),
                                              sr_scanned_at = nv_time ev\<rparr>
                                             (write_inventory cfg ev c (w\<lparr>nw_rows := rows\<rparr>)))))))"

end
