(* ===== verification/NodeSafety.thy ===== *)
theory NodeSafety
  imports NodeService
begin

text \<open>
  What managing the node list promises: an answered change is in the file, a host leaves the list only by a
  recorded removal; and what a failure leaves behind.
\<close>

section \<open>Requests\<close>

datatype node_event =
    AddNode node_call principal string "string option" "string option" "string option" "string option"
  | RemoveNode node_call principal string "string option" "string option"
  | ScanNodes node_call principal string

fun event_cluster :: "node_event \<Rightarrow> string" where
  "event_cluster (AddNode ev p c host address role reason) = c"
| "event_cluster (RemoveNode ev p c host reason) = c"
| "event_cluster (ScanNodes ev p c) = c"

definition no_result :: "(node_list_exn + 'a) \<times> node_world \<Rightarrow> (node_list_exn + unit) \<times> node_world" where
  "no_result rw = (map_sum id (\<lambda>_. ()) (fst rw), snd rw)"

fun node_request ::
    "(node_list_exn \<Rightarrow> string) \<Rightarrow> node_config \<Rightarrow> node_event \<Rightarrow> unit node_op" where
  "node_request desc cfg (AddNode ev p c host address role reason) w =
     no_result (add_node desc cfg ev p c host address role reason w)"
| "node_request desc cfg (RemoveNode ev p c host reason) w = no_result (remove_node desc cfg ev p c host reason w)"
| "node_request desc cfg (ScanNodes ev p c) w = no_result (scan_nodes cfg ev p c w)"

definition run_node_events ::
    "(node_list_exn \<Rightarrow> string) \<Rightarrow> node_config \<Rightarrow> node_event list \<Rightarrow> node_world \<Rightarrow> node_world" where
  "run_node_events desc cfg es w = foldl (\<lambda>w e. snd (node_request desc cfg e w)) w es"

section \<open>The file follows the list\<close>

definition in_step :: "node_config \<Rightarrow> string \<Rightarrow> node_world \<Rightarrow> bool" where
  "in_step cfg c w \<longleftrightarrow>
     (case map_of (nf_inventories cfg) c of
        None \<Rightarrow> False
      | Some path \<Rightarrow> map_of (nw_files w) path = Some (render_inventory c (list_rows (Some c) (nw_rows w))))"

definition file_follows ::
    "node_config \<Rightarrow> string \<Rightarrow> node_world \<Rightarrow> (node_list_exn + 'a) \<times> node_world \<Rightarrow> bool" where
  "file_follows cfg c w rw \<longleftrightarrow>
     (case rw of (Inl e, w') \<Rightarrow> nw_files w' = nw_files w | (Inr x, w') \<Rightarrow> in_step cfg c w')"

lemma write_inventory_cases:
  assumes "inventory_path cfg c = Inr p"
  obtains (failed) e where "write_inventory cfg ev c w = (Inl e, w)"
  | (written) "write_inventory cfg ev c w =
      (Inr p, w\<lparr>nw_files := dset p (render_inventory c (list_rows (Some c) (nw_rows w))) (nw_files w)\<rparr>)"
    "map_of (nf_inventories cfg) c = Some p"
proof -
  have p: "map_of (nf_inventories cfg) c = Some p"
    using assms by (auto simp: inventory_path_def split: option.splits if_splits)
  show ?thesis
    using failed written p
    by (cases "nv_read_down ev"; cases "nv_disk_error ev") (simp_all add: write_inventory_def listed_rows_def)
qed

lemma write_inventory_keeps [simp]:
  "nw_audit (snd (write_inventory cfg ev c w)) = nw_audit w"
  "nw_rows (snd (write_inventory cfg ev c w)) = nw_rows w"
  by (simp_all add: write_inventory_def Let_def split: sum.split option.split)

lemma then_answer_world [simp]: "snd (then_answer x rw) = snd rw"
  by (cases rw; cases "fst rw") (auto simp: then_answer_def)

lemma then_answer_follows:
  "file_follows cfg c w rw \<Longrightarrow> file_follows cfg c w (then_answer x rw)"
  by (cases rw; cases "fst rw") (auto simp: then_answer_def file_follows_def)

lemma failed_follows:
  "nw_files w' = nw_files w \<Longrightarrow> file_follows cfg c w (Inl e, w')"
  by (simp add: file_follows_def)

lemma written_follows:
  assumes "inventory_path cfg c = Inr p"
  shows "file_follows cfg c w (then_answer x (write_inventory cfg ev c (w\<lparr>nw_rows := rows\<rparr>)))"
  by (rule then_answer_follows, cases rule: write_inventory_cases [OF assms, of ev "w\<lparr>nw_rows := rows\<rparr>"])
    (auto simp: file_follows_def in_step_def)

lemma remove_row_eqs:
  "snd (remove_row c host rows) = (case find_row c host rows of None \<Rightarrow> rows | Some r \<Rightarrow> remove1 r rows)"
  "fst (remove_row c host rows) = (find_row c host rows \<noteq> None)"
  by (simp_all add: remove_row_def split: option.split)

lemma add_node_body_cases:
  obtains (failed) e where "add_node_body cfg ev c row w = (Inl e, w)"
  | (added) "add_node_body cfg ev c row w =
      then_answer row (write_inventory cfg ev c (w\<lparr>nw_rows := nw_rows w @ [row]\<rparr>))"
proof (cases "nv_write_down ev 0")
  case None
  then show ?thesis using failed added
    by (cases "find_row (nr_cluster row) (nr_host row) (nw_rows w)") (simp_all add: add_node_body_def add_row_def)
qed (use failed in \<open>simp add: add_node_body_def\<close>)

lemma remove_node_body_cases:
  obtains (failed) e where "remove_node_body cfg ev c host w = (Inl e, w)"
  | (removed) "remove_node_body cfg ev c host w =
      then_answer () (write_inventory cfg ev c (w\<lparr>nw_rows := snd (remove_row c host (nw_rows w))\<rparr>))"
proof (cases "nv_write_down ev 0")
  case None
  then show ?thesis using failed removed
    by (cases "find_row c host (nw_rows w)") (simp_all add: remove_node_body_def remove_row_def)
qed (use failed in \<open>simp add: remove_node_body_def\<close>)

lemma body_keeps_audit:
  "nw_audit (snd (add_node_body cfg ev c row w)) = nw_audit w"
  "nw_audit (snd (remove_node_body cfg ev c host w)) = nw_audit w"
  by (cases rule: add_node_body_cases [of cfg ev c row w]; simp)
    (cases rule: remove_node_body_cases [of cfg ev c host w]; simp)

lemma body_follows:
  assumes "inventory_path cfg c = Inr p"
  shows "file_follows cfg c w (add_node_body cfg ev c row w)"
    "file_follows cfg c w (remove_node_body cfg ev c host w)"
  by (cases rule: add_node_body_cases [of cfg ev c row w]; simp add: failed_follows written_follows [OF assms])
    (cases rule: remove_node_body_cases [of cfg ev c host w]; simp add: failed_follows written_follows [OF assms])

lemma audited_follows:
  assumes "nw_audit (snd (body w)) = nw_audit w" "file_follows cfg c w (body w)"
  shows "file_follows cfg c w (node_audited desc ev call body w)"
proof -
  obtain r w' where run: "node_audited desc ev call body w = (r, w')" by (rule prod.exhaust)
  show ?thesis
    using run [unfolded node_audited_def] assms(1)
  proof (cases rule: node_guard.audited_cases)
    case (ran wb au rec)
    then show ?thesis using assms(2) run
      by (cases r) (simp_all add: file_follows_def in_step_def put_node_audit_def split: option.splits)
  qed (use run in \<open>simp add: file_follows_def\<close>)
qed

text \<open>Every way a scan can end.\<close>

lemma scan_cases:
  obtains (failed) e where "scan_nodes cfg ev p c w = (Inl e, w)"
  | (half) e plan rows path where "inventory_path cfg c = Inr path" "fold_in ev c plan (nw_rows w) = (Inl e, rows)"
      "scan_nodes cfg ev p c w = (Inl e, w\<lparr>nw_rows := rows\<rparr>)"
  | (whole) i plan rows path x where "inventory_path cfg c = Inr path" "fold_in ev c plan (nw_rows w) = (Inr i, rows)"
      "scan_nodes cfg ev p c w = then_answer x (write_inventory cfg ev c (w\<lparr>nw_rows := rows\<rparr>))"
proof (cases "can p MANAGE_HEALTH \<and> nf_can_query cfg")
  case True
  show ?thesis
  proof (cases "inventory_path cfg c")
    case (Inr path)
    note early = failed True Inr
    show ?thesis
    proof (cases "nv_query ev")
      case (Inr answer)
      show ?thesis
      proof (cases "from_discovery answer c")
        case (Inr found)
        show ?thesis
        proof (cases "listed_rows ev c w")
          case (Inr existing)
          note go = early \<open>nv_query ev = Inr answer\<close> \<open>from_discovery answer c = Inr found\<close> Inr
          obtain q rows where f: "fold_in ev c (plan_refresh existing found) (nw_rows w) = (q, rows)"
            by (rule prod.exhaust)
          show ?thesis
          proof (cases q)
            case (Inl e)
            show ?thesis by (rule half [OF \<open>inventory_path cfg c = Inr path\<close> f [unfolded Inl]])
              (use go f Inl in \<open>simp add: scan_nodes_def\<close>)
          next
            case (Inr i)
            show ?thesis by (rule whole [OF \<open>inventory_path cfg c = Inr path\<close> f [unfolded Inr]])
              (use go(2-) f Inr in \<open>simp add: scan_nodes_def Let_def\<close>)
          qed
        qed (use early \<open>nv_query ev = Inr answer\<close> \<open>from_discovery answer c = Inr found\<close> in \<open>simp add: scan_nodes_def\<close>)
      qed (use early \<open>nv_query ev = Inr answer\<close> in \<open>simp add: scan_nodes_def\<close>)
    qed (use early in \<open>simp add: scan_nodes_def\<close>)
  qed (use failed True in \<open>simp add: scan_nodes_def\<close>)
next
  case False
  then show ?thesis using failed
    by (cases "can p MANAGE_HEALTH"; cases "inventory_path cfg c") (simp_all add: scan_nodes_def)
qed

lemma scan_follows: "file_follows cfg c w (scan_nodes cfg ev p c w)"
  by (cases rule: scan_cases [of cfg ev p c w]) (simp_all add: failed_follows written_follows)

lemma no_result_follows: "file_follows cfg c w rw \<Longrightarrow> file_follows cfg c w (no_result rw)"
  by (cases rw; cases "fst rw") (auto simp: file_follows_def no_result_def)

lemma request_follows: "file_follows cfg (event_cluster e) w (node_request desc cfg e w)"
proof (cases e)
  case (AddNode ev p c host address role reason)
  have "file_follows cfg c w (add_node desc cfg ev p c host address role reason w)"
  proof (cases "inventory_path cfg c")
    case (Inr path)
    then show ?thesis
      by (cases "validate_node (Some c) host address role (nf_clusters cfg)"; cases "can p MANAGE_HEALTH")
        (simp_all add: add_node_def failed_follows audited_follows body_follows body_keeps_audit)
  qed (simp add: add_node_def file_follows_def)
  then show ?thesis using AddNode no_result_follows by simp
next
  case (RemoveNode ev p c host reason)
  have "file_follows cfg c w (remove_node desc cfg ev p c host reason w)"
  proof (cases "inventory_path cfg c")
    case (Inr path)
    then show ?thesis
      by (cases "can p MANAGE_HEALTH")
        (simp_all add: remove_node_def failed_follows audited_follows body_follows body_keeps_audit)
  qed (simp add: remove_node_def file_follows_def)
  then show ?thesis using RemoveNode no_result_follows by simp
next
  case (ScanNodes ev p c)
  then show ?thesis by (simp add: scan_follows no_result_follows)
qed

text \<open>C34: What is answered is what is deployed to: after an addition, a removal or a scan that succeeded, the
  inventory file of the cluster is the rendering of the list as it now is; after one that failed, at
  whatever point, no file has changed.\<close>

theorem answered_change_is_in_the_file:
  "case node_request desc cfg e w of
     (Inl x, w') \<Rightarrow> nw_files w' = nw_files w
   | (Inr x, w') \<Rightarrow>
       (case map_of (nf_inventories cfg) (event_cluster e) of
          None \<Rightarrow> False
        | Some path \<Rightarrow> map_of (nw_files w') path =
            Some (render_inventory (event_cluster e) (list_rows (Some (event_cluster e)) (nw_rows w'))))"
  using request_follows unfolding file_follows_def in_step_def .

section \<open>Hosts leave only by removal\<close>

definition listed :: "node_world \<Rightarrow> (string \<times> string) list" where
  "listed w = map (\<lambda>r. (nr_cluster r, nr_host r)) (nw_rows w)"

definition removal_record :: "string \<times> string \<Rightarrow> audit_record \<Rightarrow> bool" where
  "removal_record ch rec \<longleftrightarrow>
     aud_action_type rec = ''CLUSTER_NODE_CHANGE'' \<and> aud_target_id rec = node_target (fst ch) (snd ch) \<and>
     aud_reason rec \<noteq> []"

definition accounted :: "node_world \<Rightarrow> node_world \<Rightarrow> bool" where
  "accounted w w' \<longleftrightarrow>
     (\<exists>recs. records (nw_audit w') = records (nw_audit w) @ recs \<and>
        (\<forall>ch\<in>set (listed w). ch \<in> set (listed w') \<or> (\<exists>rec\<in>set recs. removal_record ch rec)))"

lemma accounted_refl: "accounted w w"
  by (simp add: accounted_def)

lemma accounted_trans:
  assumes "accounted w1 w2" "accounted w2 w3"
  shows "accounted w1 w3"
proof -
  obtain r1 where r1: "records (nw_audit w2) = records (nw_audit w1) @ r1"
    "\<forall>ch\<in>set (listed w1). ch \<in> set (listed w2) \<or> (\<exists>rec\<in>set r1. removal_record ch rec)"
    using assms(1) unfolding accounted_def by blast
  obtain r2 where r2: "records (nw_audit w3) = records (nw_audit w2) @ r2"
    "\<forall>ch\<in>set (listed w2). ch \<in> set (listed w3) \<or> (\<exists>rec\<in>set r2. removal_record ch rec)"
    using assms(2) unfolding accounted_def by blast
  have "records (nw_audit w3) = records (nw_audit w1) @ (r1 @ r2)" using r1(1) r2(1) by simp
  moreover have "\<forall>ch\<in>set (listed w1). ch \<in> set (listed w3) \<or> (\<exists>rec\<in>set (r1 @ r2). removal_record ch rec)"
    using r1(2) r2(2) by (metis Un_iff set_append)
  ultimately show ?thesis unfolding accounted_def by blast
qed

definition names :: "node_row list \<Rightarrow> (string \<times> string) set" where
  "names rows = (\<lambda>r. (nr_cluster r, nr_host r)) ` set rows"

lemma listed_names: "set (listed w) = names (nw_rows w)"
  by (simp add: listed_def names_def)

lemma add_found_names: "names rows \<subseteq> names (snd (add_found ev c ns i rows))"
proof (induction ns arbitrary: i rows)
  case (Cons n ns)
  show ?case using Cons.IH [of "rows @ [discovered_row (nv_time ev) c n]" "i + 1"]
    by (auto simp: add_row_def names_def split: option.split)
qed (simp add: names_def)

lemma touch_row_names:
  "(\<And>r. nr_cluster (f r) = nr_cluster r \<and> nr_host (f r) = nr_host r) \<Longrightarrow> names (touch_row c h f rows) = names rows"
  by (induction rows) (auto simp: names_def)

lemma touch_found_names: "names (snd (touch_found ev c chs i rows)) = names rows"
proof (induction chs arbitrary: i rows)
  case (Cons ch chs)
  have "names (touch_row c (nc_host ch) (touched_row (nv_time ev) ch) rows) = names rows"
    by (rule touch_row_names) (simp add: touched_row_def)
  then show ?case using Cons.IH by (simp split: option.split)
qed simp

lemma fold_in_names: "names rows \<subseteq> names (snd (fold_in ev c plan rows))"
  using add_found_names [of rows ev c "rp_added plan" 0] touch_found_names
  by (auto simp: fold_in_def split: prod.split sum.split)

lemma remove_row_names:
  "names rows \<subseteq> insert (c, host) (names (snd (remove_row c host rows)))"
proof (cases "find_row c host rows")
  case (Some r)
  then have r: "nr_cluster r = c" "nr_host r = host"
    by (auto simp: find_row_def find_Some_iff)
  have "names rows \<subseteq> insert (nr_cluster r, nr_host r) (names (remove1 r rows))"
  proof
    fix x assume "x \<in> names rows"
    then obtain s where "s \<in> set rows" "x = (nr_cluster s, nr_host s)" by (auto simp: names_def)
    then show "x \<in> insert (nr_cluster r, nr_host r) (names (remove1 r rows))"
      by (cases "s = r") (auto simp: names_def)
  qed
  then show ?thesis using Some r by (simp add: remove_row_def)
qed (simp add: remove_row_def subset_insertI)

lemma normalised_not_empty: "normalise_reason x = Inr r \<Longrightarrow> r \<noteq> []"
  by (auto simp: normalise_reason_def Let_def split: option.splits if_splits)

lemma audited_accounted:
  assumes "nw_audit (snd (body w)) = nw_audit w"
    and "names (nw_rows w) \<subseteq> insert (c, host) (names (nw_rows (snd (body w))))"
  shows "accounted w (snd (node_audited desc ev (node_call_of p c host reason) body w))"
proof -
  obtain r w' where run: "node_audited desc ev (node_call_of p c host reason) body w = (r, w')" by (rule prod.exhaust)
  show ?thesis
    using run [unfolded node_audited_def] assms(1)
  proof (cases rule: node_guard.audited_cases)
    case (ran wb au rec)
    have "removal_record (c, host) rec"
      using ran(5) normalised_not_empty by (auto simp: removal_record_def audit_entry_def node_call_of_def)
    moreover have "set (listed w') = names (nw_rows wb)" using ran(3) by (simp add: listed_names put_node_audit_def)
    ultimately have "\<forall>ch\<in>set (listed w). ch \<in> set (listed w') \<or> (\<exists>rec'\<in>set [rec]. removal_record ch rec')"
      using assms(2) ran(1) by (auto simp: listed_names)
    then show ?thesis using ran(4) run unfolding accounted_def by auto
  qed (use run accounted_refl in simp)
qed

lemma body_names:
  "names (nw_rows w) \<subseteq> insert ch (names (nw_rows (snd (add_node_body cfg ev c row w))))"
  "names (nw_rows w) \<subseteq> insert (c, host) (names (nw_rows (snd (remove_node_body cfg ev c host w))))"
  by (cases rule: add_node_body_cases [of cfg ev c row w]; auto simp: names_def)
    (cases rule: remove_node_body_cases [of cfg ev c host w]; simp add: remove_row_names subset_insertI)

lemma scan_names: "names (nw_rows w) \<subseteq> names (nw_rows (snd (scan_nodes cfg ev p c w)))"
proof (cases rule: scan_cases [of cfg ev p c w])
  case (half e plan rows path)
  then show ?thesis using fold_in_names [of "nw_rows w" ev c plan] by simp
next
  case (whole i plan rows path x)
  then show ?thesis using fold_in_names [of "nw_rows w" ev c plan] by simp
qed simp

lemma scan_keeps_audit: "nw_audit (snd (scan_nodes cfg ev p c w)) = nw_audit w"
  by (cases rule: scan_cases [of cfg ev p c w]) simp_all

lemma request_accounted: "accounted w (snd (node_request desc cfg e w))"
proof (cases e)
  case (AddNode ev p c host address role reason)
  then show ?thesis
    by (cases "validate_node (Some c) host address role (nf_clusters cfg)"; cases "can p MANAGE_HEALTH";
        cases "inventory_path cfg c")
      (simp_all add: no_result_def add_node_def accounted_refl audited_accounted body_keeps_audit body_names)
next
  case (RemoveNode ev p c host reason)
  then show ?thesis
    by (cases "can p MANAGE_HEALTH"; cases "inventory_path cfg c")
      (simp_all add: no_result_def remove_node_def accounted_refl audited_accounted body_keeps_audit body_names)
next
  case (ScanNodes ev p c)
  have "accounted w (snd (scan_nodes cfg ev p c w))"
    using scan_names [of w cfg ev p c] by (auto simp: accounted_def listed_names scan_keeps_audit)
  then show ?thesis using ScanNodes by (simp add: no_result_def)
qed

text \<open>C35: No host disappears by itself: over any history of requests, every host that was listed is listed still,
  or the audit log has gained a record of a change of exactly this host of this cluster, with a reason.\<close>

theorem hosts_leave_only_by_recorded_removal:
  "let w' = run_node_events desc cfg es w
   in \<exists>recs. records (nw_audit w') = records (nw_audit w) @ recs \<and>
        list_all (\<lambda>ch. if ch \<in> set (listed w') then True else list_ex (removal_record ch) recs) (listed w)"
proof -
  have "accounted w (run_node_events desc cfg es w)"
  proof (induction es arbitrary: w)
    case (Cons e es)
    then show ?case using accounted_trans [OF request_accounted [of w desc cfg e]] by (simp add: run_node_events_def)
  qed (simp add: run_node_events_def accounted_refl)
  then show ?thesis by (auto simp: Let_def accounted_def list_all_iff list_ex_iff)
qed

section \<open>What a failure leaves behind\<close>

definition node_admin :: principal where
  "node_admin = new_principal ''w'' [ROLE_ADMIN] None"

definition one_cluster :: node_config where
  "one_cluster = \<lparr>nf_clusters = [''a''], nf_inventories = [(''a'', ''a.ini'')], nf_can_query = True\<rparr>"

definition quiet_call :: node_call where
  "quiet_call = \<lparr>nv_now = 0, nv_uuid = ''u'', nv_time = 7, nv_read_down = None, nv_write_down = (\<lambda>i. None),
     nv_disk_error = None, nv_query = Inr []\<rparr>"

definition empty_list :: node_world where
  "empty_list = \<lparr>nw_audit = \<lparr>records = [], writable = True\<rparr>, nw_rows = [], nw_files = []\<rparr>"

lemma node_admin_can: "can node_admin MANAGE_HEALTH"
  by (simp add: node_admin_def)

text \<open>A change whose file cannot be written is answered as an error and stays in the table.\<close>

lemma rejected_change_stays_in_the_table:
  "case add_node_body one_cluster (quiet_call\<lparr>nv_disk_error := Some ''full''\<rparr>) ''a''
      (manual_row \<lparr>vn_cluster = ''a'', vn_host = ''w1'', vn_address = ''w1'', vn_role = ROLE_WORKER\<rparr> (Some ''r'')) empty_list of
     (r, w') \<Rightarrow> r = Inl (NodeApi UpstreamUnavailable (NotWritten ''a.ini'' ''full'')) \<and>
       map nr_host (nw_rows w') = [''w1''] \<and> nw_files w' = []"
  by code_simp

text \<open>Two nodes on one machine, with different ports, are one host to the list: the scan stores the first and
  ends in an exception nobody converts, with the file as it was.\<close>

definition two_on_one_machine :: "runtime_row list" where
  "two_on_one_machine =
     map (\<lambda>(i, u). \<lparr>rr_node_id = Some i, rr_http_uri = Some u, rr_version = Some ''477'', rr_coordinator = False,
                    rr_state = Some ''active''\<rparr>)
       [(''n1'', ''http://h:81''), (''n2'', ''http://h:82'')]"

lemma scan_of_one_machine_raises:
  "case scan_nodes one_cluster (quiet_call\<lparr>nv_query := Inr two_on_one_machine\<rparr>) node_admin ''a'' empty_list of
     (r, w') \<Rightarrow> r = Inl (DuplicateNode ''h'') \<and> map nr_host (nw_rows w') = [''h''] \<and> nw_files w' = []"
proof -
  have "from_discovery two_on_one_machine ''a'' =
      Inr (map (\<lambda>i. \<lparr>fn_cluster = ''a'', fn_host = ''h'', fn_address = ''h'', fn_role = ROLE_WORKER,
                     fn_node_id = Some i, fn_version = Some ''477'', fn_state = Some ''active''\<rparr>) [''n1'', ''n2''])"
    by code_simp
  moreover have "inventory_path one_cluster ''a'' = Inr ''a.ini''" by code_simp
  ultimately show ?thesis
    by (simp add: scan_nodes_def node_admin_can one_cluster_def quiet_call_def listed_rows_def empty_list_def
        list_rows_def plan_refresh_def fold_in_def add_row_def find_row_def discovered_row_def)
qed

end
