(* ===== verification/HealthWriter.thy ===== *)
theory HealthWriter
  imports HealthEngine Poller
begin

text \<open>
  From stored snapshots to the stored verdict (\<^verbatim>\<open>collector/health_writer.py\<close>), and the sentence under a
  test's name (\<^verbatim>\<open>health/observed.py\<close>). The wording of an advice is the argument \<open>say\<close>; the dashes and
  the middle dot of the source are written in ASCII.
\<close>

section \<open>The payload of a verdict\<close>

fun state_name :: "health_state \<Rightarrow> string" where
  "state_name GOOD = ''GOOD''"
| "state_name CONCERNING = ''CONCERNING''"
| "state_name BAD = ''BAD''"
| "state_name HUNKNOWN = ''UNKNOWN''"

definition TEST_NAMES :: "(string \<times> string) list" where
  "TEST_NAMES =
     [(''H-01'', ''Coordinator responsiveness''), (''H-02'', ''Startup complete''),
      (''H-03'', ''Worker registration''), (''H-04'', ''Coordinator heap''),
      (''H-05'', ''Query failure rate (5m)''), (''H-06'', ''Internal failures (5m)''),
      (''H-07'', ''Out-of-memory kills''), (''H-08'', ''Gateway backend registration''),
      (''H-09'', ''Query-list permission'')]"

text \<open>A test that raised is shown under its id.\<close>

definition test_name :: "health_result \<Rightarrow> string" where
  "test_name r =
     (if hr_advice r = Said TestRaised then hr_test r
      else case map_of TEST_NAMES (hr_test r) of None \<Rightarrow> hr_test r | Some n \<Rightarrow> n)"

fun observed_json :: "observed \<Rightarrow> json" where
  "observed_json ObsNone = JNull"
| "observed_json (ObsText t) = JStr t"
| "observed_json (ObsNum n) = JNum n"
| "observed_json (ObsWorkers active expected planned unplanned) =
     JObj [(''active_workers'', JNum (of_int active)), (''expected_workers'', JNum (of_int expected)),
           (''planned_out'', JNum (of_int planned)), (''unplanned_missing'', JNum (of_int unplanned))]"
| "observed_json (ObsOom total_kills delta) =
     JObj [(''total'', JNum (of_int total_kills)), (''delta'', opt_num (map_option of_int delta))]"

definition advice_text :: "(sentence \<Rightarrow> string) \<Rightarrow> advice \<Rightarrow> string" where
  "advice_text say a = (case a of NoAdvice \<Rightarrow> [] | Said s \<Rightarrow> say s | FromSnapshot t \<Rightarrow> t)"

definition result_json :: "(sentence \<Rightarrow> string) \<Rightarrow> health_result \<Rightarrow> json" where
  "result_json say r =
     JObj [(''id'', JStr (hr_test r)), (''name'', JStr (test_name r)), (''state'', JStr (state_name (hr_state r))),
           (''observed_value'', observed_json (hr_observed r)), (''threshold'', opt_num (hr_threshold r)),
           (''advice'', JStr (advice_text say (hr_advice r)))]"

definition health_json :: "(sentence \<Rightarrow> string) \<Rightarrow> cluster_health \<Rightarrow> json" where
  "health_json say h =
     JObj [(''rollup_state'', JStr (state_name (ch_rollup_state h))), (''rollup_enabled'', JBool (ch_rollup_enabled h)),
           (''stale'', JBool (ch_stale h)), (''tests'', JList (map (result_json say) (ch_results h)))]"

section \<open>The writer\<close>

record health_writer =
  hw_engine :: engine
  hw_stale_threshold :: rat
  hw_thresholds :: "(string \<times> rat option) list"
  hw_coordinator_counted :: bool

record health_env =
  he_now :: rat
  he_load_fails :: "string \<Rightarrow> bool"
  he_record_fails :: bool
  he_save_fails :: bool

type_synonym health_repo = "transition snapshot_repo"

definition health_inputs :: "snapshot option list \<Rightarrow> snapshot list" where
  "health_inputs ss = List.map_filter id ss"

definition inputs_stale :: "rat \<Rightarrow> rat \<Rightarrow> snapshot option list \<Rightarrow> bool" where
  "inputs_stale now limit ss \<longleftrightarrow> health_inputs ss = [] \<or> list_ex (\<lambda>s. is_stale s now limit) (health_inputs ss)"

definition context_of ::
    "health_writer \<Rightarrow> string \<Rightarrow> int \<Rightarrow> json list option \<Rightarrow> health_repo \<Rightarrow> health_context" where
  "context_of hw c expected backends repo =
     \<lparr>cx_cluster = c, cx_expected_workers = expected, cx_thresholds = hw_thresholds hw,
      cx_info = load_snapshot c KIND_INFO repo, cx_jmx = load_snapshot c KIND_JMX repo,
      cx_queries = load_snapshot c KIND_QUERIES repo, cx_coordinator_counted = hw_coordinator_counted hw,
      cx_gateway_backends = backends, cx_previous_oom = None\<rparr>"

text \<open>A store that cannot be read ends the evaluation; one that cannot be written does not.\<close>

definition write_health ::
    "(sentence \<Rightarrow> string) \<Rightarrow> health_env \<Rightarrow> string \<Rightarrow> int \<Rightarrow> json list option \<Rightarrow> (string \<times> override) list \<Rightarrow>
     health_writer \<Rightarrow> health_repo \<Rightarrow> (tick_exn + snapshot) \<times> health_writer \<times> health_repo" where
  "write_health say he c expected backends ovs hw repo =
     (if list_ex (he_load_fails he) [KIND_INFO, KIND_JMX, KIND_QUERIES] then (Inl LoadFailed, hw, repo)
      else
        (let cx = context_of hw c expected backends repo;
             stale = inputs_stale (he_now he) (hw_stale_threshold hw) [cx_info cx, cx_jmx cx, cx_queries cx]
         in case evaluate cx stale ovs (hw_engine hw) of
              (h, e1) \<Rightarrow>
                (case confirm_transitions h e1 of
                   (e2, events) \<Rightarrow>
                     (let repo1 = (if events = [] \<or> he_record_fails he then repo else record_health_events events repo);
                          s = \<lparr>sn_cluster = c, sn_kind = KIND_HEALTH, sn_collected_at = he_now he,
                               sn_payload = health_json say h, sn_error = None, sn_advice = None\<rparr>
                      in (Inr s, hw\<lparr>hw_engine := e2\<rparr>,
                          if he_save_fails he then repo1 else save_snapshot s repo1)))))"

section \<open>The sentence of a test\<close>

datatype segment = Plain string | Strong string

fun group_thousands :: "string \<Rightarrow> string" where
  "group_thousands (a # b # c # d # ds) = a # b # c # CHR '','' # group_thousands (d # ds)"
| "group_thousands ds = ds"

definition with_commas :: "int \<Rightarrow> string" where
  "with_commas n =
     (if n < 0 then CHR ''-'' # rev (group_thousands (rev (show_nat (nat (- n)))))
      else rev (group_thousands (rev (show_nat (nat n)))))"

definition int_text :: "json \<Rightarrow> py_exn + string" where
  "int_text j =
     (if j = JNull then Inr ''--''
      else case to_int j of Inl e \<Rightarrow> Inl e | Inr n \<Rightarrow> Inr (with_commas n))"

text \<open>\<open>"{:.0f}%"\<close> and \<open>"{:.1f}%"\<close> of a number.\<close>

definition tenths_text :: "rat \<Rightarrow> string" where
  "tenths_text x =
     (let y = round_tenth x; n = py_trunc (10 * y); k = nat \<bar>n\<bar>
      in (if x < 0 then ''-'' else []) @ show_nat (k div 10) @ ''.'' @ show_nat (k mod 10))"

definition to_float :: "(string \<Rightarrow> rat option) \<Rightarrow> json \<Rightarrow> py_exn + rat" where
  "to_float float j =
     (case num_or_bool j of
        Some x \<Rightarrow> Inr x
      | None \<Rightarrow> (case j of JStr s \<Rightarrow> (case float s of None \<Rightarrow> Inl ValueError | Some x \<Rightarrow> Inr x) | _ \<Rightarrow> Inl TypeError))"

definition percent_text :: "(string \<Rightarrow> rat option) \<Rightarrow> bool \<Rightarrow> json \<Rightarrow> py_exn + string" where
  "percent_text float tenths j =
     (if j = JNull then Inr ''--''
      else case to_float float j of
             Inl e \<Rightarrow> Inl e
           | Inr x \<Rightarrow> Inr ((if tenths then tenths_text x
                            else (if x < 0 \<and> x \<ge> -1/2 then ''-'' else []) @ show_rounded x) @ ''%''))"

fun all_segments :: "(py_exn + segment list) list \<Rightarrow> py_exn + segment list" where
  "all_segments [] = Inr []"
| "all_segments (p # ps) =
     (case p of Inl e \<Rightarrow> Inl e
      | Inr s \<Rightarrow> (case all_segments ps of Inl e \<Rightarrow> Inl e | Inr rest \<Rightarrow> Inr (s @ rest)))"

definition strong_of :: "py_exn + string \<Rightarrow> py_exn + segment list" where
  "strong_of t = (case t of Inl e \<Rightarrow> Inl e | Inr s \<Rightarrow> Inr [Strong s])"

definition workers_segments :: "json pydict \<Rightarrow> py_exn + segment list" where
  "workers_segments obs =
     all_segments
       ([case int_text (dget ''active_workers'' obs) of
           Inl e \<Rightarrow> Inl e
         | Inr a \<Rightarrow> (case int_text (dget ''expected_workers'' obs) of
                      Inl e \<Rightarrow> Inl e | Inr b \<Rightarrow> Inr [Strong (a @ '' of '' @ b)]),
         Inr [Plain '' workers active'']] @
        (if truthy (dget ''planned_out'' obs)
         then [Inr [Plain '' - ''], strong_of (int_text (dget ''planned_out'' obs)), Inr [Plain '' draining (planned)'']]
         else []) @
        (if truthy (dget ''unplanned_missing'' obs)
         then [Inr [Plain '' - ''], strong_of (int_text (dget ''unplanned_missing'' obs)),
               Inr [Plain '' missing unplanned'']]
         else []))"

definition oom_segments :: "json pydict \<Rightarrow> py_exn + segment list" where
  "oom_segments obs =
     (if dget ''delta'' obs = JNull
      then all_segments [Inr [Plain ''baseline recorded - total ''], strong_of (int_text (dget ''total'' obs))]
      else all_segments [strong_of (int_text (dget ''delta'' obs)),
             Inr [Plain '' new OOM kills since last poll - total ''], strong_of (int_text (dget ''total'' obs))])"

definition other_segments :: "json pydict \<Rightarrow> py_exn + segment list" where
  "other_segments obs =
     all_segments (concat (map (\<lambda>(i, k, v).
         (if i > 0 then [Inr [Plain '' - '']] else []) @ [Inr [Plain (k @ '' '')], strong_of (int_text v)])
       (enumerate 0 (sort_by fst obs))))"

definition observed_segments ::
    "(json \<Rightarrow> string) \<Rightarrow> (string \<Rightarrow> rat option) \<Rightarrow> json pydict \<Rightarrow> py_exn + segment list" where
  "observed_segments sh float t =
     (let test_id = dget ''id'' t; observed = dget ''observed_value'' t; limit = dget ''threshold'' t
      in case fields_of observed of
           Some obs \<Rightarrow>
             (if test_id = JStr ''H-03'' then workers_segments obs
              else if test_id = JStr ''H-07'' then oom_segments obs else other_segments obs)
         | None \<Rightarrow>
             (if test_id = JStr ''H-04'' \<and> num_or_bool observed \<noteq> None
              then all_segments [strong_of (percent_text float False observed),
                     Inr [Plain '' of coordinator heap - threshold ''], strong_of (percent_text float False limit)]
              else if test_id = JStr ''H-05'' \<and> num_or_bool observed \<noteq> None
              then all_segments [strong_of (percent_text float True observed), Inr [Plain '' of queries failed - last 5m'']]
              else if test_id = JStr ''H-06'' \<and> num_or_bool observed \<noteq> None
              then all_segments [strong_of (int_text observed), Inr [Plain '' internal failures - last 5m'']]
              else if observed = JNull then Inr [Plain ''no reading'']
              else Inr [Plain (str_of sh observed)]))"

text \<open>The numbers an operator reads are the numbers of the test.\<close>

lemma group_thousands_keeps: "filter (\<lambda>c. c \<noteq> CHR '','') (group_thousands ds) = filter (\<lambda>c. c \<noteq> CHR '','') ds"
  by (induction ds rule: group_thousands.induct) auto

lemma comma_free: "CHR '','' \<notin> set (show_nat n)"
  using show_nat_digits [of n] by (auto simp: list_all_iff is_ascii_digit_def code_def)

lemma with_commas_reads_back: "filter (\<lambda>c. c \<noteq> CHR '','') (with_commas n) = show_int n"
proof -
  have plain: "filter (\<lambda>c. c \<noteq> CHR '','') (rev (group_thousands (rev (show_nat k)))) = show_nat k" for k
    using comma_free [of k] by (simp add: rev_filter [symmetric] group_thousands_keeps) (auto intro: filter_True simp: rev_filter)
  show ?thesis by (simp add: with_commas_def show_int_def plain)
qed

text \<open>Every result of the catalogue has a sentence.\<close>

lemma observed_has_sentence:
  assumes "hr_test r \<in> set [''H-01'', ''H-02'', ''H-08'', ''H-09''] \<and> (case hr_observed r of ObsText _ \<Rightarrow> True | ObsNone \<Rightarrow> True | _ \<Rightarrow> False) \<or>
      hr_test r = ''H-03'' \<and> (case hr_observed r of ObsWorkers _ _ _ _ \<Rightarrow> True | ObsNone \<Rightarrow> True | _ \<Rightarrow> False) \<or>
      hr_test r = ''H-07'' \<and> (case hr_observed r of ObsOom _ _ \<Rightarrow> True | ObsNone \<Rightarrow> True | _ \<Rightarrow> False) \<or>
      hr_test r \<in> set [''H-04'', ''H-05'', ''H-06''] \<and> (case hr_observed r of ObsNum _ \<Rightarrow> True | ObsNone \<Rightarrow> True | _ \<Rightarrow> False)"
  shows "\<exists>s. observed_segments sh float (the (fields_of (result_json say r))) = Inr s"
  using assms
  by (cases "hr_observed r"; cases "hr_threshold r")
    (auto simp: observed_segments_def result_json_def dget_def Let_def strong_of_def percent_text_def to_float_def
      int_text_def to_int_def workers_segments_def oom_segments_def opt_num_def split: option.splits)

end
