(* ===== verification/GatewayClient.thy ===== *)
theory GatewayClient
  imports TrinoClient
begin

text \<open>
  The Gateway client (\<^verbatim>\<open>clients/gateway.py\<close>). It has the fields of the coordinator client and its own
  copy of the call: credentials only when there are any, and no retry of a write. A deletion is believed
  only after the list was read again.
\<close>

type_synonym gateway_client = trino_client

datatype gateway_exn = ClientError client_exn | WriteNotApplied string | Unhashable

definition BACKENDS_ALL :: string where "BACKENDS_ALL = ''/gateway/backend/all''"
definition BACKENDS_ACTIVE :: string where "BACKENDS_ACTIVE = ''/gateway/backend/active''"
definition BACKEND_ADD :: string where "BACKEND_ADD = ''/gateway/backend/modify/add''"
definition BACKEND_UPDATE :: string where "BACKEND_UPDATE = ''/gateway/backend/modify/update''"
definition BACKEND_DELETE :: string where "BACKEND_DELETE = ''/gateway/backend/modify/delete''"
definition BACKEND_ACTIVATE :: string where "BACKEND_ACTIVATE = ''/gateway/backend/activate/''"
definition BACKEND_DEACTIVATE :: string where "BACKEND_DEACTIVATE = ''/gateway/backend/deactivate/''"
definition ROUTING_RULES :: string where "ROUTING_RULES = ''/webapp/getRoutingRules''"
definition LIVEZ :: string where "LIVEZ = ''/trino-gateway/livez''"

definition BACKEND_FIELDS :: "string list" where
  "BACKEND_FIELDS = [''name'', ''proxyTo'', ''active'', ''routingGroup'', ''externalUrl'']"

section \<open>One call\<close>

definition gateway_headers :: "gateway_client \<Rightarrow> string option \<Rightarrow> string pydict" where
  "gateway_headers c content_type =
     (let h = (if user c \<noteq> [] \<or> password c \<noteq> [] then auth_header c else [])
      in case content_type of
           None \<Rightarrow> h
         | Some t \<Rightarrow> (if t \<noteq> [] then dset ''Content-Type'' t h else h))"

definition gateway_request ::
    "gateway_client \<Rightarrow> string \<Rightarrow> string \<Rightarrow> bytes option \<Rightarrow> string option \<Rightarrow> rat option \<Rightarrow> http_request" where
  "gateway_request c verb path body content_type timeout =
     \<lparr>rq_method = verb, rq_url = base_url c @ path, rq_headers = gateway_headers c content_type, rq_body = body,
      rq_connect_timeout = connect_timeout c,
      rq_read_timeout = (case timeout of Some t \<Rightarrow> t | None \<Rightarrow> read_timeout c), rq_verify_tls = verify_tls c\<rparr>"

definition gateway_call ::
    "call_env \<Rightarrow> string \<Rightarrow> string \<Rightarrow> bytes option \<Rightarrow> string option \<Rightarrow> int \<Rightarrow> rat option \<Rightarrow> gateway_client \<Rightarrow>
     http_response called" where
  "gateway_call ev verb path body content_type retries timeout c =
     (case allows_request (at_check ev) (client_breaker c) of
        (False, b) \<Rightarrow>
          (case seconds_until_retry (at_report ev) (at_report' ev) b of
             (left, b') \<Rightarrow>
               (Inl (CircuitOpen (''circuit open for '' @ base_url c @ '' ('' @ show_rounded left @
                                  ''s remaining)'')),
                c\<lparr>client_breaker := b'\<rparr>, []))
      | (True, b) \<Rightarrow>
          (case attempt_loop ev path (gateway_request c verb path body content_type timeout)
                  (nat (retries + 1)) 0 None of
             (Answered resp, eff) \<Rightarrow> (Inr resp, c\<lparr>client_breaker := record_success b\<rparr>, eff)
           | (Permanent e, eff) \<Rightarrow>
               (Inl e, c\<lparr>client_breaker := record_failure (at_failure ev) False b\<rparr>, eff)
           | (Exhausted prev, eff) \<Rightarrow>
               (Inl (case prev of Some e \<Rightarrow> e | None \<Rightarrow> Unavailable path),
                c\<lparr>client_breaker := record_failure (at_failure ev) True b\<rparr>, eff)))"

section \<open>Reading\<close>

definition list_backends :: "call_env \<Rightarrow> bool \<Rightarrow> gateway_client \<Rightarrow> (string \<times> json) list list called" where
  "list_backends ev active_only c =
     (let path = (if active_only then BACKENDS_ACTIVE else BACKENDS_ALL)
      in map_result (\<lambda>resp. case expect (path @ '': expected a list'') list_of (parse_json ev path resp) of
                              Inl e \<Rightarrow> Inl e
                            | Inr payload \<Rightarrow> Inr (List.map_filter fields_of payload))
           (gateway_call ev ''GET'' path None None (read_retries c) None c))"

text \<open>Whatever the call fails with means that there are no rules; what cannot be decoded is an error.\<close>

definition get_routing_rules :: "call_env \<Rightarrow> gateway_client \<Rightarrow> json list option called" where
  "get_routing_rules ev c =
     (case gateway_call ev ''GET'' ROUTING_RULES None None (read_retries c) None c of
        (Inl _, c', eff) \<Rightarrow> (Inr None, c', eff)
      | (Inr resp, c', eff) \<Rightarrow>
          ((case parse_json ev ROUTING_RULES resp of
              Inl e \<Rightarrow> Inl e
            | Inr payload \<Rightarrow>
                Inr (case fields_of payload of
                       Some fs \<Rightarrow> list_of (dget ''data'' fs)
                     | None \<Rightarrow> list_of payload)), c', eff))"

definition is_live :: "call_env \<Rightarrow> gateway_client \<Rightarrow> bool \<times> gateway_client \<times> effect list" where
  "is_live ev c =
     (case gateway_call ev ''GET'' LIVEZ None None 0 None c of (r, c', eff) \<Rightarrow> (\<not> isl r, c', eff))"

section \<open>Writing\<close>

text \<open>\<open>json.dumps\<close> is the argument \<open>dumps\<close>.\<close>

definition backend_body :: "(json \<Rightarrow> string) \<Rightarrow> (string \<times> json) list \<Rightarrow> bytes" where
  "backend_body dumps backend =
     utf8 (dumps (JObj [(k, dget k backend). k \<leftarrow> BACKEND_FIELDS, k \<in> fst ` set backend]))"

definition set_active :: "call_env \<Rightarrow> string \<Rightarrow> bool \<Rightarrow> gateway_client \<Rightarrow> unit called" where
  "set_active ev name active c =
     map_result (\<lambda>_. Inr ())
       (gateway_call ev ''POST'' ((if active then BACKEND_ACTIVATE else BACKEND_DEACTIVATE) @ name) None None 0
          (Some (write_timeout c)) c)"

definition add_backend :: "(json \<Rightarrow> string) \<Rightarrow> call_env \<Rightarrow> (string \<times> json) list \<Rightarrow> gateway_client \<Rightarrow> json called" where
  "add_backend dumps ev backend c =
     map_result (parse_json ev BACKEND_ADD)
       (gateway_call ev ''POST'' BACKEND_ADD (Some (backend_body dumps backend)) (Some ''application/json'') 0
          (Some (write_timeout c)) c)"

definition update_backend :: "(json \<Rightarrow> string) \<Rightarrow> call_env \<Rightarrow> (string \<times> json) list \<Rightarrow> gateway_client \<Rightarrow> json called" where
  "update_backend dumps ev backend c =
     map_result (parse_json ev BACKEND_UPDATE)
       (gateway_call ev ''POST'' BACKEND_UPDATE (Some (backend_body dumps backend)) (Some ''application/json'') 0
          (Some (write_timeout c)) c)"

text \<open>A member of a set has to be hashable: no list and no dictionary.\<close>

fun hashable :: "json \<Rightarrow> bool" where
  "hashable (JList xs) = False"
| "hashable (JObj fs) = False"
| "hashable _ = True"

type_synonym 'a gateway_called = "(gateway_exn + 'a) \<times> gateway_client \<times> effect list"

definition delete_backend :: "call_env \<Rightarrow> call_env \<Rightarrow> string \<Rightarrow> gateway_client \<Rightarrow> unit gateway_called" where
  "delete_backend ev1 ev2 name c =
     (case gateway_call ev1 ''POST'' BACKEND_DELETE (Some (utf8 name)) (Some ''text/plain'') 0
             (Some (write_timeout c)) c of
        (Inl e, c1, eff1) \<Rightarrow> (Inl (ClientError e), c1, eff1)
      | (Inr _, c1, eff1) \<Rightarrow>
          (case list_backends ev2 False c1 of
             (Inl e, c2, eff2) \<Rightarrow> (Inl (ClientError e), c2, eff1 @ eff2)
           | (Inr backends, c2, eff2) \<Rightarrow>
               (let remaining = map (dget ''name'') backends
                in ((if \<not> list_all hashable remaining then Inl Unhashable
                     else if JStr name \<in> set remaining
                     then Inl (WriteNotApplied (''Gateway returned 200 but backend '' @ [CHR 0x27] @ name @
                                                [CHR 0x27] @ '' is still registered''))
                     else Inr ()), c2, eff1 @ eff2))))"

section \<open>Construction\<close>

record gateway_settings =
  gs_enabled :: bool
  gs_base_url :: string
  gs_user :: string
  gs_password :: string
  gs_verify_tls :: bool
  gs_connect_timeout :: rat
  gs_read_timeout :: rat
  gs_write_timeout :: rat
  gs_read_retries :: int

text \<open>The breaker is \<open>CircuitBreaker()\<close>: five failures, thirty seconds.\<close>

definition build_gateway_client :: "gateway_settings \<Rightarrow> breaker_exn + gateway_client option" where
  "build_gateway_client s =
     (if \<not> gs_enabled s \<or> gs_base_url s = [] then Inr None
      else case new_breaker 5 30 of
             Inl e \<Rightarrow> Inl e
           | Inr b \<Rightarrow> Inr (Some (new_client (gs_base_url s) (gs_user s) (gs_password s) (gs_verify_tls s)
                                  (gs_connect_timeout s) (gs_read_timeout s) (gs_write_timeout s)
                                  (gs_read_retries s) b)))"

section \<open>What a write does\<close>

lemma gateway_call_sent:
  "case gateway_call ev verb path body ct retries timeout c of
     (r, c', eff) \<Rightarrow> length (requests eff) \<le> nat (retries + 1) \<and>
       list_all (\<lambda>rq. rq = gateway_request c verb path body ct timeout) (requests eff)"
  using attempt_loop_sent [where n = "nat (retries + 1)" and k = 0 and prev = None and ev = ev and
      uri = path and rq = "gateway_request c verb path body ct timeout"]
  by (auto simp: gateway_call_def split: prod.splits bool.splits attempts_end.splits)

lemma gateway_call_answer:
  assumes "gateway_call ev verb path body ct 0 timeout c = (Inr resp, c', eff)"
  shows "requests eff = [gateway_request c verb path body ct timeout]"
  using assms
  by (auto simp: gateway_call_def Let_def split: prod.splits bool.splits attempts_end.splits sum.splits if_splits)

definition writes :: "effect list \<Rightarrow> http_request list" where
  "writes eff = filter (\<lambda>rq. rq_method rq = ''POST'') (requests eff)"

lemma reads_only:
  assumes "gateway_call ev ''GET'' path body ct retries timeout c = (r, c', eff)"
  shows "writes eff = []"
  using gateway_call_sent [where ev = ev and verb = "''GET''" and path = path and body = body and ct = ct and
      retries = retries and timeout = timeout and c = c] assms
  by (auto simp: writes_def list_all_iff gateway_request_def filter_empty_conv)

lemma list_reads_only: "list_backends ev active_only c = (r, c', eff) \<Longrightarrow> writes eff = []"
  using reads_only by (auto simp: list_backends_def map_result_def Let_def split: prod.splits sum.splits)

lemma writes_append [simp]: "writes (xs @ ys) = writes xs @ writes ys"
  by (simp add: writes_def)

text \<open>A deletion is one write, never repeated, whose body is the plain name; and it is reported as done only
  when the list read after it names the backend no more.\<close>

theorem deletion_is_seen:
  "case delete_backend ev1 ev2 name c of
     (r, c', eff) \<Rightarrow>
       length (writes eff) \<le> 1 \<and>
       list_all (\<lambda>rq. rq_url rq = base_url c @ BACKEND_DELETE \<and> rq_body rq = Some (utf8 name)) (writes eff) \<and>
       (case r of
          Inl e \<Rightarrow> True
        | Inr _ \<Rightarrow>
            (case gateway_call ev1 ''POST'' BACKEND_DELETE (Some (utf8 name)) (Some ''text/plain'') 0
                    (Some (write_timeout c)) c of
               (r1, c1, eff1) \<Rightarrow>
                 (case list_backends ev2 False c1 of
                    (Inr bs, c2, eff2) \<Rightarrow> list_all (\<lambda>b. dget ''name'' b \<noteq> JStr name) bs
                  | (Inl e, c2, eff2) \<Rightarrow> False)))"
proof -
  let ?call = "gateway_call ev1 ''POST'' BACKEND_DELETE (Some (utf8 name)) (Some ''text/plain'') 0
    (Some (write_timeout c)) c"
  obtain r1 c1 eff1 where one: "?call = (r1, c1, eff1)" by (cases ?call)
  have w1: "length (writes eff1) \<le> 1"
    "list_all (\<lambda>rq. rq_url rq = base_url c @ BACKEND_DELETE \<and> rq_body rq = Some (utf8 name)) (writes eff1)"
    using gateway_call_sent [where ev = ev1 and verb = "''POST''" and path = BACKEND_DELETE and
        body = "Some (utf8 name)" and ct = "Some ''text/plain''" and retries = 0 and
        timeout = "Some (write_timeout c)" and c = c] one
    by (auto simp: writes_def gateway_request_def list_all_iff intro: le_trans [OF length_filter_le])
  show ?thesis
  proof (cases r1)
    case (Inl e)
    then show ?thesis using one w1 by (simp add: delete_backend_def)
  next
    case (Inr resp)
    obtain r2 c2 eff2 where two: "list_backends ev2 False c1 = (r2, c2, eff2)" by (cases "list_backends ev2 False c1")
    have w2: "writes eff2 = []" by (rule list_reads_only [OF two])
    show ?thesis
      using one Inr two w1 w2 by (cases r2) (auto simp: delete_backend_def Let_def list_all_iff image_iff)
  qed
qed

text \<open>The other writes leave once at most, and are successes only when the Gateway answered 2xx.\<close>

lemma set_active_once:
  "case set_active ev name active c of
     (r, c', eff) \<Rightarrow> length (requests eff) \<le> 1 \<and> (if \<not> isl r then length (requests eff) = 1 else True)"
proof -
  let ?call = "gateway_call ev ''POST'' ((if active then BACKEND_ACTIVATE else BACKEND_DEACTIVATE) @ name) None None 0
    (Some (write_timeout c)) c"
  obtain r c' eff where call: "?call = (r, c', eff)" by (cases ?call)
  show ?thesis
    using gateway_call_sent [where ev = ev and verb = "''POST''" and body = None and ct = None and retries = 0 and
        path = "(if active then BACKEND_ACTIVATE else BACKEND_DEACTIVATE) @ name" and
        timeout = "Some (write_timeout c)" and c = c] gateway_call_answer call
    by (cases r) (auto simp: set_active_def map_result_def)
qed

end
