(* ===== verification/GatewayPoller.thy ===== *)
theory GatewayPoller
  imports GatewayClient Poller
begin

text \<open>
  Polling the Gateway (\<^verbatim>\<open>collector/gateway_poller.py\<close>): the join of its backends with the configured
  clusters, first by address and then by name, and the tick. Fields of a backend are whatever the Gateway
  sent; \<open>sh\<close> is \<open>str\<close> of what is no text.
\<close>

section \<open>The join\<close>

record configured_cluster =
  cc_name :: string
  cc_url :: string

definition normalise_url :: "(json \<Rightarrow> string) \<Rightarrow> json \<Rightarrow> string" where
  "normalise_url sh url =
     lower (rev (dropWhile (\<lambda>c. c = CHR ''/'') (rev (if truthy url then str_of sh url else []))))"

definition by_url :: "(json \<Rightarrow> string) \<Rightarrow> configured_cluster list \<Rightarrow> string pydict" where
  "by_url sh cs = fold (\<lambda>c. dset (normalise_url sh (JStr (cc_url c))) (cc_name c)) cs []"

definition by_name :: "configured_cluster list \<Rightarrow> string pydict" where
  "by_name cs = fold (\<lambda>c. dset (lower (cc_name c)) (cc_name c)) cs []"

record joined_backend =
  jb_name :: json
  jb_proxy :: json
  jb_external :: json
  jb_group :: json
  jb_active :: bool
  jb_cluster :: "string option"
  jb_matched :: "string option"

definition match_backend ::
    "(json \<Rightarrow> string) \<Rightarrow> configured_cluster list \<Rightarrow> json pydict \<Rightarrow> string option \<times> string option" where
  "match_backend sh cs b =
     (case map_of (by_url sh cs) (normalise_url sh (dget ''proxyTo'' b)) of
        Some n \<Rightarrow> (Some n, if n \<noteq> [] then Some ''url'' else None)
      | None \<Rightarrow>
          (case map_of (by_name cs) (lower (if truthy (dget ''name'' b) then str_of sh (dget ''name'' b) else [])) of
             Some n \<Rightarrow> (Some n, if n \<noteq> [] then Some ''name'' else None)
           | None \<Rightarrow> (None, None)))"

definition join_row :: "(json \<Rightarrow> string) \<Rightarrow> configured_cluster list \<Rightarrow> json pydict \<Rightarrow> joined_backend" where
  "join_row sh cs b =
     (case match_backend sh cs b of
        (cluster, matched) \<Rightarrow>
          \<lparr>jb_name = dget ''name'' b, jb_proxy = dget ''proxyTo'' b, jb_external = dget ''externalUrl'' b,
           jb_group = (if truthy (dget ''routingGroup'' b) then dget ''routingGroup'' b else JStr []),
           jb_active = truthy (dget ''active'' b), jb_cluster = cluster, jb_matched = matched\<rparr>)"

text \<open>Keys of a dictionary are one key when they are equal; a number and a bool can be.\<close>

definition dict_key :: "json \<Rightarrow> json" where
  "dict_key j = (case num_or_bool j of Some x \<Rightarrow> JNum x | None \<Rightarrow> j)"

fun put_in_group :: "joined_backend \<Rightarrow> (json \<times> joined_backend list) list \<Rightarrow> (json \<times> joined_backend list) list" where
  "put_in_group r [] = [(jb_group r, [r])]"
| "put_in_group r ((k, rs) # gs) =
     (if dict_key k = dict_key (jb_group r) then (k, rs @ [r]) # gs else (k, rs) # put_in_group r gs)"

fun group_backends ::
    "joined_backend list \<Rightarrow> (json \<times> joined_backend list) list \<Rightarrow> py_exn + (json \<times> joined_backend list) list" where
  "group_backends [] gs = Inr gs"
| "group_backends (r # rs) gs =
     (if \<not> hashable (jb_group r) then Inl TypeError else group_backends rs (put_in_group r gs))"

text \<open>\<open>sorted\<close> over the keys: texts among themselves or numbers among themselves.\<close>

definition text_key :: "json \<Rightarrow> string" where
  "text_key j = (case j of JStr s \<Rightarrow> s | _ \<Rightarrow> [])"

definition number_key :: "json \<Rightarrow> rat" where
  "number_key j = (case num_or_bool j of Some x \<Rightarrow> x | None \<Rightarrow> 0)"

definition sort_groups :: "(json \<times> 'r) list \<Rightarrow> py_exn + (json \<times> 'r) list" where
  "sort_groups gs =
     (if list_all (\<lambda>(k, _). case k of JStr s \<Rightarrow> True | _ \<Rightarrow> False) gs then Inr (sort_by (text_key \<circ> fst) gs)
      else if list_all (\<lambda>(k, _). num_or_bool k \<noteq> None) gs then Inr (sort_key (number_key \<circ> fst) gs)
      else Inl TypeError)"

record backend_group =
  bg_name :: json
  bg_backends :: "joined_backend list"
  bg_active :: nat
  bg_total :: nat

record gateway_join =
  gj_backends :: "joined_backend list"
  gj_groups :: "backend_group list"
  gj_unmonitored :: "json list"
  gj_unrouted :: "string list"
  gj_inactive :: "json list"

definition matched_clusters :: "joined_backend list \<Rightarrow> string list" where
  "matched_clusters rows = List.map_filter (\<lambda>r. case jb_cluster r of Some n \<Rightarrow> if n \<noteq> [] then Some n else None | None \<Rightarrow> None) rows"

definition group_of_rows :: "json \<times> joined_backend list \<Rightarrow> backend_group" where
  "group_of_rows g =
     (case g of (k, rs) \<Rightarrow>
        \<lparr>bg_name = (if truthy k then k else JStr ''(none)''), bg_backends = rs,
         bg_active = length (filter jb_active rs), bg_total = length rs\<rparr>)"

definition join_backends ::
    "(json \<Rightarrow> string) \<Rightarrow> json pydict list \<Rightarrow> configured_cluster list \<Rightarrow> py_exn + gateway_join" where
  "join_backends sh backends cs =
     (let rows = map (join_row sh cs) backends
      in case group_backends rows [] of
           Inl e \<Rightarrow> Inl e
         | Inr groups \<Rightarrow>
             (case sort_groups groups of
                Inl e \<Rightarrow> Inl e
              | Inr ordered \<Rightarrow>
                  Inr \<lparr>gj_backends = rows, gj_groups = map group_of_rows ordered,
                       gj_unmonitored = map jb_name (filter (\<lambda>r. jb_cluster r = None) rows),
                       gj_unrouted = map cc_name (filter (\<lambda>c. cc_name c \<notin> set (matched_clusters rows)) cs),
                       gj_inactive = map jb_name (filter (\<lambda>r. \<not> jb_active r) rows)\<rparr>))"

definition opt_text :: "string option \<Rightarrow> json" where
  "opt_text t = (case t of None \<Rightarrow> JNull | Some s \<Rightarrow> JStr s)"

definition backend_json :: "joined_backend \<Rightarrow> json" where
  "backend_json r =
     JObj [(''name'', jb_name r), (''proxy_to'', jb_proxy r), (''external_url'', jb_external r),
           (''routing_group'', jb_group r), (''active'', JBool (jb_active r)), (''cluster'', opt_text (jb_cluster r)),
           (''matched_by'', opt_text (jb_matched r))]"

definition group_json :: "backend_group \<Rightarrow> json" where
  "group_json g =
     JObj [(''name'', bg_name g), (''backends'', JList (map backend_json (bg_backends g))),
           (''active'', JNum (of_nat (bg_active g))), (''total'', JNum (of_nat (bg_total g)))]"

definition join_json :: "gateway_join \<Rightarrow> (string \<times> json) list" where
  "join_json j =
     [(''backends'', JList (map backend_json (gj_backends j))), (''groups'', JList (map group_json (gj_groups j))),
      (''unmonitored_backends'', JList (gj_unmonitored j)),
      (''unrouted_clusters'', JList (map JStr (gj_unrouted j))), (''inactive_backends'', JList (gj_inactive j))]"

section \<open>A tick\<close>

record gateway_poller =
  gp_client :: gateway_client
  gp_clusters :: "configured_cluster list"
  gp_interval :: rat
  gp_next_due :: rat
  gp_last_success :: "rat option"

definition new_gateway_poller :: "gateway_client \<Rightarrow> configured_cluster list \<Rightarrow> rat \<Rightarrow> gateway_poller" where
  "new_gateway_poller c cs i =
     \<lparr>gp_client = c, gp_clusters = cs, gp_interval = i, gp_next_due = 0, gp_last_success = None\<rparr>"

record gateway_env =
  ge_due :: rat
  ge_success :: rat
  ge_resched :: rat
  ge_taken :: rat
  ge_list :: call_env
  ge_rules :: call_env
  ge_live :: call_env
  ge_save_fails :: bool

datatype gateway_tick_exn = RaisedByClient client_exn | RaisedByPython py_exn

definition gateway_is_due :: "rat \<Rightarrow> gateway_poller \<Rightarrow> bool" where
  "gateway_is_due now p \<longleftrightarrow> now \<ge> gp_next_due p"

definition gateway_seconds_until_due :: "rat \<Rightarrow> gateway_poller \<Rightarrow> rat" where
  "gateway_seconds_until_due now p = max 0 (gp_next_due p - now)"

definition gateway_snapshot :: "gateway_env \<Rightarrow> json \<Rightarrow> string option \<Rightarrow> string option \<Rightarrow> snapshot" where
  "gateway_snapshot ge payload e advice =
     \<lparr>sn_cluster = GATEWAY_SCOPE, sn_kind = KIND_GATEWAY, sn_collected_at = ge_taken ge, sn_payload = payload,
      sn_error = e, sn_advice = advice\<rparr>"

definition gateway_poll ::
    "(json \<Rightarrow> string) \<Rightarrow> gateway_env \<Rightarrow> gateway_poller \<Rightarrow>
     (gateway_tick_exn + snapshot) \<times> gateway_poller \<times> effect list" where
  "gateway_poll sh ge p =
     (case list_backends (ge_list ge) False (gp_client p) of
        (Inl e, c, eff) \<Rightarrow>
          (Inr (gateway_snapshot ge (JObj []) (Some (exn_text e)) (Some (exn_advice e))),
           p\<lparr>gp_client := c, gp_next_due := ge_resched ge + gp_interval p\<rparr>, eff)
      | (Inr backends, c, eff) \<Rightarrow>
          (case join_backends sh backends (gp_clusters p) of
             Inl e \<Rightarrow> (Inl (RaisedByPython e), p\<lparr>gp_client := c\<rparr>, eff)
           | Inr j \<Rightarrow>
               (case get_routing_rules (ge_rules ge) c of
                  (Inl e, c1, eff1) \<Rightarrow> (Inl (RaisedByClient e), p\<lparr>gp_client := c1\<rparr>, eff @ eff1)
                | (Inr rules, c1, eff1) \<Rightarrow>
                    (case is_live (ge_live ge) c1 of
                       (live, c2, eff2) \<Rightarrow>
                         (Inr (gateway_snapshot ge
                            (JObj (join_json j @
                              [(''routing_rules'', case rules of None \<Rightarrow> JNull | Some rs \<Rightarrow> JList rs),
                               (''live'', JBool live)])) None None),
                          p\<lparr>gp_client := c2, gp_last_success := Some (ge_success ge),
                            gp_next_due := ge_resched ge + gp_interval p\<rparr>, eff @ eff1 @ eff2)))))"

record 'e gateway_ticked =
  gk_poller :: gateway_poller
  gk_repo :: "'e snapshot_repo"
  gk_produced :: "snapshot list"
  gk_raised :: "gateway_tick_exn option"
  gk_sent :: "effect list"

definition gateway_tick ::
    "(json \<Rightarrow> string) \<Rightarrow> gateway_env \<Rightarrow> gateway_poller \<Rightarrow> 'e snapshot_repo \<Rightarrow> 'e gateway_ticked" where
  "gateway_tick sh ge p repo =
     (if \<not> gateway_is_due (ge_due ge) p
      then \<lparr>gk_poller = p, gk_repo = repo, gk_produced = [], gk_raised = None, gk_sent = []\<rparr>
      else case gateway_poll sh ge p of
             (Inl e, p1, eff) \<Rightarrow>
               \<lparr>gk_poller = p1, gk_repo = repo, gk_produced = [], gk_raised = Some e, gk_sent = eff\<rparr>
           | (Inr s, p1, eff) \<Rightarrow>
               \<lparr>gk_poller = p1, gk_repo = (if ge_save_fails ge then repo else save_snapshot s repo),
                gk_produced = [s], gk_raised = None, gk_sent = eff\<rparr>)"

end
