(* ===== verification/FleetPoller.thy ===== *)
theory FleetPoller
  imports Poller Inventory
begin

text \<open>
  One cluster's nodes asked one by one (\<^verbatim>\<open>collector/fleet_poller.py\<close> and the reads of
  \<^verbatim>\<open>clients/node.py\<close>). What a node answers, and whether its address can be formed from the template, are
  inputs; a request to a node carries no credentials.
\<close>

definition KIND_FLEET :: string where "KIND_FLEET = ''fleet''"

section \<open>The node client\<close>

record node_client =
  nk_base_url :: string
  nk_verify_tls :: bool
  nk_connect_timeout :: rat
  nk_read_timeout :: rat

definition new_node_client :: "string \<Rightarrow> bool \<Rightarrow> node_client" where
  "new_node_client url tls =
     \<lparr>nk_base_url = rev (dropWhile (\<lambda>c. c = CHR ''/'') (rev url)), nk_verify_tls = tls, nk_connect_timeout = 2,
      nk_read_timeout = 4\<rparr>"

definition node_get :: "node_client \<Rightarrow> string \<Rightarrow> http_request" where
  "node_get c path =
     \<lparr>rq_method = ''GET'', rq_url = nk_base_url c @ path, rq_headers = [], rq_body = None,
      rq_connect_timeout = nk_connect_timeout c, rq_read_timeout = nk_read_timeout c,
      rq_verify_tls = nk_verify_tls c\<rparr>"

text \<open>A result is the text of the TrinoClientError or the value.\<close>

definition node_json ::
    "(bytes \<Rightarrow> string + json) \<Rightarrow> (http_request \<Rightarrow> string + http_response) \<Rightarrow> node_client \<Rightarrow> string \<Rightarrow>
     string + json" where
  "node_json loads reply c path =
     (case reply (node_get c path) of
        Inl e \<Rightarrow> Inl (nk_base_url c @ path @ '': '' @ e)
      | Inr resp \<Rightarrow>
          (if rs_status resp \<ge> 400 then Inl (path @ '' returned '' @ show_int (rs_status resp))
           else case loads (rs_body resp) of
                  Inl _ \<Rightarrow> Inl (path @ '' returned invalid JSON'')
                | Inr j \<Rightarrow> Inr j))"

definition node_info ::
    "(bytes \<Rightarrow> string + json) \<Rightarrow> (http_request \<Rightarrow> string + http_response) \<Rightarrow> node_client \<Rightarrow> string + json pydict" where
  "node_info loads reply c =
     (case node_json loads reply c ''/v1/info'' of
        Inl e \<Rightarrow> Inl e
      | Inr j \<Rightarrow> (case fields_of j of None \<Rightarrow> Inl ''/v1/info did not return an object'' | Some fs \<Rightarrow> Inr fs))"

definition node_state ::
    "(json \<Rightarrow> string) \<Rightarrow> (bytes \<Rightarrow> string + json) \<Rightarrow> (http_request \<Rightarrow> string + http_response) \<Rightarrow> node_client \<Rightarrow>
     string + string" where
  "node_state sh loads reply c = map_sum id (str_of sh) (node_json loads reply c ''/v1/info/state'')"

section \<open>The record of a node\<close>

record node_record =
  nd_node :: node
  nd_reachable :: bool
  nd_error :: "string option"
  nd_id :: json
  nd_state :: json
  nd_version :: json
  nd_environment :: json
  nd_uptime :: json
  nd_coordinator :: json
  nd_starting :: json

definition version_of :: "json \<Rightarrow> json" where
  "version_of v = (case fields_of v of Some fs \<Rightarrow> dget ''version'' fs | None \<Rightarrow> v)"

definition node_record_of :: "node \<Rightarrow> string + json pydict \<Rightarrow> node_record" where
  "node_record_of n reply =
     (case reply of
        Inl e \<Rightarrow>
          \<lparr>nd_node = n, nd_reachable = False, nd_error = Some e, nd_id = JNull, nd_state = JNull, nd_version = JNull,
           nd_environment = JNull, nd_uptime = JNull, nd_coordinator = JNull, nd_starting = JNull\<rparr>
      | Inr info \<Rightarrow>
          \<lparr>nd_node = n, nd_reachable = True, nd_error = None, nd_id = dget ''nodeId'' info,
           nd_state = dget ''state'' info, nd_version = version_of (dget ''nodeVersion'' info),
           nd_environment = dget ''environment'' info, nd_uptime = dget ''uptime'' info,
           nd_coordinator = dget ''coordinator'' info, nd_starting = dget ''starting'' info\<rparr>)"

definition node_record_json :: "node_record \<Rightarrow> json" where
  "node_record_json r =
     JObj [(''host'', JStr (node_host (nd_node r))), (''address'', JStr (node_address (nd_node r))),
           (''role'', JStr (node_role (nd_node r))), (''cluster'', JStr (node_cluster (nd_node r))),
           (''reachable'', JBool (nd_reachable r)),
           (''error'', case nd_error r of None \<Rightarrow> JNull | Some e \<Rightarrow> JStr e), (''node_id'', nd_id r),
           (''state'', nd_state r), (''version'', nd_version r), (''environment'', nd_environment r),
           (''uptime'', nd_uptime r), (''coordinator'', nd_coordinator r), (''starting'', nd_starting r)]"

section \<open>What the nodes disagree about\<close>

text \<open>\<open>sorted({...})\<close> of the true values of a field: members have to be hashable, and texts to be joined.
  Anything else than text raises; a single number is not sorted but cannot be joined either, and is only
  counted when it is alone.\<close>

definition distinct_texts :: "json list \<Rightarrow> py_exn + string list" where
  "distinct_texts vs =
     (let ts = remdups (map (\<lambda>v. case num_or_bool v of Some x \<Rightarrow> JNum x | None \<Rightarrow> v) (filter truthy vs))
      in if list_all is_text ts
         then Inr (sort_by id (map (\<lambda>v. case v of JStr s \<Rightarrow> s | _ \<Rightarrow> []) ts))
         else case ts of
                [v] \<Rightarrow> (case v of JList _ \<Rightarrow> Inl TypeError | JObj _ \<Rightarrow> Inl TypeError | _ \<Rightarrow> Inr [[]])
              | _ \<Rightarrow> Inl TypeError)"

datatype fleet_note =
    MixedVersions "string list"
  | MixedEnvironments "string list"
  | SeveralCoordinators "string list"
  | NotTheCoordinator string

definition disagreements :: "node_record list \<Rightarrow> py_exn + fleet_note list" where
  "disagreements rs =
     (let live = filter nd_reachable rs
      in case distinct_texts (map nd_version live) of
           Inl e \<Rightarrow> Inl e
         | Inr versions \<Rightarrow>
             (case distinct_texts (map nd_environment live) of
                Inl e \<Rightarrow> Inl e
              | Inr environments \<Rightarrow>
                  (let claimed = filter (\<lambda>r. truthy (nd_coordinator r)) live
                   in Inr ((if length versions > 1 then [MixedVersions versions] else []) @
                           (if length environments > 1 then [MixedEnvironments environments] else []) @
                           (if length claimed > 1
                            then [SeveralCoordinators (sort_by id (map (node_host \<circ> nd_node) claimed))] else []) @
                           map (\<lambda>r. NotTheCoordinator (node_host (nd_node r)))
                             (filter (\<lambda>r. node_role (nd_node r) = ROLE_COORDINATOR \<and> nd_reachable r \<and>
                                nd_coordinator r = JBool False) rs)))))"

fun note_text :: "fleet_note \<Rightarrow> string" where
  "note_text (MixedVersions vs) = ''Mixed Trino versions in this cluster: '' @ join '', '' vs @ ''.''"
| "note_text (MixedEnvironments es) =
     ''Nodes disagree about node.environment ('' @ join '', '' es @
     ''). Nodes in different environments do not join the same cluster.''"
| "note_text (SeveralCoordinators hs) = ''More than one node reports being the coordinator: '' @ join '', '' hs @ ''.''"
| "note_text (NotTheCoordinator h) =
     h @ '' is listed as the coordinator in the inventory but reports that it is a worker.''"

section \<open>A tick\<close>

record fleet_poller =
  fp_cluster :: string
  fp_nodes :: "node list"
  fp_url :: "string \<Rightarrow> string \<Rightarrow> string + string"     \<comment> \<open>the template: address, host\<close>
  fp_interval :: rat
  fp_verify_tls :: bool

record fleet_poll_env =
  pe_loads :: "bytes \<Rightarrow> string + json"
  pe_answer :: "node \<Rightarrow> http_request \<Rightarrow> string + http_response"
  pe_taken :: rat
  pe_save_fails :: bool

datatype fleet_poll_exn = NotesRaised py_exn | FleetSaveFailed

definition ask_node :: "fleet_poller \<Rightarrow> fleet_poll_env \<Rightarrow> node \<Rightarrow> node_record" where
  "ask_node p pe n =
     node_record_of n
       (case fp_url p (node_address n) (node_host n) of
          Inl e \<Rightarrow> Inl e
        | Inr url \<Rightarrow> node_info (pe_loads pe) (pe_answer pe n) (new_node_client url (fp_verify_tls p)))"

definition fleet_summary :: "node_record list \<Rightarrow> (string \<times> json) list" where
  "fleet_summary rs =
     (let reachable = filter nd_reachable rs
      in [(''total'', JNum (of_nat (length rs))), (''reachable'', JNum (of_nat (length reachable))),
          (''unreachable'', JNum (of_nat (length rs) - of_nat (length reachable))),
          (''workers'', JNum (of_nat (length (filter (\<lambda>r. node_role (nd_node r) = ROLE_WORKER) rs)))),
          (''shutting_down'', JNum (of_nat (length (filter (\<lambda>r. nd_state r = JStr ''SHUTTING_DOWN'') reachable))))])"

definition fleet_snapshot ::
    "fleet_poller \<Rightarrow> rat \<Rightarrow> json pydict \<Rightarrow> node_record list \<Rightarrow> fleet_note list \<Rightarrow> snapshot" where
  "fleet_snapshot p now counts rs notes =
     \<lparr>sn_cluster = fp_cluster p, sn_kind = KIND_FLEET, sn_collected_at = now,
      sn_payload = JObj [(''nodes'', JList (map node_record_json rs)), (''summary'', JObj (fleet_summary rs)),
        (''node_counts'', JObj counts), (''notes'', JList (map (JStr \<circ> note_text) notes)),
        (''inventory_size'', JNum (of_nat (length (fp_nodes p))))],
      sn_error = (if fp_nodes p = [] then Some ''No nodes in the inventory for this cluster.'' else None),
      sn_advice = (if fp_nodes p = []
        then Some ''Check fleet.inventories - TMS reads the [coordinator] and [workers] sections of the Ansible inventory file.''
        else None)\<rparr>"

definition fleet_tick ::
    "fleet_poll_env \<Rightarrow> json pydict \<Rightarrow> fleet_poller \<Rightarrow> 'e snapshot_repo \<Rightarrow>
     (fleet_poll_exn + snapshot) \<times> 'e snapshot_repo" where
  "fleet_tick pe counts p repo =
     (let rs = map (ask_node p pe) (fp_nodes p)
      in case disagreements rs of
           Inl e \<Rightarrow> (Inl (NotesRaised e), repo)
         | Inr notes \<Rightarrow>
             (let s = fleet_snapshot p (pe_taken pe) counts rs notes
              in if pe_save_fails pe then (Inl FleetSaveFailed, repo) else (Inr s, save_snapshot s repo)))"

section \<open>One node does not blank the others\<close>

text \<open>A node that does not answer is listed, as unreachable and with nothing guessed; and it never keeps the
  snapshot from being written.\<close>

lemma ask_node_cases:
  obtains (silent) e where "ask_node p pe n = node_record_of n (Inl e)"
  | (answered) fs where "ask_node p pe n = node_record_of n (Inr fs)"
  by (cases "case fp_url p (node_address n) (node_host n) of
          Inl e \<Rightarrow> Inl e
        | Inr url \<Rightarrow> node_info (pe_loads pe) (pe_answer pe n) (new_node_client url (fp_verify_tls p))")
    (auto simp: ask_node_def)

lemma ask_node_node [simp]: "nd_node (ask_node p pe n) = n"
  by (cases rule: ask_node_cases [of p pe n]) (simp_all add: node_record_of_def)

lemma silent_record:
  "\<not> nd_reachable (ask_node p pe n) \<Longrightarrow>
     nd_error (ask_node p pe n) \<noteq> None \<and> nd_state (ask_node p pe n) = JNull \<and> nd_version (ask_node p pe n) = JNull"
  by (cases rule: ask_node_cases [of p pe n]) (simp_all add: node_record_of_def)

text \<open>What a node is recorded as depends on its own answer alone.\<close>

lemma ask_node_own:
  assumes "pe_loads pe1 = pe_loads pe2" "pe_answer pe1 n = pe_answer pe2 n"
  shows "ask_node p pe1 n = ask_node p pe2 n"
  using assms by (simp add: ask_node_def split: sum.split)

lemma distinct_texts_error:
  "distinct_texts vs = Inl e \<Longrightarrow> \<exists>v\<in>set vs. truthy v \<and> \<not> is_text v"
proof (rule ccontr)
  assume err: "distinct_texts vs = Inl e" and no: "\<not> ?thesis"
  have "is_text (case num_or_bool v of Some x \<Rightarrow> JNum x | None \<Rightarrow> v)" if "v \<in> set vs" "truthy v" for v
  proof -
    have "is_text v" using that no by blast
    then show ?thesis by (cases v) (simp_all add: is_text_def)
  qed
  then show False using err by (auto simp: distinct_texts_def Let_def list_all_iff split: if_splits)
qed

text \<open>A tick lists every node of the inventory, in its order, as what that node itself answered; the only
  answers that keep it from being stored are versions and environments that are no texts.\<close>

theorem one_node_blanks_nobody:
  "case fleet_tick (pe\<lparr>pe_save_fails := False\<rparr>) counts p repo of
     (Inl e, repo') \<Rightarrow>
       repo' = repo \<and>
       list_ex (\<lambda>n. let r = ask_node p pe n
         in nd_reachable r \<and> list_ex (\<lambda>v. truthy v \<and> \<not> is_text v) [nd_version r, nd_environment r])
         (fp_nodes p)
   | (Inr s, repo') \<Rightarrow>
       load_snapshot (fp_cluster p) KIND_FLEET repo' = Some s \<and>
       (case fields_of (sn_payload s) of
          None \<Rightarrow> False
        | Some fs \<Rightarrow> dget ''nodes'' fs = JList (map (node_record_json \<circ> ask_node p pe) (fp_nodes p)))"
proof -
  have ask: "ask_node p (pe\<lparr>pe_save_fails := False\<rparr>) = ask_node p pe" by (rule ext, rule ask_node_own) simp_all
  let ?rs = "map (ask_node p pe) (fp_nodes p)"
  show ?thesis
  proof (cases "disagreements ?rs")
    case (Inl e)
    then consider e' where "distinct_texts (map nd_version (filter nd_reachable ?rs)) = Inl e'"
      | e' where "distinct_texts (map nd_environment (filter nd_reachable ?rs)) = Inl e'"
      by (auto simp: disagreements_def Let_def split: sum.splits)
    then have "\<exists>n\<in>set (fp_nodes p). let r = ask_node p pe n
        in nd_reachable r \<and> list_ex (\<lambda>v. truthy v \<and> \<not> is_text v) [nd_version r, nd_environment r]"
      by cases (drule distinct_texts_error, force simp: Let_def)+
    then show ?thesis using Inl by (simp add: fleet_tick_def ask list_ex_iff Let_def)
  next
    case (Inr said)
    let ?s = "fleet_snapshot p (pe_taken pe) counts ?rs said"
    have "load_snapshot (fp_cluster p) KIND_FLEET (save_snapshot ?s repo) = Some ?s"
      using load_after_save [of ?s repo] by (simp add: fleet_snapshot_def)
    then show ?thesis using Inr by (simp add: fleet_tick_def ask Let_def) (simp add: fleet_snapshot_def dget_def)
  qed
qed

text \<open>One worker whose version is a number keeps the whole fleet from being stored.\<close>

definition odd_answer :: "node \<Rightarrow> http_request \<Rightarrow> string + http_response" where
  "odd_answer n rq = Inr \<lparr>rs_status = 200, rs_body = (if node_host n = ''w1'' then [1] else [2]), rs_elapsed = 0\<rparr>"

lemma odd_version_blanks_the_fleet:
  "fst (fleet_tick
     \<lparr>pe_loads = (\<lambda>b. Inr (JObj [(''nodeVersion'', if b = [1] then JNum 477 else JStr ''477'')])), pe_answer = odd_answer,
      pe_taken = 0, pe_save_fails = False\<rparr> []
     \<lparr>fp_cluster = ''a'', fp_nodes = [\<lparr>node_host = ''w1'', node_role = ROLE_WORKER, node_cluster = ''a'', node_variables = []\<rparr>,
        \<lparr>node_host = ''w2'', node_role = ROLE_WORKER, node_cluster = ''a'', node_variables = []\<rparr>],
      fp_url = (\<lambda>address host. Inr (''http://'' @ address)), fp_interval = 60, fp_verify_tls = True\<rparr>
     \<lparr>snapshots = [], health_events = [], overrides = []\<rparr>) = Inl (NotesRaised TypeError)"
  by code_simp

end
