(* ===== verification/CollectorService.thy ===== *)
theory CollectorService
  imports HealthWriter GatewayPoller FleetPoller
begin

text \<open>
  One pass of the collector's loop (\<^verbatim>\<open>collector/main.py\<close>): every cluster's tick with its health, the
  Gateway, the nodes of every cluster, and the time to sleep. An exception of one part is logged and the
  pass goes on; a stop can be requested between any two parts, and is looked at where the code looks.
\<close>

section \<open>State\<close>

record 'c watched =
  wa_config :: poller_config
  wa_ops :: "'c client_ops"
  wa_poller :: "'c poller"

record 'c collector =
  co_watched :: "'c watched list"
  co_gateway :: "gateway_poller option"
  co_fleet :: "fleet_poller list"
  co_fleet_due :: rat
  co_health :: "health_writer option"
  co_repo :: health_repo

text \<open>\<open>pa_stop = Some n\<close>: a stop was requested before the flag is looked at for the n-th time.\<close>

record pass_env =
  pa_stop :: "nat option"
  pa_tick :: "string \<Rightarrow> tick_env"
  pa_health :: "string \<Rightarrow> health_env"
  pa_expected :: "(string \<times> int) list option"
  pa_overrides_fail :: "string \<Rightarrow> bool"
  pa_gateway_load_fails :: "string \<Rightarrow> bool"
  pa_gateway :: gateway_env
  pa_fleet_now :: rat
  pa_fleet :: "string \<Rightarrow> fleet_poll_env"
  pa_counts_fail :: "string \<Rightarrow> bool"
  pa_sleep_now :: rat

definition stop_seen :: "pass_env \<Rightarrow> nat \<Rightarrow> bool" where
  "stop_seen pa i \<longleftrightarrow> (case pa_stop pa of None \<Rightarrow> False | Some n \<Rightarrow> n \<le> i)"

section \<open>Health of one cluster\<close>

definition expected_workers :: "pass_env \<Rightarrow> string \<Rightarrow> int" where
  "expected_workers pa c =
     (case pa_expected pa of None \<Rightarrow> 0 | Some cs \<Rightarrow> (case map_of cs c of None \<Rightarrow> 0 | Some n \<Rightarrow> n))"

text \<open>None is "could not be read", an empty list is "there are none".\<close>

definition gateway_backends :: "bool \<Rightarrow> bool \<Rightarrow> health_repo \<Rightarrow> json list option" where
  "gateway_backends has_poller load_fails repo =
     (if \<not> has_poller \<or> load_fails then None
      else case load_snapshot GATEWAY_SCOPE KIND_GATEWAY repo of
             None \<Rightarrow> None
           | Some s \<Rightarrow>
               (if sn_error s \<noteq> None \<and> sn_error s \<noteq> Some [] then None
                else case fields_of (sn_payload s) of None \<Rightarrow> None | Some fs \<Rightarrow> list_of (dget ''backends'' fs)))"

definition evaluate_health ::
    "(sentence \<Rightarrow> string) \<Rightarrow> pass_env \<Rightarrow> bool \<Rightarrow> string \<Rightarrow> health_writer option \<Rightarrow> health_repo \<Rightarrow>
     health_writer option \<times> health_repo" where
  "evaluate_health say pa has_gateway c writer repo =
     (case writer of
        None \<Rightarrow> (None, repo)
      | Some hw \<Rightarrow>
          (let ovs = (if pa_overrides_fail pa c then [] else overrides_of repo c)
           in case write_health say (pa_health pa c) c (expected_workers pa c)
                     (gateway_backends has_gateway (pa_gateway_load_fails pa c) repo) ovs hw repo of
                (_, hw', repo') \<Rightarrow> (Some hw', repo')))"

section \<open>The clusters\<close>

definition watch_one ::
    "(json \<Rightarrow> string) \<Rightarrow> (sentence \<Rightarrow> string) \<Rightarrow> pass_env \<Rightarrow> bool \<Rightarrow> 'c watched \<Rightarrow> health_writer option \<Rightarrow> health_repo \<Rightarrow>
     'c watched \<times> health_writer option \<times> health_repo" where
  "watch_one sh say pa has_gateway w writer repo =
     (let c = pc_cluster (wa_config w);
          tk = tick sh (wa_config w) (wa_ops w) (pa_tick pa c) (wa_poller w) repo;
          w' = w\<lparr>wa_poller := tk_poller tk\<rparr>
      in if tk_raised tk \<noteq> None \<or> tk_produced tk = [] then (w', writer, tk_repo tk)
         else (w', evaluate_health say pa has_gateway c writer (tk_repo tk)))"

text \<open>The result carries how often the flag was looked at.\<close>

fun watch_all ::
    "(json \<Rightarrow> string) \<Rightarrow> (sentence \<Rightarrow> string) \<Rightarrow> pass_env \<Rightarrow> bool \<Rightarrow> nat \<Rightarrow> 'c watched list \<Rightarrow> health_writer option \<Rightarrow>
     health_repo \<Rightarrow> nat \<times> 'c watched list \<times> health_writer option \<times> health_repo" where
  "watch_all sh say pa gw i [] writer repo = (i, [], writer, repo)"
| "watch_all sh say pa gw i (w # ws) writer repo =
     (if stop_seen pa i then (i + 1, w # ws, writer, repo)
      else case watch_one sh say pa gw w writer repo of
             (w', writer', repo') \<Rightarrow>
               (case watch_all sh say pa gw (i + 1) ws writer' repo' of
                  (i', ws', rest) \<Rightarrow> (i', w' # ws', rest)))"

section \<open>The nodes\<close>

definition node_counts_json :: "bool \<Rightarrow> string \<Rightarrow> health_repo \<Rightarrow> py_exn + json pydict" where
  "node_counts_json load_fails c repo =
     (if load_fails then Inr []
      else case or_dict (case load_snapshot c KIND_JMX repo of None \<Rightarrow> JNull | Some s \<Rightarrow> sn_payload s) of
             Inl e \<Rightarrow> Inl e
           | Inr fs \<Rightarrow>
               (case or_dict (dget ''mbeans'' fs) of
                  Inl e \<Rightarrow> Inl e
                | Inr beans \<Rightarrow>
                    (case or_dict (dget ''trino.node:name=CoordinatorNodeManager'' beans) of
                       Inl e \<Rightarrow> Inl e
                     | Inr manager \<Rightarrow> Inr (filter (\<lambda>(k, v). ends_with k ''NodeCount'') manager))))"

fun poll_nodes :: "pass_env \<Rightarrow> nat \<Rightarrow> fleet_poller list \<Rightarrow> health_repo \<Rightarrow> nat \<times> health_repo" where
  "poll_nodes pa i [] repo = (i, repo)"
| "poll_nodes pa i (p # ps) repo =
     (if stop_seen pa i then (i + 1, repo)
      else let c = fp_cluster p
           in case node_counts_json (pa_counts_fail pa c) c repo of
                Inl _ \<Rightarrow> poll_nodes pa (i + 1) ps repo
              | Inr counts \<Rightarrow> poll_nodes pa (i + 1) ps (snd (fleet_tick (pa_fleet pa c) counts p repo)))"

definition poll_fleet :: "pass_env \<Rightarrow> nat \<Rightarrow> 'c collector \<Rightarrow> nat \<times> 'c collector" where
  "poll_fleet pa i co =
     (if co_fleet co = [] then (i, co)
      else if stop_seen pa i then (i + 1, co)
      else if pa_fleet_now pa < co_fleet_due co then (i + 1, co)
      else case poll_nodes pa (i + 1) (co_fleet co) (co_repo co) of
             (i', repo) \<Rightarrow>
               (i', co\<lparr>co_fleet_due := pa_fleet_now pa + max (Min (fp_interval ` set (co_fleet co))) 5,
                       co_repo := repo\<rparr>))"

section \<open>A pass\<close>

definition poll_gateway :: "(json \<Rightarrow> string) \<Rightarrow> pass_env \<Rightarrow> nat \<Rightarrow> 'c collector \<Rightarrow> nat \<times> 'c collector" where
  "poll_gateway sh pa i co =
     (case co_gateway co of
        None \<Rightarrow> (i, co)
      | Some gp \<Rightarrow>
          (if stop_seen pa i then (i + 1, co)
           else let g = gateway_tick sh (pa_gateway pa) gp (co_repo co)
                in (i + 1, co\<lparr>co_gateway := Some (gk_poller g), co_repo := gk_repo g\<rparr>)))"

definition MIN_TICK_SLEEP_SECONDS :: rat where "MIN_TICK_SLEEP_SECONDS = 1/5"

definition sleep_for :: "rat \<Rightarrow> 'c collector \<Rightarrow> rat" where
  "sleep_for now co =
     (if co_watched co = [] then 1
      else max MIN_TICK_SLEEP_SECONDS (Min ((\<lambda>w. seconds_until_next_due now (wa_poller w)) ` set (co_watched co))))"

definition watch_clusters ::
    "(json \<Rightarrow> string) \<Rightarrow> (sentence \<Rightarrow> string) \<Rightarrow> pass_env \<Rightarrow> nat \<Rightarrow> 'c collector \<Rightarrow> nat \<times> 'c collector" where
  "watch_clusters sh say pa i co =
     (case watch_all sh say pa (co_gateway co \<noteq> None) i (co_watched co) (co_health co) (co_repo co) of
        (i', ws, writer, repo) \<Rightarrow> (i', co\<lparr>co_watched := ws, co_health := writer, co_repo := repo\<rparr>))"

text \<open>The answer: the pause before the next pass, or None when the loop ends.\<close>

definition collector_pass ::
    "(json \<Rightarrow> string) \<Rightarrow> (sentence \<Rightarrow> string) \<Rightarrow> pass_env \<Rightarrow> 'c collector \<Rightarrow> rat option \<times> 'c collector" where
  "collector_pass sh say pa co =
     (if stop_seen pa 0 then (None, co)
      else case watch_clusters sh say pa 1 co of
             (i1, co1) \<Rightarrow>
               (case poll_gateway sh pa i1 co1 of
                  (i2, co2) \<Rightarrow>
                    (case poll_fleet pa i2 co2 of
                       (i3, co3) \<Rightarrow>
                         (if stop_seen pa i3 then (None, co3) else (Some (sleep_for (pa_sleep_now pa) co3), co3)))))"

fun run_collector ::
    "(json \<Rightarrow> string) \<Rightarrow> (sentence \<Rightarrow> string) \<Rightarrow> pass_env list \<Rightarrow> 'c collector \<Rightarrow> 'c collector" where
  "run_collector sh say [] co = co"
| "run_collector sh say (pa # pas) co =
     (case collector_pass sh say pa co of
        (None, co') \<Rightarrow> co'
      | (Some pause, co') \<Rightarrow> run_collector sh say pas co')"

end
