(* ===== verification/CollectorProps.thy ===== *)
theory CollectorProps
  imports CollectorService "HOL-Library.Multiset"
begin

text \<open>
  What the collector promises across its parts: clusters do not disturb each other, the Gateway page
  accounts for every backend, and the health verdict about the Gateway says what that page says.
\<close>

section \<open>Clusters do not disturb each other\<close>

lemma key_parts:
  assumes "CHR '':'' \<notin> set k1" "CHR '':'' \<notin> set k2" "snapshot_key c1 k1 = snapshot_key c2 k2"
  shows "c1 = c2 \<and> k1 = k2"
proof -
  have tail: "takeWhile (\<lambda>x. x \<noteq> CHR '':'') (rev (snapshot_key c k)) = rev k" if "CHR '':'' \<notin> set k" for c k
    using that by (auto simp: snapshot_key_def takeWhile_append)
  have "rev k1 = rev k2" using tail [OF assms(1), of c1] tail [OF assms(2), of c2] assms(3) by simp
  then show ?thesis using assms(3) by (simp add: snapshot_key_def)
qed

lemma poll_order_plain: "k \<in> set POLL_ORDER \<Longrightarrow> CHR '':'' \<notin> set k"
  by (auto simp: POLL_ORDER_def KIND_JMX_def KIND_QUERIES_def KIND_INFO_def KIND_RESOURCE_GROUPS_def)

definition same_for :: "string \<Rightarrow> 'e snapshot_repo \<Rightarrow> 'f snapshot_repo \<Rightarrow> bool" where
  "same_for c r1 r2 \<longleftrightarrow> list_all (\<lambda>k. load_snapshot c k r1 = load_snapshot c k r2) POLL_ORDER"

lemma same_for_refl [simp]: "same_for c r r"
  by (simp add: same_for_def list_all_iff)

lemma same_for_trans: "same_for c r1 r2 \<Longrightarrow> same_for c r2 r3 \<Longrightarrow> same_for c r1 r3"
  by (simp add: same_for_def list_all_iff)

lemma load_save:
  "load_snapshot c k (save_snapshot s r) =
     (if snapshot_key (sn_cluster s) (sn_kind s) = snapshot_key c k then Some s else load_snapshot c k r)"
  by (simp add: load_snapshot_def save_snapshot_def)

lemma same_for_save: "same_for c r1 r2 \<Longrightarrow> same_for c (save_snapshot s r1) (save_snapshot s r2)"
  by (auto simp: same_for_def list_all_iff load_save)

lemma save_other:
  assumes "sn_cluster s \<noteq> c \<or> sn_kind s \<notin> set POLL_ORDER" "CHR '':'' \<notin> set (sn_kind s)"
  shows "same_for c (save_snapshot s r) r"
proof -
  have "snapshot_key (sn_cluster s) (sn_kind s) \<noteq> snapshot_key c k" if "k \<in> set POLL_ORDER" for k
    using key_parts [OF assms(2) poll_order_plain [OF that]] assms(1) that by blast
  then show ?thesis by (simp add: same_for_def list_all_iff load_save)
qed

text \<open>A poll reads of the store what is its own cluster's, and makes a snapshot of its own cluster.\<close>

lemma poll_kind_same:
  assumes "same_for (pc_cluster cfg) r1 r2"
  shows "poll_kind sh cfg ops te r1 kind p = poll_kind sh cfg ops te r2 kind p"
proof -
  have "load_snapshot (pc_cluster cfg) KIND_JMX r1 = load_snapshot (pc_cluster cfg) KIND_JMX r2"
    using assms by (simp add: same_for_def list_all_iff POLL_ORDER_def)
  then show ?thesis by (simp add: poll_kind_def last_jmx_running_queries_def)
qed

lemma polled_own:
  assumes "poll_kind sh cfg ops te r kind p = (Inr s, p')"
  shows "sn_cluster s = pc_cluster cfg \<and> sn_kind s \<in> set POLL_ORDER"
  using assms
  by (auto simp: poll_kind_def poll_info_def poll_jmx_def poll_resource_groups_def poll_queries_def jmx_snapshot_def
      caught_def failed_snapshot_def snapshot_of_def POLL_ORDER_def Let_def
      split: if_splits sum.splits prod.splits)

definition tick_agrees :: "string \<Rightarrow> ('c, 'e) tick_state \<Rightarrow> ('c, 'f) tick_state \<Rightarrow> bool" where
  "tick_agrees c a b \<longleftrightarrow> tk_poller a = tk_poller b \<and> tk_produced a = tk_produced b \<and> tk_raised a = tk_raised b \<and>
     same_for c (tk_repo a) (tk_repo b)"

lemma tick_kinds_agree:
  "tick_agrees (pc_cluster cfg) a b \<Longrightarrow>
     tick_agrees (pc_cluster cfg) (tick_kinds sh cfg ops te kinds a) (tick_kinds sh cfg ops te kinds b)"
proof (induction kinds arbitrary: a b)
  case (Cons kind kinds)
  have eq: "poll_kind sh cfg ops te (tk_repo b) kind (tk_poller b) = poll_kind sh cfg ops te (tk_repo a) kind (tk_poller a)"
    using Cons.prems poll_kind_same by (metis tick_agrees_def)
  obtain x p where x: "poll_kind sh cfg ops te (tk_repo a) kind (tk_poller a) = (x, p)" by (rule prod.exhaust)
  show ?case
  proof (cases x)
    case (Inl e)
    then show ?thesis using Cons.prems x eq by (simp add: tick_agrees_def)
  next
    case (Inr s)
    show ?thesis
      using Cons.IH [of "a\<lparr>tk_poller := reschedule cfg (te_resched te kind) kind p,
            tk_repo := (if te_save_fails te kind then tk_repo a else save_snapshot s (tk_repo a)),
            tk_produced := tk_produced a @ [s]\<rparr>"
          "b\<lparr>tk_poller := reschedule cfg (te_resched te kind) kind p,
            tk_repo := (if te_save_fails te kind then tk_repo b else save_snapshot s (tk_repo b)),
            tk_produced := tk_produced b @ [s]\<rparr>"] Cons.prems x eq Inr
      by (simp add: tick_agrees_def same_for_save)
  qed
qed simp

lemma tick_agree:
  "same_for (pc_cluster cfg) r1 r2 \<Longrightarrow>
     tick_agrees (pc_cluster cfg) (tick sh cfg ops te p r1) (tick sh cfg ops te p r2)"
  unfolding tick_def by (rule tick_kinds_agree) (simp add: tick_agrees_def)

lemma tick_kinds_other:
  "c \<noteq> pc_cluster cfg \<Longrightarrow> same_for c (tk_repo (tick_kinds sh cfg ops te kinds st)) (tk_repo st)"
proof (induction kinds arbitrary: st)
  case (Cons kind kinds)
  obtain x p where x: "poll_kind sh cfg ops te (tk_repo st) kind (tk_poller st) = (x, p)" by (rule prod.exhaust)
  show ?case
  proof (cases x)
    case (Inr s)
    have "same_for c (save_snapshot s (tk_repo st)) (tk_repo st)"
      using polled_own [OF x [unfolded Inr]] Cons.prems poll_order_plain by (intro save_other) auto
    then show ?thesis
      using Cons.IH [OF Cons.prems, of "st\<lparr>tk_poller := reschedule cfg (te_resched te kind) kind p,
            tk_repo := (if te_save_fails te kind then tk_repo st else save_snapshot s (tk_repo st)),
            tk_produced := tk_produced st @ [s]\<rparr>"] x Inr
      by (auto intro: same_for_trans split: if_splits)
  qed (use x in simp)
qed simp

lemma tick_other: "c \<noteq> pc_cluster cfg \<Longrightarrow> same_for c (tk_repo (tick sh cfg ops te p repo)) repo"
  using tick_kinds_other [where cfg = cfg and c = c and st = "\<lparr>tk_poller = p, tk_repo = repo, tk_produced = [], tk_raised = None\<rparr>"]
  by (simp add: tick_def)

lemma write_health_other: "same_for c (snd (snd (write_health say he c' n bs ovs hw repo))) repo"
proof -
  have plain: "same_for c (save_snapshot s r) r" if "sn_kind s = KIND_HEALTH" for s and r :: health_repo
    using that by (intro save_other) (auto simp: POLL_ORDER_def KIND_HEALTH_def KIND_JMX_def KIND_QUERIES_def KIND_INFO_def
        KIND_RESOURCE_GROUPS_def)
  have events: "same_for c (record_health_events evs r) r" for evs and r :: health_repo
    by (simp add: same_for_def record_health_events_def load_snapshot_def list_all_iff)
  have both: "same_for c (save_snapshot s (record_health_events evs r)) r" if "sn_kind s = KIND_HEALTH"
    for s evs and r :: health_repo
    by (rule same_for_trans [OF plain [OF that] events])
  show ?thesis
    unfolding write_health_def Let_def by (simp add: events plain both split: prod.split)
qed

lemma evaluate_health_other: "same_for c (snd (evaluate_health say pa gw c' writer r)) r"
proof (cases writer)
  case (Some hw)
  obtain x hw' r' where run: "write_health say (pa_health pa c') c' (expected_workers pa c')
      (gateway_backends gw (pa_gateway_load_fails pa c') r)
      (if pa_overrides_fail pa c' then [] else overrides_of r c') hw r = (x, hw', r')" by (rule prod_cases3)
  have "same_for c r' r"
    using write_health_other [of c say "pa_health pa c'" c' "expected_workers pa c'"
        "gateway_backends gw (pa_gateway_load_fails pa c') r"
        "if pa_overrides_fail pa c' then [] else overrides_of r c'" hw r] by (simp only: run snd_conv)
  then show ?thesis by (simp only: evaluate_health_def Let_def Some option.case run prod.case snd_conv)
qed (simp add: evaluate_health_def)

definition alone :: "(json \<Rightarrow> string) \<Rightarrow> pass_env \<Rightarrow> 'c watched \<Rightarrow> health_repo \<Rightarrow> ('c, transition) tick_state" where
  "alone sh pa w repo =
     tick sh (wa_config w) (wa_ops w) (pa_tick pa (pc_cluster (wa_config w))) (wa_poller w) repo"

lemma watch_one_parts:
  assumes "watch_one sh say pa gw w writer repo = (w', writer', repo')"
  shows "w' = w\<lparr>wa_poller := tk_poller (alone sh pa w repo)\<rparr>" "same_for c repo' (tk_repo (alone sh pa w repo))"
proof -
  have "same_for c (snd (if ok then (writer, r) else evaluate_health say pa gw c' writer r)) r" for ok c' r
    by (simp add: evaluate_health_other)
  then show "w' = w\<lparr>wa_poller := tk_poller (alone sh pa w repo)\<rparr>" "same_for c repo' (tk_repo (alone sh pa w repo))"
    using assms evaluate_health_other [of c say pa gw "pc_cluster (wa_config w)" writer "tk_repo (alone sh pa w repo)"]
    by (auto simp: watch_one_def alone_def Let_def split: if_splits)
qed

text \<open>What a pass leaves of one cluster: its poller and its own snapshots.\<close>

definition left_by :: "('c, transition) tick_state \<Rightarrow> 'c watched \<Rightarrow> health_repo \<Rightarrow> bool" where
  "left_by st w repo \<longleftrightarrow> wa_poller w = tk_poller st \<and> same_for (pc_cluster (wa_config w)) repo (tk_repo st)"

definition cluster_of :: "'c watched \<Rightarrow> string" where
  "cluster_of w = pc_cluster (wa_config w)"

lemma watch_all_alone:
  assumes "pa_stop pa = None" "distinct (map cluster_of ws)"
    and "watch_all sh say pa gw i ws writer repo = (i', ws', writer', repo')"
    and "\<And>w. w \<in> set ws \<Longrightarrow> same_for (cluster_of w) repo repo0"
  shows "list_all2 (\<lambda>w w'. left_by (alone sh pa w repo0) w' repo' \<and> wa_config w' = wa_config w) ws ws' \<and>
     (\<forall>c. c \<notin> cluster_of ` set ws \<longrightarrow> same_for c repo' repo)"
  using assms(2-)
proof (induction ws arbitrary: i ws' writer repo)
  case (Cons w ws)
  obtain w1 writer1 repo1 where one: "watch_one sh say pa gw w writer repo = (w1, writer1, repo1)" by (rule prod_cases3)
  obtain i2 ws2 writer2 repo2 where rest: "watch_all sh say pa gw (i + 1) ws writer1 repo1 = (i2, ws2, writer2, repo2)"
    by (rule prod_cases4)
  have out: "ws' = w1 # ws2" "repo' = repo2" "i' = i2" "writer' = writer2"
    using Cons.prems(2) one rest assms(1) by (auto simp: stop_seen_def)
  have other: "same_for c repo1 repo" if "c \<noteq> cluster_of w" for c
    by (rule same_for_trans [OF watch_one_parts(2) [OF one]]) (use that tick_other in \<open>simp add: alone_def cluster_of_def\<close>)
  have "same_for (cluster_of v) repo1 repo0" if "v \<in> set ws" for v
  proof (rule same_for_trans)
    show "same_for (cluster_of v) repo1 repo" by (rule other) (use that Cons.prems(1) in \<open>force simp: image_iff\<close>)
    show "same_for (cluster_of v) repo repo0" using Cons.prems(3) that by simp
  qed
  then have IH: "list_all2 (\<lambda>w w'. left_by (alone sh pa w repo0) w' repo' \<and> wa_config w' = wa_config w) ws ws2"
      "\<And>c. c \<notin> cluster_of ` set ws \<Longrightarrow> same_for c repo' repo1"
    using Cons.IH [OF _ rest [folded out(2-)]] Cons.prems(1) by auto
  have "tick_agrees (cluster_of w) (alone sh pa w repo) (alone sh pa w repo0)"
    unfolding alone_def cluster_of_def by (rule tick_agree) (use Cons.prems(3) in \<open>simp add: cluster_of_def\<close>)
  moreover have "same_for (cluster_of w) repo' (tk_repo (alone sh pa w repo))"
    by (rule same_for_trans [OF IH(2) watch_one_parts(2) [OF one]]) (use Cons.prems(1) in auto)
  ultimately have "left_by (alone sh pa w repo0) w1 repo'"
    using watch_one_parts(1) [OF one] by (auto simp: left_by_def tick_agrees_def cluster_of_def intro: same_for_trans)
  moreover have "same_for c repo' repo" if "c \<notin> cluster_of ` set (w # ws)" for c
    by (rule same_for_trans [OF IH(2) other]) (use that in auto)
  ultimately show ?case using IH(1) out(1) watch_one_parts(1) [OF one] by simp
qed simp

text \<open>C33: Whatever happens to a cluster - its coordinator dead, its tick raising, its health unwritable - every other
  cluster is polled in the same pass, and comes out of it with the poller and the snapshots it would have
  if it were the only one.\<close>

theorem clusters_do_not_disturb_each_other:
  "case watch_all sh say (pa\<lparr>pa_stop := None\<rparr>) gw i ws writer repo of
     (i', ws', writer', repo') \<Rightarrow>
       (if distinct (map cluster_of ws)
        then list_all2 (\<lambda>w w'. left_by (alone sh (pa\<lparr>pa_stop := None\<rparr>) w repo) w' repo' \<and> wa_config w' = wa_config w) ws ws'
        else True)"
proof -
  obtain i' ws' writer' repo' where run: "watch_all sh say (pa\<lparr>pa_stop := None\<rparr>) gw i ws writer repo = (i', ws', writer', repo')"
    by (rule prod_cases4)
  show ?thesis using watch_all_alone [OF _ _ run] by (simp add: run)
qed

end
