(* ===== verification/GatewayProps.thy ===== *)
theory GatewayProps
  imports CollectorService "HOL-Library.Multiset"
begin

text \<open>
  The Gateway page and the health verdict about it: the join accounts for every backend and every cluster,
  H-08 says of a cluster what the page says, and a list that was not read is no alarm.
\<close>

section \<open>The join\<close>

lemma put_in_group_rows: "mset (concat (map snd (put_in_group r gs))) = add_mset r (mset (concat (map snd gs)))"
  by (induction r gs rule: put_in_group.induct) auto

lemma put_in_group_keys:
  "map fst (put_in_group r gs) =
     map fst gs @ (if dict_key (jb_group r) \<in> (dict_key \<circ> fst) ` set gs then [] else [jb_group r])"
  by (induction r gs rule: put_in_group.induct) auto

text \<open>The groups so far: one per key, none empty, each with members of its key.\<close>

definition of_key :: "json \<times> joined_backend list \<Rightarrow> bool" where
  "of_key g \<longleftrightarrow> snd g \<noteq> [] \<and> list_all (\<lambda>r. dict_key (jb_group r) = dict_key (fst g)) (snd g)"

definition grouped :: "(json \<times> joined_backend list) list \<Rightarrow> bool" where
  "grouped gs \<longleftrightarrow> distinct (map (dict_key \<circ> fst) gs) \<and> list_all of_key gs"

lemma put_of_key: "list_all of_key gs \<Longrightarrow> list_all of_key (put_in_group r gs)"
  by (induction r gs rule: put_in_group.induct) (auto simp: of_key_def)

lemma put_grouped: "grouped gs \<Longrightarrow> grouped (put_in_group r gs)"
proof -
  assume g: "grouped gs"
  have "map (dict_key \<circ> fst) (put_in_group r gs) = map dict_key (map fst (put_in_group r gs))" by simp
  also have "\<dots> = map (dict_key \<circ> fst) gs @
      (if dict_key (jb_group r) \<in> (dict_key \<circ> fst) ` set gs then [] else [dict_key (jb_group r)])"
    by (simp only: put_in_group_keys map_append) simp
  finally show ?thesis using g put_of_key [of gs r] by (simp add: grouped_def)
qed

lemma group_backends_inv:
  "group_backends rs gs = Inr gs' \<Longrightarrow> grouped gs \<Longrightarrow>
     grouped gs' \<and> mset (concat (map snd gs')) = mset (concat (map snd gs)) + mset rs"
proof (induction rs arbitrary: gs)
  case (Cons r rs)
  then show ?case
    using put_grouped [of gs r] by (cases "hashable (jb_group r)") (simp_all add: put_in_group_rows)
qed simp

lemma put_texts:
  "is_text (jb_group r) \<Longrightarrow> list_all (is_text \<circ> fst) gs \<Longrightarrow> list_all (is_text \<circ> fst) (put_in_group r gs)"
  by (induction r gs rule: put_in_group.induct) auto

lemma texts_group:
  "list_all (is_text \<circ> jb_group) rs \<Longrightarrow> list_all (is_text \<circ> fst) gs \<Longrightarrow>
     \<exists>gs'. group_backends rs gs = Inr gs' \<and> list_all (is_text \<circ> fst) gs'"
proof (induction rs arbitrary: gs)
  case (Cons r rs)
  have "hashable (jb_group r)" using Cons.prems(1) by (cases "jb_group r") (simp_all add: is_text_def)
  moreover have "list_all (is_text \<circ> fst) (put_in_group r gs)" by (rule put_texts) (use Cons.prems in \<open>simp_all add: comp_def\<close>)
  ultimately show ?case using Cons.IH [of "put_in_group r gs"] Cons.prems(1) by (simp add: comp_def)
qed simp

lemma texts_sort: "list_all (is_text \<circ> fst) gs \<Longrightarrow> sort_groups gs = Inr (sort_by (text_key \<circ> fst) gs)"
  by (simp add: sort_groups_def is_text_def [abs_def] case_prod_beta' comp_def)

lemma sort_by_mset: "mset (sort_by k xs) = mset xs"
proof -
  have ins: "mset (insert_sorted k x ys) = add_mset x (mset ys)" for x ys by (induction ys) auto
  show ?thesis by (induction xs) (simp_all add: ins)
qed

lemma sort_groups_mset: "sort_groups gs = Inr gs' \<Longrightarrow> mset gs' = mset gs"
  by (auto simp: sort_groups_def sort_by_mset split: if_splits)

lemma mset_concat_eq: "mset gs = mset gs' \<Longrightarrow> mset (concat (map snd gs)) = mset (concat (map snd gs'))"
  by (metis mset_concat mset_map sum_mset_sum_list)

lemma mset_grouped:
  assumes "mset gs = mset gs'" "grouped gs'"
  shows "grouped gs"
proof -
  have "mset (map (dict_key \<circ> fst) gs) = mset (map (dict_key \<circ> fst) gs')" using assms(1) by simp
  then show ?thesis
    using assms(2) mset_eq_imp_distinct_iff [of "map (dict_key \<circ> fst) gs" "map (dict_key \<circ> fst) gs'"]
      mset_eq_setD [OF assms(1)] by (simp add: grouped_def list_all_iff)
qed

lemma bg_backends_of [simp]: "bg_backends (group_of_rows g) = snd g"
  by (simp add: group_of_rows_def split: prod.split)

lemma join_parts:
  assumes "join_backends sh bs cs = Inr j"
  obtains groups ordered where "gj_backends j = map (join_row sh cs) bs"
    "group_backends (map (join_row sh cs) bs) [] = Inr groups" "sort_groups groups = Inr ordered"
    "gj_groups j = map group_of_rows ordered"
    "gj_unrouted j = map cc_name (filter (\<lambda>c. cc_name c \<notin> set (matched_clusters (map (join_row sh cs) bs))) cs)"
proof -
  obtain groups where g: "group_backends (map (join_row sh cs) bs) [] = Inr groups"
    using assms by (cases "group_backends (map (join_row sh cs) bs) []") (simp_all add: join_backends_def)
  obtain ordered where o: "sort_groups groups = Inr ordered"
    using assms g by (cases "sort_groups groups") (simp_all add: join_backends_def)
  have "j = \<lparr>gj_backends = map (join_row sh cs) bs, gj_groups = map group_of_rows ordered,
      gj_unmonitored = map jb_name (filter (\<lambda>r. jb_cluster r = None) (map (join_row sh cs) bs)),
      gj_unrouted = map cc_name (filter (\<lambda>c. cc_name c \<notin> set (matched_clusters (map (join_row sh cs) bs))) cs),
      gj_inactive = map jb_name (filter (\<lambda>r. \<not> jb_active r) (map (join_row sh cs) bs))\<rparr>"
    using assms g o by (simp add: join_backends_def Let_def)
  then show ?thesis by (intro that [OF _ g o]) simp_all
qed

lemma matched_iff:
  assumes "n \<noteq> []"
  shows "n \<in> set (matched_clusters rows) \<longleftrightarrow> list_ex (\<lambda>r. jb_cluster r = Some n) rows"
proof (induction rows)
  case (Cons r rows)
  then show ?case using assms by (cases "jb_cluster r") (auto simp: matched_clusters_def map_filter_simps)
qed (simp add: matched_clusters_def map_filter_simps)

lemma matched_not_empty: "[] \<notin> set (matched_clusters rows)"
proof (induction rows)
  case (Cons r rows)
  then show ?case by (cases "jb_cluster r") (auto simp: matched_clusters_def map_filter_simps)
qed (simp add: matched_clusters_def map_filter_simps)

text \<open>The page accounts for every backend once, in the one group of its routing group, and for every
  cluster: one is called unrouted exactly when no backend was matched to it. It fails only on a routing
  group that is no text.\<close>

theorem gateway_join_accounts_for_all:
  "case join_backends sh bs cs of
     Inl e \<Rightarrow> list_ex (\<lambda>b. truthy (dget ''routingGroup'' b) \<and> \<not> is_text (dget ''routingGroup'' b)) bs
   | Inr j \<Rightarrow>
       map jb_name (gj_backends j) = map (dget ''name'') bs \<and>
       mset (concat (map bg_backends (gj_groups j))) = mset (gj_backends j) \<and>
       distinct (map (dict_key \<circ> jb_group \<circ> hd \<circ> bg_backends) (gj_groups j)) \<and>
       list_all (\<lambda>g. bg_backends g \<noteq> [] \<and>
         list_all (\<lambda>r. dict_key (jb_group r) = dict_key (jb_group (hd (bg_backends g)))) (bg_backends g)) (gj_groups j) \<and>
       list_all (\<lambda>c. (cc_name c \<in> set (gj_unrouted j)) =
         (cc_name c = [] \<or> \<not> list_ex (\<lambda>r. jb_cluster r = Some (cc_name c)) (gj_backends j))) cs"
proof (cases "join_backends sh bs cs")
  case (Inl e)
  have "list_ex (\<lambda>b. truthy (dget ''routingGroup'' b) \<and> \<not> is_text (dget ''routingGroup'' b)) bs"
  proof (rule ccontr)
    assume "\<not> ?thesis"
    then have "list_all (is_text \<circ> jb_group) (map (join_row sh cs) bs)"
      by (auto simp: list_ex_iff list_all_iff join_row_def is_text_def split: prod.split)
    then obtain gs where gs: "group_backends (map (join_row sh cs) bs) [] = Inr gs" "list_all (is_text \<circ> fst) gs"
      using texts_group [of _ "[]"] by auto
    show False using Inl gs(1) texts_sort [OF gs(2)] by (simp add: join_backends_def Let_def)
  qed
  then show ?thesis using Inl by simp
next
  case (Inr j)
  obtain groups ordered where j: "gj_backends j = map (join_row sh cs) bs"
    "group_backends (map (join_row sh cs) bs) [] = Inr groups" "sort_groups groups = Inr ordered"
    "gj_groups j = map group_of_rows ordered"
    "gj_unrouted j = map cc_name (filter (\<lambda>c. cc_name c \<notin> set (matched_clusters (map (join_row sh cs) bs))) cs)"
    by (rule join_parts [OF Inr])
  have inv: "grouped groups" "mset (concat (map snd groups)) = mset (gj_backends j)"
    using group_backends_inv [OF j(2)] j(1) by (simp_all add: grouped_def)
  have ord: "grouped ordered" "mset (concat (map snd ordered)) = mset (gj_backends j)"
    using mset_grouped [OF sort_groups_mset [OF j(3)] inv(1)] mset_concat_eq [OF sort_groups_mset [OF j(3)]] inv(2)
    by simp_all
  have key: "snd g \<noteq> [] \<and> dict_key (jb_group (hd (snd g))) = dict_key (fst g)" if "g \<in> set ordered" for g
    using that ord(1) hd_in_set by (fastforce simp: grouped_def list_all_iff of_key_def)
  have names: "map jb_name (gj_backends j) = map (dget ''name'') bs"
    by (simp add: j(1) join_row_def split: prod.split)
  have one: "distinct (map (dict_key \<circ> jb_group \<circ> hd \<circ> bg_backends) (gj_groups j))"
  proof -
    have "map (dict_key \<circ> jb_group \<circ> hd \<circ> bg_backends) (gj_groups j) = map (dict_key \<circ> fst) ordered"
      using key by (simp add: j(4))
    then show ?thesis using ord(1) by (simp only: grouped_def)
  qed
  have own: "list_all (\<lambda>g. bg_backends g \<noteq> [] \<and>
      list_all (\<lambda>r. dict_key (jb_group r) = dict_key (jb_group (hd (bg_backends g)))) (bg_backends g)) (gj_groups j)"
    using ord(1) key by (simp add: j(4) list_all_iff grouped_def of_key_def)
  have unrouted: "list_all (\<lambda>c. (cc_name c \<in> set (gj_unrouted j)) =
      (cc_name c = [] \<or> \<not> list_ex (\<lambda>r. jb_cluster r = Some (cc_name c)) (gj_backends j))) cs"
  proof -
    have "(cc_name c \<in> set (gj_unrouted j)) = (cc_name c \<notin> set (matched_clusters (gj_backends j)))" if "c \<in> set cs" for c
      using that by (auto simp: j(1,5))
    moreover have "(n \<notin> set (matched_clusters rows)) = (n = [] \<or> \<not> list_ex (\<lambda>r. jb_cluster r = Some n) rows)" for n rows
      using matched_iff matched_not_empty by (cases "n = []") simp_all
    ultimately show ?thesis by (simp add: list_all_iff)
  qed
  show ?thesis using Inr names ord(2) one own unrouted by (simp add: j(4) comp_def)
qed

section \<open>The verdict about the Gateway\<close>

lemma joined_entry:
  "backend_entry c (map backend_json rows) = map_option (the \<circ> fields_of \<circ> backend_json) (find (\<lambda>r. jb_cluster r = Some c) rows)"
proof (induction rows)
  case (Cons r rows)
  then show ?case by (cases "jb_cluster r") (simp_all add: backend_json_def dget_def opt_text_def)
qed simp

lemma joined_active: "dget ''active'' (the (fields_of (backend_json r))) = JBool (jb_active r)"
  by (simp add: backend_json_def dget_def)

lemma h08_joined:
  "h08 (cx\<lparr>cx_cluster := c, cx_gateway_backends := Some (map backend_json rows)\<rparr>) =
     Some (case find (\<lambda>r. jb_cluster r = Some c) rows of
             None \<Rightarrow> result ''H-08'' BAD (ObsText ''not registered'') None (Said NotRegistered)
           | Some r \<Rightarrow> (if jb_active r then result ''H-08'' GOOD (ObsText ''active'') None NoAdvice
                       else result ''H-08'' CONCERNING (ObsText ''inactive'') None (Said Deactivated)))"
  by (simp add: h08_def joined_entry joined_active split: option.split)

definition payload_list :: "string \<Rightarrow> snapshot \<Rightarrow> json list" where
  "payload_list k s =
     (case fields_of (sn_payload s) of
        None \<Rightarrow> [] | Some fs \<Rightarrow> (case dget k fs of JList xs \<Rightarrow> xs | _ \<Rightarrow> []))"

lemma poll_cases:
  obtains (raised) e p' eff where "gateway_poll sh ge p = (Inl e, p', eff)"
  | (failed) e p' eff where "gateway_poll sh ge p = (Inr (gateway_snapshot ge (JObj []) (Some (exn_text e)) (Some (exn_advice e))), p', eff)"
  | (joined) bs j rest p' eff where "join_backends sh bs (gp_clusters p) = Inr j"
      "gateway_poll sh ge p = (Inr (gateway_snapshot ge (JObj (join_json j @ rest)) None None), p', eff)"
proof -
  obtain r c eff where l: "list_backends (ge_list ge) False (gp_client p) = (r, c, eff)" by (rule prod_cases3)
  show ?thesis
  proof (cases r)
    case (Inl e)
    show ?thesis by (rule failed) (simp add: gateway_poll_def l Inl)
  next
    case (Inr bs)
    show ?thesis
    proof (cases "join_backends sh bs (gp_clusters p)")
      case (Inl e)
      show ?thesis by (rule raised) (simp add: gateway_poll_def l Inr Inl)
    next
      case (Inr j)
      note listed = l [unfolded \<open>r = Inr bs\<close>] Inr
      obtain q c1 eff1 where u: "get_routing_rules (ge_rules ge) c = (q, c1, eff1)" by (rule prod_cases3)
      obtain live c2 eff2 where v: "is_live (ge_live ge) c1 = (live, c2, eff2)" by (rule prod_cases3)
      show ?thesis
      proof (cases q)
        case (Inl e)
        show ?thesis by (rule raised) (simp add: gateway_poll_def listed u Inl)
      next
        case (Inr rules)
        show ?thesis by (rule joined [OF listed(2)]) (simp add: gateway_poll_def listed u v Inr)
      qed
    qed
  qed
qed

lemma exn_text_ne [simp]: "exn_text e \<noteq> []"
  by (cases e) (simp_all add: exn_text_def)

text \<open>C32: The Gateway page and the health page agree: once a poll of the Gateway has been stored, H-08 of a
  configured cluster is BAD exactly when the page lists the cluster as unrouted, and UNKNOWN exactly when the
  page has no list to show.\<close>

theorem gateway_page_and_health_agree:
  "let g = gateway_tick sh (ge\<lparr>ge_save_fails := False\<rparr>) p repo
   in list_all (\<lambda>s. list_all (\<lambda>c.
        case h08 (cx\<lparr>cx_cluster := cc_name c, cx_gateway_backends := gateway_backends True False (gk_repo g)\<rparr>) of
          None \<Rightarrow> False
        | Some r \<Rightarrow>
            (hr_state r = HUNKNOWN) = (sn_error s \<noteq> None) \<and>
            (hr_state r = BAD) = (sn_error s = None \<and> JStr (cc_name c) \<in> set (payload_list ''unrouted_clusters'' s)))
        (filter (\<lambda>c. cc_name c \<noteq> []) (gp_clusters p))) (gk_produced g)"
proof -
  let ?ge = "ge\<lparr>ge_save_fails := False\<rparr>"
  have load: "load_snapshot GATEWAY_SCOPE KIND_GATEWAY (save_snapshot (gateway_snapshot ?ge f e a) repo) =
      Some (gateway_snapshot ?ge f e a)" for f e a
    using load_after_save [of "gateway_snapshot ?ge f e a" repo] by (simp add: gateway_snapshot_def)
  show ?thesis
  proof (cases "gateway_is_due (ge_due ge) p")
    case True
    show ?thesis
    proof (cases rule: poll_cases [of sh ?ge p])
      case (raised e p' eff)
      then show ?thesis using True by (simp add: gateway_tick_def)
    next
      case (failed e p' eff)
      define s where "s = gateway_snapshot ?ge (JObj []) (Some (exn_text e)) (Some (exn_advice e))"
      have s: "gateway_tick sh ?ge p repo = \<lparr>gk_poller = p', gk_repo = save_snapshot s repo, gk_produced = [s],
          gk_raised = None, gk_sent = eff\<rparr>"
        using True failed by (simp add: gateway_tick_def s_def)
      have "gateway_backends True False (save_snapshot s repo) = None"
        by (simp add: gateway_backends_def s_def load) (simp add: gateway_snapshot_def)
      moreover have "sn_error s \<noteq> None" by (simp add: s_def gateway_snapshot_def)
      ultimately show ?thesis by (simp add: s list_all_iff h08_def unknown_def result_def)
    next
      case (joined bs j rest p' eff)
      obtain groups ordered where j: "gj_backends j = map (join_row sh (gp_clusters p)) bs"
        "gj_unrouted j = map cc_name (filter (\<lambda>c. cc_name c \<notin> set (matched_clusters (map (join_row sh (gp_clusters p)) bs))) (gp_clusters p))"
        by (rule join_parts [OF joined(1)])
      define s where "s = gateway_snapshot ?ge (JObj (join_json j @ rest)) None None"
      have s: "gateway_tick sh ?ge p repo = \<lparr>gk_poller = p', gk_repo = save_snapshot s repo, gk_produced = [s],
          gk_raised = None, gk_sent = eff\<rparr>"
        using True joined(2) by (simp add: gateway_tick_def s_def)
      have "gateway_backends True False (save_snapshot s repo) = Some (map backend_json (gj_backends j))"
        by (simp add: gateway_backends_def s_def load) (simp add: gateway_snapshot_def join_json_def dget_def)
      moreover have "payload_list ''unrouted_clusters'' s = map JStr (gj_unrouted j)"
        by (simp add: payload_list_def s_def gateway_snapshot_def join_json_def dget_def)
      moreover have "(JStr (cc_name c) \<in> set (map JStr (gj_unrouted j))) =
          (find (\<lambda>r. jb_cluster r = Some (cc_name c)) (gj_backends j) = None)"
        if "c \<in> set (gp_clusters p)" "cc_name c \<noteq> []" for c
      proof -
        have "(JStr (cc_name c) \<in> set (map JStr (gj_unrouted j))) = (cc_name c \<in> set (gj_unrouted j))" by auto
        also have "\<dots> = (\<not> list_ex (\<lambda>r. jb_cluster r = Some (cc_name c)) (gj_backends j))"
          using that matched_iff [OF that(2)] by (auto simp: j)
        finally show ?thesis by (simp add: find_None_iff2 list_ex_iff)
      qed
      moreover have "sn_error s = None" by (simp add: s_def gateway_snapshot_def)
      ultimately show ?thesis
        by (simp add: s list_all_iff h08_joined) (auto simp: result_def split: option.split)
    qed
  qed (simp add: gateway_tick_def)
qed

text \<open>Routing rules that cannot be decoded are not "no rules": the exception leaves the poll, nothing is
  stored, and the poll is due again at once.\<close>

lemma undecodable_rules_stop_the_poll:
  assumes "list_backends (ge_list ge) False (gp_client p) = (Inr bs, c, eff)"
    and "join_backends sh bs (gp_clusters p) = Inr j"
    and "gateway_call (ge_rules ge) ''GET'' ROUTING_RULES None None (read_retries c) None c = (Inr resp, c1, eff1)"
    and "json_loads (ge_rules ge) (rs_body resp) = Inl e" "gateway_is_due (ge_due ge) p"
  shows "let g = gateway_tick sh ge p repo
    in gk_repo g = repo \<and> gk_produced g = [] \<and> gp_next_due (gk_poller g) = gp_next_due p \<and>
       gk_raised g = Some (RaisedByClient (ProtocolError (ROUTING_RULES @ '': invalid JSON ('' @ e @ '')'')))"
  using assms by (simp add: gateway_tick_def gateway_poll_def get_routing_rules_def parse_json_def)

end
