(* ===== verification/Board.thy ===== *)
theory Board
  imports Access Json
begin

text \<open>
  The work board: its vocabulary and views (\<^verbatim>\<open>work/items.py\<close>), the in-memory store (\<^verbatim>\<open>work/store.py\<close>), and the
  service (\<^verbatim>\<open>work/service.py\<close>) with the route that moves an item. Times are numbers. Each access of a request
  to the store may find it down; the text of the document that the board is exported to is not modelled.
\<close>

section \<open>Vocabulary\<close>

definition NEEDS_DECISION :: string where "NEEDS_DECISION = ''needs_decision''"
definition BLOCKED :: string where "BLOCKED = ''blocked''"
definition PLANNED :: string where "PLANNED = ''planned''"
definition IN_PROGRESS :: string where "IN_PROGRESS = ''in_progress''"
definition DONE :: string where "DONE = ''done''"
definition DROPPED :: string where "DROPPED = ''dropped''"

definition STATUS_ORDER :: "string list" where
  "STATUS_ORDER = [NEEDS_DECISION, BLOCKED, IN_PROGRESS, PLANNED, DONE, DROPPED]"

definition STATUS_LABELS :: "(string \<times> string) list" where
  "STATUS_LABELS =
     [(NEEDS_DECISION, ''Needs a decision''), (BLOCKED, ''Blocked''), (IN_PROGRESS, ''In progress''),
      (PLANNED, ''Planned''), (DONE, ''Done''), (DROPPED, ''Dropped'')]"

definition OPEN_STATUSES :: "string list" where
  "OPEN_STATUSES = [NEEDS_DECISION, BLOCKED, IN_PROGRESS, PLANNED]"

definition REQUEST :: string where "REQUEST = ''request''"

definition KIND_LABELS :: "(string \<times> string) list" where
  "KIND_LABELS = [(''decision'', ''Decision''), (''requirement'', ''Requirement''), (REQUEST, ''Request''), (''task'', ''Task'')]"

datatype work_item_exn = NotAKind string | NotAStatus string | NeedsTitle | NeedsKey

definition validate_item :: "string \<Rightarrow> string \<Rightarrow> string \<Rightarrow> string option \<Rightarrow> work_item_exn option" where
  "validate_item kind status title key =
     (if map_of KIND_LABELS kind = None then Some (NotAKind kind)
      else if map_of STATUS_LABELS status = None then Some (NotAStatus status)
      else if blank title then Some NeedsTitle
      else case key of None \<Rightarrow> None | Some k \<Rightarrow> (if blank k then Some NeedsKey else None))"

definition request_number :: "string \<Rightarrow> int option" where
  "request_number key =
     (if take 4 (lower key) = ''req-'' then py_int (drop 4 key) else None)"

definition next_request_key :: "string list \<Rightarrow> string" where
  "next_request_key keys =
     ''REQ-'' @ show_int (fold (\<lambda>k h. case request_number k of None \<Rightarrow> h | Some n \<Rightarrow> max h n) keys 0 + 1)"

section \<open>The store\<close>

record work_item =
  wi_id :: nat
  wi_key :: string
  wi_kind :: string
  wi_title :: string
  wi_status :: string
  wi_release :: "string option"
  wi_blocked_by :: "string option"
  wi_source_doc :: "string option"
  wi_body :: string
  wi_created_by :: string
  wi_created_at :: nat
  wi_updated_at :: nat

record item_comment =
  wc_author :: string
  wc_body :: string
  wc_at :: nat

record item_event =
  we_actor :: string
  we_from :: string
  we_to :: string
  we_at :: nat

record board =
  bd_items :: "work_item list"
  bd_comments :: "(nat \<times> item_comment list) list"
  bd_events :: "(nat \<times> item_event list) list"
  bd_next :: nat

definition new_board :: board where
  "new_board = \<lparr>bd_items = [], bd_comments = [], bd_events = [], bd_next = 1\<rparr>"

definition entries_of :: "nat \<Rightarrow> (nat \<times> 'a list) list \<Rightarrow> 'a list" where
  "entries_of i es = (case map_of es i of None \<Rightarrow> [] | Some xs \<Rightarrow> xs)"

definition list_items :: "string option \<Rightarrow> string option \<Rightarrow> board \<Rightarrow> work_item list" where
  "list_items kind status b =
     sort_by wi_status (sort_by wi_key
       (filter (\<lambda>i. (kind = None \<or> kind = Some (wi_kind i)) \<and> (status = None \<or> status = Some (wi_status i))) (bd_items b)))"

definition get_item :: "string \<Rightarrow> board \<Rightarrow> (work_item \<times> item_comment list \<times> item_event list) option" where
  "get_item key b =
     map_option (\<lambda>i. (i, entries_of (wi_id i) (bd_comments b), entries_of (wi_id i) (bd_events b)))
       (find (\<lambda>i. wi_key i = key) (bd_items b))"

definition create_item :: "work_item \<Rightarrow> nat \<Rightarrow> board \<Rightarrow> string + work_item \<times> board" where
  "create_item given now b =
     (if list_ex (\<lambda>i. wi_key i = wi_key given) (bd_items b) then Inl (wi_key given)
      else let item = given\<lparr>wi_id := bd_next b, wi_created_at := now, wi_updated_at := now\<rparr>
           in Inr (item, b\<lparr>bd_items := bd_items b @ [item], bd_comments := dset (bd_next b) [] (bd_comments b),
                           bd_events := dset (bd_next b) [] (bd_events b), bd_next := bd_next b + 1\<rparr>))"

record item_fields =
  if_title :: "string option"
  if_status :: "string option"
  if_release :: "string option"
  if_blocked_by :: "string option"
  if_body :: "string option"

definition no_fields :: item_fields where
  "no_fields = \<lparr>if_title = None, if_status = None, if_release = None, if_blocked_by = None, if_body = None\<rparr>"

definition or_old :: "'a option \<Rightarrow> 'a \<Rightarrow> 'a" where
  "or_old new old = (case new of None \<Rightarrow> old | Some x \<Rightarrow> x)"

definition changed_item :: "item_fields \<Rightarrow> nat \<Rightarrow> work_item \<Rightarrow> work_item" where
  "changed_item f now i =
     i\<lparr>wi_title := or_old (if_title f) (wi_title i), wi_status := or_old (if_status f) (wi_status i),
       wi_release := (if if_release f = None then wi_release i else if_release f),
       wi_blocked_by := (if if_blocked_by f = None then wi_blocked_by i else if_blocked_by f),
       wi_body := or_old (if_body f) (wi_body i), wi_updated_at := now\<rparr>"

fun update_first :: "('a \<Rightarrow> bool) \<Rightarrow> ('a \<Rightarrow> 'a) \<Rightarrow> 'a list \<Rightarrow> 'a list" where
  "update_first P f [] = []"
| "update_first P f (x # xs) = (if P x then f x # xs else x # update_first P f xs)"

definition update_item ::
    "string \<Rightarrow> string \<Rightarrow> item_fields \<Rightarrow> nat \<Rightarrow> nat \<Rightarrow> board \<Rightarrow> work_item option \<times> board" where
  "update_item key actor f now event_at b =
     (case find (\<lambda>i. wi_key i = key) (bd_items b) of
        None \<Rightarrow> (None, b)
      | Some i \<Rightarrow>
          (let i' = changed_item f now i;
               b' = b\<lparr>bd_items := update_first (\<lambda>i. wi_key i = key) (changed_item f now) (bd_items b)\<rparr>;
               e = \<lparr>we_actor = actor, we_from = wi_status i, we_to = wi_status i', we_at = event_at\<rparr>
           in (Some i',
               if wi_status i' \<noteq> wi_status i
               then b'\<lparr>bd_events := dset (wi_id i) (entries_of (wi_id i) (bd_events b) @ [e]) (bd_events b)\<rparr>
               else b')))"

definition add_comment :: "string \<Rightarrow> string \<Rightarrow> string \<Rightarrow> nat \<Rightarrow> board \<Rightarrow> item_comment option \<times> board" where
  "add_comment key author body now b =
     (case find (\<lambda>i. wi_key i = key) (bd_items b) of
        None \<Rightarrow> (None, b)
      | Some i \<Rightarrow>
          (let c = \<lparr>wc_author = author, wc_body = body, wc_at = now\<rparr>
           in (Some c, b\<lparr>bd_comments := dset (wi_id i) (entries_of (wi_id i) (bd_comments b) @ [c]) (bd_comments b)\<rparr>)))"

section \<open>Views\<close>

text \<open>The buckets start with the columns; what has another status gets one of its own, which is not shown.\<close>

definition buckets_of :: "work_item list \<Rightarrow> (string \<times> work_item list) list" where
  "buckets_of items =
     fold (\<lambda>i bs. dset (wi_status i) ((case map_of bs (wi_status i) of None \<Rightarrow> [] | Some xs \<Rightarrow> xs) @ [i]) bs)
       items (map (\<lambda>s. (s, [])) STATUS_ORDER)"

definition group_by_status :: "work_item list \<Rightarrow> (string \<times> work_item list) list" where
  "group_by_status items =
     map (\<lambda>s. (s, case map_of (buckets_of items) s of None \<Rightarrow> [] | Some xs \<Rightarrow> xs)) STATUS_ORDER"

record board_summary =
  bs_counts :: "(string \<times> nat) list"
  bs_open :: nat

definition summarise_items :: "work_item list \<Rightarrow> board_summary" where
  "summarise_items items =
     (let counts = map (\<lambda>s. (s, length (filter (\<lambda>i. wi_status i = s) items))) STATUS_ORDER
      in \<lparr>bs_counts = counts, bs_open = sum_list (map (\<lambda>s. or_old (map_of counts s) 0) OPEN_STATUSES)\<rparr>)"

datatype timeline_entry =
    TimelineComment nat string string
  | TimelineStatus nat string string string string string     \<comment> \<open>at, actor, from, to, their labels\<close>

fun entry_at :: "timeline_entry \<Rightarrow> nat" where
  "entry_at (TimelineComment t a c) = t"
| "entry_at (TimelineStatus t a f u fl ul) = t"

definition label_of :: "string \<Rightarrow> string" where
  "label_of s = or_old (map_of STATUS_LABELS s) s"

definition timeline :: "item_comment list \<Rightarrow> item_event list \<Rightarrow> timeline_entry list" where
  "timeline cs es =
     sort_key entry_at
       (map (\<lambda>c. TimelineComment (wc_at c) (wc_author c) (wc_body c)) cs @
        map (\<lambda>e. TimelineStatus (we_at e) (we_actor e) (we_from e) (we_to e) (label_of (we_from e)) (label_of (we_to e))) es)"

section \<open>The service\<close>

datatype board_message =
    NoBoardView | NoBoardAdmin | BoardDown string | NoSuchItem string | ItemSays work_item_exn
  | KeyExists string | EmptyComment | StatusUnknown string

type_synonym board_exn = "api_kind \<times> board_message"
type_synonym 'a board_op = "board \<Rightarrow> (board_exn + 'a) \<times> board"

record board_call =
  bc_down :: "nat \<Rightarrow> string option"     \<comment> \<open>what the k-th access of the request finds\<close>
  bc_now :: nat
  bc_event_at :: nat

definition down :: "board_call \<Rightarrow> nat \<Rightarrow> board_exn option" where
  "down bc k = map_option (\<lambda>e. (UpstreamUnavailable, BoardDown e)) (bc_down bc k)"

record board_view =
  bv_available :: bool
  bv_error :: "string option"
  bv_columns :: "(string \<times> work_item list) list"
  bv_summary :: "board_summary option"
  bv_kind :: "string option"

definition board_of :: "board_call \<Rightarrow> principal \<Rightarrow> string option \<Rightarrow> board \<Rightarrow> board_exn + board_view" where
  "board_of bc p kind b =
     (if \<not> can p VIEW_PORTAL then Inl (Forbidden, NoBoardView)
      else case bc_down bc 0 of
             Some e \<Rightarrow> Inr \<lparr>bv_available = False, bv_error = Some e, bv_columns = [], bv_summary = None, bv_kind = kind\<rparr>
           | None \<Rightarrow>
               (let items = list_items (if kind = Some [] then None else kind) None b
                in Inr \<lparr>bv_available = True, bv_error = None, bv_columns = group_by_status items,
                        bv_summary = Some (summarise_items items), bv_kind = kind\<rparr>))"

definition item_of ::
    "board_call \<Rightarrow> principal \<Rightarrow> string \<Rightarrow> board \<Rightarrow> board_exn + work_item \<times> timeline_entry list" where
  "item_of bc p key b =
     (if \<not> can p VIEW_PORTAL then Inl (Forbidden, NoBoardView)
      else case down bc 0 of
             Some e \<Rightarrow> Inl e
           | None \<Rightarrow>
               (case get_item key b of
                  None \<Rightarrow> Inl (NotFound, NoSuchItem key)
                | Some (i, cs, es) \<Rightarrow> Inr (i, timeline cs es)))"

definition requested_item :: "string \<Rightarrow> string \<Rightarrow> string \<Rightarrow> string \<Rightarrow> work_item" where
  "requested_item key title actor body =
     \<lparr>wi_id = 0, wi_key = key, wi_kind = REQUEST, wi_title = strip title, wi_status = PLANNED, wi_release = None,
      wi_blocked_by = None, wi_source_doc = None, wi_body = body, wi_created_by = actor, wi_created_at = 0,
      wi_updated_at = 0\<rparr>"

definition raise_request :: "board_call \<Rightarrow> principal \<Rightarrow> string \<Rightarrow> string \<Rightarrow> work_item board_op" where
  "raise_request bc p title body b =
     (if \<not> can p MANAGE_HEALTH then (Inl (Forbidden, NoBoardAdmin), b)
      else case validate_item REQUEST PLANNED title None of
             Some e \<Rightarrow> (Inl (InvalidRequest, ItemSays e), b)
           | None \<Rightarrow>
               (case down bc 0 of
                  Some e \<Rightarrow> (Inl e, b)
                | None \<Rightarrow>
                    (let key = next_request_key (map wi_key (bd_items b))
                     in case down bc 1 of
                          Some e \<Rightarrow> (Inl e, b)
                        | None \<Rightarrow>
                            (case create_item (requested_item key title (pr_username p) body) (bc_now bc) b of
                               Inl _ \<Rightarrow> (Inl (InvalidRequest, KeyExists key), b)
                             | Inr (i, b') \<Rightarrow> (Inr i, b')))))"

definition comment_item :: "board_call \<Rightarrow> principal \<Rightarrow> string \<Rightarrow> string \<Rightarrow> item_comment board_op" where
  "comment_item bc p key body b =
     (if \<not> can p MANAGE_HEALTH then (Inl (Forbidden, NoBoardAdmin), b)
      else if blank body then (Inl (InvalidRequest, EmptyComment), b)
      else case down bc 0 of
             Some e \<Rightarrow> (Inl e, b)
           | None \<Rightarrow>
               (case add_comment key (pr_username p) (strip body) (bc_now bc) b of
                  (None, b') \<Rightarrow> (Inl (NotFound, NoSuchItem key), b')
                | (Some c, b') \<Rightarrow> (Inr c, b')))"

definition edit_item :: "board_call \<Rightarrow> principal \<Rightarrow> string \<Rightarrow> item_fields \<Rightarrow> work_item board_op" where
  "edit_item bc p key f b =
     (if \<not> can p MANAGE_HEALTH then (Inl (Forbidden, NoBoardAdmin), b)
      else case down bc 0 of
             Some e \<Rightarrow> (Inl e, b)
           | None \<Rightarrow>
               (case update_item key (pr_username p) f (bc_now bc) (bc_event_at bc) b of
                  (None, b') \<Rightarrow> (Inl (NotFound, NoSuchItem key), b')
                | (Some i, b') \<Rightarrow> (Inr i, b')))"

definition set_status :: "board_call \<Rightarrow> principal \<Rightarrow> string \<Rightarrow> string \<Rightarrow> work_item board_op" where
  "set_status bc p key status b =
     (if \<not> can p MANAGE_HEALTH then (Inl (Forbidden, NoBoardAdmin), b)
      else if map_of STATUS_LABELS status = None then (Inl (InvalidRequest, StatusUnknown status), b)
      else edit_item bc p key (no_fields\<lparr>if_status := Some status\<rparr>) b)"

text \<open>The route: a note is stored as a comment first, then the item is moved.\<close>

definition move_item :: "board_call \<Rightarrow> board_call \<Rightarrow> principal \<Rightarrow> string \<Rightarrow> string \<Rightarrow> string \<Rightarrow> work_item board_op" where
  "move_item bc1 bc2 p key note status b =
     (if strip note = [] then set_status bc2 p key status b
      else case comment_item bc1 p key (strip note) b of
             (Inl e, b1) \<Rightarrow> (Inl e, b1)
           | (Inr _, b1) \<Rightarrow> set_status bc2 p key status b1)"

text \<open>Filling the board from the documents: what is there already is left alone.\<close>

fun seed_items :: "work_item list \<Rightarrow> nat \<Rightarrow> board \<Rightarrow> nat \<times> board" where
  "seed_items [] now b = (0, b)"
| "seed_items (i # is) now b =
     (case create_item i now b of
        Inl _ \<Rightarrow> seed_items is now b
      | Inr (_, b') \<Rightarrow> (case seed_items is now b' of (n, b'') \<Rightarrow> (n + 1, b'')))"

end
