(* ===== verification/BoardProps.thy ===== *)
theory BoardProps
  imports Board
begin

text \<open>
  What the board promises: it forgets nothing, every status an item has is reached by recorded moves, and a
  raised request gets a key of its own.
\<close>

section \<open>Keys\<close>

lemma request_number_own: "0 \<le> n \<Longrightarrow> request_number (''REQ-'' @ show_int n) = Some n"
proof -
  have "lower ''REQ-'' = ''req-''" by code_simp
  then have "take 4 (lower (''REQ-'' @ s)) = ''req-''" for s by (simp add: lower_def)
  then show "0 \<le> n \<Longrightarrow> ?thesis" by (simp add: request_number_def py_int_show)
qed

lemma fold_numbers:
  "h \<le> fold (\<lambda>k h. case request_number k of None \<Rightarrow> h | Some n \<Rightarrow> max h n) keys h \<and>
   (\<forall>k\<in>set keys. \<forall>n. request_number k = Some n \<longrightarrow>
      n \<le> fold (\<lambda>k h. case request_number k of None \<Rightarrow> h | Some n \<Rightarrow> max h n) keys h)"
proof (induction keys arbitrary: h)
  case (Cons k keys)
  show ?case
  proof (cases "request_number k")
    case None
    then show ?thesis using Cons.IH [of h] by auto
  next
    case (Some n)
    then show ?thesis using Cons.IH [of "max h n"] by auto
  qed
qed simp

lemma next_key_fresh: "next_request_key keys \<notin> set keys"
proof
  assume in_keys: "next_request_key keys \<in> set keys"
  define h where "h = fold (\<lambda>k h. case request_number k of None \<Rightarrow> h | Some n \<Rightarrow> max h n) keys 0"
  have "0 \<le> h" using fold_numbers [of 0 keys] by (simp add: h_def)
  then have "request_number (next_request_key keys) = Some (h + 1)"
    using request_number_own [of "h + 1"] by (simp add: next_request_key_def h_def)
  then have "h + 1 \<le> h" using fold_numbers [of 0 keys] in_keys unfolding h_def by blast
  then show False by simp
qed

section \<open>Requests\<close>

datatype board_event =
    Raised board_call principal string string
  | Commented board_call principal string string
  | Edited board_call principal string item_fields
  | Moved board_call board_call principal string string string
  | Seeded "work_item list" nat

fun board_step :: "board_event \<Rightarrow> board \<Rightarrow> board" where
  "board_step (Raised bc p title body) b = snd (raise_request bc p title body b)"
| "board_step (Commented bc p key body) b = snd (comment_item bc p key body b)"
| "board_step (Edited bc p key f) b = snd (edit_item bc p key f b)"
| "board_step (Moved bc1 bc2 p key note status) b = snd (move_item bc1 bc2 p key note status b)"
| "board_step (Seeded items now) b = snd (seed_items items now b)"

definition run_board :: "board_event list \<Rightarrow> board \<Rightarrow> board" where
  "run_board es b = fold board_step es b"

section \<open>What is kept\<close>

fun chain :: "string \<Rightarrow> item_event list \<Rightarrow> string \<Rightarrow> bool" where
  "chain s [] t \<longleftrightarrow> s = t"
| "chain s (e # es) t \<longleftrightarrow> we_from e = s \<and> we_to e \<noteq> s \<and> chain (we_to e) es t"

lemma chain_append: "chain s es t \<Longrightarrow> chain t fs u \<Longrightarrow> chain s (es @ fs) u"
  by (induction s es t rule: chain.induct) auto

definition same_item :: "work_item \<Rightarrow> work_item \<Rightarrow> bool" where
  "same_item i i' \<longleftrightarrow> wi_id i' = wi_id i \<and> wi_key i' = wi_key i \<and> wi_kind i' = wi_kind i \<and>
     wi_source_doc i' = wi_source_doc i \<and> wi_created_by i' = wi_created_by i \<and> wi_created_at i' = wi_created_at i"

definition kept_item :: "board \<Rightarrow> board \<Rightarrow> work_item \<Rightarrow> work_item \<Rightarrow> bool" where
  "kept_item b b' i i' \<longleftrightarrow> same_item i i' \<and>
     (\<exists>cs. entries_of (wi_id i) (bd_comments b') = entries_of (wi_id i) (bd_comments b) @ cs) \<and>
     (\<exists>es. entries_of (wi_id i) (bd_events b') = entries_of (wi_id i) (bd_events b) @ es \<and>
           chain (wi_status i) es (wi_status i'))"

definition kept :: "board \<Rightarrow> board \<Rightarrow> bool" where
  "kept b b' \<longleftrightarrow> (\<exists>xs ys. bd_items b' = xs @ ys \<and> list_all2 (kept_item b b') (bd_items b) xs)"

definition board_ok :: "board \<Rightarrow> bool" where
  "board_ok b \<longleftrightarrow> distinct (map wi_id (bd_items b)) \<and> distinct (map wi_key (bd_items b)) \<and>
     list_all (\<lambda>i. wi_id i < bd_next b) (bd_items b)"

lemma kept_item_refl: "kept_item b b i i"
  by (simp add: kept_item_def same_item_def)

lemma kept_refl: "kept b b"
  unfolding kept_def by (rule exI [of _ "bd_items b"], rule exI [of _ "[]"]) (simp add: list_all2_refl kept_item_refl)

lemma kept_item_trans: "kept_item a b i j \<Longrightarrow> kept_item b c j k \<Longrightarrow> kept_item a c i k"
proof -
  assume ab: "kept_item a b i j" and bc: "kept_item b c j k"
  have same: "same_item i j" "same_item j k" using ab bc by (simp_all add: kept_item_def)
  have id: "wi_id j = wi_id i" using same(1) by (simp add: same_item_def)
  obtain cs es where 1: "entries_of (wi_id i) (bd_comments b) = entries_of (wi_id i) (bd_comments a) @ cs"
    "entries_of (wi_id i) (bd_events b) = entries_of (wi_id i) (bd_events a) @ es" "chain (wi_status i) es (wi_status j)"
    using ab by (auto simp: kept_item_def)
  obtain cs' es' where 2: "entries_of (wi_id i) (bd_comments c) = entries_of (wi_id i) (bd_comments b) @ cs'"
    "entries_of (wi_id i) (bd_events c) = entries_of (wi_id i) (bd_events b) @ es'" "chain (wi_status j) es' (wi_status k)"
    using bc id by (auto simp: kept_item_def)
  have "same_item i k" using same by (simp add: same_item_def)
  then show "kept_item a c i k" using 1 2 chain_append [OF 1(3) 2(3)] by (simp add: kept_item_def)
qed

lemma kept_trans:
  assumes "kept a b" "kept b c"
  shows "kept a c"
proof -
  obtain xs ys where b: "bd_items b = xs @ ys" "list_all2 (kept_item a b) (bd_items a) xs"
    using assms(1) by (auto simp: kept_def)
  obtain us vs where c: "bd_items c = us @ vs" "list_all2 (kept_item b c) (xs @ ys) us"
    using assms(2) b(1) by (auto simp: kept_def)
  obtain us1 us2 where u: "us = us1 @ us2" "list_all2 (kept_item b c) xs us1"
    using c(2) by (auto simp: list_all2_append1)
  have "list_all2 (kept_item a c) (bd_items a) us1"
    by (rule list_all2_trans [OF _ b(2) u(2)]) (rule kept_item_trans)
  then show ?thesis using c(1) u(1) unfolding kept_def by auto
qed

section \<open>Each operation keeps\<close>

lemma create_ok:
  assumes "create_item given now b = Inr (i, b')" "board_ok b"
  shows "board_ok b'" "kept b b'"
proof -
  have b': "bd_items b' = bd_items b @ [i]" "wi_id i = bd_next b" "wi_key i = wi_key given" "bd_next b' = bd_next b + 1"
    "bd_comments b' = dset (bd_next b) [] (bd_comments b)" "bd_events b' = dset (bd_next b) [] (bd_events b)"
    "\<not> list_ex (\<lambda>i. wi_key i = wi_key given) (bd_items b)"
    using assms(1) by (auto simp: create_item_def Let_def split: if_splits)
  show "board_ok b'" using assms(2) b' by (auto simp: board_ok_def list_all_iff list_ex_iff)
  have "kept_item b b' j j" if "j \<in> set (bd_items b)" for j
  proof -
    have "wi_id j \<noteq> bd_next b" using assms(2) that by (auto simp: board_ok_def list_all_iff)
    then show ?thesis by (simp add: kept_item_def same_item_def b' entries_of_def)
  qed
  then show "kept b b'" unfolding kept_def
    by (intro exI [of _ "bd_items b"] exI [of _ "[i]"]) (auto simp: b'(1) intro: list.rel_refl_strong)
qed

lemma seed_ok: "board_ok b \<Longrightarrow> board_ok (snd (seed_items is now b)) \<and> kept b (snd (seed_items is now b))"
proof (induction "is" arbitrary: b)
  case (Cons i "is")
  show ?case
  proof (cases "create_item i now b")
    case (Inr r)
    obtain j b' where r: "r = (j, b')" by (cases r)
    have "board_ok b'" "kept b b'" using create_ok [OF Inr [unfolded r] Cons.prems] by simp_all
    then show ?thesis using Cons.IH [of b'] kept_trans Inr r by (auto split: prod.split)
  qed (use Cons in simp)
qed (simp add: kept_refl)

lemma update_first_map:
  "distinct (map k xs) \<Longrightarrow> update_first (\<lambda>x. k x = key) f xs = map (\<lambda>x. if k x = key then f x else x) xs"
proof (induction xs)
  case (Cons x xs)
  have "map (\<lambda>x. if k x = key then f x else x) xs = xs" if "k x = key"
    using that Cons.prems by (intro map_idI) (auto simp: image_iff)
  then show ?case using Cons by auto
qed simp

text \<open>A change of the one item with a key: what the others have stays.\<close>

lemma change_ok:
  assumes "board_ok b" "find (\<lambda>i. wi_key i = key) (bd_items b) = Some i"
    and items: "bd_items b' = map (\<lambda>x. if wi_key x = key then f x else x) (bd_items b)" "bd_next b' = bd_next b"
    and own: "kept_item b b' i (f i)"
    and others: "\<And>n. n \<noteq> wi_id i \<Longrightarrow> entries_of n (bd_comments b') = entries_of n (bd_comments b) \<and>
      entries_of n (bd_events b') = entries_of n (bd_events b)"
  shows "board_ok b' \<and> kept b b'"
proof -
  have i: "i \<in> set (bd_items b)" "wi_key i = key" using find_Some_set [OF assms(2)] by simp_all
  have unique: "j = i" if "j \<in> set (bd_items b)" "wi_key j = key" for j
    using that i assms(1) by (auto simp: board_ok_def distinct_map dest: inj_onD)
  have same: "wi_id (f i) = wi_id i" "wi_key (f i) = wi_key i" using own by (auto simp: kept_item_def same_item_def)
  have "map wi_id (bd_items b') = map wi_id (bd_items b)" "map wi_key (bd_items b') = map wi_key (bd_items b)"
    using unique same by (auto simp: items(1))
  moreover have "list_all (\<lambda>i. wi_id i < bd_next b') (bd_items b')"
    using assms(1) unique same by (auto simp: items board_ok_def list_all_iff)
  ultimately have "board_ok b'" using assms(1) by (simp add: board_ok_def)
  moreover have "kept_item b b' j (if wi_key j = key then f j else j)" if "j \<in> set (bd_items b)" for j
  proof (cases "wi_key j = key")
    case True
    then show ?thesis using unique [OF that] own by simp
  next
    case False
    have "wi_id j \<noteq> wi_id i"
      using that i False assms(1) by (auto simp: board_ok_def distinct_map dest: inj_onD)
    then show ?thesis using False others by (simp add: kept_item_def same_item_def)
  qed
  then have "list_all2 (kept_item b b') (bd_items b) (bd_items b')"
    unfolding items(1) list_all2_map2 by (rule list.rel_refl_strong)
  ultimately show ?thesis unfolding kept_def by auto
qed

lemma update_ok:
  assumes "board_ok b"
  shows "board_ok (snd (update_item key actor f now moved b)) \<and> kept b (snd (update_item key actor f now moved b))"
proof (cases "find (\<lambda>i. wi_key i = key) (bd_items b)")
  case (Some i)
  have keys: "distinct (map wi_key (bd_items b))" using assms by (simp add: board_ok_def)
  show ?thesis
    by (rule change_ok [OF assms Some, where f = "changed_item f now"])
      (simp_all add: update_item_def Some Let_def update_first_map [OF keys] kept_item_def same_item_def changed_item_def
        entries_of_def)
qed (simp add: update_item_def assms kept_refl)

lemma comment_ok:
  assumes "board_ok b"
  shows "board_ok (snd (add_comment key author body now b)) \<and> kept b (snd (add_comment key author body now b))"
proof (cases "find (\<lambda>i. wi_key i = key) (bd_items b)")
  case (Some i)
  show ?thesis
    by (rule change_ok [OF assms Some, where f = "\<lambda>x. x"])
      (simp_all add: add_comment_def Some Let_def kept_item_def same_item_def entries_of_def)
qed (simp add: add_comment_def assms kept_refl)

lemma edit_ok: "board_ok b \<Longrightarrow> board_ok (snd (edit_item bc p key f b)) \<and> kept b (snd (edit_item bc p key f b))"
  using update_ok [of b key "pr_username p" f "bc_now bc" "bc_event_at bc"]
  by (auto simp: edit_item_def kept_refl split: option.split prod.split)

lemma status_ok: "board_ok b \<Longrightarrow> board_ok (snd (set_status bc p key s b)) \<and> kept b (snd (set_status bc p key s b))"
  using edit_ok by (simp add: set_status_def kept_refl)

lemma comment_request_ok:
  "board_ok b \<Longrightarrow> board_ok (snd (comment_item bc p key body b)) \<and> kept b (snd (comment_item bc p key body b))"
  using comment_ok [of b key "pr_username p" "strip body" "bc_now bc"]
  by (auto simp: comment_item_def kept_refl split: option.split prod.split)

lemma move_ok:
  assumes "board_ok b"
  shows "board_ok (snd (move_item bc1 bc2 p key note s b)) \<and> kept b (snd (move_item bc1 bc2 p key note s b))"
proof (cases "strip note = []")
  case False
  obtain r b1 where c: "comment_item bc1 p key (strip note) b = (r, b1)" by (rule prod.exhaust)
  have "board_ok b1" "kept b b1" using comment_request_ok [OF assms, of bc1 p key "strip note"] c by simp_all
  then show ?thesis using False c status_ok kept_trans by (cases r) (auto simp: move_item_def)
qed (use status_ok [OF assms] in \<open>simp add: move_item_def\<close>)

lemma raise_ok:
  assumes "board_ok b"
  shows "board_ok (snd (raise_request bc p title body b)) \<and> kept b (snd (raise_request bc p title body b))"
proof -
  have "board_ok b' \<and> kept b b'" if "create_item g now b = Inr (i, b')" for g now i b'
    using create_ok [OF that assms] by simp
  then show ?thesis
    by (auto simp: raise_request_def Let_def assms kept_refl split: option.split sum.split prod.split)
qed

lemma step_ok: "board_ok b \<Longrightarrow> board_ok (board_step e b) \<and> kept b (board_step e b)"
  by (cases e) (simp_all add: raise_ok comment_request_ok edit_ok move_ok seed_ok)

lemma run_ok: "board_ok b \<Longrightarrow> board_ok (run_board es b) \<and> kept b (run_board es b)"
proof (induction es arbitrary: b)
  case (Cons e es)
  then show ?case using step_ok [of b e] kept_trans by (fastforce simp: run_board_def)
qed (simp add: run_board_def kept_refl)

lemma new_board_ok: "board_ok new_board"
  by (simp add: board_ok_def new_board_def)

text \<open>C27: The board forgets nothing: whatever requests follow, every item stays where it was, with its key, kind,
  document and author; its comments and its events are only added to; and the added events lead, move by
  move, from the status it had to the status it has.\<close>

theorem board_forgets_nothing:
  "let b = run_board es new_board; b' = run_board es' b
   in list_all2 (\<lambda>i i'.
        let old_c = entries_of (wi_id i) (bd_comments b); old_e = entries_of (wi_id i) (bd_events b);
            new_c = entries_of (wi_id i) (bd_comments b'); new_e = entries_of (wi_id i) (bd_events b')
        in same_item i i' \<and> take (length old_c) new_c = old_c \<and> take (length old_e) new_e = old_e \<and>
           chain (wi_status i) (drop (length old_e) new_e) (wi_status i'))
      (bd_items b) (take (length (bd_items b)) (bd_items b'))"
proof -
  let ?b = "run_board es new_board" let ?b' = "run_board es' ?b"
  have "kept ?b ?b'" using run_ok [OF new_board_ok, of es] run_ok [of ?b es'] by simp
  then obtain xs ys where x: "bd_items ?b' = xs @ ys" "list_all2 (kept_item ?b ?b') (bd_items ?b) xs"
    by (auto simp: kept_def)
  then have "take (length (bd_items ?b)) (bd_items ?b') = xs" using list_all2_lengthD by fastforce
  moreover have "list_all2 (\<lambda>i i'.
      let old_c = entries_of (wi_id i) (bd_comments ?b); old_e = entries_of (wi_id i) (bd_events ?b);
          new_c = entries_of (wi_id i) (bd_comments ?b'); new_e = entries_of (wi_id i) (bd_events ?b')
      in same_item i i' \<and> take (length old_c) new_c = old_c \<and> take (length old_e) new_e = old_e \<and>
         chain (wi_status i) (drop (length old_e) new_e) (wi_status i')) (bd_items ?b) xs"
    by (rule list_all2_mono [OF x(2)]) (auto simp: kept_item_def)
  ultimately show ?thesis by (simp only: Let_def)
qed

text \<open>A request that an administrator raises with a title, while the store answers, is always stored, under a
  key no item had, as the last item of the board.\<close>

theorem raised_request_is_stored:
  "case raise_request (bc\<lparr>bc_down := (\<lambda>k. None)\<rparr>) p title body b of
     (r, b') \<Rightarrow>
       (if can p MANAGE_HEALTH \<and> \<not> blank title
        then (case r of
                Inl e \<Rightarrow> False
              | Inr i \<Rightarrow> wi_key i \<notin> set (map wi_key (bd_items b)) \<and> bd_items b' = bd_items b @ [i] \<and>
                  wi_title i = strip title \<and> wi_created_by i = pr_username p \<and> wi_status i = PLANNED)
        else (case r of Inl e \<Rightarrow> b' = b | Inr i \<Rightarrow> False))"
proof -
  have fresh: "\<not> list_ex (\<lambda>i. wi_key i = next_request_key (map wi_key (bd_items b))) (bd_items b)"
    using next_key_fresh [of "map wi_key (bd_items b)"] by (auto simp: list_ex_iff image_iff)
  have known: "map_of KIND_LABELS REQUEST = Some ''Request''" "map_of STATUS_LABELS PLANNED = Some ''Planned''"
    by code_simp+
  show ?thesis
    using fresh known next_key_fresh [of "map wi_key (bd_items b)"]
    by (simp add: raise_request_def validate_item_def down_def create_item_def requested_item_def Let_def)
qed

text \<open>A move to a status that does not exist is refused, and its note stays on the item.\<close>

lemma refused_move_leaves_its_note:
  assumes "find (\<lambda>i. wi_key i = key) (bd_items b) = Some i" "can p MANAGE_HEALTH" "\<not> blank note"
    and "bc_down bc1 0 = None" "map_of STATUS_LABELS s = None"
  shows "fst (move_item bc1 bc2 p key note s b) = Inl (InvalidRequest, StatusUnknown s)"
    "entries_of (wi_id i) (bd_comments (snd (move_item bc1 bc2 p key note s b))) =
       entries_of (wi_id i) (bd_comments b) @ [\<lparr>wc_author = pr_username p, wc_body = strip note, wc_at = bc_now bc1\<rparr>]"
  using assms by (simp_all add: move_item_def comment_item_def down_def add_comment_def set_status_def Let_def entries_of_def)

section \<open>Columns\<close>

lemma bucket_of:
  "map_of (fold (\<lambda>i bs. dset (wi_status i) ((case map_of bs (wi_status i) of None \<Rightarrow> [] | Some xs \<Rightarrow> xs) @ [i]) bs) items bs) s =
     (case map_of bs s of
        None \<Rightarrow> (if filter (\<lambda>i. wi_status i = s) items = [] then None else Some (filter (\<lambda>i. wi_status i = s) items))
      | Some xs \<Rightarrow> Some (xs @ filter (\<lambda>i. wi_status i = s) items))"
  by (induction items arbitrary: bs) (auto split: option.splits)

lemma columns_show_items:
  "group_by_status items = map (\<lambda>s. (s, filter (\<lambda>i. wi_status i = s) items)) STATUS_ORDER"
proof -
  have "map_of (map (\<lambda>s. (s, [] :: work_item list)) STATUS_ORDER) s = Some []" if "s \<in> set STATUS_ORDER" for s
    using that by (auto simp: STATUS_ORDER_def)
  then have "(case map_of (buckets_of items) s of None \<Rightarrow> [] | Some xs \<Rightarrow> xs) = filter (\<lambda>i. wi_status i = s) items"
    if "s \<in> set STATUS_ORDER" for s using that by (simp add: buckets_of_def bucket_of)
  then show ?thesis unfolding group_by_status_def by (intro map_cong refl) simp
qed

end
