(* ===== verification/ServiceActions.thy ===== *)
theory ServiceActions
  imports HealthWriter AuditedService ConfigStore
begin

text \<open>
  What \<^verbatim>\<open>api/services.py\<close> changes: killing a query, the switches and thresholds of the health tests, the
  resource groups, and the export of the audit log. The world holds the audit store, the snapshot store
  with the overrides, the resource group tables, the coordinator clients and what was sent. Each request has
  its clock, its uuid and the outcome of every access as input. The details column of the audit records is
  not modelled.
\<close>

record api_world =
  aw_audit :: audit_repo
  aw_repo :: health_repo
  aw_tables :: tables
  aw_clients :: "(string \<times> trino_client) list"
  aw_sent :: "effect list"

record api_config =
  af_clusters :: "(string \<times> string option) list"     \<comment> \<open>name, node_environment\<close>
  af_store :: "store_config option"
  af_provider :: bool

record api_call =
  ai_now :: nat
  ai_uuid :: string
  ai_guard_uuid :: string
  ai_call :: call_env
  ai_override_fails :: "string option"
  ai_outage :: outage

datatype api_message =
    UnknownClusterNamed string | NoClientFor string | MayNotKill | NoSuchQuery string | ClientSays client_exn
  | NothingSpecified | MayNotChangeTests | MayNotChangeRollup | MayNotExport | RoleLacks capability
  | NoStoreRead | NoNodeEnvironment | ChangeRefused "finding list" | NothingToChange | RowMissing string string
  | GuardSaid audit_exn

datatype api_exn =
    ApiSays api_kind api_message
  | FromAudit audit_exn
  | FromClient client_exn
  | FromStore store_exn
  | FromRepository string

type_synonym 'a api_op = "api_world \<Rightarrow> (api_exn + 'a) \<times> api_world"

definition put_api_audit :: "audit_repo \<Rightarrow> api_world \<Rightarrow> api_world" where
  "put_api_audit au w = w\<lparr>aw_audit := au\<rparr>"

interpretation api_guard: audited_service aw_audit put_api_audit FromAudit
  by unfold_locales (simp_all add: put_api_audit_def)

definition api_audited :: "(api_exn \<Rightarrow> string) \<Rightarrow> api_call \<Rightarrow> audit_call \<Rightarrow> 'a api_op \<Rightarrow> 'a api_op" where
  "api_audited desc ev call body w =
     audited_in aw_audit put_api_audit FromAudit desc (ai_now ev) (ai_guard_uuid ev) call body w"

text \<open>The exceptions of the guard and of the client as the answers of the API; what is left goes on as it is.\<close>

definition api_answer :: "(client_exn \<Rightarrow> api_exn) \<Rightarrow> api_exn \<Rightarrow> api_exn" where
  "api_answer client e =
     (case e of
        FromAudit ReasonRequired \<Rightarrow> ApiSays ReasonRequiredError (GuardSaid ReasonRequired)
      | FromAudit AuditUnavailable \<Rightarrow> ApiSays AuditUnavailableError (GuardSaid AuditUnavailable)
      | FromClient c \<Rightarrow> client c
      | _ \<Rightarrow> e)"

definition answered :: "(client_exn \<Rightarrow> api_exn) \<Rightarrow> (api_exn + 'a) \<times> api_world \<Rightarrow> (api_exn + 'a) \<times> api_world" where
  "answered client rw = (map_sum (api_answer client) id (fst rw), snd rw)"

definition refused :: "api_call \<Rightarrow> audit_call \<Rightarrow> string \<Rightarrow> api_world \<Rightarrow> api_world" where
  "refused ev call text w = put_api_audit (snd (record_refusal (ai_now ev) (ai_guard_uuid ev) call text (aw_audit w))) w"

definition service_call ::
    "principal \<Rightarrow> string \<Rightarrow> string \<Rightarrow> string \<Rightarrow> string option \<Rightarrow> string option \<Rightarrow> string option \<Rightarrow> audit_call" where
  "service_call p action kind target c reason rid =
     \<lparr>ac_actor = pr_username p, ac_roles = pr_roles p, ac_action_type = action, ac_target_kind = kind,
      ac_target_id = target, ac_reason = reason, ac_target_cluster = c, ac_actor_ip = pr_ip p,
      ac_request_id = rid\<rparr>"

definition lacks :: "principal \<Rightarrow> string \<Rightarrow> string" where
  "lacks p capability = ''403: '' @ pr_username p @ '' lacks '' @ capability"

definition known_name :: "api_config \<Rightarrow> string \<Rightarrow> bool" where
  "known_name cfg c \<longleftrightarrow> c \<in> fst ` set (af_clusters cfg)"

section \<open>Killing a query\<close>

definition kill_body ::
    "api_call \<Rightarrow> principal \<Rightarrow> string \<Rightarrow> string \<Rightarrow> string option \<Rightarrow> string option \<Rightarrow> trino_client \<Rightarrow> string api_op" where
  "kill_body ev p c query_id reason rid client w =
     (let id = request_id_or (ai_guard_uuid ev) rid;
          clean = (case normalise_reason reason of Inl _ \<Rightarrow> [] | Inr r \<Rightarrow> r)
      in case kill_query (ai_call ev) query_id (build_kill_message (pr_username p) clean id) client of
           (r, client', eff) \<Rightarrow>
             (case r of Inl e \<Rightarrow> Inl (FromClient e) | Inr _ \<Rightarrow> Inr id,
              w\<lparr>aw_clients := dset c client' (aw_clients w), aw_sent := aw_sent w @ eff\<rparr>))"

definition kill_failed :: "string \<Rightarrow> client_exn \<Rightarrow> api_exn" where
  "kill_failed query_id e =
     (case e of MissingResource m \<Rightarrow> ApiSays NotFound (NoSuchQuery query_id)
      | _ \<Rightarrow> ApiSays UpstreamUnavailable (ClientSays e))"

definition request_kill ::
    "(api_exn \<Rightarrow> string) \<Rightarrow> api_config \<Rightarrow> api_call \<Rightarrow> principal \<Rightarrow> string \<Rightarrow> string \<Rightarrow> string option \<Rightarrow> string option \<Rightarrow>
     string api_op" where
  "request_kill desc cfg ev p c query_id reason rid w =
     (if \<not> known_name cfg c then (Inl (ApiSays NotFound (UnknownClusterNamed c)), w)
      else if \<not> can p KILL_QUERY
      then (Inl (ApiSays Forbidden MayNotKill),
            refused ev (service_call p ''QUERY_KILL'' ''query'' query_id (Some c) reason None) (lacks p ''kill_query'') w)
      else case map_of (aw_clients w) c of
             None \<Rightarrow> (Inl (ApiSays UpstreamUnavailable (NoClientFor c)), w)
           | Some client \<Rightarrow>
               answered (kill_failed query_id)
                 (api_audited desc ev (service_call p ''QUERY_KILL'' ''query'' query_id (Some c) reason rid)
                    (kill_body ev p c query_id reason rid client) w))"

text \<open>Detail of one query: the one read that calls a coordinator.\<close>

definition request_query ::
    "api_config \<Rightarrow> api_call \<Rightarrow> principal \<Rightarrow> string \<Rightarrow> string \<Rightarrow> json pydict api_op" where
  "request_query cfg ev p c query_id w =
     (if \<not> can p VIEW_QUERIES then (Inl (ApiSays Forbidden (RoleLacks VIEW_QUERIES)), w)
      else if \<not> known_name cfg c then (Inl (ApiSays NotFound (UnknownClusterNamed c)), w)
      else case map_of (aw_clients w) c of
             None \<Rightarrow> (Inl (ApiSays UpstreamUnavailable (NoClientFor c)), w)
           | Some client \<Rightarrow>
               (case get_query (ai_call ev) query_id client of
                  (r, client', eff) \<Rightarrow>
                    (map_sum (kill_failed query_id) id r,
                     w\<lparr>aw_clients := dset c client' (aw_clients w), aw_sent := aw_sent w @ eff\<rparr>)))"

section \<open>Health tests\<close>

definition override_body ::
    "api_call \<Rightarrow> principal \<Rightarrow> string \<Rightarrow> string \<Rightarrow> bool option \<Rightarrow> (string \<times> rat) list option \<Rightarrow> string option \<Rightarrow> string api_op" where
  "override_body ev p c test_id enabled thresholds rid w =
     (case ai_override_fails ev of
        Some e \<Rightarrow> (Inl (FromRepository e), w)
      | None \<Rightarrow> (Inr (request_id_or (ai_guard_uuid ev) rid),
                 w\<lparr>aw_repo := save_health_override c test_id enabled thresholds (pr_username p) (aw_repo w)\<rparr>))"

definition no_thresholds :: "(string \<times> rat) list option \<Rightarrow> bool" where
  "no_thresholds t \<longleftrightarrow> t = None \<or> t = Some []"

definition update_health_test ::
    "(api_exn \<Rightarrow> string) \<Rightarrow> api_config \<Rightarrow> api_call \<Rightarrow> principal \<Rightarrow> string \<Rightarrow> string \<Rightarrow> string option \<Rightarrow> bool option \<Rightarrow>
     (string \<times> rat) list option \<Rightarrow> string option \<Rightarrow> string api_op" where
  "update_health_test desc cfg ev p c test_id reason enabled thresholds rid w =
     (if \<not> known_name cfg c then (Inl (ApiSays NotFound (UnknownClusterNamed c)), w)
      else if enabled = None \<and> no_thresholds thresholds then (Inl (ApiSays InvalidRequest NothingSpecified), w)
      else let action = (if no_thresholds thresholds then ''HEALTH_TEST_TOGGLE'' else ''HEALTH_THRESHOLD_CHANGE'')
           in if \<not> can p MANAGE_HEALTH
              then (Inl (ApiSays Forbidden MayNotChangeTests),
                    refused ev (service_call p action ''health_test'' test_id (Some c) reason None)
                      (lacks p ''manage_health'') w)
              else answered FromClient
                     (api_audited desc ev (service_call p action ''health_test'' test_id (Some c) reason rid)
                        (override_body ev p c test_id enabled thresholds rid) w))"

definition update_health_rollup ::
    "(api_exn \<Rightarrow> string) \<Rightarrow> api_config \<Rightarrow> api_call \<Rightarrow> principal \<Rightarrow> string \<Rightarrow> bool \<Rightarrow> string option \<Rightarrow> string option \<Rightarrow>
     string api_op" where
  "update_health_rollup desc cfg ev p c enabled reason rid w =
     (if \<not> known_name cfg c then (Inl (ApiSays NotFound (UnknownClusterNamed c)), w)
      else if \<not> can p MANAGE_HEALTH
      then (Inl (ApiSays Forbidden MayNotChangeRollup),
            refused ev (service_call p ''HEALTH_ROLLUP_TOGGLE'' ''cluster'' c (Some c) reason None) (lacks p ''manage_health'') w)
      else answered FromClient
             (api_audited desc ev (service_call p ''HEALTH_ROLLUP_TOGGLE'' ''cluster'' c (Some c) reason rid)
                (override_body ev p c ROLLUP_KEY (Some enabled) None rid) w))"

section \<open>The audit log\<close>

definition MAX_PAGE_SIZE :: int where "MAX_PAGE_SIZE = 500"

text \<open>\<open>max(1, min(int(x or default), MAX_PAGE_SIZE))\<close>\<close>

definition page_limit :: "int \<Rightarrow> int option \<Rightarrow> int" where
  "page_limit dflt wanted =
     max 1 (min (case wanted of None \<Rightarrow> dflt | Some n \<Rightarrow> if n = 0 then dflt else n) MAX_PAGE_SIZE)"

definition search_audit ::
    "principal \<Rightarrow> audit_query \<Rightarrow> int option \<Rightarrow> api_world \<Rightarrow> api_exn + audit_record list" where
  "search_audit p q limit w =
     (if \<not> can p VIEW_AUDIT then Inl (ApiSays Forbidden (RoleLacks VIEW_AUDIT))
      else Inr (search (q\<lparr>q_limit := page_limit 100 limit\<rparr>) (aw_audit w)))"

definition export_body ::
    "api_call \<Rightarrow> audit_query \<Rightarrow> int option \<Rightarrow> string option \<Rightarrow> (audit_record list \<times> string) api_op" where
  "export_body ev q limit rid w =
     (Inr (search (q\<lparr>q_limit := page_limit MAX_PAGE_SIZE limit\<rparr>) (aw_audit w), request_id_or (ai_guard_uuid ev) rid), w)"

definition export_audit ::
    "(api_exn \<Rightarrow> string) \<Rightarrow> api_call \<Rightarrow> principal \<Rightarrow> string option \<Rightarrow> string option \<Rightarrow> audit_query \<Rightarrow> int option \<Rightarrow>
     (audit_record list \<times> string) api_op" where
  "export_audit desc ev p reason rid q limit w =
     (if \<not> can p EXPORT_AUDIT
      then (Inl (ApiSays Forbidden MayNotExport),
            refused ev (service_call p ''AUDIT_EXPORT'' ''cluster'' ''*'' None reason None) (lacks p ''export_audit'') w)
      else answered FromClient
             (api_audited desc ev (service_call p ''AUDIT_EXPORT'' ''cluster'' ''*'' None reason rid) (export_body ev q limit rid) w))"

section \<open>Resource groups\<close>

datatype group_change =
    UpdateGroup int "json pydict"
  | CreateGroup string "int option" "json pydict"
  | DeleteGroup int
  | CreateSelector int int "json pydict"
  | DeleteSelector int
  | RevertTo int

fun change_target :: "group_change \<Rightarrow> string" where
  "change_target (UpdateGroup i cells) = show_int i"
| "change_target (CreateGroup name parent cells) = name"
| "change_target (DeleteGroup i) = show_int i"
| "change_target (CreateSelector gid priority cells) = show_int gid"
| "change_target (DeleteSelector i) = show_int i"
| "change_target (RevertTo i) = show_int i"

fun change_action :: "group_change \<Rightarrow> string" where
  "change_action (RevertTo i) = ''RESOURCE_GROUP_REVERT''"
| "change_action _ = ''RESOURCE_GROUP_CHANGE''"

fun store_operation ::
    "store_config \<Rightarrow> outage \<Rightarrow> store_request \<Rightarrow> group_change \<Rightarrow> tables \<Rightarrow> (store_exn + change_result) \<times> tables" where
  "store_operation cfg out rq (UpdateGroup i cells) t = update_group cfg out rq i cells t"
| "store_operation cfg out rq (CreateGroup name parent cells) t = create_group cfg out rq name parent cells t"
| "store_operation cfg out rq (DeleteGroup i) t = delete_group cfg out rq i t"
| "store_operation cfg out rq (CreateSelector gid priority cells) t = create_selector cfg out rq gid priority cells t"
| "store_operation cfg out rq (DeleteSelector i) t = delete_selector cfg out rq i t"
| "store_operation cfg out rq (RevertTo i) t = revert cfg out rq i t"

definition store_of :: "api_config \<Rightarrow> string \<Rightarrow> api_exn + store_config \<times> string" where
  "store_of cfg c =
     (case map_of (af_clusters cfg) c of
        None \<Rightarrow> Inl (ApiSays NotFound (UnknownClusterNamed c))
      | Some env \<Rightarrow>
          (case af_store cfg of
             None \<Rightarrow> Inl (ApiSays UpstreamUnavailable NoStoreRead)
           | Some st \<Rightarrow>
               (case env of
                  None \<Rightarrow> Inl (ApiSays InvalidRequest NoNodeEnvironment)
                | Some e \<Rightarrow> (if e = [] then Inl (ApiSays InvalidRequest NoNodeEnvironment) else Inr (st, e)))))"

text \<open>\<open>ChangeRejected\<close> becomes a 400; what the driver raises is not caught.\<close>

definition store_refusal :: "store_exn \<Rightarrow> api_exn" where
  "store_refusal e =
     (case e of
        NothingChanged \<Rightarrow> ApiSays InvalidRequest NothingToChange
      | NoSuchRow i env \<Rightarrow> ApiSays InvalidRequest (RowMissing i env)
      | Blocked fs \<Rightarrow> ApiSays InvalidRequest (ChangeRefused fs)
      | DbError text \<Rightarrow> FromStore e)"

definition group_change_body ::
    "api_config \<Rightarrow> api_call \<Rightarrow> principal \<Rightarrow> store_config \<Rightarrow> string \<Rightarrow> string option \<Rightarrow> group_change \<Rightarrow>
     (int \<times> finding list) api_op" where
  "group_change_body cfg ev p st env reason ch w =
     (case store_operation st (ai_outage ev)
             \<lparr>er_env = env, er_actor = pr_username p, er_reason = (case reason of None \<Rightarrow> [] | Some r \<Rightarrow> r),
              er_request = ai_uuid ev, er_provider = af_provider cfg\<rparr> ch (aw_tables w) of
        (Inl e, t) \<Rightarrow> (Inl (store_refusal e), w\<lparr>aw_tables := t\<rparr>)
      | (Inr r, t) \<Rightarrow> (Inr (ch_revision r, ch_warnings r), w\<lparr>aw_tables := t\<rparr>))"

definition change_resource_group ::
    "(api_exn \<Rightarrow> string) \<Rightarrow> api_config \<Rightarrow> api_call \<Rightarrow> principal \<Rightarrow> string \<Rightarrow> string option \<Rightarrow> group_change \<Rightarrow>
     (int \<times> finding list) api_op" where
  "change_resource_group desc cfg ev p c reason ch w =
     (if \<not> can p MANAGE_HEALTH then (Inl (ApiSays Forbidden (RoleLacks MANAGE_HEALTH)), w)
      else case store_of cfg c of
             Inl e \<Rightarrow> (Inl e, w)
           | Inr (st, env) \<Rightarrow>
               answered FromClient
                 (api_audited desc ev
                    (service_call p (change_action ch) ''resource_group'' (change_target ch) (Some c) reason (Some (ai_uuid ev)))
                    (group_change_body cfg ev p st env reason ch) w))"

definition group_deletion_impact :: "api_config \<Rightarrow> api_call \<Rightarrow> principal \<Rightarrow> string \<Rightarrow> int \<Rightarrow> api_world \<Rightarrow> api_exn + impact" where
  "group_deletion_impact cfg ev p c i w =
     (if \<not> can p VIEW_HEALTH then Inl (ApiSays Forbidden (RoleLacks VIEW_HEALTH))
      else case store_of cfg c of
             Inl e \<Rightarrow> Inl e
           | Inr (st, env) \<Rightarrow> Inr (deletion_impact (ai_outage ev) env i (aw_tables w)))"

definition group_revisions :: "api_config \<Rightarrow> api_call \<Rightarrow> principal \<Rightarrow> string \<Rightarrow> nat \<Rightarrow> api_world \<Rightarrow> api_exn + revision list" where
  "group_revisions cfg ev p c limit w =
     (if \<not> can p VIEW_HEALTH then Inl (ApiSays Forbidden (RoleLacks VIEW_HEALTH))
      else case store_of cfg c of
             Inl e \<Rightarrow> Inl e
           | Inr (st, env) \<Rightarrow> Inr (revisions_of (ai_outage ev) env limit (aw_tables w)))"

end
