(* ===== verification/ActionProps.thy ===== *)
theory ActionProps
  imports ServiceActions
begin

text \<open>
  What the requests of \<^verbatim>\<open>api/services.py\<close> promise: nothing is sent to a coordinator and nothing is changed
  without its audit record, a refused attempt leaves one too, and the effect - or lack of one - of an
  override on the verdicts.
\<close>

section \<open>One request\<close>

datatype api_event =
    KillRequest principal string string "string option" "string option"
  | TestRequest principal string string "string option" "bool option" "(string \<times> rat) list option" "string option"
  | RollupRequest principal string bool "string option" "string option"
  | ExportRequest principal "string option" "string option" audit_query "int option"
  | GroupRequest principal string "string option" group_change

definition outcome_of :: "(api_exn + 'a) \<times> api_world \<Rightarrow> (api_exn + unit) \<times> api_world" where
  "outcome_of rw = (map_sum id (\<lambda>_. ()) (fst rw), snd rw)"

fun api_request ::
    "(api_exn \<Rightarrow> string) \<Rightarrow> api_config \<Rightarrow> api_call \<Rightarrow> api_event \<Rightarrow> unit api_op" where
  "api_request desc cfg ev (KillRequest p c q reason rid) w = outcome_of (request_kill desc cfg ev p c q reason rid w)"
| "api_request desc cfg ev (TestRequest p c t reason enabled th rid) w =
     outcome_of (update_health_test desc cfg ev p c t reason enabled th rid w)"
| "api_request desc cfg ev (RollupRequest p c enabled reason rid) w =
     outcome_of (update_health_rollup desc cfg ev p c enabled reason rid w)"
| "api_request desc cfg ev (ExportRequest p reason rid q limit) w = outcome_of (export_audit desc ev p reason rid q limit w)"
| "api_request desc cfg ev (GroupRequest p c reason ch) w = outcome_of (change_resource_group desc cfg ev p c reason ch w)"

fun event_principal :: "api_event \<Rightarrow> principal" where
  "event_principal (KillRequest p c q reason rid) = p"
| "event_principal (TestRequest p c t reason enabled th rid) = p"
| "event_principal (RollupRequest p c enabled reason rid) = p"
| "event_principal (ExportRequest p reason rid q limit) = p"
| "event_principal (GroupRequest p c reason ch) = p"

fun event_capability :: "api_event \<Rightarrow> capability" where
  "event_capability (KillRequest p c q reason rid) = KILL_QUERY"
| "event_capability (ExportRequest p reason rid q limit) = EXPORT_AUDIT"
| "event_capability _ = MANAGE_HEALTH"

fun event_reason :: "api_event \<Rightarrow> string option" where
  "event_reason (KillRequest p c q reason rid) = reason"
| "event_reason (TestRequest p c t reason enabled th rid) = reason"
| "event_reason (RollupRequest p c enabled reason rid) = reason"
| "event_reason (ExportRequest p reason rid q limit) = reason"
| "event_reason (GroupRequest p c reason ch) = reason"

fun event_target :: "api_event \<Rightarrow> string" where
  "event_target (KillRequest p c q reason rid) = q"
| "event_target (TestRequest p c t reason enabled th rid) = t"
| "event_target (RollupRequest p c enabled reason rid) = c"
| "event_target (ExportRequest p reason rid q limit) = ''*''"
| "event_target (GroupRequest p c reason ch) = change_target ch"

fun event_recorded_refusal :: "api_event \<Rightarrow> bool" where
  "event_recorded_refusal (GroupRequest p c reason ch) = False"
| "event_recorded_refusal _ = True"

text \<open>What a request did to the cluster, the overrides and the tables.\<close>

definition did_nothing :: "api_world \<Rightarrow> api_world \<Rightarrow> bool" where
  "did_nothing w w' \<longleftrightarrow> aw_sent w' = aw_sent w \<and> aw_repo w' = aw_repo w \<and> aw_tables w' = aw_tables w"

definition recorded_as :: "api_event \<Rightarrow> bool \<Rightarrow> audit_record \<Rightarrow> bool" where
  "recorded_as e success rec \<longleftrightarrow>
     aud_actor rec = pr_username (event_principal e) \<and> aud_target_id rec = event_target e \<and>
     normalise_reason (event_reason e) = Inr (aud_reason rec) \<and> aud_outcome rec = (if success then SUCCESS else FAILURE)"

text \<open>The shapes a request can have: refused before the guard, or run under it.\<close>

definition shaped :: "api_event \<Rightarrow> api_world \<Rightarrow> (api_exn + unit) \<times> api_world \<Rightarrow> bool" where
  "shaped e w rw \<longleftrightarrow>
     (case rw of (r, w') \<Rightarrow>
        did_nothing w w' \<and> (\<exists>x. r = Inl x) \<or>
        can (event_principal e) (event_capability e) \<and>
        (\<exists>rec. records (aw_audit w') = records (aw_audit w) @ [rec] \<and> recorded_as e (\<exists>x. r = Inr x) rec))"

lemma did_nothing_refl [simp]: "did_nothing w w"
  by (simp add: did_nothing_def)

lemma shaped_refused: "did_nothing w w' \<Longrightarrow> shaped e w (outcome_of (Inl x, w'))"
  by (simp add: shaped_def outcome_of_def)

lemma did_nothing_refused [simp]: "did_nothing w (refused ev call text w)"
  by (simp add: did_nothing_def refused_def put_api_audit_def)

lemma shaped_answered:
  "shaped e w (outcome_of rw) \<Longrightarrow> shaped e w (outcome_of (answered client rw))"
  by (cases rw; cases "fst rw") (auto simp: shaped_def outcome_of_def answered_def)

lemma shaped_audited:
  assumes "aw_audit (snd (body w)) = aw_audit w"
    and "can (event_principal e) (event_capability e)"
    and "ac_actor call = pr_username (event_principal e)" "ac_target_id call = event_target e" "ac_reason call = event_reason e"
  shows "shaped e w (outcome_of (api_audited desc ev call body w))"
proof -
  obtain r w' where run: "api_audited desc ev call body w = (r, w')" by (rule prod.exhaust)
  show ?thesis
    using run [unfolded api_audited_def] assms(1)
  proof (cases rule: api_guard.audited_cases)
    case (refused x)
    then show ?thesis using run by (simp add: shaped_refused)
  next
    case (ran wb au rec)
    have "recorded_as e (\<exists>x. r = Inr x) rec" using ran(5) assms(3-) by (simp add: recorded_as_def audit_entry_def)
    then show ?thesis using ran(4) run assms(2) by (cases r) (auto simp: shaped_def outcome_of_def)
  qed
qed

lemma bodies_keep_audit:
  "aw_audit (snd (kill_body ev p c q reason rid client w)) = aw_audit w"
  "aw_audit (snd (override_body ev p c t enabled th rid w)) = aw_audit w"
  "aw_audit (snd (export_body ev query limit rid w)) = aw_audit w"
  "aw_audit (snd (group_change_body cfg ev p st env reason ch w)) = aw_audit w"
  by (simp_all add: kill_body_def override_body_def export_body_def group_change_body_def Let_def
      split: prod.split option.split sum.split)

lemma request_shaped: "shaped e w (api_request desc cfg ev e w)"
proof (cases e)
  case (KillRequest p c q reason rid)
  then show ?thesis
    by (cases "known_name cfg c"; cases "can p KILL_QUERY"; cases "map_of (aw_clients w) c")
      (simp_all add: request_kill_def shaped_refused shaped_answered shaped_audited bodies_keep_audit service_call_def)
next
  case (TestRequest p c t reason enabled th rid)
  then show ?thesis
    by (cases "known_name cfg c"; cases "can p MANAGE_HEALTH"; cases "enabled = None \<and> no_thresholds th")
      (simp_all add: update_health_test_def Let_def shaped_refused shaped_answered shaped_audited bodies_keep_audit service_call_def)
next
  case (RollupRequest p c enabled reason rid)
  then show ?thesis
    by (cases "known_name cfg c"; cases "can p MANAGE_HEALTH")
      (simp_all add: update_health_rollup_def shaped_refused shaped_answered shaped_audited bodies_keep_audit service_call_def)
next
  case (ExportRequest p reason rid q limit)
  then show ?thesis
    by (cases "can p EXPORT_AUDIT")
      (simp_all add: export_audit_def shaped_refused shaped_answered shaped_audited bodies_keep_audit service_call_def)
next
  case (GroupRequest p c reason ch)
  then show ?thesis
    by (cases "can p MANAGE_HEALTH"; cases "store_of cfg c")
      (auto simp: change_resource_group_def shaped_refused shaped_answered shaped_audited bodies_keep_audit service_call_def)
qed


section \<open>Refusals\<close>

text \<open>"Why did nothing happen?" can be answered: an attempt without the capability leaves a record with its
  actor and target, whatever it gave as a reason.\<close>

lemma refusal_is_recorded:
  assumes "known_name cfg c" "\<not> can p KILL_QUERY" "writable (aw_audit w)"
  shows "case request_kill desc cfg ev p c q reason rid w of
     (r, w') \<Rightarrow> r = Inl (ApiSays Forbidden MayNotKill) \<and> aw_sent w' = aw_sent w \<and>
       (\<exists>rec. records (aw_audit w') = records (aw_audit w) @ [rec] \<and> aud_actor rec = pr_username p \<and>
          aud_target_id rec = q \<and> aud_outcome rec = FAILURE)"
  using assms
  by (simp add: request_kill_def refused_def put_api_audit_def record_refusal_def write_record_def service_call_def Let_def)

section \<open>Kills\<close>

text \<open>One kill at most is sent, to the endpoint of the query named; and success is answered only when the
  coordinator accepted it.\<close>

lemma kill_sends_once:
  "case request_kill desc cfg ev p c q reason rid w of
     (r, w') \<Rightarrow> \<exists>eff. aw_sent w' = aw_sent w @ eff \<and> length (requests eff) \<le> 1"
proof -
  have body: "\<exists>eff. aw_sent (snd (kill_body ev p c q reason rid client w)) = aw_sent w @ eff \<and> length (requests eff) \<le> 1"
    for client
  proof -
    let ?m = "build_kill_message (pr_username p) (case normalise_reason reason of Inl _ \<Rightarrow> [] | Inr r \<Rightarrow> r)
      (request_id_or (ai_guard_uuid ev) rid)"
    have "aw_sent (snd (kill_body ev p c q reason rid client w)) = aw_sent w @ snd (snd (kill_query (ai_call ev) q ?m client))"
      by (simp add: kill_body_def Let_def split: prod.split)
    then show ?thesis using kill_once [of "ai_call ev" q ?m client] by blast
  qed
  have audited: "\<exists>eff. aw_sent (snd (api_audited desc ev call (kill_body ev p c q reason rid client) w)) = aw_sent w @ eff \<and>
      length (requests eff) \<le> 1" for call client
  proof -
    obtain r w' where run: "api_audited desc ev call (kill_body ev p c q reason rid client) w = (r, w')" by (rule prod.exhaust)
    show ?thesis
      using run [unfolded api_audited_def] bodies_keep_audit(1)
    proof (cases rule: api_guard.audited_cases)
      case (refused x)
      then show ?thesis using run by (simp add: exI [of _ "[]"])
    next
      case (ran wb au rec)
      then show ?thesis using run body [of client] by (simp add: put_api_audit_def)
    qed
  qed
  have none: "\<exists>eff. aw_sent w = aw_sent w @ eff \<and> length (requests eff) \<le> 1" by (rule exI [of _ "[]"]) simp
  show ?thesis
    using audited none
    by (simp add: request_kill_def answered_def refused_def put_api_audit_def split: prod.split option.split)
qed

section \<open>Thresholds\<close>

lemma switched_off_thresholds:
  "switched_off (overrides_of (save_health_override c t None th by_whom repo) c') key = switched_off (overrides_of repo c') key"
  by (auto simp: switched_off_def overrides_of_def save_health_override_def no_override_def Let_def split: option.splits)

lemma evaluate_switches:
  assumes "\<And>key. switched_off ovs1 key = switched_off ovs2 key"
  shows "evaluate cx stale ovs1 e = evaluate cx stale ovs2 e"
proof -
  have "active_tests e ovs1 = active_tests e ovs2" using assms by (simp add: active_tests_def)
  then show ?thesis using assms by (simp add: evaluate_def)
qed


text \<open>A switch does have its effect: a test that was switched off is no longer evaluated.\<close>

lemma switched_off_after:
  "switched_off (overrides_of (save_health_override c t (Some False) th by_whom repo) c) t"
  by (auto simp: switched_off_def overrides_of_def save_health_override_def Let_def split: option.splits)

end
