(* ===== verification/DeepLinks.thy ===== *)
theory DeepLinks
  imports Json
begin

text \<open>
  Links into other tools (\<^verbatim>\<open>api/deeplinks.py\<close>): percent-encoding of values and the templates they are put
  into. Texts are UTF-8 bytes. Of the format language a template may hold text, doubled braces and fields
  with a plain name; a field with an attribute, an index, a conversion or a format spec is rendered by an
  argument, which gives the text and how much of the template it used, or the exception.
\<close>

section \<open>Percent-encoding\<close>

definition always_safe :: "char \<Rightarrow> bool" where
  "always_safe c \<longleftrightarrow> is_ascii_alnum c \<or> c \<in> set ''_.-~/''"

definition hex_digit :: "nat \<Rightarrow> char" where
  "hex_digit n = (if n < 10 then digit_char n else char_of (n + 55))"

fun quote :: "string \<Rightarrow> string" where
  "quote [] = []"
| "quote (c # cs) =
     (if always_safe c then c # quote cs
      else CHR ''%'' # hex_digit (code c div 16) # hex_digit (code c mod 16) # quote cs)"

section \<open>Templates\<close>

datatype format_exn = NoSuchField | NoSuchIndex | BadFormat | NoSuchAttribute

type_synonym rich_field = "string \<Rightarrow> string pydict \<Rightarrow> format_exn + string \<times> nat"

definition name_end :: "char \<Rightarrow> bool" where
  "name_end c \<longleftrightarrow> c \<in> set ''{[}:!.''"

text \<open>An empty name or a number asks for a positional argument, and there is none.\<close>

definition plain_field :: "string \<Rightarrow> string pydict \<Rightarrow> format_exn + string" where
  "plain_field name subs =
     (if list_all is_ascii_digit name then Inl NoSuchIndex
      else case map_of subs name of None \<Rightarrow> Inl NoSuchField | Some v \<Rightarrow> Inr v)"

lemma rest_shorter: "d # ds = dropWhile P cs \<Longrightarrow> length ds < Suc (length cs)"
  using length_dropWhile_le [of P cs] by (cases "dropWhile P cs") auto

function py_format :: "rich_field \<Rightarrow> string pydict \<Rightarrow> string \<Rightarrow> format_exn + string" where
  "py_format rich subs [] = Inr []"
| "py_format rich subs (c # cs) =
     (if c = CHR ''}''
      then (case cs of
              [] \<Rightarrow> Inl BadFormat
            | d # ds \<Rightarrow> (if d = CHR ''}'' then map_sum id ((#) c) (py_format rich subs ds) else Inl BadFormat))
      else if c \<noteq> CHR ''{'' then map_sum id ((#) c) (py_format rich subs cs)
      else if cs = [] then Inl BadFormat
      else if hd cs = CHR ''{'' then map_sum id ((#) c) (py_format rich subs (tl cs))
      else (let name = takeWhile (\<lambda>c. \<not> name_end c) cs; rest = dropWhile (\<lambda>c. \<not> name_end c) cs
            in case rest of
                 [] \<Rightarrow> Inl BadFormat
               | d # ds \<Rightarrow>
                   (if d = CHR ''{'' then Inl BadFormat
                    else if d = CHR ''}''
                    then (case plain_field name subs of
                            Inl e \<Rightarrow> Inl e
                          | Inr v \<Rightarrow> map_sum id ((@) v) (py_format rich subs ds))
                    else (case rich cs subs of
                            Inl e \<Rightarrow> Inl e
                          | Inr (v, n) \<Rightarrow> map_sum id ((@) v) (py_format rich subs (drop n cs))))))"
  by pat_completeness auto

termination
  by (relation "measure (\<lambda>(rich, subs, cs). length cs)") (auto dest: rest_shorter)

text \<open>What the builders catch becomes no link; an attribute that does not exist is not caught.\<close>

definition formatted :: "rich_field \<Rightarrow> string pydict \<Rightarrow> string \<Rightarrow> py_exn + string option" where
  "formatted rich subs template =
     (case py_format rich subs template of
        Inr s \<Rightarrow> Inr (Some s)
      | Inl NoSuchAttribute \<Rightarrow> Inl AttributeError
      | Inl e \<Rightarrow> Inr None)"

section \<open>The builders\<close>

record link_env =
  le_rich :: rich_field
  le_iso :: "rat \<Rightarrow> string"

definition to_millis :: "rat \<Rightarrow> string" where
  "to_millis moment = show_int (py_trunc (moment * 1000))"

definition opt_text :: "string option \<Rightarrow> string" where
  "opt_text x = (case x of None \<Rightarrow> [] | Some s \<Rightarrow> s)"

definition log_terms :: "string option list \<Rightarrow> string list" where
  "log_terms xs = filter (\<lambda>t. t \<noteq> []) (map opt_text xs)"

definition log_substitutions ::
    "link_env \<Rightarrow> rat \<Rightarrow> string option \<Rightarrow> string option \<Rightarrow> string option \<Rightarrow> rat option \<Rightarrow> rat option \<Rightarrow> rat \<Rightarrow>
     string pydict" where
  "log_substitutions le now query_id node_host cl time_from time_to padding =
     (let start = (case time_from of None \<Rightarrow> now | Some t \<Rightarrow> t) - padding;
          finish = (case time_to of None \<Rightarrow> now | Some t \<Rightarrow> t) + padding
      in [(''query'', quote (join '' '' (log_terms [query_id, node_host, cl]))),
          (''query_id'', quote (opt_text query_id)), (''node'', quote (opt_text node_host)),
          (''cluster'', quote (opt_text cl)), (''from_ms'', to_millis start), (''to_ms'', to_millis finish),
          (''from_iso'', le_iso le start), (''to_iso'', le_iso le finish)])"

definition build_log_url ::
    "link_env \<Rightarrow> rat \<Rightarrow> string \<Rightarrow> string option \<Rightarrow> string option \<Rightarrow> string option \<Rightarrow> rat option \<Rightarrow> rat option \<Rightarrow> rat \<Rightarrow>
     py_exn + string option" where
  "build_log_url le now template query_id node_host cl time_from time_to padding =
     (if template = [] then Inr None
      else formatted (le_rich le) (log_substitutions le now query_id node_host cl time_from time_to padding) template)"

definition build_query_history_url :: "link_env \<Rightarrow> string \<Rightarrow> string \<Rightarrow> py_exn + string option" where
  "build_query_history_url le template query_id =
     (if template = [] \<or> query_id = [] then Inr None
      else formatted (le_rich le) [(''query_id'', quote query_id)] template)"

definition build_grafana_url :: "link_env \<Rightarrow> string \<Rightarrow> string \<Rightarrow> py_exn + string option" where
  "build_grafana_url le template cl =
     (if template = [] \<or> cl = [] then Inr None
      else formatted (le_rich le) [(''cluster'', quote cl)] template)"

section \<open>Properties\<close>

lemma code_digits: "code c div 16 < 16" "code c mod 16 < 16"
proof -
  have "code c < 256" by (metis code_def mod_less_divisor of_char_mod_256 zero_less_numeral)
  then show "code c div 16 < 16" by simp
qed simp

text \<open>A quoted value brings no character with a meaning in a URL but the slash.\<close>

lemma quoted_is_inert: "list_all (\<lambda>c. c \<notin> set ''&?=#+ '') (quote s)"
proof (induction s rule: quote.induct)
  case (2 c cs)
  have hex: "hex_digit n \<notin> set ''&?=#+ ''" if "n < 16" for n
  proof -
    have "\<forall>n \<in> set [0..<16]. hex_digit n \<notin> set ''&?=#+ ''" by code_simp
    then show ?thesis using that by auto
  qed
  have "hex_digit (code c div 16) \<notin> set ''&?=#+ ''" "hex_digit (code c mod 16) \<notin> set ''&?=#+ ''"
    using hex code_digits by blast+
  moreover have "c \<notin> set ''&?=#+ ''" if "always_safe c" using that by (auto simp: always_safe_def is_ascii_alnum_def code_def)
  ultimately show ?case using 2 by (cases "always_safe c") auto
qed simp

definition hex_value :: "char \<Rightarrow> nat" where
  "hex_value c = (if is_ascii_digit c then code c - 48 else code c - 55)"

fun unquote :: "string \<Rightarrow> string" where
  "unquote (p # a # b # cs) =
     (if p = CHR ''%'' then char_of (16 * hex_value a + hex_value b) # unquote cs else p # unquote (a # b # cs))"
| "unquote cs = cs"

lemma hex_value_digit: "n < 16 \<Longrightarrow> hex_value (hex_digit n) = n"
  by (cases "n < 10") (simp_all add: hex_value_def hex_digit_def digit_char_def is_ascii_digit_def code_def of_char_of)

lemma unquote_safe: "c \<noteq> CHR ''%'' \<Longrightarrow> unquote (c # cs) = c # unquote cs"
proof (cases cs)
  case (Cons a ds)
  show "c \<noteq> CHR ''%'' \<Longrightarrow> ?thesis"
    unfolding Cons by (cases ds) (simp_all only: unquote.simps if_False simp_thms)
qed (simp only: unquote.simps simp_thms)

text \<open>What was quoted is read back as it was.\<close>

lemma unquote_quote: "unquote (quote s) = s"
proof (induction s rule: quote.induct)
  case (2 c cs)
  show ?case
  proof (cases "always_safe c")
    case True
    then have "c \<noteq> CHR ''%''" by (auto simp: always_safe_def is_ascii_alnum_def code_def)
    then show ?thesis using 2(1) True by (simp add: unquote_safe)
  next
    case False
    have "hex_value (hex_digit (code c div 16)) = code c div 16" "hex_value (hex_digit (code c mod 16)) = code c mod 16"
      using hex_value_digit code_digits by blast+
    then have "unquote (quote (c # cs)) = char_of (16 * (code c div 16) + code c mod 16) # unquote (quote cs)"
      using False by simp
    then show ?thesis using 2(2) False by (simp add: code_def)
  qed
qed simp

text \<open>A template with a plain field for an attribute raises what the builders do not catch.\<close>

lemma attribute_escapes:
  assumes "\<And>cs subs. rich cs subs = Inl NoSuchAttribute"
  shows "formatted rich subs ''https://logs/?q={query.text}'' = Inl AttributeError"
  by (simp add: formatted_def name_end_def assms)

end
