(* ===== verification/QueryViews.thy ===== *)
theory QueryViews
  imports ServiceActions DeepLinks
begin

text \<open>
  The live query lists of \<^verbatim>\<open>api/services.py\<close>: one cluster, and all clusters merged. A view reads snapshots;
  what it adds to a row is not written back (each load of the production store decodes a fresh payload).
  A stored row that is no object, or a time that is no number, raises. Rendering of values that are no text
  and of instants is an argument.
\<close>

section \<open>Configuration and environment of a view\<close>

record cluster_entry =
  ce_name :: string
  ce_url :: string
  ce_ui :: string
  ce_workers :: int

record view_config =
  vg_clusters :: "cluster_entry list"
  vg_stale_after :: rat
  vg_log_template :: string
  vg_history_template :: string
  vg_grafana_template :: string
  vg_superset :: string
  vg_history_home :: string
  vg_padding :: rat
  vg_gateway_on :: bool
  vg_gateway_url :: string
  vg_workload_on :: bool

record view_env =
  vn_now :: rat               \<comment> \<open>\<open>utcnow()\<close> of the envelope and of the links\<close>
  vn_clock :: rat
  vn_link :: link_env
  vn_shown :: "json \<Rightarrow> string"
  vn_float :: "string \<Rightarrow> rat option"

datatype view_exn = ViewSays api_kind api_message | ViewRaised py_exn

definition raised :: "py_exn + 'a \<Rightarrow> view_exn + 'a" where
  "raised x = map_sum ViewRaised id x"

definition has_cluster :: "view_config \<Rightarrow> string \<Rightarrow> bool" where
  "has_cluster cfg c \<longleftrightarrow> list_ex (\<lambda>e. ce_name e = c) (vg_clusters cfg)"

record 'a answer_envelope =
  en_collected_at :: "rat option"
  en_stale :: bool
  en_data :: 'a

definition envelope :: "view_config \<Rightarrow> view_env \<Rightarrow> snapshot option \<Rightarrow> 'a \<Rightarrow> 'a answer_envelope" where
  "envelope cfg vn s d =
     (case s of
        None \<Rightarrow> \<lparr>en_collected_at = None, en_stale = True, en_data = d\<rparr>
      | Some sn \<Rightarrow> \<lparr>en_collected_at = Some (sn_collected_at sn),
                     en_stale = is_stale sn (vn_now vn) (vg_stale_after cfg), en_data = d\<rparr>)"

section \<open>Rows\<close>

definition payload_of :: "snapshot \<Rightarrow> py_exn + json pydict" where
  "payload_of s = (case fields_of (sn_payload s) of None \<Rightarrow> Inl AttributeError | Some fs \<Rightarrow> Inr fs)"

definition objects_of :: "json \<Rightarrow> py_exn + json pydict list" where
  "objects_of j =
     (if \<not> truthy j then Inr []
      else case j of
             JList xs \<Rightarrow> map_exn (\<lambda>x. case fields_of x of None \<Rightarrow> Inl AttributeError | Some fs \<Rightarrow> Inr fs) xs
           | JStr s \<Rightarrow> Inl AttributeError
           | JObj fs \<Rightarrow> Inl AttributeError
           | _ \<Rightarrow> Inl TypeError)"

definition query_rows :: "snapshot \<Rightarrow> py_exn + json pydict list" where
  "query_rows s = then_view (payload_of s) (\<lambda>p. objects_of (dget ''queries'' p))"

definition state_in :: "string list \<Rightarrow> json pydict \<Rightarrow> bool" where
  "state_in ss row \<longleftrightarrow> (case dget ''state'' row of JStr s \<Rightarrow> s \<in> set ss | _ \<Rightarrow> False)"

text \<open>A set is asked with the hash of the value.\<close>

definition state_wanted :: "string list \<Rightarrow> json pydict \<Rightarrow> py_exn + bool" where
  "state_wanted ss row =
     (case dget ''state'' row of
        JList xs \<Rightarrow> Inl TypeError | JObj fs \<Rightarrow> Inl TypeError | _ \<Rightarrow> Inr (state_in ss row))"

definition elapsed_of :: "json pydict \<Rightarrow> py_exn + rat" where
  "elapsed_of row =
     (let e = dget ''elapsed_ms'' row
      in if \<not> truthy e then Inr 0 else case num_or_bool e of None \<Rightarrow> Inl TypeError | Some n \<Rightarrow> Inr n)"

definition at_least :: "rat \<Rightarrow> json pydict \<Rightarrow> py_exn + bool" where
  "at_least seconds row = map_sum id (\<lambda>e. e \<ge> seconds * 1000) (elapsed_of row)"

fun keep_exn :: "('a \<Rightarrow> 'e + bool) \<Rightarrow> 'a list \<Rightarrow> 'e + 'a list" where
  "keep_exn P [] = Inr []"
| "keep_exn P (x # xs) =
     then_view (P x) (\<lambda>b. then_view (keep_exn P xs) (\<lambda>ys. Inr (if b then x # ys else ys)))"

definition group_path :: "json pydict \<Rightarrow> json list option" where
  "group_path row =
     (let g = dget ''resource_group_id'' row in if \<not> truthy g then Some [] else case g of JList xs \<Rightarrow> Some xs | _ \<Rightarrow> None)"

definition dotted :: "(json \<Rightarrow> string) \<Rightarrow> json list \<Rightarrow> string" where
  "dotted sh path = join ''.'' (map (str_of sh) path)"

definition in_resource_group :: "(json \<Rightarrow> string) \<Rightarrow> json pydict \<Rightarrow> string \<Rightarrow> bool" where
  "in_resource_group sh row group_id =
     (case group_path row of
        None \<Rightarrow> False
      | Some path \<Rightarrow>
          group_id \<noteq> [] \<and>
          (let d = dotted sh path in d = group_id \<or> take (length group_id + 1) d = group_id @ ''.''))"

definition summarise_rows :: "json pydict list \<Rightarrow> json" where
  "summarise_rows rows =
     (let count = (\<lambda>P. JNum (of_nat (length (filter P rows))))
      in JObj [(''running'', count (state_in RUNNING_STATES)), (''queued'', count (state_in QUEUED_STATES)),
               (''long_running'', count (\<lambda>r. truthy (dget ''long_running'' r))), (''total'', JNum (of_nat (length rows)))])"

definition query_links :: "view_config \<Rightarrow> view_env \<Rightarrow> string \<Rightarrow> json pydict \<Rightarrow> py_exn + string pydict" where
  "query_links cfg vn c row =
     (let q = (case dget ''query_id'' row of JStr s \<Rightarrow> s | _ \<Rightarrow> [])
      in then_view (build_log_url (vn_link vn) (vn_now vn) (vg_log_template cfg) (Some q) None (Some c) None None (vg_padding cfg)) (\<lambda>l.
         then_view (build_query_history_url (vn_link vn) (vg_history_template cfg) q) (\<lambda>h.
         Inr ((case l of None \<Rightarrow> [] | Some u \<Rightarrow> if u = [] then [] else [(''logs'', u)]) @
              (case h of None \<Rightarrow> [] | Some u \<Rightarrow> if u = [] then [] else [(''history'', u)])))))"

definition links_json :: "string pydict \<Rightarrow> json" where
  "links_json ls = JObj (map (\<lambda>(k, u). (k, JStr u)) ls)"

definition with_links :: "view_config \<Rightarrow> view_env \<Rightarrow> string \<Rightarrow> json pydict \<Rightarrow> py_exn + json pydict" where
  "with_links cfg vn c row = map_sum id (\<lambda>ls. dset ''links'' (links_json ls) row) (query_links cfg vn c row)"

section \<open>One cluster\<close>

record query_filter =
  qf_state :: "string list"
  qf_user :: "string option"
  qf_min_elapsed :: "rat option"
  qf_group :: "string option"
  qf_limit :: int

record query_page =
  qp_summary :: json
  qp_rows :: "json pydict list"
  qp_truncated :: bool
  qp_reason :: "string option"
  qp_advice :: "string option"

definition given_text :: "string option \<Rightarrow> bool" where
  "given_text t \<longleftrightarrow> t \<noteq> None \<and> t \<noteq> Some []"

definition scoped_rows ::
    "(json \<Rightarrow> string) \<Rightarrow> query_filter \<Rightarrow> json pydict list \<Rightarrow> py_exn + json pydict list" where
  "scoped_rows sh f rows =
     (let r1 = (if given_text (qf_user f) then filter (\<lambda>r. dget ''user'' r = JStr (the (qf_user f))) rows else rows);
          r2 = (if given_text (qf_group f) then filter (\<lambda>r. in_resource_group sh r (the (qf_group f))) r1 else r1)
      in case qf_min_elapsed f of None \<Rightarrow> Inr r2 | Some s \<Rightarrow> keep_exn (at_least s) r2)"

definition of_states :: "string list \<Rightarrow> json pydict list \<Rightarrow> py_exn + json pydict list" where
  "of_states ss rows = (if ss = [] then Inr rows else keep_exn (state_wanted ss) rows)"

definition scope_is_all :: "query_filter \<Rightarrow> bool" where
  "scope_is_all f \<longleftrightarrow>
     \<not> (given_text (qf_user f) \<or> given_text (qf_group f) \<or> (qf_min_elapsed f \<noteq> None \<and> qf_min_elapsed f \<noteq> Some 0))"

definition row_limit :: "int \<Rightarrow> nat" where
  "row_limit n = nat (max 1 (min n MAX_PAGE_SIZE))"

definition stored_summary :: "json pydict \<Rightarrow> json" where
  "stored_summary p = (if truthy (dget ''summary'' p) then dget ''summary'' p else JObj [])"

definition no_page :: "string option \<Rightarrow> string option \<Rightarrow> query_page" where
  "no_page reason advice =
     \<lparr>qp_summary = JObj [], qp_rows = [], qp_truncated = False, qp_reason = reason, qp_advice = advice\<rparr>"

definition query_page_of ::
    "view_config \<Rightarrow> view_env \<Rightarrow> string \<Rightarrow> query_filter \<Rightarrow> snapshot \<Rightarrow> py_exn + query_page" where
  "query_page_of cfg vn c f s =
     then_view (payload_of s) (\<lambda>payload.
     then_view (query_rows s) (\<lambda>rows.
     then_view (scoped_rows (vn_shown vn) f rows) (\<lambda>scoped.
     then_view (of_states (qf_state f) scoped) (\<lambda>chosen.
     then_view (map_exn (with_links cfg vn c) (take (row_limit (qf_limit f)) chosen)) (\<lambda>shown.
     Inr \<lparr>qp_summary = (if scope_is_all f then stored_summary payload else summarise_rows scoped),
          qp_rows = shown, qp_truncated = length chosen > row_limit (qf_limit f), qp_reason = None, qp_advice = None\<rparr>)))))"

definition no_data :: string where "no_data = ''No data collected yet.''"

definition list_queries ::
    "view_config \<Rightarrow> view_env \<Rightarrow> principal \<Rightarrow> string \<Rightarrow> query_filter \<Rightarrow> 'e snapshot_repo \<Rightarrow>
     view_exn + query_page answer_envelope" where
  "list_queries cfg vn p c f repo =
     (if \<not> can p VIEW_QUERIES then Inl (ViewSays Forbidden (RoleLacks VIEW_QUERIES))
      else if \<not> has_cluster cfg c then Inl (ViewSays NotFound (UnknownClusterNamed c))
      else case load_snapshot c KIND_QUERIES repo of
             None \<Rightarrow> Inr (envelope cfg vn None (no_page (Some no_data) None))
           | Some s \<Rightarrow>
               (if \<not> trustworthy s then Inr (envelope cfg vn (Some s) (no_page (sn_error s) (sn_advice s)))
                else raised (map_sum id (envelope cfg vn (Some s)) (query_page_of cfg vn c f s))))"

section \<open>All clusters\<close>

text \<open>The merged list has filters of its own, applied in another order.\<close>

definition user_matches :: "(json \<Rightarrow> string) \<Rightarrow> string \<Rightarrow> json pydict \<Rightarrow> bool" where
  "user_matches sh needle row \<longleftrightarrow>
     has_sub (lower needle) (lower (let u = dget ''user'' row in if truthy u then str_of sh u else []))"

definition names_group :: "string \<Rightarrow> json pydict \<Rightarrow> py_exn + bool" where
  "names_group g row =
     (let v = dget ''resource_group_id'' row
      in if \<not> truthy v then Inr False
         else case v of
                JList xs \<Rightarrow> Inr (JStr g \<in> set xs)
              | JStr s \<Rightarrow> Inr (has_sub g s)
              | JObj fs \<Rightarrow> Inr (g \<in> fst ` set fs)
              | _ \<Rightarrow> Inl TypeError)"

definition filter_queries ::
    "(json \<Rightarrow> string) \<Rightarrow> query_filter \<Rightarrow> json pydict list \<Rightarrow> py_exn + json pydict list" where
  "filter_queries sh f rows =
     then_view (of_states (qf_state f) rows) (\<lambda>r1.
     (let r2 = (if given_text (qf_user f) then filter (user_matches sh (the (qf_user f))) r1 else r1)
      in then_view (if given_text (qf_group f) then keep_exn (names_group (the (qf_group f))) r2 else Inr r2) (\<lambda>r3.
         case qf_min_elapsed f of None \<Rightarrow> Inr r3 | Some s \<Rightarrow> keep_exn (at_least s) r3)))"

record cluster_part =
  cq_name :: string
  cq_stale :: bool
  cq_collected_at :: "rat option"
  cq_reason :: "string option"
  cq_advice :: "string option"
  cq_rows :: "json pydict list"        \<comment> \<open>what the cluster adds to the list\<close>
  cq_counts :: "int list"             \<comment> \<open>and to the four counts\<close>

definition COUNT_KEYS :: "string list" where
  "COUNT_KEYS = [''running'', ''queued'', ''long_running'', ''total'']"

definition counts_of :: "json pydict \<Rightarrow> py_exn + int list" where
  "counts_of payload =
     then_view (or_dict (dget ''summary'' payload)) (\<lambda>s. map_exn (\<lambda>k. to_int (get_or k (JNum 0) s)) COUNT_KEYS)"

definition merged_row :: "view_config \<Rightarrow> view_env \<Rightarrow> string \<Rightarrow> json pydict \<Rightarrow> py_exn + json pydict" where
  "merged_row cfg vn c row = with_links cfg vn c (dset ''cluster'' (JStr c) row)"

definition cluster_part_of ::
    "view_config \<Rightarrow> view_env \<Rightarrow> 'e snapshot_repo \<Rightarrow> string \<Rightarrow> py_exn + cluster_part" where
  "cluster_part_of cfg vn repo c =
     (case load_snapshot c KIND_QUERIES repo of
        None \<Rightarrow> Inr \<lparr>cq_name = c, cq_stale = True, cq_collected_at = None, cq_reason = Some no_data, cq_advice = None,
                    cq_rows = [], cq_counts = [0, 0, 0, 0]\<rparr>
      | Some s \<Rightarrow>
          (let part = \<lparr>cq_name = c, cq_stale = is_stale s (vn_clock vn) (vg_stale_after cfg),
                       cq_collected_at = Some (sn_collected_at s), cq_reason = sn_error s,
                       cq_advice = (if trustworthy s then None else sn_advice s), cq_rows = [], cq_counts = [0, 0, 0, 0]\<rparr>
           in if \<not> trustworthy s then Inr part
              else then_view (payload_of s) (\<lambda>payload.
                   then_view (query_rows s) (\<lambda>rows.
                   then_view (map_exn (merged_row cfg vn c) rows) (\<lambda>shown.
                   then_view (counts_of payload) (\<lambda>ns. Inr (part\<lparr>cq_rows := shown, cq_counts := ns\<rparr>)))))))"

text \<open>\<open>sort(key=..., reverse=True)\<close> keeps the order of equal keys.\<close>

definition worst_first :: "json pydict list \<Rightarrow> py_exn + json pydict list" where
  "worst_first rows =
     then_view (map_exn (\<lambda>r. map_sum id (\<lambda>e. (e, r)) (elapsed_of r)) rows)
       (\<lambda>keyed. Inr (map snd (sort_key (\<lambda>(e, r). - e) keyed)))"

definition oldest_time :: "cluster_part list \<Rightarrow> rat option" where
  "oldest_time parts =
     fold (\<lambda>p acc. case cq_collected_at p of
                     None \<Rightarrow> acc
                   | Some t \<Rightarrow> (case acc of None \<Rightarrow> Some t | Some a \<Rightarrow> if t < a then Some t else acc)) parts None"

definition add_counts :: "int list \<Rightarrow> int list \<Rightarrow> int list" where
  "add_counts xs ys = map2 (+) xs ys"

record merged_page =
  mp_collected_at :: "rat option"
  mp_stale :: bool
  mp_counts :: "int list"
  mp_rows :: "json pydict list"
  mp_truncated :: bool
  mp_clusters :: "cluster_part list"

definition list_queries_all ::
    "view_config \<Rightarrow> view_env \<Rightarrow> principal \<Rightarrow> query_filter \<Rightarrow> 'e snapshot_repo \<Rightarrow> view_exn + merged_page" where
  "list_queries_all cfg vn p f repo =
     (if \<not> can p VIEW_QUERIES then Inl (ViewSays Forbidden (RoleLacks VIEW_QUERIES))
      else raised
        (then_view (map_exn (\<lambda>e. cluster_part_of cfg vn repo (ce_name e)) (vg_clusters cfg)) (\<lambda>parts.
         then_view (filter_queries (vn_shown vn) f (concat (map cq_rows parts))) (\<lambda>chosen.
         then_view (worst_first chosen) (\<lambda>sorted_rows.
         Inr \<lparr>mp_collected_at = oldest_time parts, mp_stale = list_ex cq_stale parts,
              mp_counts = fold (\<lambda>part acc. add_counts acc (cq_counts part)) parts [0, 0, 0, 0],
              mp_rows = take (row_limit (qf_limit f)) sorted_rows,
              mp_truncated = length sorted_rows > row_limit (qf_limit f), mp_clusters = parts\<rparr>)))))"

end
