(* ===== verification/QueryProps.thy ===== *)
theory QueryProps
  imports QueryViews
begin

text \<open>
  What the query lists promise: the counts over the list are the counts of what the filters leave, the merged
  list is ordered, names its sources and is as old as the oldest of them, and the group filter selects a
  subtree of the groups - on the list of one cluster.
\<close>

declare then_view_Inr [simp] map_sum_Inr [simp]

lemma keep_exn_subset: "keep_exn P xs = Inr ys \<Longrightarrow> set ys \<subseteq> set xs"
  by (induction xs arbitrary: ys) (auto split: if_splits)

lemma keep_exn_all: "list_all (\<lambda>x. P x = Inr True) xs \<Longrightarrow> keep_exn P xs = Inr xs"
  by (induction xs) auto

lemma map_exn_length: "map_exn f xs = Inr ys \<Longrightarrow> length ys = length xs"
  by (induction xs arbitrary: ys) (auto split: sum.splits)

lemma map_exn_in: "map_exn f xs = Inr ys \<Longrightarrow> y \<in> set ys \<Longrightarrow> \<exists>x\<in>set xs. f x = Inr y"
  by (induction xs arbitrary: ys) (auto split: sum.splits)

lemma map_exn_map: "(\<And>x. f (g x) = Inr (h x)) \<Longrightarrow> map_exn f (map g xs) = Inr (map h xs)"
  by (induction xs) auto

section \<open>The counts over the list\<close>

text \<open>The row the poller stores for a query.\<close>

definition row_of :: "live_query \<Rightarrow> json pydict" where
  "row_of q = (case live_query_json q of JObj fs \<Rightarrow> fs | _ \<Rightarrow> [])"

lemma row_of_fields: "fields_of (live_query_json q) = Some (row_of q)"
  by (simp add: row_of_def live_query_json_def)

text \<open>The counts the view computes are the ones the poller stores.\<close>

lemma summaries_agree: "summarise_rows (map row_of qs) = summary_json qs"
  by (simp add: summarise_rows_def summary_json_def count_where_def state_in_def [abs_def] in_states_def [abs_def] row_of_def
      live_query_json_def dget_def filter_map comp_def Let_def)

definition polled :: "live_query list \<Rightarrow> json pydict \<Rightarrow> json" where
  "polled qs extra = JObj ([(''queries'', JList (map live_query_json qs)), (''summary'', summary_json qs)] @ extra)"

lemma polled_rows: "query_rows (s\<lparr>sn_payload := polled qs extra\<rparr>) = Inr (map row_of qs)"
proof -
  have "map_exn (\<lambda>x. case fields_of x of None \<Rightarrow> Inl AttributeError | Some fs \<Rightarrow> Inr fs) (map live_query_json qs) =
      (Inr (map row_of qs) :: py_exn + json pydict list)"
    by (rule map_exn_map) (simp add: row_of_fields)
  then show ?thesis
    by (cases "qs = []") (simp_all add: query_rows_def payload_of_def polled_def dget_def objects_of_def)
qed

lemma scope_all_rows:
  assumes "scope_is_all f" "list_all (\<lambda>q. case lq_elapsed q of None \<Rightarrow> True | Some e \<Rightarrow> 0 \<le> e) qs"
  shows "scoped_rows sh f (map row_of qs) = Inr (map row_of qs)"
proof -
  have "list_all (\<lambda>r. at_least 0 r = Inr True) (map row_of qs)"
    using assms(2) by (auto simp: list_all_iff at_least_def elapsed_of_def row_of_def live_query_json_def dget_def opt_num_def
        Let_def split: option.splits)
  then show ?thesis
    using assms(1) by (auto simp: scope_is_all_def scoped_rows_def keep_exn_all split: option.splits)
qed

text \<open>The page of one cluster: over what the poller stored, the counts are those of the rows that pass every
  filter but the state, as many of the rows with a wanted state are shown as the limit allows, and the page
  says when there are more.\<close>

theorem counts_are_of_the_list:
  assumes "list_all (\<lambda>q. case lq_elapsed q of None \<Rightarrow> True | Some e \<Rightarrow> 0 \<le> e) qs"
  shows "case query_page_of cfg vn c f (s\<lparr>sn_payload := polled qs extra\<rparr>) of
     Inl e \<Rightarrow> True
   | Inr page \<Rightarrow>
       (case scoped_rows (vn_shown vn) f (map row_of qs) of
          Inl e \<Rightarrow> False
        | Inr scoped \<Rightarrow>
            qp_summary page = summarise_rows scoped \<and>
            (case of_states (qf_state f) scoped of
               Inl e \<Rightarrow> False
             | Inr chosen \<Rightarrow>
                 length (qp_rows page) = min (length chosen) (row_limit (qf_limit f)) \<and>
                 qp_truncated page = (length (qp_rows page) < length chosen)))"
proof (cases "query_page_of cfg vn c f (s\<lparr>sn_payload := polled qs extra\<rparr>)")
  case (Inr page)
  then obtain payload scoped chosen shown where run:
      "payload_of (s\<lparr>sn_payload := polled qs extra\<rparr>) = Inr payload"
      "scoped_rows (vn_shown vn) f (map row_of qs) = Inr scoped" "of_states (qf_state f) scoped = Inr chosen"
      "map_exn (with_links cfg vn c) (take (row_limit (qf_limit f)) chosen) = Inr shown"
      and page: "page = \<lparr>qp_summary = (if scope_is_all f then stored_summary payload else summarise_rows scoped),
          qp_rows = shown, qp_truncated = length chosen > row_limit (qf_limit f), qp_reason = None, qp_advice = None\<rparr>"
    by (auto simp: query_page_of_def polled_rows)
  have "stored_summary payload = summary_json qs"
    using run(1) by (auto simp: payload_of_def polled_def stored_summary_def dget_def summary_json_def)
  then have "qp_summary page = summarise_rows scoped"
    using scope_all_rows [OF _ assms, of f "vn_shown vn"] run(2) by (auto simp: page summaries_agree)
  moreover have "length shown = min (length chosen) (row_limit (qf_limit f))"
    using map_exn_length [OF run(4)] by simp
  ultimately show ?thesis using Inr run(2,3) by (auto simp: page)
qed simp

section \<open>The merged list\<close>

definition elapsed_or_0 :: "json pydict \<Rightarrow> rat" where
  "elapsed_or_0 row = (case elapsed_of row of Inl e \<Rightarrow> 0 | Inr n \<Rightarrow> n)"

lemma keyed_rows:
  "map_exn (\<lambda>r. map_sum id (\<lambda>e. (e, r)) (elapsed_of r)) rows = Inr ks \<Longrightarrow>
   ks = map (\<lambda>r. (elapsed_or_0 r, r)) rows"
  by (induction rows arbitrary: ks) (auto simp: elapsed_or_0_def split: sum.splits)

lemma worst_first_sorted:
  assumes "worst_first rows = Inr rs"
  shows "sorted_wrt (\<lambda>r r'. elapsed_or_0 r \<ge> elapsed_or_0 r') rs" "set rs = set rows" "length rs = length rows"
proof -
  have rs: "rs = map snd (sort_key (\<lambda>(e, r). - e) (map (\<lambda>r. (elapsed_or_0 r, r)) rows))"
    using assms keyed_rows by (auto simp: worst_first_def)
  define ks where "ks = sort_key (\<lambda>(e, r). - e) (map (\<lambda>r. (elapsed_or_0 r, r)) rows)"
  have "sorted_wrt (\<le>) (map (\<lambda>(e, r). - e) ks)" unfolding ks_def by (rule sorted_sort_key)
  then have "sorted_wrt (\<lambda>k k'. fst k' \<le> fst k) ks" by (simp add: sorted_wrt_map case_prod_unfold)
  then have ks: "sorted_wrt (\<lambda>k k'. fst k' \<le> fst k) ks" .
  have keys: "fst k = elapsed_or_0 (snd k)" if "k \<in> set ks" for k using that by (auto simp: ks_def)
  have "sorted_wrt (\<lambda>k k'. elapsed_or_0 (snd k') \<le> elapsed_or_0 (snd k)) ks"
    by (rule sorted_wrt_mono_rel [OF _ ks]) (simp add: keys)
  then show "sorted_wrt (\<lambda>r r'. elapsed_or_0 r \<ge> elapsed_or_0 r') rs"
    by (simp add: rs ks_def [symmetric] sorted_wrt_map)
  show "set rs = set rows" "length rs = length rows" by (auto simp: rs image_image)
qed

lemma filter_queries_subset: "filter_queries sh f rows = Inr rs \<Longrightarrow> set rs \<subseteq> set rows"
  by (fastforce simp: filter_queries_def of_states_def Let_def dest: keep_exn_subset split: if_splits option.splits)

lemma part_rows:
  assumes "cluster_part_of cfg vn repo c = Inr part"
  shows "cq_rows part \<noteq> [] \<Longrightarrow> cq_reason part = None"
    "list_all (\<lambda>row. dget ''cluster'' row = JStr (cq_name part)) (cq_rows part)"
    "cq_collected_at part = None \<Longrightarrow> cq_stale part"
proof -
  have "list_all (\<lambda>row. dget ''cluster'' row = JStr c) shown"
    if "map_exn (merged_row cfg vn c) rows = Inr shown" for rows shown
    using map_exn_in [OF that] by (fastforce simp: list_all_iff merged_row_def with_links_def dget_def)
  then show "cq_rows part \<noteq> [] \<Longrightarrow> cq_reason part = None"
    "list_all (\<lambda>row. dget ''cluster'' row = JStr (cq_name part)) (cq_rows part)"
    "cq_collected_at part = None \<Longrightarrow> cq_stale part"
    using assms by (auto simp: cluster_part_of_def Let_def trustworthy_def split: option.splits if_splits)
qed

lemma oldest_fold:
  "case fold (\<lambda>p acc. case cq_collected_at p of
                     None \<Rightarrow> acc
                   | Some t \<Rightarrow> (case acc of None \<Rightarrow> Some t | Some a \<Rightarrow> if t < a then Some t else acc)) parts acc of
     None \<Rightarrow> acc = None \<and> (\<forall>p\<in>set parts. cq_collected_at p = None)
   | Some m \<Rightarrow> (\<forall>a. acc = Some a \<longrightarrow> m \<le> a) \<and> (\<forall>p\<in>set parts. \<forall>t. cq_collected_at p = Some t \<longrightarrow> m \<le> t)"
proof (induction parts arbitrary: acc)
  case (Cons p parts)
  show ?case
    using Cons [of "case cq_collected_at p of
                     None \<Rightarrow> acc
                   | Some t \<Rightarrow> (case acc of None \<Rightarrow> Some t | Some a \<Rightarrow> if t < a then Some t else acc)"]
    by (auto split: option.splits if_splits)
qed (simp split: option.split)

lemma oldest_time_le:
  "p \<in> set parts \<Longrightarrow> cq_collected_at p = Some t \<Longrightarrow> \<exists>a. oldest_time parts = Some a \<and> a \<le> t"
  using oldest_fold [where parts = parts and acc = None] by (auto simp: oldest_time_def split: option.splits)


section \<open>The group filter\<close>

lemma prefix_at_dot:
  "d \<notin> set g \<Longrightarrow> d \<notin> set s \<Longrightarrow> prefix (g @ d # xs) (s @ d # ys) \<longleftrightarrow> g = s \<and> prefix xs ys"
proof (induction g arbitrary: s)
  case Nil
  then show ?case by (cases s) auto
next
  case (Cons a g)
  then show ?case by (cases s) auto
qed

definition dotless :: "string \<Rightarrow> bool" where
  "dotless s \<longleftrightarrow> s \<noteq> [] \<and> CHR ''.'' \<notin> set s"

fun dotted_all :: "string list \<Rightarrow> string" where
  "dotted_all [] = []"
| "dotted_all (s # ss) = s @ CHR ''.'' # dotted_all ss"

lemma dotted_join: "ss \<noteq> [] \<Longrightarrow> join ''.'' ss @ ''.'' = dotted_all ss"
proof (induction ss)
  case (Cons s ss)
  then show ?case by (cases ss) simp_all
qed simp

lemma prefix_dotted:
  "list_all dotless gs \<Longrightarrow> list_all dotless ss \<Longrightarrow> prefix (dotted_all gs) (dotted_all ss) \<longleftrightarrow> prefix gs ss"
proof (induction gs arbitrary: ss)
  case (Cons g gs)
  show ?case
  proof (cases ss)
    case (Cons s ss')
    then show ?thesis using Cons.prems Cons.IH [of ss'] by (simp add: prefix_at_dot dotless_def)
  qed (use Cons.prems in \<open>simp add: dotless_def\<close>)
qed simp

text \<open>A group selects the queries of its own and of the groups below it, for names without a dot: the one
  named \<open>etl.adhoc\<close> is not the one named \<open>global.adhoc\<close>.\<close>

theorem group_filter_is_subtree:
  assumes "gs \<noteq> []" "path \<noteq> []" "list_all dotless gs" "list_all dotless path"
    and "dget ''resource_group_id'' row = JList (map JStr path)"
  shows "in_resource_group sh row (join ''.'' gs) \<longleftrightarrow> prefix gs path"
proof -
  let ?g = "join ''.'' gs" and ?d = "join ''.'' path"
  have d: "dotted sh (map JStr path) = ?d" by (simp add: dotted_def comp_def str_of_def)
  have ne: "?g \<noteq> []" using assms(1,3) by (cases gs; cases "tl gs") (auto simp: dotless_def)
  have "take (length ?g + 1) ?d = ?g @ ''.'' \<longleftrightarrow> prefix (?g @ ''.'') ?d"
    by (auto simp: prefix_def) (metis append_take_drop_id append.assoc append_Cons append_Nil)
  then have "in_resource_group sh row ?g \<longleftrightarrow> ?d = ?g \<or> prefix (?g @ ''.'') ?d"
    using assms(2,5) ne by (simp add: in_resource_group_def group_path_def d Let_def)
  also have "\<dots> \<longleftrightarrow> prefix (?g @ ''.'') (?d @ ''.'')" by (auto simp: prefix_snoc)
  also have "\<dots> \<longleftrightarrow> prefix gs path" using prefix_dotted assms(1-4) by (simp add: dotted_join)
  finally show ?thesis .
qed

text \<open>The merged list looks for the text among the single names: a dotted path finds nothing there.\<close>

lemma dotted_group_finds_nothing:
  assumes "CHR ''.'' \<in> set g" "list_all dotless path" "dget ''resource_group_id'' row = JList (map JStr path)"
  shows "names_group g row = Inr False"
  using assms by (auto simp: names_group_def list_all_iff dotless_def Let_def)

end
