(* ===== verification/Config.thy ===== *)
theory Config
  imports FleetJobs QuerySet HealthWriter
begin

text \<open>
  Loading the configuration (\<^verbatim>\<open>core/config.py\<close>): two files and the environment merged into one mapping, and the
  mapping turned into a configuration or refused. What YAML decodes to is a JSON value with text keys; reading
  a file and asking whether it is there are arguments. \<open>str\<close> of a value that is no text and \<open>float\<close> of a text
  are arguments too. Messages are constructors.
\<close>

section \<open>Secrets\<close>

datatype secret = Secret (reveal: string)

definition show_secret :: "secret \<Rightarrow> string" where "show_secret s = ''***''"
definition repr_secret :: "secret \<Rightarrow> string" where "repr_secret s = ''Secret(***)''"

section \<open>Errors\<close>

datatype config_message =
    NoClusters | ClusterNoMapping nat | ClusterNoName nat | ClusterNoUrl json | DuplicateCluster json | BadWorkers json
  | BadSource string | SourceNoClusters | HandWritten string
  | JobsInvalid job_exn | FleetNoInventories | FleetRelative string | FleetNoAddress | NotPositive string
  | QuerySetsMoved | MaxRepetitions int | DefaultRepetitions int int | PauseNegative
  | BadMode string | AnsibleNoPlaybook | NoInventoryFor "string list" | UnknownInventories "string list"
  | ScanNoInventoryFor "string list" | UnknownDevelopment "string list"
  | SamePlaybook string string | NoDevelopment string | EditNeedsScan
  | GatewayNoUrl | BadSchema string | StaleBelowPoll rat rat | Required string string
  | FileDeniedTo string | FileIsDirectory string | NotTopMapping string | Unreachable string

datatype config_exn = ConfigError config_message | Interp py_exn | FileNotFound string | YamlError string

record conf_env =
  co_shown :: "json \<Rightarrow> string"
  co_float :: "string \<Rightarrow> rat option"

definition ensure :: "bool \<Rightarrow> config_message \<Rightarrow> config_exn + unit" where
  "ensure b m = (if b then Inr () else Inl (ConfigError m))"

section \<open>Reading a value\<close>

definition interp :: "py_exn + 'a \<Rightarrow> config_exn + 'a" where
  "interp x = map_sum Interp id x"

definition cf_dict :: "json \<Rightarrow> config_exn + json pydict" where
  "cf_dict j = interp (or_dict j)"

definition cf_section :: "string \<Rightarrow> json pydict \<Rightarrow> config_exn + json pydict" where
  "cf_section k fs = cf_dict (dget k fs)"

definition cf_text :: "conf_env \<Rightarrow> string \<Rightarrow> string \<Rightarrow> json pydict \<Rightarrow> string" where
  "cf_text e k d fs = (let v = dget k fs in if truthy v then str_of (co_shown e) v else d)"

definition cf_bool :: "string \<Rightarrow> bool \<Rightarrow> json pydict \<Rightarrow> bool" where
  "cf_bool k d fs = truthy (get_or k (JBool d) fs)"

definition cf_float :: "conf_env \<Rightarrow> string \<Rightarrow> rat \<Rightarrow> json pydict \<Rightarrow> config_exn + rat" where
  "cf_float e k d fs = interp (to_float (co_float e) (get_or k (JNum d) fs))"

definition cf_int :: "string \<Rightarrow> int \<Rightarrow> json pydict \<Rightarrow> config_exn + int" where
  "cf_int k d fs = interp (to_int (get_or k (JNum (of_int d)) fs))"

definition cf_texts :: "conf_env \<Rightarrow> string \<Rightarrow> json pydict \<Rightarrow> config_exn + string pydict" where
  "cf_texts e k fs = map_sum id (map (\<lambda>(k, v). (k, str_of (co_shown e) v))) (cf_section k fs)"

text \<open>Iterating over \<open>x or []\<close>: a text gives its characters, a mapping its keys.\<close>

definition items_in :: "json \<Rightarrow> config_exn + json list" where
  "items_in j =
     (if \<not> truthy j then Inr []
      else case j of
             JList xs \<Rightarrow> Inr xs
           | JStr s \<Rightarrow> Inr (map (\<lambda>c. JStr [c]) s)
           | JObj fs \<Rightarrow> Inr (map (\<lambda>(k, v). JStr k) fs)
           | _ \<Rightarrow> Inl (Interp TypeError))"

section \<open>Merging\<close>

function deep_merge :: "json pydict \<Rightarrow> json pydict \<Rightarrow> json pydict" where
  "deep_merge base [] = base"
| "deep_merge base ((k, v) # rest) =
     deep_merge
       (dset k (case v of
                  JObj ov \<Rightarrow> (case map_of base k of Some (JObj b) \<Rightarrow> JObj (deep_merge b ov) | _ \<Rightarrow> v)
                | _ \<Rightarrow> v) base)
       rest"
  by pat_completeness auto

termination
  by (relation "measure (\<lambda>(base, overlay). size (JObj overlay))") auto

definition ENV_OVERRIDES :: "(string \<times> string \<times> string) list" where
  "ENV_OVERRIDES =
     [(''TMS_TRINO_PASSWORD'', ''trino'', ''password''), (''TMS_DATABASE_URL'', ''database'', ''url''),
      (''TMS_LDAP_BIND_PASSWORD'', ''ldap'', ''bind_password''), (''TMS_SESSION_SECRET'', ''portal'', ''session_secret''),
      (''TMS_GATEWAY_PASSWORD'', ''gateway'', ''password'')]"

text \<open>\<open>dict(x or {})\<close>: what is no mapping raises.\<close>

definition as_dict :: "json \<Rightarrow> config_exn + json pydict" where
  "as_dict j =
     (if \<not> truthy j then Inr []
      else case j of
             JObj fs \<Rightarrow> Inr fs
           | JStr s \<Rightarrow> Inl (Interp ValueError)
           | _ \<Rightarrow> Inl (Interp TypeError))"

fun apply_overrides ::
    "(string \<times> string \<times> string) list \<Rightarrow> string pydict \<Rightarrow> json pydict \<Rightarrow> config_exn + json pydict" where
  "apply_overrides [] environ raw = Inr raw"
| "apply_overrides ((name, sec, key) # rest) environ raw =
     (case map_of environ name of
        None \<Rightarrow> apply_overrides rest environ raw
      | Some v \<Rightarrow>
          (if v = [] then apply_overrides rest environ raw
           else then_view (as_dict (dget sec raw)) (\<lambda>m.
                apply_overrides rest environ (dset sec (JObj (dset key (JStr v) m)) raw))))"

definition apply_env :: "string pydict \<Rightarrow> json pydict \<Rightarrow> config_exn + json pydict" where
  "apply_env environ raw = apply_overrides ENV_OVERRIDES environ raw"

definition require :: "json pydict \<Rightarrow> string \<Rightarrow> string \<Rightarrow> config_exn + json" where
  "require raw sec key =
     then_view (cf_section sec raw) (\<lambda>fs.
     (let v = dget key fs
      in if v = JNull \<or> v = JStr [] then Inl (ConfigError (Required sec key)) else Inr v))"

section \<open>Clusters\<close>

record cluster_conf =
  cc_name :: json
  cc_url :: string
  cc_workers :: int
  cc_ui :: string
  cc_environment :: string

definition whole_number :: "json \<Rightarrow> int option" where
  "whole_number j =
     (case j of
        JNum n \<Rightarrow> (if of_int \<lfloor>n\<rfloor> = n then Some \<lfloor>n\<rfloor> else None)
      | JBool b \<Rightarrow> Some (if b then 1 else 0)
      | _ \<Rightarrow> None)"

definition hashable :: "json \<Rightarrow> bool" where
  "hashable j \<longleftrightarrow> (case j of JList xs \<Rightarrow> False | JObj fs \<Rightarrow> False | _ \<Rightarrow> True)"

definition build_cluster :: "conf_env \<Rightarrow> nat \<Rightarrow> json \<Rightarrow> json list \<Rightarrow> config_exn + cluster_conf" where
  "build_cluster e index entry seen_names =
     (case fields_of entry of
        None \<Rightarrow> Inl (ConfigError (ClusterNoMapping index))
      | Some fs \<Rightarrow>
          (let name = dget ''name'' fs; url = dget ''coordinator_url'' fs
           in then_view (ensure (truthy name) (ClusterNoName index)) (\<lambda>_.
              then_view (ensure (truthy url) (ClusterNoUrl name)) (\<lambda>_.
              then_view (if hashable name then Inr () else Inl (Interp TypeError)) (\<lambda>_.
              then_view (ensure (name \<notin> set seen_names) (DuplicateCluster name)) (\<lambda>_.
              (case whole_number (dget ''expected_workers'' fs) of
                 None \<Rightarrow> Inl (ConfigError (BadWorkers name))
               | Some w \<Rightarrow>
                   then_view (ensure (w \<ge> 0) (BadWorkers name)) (\<lambda>_.
                   Inr \<lparr>cc_name = name, cc_url = rstrip_char (CHR ''/'') (str_of (co_shown e) url), cc_workers = w,
                        cc_ui = cf_text e ''trino_ui_url'' [] fs,
                        cc_environment = strip (cf_text e ''node_environment'' [] fs)\<rparr>))))))))"

fun build_clusters_from :: "conf_env \<Rightarrow> nat \<Rightarrow> json list \<Rightarrow> json list \<Rightarrow> config_exn + cluster_conf list" where
  "build_clusters_from e i [] seen_names = Inr []"
| "build_clusters_from e i (x # xs) seen_names =
     then_view (build_cluster e i x seen_names) (\<lambda>c.
     then_view (build_clusters_from e (Suc i) xs (cc_name c # seen_names)) (\<lambda>cs. Inr (c # cs)))"

definition build_clusters :: "conf_env \<Rightarrow> json pydict \<Rightarrow> config_exn + cluster_conf list" where
  "build_clusters e raw =
     then_view (items_in (dget ''clusters'' raw)) (\<lambda>entries.
     then_view (ensure (entries \<noteq> []) NoClusters) (\<lambda>_. build_clusters_from e 0 entries []))"

text \<open>\<open>[str(c.get("name")) for c in clusters if c.get("name")]\<close>\<close>

definition configured_names :: "conf_env \<Rightarrow> json pydict \<Rightarrow> config_exn + string list" where
  "configured_names e raw =
     then_view (items_in (dget ''clusters'' raw)) (\<lambda>entries.
     map_sum id (\<lambda>fss. map (\<lambda>fs. str_of (co_shown e) (dget ''name'' fs)) (filter (\<lambda>fs. truthy (dget ''name'' fs)) fss))
       (map_exn (\<lambda>c. case fields_of c of None \<Rightarrow> Inl (Interp AttributeError) | Some fs \<Rightarrow> Inr fs) entries))"

section \<open>The owner of the node list\<close>

definition SOURCE_INVENTORY :: string where "SOURCE_INVENTORY = ''inventory''"
definition SOURCE_TMS :: string where "SOURCE_TMS = ''tms''"
definition DEFAULT_STATE_DIR :: string where "DEFAULT_STATE_DIR = ''/var/lib/trino-management-service''"

definition generated_inventories :: "conf_env \<Rightarrow> json pydict \<Rightarrow> config_exn + string pydict option" where
  "generated_inventories e whole =
     then_view (cf_section ''fleet'' whole) (\<lambda>fl.
     (let source = lower (strip (cf_text e ''source'' SOURCE_INVENTORY fl))
      in if source = SOURCE_INVENTORY then Inr None
         else then_view (ensure (source = SOURCE_TMS) (BadSource source)) (\<lambda>_.
              then_view (cf_section ''cluster_ops'' whole) (\<lambda>ops.
              then_view (cf_section ''ansible'' ops) (\<lambda>ans.
              then_view (configured_names e whole) (\<lambda>names.
              then_view (ensure (names \<noteq> []) SourceNoClusters) (\<lambda>_.
              Inr (Some (fold (\<lambda>n. dset n (path_join (path_join (cf_text e ''state_dir'' DEFAULT_STATE_DIR ans) ''inventory'')
                                            (n @ ''.ini''))) names [])))))))))"

definition inventories_of ::
    "conf_env \<Rightarrow> json pydict \<Rightarrow> string \<Rightarrow> json pydict \<Rightarrow> config_exn + bool \<times> string pydict" where
  "inventories_of e whole where_set fs =
     then_view (cf_texts e ''inventories'' fs) (\<lambda>given_invs.
     then_view (generated_inventories e whole) (\<lambda>gen.
     (case gen of
        None \<Rightarrow> Inr (False, given_invs)
      | Some invs \<Rightarrow> then_view (ensure (given_invs = []) (HandWritten where_set)) (\<lambda>_. Inr (True, invs)))))"

section \<open>The fleet\<close>

record fleet_conf =
  fc_enabled :: bool
  fc_interval :: rat
  fc_source :: string
  fc_inventories :: "string pydict"
  fc_template :: string
  fc_jobs :: "json pydict"
  fc_shutdown :: rat

fun all_absolute :: "string pydict \<Rightarrow> config_exn + unit" where
  "all_absolute [] = Inr ()"
| "all_absolute ((c, path) # rest) = then_view (ensure (isabs path) (FleetRelative c)) (\<lambda>_. all_absolute rest)"

definition check_jobs :: "conf_env \<Rightarrow> json pydict \<Rightarrow> config_exn + unit" where
  "check_jobs e given_jobs =
     (case build_jobs (co_shown e) (co_float e) given_jobs of
        Inr _ \<Rightarrow> Inr ()
      | Inl (Interpreter x) \<Rightarrow> Inl (Interp x)
      | Inl x \<Rightarrow> Inl (ConfigError (JobsInvalid x)))"

definition check_fleet_conf :: "fleet_conf \<Rightarrow> config_exn + unit" where
  "check_fleet_conf f =
     (if \<not> fc_enabled f then Inr ()
      else then_view (ensure (fc_inventories f \<noteq> []) FleetNoInventories) (\<lambda>_.
           then_view (all_absolute (sort_by fst (fc_inventories f))) (\<lambda>_.
           then_view (ensure (has_sub ''{address}'' (fc_template f)) FleetNoAddress) (\<lambda>_.
           then_view (ensure (fc_interval f > 0) (NotPositive ''fleet.poll_interval_seconds'')) (\<lambda>_.
           ensure (fc_shutdown f > 0) (NotPositive ''fleet.shutdown_timeout_seconds''))))))"

definition build_fleet :: "conf_env \<Rightarrow> json pydict \<Rightarrow> json pydict \<Rightarrow> config_exn + fleet_conf" where
  "build_fleet e raw whole =
     then_view (inventories_of e whole ''fleet.inventories'' raw) (\<lambda>(gen, invs).
     then_view (cf_float e ''poll_interval_seconds'' 60 raw) (\<lambda>interval.
     then_view (cf_float e ''shutdown_timeout_seconds'' 900 raw) (\<lambda>shutdown.
     then_view (cf_section ''jobs'' raw) (\<lambda>jobs.
     then_view (check_jobs e jobs) (\<lambda>_.
     (let f = \<lparr>fc_enabled = cf_bool ''enabled'' False raw, fc_interval = interval,
               fc_source = (if gen then SOURCE_TMS else SOURCE_INVENTORY), fc_inventories = invs,
               fc_template = cf_text e ''node_url_template'' [] raw, fc_jobs = jobs, fc_shutdown = shutdown\<rparr>
      in then_view (check_fleet_conf f) (\<lambda>_. Inr f)))))))"

section \<open>Benchmarks\<close>

record benchmark_conf =
  bf_enabled :: bool
  bf_default :: int
  bf_max :: int
  bf_timeout :: rat
  bf_pause :: rat

definition REPETITION_BOUND :: int where "REPETITION_BOUND = 20"

definition build_benchmark :: "conf_env \<Rightarrow> json pydict \<Rightarrow> config_exn + benchmark_conf" where
  "build_benchmark e raw =
     then_view (ensure (\<not> truthy (dget ''query_sets'' raw)) QuerySetsMoved) (\<lambda>_.
     then_view (cf_int ''default_repetitions'' 3 raw) (\<lambda>default_reps.
     then_view (cf_int ''max_repetitions'' REPETITION_BOUND raw) (\<lambda>max_reps.
     then_view (cf_float e ''timeout_seconds'' 600 raw) (\<lambda>timeout.
     then_view (cf_float e ''pause_seconds'' 1 raw) (\<lambda>pause.
     then_view (ensure (1 \<le> max_reps \<and> max_reps \<le> REPETITION_BOUND) (MaxRepetitions max_reps)) (\<lambda>_.
     then_view (ensure (1 \<le> default_reps \<and> default_reps \<le> max_reps) (DefaultRepetitions default_reps max_reps)) (\<lambda>_.
     then_view (ensure (timeout > 0) (NotPositive ''benchmark.timeout_seconds'')) (\<lambda>_.
     then_view (ensure (pause \<ge> 0) PauseNegative) (\<lambda>_.
     Inr \<lparr>bf_enabled = cf_bool ''enabled'' False raw, bf_default = default_reps, bf_max = max_reps,
          bf_timeout = timeout, bf_pause = pause\<rparr>)))))))))"

section \<open>Restarts and deployments\<close>

record ansible_conf =
  an_playbook :: string
  an_binary :: string
  an_timeout :: rat
  an_state_dir :: string
  an_inventories :: "string pydict"
  an_extra :: "string pydict"

record scan_conf =
  sf_playbook :: string
  sf_timeout :: rat
  sf_development :: "string list"

record deploy_conf =
  df_playbook :: string
  df_timeout :: rat

definition scan_enabled :: "scan_conf \<Rightarrow> bool" where
  "scan_enabled s \<longleftrightarrow> sf_playbook s \<noteq> []"

definition deploy_enabled :: "deploy_conf \<Rightarrow> bool" where
  "deploy_enabled d \<longleftrightarrow> df_playbook d \<noteq> []"

record ops_conf =
  oc_mode :: string
  oc_drain :: rat
  oc_ansible :: ansible_conf
  oc_scan :: scan_conf
  oc_catalog :: deploy_conf
  oc_edit :: deploy_conf

definition missing_names :: "string list \<Rightarrow> string pydict \<Rightarrow> string list" where
  "missing_names names invs = filter (\<lambda>n. map_of invs n = None) names"

definition stray_names :: "string list \<Rightarrow> string list \<Rightarrow> string list" where
  "stray_names given_names names = filter (\<lambda>n. names \<noteq> [] \<and> n \<notin> set names) given_names"

definition check_ansible :: "conf_env \<Rightarrow> json pydict \<Rightarrow> string \<Rightarrow> ansible_conf \<Rightarrow> config_exn + unit" where
  "check_ansible e whole mode a =
     (if mode \<noteq> ''ansible'' then Inr ()
      else then_view (ensure (an_playbook a \<noteq> []) AnsibleNoPlaybook) (\<lambda>_.
           then_view (ensure (an_timeout a > 0) (NotPositive ''cluster_ops.ansible.timeout_seconds'')) (\<lambda>_.
           then_view (configured_names e whole) (\<lambda>names.
           then_view (ensure (missing_names names (an_inventories a) = [])
                        (NoInventoryFor (missing_names names (an_inventories a)))) (\<lambda>_.
           ensure (stray_names (map fst (an_inventories a)) names = [])
             (UnknownInventories (stray_names (map fst (an_inventories a)) names)))))))"

definition check_scan :: "conf_env \<Rightarrow> json pydict \<Rightarrow> ansible_conf \<Rightarrow> scan_conf \<Rightarrow> config_exn + unit" where
  "check_scan e whole a s =
     (if \<not> scan_enabled s then Inr ()
      else then_view (ensure (sf_timeout s > 0) (NotPositive ''cluster_ops.config_scan.timeout_seconds'')) (\<lambda>_.
           then_view (configured_names e whole) (\<lambda>names.
           then_view (ensure (missing_names names (an_inventories a) = [])
                        (ScanNoInventoryFor (missing_names names (an_inventories a)))) (\<lambda>_.
           ensure (stray_names (sf_development s) names = []) (UnknownDevelopment (stray_names (sf_development s) names))))))"

definition check_catalog_deploy :: "ansible_conf \<Rightarrow> scan_conf \<Rightarrow> deploy_conf \<Rightarrow> config_exn + unit" where
  "check_catalog_deploy a s d =
     (if \<not> deploy_enabled d then Inr ()
      else then_view (ensure (df_timeout d > 0) (NotPositive ''cluster_ops.catalog_deploy.timeout_seconds'')) (\<lambda>_.
           then_view (ensure (df_playbook d \<noteq> an_playbook a) (SamePlaybook ''catalog_deploy'' ''restart'')) (\<lambda>_.
           then_view (ensure (df_playbook d \<noteq> sf_playbook s) (SamePlaybook ''catalog_deploy'' ''config scan'')) (\<lambda>_.
           ensure (sf_development s \<noteq> []) (NoDevelopment ''catalog_deploy'')))))"

definition check_config_deploy :: "ansible_conf \<Rightarrow> scan_conf \<Rightarrow> deploy_conf \<Rightarrow> deploy_conf \<Rightarrow> config_exn + unit" where
  "check_config_deploy a s c d =
     (if \<not> deploy_enabled d then Inr ()
      else then_view (ensure (df_timeout d > 0) (NotPositive ''cluster_ops.config_deploy.timeout_seconds'')) (\<lambda>_.
           then_view (ensure (df_playbook d \<noteq> an_playbook a) (SamePlaybook ''config_deploy'' ''restart'')) (\<lambda>_.
           then_view (ensure (df_playbook d \<noteq> sf_playbook s) (SamePlaybook ''config_deploy'' ''config scan'')) (\<lambda>_.
           then_view (ensure (df_playbook d \<noteq> df_playbook c) (SamePlaybook ''config_deploy'' ''catalog deploy'')) (\<lambda>_.
           then_view (ensure (scan_enabled s) EditNeedsScan) (\<lambda>_.
           ensure (sf_development s \<noteq> []) (NoDevelopment ''config_deploy'')))))))"

definition build_ansible :: "conf_env \<Rightarrow> json pydict \<Rightarrow> json pydict \<Rightarrow> config_exn + ansible_conf" where
  "build_ansible e raw whole =
     then_view (cf_section ''ansible'' raw) (\<lambda>fs.
     then_view (inventories_of e whole ''cluster_ops.ansible.inventories'' fs) (\<lambda>(gen, invs).
     then_view (cf_float e ''timeout_seconds'' 1800 fs) (\<lambda>timeout.
     then_view (cf_texts e ''extra_vars'' fs) (\<lambda>extra.
     Inr \<lparr>an_playbook = cf_text e ''playbook'' [] fs, an_binary = cf_text e ''binary'' ''ansible-playbook'' fs,
          an_timeout = timeout, an_state_dir = cf_text e ''state_dir'' DEFAULT_STATE_DIR fs, an_inventories = invs,
          an_extra = extra\<rparr>))))"

definition build_scan :: "conf_env \<Rightarrow> json pydict \<Rightarrow> config_exn + scan_conf" where
  "build_scan e raw =
     then_view (cf_section ''config_scan'' raw) (\<lambda>fs.
     then_view (items_in (dget ''development_clusters'' fs)) (\<lambda>devs.
     then_view (cf_float e ''timeout_seconds'' 600 fs) (\<lambda>timeout.
     Inr \<lparr>sf_playbook = cf_text e ''playbook'' [] fs, sf_timeout = timeout,
          sf_development = map (str_of (co_shown e)) devs\<rparr>)))"

definition build_deploy :: "conf_env \<Rightarrow> string \<Rightarrow> json pydict \<Rightarrow> config_exn + deploy_conf" where
  "build_deploy e k raw =
     then_view (cf_section k raw) (\<lambda>fs.
     then_view (cf_float e ''timeout_seconds'' 900 fs) (\<lambda>timeout.
     Inr \<lparr>df_playbook = cf_text e ''playbook'' [] fs, df_timeout = timeout\<rparr>))"

definition build_cluster_ops :: "conf_env \<Rightarrow> json pydict \<Rightarrow> json pydict \<Rightarrow> config_exn + ops_conf" where
  "build_cluster_ops e raw whole =
     (let mode = lower (strip (cf_text e ''restart_mode'' ''manual'' raw))
      in then_view (ensure (mode \<in> {''manual'', ''ansible''}) (BadMode mode)) (\<lambda>_.
         then_view (build_ansible e raw whole) (\<lambda>a.
         then_view (check_ansible e whole mode a) (\<lambda>_.
         then_view (cf_float e ''drain_timeout_seconds'' 900 raw) (\<lambda>drain.
         then_view (ensure (drain > 0) (NotPositive ''cluster_ops.drain_timeout_seconds'')) (\<lambda>_.
         then_view (build_scan e raw) (\<lambda>s.
         then_view (check_scan e whole a s) (\<lambda>_.
         then_view (build_deploy e ''catalog_deploy'' raw) (\<lambda>cat.
         then_view (check_catalog_deploy a s cat) (\<lambda>_.
         then_view (build_deploy e ''config_deploy'' raw) (\<lambda>edit.
         then_view (check_config_deploy a s cat edit) (\<lambda>_.
         Inr \<lparr>oc_mode = mode, oc_drain = drain, oc_ansible = a, oc_scan = s, oc_catalog = cat, oc_edit = edit\<rparr>))))))))))))"

section \<open>The other sections\<close>

record gateway_conf =
  gf_enabled :: bool
  gf_url :: string
  gf_user :: string
  gf_password :: secret
  gf_interval :: rat

definition build_gateway :: "conf_env \<Rightarrow> json pydict \<Rightarrow> config_exn + gateway_conf" where
  "build_gateway e fs =
     then_view (cf_float e ''poll_interval_seconds'' 30 fs) (\<lambda>interval.
     (let g = \<lparr>gf_enabled = cf_bool ''enabled'' False fs, gf_url = rstrip_char (CHR ''/'') (cf_text e ''base_url'' [] fs),
               gf_user = cf_text e ''user'' [] fs, gf_password = Secret (cf_text e ''password'' [] fs), gf_interval = interval\<rparr>
      in then_view (ensure (\<not> (gf_enabled g \<and> gf_url g = [])) GatewayNoUrl) (\<lambda>_. Inr g)))"

record workload_conf =
  wf_enabled :: bool
  wf_interval :: rat

definition build_workload :: "conf_env \<Rightarrow> json pydict \<Rightarrow> config_exn + workload_conf" where
  "build_workload e fs =
     then_view (cf_float e ''poll_interval_seconds'' 15 fs) (\<lambda>interval.
     then_view (ensure (interval > 0) (NotPositive ''workload.poll_interval_seconds'')) (\<lambda>_.
     Inr \<lparr>wf_enabled = cf_bool ''enabled'' False fs, wf_interval = interval\<rparr>))"

record groups_conf =
  rf_enabled :: bool
  rf_schema :: string
  rf_provider :: bool

text \<open>\<open>$\<close> also matches before a final newline.\<close>

definition valid_schema_name :: "string \<Rightarrow> bool" where
  "valid_schema_name name =
     (let n = (if name \<noteq> [] \<and> last name = CHR 0x0A then butlast name else name)
      in n \<noteq> [] \<and> list_all (\<lambda>c. is_ascii_alnum c \<or> c = CHR ''_'') n \<and> \<not> is_ascii_digit (hd n))"

definition build_groups :: "conf_env \<Rightarrow> json pydict \<Rightarrow> config_exn + groups_conf" where
  "build_groups e fs =
     (let r = \<lparr>rf_enabled = cf_bool ''enabled'' False fs, rf_schema = cf_text e ''schema'' ''trino_resource_groups'' fs,
               rf_provider = cf_bool ''group_provider_configured'' False fs\<rparr>
      in then_view (ensure (\<not> rf_enabled r \<or> valid_schema_name (rf_schema r)) (BadSchema (rf_schema r))) (\<lambda>_. Inr r))"

record collector_conf =
  lf_query :: rat
  lf_jmx :: rat
  lf_info :: rat
  lf_stale :: rat
  lf_text_max :: int
  lf_backoff_bytes :: int
  lf_backoff_interval :: rat

definition build_collector :: "conf_env \<Rightarrow> json pydict \<Rightarrow> config_exn + collector_conf" where
  "build_collector e fs =
     then_view (cf_float e ''query_poll_interval_seconds'' 5 fs) (\<lambda>q.
     then_view (cf_float e ''jmx_poll_interval_seconds'' 15 fs) (\<lambda>j.
     then_view (cf_float e ''info_poll_interval_seconds'' 30 fs) (\<lambda>i.
     then_view (cf_float e ''stale_threshold_seconds'' 30 fs) (\<lambda>st.
     then_view (cf_int ''query_text_max_bytes'' 4096 fs) (\<lambda>t.
     then_view (cf_int ''response_backoff_bytes'' 5000000 fs) (\<lambda>b.
     then_view (cf_float e ''response_backoff_interval_seconds'' 10 fs) (\<lambda>bi.
     then_view (ensure (q > 0) (NotPositive ''collector.query_poll_interval_seconds'')) (\<lambda>_.
     then_view (ensure (st \<ge> q) (StaleBelowPoll st q)) (\<lambda>_.
     Inr \<lparr>lf_query = q, lf_jmx = j, lf_info = i, lf_stale = st, lf_text_max = t, lf_backoff_bytes = b,
          lf_backoff_interval = bi\<rparr>)))))))))"

record trino_conf =
  tf_user :: string
  tf_password :: secret
  tf_verify :: bool
  tf_connect :: rat
  tf_read :: rat
  tf_write :: rat
  tf_retries :: int
  tf_failures :: int
  tf_reset :: rat

definition build_trino :: "conf_env \<Rightarrow> json pydict \<Rightarrow> json pydict \<Rightarrow> config_exn + trino_conf" where
  "build_trino e fs raw =
     then_view (require raw ''trino'' ''user'') (\<lambda>user.
     then_view (require raw ''trino'' ''password'') (\<lambda>password.
     then_view (cf_float e ''connect_timeout_seconds'' 2 fs) (\<lambda>c.
     then_view (cf_float e ''read_timeout_seconds'' 5 fs) (\<lambda>r.
     then_view (cf_float e ''write_timeout_seconds'' 10 fs) (\<lambda>w.
     then_view (cf_int ''read_retries'' 2 fs) (\<lambda>n.
     then_view (cf_int ''circuit_breaker_failures'' 5 fs) (\<lambda>k.
     then_view (cf_float e ''circuit_breaker_reset_seconds'' 30 fs) (\<lambda>s.
     Inr \<lparr>tf_user = str_of (co_shown e) user, tf_password = Secret (str_of (co_shown e) password),
          tf_verify = cf_bool ''verify_tls'' True fs, tf_connect = c, tf_read = r, tf_write = w, tf_retries = n,
          tf_failures = k, tf_reset = s\<rparr>))))))))"

record health_conf =
  hf_stabilization :: int
  hf_long_running :: rat
  hf_thresholds :: "json pydict"

definition build_health :: "conf_env \<Rightarrow> json pydict \<Rightarrow> config_exn + health_conf" where
  "build_health e fs =
     then_view (cf_int ''stabilization_polls'' 3 fs) (\<lambda>n.
     then_view (cf_float e ''long_running_query_seconds'' 300 fs) (\<lambda>l.
     then_view (as_dict (dget ''thresholds'' fs)) (\<lambda>t.
     Inr \<lparr>hf_stabilization = n, hf_long_running = l, hf_thresholds = t\<rparr>)))"

record deeplink_conf =
  kf_log_template :: string
  kf_padding :: int
  kf_history :: string
  kf_history_home :: string
  kf_grafana :: string
  kf_superset :: string

definition build_deeplinks :: "conf_env \<Rightarrow> json pydict \<Rightarrow> config_exn + deeplink_conf" where
  "build_deeplinks e fs =
     then_view (cf_section ''log'' fs) (\<lambda>lg.
     then_view (cf_int ''padding_seconds'' 300 lg) (\<lambda>pad.
     then_view (cf_section ''query_history'' fs) (\<lambda>hist.
     then_view (cf_section ''grafana'' fs) (\<lambda>graf.
     Inr \<lparr>kf_log_template = cf_text e ''template'' [] lg, kf_padding = pad,
          kf_history = cf_text e ''query_url_template'' [] hist, kf_history_home = cf_text e ''home_url'' [] hist,
          kf_grafana = cf_text e ''cluster_dashboard'' [] graf, kf_superset = cf_text e ''superset_url'' [] fs\<rparr>))))"

record portal_conf =
  pf_idle :: int
  pf_absolute :: int
  pf_secret :: secret
  pf_users :: "json pydict"

definition build_portal :: "conf_env \<Rightarrow> json pydict \<Rightarrow> config_exn + portal_conf" where
  "build_portal e fs =
     then_view (cf_int ''session_idle_timeout_minutes'' 30 fs) (\<lambda>i.
     then_view (cf_int ''session_absolute_timeout_hours'' 12 fs) (\<lambda>a.
     then_view (as_dict (dget ''local_users'' fs)) (\<lambda>us.
     Inr \<lparr>pf_idle = i, pf_absolute = a, pf_secret = Secret (cf_text e ''session_secret'' [] fs), pf_users = us\<rparr>)))"

section \<open>The configuration\<close>

record tms_config =
  cg_clusters :: "cluster_conf list"
  cg_trino :: trino_conf
  cg_database :: secret
  cg_collector :: collector_conf
  cg_counted :: bool
  cg_gateway :: gateway_conf
  cg_workload :: workload_conf
  cg_ops :: ops_conf
  cg_fleet :: fleet_conf
  cg_groups :: groups_conf
  cg_benchmark :: benchmark_conf
  cg_health :: health_conf
  cg_links :: deeplink_conf
  cg_portal :: portal_conf
  cg_host :: string
  cg_port :: int

definition build_config :: "conf_env \<Rightarrow> json pydict \<Rightarrow> config_exn + tms_config" where
  "build_config e raw =
     then_view (cf_section ''gateway'' raw) (\<lambda>gw. then_view (build_gateway e gw) (\<lambda>gateway.
     then_view (cf_section ''workload'' raw) (\<lambda>wl. then_view (build_workload e wl) (\<lambda>workload.
     then_view (cf_section ''cluster_ops'' raw) (\<lambda>co. then_view (build_cluster_ops e co raw) (\<lambda>ops.
     then_view (cf_section ''fleet'' raw) (\<lambda>fl. then_view (build_fleet e fl raw) (\<lambda>fleet.
     then_view (cf_section ''resource_groups'' raw) (\<lambda>rg. then_view (build_groups e rg) (\<lambda>groups.
     then_view (cf_section ''collector'' raw) (\<lambda>cl. then_view (build_collector e cl) (\<lambda>collector.
     then_view (cf_section ''deeplinks'' raw) (\<lambda>dl.
     then_view (build_clusters e raw) (\<lambda>clusters.
     then_view (cf_section ''trino'' raw) (\<lambda>tr. then_view (build_trino e tr raw) (\<lambda>trino.
     then_view (require raw ''database'' ''url'') (\<lambda>url.
     then_view (cf_section ''trino_facts'' raw) (\<lambda>facts.
     then_view (cf_section ''benchmark'' raw) (\<lambda>bm. then_view (build_benchmark e bm) (\<lambda>benchmark.
     then_view (cf_section ''health'' raw) (\<lambda>hl. then_view (build_health e hl) (\<lambda>health.
     then_view (build_deeplinks e dl) (\<lambda>links.
     then_view (cf_section ''portal'' raw) (\<lambda>pt. then_view (build_portal e pt) (\<lambda>portal.
     then_view (cf_section ''server'' raw) (\<lambda>sv. then_view (cf_int ''port'' 8500 sv) (\<lambda>port.
     Inr \<lparr>cg_clusters = clusters, cg_trino = trino, cg_database = Secret (str_of (co_shown e) url),
          cg_collector = collector, cg_counted = cf_bool ''coordinator_counted_in_active_nodes'' True facts,
          cg_gateway = gateway, cg_workload = workload, cg_ops = ops, cg_fleet = fleet, cg_groups = groups,
          cg_benchmark = benchmark, cg_health = health, cg_links = links, cg_portal = portal,
          cg_host = cf_text e ''host'' ''127.0.0.1'' sv, cg_port = port\<rparr>)))))))))))))))))))))))))))"

definition config_cluster :: "tms_config \<Rightarrow> json \<Rightarrow> cluster_conf option" where
  "config_cluster cfg name = find (\<lambda>c. cc_name c = name) (cg_clusters cfg)"

definition cluster_names :: "tms_config \<Rightarrow> json list" where
  "cluster_names cfg = map cc_name (cg_clusters cfg)"

section \<open>Files\<close>

datatype file_read = ReadMissing | ReadDenied | ReadIsDirectory | ReadBroken | ReadValue json
datatype file_stat = StatMissing | StatDenied | StatThere

definition read_yaml :: "string \<Rightarrow> file_read \<Rightarrow> config_exn + json pydict" where
  "read_yaml path r =
     (case r of
        ReadMissing \<Rightarrow> Inl (FileNotFound path)
      | ReadDenied \<Rightarrow> Inl (ConfigError (FileDeniedTo path))
      | ReadIsDirectory \<Rightarrow> Inl (ConfigError (FileIsDirectory path))
      | ReadBroken \<Rightarrow> Inl (YamlError path)
      | ReadValue v \<Rightarrow>
          (if v = JNull then Inr []
           else case fields_of v of None \<Rightarrow> Inl (ConfigError (NotTopMapping path)) | Some fs \<Rightarrow> Inr fs))"

definition secret_file_present :: "string \<Rightarrow> file_stat \<Rightarrow> config_exn + bool" where
  "secret_file_present path st =
     (case st of
        StatMissing \<Rightarrow> Inr False
      | StatDenied \<Rightarrow> Inl (ConfigError (Unreachable path))
      | StatThere \<Rightarrow> Inr True)"

record load_env =
  ld_conf :: conf_env
  ld_read :: "string \<Rightarrow> file_read"
  ld_stat :: "string \<Rightarrow> file_stat"
  ld_environ :: "string pydict"

definition dirname :: "string \<Rightarrow> string" where
  "dirname p =
     (let d = rev (dropWhile (\<lambda>c. c \<noteq> CHR ''/'') (rev p))
      in if list_all (\<lambda>c. c = CHR ''/'') d then d else rstrip_char (CHR ''/'') d)"

definition load_config :: "load_env \<Rightarrow> string \<Rightarrow> string option \<Rightarrow> config_exn + tms_config" where
  "load_config ld config_path secret_path =
     (let sp = (case secret_path of Some p \<Rightarrow> p | None \<Rightarrow> path_join (dirname config_path) ''config.secret.yaml'')
      in then_view (read_yaml config_path (ld_read ld config_path)) (\<lambda>base.
         then_view (secret_file_present sp (ld_stat ld sp)) (\<lambda>present.
         then_view (if present then map_sum id (deep_merge base) (read_yaml sp (ld_read ld sp)) else Inr base) (\<lambda>merged.
         then_view (apply_env (ld_environ ld) merged) (\<lambda>raw. build_config (ld_conf ld) raw)))))"

end
