(* ===== verification/ConfigProps.thy ===== *)
theory ConfigProps
  imports Config
begin

text \<open>
  What a configuration that was accepted is known to satisfy, what it is not, and which source of a
  credential wins.
\<close>

declare then_view_Inr [simp] map_sum_Inr [simp]

lemma ensure_Inr [simp]: "ensure b m = Inr u \<longleftrightarrow> b"
  by (simp add: ensure_def)

section \<open>Clusters\<close>

definition text_name :: "conf_env \<Rightarrow> cluster_conf \<Rightarrow> string" where
  "text_name e c = str_of (co_shown e) (cc_name c)"

lemma build_cluster_Inr:
  assumes "build_cluster e i x ns = Inr c"
  obtains fs where "fields_of x = Some fs" "dget ''name'' fs = cc_name c" "truthy (cc_name c)" "cc_name c \<notin> set ns" "0 \<le> cc_workers c"
  using assms by (auto simp: build_cluster_def Let_def split: option.splits if_splits)

lemma clusters_from:
  "build_clusters_from e i xs ns = Inr cs \<Longrightarrow>
   distinct (map cc_name cs) \<and> cc_name ` set cs \<inter> set ns = {} \<and> list_all (\<lambda>c. 0 \<le> cc_workers c) cs \<and>
   (\<exists>fss. map_exn (\<lambda>c. case fields_of c of None \<Rightarrow> Inl (Interp AttributeError) | Some fs \<Rightarrow> Inr fs) xs = Inr fss \<and>
      map (\<lambda>fs. str_of (co_shown e) (dget ''name'' fs)) (filter (\<lambda>fs. truthy (dget ''name'' fs)) fss) = map (text_name e) cs)"
proof (induction xs arbitrary: i ns cs)
  case (Cons x xs)
  then obtain c cs' where c: "build_cluster e i x ns = Inr c" and rest: "build_clusters_from e (Suc i) xs (cc_name c # ns) = Inr cs'"
    and cs: "cs = c # cs'" by auto
  obtain fs where fs: "fields_of x = Some fs" "dget ''name'' fs = cc_name c" "truthy (cc_name c)" "cc_name c \<notin> set ns" "0 \<le> cc_workers c"
    using build_cluster_Inr [OF c] .
  show ?case using Cons.IH [OF rest] fs by (auto simp: cs text_name_def)
qed simp

lemma clusters_built:
  assumes "build_clusters e raw = Inr cs"
  shows "cs \<noteq> []" "distinct (map cc_name cs)" "list_all (\<lambda>c. 0 \<le> cc_workers c) cs"
    "configured_names e raw = Inr (map (text_name e) cs)"
proof -
  obtain xs where xs: "items_in (dget ''clusters'' raw) = Inr xs" "xs \<noteq> []" "build_clusters_from e 0 xs [] = Inr cs"
    using assms by (auto simp: build_clusters_def)
  show "distinct (map cc_name cs)" "list_all (\<lambda>c. 0 \<le> cc_workers c) cs"
    "configured_names e raw = Inr (map (text_name e) cs)"
    using clusters_from [OF xs(3)] xs(1) by (auto simp: configured_names_def)
  show "cs \<noteq> []" using xs(2,3) by (cases xs) auto
qed

section \<open>Accepted configurations\<close>

definition all_have_inventories :: "conf_env \<Rightarrow> cluster_conf list \<Rightarrow> string pydict \<Rightarrow> bool" where
  "all_have_inventories e cs invs \<longleftrightarrow> list_all (\<lambda>c. map_of invs (text_name e c) \<noteq> None) cs"

definition only_known :: "conf_env \<Rightarrow> cluster_conf list \<Rightarrow> string list \<Rightarrow> bool" where
  "only_known e cs names \<longleftrightarrow> set names \<subseteq> text_name e ` set cs"

definition ansible_ok :: "conf_env \<Rightarrow> cluster_conf list \<Rightarrow> ops_conf \<Rightarrow> bool" where
  "ansible_ok e cs oc \<longleftrightarrow>
     (if oc_mode oc = ''ansible''
      then an_playbook (oc_ansible oc) \<noteq> [] \<and> an_timeout (oc_ansible oc) > 0 \<and>
           all_have_inventories e cs (an_inventories (oc_ansible oc)) \<and>
           only_known e cs (map fst (an_inventories (oc_ansible oc)))
      else oc_mode oc = ''manual'')"

definition scan_ok :: "conf_env \<Rightarrow> cluster_conf list \<Rightarrow> ops_conf \<Rightarrow> bool" where
  "scan_ok e cs oc \<longleftrightarrow>
     (if scan_enabled (oc_scan oc)
      then sf_timeout (oc_scan oc) > 0 \<and> all_have_inventories e cs (an_inventories (oc_ansible oc)) \<and>
           only_known e cs (sf_development (oc_scan oc))
      else True)"

text \<open>What writes on nodes has a playbook of its own and a development cluster to prove a change on.\<close>

definition deploys_ok :: "ops_conf \<Rightarrow> bool" where
  "deploys_ok oc \<longleftrightarrow>
     (if deploy_enabled (oc_catalog oc)
      then df_playbook (oc_catalog oc) \<notin> {an_playbook (oc_ansible oc), sf_playbook (oc_scan oc)} \<and>
           sf_development (oc_scan oc) \<noteq> [] \<and> df_timeout (oc_catalog oc) > 0
      else True) \<and>
     (if deploy_enabled (oc_edit oc)
      then df_playbook (oc_edit oc) \<notin> {an_playbook (oc_ansible oc), sf_playbook (oc_scan oc), df_playbook (oc_catalog oc)} \<and>
           scan_enabled (oc_scan oc) \<and> sf_development (oc_scan oc) \<noteq> [] \<and> df_timeout (oc_edit oc) > 0
      else True)"

definition fleet_ok :: "fleet_conf \<Rightarrow> bool" where
  "fleet_ok f \<longleftrightarrow>
     (if fc_enabled f
      then fc_inventories f \<noteq> [] \<and> list_all (\<lambda>(c, path). isabs path) (fc_inventories f) \<and>
           has_sub ''{address}'' (fc_template f) \<and> fc_interval f > 0 \<and> fc_shutdown f > 0
      else True)"

definition config_ok :: "conf_env \<Rightarrow> tms_config \<Rightarrow> bool" where
  "config_ok e cfg \<longleftrightarrow>
     cg_clusters cfg \<noteq> [] \<and> distinct (map cc_name (cg_clusters cfg)) \<and> list_all (\<lambda>c. 0 \<le> cc_workers c) (cg_clusters cfg) \<and>
     ansible_ok e (cg_clusters cfg) (cg_ops cfg) \<and> scan_ok e (cg_clusters cfg) (cg_ops cfg) \<and> deploys_ok (cg_ops cfg) \<and>
     oc_drain (cg_ops cfg) > 0 \<and> fleet_ok (cg_fleet cfg) \<and>
     lf_query (cg_collector cfg) > 0 \<and> lf_query (cg_collector cfg) \<le> lf_stale (cg_collector cfg) \<and>
     wf_interval (cg_workload cfg) > 0 \<and> (if gf_enabled (cg_gateway cfg) then gf_url (cg_gateway cfg) \<noteq> [] else True) \<and>
     1 \<le> bf_default (cg_benchmark cfg) \<and> bf_default (cg_benchmark cfg) \<le> bf_max (cg_benchmark cfg) \<and>
     bf_max (cg_benchmark cfg) \<le> REPETITION_BOUND \<and> bf_timeout (cg_benchmark cfg) > 0"

lemma missing_covers:
  "missing_names (map (text_name e) cs) invs = [] \<Longrightarrow> all_have_inventories e cs invs"
  by (auto simp: missing_names_def filter_empty_conv all_have_inventories_def list_all_iff)

lemma stray_known:
  "cs \<noteq> [] \<Longrightarrow> stray_names names (map (text_name e) cs) = [] \<Longrightarrow> only_known e cs names"
  by (auto simp: stray_names_def filter_empty_conv only_known_def)

lemma ops_ok:
  assumes "build_cluster_ops e co raw = Inr oc" "configured_names e raw = Inr (map (text_name e) cs)" "cs \<noteq> []"
  shows "ansible_ok e cs oc \<and> scan_ok e cs oc \<and> deploys_ok oc \<and> oc_drain oc > 0"
proof -
  have parts: "check_ansible e raw (oc_mode oc) (oc_ansible oc) = Inr ()" "check_scan e raw (oc_ansible oc) (oc_scan oc) = Inr ()"
    "check_catalog_deploy (oc_ansible oc) (oc_scan oc) (oc_catalog oc) = Inr ()"
    "check_config_deploy (oc_ansible oc) (oc_scan oc) (oc_catalog oc) (oc_edit oc) = Inr ()"
    "oc_drain oc > 0" "oc_mode oc \<in> {''manual'', ''ansible''}"
    using assms(1) by (auto simp: build_cluster_ops_def Let_def)
  have "ansible_ok e cs oc"
    using parts(1,6) assms(2,3) missing_covers stray_known
    by (auto simp: check_ansible_def ansible_ok_def split: if_splits)
  moreover have "scan_ok e cs oc"
    using parts(2) assms(2,3) missing_covers stray_known by (auto simp: check_scan_def scan_ok_def split: if_splits)
  moreover have "deploys_ok oc"
    using parts(3,4) by (auto simp: check_catalog_deploy_def check_config_deploy_def deploys_ok_def split: if_splits)
  ultimately show ?thesis using parts(5) by simp
qed

lemma all_absolute_Inr: "all_absolute invs = Inr () \<longleftrightarrow> list_all (\<lambda>(c, path). isabs path) invs"
  by (induction invs rule: all_absolute.induct) auto

lemma fleet_conf_ok: "build_fleet e fl raw = Inr f \<Longrightarrow> fleet_ok f"
proof -
  assume "build_fleet e fl raw = Inr f"
  then have "check_fleet_conf f = Inr ()" by (auto simp: build_fleet_def Let_def split: prod.splits)
  then show ?thesis
    by (auto simp: check_fleet_conf_def fleet_ok_def all_absolute_Inr list_all_iff split: if_splits)
qed

lemma build_config_Inr:
  assumes "build_config e raw = Inr cfg"
  obtains gw wl co fl cl tr bm pt url where
    "cf_section ''gateway'' raw = Inr gw" "build_gateway e gw = Inr (cg_gateway cfg)"
    "build_workload e wl = Inr (cg_workload cfg)" "build_cluster_ops e co raw = Inr (cg_ops cfg)"
    "build_fleet e fl raw = Inr (cg_fleet cfg)" "build_collector e cl = Inr (cg_collector cfg)"
    "build_clusters e raw = Inr (cg_clusters cfg)" "build_trino e tr raw = Inr (cg_trino cfg)"
    "build_benchmark e bm = Inr (cg_benchmark cfg)" "require raw ''database'' ''url'' = Inr url"
    "cg_database cfg = Secret (str_of (co_shown e) url)"
    "cf_section ''portal'' raw = Inr pt" "build_portal e pt = Inr (cg_portal cfg)"
  using assms by (auto simp: build_config_def)

lemma sections_ok:
  "build_collector e fs = Inr cl \<Longrightarrow> lf_query cl > 0 \<and> lf_query cl \<le> lf_stale cl"
  "build_workload e fs = Inr wl \<Longrightarrow> wf_interval wl > 0"
  "build_gateway e fs = Inr gw \<Longrightarrow> if gf_enabled gw then gf_url gw \<noteq> [] else True"
  "build_benchmark e fs = Inr bm \<Longrightarrow>
     1 \<le> bf_default bm \<and> bf_default bm \<le> bf_max bm \<and> bf_max bm \<le> REPETITION_BOUND \<and> bf_timeout bm > 0"
  by (auto simp: build_collector_def build_workload_def build_gateway_def build_benchmark_def Let_def)


section \<open>What is accepted nevertheless\<close>

definition plain_env :: conf_env where
  "plain_env = \<lparr>co_shown = (\<lambda>_. []), co_float = (\<lambda>_. None)\<rparr>"

definition minimal :: "json pydict" where
  "minimal =
     [(''clusters'', JList [JObj [(''name'', JStr ''dev''), (''coordinator_url'', JStr ''https://c''), (''expected_workers'', JNum 1)]]),
      (''trino'', JObj [(''user'', JStr ''tms''), (''password'', JStr ''pw'')]), (''database'', JObj [(''url'', JStr ''db'')])]"

definition shared_playbook :: "json pydict" where
  "shared_playbook =
     minimal @
     [(''cluster_ops'', JObj
        [(''restart_mode'', JStr ''ansible''),
         (''ansible'', JObj [(''playbook'', JStr ''/restart.yml''), (''inventories'', JObj [(''dev'', JStr ''/dev.ini'')])]),
         (''config_scan'', JObj [(''playbook'', JStr ''/restart.yml'')])])]"

text \<open>The scan, which anybody takes to be read-only, may be given the playbook that restarts the cluster.\<close>

lemma scan_may_restart:
  "case build_config plain_env shared_playbook of
     Inl x \<Rightarrow> False
   | Inr cfg \<Rightarrow> oc_mode (cg_ops cfg) = ''ansible'' \<and> scan_enabled (oc_scan (cg_ops cfg)) \<and>
       sf_playbook (oc_scan (cg_ops cfg)) = an_playbook (oc_ansible (cg_ops cfg))"
  by code_simp

text \<open>A staleness threshold equal to the interval of the polls is accepted.\<close>

lemma stale_as_written:
  "case build_config plain_env
      (minimal @ [(''collector'', JObj [(''query_poll_interval_seconds'', JNum 30), (''stale_threshold_seconds'', JNum 30)])]) of
     Inl x \<Rightarrow> False
   | Inr cfg \<Rightarrow> lf_stale (cg_collector cfg) = lf_query (cg_collector cfg)"
  by code_simp

section \<open>Where a credential comes from\<close>

lemma overrides_keep:
  "apply_overrides os env raw = Inr r \<Longrightarrow> sec \<notin> fst ` snd ` set os \<Longrightarrow> dget sec r = dget sec raw"
proof (induction os env raw rule: apply_overrides.induct)
  case (2 name sc key rest env raw)
  then show ?case by (auto simp: dget_def split: option.splits if_splits)
qed simp

lemma overrides_set:
  assumes "apply_overrides os env raw = Inr r" "(name, sec, key) \<in> set os" "distinct (map (fst \<circ> snd) os)"
    and "map_of env name = Some v" "v \<noteq> []"
  shows "\<exists>fs. dget sec r = JObj fs \<and> fs \<noteq> [] \<and> dget key fs = JStr v"
  using assms(1-3)
proof (induction os arbitrary: raw)
  case (Cons x os)
  obtain n s k where x: "x = (n, s, k)" by (cases x)
  show ?case
  proof (cases "(name, sec, key) = x")
    case True
    then obtain m where run: "apply_overrides os env (dset sec (JObj (dset key (JStr v) m)) raw) = Inr r"
      using Cons.prems(1) assms(4,5) by (auto simp: x)
    have "sec \<notin> fst ` snd ` set os" using Cons.prems(3) True by (force simp: x image_iff)
    then have "dget sec r = JObj (dset key (JStr v) m)" using overrides_keep [OF run] by (simp add: dget_def)
    moreover have "dset key (JStr v) m \<noteq> []" by (cases m) (auto split: if_splits)
    ultimately show ?thesis by (simp add: dget_def)
  next
    case False
    obtain raw' where "apply_overrides os env raw' = Inr r"
      using Cons.prems(1) by (auto simp: x split: option.splits if_splits)
    then show ?thesis using Cons.IH Cons.prems(2,3) False by auto
  qed
qed simp

lemma env_set:
  assumes "apply_env env raw = Inr r" "map_of env name = Some v" "v \<noteq> []" "(name, sec, key) \<in> set ENV_OVERRIDES"
  shows "\<exists>fs. cf_section sec r = Inr fs \<and> dget key fs = JStr v"
proof -
  have "distinct (map (fst \<circ> snd) ENV_OVERRIDES)" by (simp add: ENV_OVERRIDES_def)
  then obtain fs where "dget sec r = JObj fs" "fs \<noteq> []" "dget key fs = JStr v"
    using overrides_set [OF assms(1) [unfolded apply_env_def] assms(4) _ assms(2,3)] by blast
  then show ?thesis by (simp add: cf_section_def cf_dict_def interp_def or_dict_def)
qed

definition env_value :: "string pydict \<Rightarrow> string \<Rightarrow> string option" where
  "env_value env name = (case map_of env name of None \<Rightarrow> None | Some v \<Rightarrow> (if v = [] then None else Some v))"

lemma env_value_Some: "env_value env name = Some v \<longleftrightarrow> map_of env name = Some v \<and> v \<noteq> []"
  by (auto simp: env_value_def split: option.splits if_splits)

lemma credentials_built:
  "build_trino e fs raw = Inr t \<Longrightarrow>
     \<exists>pw. require raw ''trino'' ''password'' = Inr pw \<and> tf_password t = Secret (str_of (co_shown e) pw)"
  "build_portal e fs = Inr p \<Longrightarrow> pf_secret p = Secret (cf_text e ''session_secret'' [] fs)"
  "build_gateway e fs = Inr g \<Longrightarrow> gf_password g = Secret (cf_text e ''password'' [] fs)"
  by (auto simp: build_trino_def build_portal_def build_gateway_def Let_def)

lemma require_given:
  "cf_section sec raw = Inr fs \<Longrightarrow> dget key fs = JStr v \<Longrightarrow> require raw sec key = Inr x \<Longrightarrow> x = JStr v"
  by (auto simp: require_def Let_def split: if_splits)


end
