(* ===== verification/Spec2Isabelle.thy ===== *)
theory Spec2Isabelle
  imports SequenceRun SeqRepo ServiceSafety Auditing NodeProps Lockout Sessions HealthEngine
    GroupRules Schedules BenchGuard FleetService CatalogSafety ConfigEditSafety
    BenchRunner BenchCompare Units PollerProps StoreProps BenchSafety BenchViews NodeSafety CollectorProps GatewayProps BoardProps ActionProps QueryProps ConfigProps
begin

text \<open>
  Trino Management Service: a verification library.

  The program (Python, under \<^verbatim>\<open>src/src/tms\<close>) operates a fleet of Trino clusters behind a Gateway. A
  collector process polls the coordinators and stores snapshots; an API process answers operators from
  these snapshots and carries out what changes a cluster: restarts, playbooks, catalogs, configuration,
  resource groups, benchmarks. Every change needs an administrator, a reason and an audit record.

  The theories follow the modules. Paths below are relative to \<^verbatim>\<open>src/src/tms\<close>; a definition has the name of
  the function it models, with a suffix or prefix where that name was taken, and the same branches in
  the same order.

  \<^bold>\<open>Ground.\<close> \<open>Prelude\<close> holds dictionaries as lists of pairs in insertion order and folds that stop at the
  first error, \<open>PyText\<close> what the code uses of \<open>str\<close> and \<open>re\<close>, \<open>Json\<close> the values of decoded JSON and the
  Python operations on them (truth, \<open>get\<close>, \<open>int()\<close>), with their exceptions as values, \<open>Base64\<close> the two
  alphabets and UTF-8. \<open>Machines\<close> has the locales of stateful components: \<open>diagram\<close> (a transition
  relation that operations keep to) and \<open>append_only\<close> (a log that only grows).

  \<^bold>\<open>Restart.\<close> \<open>Sequence\<close> is the eight-state machine of \<^verbatim>\<open>ops/sequence.py\<close>; \<open>SequenceRun\<close> proves over runs of
  its operations that no step is skipped, that a restart needs a drain that was observed or forced, and
  that completion needs health GOOD. \<open>SeqRepo\<close> (\<^verbatim>\<open>ops/repository.py\<close>) stores sequences, with the refinement
  that a stored sequence reads back as itself under the locale \<open>durable_store\<close>. \<open>Executor\<close> is
  \<^verbatim>\<open>ops/executor.py\<close> and \<^verbatim>\<open>ops/ansible.py\<close>; \<open>RestartService\<close> (\<^verbatim>\<open>ops/service.py\<close>) composes them with the audit guard, the
  Gateway and the snapshots; \<open>ServiceProps\<close> proves triples for every request, \<open>ServiceSafety\<close> what a restart
  demands and where the service falls short of its comments.

  \<^bold>\<open>Audit and access.\<close> \<open>Auditing\<close> is \<^verbatim>\<open>core/audit.py\<close>: the reason, the guard that refuses when no record could
  be written, the record with the real outcome. \<open>AuditedService\<close> states its use as a locale,
  \<open>audited_service\<close>, interpreted by every service below; \<open>Access\<close> is \<^verbatim>\<open>api/permissions.py\<close> and \<^verbatim>\<open>api/errors.py\<close>;
  \<open>Passwords\<close> and \<open>Lockout\<close> are \<^verbatim>\<open>core/passwords.py\<close> and \<^verbatim>\<open>core/localauth.py\<close> with the bound on guesses over a whole
  history; \<open>Sessions\<close> is \<^verbatim>\<open>core/sessions.py\<close>. Key derivation, HMAC and the JSON codec are parameters.

  \<^bold>\<open>Observation.\<close> \<open>Circuit\<close> and \<open>TrinoClient\<close> (\<^verbatim>\<open>clients/\<close>) give a call with its retries and its breaker, the breaker
  equal to a reference over the history. \<open>Units\<close>, \<open>ResourceGroups\<close>, \<open>Poller\<close>, \<open>Snapshots\<close> (\<^verbatim>\<open>collector/\<close>) are the polls of
  one coordinator on their schedules; \<open>PollerProps\<close> shows that polling only reads (the locale
  \<open>kept_by_reads\<close>), that an unreachable coordinator costs its own snapshots only, and that the H-09
  verdict is the persistence of its condition. \<open>HealthTests\<close> and \<open>HealthEngine\<close> (\<^verbatim>\<open>health/\<close>) evaluate the nine
  tests and confirm transitions; \<open>HealthWriter\<close> stores the verdict with the sentence of every test. \<open>GatewayClient\<close> has
  the requests to the Gateway, and that a deletion is believed only when the list confirms it; \<open>GatewayPoller\<close> and
  \<open>FleetPoller\<close> poll the Gateway and the nodes. \<open>CollectorService\<close> (\<^verbatim>\<open>collector/main.py\<close>) is one pass over all of them;
  \<open>CollectorProps\<close> shows that clusters do not disturb each other, \<open>GatewayProps\<close> that the Gateway page and the
  health test speak of the same backends.

  \<^bold>\<open>Fleet.\<close> \<open>Inventory\<close>, \<open>Nodes\<close>, \<open>NodeProps\<close> (\<^verbatim>\<open>fleet/inventory.py\<close>, \<^verbatim>\<open>nodes.py\<close>, \<^verbatim>\<open>discovery.py\<close>, \<^verbatim>\<open>nodestore.py\<close>, \<^verbatim>\<open>importer.py\<close>):
  the rendered inventory reads back. \<open>NodeService\<close> (\<^verbatim>\<open>fleet/nodeservice.py\<close>) changes the list and renders it; \<open>NodeSafety\<close>
  shows that an answered change is in the file and that hosts leave only by a recorded removal. \<open>FleetJobs\<close>, \<open>FleetService\<close> (\<^verbatim>\<open>fleet/jobs.py\<close>, \<^verbatim>\<open>service.py\<close>): what a request puts on
  a command line, which host is shut down.

  \<^bold>\<open>Catalogs and configuration.\<close> \<open>DevFirst\<close> states the rule both follow, proved on a development cluster first,
  as the locale \<open>proved_first\<close>; \<open>Catalogs\<close>, \<open>CatalogService\<close>, \<open>CatalogSafety\<close> and \<open>ConfigEdit\<close>, \<open>ConfigEditService\<close>,
  \<open>ConfigEditSafety\<close> model \<^verbatim>\<open>ops/catalog*.py\<close> and \<^verbatim>\<open>ops/configedit*.py\<close> and interpret it, with the threads that deploy as
  steps of their own. \<open>PropertyFiles\<close> and \<open>ConfigScan\<close> (\<^verbatim>\<open>ops/configscan.py\<close>) parse, redact and compare.

  \<^bold>\<open>Resource groups.\<close> \<open>GroupRules\<close> (\<^verbatim>\<open>ops/resource_group_rules.py\<close>) is the validator, equal to the predicate \<open>tree_ok\<close>.
  \<open>StoreTables\<close> and \<open>ConfigStore\<close> (\<^verbatim>\<open>ops/config_store.py\<close>) have the tables with their cascading keys and every change as
  one transaction any stage of which may fail; \<open>StoreProps\<close> shows that a committed tree is valid, that a failed
  change changes nothing, that the list shown before a deletion is complete, and that paths follow parents.

  \<^bold>\<open>Benchmarks.\<close> \<open>QuerySet\<close> (the allowlist), \<open>BenchGuard\<close>, \<open>BenchRunner\<close>, \<open>BenchCompare\<close>, \<open>BenchTrend\<close>, \<open>Schedules\<close>, \<open>BenchStore\<close>,
  \<open>BenchService\<close>, \<open>BenchViews\<close> are the modules of \<^verbatim>\<open>bench/\<close>; \<open>BenchSafety\<close> takes any history of requests, ticks, thread ends
  and restarts as a list of events, shows each to be a sequence of moves, and proves over them that runs
  never overlap on a cluster, that runs and audit records correspond one to one, and that every run ends.

  \<^bold>\<open>The API.\<close> \<open>ServiceActions\<close> is what \<^verbatim>\<open>api/services.py\<close> changes: kills, health switches and thresholds, resource
  groups, the audit export; \<open>ActionProps\<close> shows that nothing is sent or changed without its record, and that a
  changed threshold has no effect on any verdict. \<open>DeepLinks\<close> (\<^verbatim>\<open>api/deeplinks.py\<close>) and \<open>QueryViews\<close> are the live query
  lists; \<open>QueryProps\<close> relates their counts to what the poller stored and shows what the merged list promises. \<open>Board\<close> and
  \<open>BoardProps\<close> (\<^verbatim>\<open>work/\<close>) are the work board and that it forgets nothing.

  \<^bold>\<open>Configuration.\<close> \<open>Config\<close> (\<^verbatim>\<open>core/config.py\<close>) merges two files and the environment and builds the configuration
  section by section; \<open>ConfigProps\<close> shows what an accepted one satisfies, that the environment wins for credentials,
  and what is accepted nevertheless.

  \<^bold>\<open>Conventions.\<close> An exception is a value of a sum type; a service operation takes the world and returns its result
  with the new world. What the outside decides (time, uuids, answers of a coordinator, outages of a store,
  results of a subprocess) is an argument. Floats are exact rationals, instants are integers or rationals.
  Strings are lists of characters below 256. Loops are structural recursions; \<open>drop_blocks\<close>, \<open>drop_lines\<close>,
  \<open>subtree\<close>, \<open>resolve\<close>, \<open>deep_merge\<close> and \<open>py_format\<close> have termination proofs by a measure, and \<open>closure\<close> takes as many rounds as there are rows,
  which is enough because a round that adds nothing changes nothing and every other adds a row.

  \<^bold>\<open>Not modelled.\<close> The Postgres repositories and migrations (SQL text; their contract is the in-memory
  repository's, their failures are outages), subprocesses and their pipes (\<^verbatim>\<open>ops/process.py\<close>), HTTP transport, FastAPI
  routes and the browser client, YAML loading, logging, and threads as such (a worker is one event at its
  end). Messages that only name values are constructors carrying these values.
\<close>

end
